(* ===== verification/Prelude.thy ===== *)
theory Prelude
  imports Main "HOL-Library.Word" "HOL-Library.Finite_Map"
begin

text \<open>
  Shared vocabulary of the development: the machine types of Go, times and durations, results of
  fallible calls, and the generic lemmas on lists, maps and finite sums that the component theories
  use.

  \<^item> \<open>time.Time\<close> is an \<open>int\<close>, the nanoseconds since the zero \<open>Time\<close>, so the zero value is 0 and
    \<open>IsZero\<close> is equality with 0.
  \<^item> \<open>time.Duration\<close> is an \<open>int\<close> of nanoseconds; \<open>time_sub\<close> saturates at the range of \<open>int64\<close>
    as \<open>Time.Sub\<close> does.
  \<^item> a panic of the Go runtime is the value \<^term>\<open>None\<close> of an option result, an \<open>error\<close> return is a
    value (\<open>err option\<close>, or \<open>Inl\<close> of a sum).
\<close>

named_theorems panic_free \<open>facts that an operation does not panic\<close>
named_theorems inv_rules \<open>preservation of a component invariant by one of its operations\<close>

section \<open>Machine types\<close>

type_synonym uint8 = "8 word"
type_synonym uint16 = "16 word"
type_synonym uint32 = "32 word"
type_synonym uint64 = "64 word"
type_synonym int64 = "64 word" \<comment> \<open>read with \<^const>\<open>sint\<close>\<close>
type_synonym bytes = "8 word list"

section \<open>Times and durations\<close>

type_synonym gotime = int
type_synonym duration = int

definition nanosecond :: duration where "nanosecond = 1"
definition millisecond :: duration where "millisecond = 1000000"
definition second :: duration where "second = 1000000000"
definition minute :: duration where "minute = 60 * second"
definition hour :: duration where "hour = 60 * minute"

lemmas duration_defs = hour_def minute_def second_def nanosecond_def

definition max_duration :: duration where "max_duration = 2 ^ 63 - 1"
definition min_duration :: duration where "min_duration = - (2 ^ 63)"

text \<open>\<open>t.Sub(u)\<close>: the difference, saturated to the range of a duration.\<close>

definition time_sub :: "gotime \<Rightarrow> gotime \<Rightarrow> duration" where
  "time_sub t u = max min_duration (min max_duration (t - u))"

lemma time_sub_exact:
  "min_duration \<le> t - u \<Longrightarrow> t - u \<le> max_duration \<Longrightarrow> time_sub t u = t - u"
  by (simp add: time_sub_def)

lemma time_sub_le_iff: "d < max_duration \<Longrightarrow> min_duration \<le> d \<Longrightarrow> time_sub t u \<le> d \<longleftrightarrow> t - u \<le> d"
  by (auto simp: time_sub_def)

lemma time_sub_ge_iff: "d \<le> max_duration \<Longrightarrow> min_duration < d \<Longrightarrow> d \<le> time_sub t u \<longleftrightarrow> d \<le> t - u"
  by (auto simp: time_sub_def)

section \<open>Finite maps\<close>

text \<open>
  A Go \<open>map\<close> that the code ranges over is a finite map (\<open>fmap\<close>); where the order of a \<open>range\<close>
  matters to no result it is taken in the order of the keys (\<^const>\<open>sorted_list_of_fmap\<close>).
  \<open>fm_sum\<close> adds a quantity over the entries; the lemmas say how it changes with one entry.
\<close>

definition fm_sum :: "('v \<Rightarrow> int) \<Rightarrow> ('k, 'v) fmap \<Rightarrow> int" where
  "fm_sum f m = (\<Sum>k\<in>fset (fmdom m). f (the (fmlookup m k)))"

lemma fm_sum_empty [simp]: "fm_sum f fmempty = 0"
  by (simp add: fm_sum_def)

lemma fmdom_Some: "fmlookup m k = Some v \<Longrightarrow> k \<in> fset (fmdom m)"
  by (simp add: fmlookup_dom_iff)

lemma fm_sum_drop:
  assumes "fmlookup m k = Some v"
  shows "fm_sum f (fmdrop k m) = fm_sum f m - f v"
proof -
  have "fm_sum f m = f v + (\<Sum>i\<in>fset (fmdom m) - {k}. f (the (fmlookup m i)))"
    using assms fmdom_Some [OF assms] by (simp add: fm_sum_def sum.remove [of _ k])
  moreover have "fm_sum f (fmdrop k m) = (\<Sum>i\<in>fset (fmdom m) - {k}. f (the (fmlookup m i)))"
    unfolding fm_sum_def by (rule sum.cong) auto
  ultimately show ?thesis by simp
qed

lemma fm_sum_insert:
  assumes "fmlookup m k = None"
  shows "fm_sum f (fmupd k v m) = fm_sum f m + f v"
proof -
  have k: "k \<notin> fset (fmdom m)" using assms by (simp add: fmlookup_dom_iff)
  then have "fm_sum f (fmupd k v m) = f v + (\<Sum>i\<in>fset (fmdom m). f (the (fmlookup (fmupd k v m) i)))"
    by (simp add: fm_sum_def)
  also have "(\<Sum>i\<in>fset (fmdom m). f (the (fmlookup (fmupd k v m) i))) = fm_sum f m"
    unfolding fm_sum_def using k by (intro sum.cong) auto
  finally show ?thesis by simp
qed

lemma fm_sum_update:
  assumes "fmlookup m k = Some u"
  shows "fm_sum f (fmupd k v m) = fm_sum f m - f u + f v"
proof -
  have "fm_sum f (fmupd k v (fmdrop k m)) = fm_sum f (fmdrop k m) + f v"
    by (rule fm_sum_insert) simp
  moreover have "fmupd k v (fmdrop k m) = fmupd k v m"
    by (rule fmap_ext) simp
  ultimately show ?thesis using fm_sum_drop [OF assms, of f] by simp
qed

lemma fm_sum_cong:
  "(\<And>k v. fmlookup m k = Some v \<Longrightarrow> f v = g v) \<Longrightarrow> fm_sum f m = fm_sum g m"
  unfolding fm_sum_def by (rule sum.cong) (auto simp: fmlookup_dom_iff)

lemma fm_sum_nonneg: "(\<And>k v. fmlookup m k = Some v \<Longrightarrow> 0 \<le> f v) \<Longrightarrow> 0 \<le> fm_sum f m"
  unfolding fm_sum_def by (rule sum_nonneg) (auto simp: fmlookup_dom_iff)

lemma fm_sum_ge_entry:
  assumes "fmlookup m k = Some v" and "\<And>i w. fmlookup m i = Some w \<Longrightarrow> 0 \<le> f w"
  shows "f v \<le> fm_sum f m"
proof -
  have "0 \<le> fm_sum f (fmdrop k m)"
    using assms(2) by (intro fm_sum_nonneg) (auto split: if_splits)
  then show ?thesis using fm_sum_drop [OF assms(1), of f] by simp
qed

lemma fm_sum_add: "fm_sum (\<lambda>v. f v + g v) m = fm_sum f m + fm_sum g m"
  by (simp add: fm_sum_def sum.distrib)

lemma fm_sum_one [simp]: "fm_sum (\<lambda>_. 1) m = int (fcard (fmdom m))"
  by (simp add: fm_sum_def fcard.rep_eq)

section \<open>Words\<close>

lemma sint_add_exact:
  fixes a b :: "'a::len word"
  assumes "- (2 ^ (LENGTH('a) - 1)) \<le> sint a + sint b"
    and "sint a + sint b < 2 ^ (LENGTH('a) - 1)"
  shows "sint (a + b) = sint a + sint b"
  using assms by (simp add: sint_word_ariths signed_take_bit_int_eq_self)

lemma sint_of_nat_exact:
  assumes "int n < 2 ^ (LENGTH('a::len) - 1)"
  shows "sint (word_of_nat n :: 'a word) = int n"
proof -
  have "(0::int) \<le> int n" by simp
  then have "- (2 ^ (LENGTH('a) - 1)) \<le> int n"
    using zero_le_power [of "2::int" "LENGTH('a) - 1"] by linarith
  with assms have "signed_take_bit (LENGTH('a) - 1) (int n) = int n"
    by (simp add: signed_take_bit_int_eq_self)
  then show ?thesis
    by (simp add: signed_of_nat)
qed

text \<open>Big-endian numbers in \<open>n\<close> bytes, as \<open>binary.BigEndian\<close> writes and reads them.\<close>

fun be_bytes :: "nat \<Rightarrow> nat \<Rightarrow> bytes" where
  "be_bytes 0 v = []"
| "be_bytes (Suc n) v = be_bytes n (v div 256) @ [word_of_nat (v mod 256)]"

definition be_value :: "bytes \<Rightarrow> nat" where
  "be_value bs = foldl (\<lambda>a b. a * 256 + unat b) 0 bs"

lemma length_be_bytes [simp]: "length (be_bytes n v) = n"
  by (induction n arbitrary: v) auto

lemma be_value_bytes: "be_value (be_bytes n v) = v mod 256 ^ n"
proof (induction n arbitrary: v)
  case 0
  then show ?case by (simp add: be_value_def)
next
  case (Suc n)
  have "unat (word_of_nat (v mod 256) :: 8 word) = v mod 256"
    by (simp add: unat_of_nat)
  then show ?case
    using Suc.IH [of "v div 256"] by (simp add: be_value_def mod_mult2_eq)
qed

lemma be_value_word:
  fixes w :: "'a::len word"
  assumes "LENGTH('a) = 8 * n"
  shows "word_of_nat (be_value (be_bytes n (unat w))) = w"
proof -
  have "(256::nat) ^ n = 2 ^ LENGTH('a)" using assms by (simp add: power_mult)
  then have "unat w mod 256 ^ n = unat w" using unsigned_less [of w] by simp
  then show ?thesis by (simp add: be_value_bytes)
qed

section \<open>Lists\<close>

lemma last_in_set_if [simp]: "xs \<noteq> [] \<Longrightarrow> last xs \<in> set xs"
  by (rule last_in_set)

text \<open>Appending the members of \<open>ys\<close> that are not yet in \<open>xs\<close>, in order, each once: the loop behind
  every \<open>seen\<close>-map of the sources.\<close>

fun dedup_into :: "('a \<Rightarrow> 'b) \<Rightarrow> 'b set \<Rightarrow> 'a list \<Rightarrow> 'a list" where
  "dedup_into f seen [] = []"
| "dedup_into f seen (x # xs) =
     (if f x \<in> seen then dedup_into f seen xs
      else x # dedup_into f (insert (f x) seen) xs)"

lemma dedup_into_image: "f ` set (dedup_into f seen xs) = f ` set xs - seen"
  by (induction xs arbitrary: seen) auto

lemma dedup_into_subset: "set (dedup_into f seen xs) \<subseteq> set xs"
proof (induction xs arbitrary: seen)
  case Nil
  then show ?case by simp
next
  case (Cons x xs)
  from Cons.IH [of seen] Cons.IH [of "insert (f x) seen"] show ?case by auto
qed

lemma dedup_into_distinct: "distinct (map f (dedup_into f seen xs))"
proof (induction xs arbitrary: seen)
  case Nil
  then show ?case by simp
next
  case (Cons x xs)
  have "f x \<notin> f ` set (dedup_into f (insert (f x) seen) xs)"
    by (simp add: dedup_into_image)
  then show ?case using Cons.IH by auto
qed

lemma dedup_into_id: "distinct (map f xs) \<Longrightarrow> f ` set xs \<inter> seen = {} \<Longrightarrow> dedup_into f seen xs = xs"
  by (induction xs arbitrary: seen) auto

end
