(* ===== verification/ClientSet.thy ===== *)
theory ClientSet
  imports Prelude
begin

text \<open>
  The set of connections of one node key, \<open>clientSet\<close> and \<open>dupClientSet\<close> of
  \<^verbatim>\<open>internal/derpserver/derpserver.go\<close>. An \<open>*sclient\<close> is represented by its \<open>connNum\<close>, the
  process-wide accept counter (\<open>sptr\<close>); the fields of the object behind it live in the store of
  the server (theory \<open>DerpServer\<close>), so \<open>pickActiveClient\<close> takes the \<open>isDisabled\<close> flags as an
  argument.
\<close>

type_synonym sptr = int

record dupClientSet =
  dc_set :: "sptr fset"
  dc_last :: "sptr option"
  dc_sendHistory :: "sptr list"

record clientSet =
  cs_activeClient :: "sptr option"
  cs_dup :: "dupClientSet option"

definition new_clientSet :: clientSet where
  "new_clientSet = \<lparr>cs_activeClient = None, cs_dup = None\<rparr>"

definition clientSet_Len :: "clientSet \<Rightarrow> nat" where
  "clientSet_Len s =
     (case cs_dup s of
        Some d \<Rightarrow> fcard (dc_set d)
      | None \<Rightarrow> (case cs_activeClient s of Some _ \<Rightarrow> 1 | None \<Rightarrow> 0))"

text \<open>The clients \<open>ForeachClient\<close> calls its argument on.\<close>

definition ForeachClient :: "clientSet \<Rightarrow> sptr fset" where
  "ForeachClient s =
     (case cs_dup s of
        Some d \<Rightarrow> dc_set d
      | None \<Rightarrow> (case cs_activeClient s of Some c \<Rightarrow> {|c|} | None \<Rightarrow> {||}))"

definition pickActiveClient :: "(sptr \<Rightarrow> bool) \<Rightarrow> clientSet \<Rightarrow> sptr option" where
  "pickActiveClient isDisabled s =
     (case cs_dup s of
        None \<Rightarrow> cs_activeClient s
      | Some d \<Rightarrow>
          (case dc_last d of
             Some c \<Rightarrow> if \<not> isDisabled c then Some c else None
           | None \<Rightarrow> None))"

text \<open>The loop of \<open>removeClient\<close> that rebuilds \<open>sendHistory\<close> in place: \<open>trim\<close> is the part kept
  so far.\<close>

fun trimHistory :: "sptr fset \<Rightarrow> sptr list \<Rightarrow> sptr list \<Rightarrow> sptr list" where
  "trimHistory members trim [] = trim"
| "trimHistory members trim (v # vs) =
     (if v |\<in>| members \<and> (trim = [] \<or> last trim \<noteq> v)
      then trimHistory members (trim @ [v]) vs
      else trimHistory members trim vs)"

definition removeClient :: "sptr \<Rightarrow> dupClientSet \<Rightarrow> bool \<times> dupClientSet" where
  "removeClient c s =
     (let n = fcard (dc_set s);
          set' = dc_set s |-| {|c|};
          last' = (if dc_last s = Some c then None else dc_last s)
      in if fcard set' = n then (False, s\<lparr>dc_set := set', dc_last := last'\<rparr>)
         else (let trim = trimHistory set' [] (dc_sendHistory s);
                   last'' = (if last' = None \<and> trim \<noteq> [] then Some (last trim) else last')
               in (True, s\<lparr>dc_set := set', dc_last := last'', dc_sendHistory := trim\<rparr>)))"

section \<open>The history loop against its specification\<close>

text \<open>What the loop computes: the history restricted to the members, without adjacent repetitions.\<close>

lemma trimHistory_snoc:
  "trim \<noteq> [] \<Longrightarrow>
   trimHistory members trim vs = butlast trim @ remdups_adj (last trim # filter (\<lambda>v. v |\<in>| members) vs)"
proof (induction vs arbitrary: trim)
  case Nil
  then show ?case by simp
next
  case (Cons v vs)
  then show ?case
    using Cons.IH [of trim] Cons.IH [of "trim @ [v]"] by auto
qed

lemma trimHistory_spec: "trimHistory members [] vs = remdups_adj (filter (\<lambda>v. v |\<in>| members) vs)"
  by (induction vs) (auto simp: trimHistory_snoc)

lemma set_trimHistory [simp]: "set (trimHistory members [] vs) = set vs \<inter> fset members"
  by (auto simp: trimHistory_spec)

section \<open>Well-formed client sets\<close>

text \<open>
  A single client (no \<open>dup\<close>) is active; a \<open>dup\<close> has at least two members and its active client,
  its \<open>last\<close> and its history are among them.
\<close>

definition dup_wf :: "sptr option \<Rightarrow> dupClientSet \<Rightarrow> bool" where
  "dup_wf act d \<longleftrightarrow> 2 \<le> fcard (dc_set d) \<and> (\<forall>c. act = Some c \<longrightarrow> c |\<in>| dc_set d) \<and>
     (\<forall>c. dc_last d = Some c \<longrightarrow> c |\<in>| dc_set d) \<and> set (dc_sendHistory d) \<subseteq> fset (dc_set d)"

definition clientSet_wf :: "clientSet \<Rightarrow> bool" where
  "clientSet_wf s \<longleftrightarrow>
     (case cs_dup s of None \<Rightarrow> cs_activeClient s \<noteq> None | Some d \<Rightarrow> dup_wf (cs_activeClient s) d)"

text \<open>
  Under the policy \<open>lastWriterIsActive\<close> the active client is \<open>last\<close>, and all members but at most one
  (the connection that made the set a dup) are in the history; so a member that leaves always has
  a successor.
\<close>

definition dup_live :: "sptr option \<Rightarrow> dupClientSet \<Rightarrow> bool" where
  "dup_live act d \<longleftrightarrow> act \<noteq> None \<and> dc_last d = act \<and>
     card (fset (dc_set d) - set (dc_sendHistory d)) \<le> 1"

lemma ForeachClient_Len: "fcard (ForeachClient s) = clientSet_Len s"
  by (simp add: ForeachClient_def clientSet_Len_def fcard.rep_eq split: option.splits)

lemma clientSet_wf_nonempty: "clientSet_wf s \<Longrightarrow> 0 < clientSet_Len s"
  by (auto simp: clientSet_wf_def clientSet_Len_def dup_wf_def split: option.splits)

lemma active_member: "clientSet_wf s \<Longrightarrow> cs_activeClient s = Some c \<Longrightarrow> c |\<in>| ForeachClient s"
  by (auto simp: clientSet_wf_def ForeachClient_def dup_wf_def split: option.splits)

section \<open>Removing a member\<close>

lemma fcard_remove: "c |\<in>| A \<Longrightarrow> Suc (fcard (A |-| {|c|})) = fcard A"
  by (simp add: fcard.rep_eq) (metis Suc_pred card_gt_0_iff empty_iff finite_fset)

lemma removeClient_member:
  assumes "c |\<in>| dc_set d"
  shows "removeClient c d =
    (let trim = trimHistory (dc_set d |-| {|c|}) [] (dc_sendHistory d)
     in (True, d\<lparr>dc_set := dc_set d |-| {|c|},
                dc_last := (if dc_last d = Some c then (if trim = [] then None else Some (last trim))
                            else if dc_last d = None \<and> trim \<noteq> [] then Some (last trim) else dc_last d),
                dc_sendHistory := trim\<rparr>))"
  using fcard_remove [OF assms] by (auto simp: removeClient_def Let_def)

lemma removeClient_nonmember:
  assumes "c |\<notin>| dc_set d"
  shows "fst (removeClient c d) = False \<and> dc_set (snd (removeClient c d)) = dc_set d"
proof -
  have "dc_set d |-| {|c|} = dc_set d" using assms by auto
  then show ?thesis by (simp add: removeClient_def Let_def)
qed

lemma removeClient_set [simp]: "dc_set (snd (removeClient c d)) = dc_set d |-| {|c|}"
  by (simp add: removeClient_def Let_def)

lemma removeClient_dup_wf:
  assumes "dup_wf act d" and "c |\<in>| dc_set d" and "2 \<le> fcard (dc_set d |-| {|c|})"
    and "act' = pickActiveClient dis \<lparr>cs_activeClient = a, cs_dup = Some (snd (removeClient c d))\<rparr>"
  shows "dup_wf act' (snd (removeClient c d))"
proof -
  have last: "last (trimHistory (dc_set d |-| {|c|}) [] (dc_sendHistory d)) |\<in>| dc_set d |-| {|c|}"
    if "trimHistory (dc_set d |-| {|c|}) [] (dc_sendHistory d) \<noteq> []"
    using last_in_set [OF that] by simp
  show ?thesis
    using assms last
    by (auto simp: dup_wf_def removeClient_member Let_def pickActiveClient_def split: if_splits option.splits)
qed

lemma removeClient_dup_live:
  assumes live: "dup_live act d" and wf: "dup_wf act d" and c: "c |\<in>| dc_set d"
    and two: "2 \<le> fcard (dc_set d |-| {|c|})" and dis: "\<And>x. x |\<in>| dc_set d \<Longrightarrow> \<not> dis x"
    and act': "act' = pickActiveClient dis \<lparr>cs_activeClient = a, cs_dup = Some (snd (removeClient c d))\<rparr>"
  shows "dup_live act' (snd (removeClient c d))"
proof -
  let ?S = "dc_set d |-| {|c|}" and ?h = "trimHistory (dc_set d |-| {|c|}) [] (dc_sendHistory d)"
  have out: "fset ?S - set ?h = (fset (dc_set d) - set (dc_sendHistory d)) - {c}" by auto
  have "card (fset ?S - set ?h) \<le> card (fset (dc_set d) - set (dc_sendHistory d))"
    unfolding out by (intro card_mono) auto
  then have le: "card (fset ?S - set ?h) \<le> 1"
    using live unfolding dup_live_def by linarith
  have "?h \<noteq> []"
  proof
    assume "?h = []"
    then have "card (fset ?S) \<le> 1" using le by simp
    then show False using two by (simp add: fcard.rep_eq)
  qed
  let ?d = "snd (removeClient c d)"
  have h: "dc_sendHistory ?d = ?h"
    by (simp add: removeClient_member [OF c] Let_def)
  obtain x where x: "dc_last ?d = Some x" and "x |\<in>| dc_set d"
  proof (cases "dc_last d = Some c")
    case True
    with \<open>?h \<noteq> []\<close> have "dc_last ?d = Some (last ?h)"
      by (simp add: removeClient_member [OF c] Let_def)
    moreover have "last ?h |\<in>| dc_set d" using last_in_set [OF \<open>?h \<noteq> []\<close>] by simp
    ultimately show thesis by (rule that)
  next
    case False
    from live obtain y where y: "dc_last d = Some y" by (auto simp: dup_live_def)
    with False have "dc_last ?d = Some y"
      by (simp add: removeClient_member [OF c] Let_def)
    moreover from wf y have "y |\<in>| dc_set d" by (simp add: dup_wf_def)
    ultimately show thesis by (rule that)
  qed
  then have "act' = Some x" using dis by (simp add: act' pickActiveClient_def)
  with x le show ?thesis by (simp add: dup_live_def h)
qed

end
