(* ===== verification/Forwarder.thy ===== *)
theory Forwarder
  imports Prelude
begin

text \<open>
  The mesh forwarders of one destination key: \<open>PacketForwarder\<close> and \<open>multiForwarder\<close> of
  \<^verbatim>\<open>internal/derpserver/derpserver.go\<close>, and the part of \<open>AddPacketForwarder\<close> and
  \<open>RemovePacketForwarder\<close> that computes the new entry of \<open>clientsMesh\<close>.

  A forwarder other than a \<open>multiForwarder\<close> is an opaque comparable value (\<open>fwd_id\<close>). The map
  \<open>all\<close> is kept as the list of its entries in the order they were added; Go ranges over it in an
  unspecified order, which matters only when two entries have the same number.
  An entry of \<open>clientsMesh\<close> is \<^term>\<open>None\<close> when the key is absent, \<^term>\<open>Some None\<close> for the value
  \<open>nil\<close> (the peer is only local).
\<close>

type_synonym fwd_id = nat

record multiForwarder =
  mf_fwd :: fwd_id
  mf_all :: "(fwd_id \<times> uint8) list"

datatype PacketForwarder = PlainForwarder fwd_id | MultiForwarder multiForwarder

type_synonym mesh_entry = "PacketForwarder option option"

text \<open>The call with two forwarders that the server makes.\<close>

definition newMultiForwarder :: "fwd_id \<Rightarrow> fwd_id \<Rightarrow> multiForwarder" where
  "newMultiForwarder fwd0 fwd1 = \<lparr>mf_fwd = fwd0, mf_all = [(fwd0, 0), (fwd1, 1)]\<rparr>"

fun max_number :: "uint8 \<Rightarrow> (fwd_id \<times> uint8) list \<Rightarrow> uint8" where
  "max_number m [] = m"
| "max_number m ((_, v) # xs) = max_number (if v > m then v else m) xs"

definition mf_add :: "fwd_id \<Rightarrow> multiForwarder \<Rightarrow> multiForwarder" where
  "mf_add fwd f = f\<lparr>mf_all := mf_all f @ [(fwd, max_number 0 (mf_all f) + 1)]\<rparr>"

fun lowest_forwarder :: "(fwd_id \<times> uint8) option \<Rightarrow> (fwd_id \<times> uint8) list \<Rightarrow> (fwd_id \<times> uint8) option" where
  "lowest_forwarder l [] = l"
| "lowest_forwarder l ((k, v) # xs) =
     lowest_forwarder (case l of None \<Rightarrow> Some (k, v)
                       | Some (k', v') \<Rightarrow> if v < v' then Some (k, v) else Some (k', v')) xs"

text \<open>\<open>deleteLocked\<close>: the remaining forwarder when only one is left, and the new state.\<close>

definition deleteLocked :: "fwd_id \<Rightarrow> multiForwarder \<Rightarrow> fwd_id option \<times> multiForwarder" where
  "deleteLocked fwd f =
     (let all' = filter (\<lambda>(k, _). k \<noteq> fwd) (mf_all f);
          fwd' = (if fwd = mf_fwd f
                  then (case lowest_forwarder None all' of Some (k, _) \<Rightarrow> k | None \<Rightarrow> mf_fwd f)
                  else mf_fwd f);
          f' = f\<lparr>mf_all := all', mf_fwd := fwd'\<rparr>
      in (case all' of [(k, _)] \<Rightarrow> (Some k, f') | _ \<Rightarrow> (None, f')))"

text \<open>The new entry after \<open>AddPacketForwarder\<close>, and whether a \<open>multiForwarder\<close> was created.\<close>

definition add_entry :: "fwd_id \<Rightarrow> mesh_entry \<Rightarrow> mesh_entry \<times> bool" where
  "add_entry fwd e =
     (case e of
        Some (Some prev) \<Rightarrow>
          (if prev = PlainForwarder fwd then (e, False)
           else (case prev of
                   MultiForwarder m \<Rightarrow>
                     (if fwd \<in> fst ` set (mf_all m) then (e, False)
                      else (Some (Some (MultiForwarder (mf_add fwd m))), False))
                 | PlainForwarder p \<Rightarrow> (Some (Some (MultiForwarder (newMultiForwarder p fwd))), True)))
      | _ \<Rightarrow> (Some (Some (PlainForwarder fwd)), False))"

text \<open>
  The cases of \<open>RemovePacketForwarder\<close>: nothing registered for the key, an entry that stays (with
  the new value), a \<open>multiForwarder\<close> collapsed to the remaining forwarder, another forwarder than
  the one registered, the registered one removed, and the panic on a set of fewer than two.
\<close>

datatype remove_outcome =
    RemoveAbsent
  | RemoveKept PacketForwarder
  | RemoveCollapsed fwd_id
  | RemoveOther
  | RemoveGone
  | RemovePanic

definition remove_entry :: "fwd_id \<Rightarrow> mesh_entry \<Rightarrow> remove_outcome" where
  "remove_entry fwd e =
     (case e of
        None \<Rightarrow> RemoveAbsent
      | Some (Some (MultiForwarder m)) \<Rightarrow>
          (if length (mf_all m) < 2 then RemovePanic
           else (case deleteLocked fwd m of
                   (Some remain, _) \<Rightarrow> RemoveCollapsed remain
                 | (None, m') \<Rightarrow> RemoveKept (MultiForwarder m')))
      | Some v \<Rightarrow> (if v \<noteq> Some (PlainForwarder fwd) then RemoveOther else RemoveGone))"

text \<open>The forwarder a packet goes to: \<open>ForwardPacket\<close> of a \<open>multiForwarder\<close> uses its preferred one.\<close>

fun forward_target :: "PacketForwarder \<Rightarrow> fwd_id" where
  "forward_target (PlainForwarder f) = f"
| "forward_target (MultiForwarder m) = mf_fwd m"

section \<open>Abstraction: the forwarders of a key, oldest first\<close>

fun fwds :: "mesh_entry \<Rightarrow> fwd_id list" where
  "fwds (Some (Some (PlainForwarder f))) = [f]"
| "fwds (Some (Some (MultiForwarder m))) = map fst (mf_all m)"
| "fwds _ = []"

text \<open>
  Numbers strictly increase in the order of registration, no forwarder occurs twice, a set has at
  least two members, and the preferred forwarder is the oldest.
\<close>

definition mf_wf :: "multiForwarder \<Rightarrow> bool" where
  "mf_wf m \<longleftrightarrow> 2 \<le> length (mf_all m) \<and> distinct (map fst (mf_all m)) \<and>
     sorted_wrt (<) (map snd (mf_all m)) \<and> mf_fwd m = fst (hd (mf_all m))"

fun entry_wf :: "mesh_entry \<Rightarrow> bool" where
  "entry_wf (Some (Some (MultiForwarder m))) = mf_wf m"
| "entry_wf _ = True"

text \<open>Room for one more number: the largest one in use is not 255.\<close>

fun entry_room :: "mesh_entry \<Rightarrow> bool" where
  "entry_room (Some (Some (MultiForwarder m))) = (max_number 0 (mf_all m) < 255)"
| "entry_room _ = True"

text \<open>The entry \<open>RemovePacketForwarder\<close> leaves behind, \<open>isLocal\<close> telling whether the key has a local
  client.\<close>

definition removed_entry :: "bool \<Rightarrow> fwd_id \<Rightarrow> mesh_entry \<Rightarrow> mesh_entry" where
  "removed_entry isLocal fwd e =
     (case remove_entry fwd e of
        RemoveKept v \<Rightarrow> Some (Some v)
      | RemoveCollapsed r \<Rightarrow> Some (Some (PlainForwarder r))
      | RemoveGone \<Rightarrow> (if isLocal then Some None else None)
      | _ \<Rightarrow> e)"

section \<open>Numbers\<close>

lemma max_number_ge: "m \<le> max_number m xs"
  by (induction m xs rule: max_number.induct) (auto intro: order_trans)

lemma max_number_mono: "x \<in> snd ` set xs \<Longrightarrow> x \<le> max_number m xs"
proof (induction m xs rule: max_number.induct)
  case (2 m k v xs)
  show ?case
  proof (cases "x = v")
    case True
    then have "x \<le> (if v > m then v else m)" by auto
    also have "\<dots> \<le> max_number (if v > m then v else m) xs" by (rule max_number_ge)
    finally show ?thesis by simp
  next
    case False
    with "2.prems" "2.IH" show ?thesis by simp
  qed
qed simp

lemma max_number_mem: "max_number m xs = m \<or> max_number m xs \<in> snd ` set xs"
  by (induction m xs rule: max_number.induct) (auto split: if_splits)

lemma lowest_forwarder_sorted:
  "sorted_wrt (<) (map snd ((k, v) # xs)) \<Longrightarrow> lowest_forwarder (Some (k, v)) xs = Some (k, v)"
  by (induction xs arbitrary: k v) (auto simp: not_less_iff_gr_or_eq)

lemma lowest_forwarder_hd:
  "sorted_wrt (<) (map snd xs) \<Longrightarrow> lowest_forwarder None xs = (case xs of [] \<Rightarrow> None | x # _ \<Rightarrow> Some x)"
  by (cases xs) (auto simp: lowest_forwarder_sorted split: prod.splits)

lemma less_max_plus_one:
  fixes x m :: uint8
  assumes "x \<le> m" and "m < 255"
  shows "x < m + 1"
proof -
  have "unat (m + 1) = unat m + 1"
    using assms(2) by (simp add: unat_word_ariths word_less_nat_alt)
  with assms(1) show ?thesis by (simp add: word_less_nat_alt word_le_nat_alt)
qed

lemma mf_wf_new: "f \<noteq> g \<Longrightarrow> mf_wf (newMultiForwarder f g)"
  by (simp add: mf_wf_def newMultiForwarder_def)

lemma mf_wf_add:
  assumes wf: "mf_wf m" and new: "f \<notin> fst ` set (mf_all m)" and room: "max_number 0 (mf_all m) < 255"
  shows "mf_wf (mf_add f m)"
proof -
  have "x < max_number 0 (mf_all m) + 1" if "x \<in> snd ` set (mf_all m)" for x
    using less_max_plus_one [OF max_number_mono [OF that] room] .
  then show ?thesis
    using wf new by (auto simp: mf_wf_def mf_add_def sorted_wrt_append hd_append)
qed

lemma deleteLocked_spec:
  fixes f :: fwd_id
  assumes wf: "mf_wf m"
  defines "rest \<equiv> filter (\<lambda>(k, _). k \<noteq> f) (mf_all m)"
  shows "deleteLocked f m = (case rest of [(k, _)] \<Rightarrow> Some k | _ \<Rightarrow> None, m\<lparr>mf_all := rest, mf_fwd := fst (hd rest)\<rparr>)"
    and "map fst rest = remove1 f (map fst (mf_all m))"
    and "rest \<noteq> []"
    and "length rest \<noteq> 1 \<Longrightarrow> mf_wf (m\<lparr>mf_all := rest, mf_fwd := fst (hd rest)\<rparr>)"
proof -
  from wf have dist: "distinct (map fst (mf_all m))" and srt: "sorted_wrt (<) (map snd (mf_all m))"
    and two: "2 \<le> length (mf_all m)" and pref: "mf_fwd m = fst (hd (mf_all m))"
    by (auto simp: mf_wf_def)
  have rest_map: "map fst rest = filter (\<lambda>k. k \<noteq> f) (map fst (mf_all m))"
    by (simp add: rest_def filter_map comp_def case_prod_unfold)
  show rm: "map fst rest = remove1 f (map fst (mf_all m))"
    using dist by (simp add: rest_map distinct_remove1_removeAll removeAll_filter_not_eq)
      (metis (mono_tags, lifting) filter_cong)
  have srt': "sorted_wrt (<) (map snd rest)"
    using srt by (simp add: rest_def sorted_wrt_map sorted_wrt_filter)
  show ne: "rest \<noteq> []"
  proof
    assume "rest = []"
    then have "length (remove1 f (map fst (mf_all m))) = 0" using rm by (metis length_0_conv map_is_Nil_conv)
    with two show False by (auto simp: length_remove1 split: if_splits)
  qed
  have hd_keep: "fst (hd rest) = mf_fwd m" if "f \<noteq> mf_fwd m"
    using that two pref by (cases "mf_all m") (auto simp: rest_def case_prod_beta)
  show "deleteLocked f m = (case rest of [(k, _)] \<Rightarrow> Some k | _ \<Rightarrow> None, m\<lparr>mf_all := rest, mf_fwd := fst (hd rest)\<rparr>)"
    using ne hd_keep unfolding deleteLocked_def rest_def [symmetric] Let_def lowest_forwarder_hd [OF srt']
    by (auto split: list.splits prod.splits)
  show "mf_wf (m\<lparr>mf_all := rest, mf_fwd := fst (hd rest)\<rparr>)" if "length rest \<noteq> 1"
  proof -
    from ne that have "2 \<le> length rest" by (cases rest; cases "tl rest") auto
    moreover have "distinct (map fst rest)" using dist by (simp add: rm)
    ultimately show ?thesis using srt' by (simp add: mf_wf_def)
  qed
qed

section \<open>Entries of \<open>clientsMesh\<close>\<close>

lemma fwds_add:
  "entry_wf e \<Longrightarrow> fwds (fst (add_entry f e)) = (if f \<in> set (fwds e) then fwds e else fwds e @ [f])"
  by (auto simp: add_entry_def mf_add_def newMultiForwarder_def split: option.splits PacketForwarder.splits)

lemma entry_wf_add: "entry_wf e \<Longrightarrow> entry_room e \<Longrightarrow> entry_wf (fst (add_entry f e))"
  by (auto simp: add_entry_def mf_wf_add mf_wf_new split: option.splits PacketForwarder.splits)

lemma add_entry_present: "\<exists>v. fst (add_entry f e) = Some (Some v)"
  by (auto simp: add_entry_def split: option.splits PacketForwarder.splits)

lemma length_one_case: "(case xs of [(k, _)] \<Rightarrow> Some k | _ \<Rightarrow> None) = None \<longleftrightarrow> length xs \<noteq> 1"
  by (auto split: list.splits)

lemma remove_entry_multi:
  fixes f :: fwd_id
  assumes wf: "mf_wf m"
  defines "rest \<equiv> filter (\<lambda>(k, _). k \<noteq> f) (mf_all m)"
  shows "remove_entry f (Some (Some (MultiForwarder m))) =
    (if length rest = 1 then RemoveCollapsed (fst (hd rest))
     else RemoveKept (MultiForwarder (m\<lparr>mf_all := rest, mf_fwd := fst (hd rest)\<rparr>)))"
proof -
  have two: "\<not> length (mf_all m) < 2" using wf by (simp add: mf_wf_def)
  show ?thesis
    using deleteLocked_spec(1,3) [OF wf, of f] two unfolding rest_def [symmetric]
    by (auto simp: remove_entry_def split: list.splits)
qed

lemma remove_entry_no_panic [panic_free]: "entry_wf e \<Longrightarrow> remove_entry f e \<noteq> RemovePanic"
proof (cases e)
  case (Some v)
  assume wf: "entry_wf e"
  show ?thesis
  proof (cases v)
    case None
    then show ?thesis using Some by (simp add: remove_entry_def)
  next
    case [simp]: (Some u)
    show ?thesis
      using wf \<open>e = Some v\<close> by (cases u) (auto simp: remove_entry_def [where e = "Some (Some (PlainForwarder _))"] remove_entry_multi)
  qed
qed (simp add: remove_entry_def)

lemma fwds_removed: "entry_wf e \<Longrightarrow> fwds (removed_entry isLocal f e) = remove1 f (fwds e)"
  and entry_wf_removed: "entry_wf e \<Longrightarrow> entry_wf (removed_entry isLocal f e)"
proof -
  assume wf: "entry_wf e"
  have "fwds (removed_entry isLocal f e) = remove1 f (fwds e) \<and> entry_wf (removed_entry isLocal f e)"
  proof (cases "\<exists>m. e = Some (Some (MultiForwarder m))")
    case True
    then obtain m where e: "e = Some (Some (MultiForwarder m))" by blast
    with wf have m: "mf_wf m" by simp
    let ?rest = "filter (\<lambda>(k, _). k \<noteq> f) (mf_all m)"
    show ?thesis
    proof (cases "length ?rest = 1")
      case True
      then obtain k v where "?rest = [(k, v)]" by (cases ?rest) auto
      with deleteLocked_spec(2) [OF m, of f] True show ?thesis
        by (simp add: removed_entry_def e remove_entry_multi [OF m])
    next
      case False
      with deleteLocked_spec(2,4) [OF m, of f] show ?thesis
        by (simp add: removed_entry_def e remove_entry_multi [OF m])
    qed
  next
    case False
    then show ?thesis
      by (auto simp: removed_entry_def remove_entry_def split: option.splits PacketForwarder.splits)
  qed
  then show "fwds (removed_entry isLocal f e) = remove1 f (fwds e)" and "entry_wf (removed_entry isLocal f e)"
    by auto
qed

lemma forward_target_hd: "entry_wf e \<Longrightarrow> e = Some (Some v) \<Longrightarrow> fwds e \<noteq> [] \<and> forward_target v = hd (fwds e)"
proof (cases v)
  case (MultiForwarder m)
  moreover assume "entry_wf e" and "e = Some (Some v)"
  ultimately show ?thesis by (cases "mf_all m") (auto simp: mf_wf_def)
qed auto

section \<open>Consistent forwarding\<close>

text \<open>
  What the server promises for the choice of a forwarder (the comment of \<open>multiForwarder\<close>): the one
  seen the longest is used, so that packets to a key keep going to the same node. Stated as an
  interface on any registry that keeps its members in the order of registration.
\<close>

locale forwarder_registry =
  fixes add :: "'f \<Rightarrow> 'e \<Rightarrow> 'e"
    and del :: "'f \<Rightarrow> 'e \<Rightarrow> 'e"
    and members :: "'e \<Rightarrow> 'f list"
    and pref :: "'e \<Rightarrow> 'f option"
    and wf :: "'e \<Rightarrow> bool"
    and room :: "'e \<Rightarrow> bool"
  assumes members_add: "wf e \<Longrightarrow> members (add f e) = (if f \<in> set (members e) then members e else members e @ [f])"
    and members_del: "wf e \<Longrightarrow> members (del f e) = remove1 f (members e)"
    and pref_oldest: "wf e \<Longrightarrow> pref e = (case members e of [] \<Rightarrow> None | f # _ \<Rightarrow> Some f)"
    and wf_add: "wf e \<Longrightarrow> room e \<Longrightarrow> wf (add f e)"
    and wf_del: "wf e \<Longrightarrow> wf (del f e)"
begin

text \<open>A registration, or the removal of another forwarder, does not move the traffic.\<close>

lemma pref_add_stable: "wf e \<Longrightarrow> room e \<Longrightarrow> pref e = Some g \<Longrightarrow> pref (add f e) = Some g"
  by (auto simp: pref_oldest members_add wf_add split: list.splits)

lemma pref_del_stable: "wf e \<Longrightarrow> pref e = Some g \<Longrightarrow> f \<noteq> g \<Longrightarrow> pref (del f e) = Some g"
  by (auto simp: pref_oldest members_del wf_del split: list.splits)

lemma pref_del_next: "wf e \<Longrightarrow> members e = g # h # fs \<Longrightarrow> pref (del g e) = Some h"
  by (simp add: pref_oldest members_del wf_del)

lemma pref_None_iff: "wf e \<Longrightarrow> pref e = None \<longleftrightarrow> members e = []"
  by (simp add: pref_oldest split: list.splits)

end

definition entry_pref :: "mesh_entry \<Rightarrow> fwd_id option" where
  "entry_pref e = (case e of Some (Some v) \<Rightarrow> Some (forward_target v) | _ \<Rightarrow> None)"

interpretation mesh: forwarder_registry
  "\<lambda>f e. fst (add_entry f e)" "removed_entry isLocal" fwds entry_pref entry_wf entry_room for isLocal
proof
  fix e f
  show "entry_wf e \<Longrightarrow> fwds (fst (add_entry f e)) = (if f \<in> set (fwds e) then fwds e else fwds e @ [f])"
    by (rule fwds_add)
  show "entry_wf e \<Longrightarrow> fwds (removed_entry isLocal f e) = remove1 f (fwds e)"
    by (rule fwds_removed)
  show "entry_wf e \<Longrightarrow> entry_pref e = (case fwds e of [] \<Rightarrow> None | f # _ \<Rightarrow> Some f)"
    by (auto simp: entry_pref_def dest: forward_target_hd split: option.splits list.splits)
  show "entry_wf e \<Longrightarrow> entry_room e \<Longrightarrow> entry_wf (fst (add_entry f e))"
    by (rule entry_wf_add)
  show "entry_wf e \<Longrightarrow> entry_wf (removed_entry isLocal f e)"
    by (rule entry_wf_removed)
qed

section \<open>Properties\<close>

text \<open>A sequence of registrations and removals for one key, and the same on plain lists.\<close>

datatype fwd_op = AddFwd fwd_id | RemoveFwd bool fwd_id

fun entry_step :: "fwd_op \<Rightarrow> mesh_entry \<Rightarrow> mesh_entry" where
  "entry_step (AddFwd f) e = fst (add_entry f e)"
| "entry_step (RemoveFwd isLocal f) e = removed_entry isLocal f e"

fun registered_step :: "fwd_op \<Rightarrow> fwd_id list \<Rightarrow> fwd_id list" where
  "registered_step (AddFwd f) fs = (if f \<in> set fs then fs else fs @ [f])"
| "registered_step (RemoveFwd isLocal f) fs = remove1 f fs"

text \<open>A new member is numbered one above the largest number in use, so fewer than 255
  registrations cannot exhaust the numbers.\<close>

fun top_number :: "mesh_entry \<Rightarrow> nat" where
  "top_number (Some (Some (MultiForwarder m))) = unat (max_number 0 (mf_all m))"
| "top_number _ = 0"

lemma max_number_filter: "max_number 0 (filter P xs) \<le> max_number 0 xs"
  using max_number_mem [of 0 "filter P xs"] max_number_mono [of _ xs 0] by force

lemma max_number_snoc: "max_number m (xs @ [(k, v)]) = max (max_number m xs) v"
  by (induction m xs rule: max_number.induct) (auto simp: max_def)

lemma top_number_add: "entry_wf e \<Longrightarrow> entry_room e \<Longrightarrow> top_number (fst (add_entry f e)) \<le> Suc (top_number e)"
proof (cases "\<exists>m. e = Some (Some (MultiForwarder m))")
  case True
  assume "entry_room e"
  with True obtain m where e: "e = Some (Some (MultiForwarder m))" and room: "max_number 0 (mf_all m) < 255"
    by auto
  let ?n = "max_number 0 (mf_all m)"
  have "?n < ?n + 1" by (rule less_max_plus_one [OF order_refl room])
  moreover have "unat (?n + 1) = Suc (unat ?n)"
    using room by (simp add: unat_word_ariths word_less_nat_alt)
  ultimately show ?thesis
    by (simp add: e add_entry_def mf_add_def max_number_snoc max_absorb2 less_imp_le)
next
  case False
  then show ?thesis
    by (auto simp: add_entry_def newMultiForwarder_def split: option.splits PacketForwarder.splits)
qed

lemma top_number_removed: "entry_wf e \<Longrightarrow> top_number (removed_entry isLocal f e) \<le> top_number e"
proof (cases "\<exists>m. e = Some (Some (MultiForwarder m))")
  case True
  assume wf: "entry_wf e"
  from True obtain m where e: "e = Some (Some (MultiForwarder m))" by blast
  with wf have "mf_wf m" by simp
  then show ?thesis
    using max_number_filter [of "\<lambda>(k, _). k \<noteq> f" "mf_all m"]
    by (auto simp: e removed_entry_def remove_entry_multi word_le_nat_alt)
next
  case False
  then show ?thesis
    by (auto simp: removed_entry_def remove_entry_def split: option.splits PacketForwarder.splits)
qed

lemma entry_room_iff: "entry_room e \<longleftrightarrow> top_number e < 255"
  by (cases e rule: entry_room.cases) (simp_all add: word_less_nat_alt)

lemma entry_run:
  assumes "entry_wf e" and "top_number e + length ops \<le> 255"
  shows "entry_wf (fold entry_step ops e) \<and> fwds (fold entry_step ops e) = fold registered_step ops (fwds e)"
  using assms
proof (induction ops arbitrary: e)
  case Nil
  then show ?case by simp
next
  case (Cons x ops)
  have room: "entry_room e" using Cons.prems(2) by (simp add: entry_room_iff)
  have "entry_wf (entry_step x e) \<and> top_number (entry_step x e) \<le> Suc (top_number e) \<and>
      fwds (entry_step x e) = registered_step x (fwds e)"
  proof (cases x)
    case (AddFwd f)
    with Cons.prems(1) room show ?thesis by (simp add: entry_wf_add top_number_add fwds_add)
  next
    case (RemoveFwd l f)
    with Cons.prems(1) show ?thesis
      using top_number_removed [OF Cons.prems(1), of l f] by (simp add: entry_wf_removed fwds_removed)
  qed
  with Cons.IH [of "entry_step x e"] Cons.prems(2) show ?case by simp
qed



text \<open>
  A registration, or the removal of a forwarder that is not in use, never redirects the
  packets of a key: the preferred forwarder changes only when it is itself removed.
\<close>

theorem forwarder_stable:
  assumes "entry_wf e" and "entry_pref e = Some g"
  shows "(entry_room e \<longrightarrow> entry_pref (fst (add_entry f e)) = Some g) \<and>
    (f \<noteq> g \<longrightarrow> entry_pref (removed_entry isLocal f e) = Some g)"
  using assms by (auto intro: mesh.pref_add_stable mesh.pref_del_stable)

theorem forwarder_stable_witness:
  "entry_pref (fst (add_entry 9 (Some (Some (PlainForwarder 4))))) = Some 4 \<and>
   entry_pref (removed_entry False 9 (Some (Some (PlainForwarder 4)))) = Some 4"
  using forwarder_stable [of "Some (Some (PlainForwarder 4))" 4 9 False]
  by (simp add: entry_pref_def)

text \<open>
  The numbers are 8 bits wide and wrap: in a set whose largest number is 255 the next
  forwarder gets number 0, below every other member, so once the preferred forwarder is removed
  the traffic moves to the newest member instead of the oldest.
\<close>

theorem forwarder_number_wraps:
  assumes "max_number 0 (mf_all m) = 255" and "f \<notin> fst ` set (mf_all m)"
  shows "fst (add_entry f (Some (Some (MultiForwarder m)))) =
      Some (Some (MultiForwarder (m\<lparr>mf_all := mf_all m @ [(f, 0)]\<rparr>)))"
  using assms by (simp add: add_entry_def mf_add_def)

theorem forwarder_number_wraps_witness:
  "let m = \<lparr>mf_fwd = 1, mf_all = [(1, 254), (2, 255)]\<rparr>;
       e = fst (add_entry 3 (Some (Some (MultiForwarder m))))
   in fwds e = [1, 2, 3] \<and> entry_pref e = Some 1 \<and> fwds (removed_entry False 1 e) = [2, 3] \<and>
      entry_pref (removed_entry False 1 e) = Some 3"
  using forwarder_number_wraps [of "\<lparr>mf_fwd = 1, mf_all = [(1, 254), (2, 255)]\<rparr>" 3]
  by (simp add: Let_def entry_pref_def removed_entry_def remove_entry_def deleteLocked_def)

end
