(* ===== verification/Netip.thy ===== *)
theory Netip
  imports Prelude
begin

unbundle bit_operations_syntax

text \<open>
  The addresses of Go's \<^verbatim>\<open>net/netip\<close> as the sources use them: \<open>Addr\<close> with its zero value, IPv4
  and IPv6 addresses (the latter with a zone), \<open>AddrPort\<close> and \<open>Prefix\<close>, with the classification
  methods the sources call.
\<close>

datatype Addr = AddrZero | Addr4 "32 word" | Addr6 "128 word" string

datatype AddrPort = AddrPort Addr uint16

definition AddrPort_zero :: AddrPort where
  "AddrPort_zero = AddrPort AddrZero 0"

definition IsValid :: "Addr \<Rightarrow> bool" where
  "IsValid a \<longleftrightarrow> a \<noteq> AddrZero"

fun Is4 :: "Addr \<Rightarrow> bool" where
  "Is4 (Addr4 _) = True"
| "Is4 _ = False"

fun Is6 :: "Addr \<Rightarrow> bool" where
  "Is6 (Addr6 _ _) = True"
| "Is6 _ = False"

text \<open>The IPv4-mapped block \<open>::ffff:0:0/96\<close>.\<close>

fun Is4In6 :: "Addr \<Rightarrow> bool" where
  "Is4In6 (Addr6 w _) = (drop_bit 32 w = 0xffff)"
| "Is4In6 _ = False"

fun Unmap :: "Addr \<Rightarrow> Addr" where
  "Unmap (Addr6 w z) = (if Is4In6 (Addr6 w z) then Addr4 (ucast w) else Addr6 w z)"
| "Unmap a = a"

text \<open>\<open>As16\<close>: the 16-byte form as a 128-bit number; an IPv4 address in its mapped form.\<close>

fun As16 :: "Addr \<Rightarrow> 128 word" where
  "As16 AddrZero = 0"
| "As16 (Addr4 w) = 0xffff00000000 OR ucast w"
| "As16 (Addr6 w _) = w"

lemma Unmap_not_4In6: "\<not> Is4In6 (Unmap a)"
  by (cases a) auto

lemma Unmap_idem [simp]: "Unmap (Unmap a) = Unmap a"
  by (cases a) auto

end
