(* ===== verification/Tracker.thy ===== *)
theory Tracker
  imports Complex_Main Prelude "HOL-Library.List_Lexorder" "HOL-Library.Char_ord"
begin

text \<open>
  The connection and payload accounting of \<^verbatim>\<open>internal/tracker/tracker.go\<close>: a \<open>PeerTracker\<close> keeps the
  peers with at least one connection and, for each connection number, the public key that owns it.
  A \<open>*peerState\<close> the code dereferences without a check (\<open>Unregister\<close>, \<open>Receive\<close>, \<open>Send\<close>) or an
  empty slice it indexes (\<open>GetAll\<close>) is a panic, the value \<^term>\<open>None\<close>.

  Texts in \<open>RFC3339Nano\<close> are represented by the instant they denote, and the \<open>float64\<close> rates by
  the exact quotient.
\<close>

section \<open>State\<close>

definition sampleInterval :: duration where
  "sampleInterval = 5 * second"

record Connection =
  cn_RemoteAddr :: string
  cn_ConnectedAt :: gotime

record PeerInfo =
  pi_PublicKey :: string
  pi_RemoteAddr :: string
  pi_ConnectedAt :: gotime
  pi_Connections :: "Connection list"
  pi_BytesRecv :: int64
  pi_BytesSent :: int64
  pi_RecvBytesPerSec :: "rat option"
  pi_SentBytesPerSec :: "rat option"

record peerState =
  ps_connections :: "(int, Connection) fmap"
  ps_recv :: int64
  ps_sent :: int64
  ps_lastRecv :: int64
  ps_lastSent :: int64
  ps_lastSample :: gotime
  ps_recvRate :: "rat option"
  ps_sentRate :: "rat option"

record PeerTracker =
  tr_peers :: "(string, peerState) fmap"
  tr_connections :: "(int, string) fmap"

record PeersResponse =
  pr_Peers :: "PeerInfo list"
  pr_Count :: nat
  pr_SampledAt :: gotime

section \<open>Operations\<close>

definition NewPeerTracker :: PeerTracker where
  "NewPeerTracker = \<lparr>tr_peers = fmempty, tr_connections = fmempty\<rparr>"

definition new_peerState :: "gotime \<Rightarrow> peerState" where
  "new_peerState connectedAt =
     \<lparr>ps_connections = fmempty, ps_recv = 0, ps_sent = 0, ps_lastRecv = 0, ps_lastSent = 0,
      ps_lastSample = connectedAt, ps_recvRate = None, ps_sentRate = None\<rparr>"

definition Register :: "int \<Rightarrow> string \<Rightarrow> string \<Rightarrow> gotime \<Rightarrow> PeerTracker \<Rightarrow> PeerTracker" where
  "Register cid publicKey remoteAddr connectedAt t =
     (let p = (case fmlookup (tr_peers t) publicKey of
                 None \<Rightarrow> new_peerState connectedAt
               | Some p \<Rightarrow> p);
          c = \<lparr>cn_RemoteAddr = remoteAddr, cn_ConnectedAt = connectedAt\<rparr>
      in t\<lparr>tr_peers := fmupd publicKey (p\<lparr>ps_connections := fmupd cid c (ps_connections p)\<rparr>) (tr_peers t),
           tr_connections := fmupd cid publicKey (tr_connections t)\<rparr>)"

definition Unregister :: "int \<Rightarrow> PeerTracker \<Rightarrow> PeerTracker option" where
  "Unregister cid t =
     (case fmlookup (tr_connections t) cid of
        None \<Rightarrow> Some t
      | Some key \<Rightarrow>
          (case fmlookup (tr_peers t) key of
             None \<Rightarrow> None
           | Some p \<Rightarrow>
               (let conns = fmdrop cid (ps_connections p);
                    t' = t\<lparr>tr_connections := fmdrop cid (tr_connections t)\<rparr>
                in Some (if conns = fmempty
                         then t'\<lparr>tr_peers := fmdrop key (tr_peers t)\<rparr>
                         else t'\<lparr>tr_peers := fmupd key (p\<lparr>ps_connections := conns\<rparr>) (tr_peers t)\<rparr>))))"

text \<open>The \<open>int\<close> argument is a payload length; the \<open>int64\<close> additions wrap.\<close>

definition Receive :: "int \<Rightarrow> nat \<Rightarrow> PeerTracker \<Rightarrow> PeerTracker option" where
  "Receive cid n t =
     (case fmlookup (tr_connections t) cid of
        None \<Rightarrow> Some t
      | Some key \<Rightarrow>
          (case fmlookup (tr_peers t) key of
             None \<Rightarrow> None
           | Some p \<Rightarrow> Some (t\<lparr>tr_peers := fmupd key (p\<lparr>ps_recv := ps_recv p + of_nat n\<rparr>) (tr_peers t)\<rparr>)))"

definition Send :: "int \<Rightarrow> nat \<Rightarrow> PeerTracker \<Rightarrow> PeerTracker option" where
  "Send cid n t =
     (case fmlookup (tr_connections t) cid of
        None \<Rightarrow> Some t
      | Some key \<Rightarrow>
          (case fmlookup (tr_peers t) key of
             None \<Rightarrow> None
           | Some p \<Rightarrow> Some (t\<lparr>tr_peers := fmupd key (p\<lparr>ps_sent := ps_sent p + of_nat n\<rparr>) (tr_peers t)\<rparr>)))"

text \<open>The sampling step of \<open>GetAll\<close>: after at least \<open>sampleInterval\<close>, the rates since the last
  sample.\<close>

definition sample :: "gotime \<Rightarrow> peerState \<Rightarrow> peerState" where
  "sample now p =
     (let elapsed = time_sub now (ps_lastSample p) in
      if elapsed \<ge> sampleInterval then
        (let seconds = (of_int elapsed :: rat) / of_int second in
         p\<lparr>ps_recvRate := Some (of_int (sint (ps_recv p - ps_lastRecv p)) / seconds),
           ps_sentRate := Some (of_int (sint (ps_sent p - ps_lastSent p)) / seconds),
           ps_lastRecv := ps_recv p, ps_lastSent := ps_sent p, ps_lastSample := now\<rparr>)
      else p)"

definition peerInfo :: "string \<Rightarrow> peerState \<Rightarrow> PeerInfo option" where
  "peerInfo key p =
     (case map snd (sorted_list_of_fmap (ps_connections p)) of
        [] \<Rightarrow> None
      | c # cs \<Rightarrow> Some
          \<lparr>pi_PublicKey = key, pi_RemoteAddr = cn_RemoteAddr (last (c # cs)),
           pi_ConnectedAt = cn_ConnectedAt c, pi_Connections = c # cs,
           pi_BytesRecv = ps_recv p, pi_BytesSent = ps_sent p,
           pi_RecvBytesPerSec = ps_recvRate p, pi_SentBytesPerSec = ps_sentRate p\<rparr>)"

definition GetAll :: "gotime \<Rightarrow> PeerTracker \<Rightarrow> (PeersResponse \<times> PeerTracker) option" where
  "GetAll now t =
     (let peers = fmmap (sample now) (tr_peers t) in
      case those (map (\<lambda>(key, p). peerInfo key p) (sorted_list_of_fmap peers)) of
        None \<Rightarrow> None
      | Some list \<Rightarrow> Some
          (\<lparr>pr_Peers = sort_key pi_PublicKey list, pr_Count = length list, pr_SampledAt = now\<rparr>,
           t\<lparr>tr_peers := peers\<rparr>))"

section \<open>Invariant\<close>

text \<open>The connection numbers recorded for a key on the side of the peers.\<close>

definition peer_conns :: "PeerTracker \<Rightarrow> string \<Rightarrow> int fset" where
  "peer_conns t k = (case fmlookup (tr_peers t) k of None \<Rightarrow> {||} | Some p \<Rightarrow> fmdom (ps_connections p))"

text \<open>The two maps describe the same set of connections, and no peer is kept without one.\<close>

definition tracker_inv :: "PeerTracker \<Rightarrow> bool" where
  "tracker_inv t \<longleftrightarrow>
     (\<forall>cid k. fmlookup (tr_connections t) cid = Some k \<longleftrightarrow> cid |\<in>| peer_conns t k) \<and>
     (\<forall>k. k |\<in>| fmdom (tr_peers t) \<longrightarrow> peer_conns t k \<noteq> {||})"

lemma peer_conns_known: "cid |\<in>| peer_conns t k \<Longrightarrow> k |\<in>| fmdom (tr_peers t)"
  by (auto simp: peer_conns_def fmlookup_dom_iff split: option.splits)

lemma tracker_inv_iff:
  "tracker_inv t \<Longrightarrow> fmlookup (tr_connections t) cid = Some k \<longleftrightarrow> cid |\<in>| peer_conns t k"
  by (simp add: tracker_inv_def)

lemma tracker_invE:
  assumes "tracker_inv t" and "fmlookup (tr_connections t) cid = Some k"
  obtains p where "fmlookup (tr_peers t) k = Some p" and "cid |\<in>| fmdom (ps_connections p)"
    and "fmdom (ps_connections p) = peer_conns t k"
proof -
  from assms have "cid |\<in>| peer_conns t k" by (simp add: tracker_inv_iff)
  then show thesis
    by (cases "fmlookup (tr_peers t) k") (auto simp: peer_conns_def that)
qed

lemma fmap_empty_iff: "m = fmempty \<longleftrightarrow> fmdom m = {||}"
proof
  assume "fmdom m = {||}"
  then have "fmlookup m x = None" for x
    by (intro fmdom_notD) simp
  then show "m = fmempty" by (intro fmap_ext) simp
qed simp

lemma peer_conns_Register:
  "peer_conns (Register cid key addr ts t) k =
     (if k = key then finsert cid (peer_conns t k) else peer_conns t k)"
  by (auto simp: peer_conns_def Register_def Let_def new_peerState_def split: option.splits)

lemma conns_Register: "tr_connections (Register cid key addr ts t) = fmupd cid key (tr_connections t)"
  by (simp add: Register_def Let_def)

lemma peers_Register: "fmdom (tr_peers (Register cid key addr ts t)) = finsert key (fmdom (tr_peers t))"
  by (simp add: Register_def Let_def)

lemma Unregister_unknown: "fmlookup (tr_connections t) cid = None \<Longrightarrow> Unregister cid t = Some t"
  by (simp add: Unregister_def)

lemma Unregister_known:
  assumes "tracker_inv t" and "fmlookup (tr_connections t) cid = Some key"
  obtains t' where "Unregister cid t = Some t'"
    and "tr_connections t' = fmdrop cid (tr_connections t)"
    and "\<And>k. peer_conns t' k = (if k = key then peer_conns t k |-| {|cid|} else peer_conns t k)"
    and "fmdom (tr_peers t') = (if peer_conns t key |-| {|cid|} = {||} then fmdom (tr_peers t) |-| {|key|}
                                else fmdom (tr_peers t))"
proof -
  from assms obtain p where p: "fmlookup (tr_peers t) key = Some p"
    and dom: "fmdom (ps_connections p) = peer_conns t key"
    by (rule tracker_invE)
  have key: "key |\<in>| fmdom (tr_peers t)" using p by (simp add: fmlookup_dom_iff)
  show thesis
  proof (cases "peer_conns t key |-| {|cid|} = {||}")
    case True
    then have "fmdrop cid (ps_connections p) = fmempty" by (simp add: fmap_empty_iff dom)
    with assms(2) p have "Unregister cid t = Some (t\<lparr>tr_connections := fmdrop cid (tr_connections t),
        tr_peers := fmdrop key (tr_peers t)\<rparr>)"
      by (simp add: Unregister_def)
    then show thesis
      by (rule that) (use True p in \<open>auto simp: peer_conns_def\<close>)
  next
    case False
    then have "fmdrop cid (ps_connections p) \<noteq> fmempty" by (simp add: fmap_empty_iff dom)
    with assms(2) p have "Unregister cid t = Some (t\<lparr>tr_connections := fmdrop cid (tr_connections t),
        tr_peers := fmupd key (p\<lparr>ps_connections := fmdrop cid (ps_connections p)\<rparr>) (tr_peers t)\<rparr>)"
      by (simp add: Unregister_def)
    then show thesis
      by (rule that) (use False p key in \<open>auto simp: peer_conns_def\<close>)
  qed
qed

lemma tracker_inv_new [inv_rules]: "tracker_inv NewPeerTracker"
  by (simp add: tracker_inv_def NewPeerTracker_def peer_conns_def)

lemma tracker_inv_Register [inv_rules]:
  assumes inv: "tracker_inv t" and fresh: "fmlookup (tr_connections t) cid \<in> {None, Some key}"
  shows "tracker_inv (Register cid key addr ts t)"
proof -
  have "cid |\<notin>| peer_conns t k" if "k \<noteq> key" for k
    using fresh that tracker_inv_iff [OF inv, of cid k] by auto
  with inv show ?thesis
    by (auto simp: tracker_inv_def peer_conns_Register conns_Register peers_Register)
qed

lemma tracker_inv_Unregister [inv_rules]:
  assumes inv: "tracker_inv t" and step: "Unregister cid t = Some t'"
  shows "tracker_inv t'"
proof (cases "fmlookup (tr_connections t) cid")
  case None
  with assms show ?thesis by (simp add: Unregister_unknown)
next
  case (Some key)
  from inv Some obtain u where u: "Unregister cid t = Some u"
    and conns: "tr_connections u = fmdrop cid (tr_connections t)"
    and pc: "\<And>k. peer_conns u k = (if k = key then peer_conns t k |-| {|cid|} else peer_conns t k)"
    and dom: "fmdom (tr_peers u) = (if peer_conns t key |-| {|cid|} = {||} then fmdom (tr_peers t) |-| {|key|}
                                else fmdom (tr_peers t))"
    by (rule Unregister_known) blast
  have own: "cid |\<in>| peer_conns t k \<Longrightarrow> k = key" for k
    using tracker_inv_iff [OF inv, of cid k] Some by simp
  have "tracker_inv u"
    unfolding tracker_inv_def
  proof (intro conjI allI impI)
    fix c k
    show "fmlookup (tr_connections u) c = Some k \<longleftrightarrow> c |\<in>| peer_conns u k"
      using tracker_inv_iff [OF inv, of c k] own by (auto simp: conns pc)
  next
    fix k
    assume "k |\<in>| fmdom (tr_peers u)"
    then show "peer_conns u k \<noteq> {||}"
      using inv by (auto simp: tracker_inv_def dom pc split: if_splits)
  qed
  with step u show ?thesis by simp
qed

lemma Unregister_no_panic [panic_free]: "tracker_inv t \<Longrightarrow> \<exists>t'. Unregister cid t = Some t'"
  by (cases "fmlookup (tr_connections t) cid") (auto simp: Unregister_unknown elim: Unregister_known)

text \<open>\<open>Receive\<close> and \<open>Send\<close> touch one counter of the owning peer.\<close>

lemma Receive_known:
  assumes "tracker_inv t" and "fmlookup (tr_connections t) cid = Some key"
  obtains p where "fmlookup (tr_peers t) key = Some p"
    and "Receive cid n t = Some (t\<lparr>tr_peers := fmupd key (p\<lparr>ps_recv := ps_recv p + of_nat n\<rparr>) (tr_peers t)\<rparr>)"
  using assms by (auto simp: Receive_def elim: tracker_invE)

lemma Send_known:
  assumes "tracker_inv t" and "fmlookup (tr_connections t) cid = Some key"
  obtains p where "fmlookup (tr_peers t) key = Some p"
    and "Send cid n t = Some (t\<lparr>tr_peers := fmupd key (p\<lparr>ps_sent := ps_sent p + of_nat n\<rparr>) (tr_peers t)\<rparr>)"
  using assms by (auto simp: Send_def elim: tracker_invE)

text \<open>Operations that change only the accounting of the peers keep the connections.\<close>

definition same_conns :: "PeerTracker \<Rightarrow> PeerTracker \<Rightarrow> bool" where
  "same_conns t t' \<longleftrightarrow> tr_connections t' = tr_connections t \<and> fmdom (tr_peers t') = fmdom (tr_peers t) \<and>
     (\<forall>k. peer_conns t' k = peer_conns t k)"

lemma same_conns_inv: "same_conns t t' \<Longrightarrow> tracker_inv t \<Longrightarrow> tracker_inv t'"
  by (simp add: same_conns_def tracker_inv_def)

lemma Receive_same_conns: "Receive cid n t = Some t' \<Longrightarrow> same_conns t t'"
  by (auto simp: Receive_def same_conns_def peer_conns_def fmlookup_dom_iff split: option.splits if_splits)

lemma Send_same_conns: "Send cid n t = Some t' \<Longrightarrow> same_conns t t'"
  by (auto simp: Send_def same_conns_def peer_conns_def fmlookup_dom_iff split: option.splits if_splits)

lemma sample_connections [simp]: "ps_connections (sample now p) = ps_connections p"
  by (simp add: sample_def Let_def)

lemma sample_counters [simp]:
  "ps_recv (sample now p) = ps_recv p" "ps_sent (sample now p) = ps_sent p"
  by (simp_all add: sample_def Let_def)

lemma GetAll_same_conns: "GetAll now t = Some (r, t') \<Longrightarrow> same_conns t t'"
  by (auto simp: GetAll_def Let_def same_conns_def peer_conns_def split: option.splits)

lemma Receive_no_panic [panic_free]: "tracker_inv t \<Longrightarrow> \<exists>t'. Receive cid n t = Some t'"
  by (cases "fmlookup (tr_connections t) cid") (auto simp: Receive_def elim: tracker_invE)

lemma Send_no_panic [panic_free]: "tracker_inv t \<Longrightarrow> \<exists>t'. Send cid n t = Some t'"
  by (cases "fmlookup (tr_connections t) cid") (auto simp: Send_def elim: tracker_invE)

section \<open>The response of \<open>GetAll\<close>\<close>

lemma those_Some_iff: "those xs = Some ys \<longleftrightarrow> xs = map Some ys"
  by (induction xs arbitrary: ys) (auto split: option.splits simp: map_eq_Cons_conv)

lemma sorted_list_of_fmap_keys: "map fst (sorted_list_of_fmap m) = sorted_list_of_fset (fmdom m)"
  by (simp add: sorted_list_of_fmap_def comp_def)

lemma sorted_list_of_fmap_mem:
  "(k, v) \<in> set (sorted_list_of_fmap m) \<longleftrightarrow> fmlookup m k = Some v"
  by (auto simp: sorted_list_of_fmap_def fmlookup_dom_iff)

lemma sorted_list_of_fmap_empty_iff: "sorted_list_of_fmap m = [] \<longleftrightarrow> fmdom m = {||}"
  by (simp add: sorted_list_of_fmap_def sorted_list_of_fset.rep_eq fset_inject [symmetric])

lemma peerInfo_Some:
  assumes "ps_connections p \<noteq> fmempty"
  obtains i where "peerInfo key p = Some i" and "pi_PublicKey i = key"
    and "pi_Connections i = map snd (sorted_list_of_fmap (ps_connections p))"
    and "pi_Connections i \<noteq> []"
    and "pi_ConnectedAt i = cn_ConnectedAt (hd (pi_Connections i))"
    and "pi_RemoteAddr i = cn_RemoteAddr (last (pi_Connections i))"
    and "pi_BytesRecv i = ps_recv p" and "pi_BytesSent i = ps_sent p"
proof -
  from assms have "sorted_list_of_fmap (ps_connections p) \<noteq> []"
    by (simp add: sorted_list_of_fmap_empty_iff fmap_empty_iff)
  then obtain c cs where "map snd (sorted_list_of_fmap (ps_connections p)) = c # cs"
    by (cases "sorted_list_of_fmap (ps_connections p)") auto
  then show thesis
    by (intro that [of "the (peerInfo key p)"]) (simp_all add: peerInfo_def)
qed

lemma peerInfo_key: "peerInfo key p = Some i \<Longrightarrow> pi_PublicKey i = key"
  by (auto simp: peerInfo_def split: list.splits)

lemma tracker_inv_conns_nonempty:
  "tracker_inv t \<Longrightarrow> fmlookup (tr_peers t) k = Some p \<Longrightarrow> ps_connections p \<noteq> fmempty"
  by (auto simp: tracker_inv_def peer_conns_def fmlookup_dom_iff fmap_empty_iff dest: spec [of _ k])

lemma GetAll_Some:
  assumes "tracker_inv t"
  obtains list where
    "GetAll now t = Some (\<lparr>pr_Peers = list, pr_Count = length list, pr_SampledAt = now\<rparr>,
       t\<lparr>tr_peers := fmmap (sample now) (tr_peers t)\<rparr>)"
    and "map pi_PublicKey list = sorted_list_of_fset (fmdom (tr_peers t))"
    and "\<And>i. i \<in> set list \<longleftrightarrow>
          (\<exists>k p. fmlookup (tr_peers t) k = Some p \<and> peerInfo k (sample now p) = Some i)"
proof -
  let ?peers = "fmmap (sample now) (tr_peers t)"
  let ?info = "\<lambda>(key, p). peerInfo key p"
  let ?l = "map (the \<circ> ?info) (sorted_list_of_fmap ?peers)"
  have ok: "?info kp = Some (the (?info kp))" if "kp \<in> set (sorted_list_of_fmap ?peers)" for kp
  proof -
    obtain k p where kp: "kp = (k, p)" by (cases kp)
    with that obtain q where q: "fmlookup (tr_peers t) k = Some q" "p = sample now q"
      by (auto simp: sorted_list_of_fmap_mem)
    have "ps_connections p \<noteq> fmempty"
      using tracker_inv_conns_nonempty [OF assms q(1)] q(2) by simp
    then have "peerInfo k p \<noteq> None" by (auto elim: peerInfo_Some [where key = k])
    then show ?thesis by (simp add: kp)
  qed
  then have those: "those (map ?info (sorted_list_of_fmap ?peers)) = Some ?l"
    by (simp add: those_Some_iff)
  have keys: "map pi_PublicKey ?l = sorted_list_of_fset (fmdom (tr_peers t))"
  proof -
    have "map pi_PublicKey ?l = map fst (sorted_list_of_fmap ?peers)"
      using ok peerInfo_key by (fastforce simp: case_prod_beta)
    then show ?thesis by (simp add: sorted_list_of_fmap_keys)
  qed
  then have "sorted (map pi_PublicKey ?l)"
    by (simp add: sorted_list_of_fset.rep_eq)
  then have srt: "sort_key pi_PublicKey ?l = ?l"
    by (rule sort_key_id_if_sorted)
  have mem: "i \<in> set ?l \<longleftrightarrow>
      (\<exists>k p. fmlookup (tr_peers t) k = Some p \<and> peerInfo k (sample now p) = Some i)" for i
  proof
    assume "i \<in> set ?l"
    then obtain kp where kp: "kp \<in> set (sorted_list_of_fmap ?peers)" "i = the (?info kp)" by auto
    from ok [OF kp(1)] kp show "\<exists>k p. fmlookup (tr_peers t) k = Some p \<and> peerInfo k (sample now p) = Some i"
      by (cases kp) (auto simp: sorted_list_of_fmap_mem)
  next
    assume "\<exists>k p. fmlookup (tr_peers t) k = Some p \<and> peerInfo k (sample now p) = Some i"
    then obtain k p where "fmlookup (tr_peers t) k = Some p" "peerInfo k (sample now p) = Some i" by blast
    then show "i \<in> set ?l"
      by (auto intro!: image_eqI [of _ _ "(k, sample now p)"] simp: sorted_list_of_fmap_mem)
  qed
  show thesis
  proof (rule that [of ?l])
    show "GetAll now t = Some (\<lparr>pr_Peers = ?l, pr_Count = length ?l, pr_SampledAt = now\<rparr>,
       t\<lparr>tr_peers := fmmap (sample now) (tr_peers t)\<rparr>)"
      unfolding GetAll_def Let_def those by (simp only: option.case srt)
  qed (fact keys, fact mem)
qed

lemma GetAll_no_panic [panic_free]: "tracker_inv t \<Longrightarrow> \<exists>r t'. GetAll now t = Some (r, t')"
  by (blast elim: GetAll_Some)

lemmas same_conns_rules = Receive_same_conns Send_same_conns GetAll_same_conns

section \<open>The interface the DERP server relies on\<close>

text \<open>
  The server calls \<open>Register\<close> and \<open>Unregister\<close> once per connection and \<open>Receive\<close> and \<open>Send\<close> once
  per payload. What it relies on is that none of these panics and that each has the stated effect
  on the map from connection numbers to owners.
\<close>

locale connection_accounting =
  fixes reg :: "int \<Rightarrow> string \<Rightarrow> string \<Rightarrow> gotime \<Rightarrow> 's \<Rightarrow> 's"
    and unreg :: "int \<Rightarrow> 's \<Rightarrow> 's option"
    and recv :: "int \<Rightarrow> nat \<Rightarrow> 's \<Rightarrow> 's option"
    and send :: "int \<Rightarrow> nat \<Rightarrow> 's \<Rightarrow> 's option"
    and owner :: "'s \<Rightarrow> int \<Rightarrow> string option"
    and inv :: "'s \<Rightarrow> bool"
  assumes owner_reg: "owner (reg c k a ts s) = (owner s)(c \<mapsto> k)"
    and inv_reg: "inv s \<Longrightarrow> owner s c \<in> {None, Some k} \<Longrightarrow> inv (reg c k a ts s)"
    and unreg_ok: "inv s \<Longrightarrow> \<exists>s'. unreg c s = Some s' \<and> inv s' \<and> owner s' = (owner s)(c := None)"
    and recv_ok: "inv s \<Longrightarrow> \<exists>s'. recv c n s = Some s' \<and> inv s' \<and> owner s' = owner s"
    and send_ok: "inv s \<Longrightarrow> \<exists>s'. send c n s = Some s' \<and> inv s' \<and> owner s' = owner s"
begin

lemma unreg_dom:
  assumes "inv s" and "dom (owner s) = A"
  obtains s' where "unreg c s = Some s'" and "inv s'" and "dom (owner s') = A - {c}"
  using unreg_ok [OF assms(1), of c] assms(2) by (auto simp: dom_fun_upd)

lemma reg_dom:
  assumes "inv s" and "dom (owner s) = A" and "c \<notin> A"
  shows "inv (reg c k a ts s) \<and> dom (owner (reg c k a ts s)) = insert c A"
proof -
  from assms(2,3) have "owner s c = None" by auto
  then show ?thesis using inv_reg [OF assms(1), of c k] assms(2) by (auto simp: owner_reg)
qed

end

interpretation acct: connection_accounting
  Register Unregister Receive Send "\<lambda>t. fmlookup (tr_connections t)" tracker_inv
proof
  fix c k a ts n and t :: PeerTracker
  show "fmlookup (tr_connections (Register c k a ts t)) = (fmlookup (tr_connections t))(c \<mapsto> k)"
    by (auto simp: conns_Register)
  show "tracker_inv t \<Longrightarrow> fmlookup (tr_connections t) c \<in> {None, Some k} \<Longrightarrow> tracker_inv (Register c k a ts t)"
    by (rule tracker_inv_Register)
  assume inv: "tracker_inv t"
  show "\<exists>t'. Unregister c t = Some t' \<and> tracker_inv t' \<and>
      fmlookup (tr_connections t') = (fmlookup (tr_connections t))(c := None)"
  proof (cases "fmlookup (tr_connections t) c")
    case None
    then have "(fmlookup (tr_connections t))(c := None) = fmlookup (tr_connections t)"
      by (simp add: fun_upd_idem)
    with None inv show ?thesis by (simp add: Unregister_unknown)
  next
    case (Some key)
    from inv Some obtain t' where "Unregister c t = Some t'"
      and "tr_connections t' = fmdrop c (tr_connections t)"
      by (rule Unregister_known)
    moreover from inv this(1) have "tracker_inv t'" by (rule tracker_inv_Unregister)
    ultimately show ?thesis by (auto intro!: exI [of _ t'])
  qed
  show "\<exists>t'. Receive c n t = Some t' \<and> tracker_inv t' \<and>
      fmlookup (tr_connections t') = fmlookup (tr_connections t)"
    using Receive_no_panic [OF inv, of c n] Receive_same_conns same_conns_inv inv
    by (metis same_conns_def)
  show "\<exists>t'. Send c n t = Some t' \<and> tracker_inv t' \<and>
      fmlookup (tr_connections t') = fmlookup (tr_connections t)"
    using Send_no_panic [OF inv, of c n] Send_same_conns same_conns_inv inv
    by (metis same_conns_def)
qed

section \<open>Runs\<close>

datatype tracker_op =
    TRegister int string string gotime
  | TUnregister int
  | TReceive int nat
  | TSend int nat
  | TGetAll gotime

fun tracker_step :: "tracker_op \<Rightarrow> PeerTracker \<Rightarrow> PeerTracker option" where
  "tracker_step (TRegister c k a ts) t = Some (Register c k a ts t)"
| "tracker_step (TUnregister c) t = Unregister c t"
| "tracker_step (TReceive c n) t = Receive c n t"
| "tracker_step (TSend c n) t = Send c n t"
| "tracker_step (TGetAll now) t = map_option snd (GetAll now t)"

fun tracker_run :: "tracker_op list \<Rightarrow> PeerTracker \<Rightarrow> PeerTracker option" where
  "tracker_run [] t = Some t"
| "tracker_run (x # xs) t = Option.bind (tracker_step x t) (tracker_run xs)"

text \<open>The abstract tracker: who owns which connection.\<close>

fun owner_step :: "tracker_op \<Rightarrow> (int \<rightharpoonup> string) \<Rightarrow> (int \<rightharpoonup> string)" where
  "owner_step (TRegister c k a ts) w = w(c \<mapsto> k)"
| "owner_step (TUnregister c) w = w(c := None)"
| "owner_step _ w = w"

text \<open>Connection numbers are handed out by a counter, so a registration uses one that is not in use.\<close>

fun fresh_op :: "tracker_op \<Rightarrow> (int \<rightharpoonup> string) \<Rightarrow> bool" where
  "fresh_op (TRegister c k a ts) w \<longleftrightarrow> w c = None"
| "fresh_op _ w \<longleftrightarrow> True"

fun fresh_ops :: "tracker_op list \<Rightarrow> (int \<rightharpoonup> string) \<Rightarrow> bool" where
  "fresh_ops [] w \<longleftrightarrow> True"
| "fresh_ops (x # xs) w \<longleftrightarrow> fresh_op x w \<and> fresh_ops xs (owner_step x w)"

lemma tracker_step_refines:
  assumes inv: "tracker_inv t" and fresh: "fresh_op x (fmlookup (tr_connections t))"
  obtains t' where "tracker_step x t = Some t'" and "tracker_inv t'"
    and "fmlookup (tr_connections t') = owner_step x (fmlookup (tr_connections t))"
proof (cases x)
  case (TRegister c k a ts)
  with assms show ?thesis
    by (intro that [of "Register c k a ts t"]) (simp_all add: acct.owner_reg acct.inv_reg)
next
  case (TUnregister c)
  with acct.unreg_ok [OF inv, of c] show ?thesis by (auto intro: that)
next
  case (TReceive c n)
  with acct.recv_ok [OF inv, of c n] show ?thesis by (auto intro: that)
next
  case (TSend c n)
  with acct.send_ok [OF inv, of c n] show ?thesis by (auto intro: that)
next
  case (TGetAll now)
  from GetAll_no_panic [OF inv, of now] obtain r t' where g: "GetAll now t = Some (r, t')" by blast
  from GetAll_same_conns [OF g] have "same_conns t t'" .
  with g TGetAll inv show ?thesis
    by (intro that [of t']) (auto simp: same_conns_def intro: same_conns_inv)
qed

lemma tracker_run_refines:
  assumes "tracker_inv t" and "fresh_ops xs (fmlookup (tr_connections t))"
  shows "\<exists>t'. tracker_run xs t = Some t' \<and> tracker_inv t' \<and>
    fmlookup (tr_connections t') = fold owner_step xs (fmlookup (tr_connections t))"
  using assms
proof (induction xs arbitrary: t)
  case Nil
  then show ?case by simp
next
  case (Cons x xs)
  from Cons.prems obtain t1 where t1: "tracker_step x t = Some t1" "tracker_inv t1"
    and w: "fmlookup (tr_connections t1) = owner_step x (fmlookup (tr_connections t))"
    using tracker_step_refines by (metis fresh_ops.simps(2))
  from Cons.prems(2) w have "fresh_ops xs (fmlookup (tr_connections t1))" by simp
  from Cons.IH [OF t1(2) this] show ?case by (simp add: t1(1) w)
qed

text \<open>Bytes received on connections of \<open>k\<close> during a run.\<close>

fun received_by :: "string \<Rightarrow> (int \<rightharpoonup> string) \<Rightarrow> tracker_op list \<Rightarrow> nat" where
  "received_by k w [] = 0"
| "received_by k w (TReceive c n # xs) = (if w c = Some k then n else 0) + received_by k w xs"
| "received_by k w (x # xs) = received_by k (owner_step x w) xs"

fun closes :: "tracker_op \<Rightarrow> bool" where
  "closes (TUnregister c) = True"
| "closes _ = False"

lemma step_recv:
  assumes inv: "tracker_inv t" and p: "fmlookup (tr_peers t) k = Some p" and nc: "\<not> closes x"
    and step: "tracker_step x t = Some t'"
  shows "\<exists>p'. fmlookup (tr_peers t') k = Some p' \<and>
    ps_recv p' = ps_recv p + of_nat (received_by k (fmlookup (tr_connections t)) [x])"
proof (cases x)
  case (TRegister c k' a ts)
  with step p show ?thesis by (auto simp: Register_def Let_def)
next
  case (TUnregister c)
  with nc show ?thesis by simp
next
  case (TReceive c n)
  with step p show ?thesis by (auto simp: Receive_def split: option.splits if_splits)
next
  case (TSend c n)
  with step p show ?thesis by (auto simp: Send_def split: option.splits if_splits)
next
  case (TGetAll now)
  with step p show ?thesis by (auto simp: GetAll_def Let_def split: option.splits)
qed

lemma received_by_Cons:
  "received_by k w (x # xs) = received_by k w [x] + received_by k (owner_step x w) xs"
  by (cases x) simp_all

lemma run_recv:
  assumes "tracker_inv t" and "fresh_ops xs (fmlookup (tr_connections t))"
    and "fmlookup (tr_peers t) k = Some p" and "list_all (\<lambda>x. \<not> closes x) xs"
  shows "\<exists>t' p'. tracker_run xs t = Some t' \<and> fmlookup (tr_peers t') k = Some p' \<and>
    ps_recv p' = ps_recv p + of_nat (received_by k (fmlookup (tr_connections t)) xs)"
  using assms
proof (induction xs arbitrary: t p)
  case Nil
  then show ?case by simp
next
  case (Cons x xs)
  from Cons.prems obtain t1 where t1: "tracker_step x t = Some t1" "tracker_inv t1"
    and w: "fmlookup (tr_connections t1) = owner_step x (fmlookup (tr_connections t))"
    using tracker_step_refines by (metis fresh_ops.simps(2))
  from Cons.prems(4) have "\<not> closes x" by simp
  from step_recv [OF Cons.prems(1,3) this t1(1)] obtain p1 where p1: "fmlookup (tr_peers t1) k = Some p1"
    and r: "ps_recv p1 = ps_recv p + of_nat (received_by k (fmlookup (tr_connections t)) [x])"
    by blast
  from Cons.prems(2,4) w have "fresh_ops xs (fmlookup (tr_connections t1))" "list_all (\<lambda>x. \<not> closes x) xs"
    by simp_all
  from Cons.IH [OF t1(2) this(1) p1 this(2)] show ?case
    by (auto simp: t1(1) w r received_by_Cons [of k _ x xs] add.assoc)
qed

section \<open>Properties\<close>

text \<open>
  Any sequence of tracker operations in which each registration uses a connection number not
  in use runs without a panic (no nil \<open>*peerState\<close> is dereferenced, no empty slice is indexed),
  keeps the two maps consistent, and the owner recorded for each connection is the one the abstract
  tracker records.
\<close>

theorem tracker_run_safe:
  assumes "fresh_ops xs Map.empty"
  shows "\<exists>t. tracker_run xs NewPeerTracker = Some t \<and> tracker_inv t \<and>
    fmlookup (tr_connections t) = fold owner_step xs Map.empty"
proof -
  have e: "fmlookup (tr_connections NewPeerTracker) = Map.empty"
    by (rule ext) (simp add: NewPeerTracker_def)
  show ?thesis
    using tracker_run_refines [OF tracker_inv_new, of xs] assms by (simp add: e)
qed

theorem tracker_run_safe_witness:
  "\<exists>t. tracker_run [TRegister 7 ''k'' ''a:1'' 5, TReceive 7 10, TRegister 8 ''k'' ''b:2'' 6, TUnregister 7, TGetAll 9]
      NewPeerTracker = Some t \<and> tracker_inv t \<and> fmlookup (tr_connections t) 8 = Some ''k'' \<and>
      fmlookup (tr_connections t) 7 = None"
proof -
  let ?xs = "[TRegister 7 ''k'' ''a:1'' 5, TReceive 7 10, TRegister 8 ''k'' ''b:2'' 6, TUnregister 7, TGetAll 9]"
  have "fresh_ops ?xs Map.empty" by simp
  from tracker_run_safe [OF this] show ?thesis by auto
qed

text \<open>
  The payload accounting is exact: as long as none of its connections closes, a peer's receive
  counter grows by exactly the bytes of the \<open>Receive\<close> calls on its own connections, whatever other
  registrations, sends and status queries are interleaved (and as long as the \<open>int64\<close> sum does not
  overflow).
\<close>

theorem tracker_receive_exact:
  assumes "tracker_inv t" and "fresh_ops xs (fmlookup (tr_connections t))"
    and "fmlookup (tr_peers t) k = Some p" and "list_all (\<lambda>x. \<not> closes x) xs"
    and "0 \<le> sint (ps_recv p)"
    and "sint (ps_recv p) + int (received_by k (fmlookup (tr_connections t)) xs) < 2 ^ 63"
  shows "\<exists>t' p'. tracker_run xs t = Some t' \<and> fmlookup (tr_peers t') k = Some p' \<and>
    sint (ps_recv p') = sint (ps_recv p) + int (received_by k (fmlookup (tr_connections t)) xs)"
proof -
  let ?n = "received_by k (fmlookup (tr_connections t)) xs"
  obtain t' p' where run: "tracker_run xs t = Some t'" "fmlookup (tr_peers t') k = Some p'"
    and r: "ps_recv p' = ps_recv p + of_nat ?n"
    using run_recv [OF assms(1-4)] by blast
  have n: "sint (of_nat ?n :: int64) = int ?n"
    using assms(5,6) by (intro sint_of_nat_exact) simp
  have "sint (ps_recv p') = sint (ps_recv p) + int ?n"
    unfolding r using assms(5,6) n by (subst sint_add_exact) simp_all
  with run show ?thesis by blast
qed

theorem tracker_receive_exact_witness:
  "\<exists>t' p'. tracker_run [TReceive 7 10, TRegister 8 ''k'' ''b:2'' 6, TReceive 8 30, TSend 7 4]
      (Register 7 ''k'' ''a:1'' 5 NewPeerTracker) = Some t' \<and>
      fmlookup (tr_peers t') ''k'' = Some p' \<and> sint (ps_recv p') = 40"
proof -
  let ?t = "Register 7 ''k'' ''a:1'' 5 NewPeerTracker"
  let ?p = "(new_peerState 5)\<lparr>ps_connections := fmupd 7 \<lparr>cn_RemoteAddr = ''a:1'', cn_ConnectedAt = 5\<rparr> fmempty\<rparr>"
  let ?xs = "[TReceive 7 10, TRegister 8 ''k'' ''b:2'' 6, TReceive 8 30, TSend 7 4]"
  have inv: "tracker_inv ?t"
    by (rule tracker_inv_Register [OF tracker_inv_new]) (simp add: NewPeerTracker_def)
  have c: "fmlookup (tr_connections ?t) = [7 \<mapsto> ''k'']"
    by (auto simp: conns_Register NewPeerTracker_def)
  have p: "fmlookup (tr_peers ?t) ''k'' = Some ?p"
    by (simp add: Register_def NewPeerTracker_def new_peerState_def)
  have n: "received_by ''k'' (fmlookup (tr_connections ?t)) ?xs = 40"
    by (simp add: c)
  have fresh: "fresh_ops ?xs (fmlookup (tr_connections ?t))" by (simp add: c)
  have z: "ps_recv ?p = 0" by (simp add: new_peerState_def)
  show ?thesis
    using tracker_receive_exact [OF inv fresh p] n z by simp
qed

text \<open>
  What \<open>GetAll\<close> reports: it does not panic; the peers listed are exactly those with a
  connection, in strictly increasing order of their keys, and \<open>Count\<close> is their number; each entry
  lists that peer's connections in the order of the connection numbers, with the address of the
  newest and the connect time of the oldest, and its byte counters.
\<close>

theorem GetAll_report:
  assumes inv: "tracker_inv t"
  shows "\<exists>r t'. GetAll now t = Some (r, t') \<and> tracker_inv t' \<and>
    sorted_wrt (<) (map pi_PublicKey (pr_Peers r)) \<and>
    set (map pi_PublicKey (pr_Peers r)) = ran (fmlookup (tr_connections t)) \<and>
    pr_Count r = length (pr_Peers r) \<and>
    (\<forall>i\<in>set (pr_Peers r). \<exists>p. fmlookup (tr_peers t) (pi_PublicKey i) = Some p \<and>
       pi_Connections i = map snd (sorted_list_of_fmap (ps_connections p)) \<and> pi_Connections i \<noteq> [] \<and>
       pi_RemoteAddr i = cn_RemoteAddr (last (pi_Connections i)) \<and>
       pi_ConnectedAt i = cn_ConnectedAt (hd (pi_Connections i)) \<and>
       pi_BytesRecv i = ps_recv p \<and> pi_BytesSent i = ps_sent p)"
proof -
  from inv obtain list where
    g: "GetAll now t = Some (\<lparr>pr_Peers = list, pr_Count = length list, pr_SampledAt = now\<rparr>,
       t\<lparr>tr_peers := fmmap (sample now) (tr_peers t)\<rparr>)"
    and keys: "map pi_PublicKey list = sorted_list_of_fset (fmdom (tr_peers t))"
    and mem: "\<And>i. i \<in> set list \<longleftrightarrow>
          (\<exists>k p. fmlookup (tr_peers t) k = Some p \<and> peerInfo k (sample now p) = Some i)"
    by (rule GetAll_Some [where now = now]) blast
  have "tracker_inv (t\<lparr>tr_peers := fmmap (sample now) (tr_peers t)\<rparr>)"
    using GetAll_same_conns [OF g] inv by (rule same_conns_inv)
  moreover have "sorted_wrt (<) (map pi_PublicKey list)"
    by (simp add: keys sorted_list_of_fset.rep_eq)
  moreover have "set (map pi_PublicKey list) = ran (fmlookup (tr_connections t))"
    using inv peer_conns_known unfolding keys
    by (auto simp: ran_def tracker_inv_def)
  moreover have "\<exists>p. fmlookup (tr_peers t) (pi_PublicKey i) = Some p \<and>
       pi_Connections i = map snd (sorted_list_of_fmap (ps_connections p)) \<and> pi_Connections i \<noteq> [] \<and>
       pi_RemoteAddr i = cn_RemoteAddr (last (pi_Connections i)) \<and>
       pi_ConnectedAt i = cn_ConnectedAt (hd (pi_Connections i)) \<and>
       pi_BytesRecv i = ps_recv p \<and> pi_BytesSent i = ps_sent p" if "i \<in> set list" for i
  proof -
    from that mem obtain k p where p: "fmlookup (tr_peers t) k = Some p"
      and i: "peerInfo k (sample now p) = Some i" by blast
    have "ps_connections (sample now p) \<noteq> fmempty"
      using tracker_inv_conns_nonempty [OF inv p] by simp
    then show ?thesis
      by (rule peerInfo_Some [of _ k]) (use p i in auto)
  qed
  ultimately show ?thesis unfolding g by auto
qed

theorem GetAll_report_witness:
  "\<exists>r t'. GetAll 9 (Register 8 ''k'' ''b:2'' 6 (Register 7 ''k'' ''a:1'' 5 NewPeerTracker)) = Some (r, t') \<and>
     map pi_PublicKey (pr_Peers r) = [''k''] \<and> pr_Count r = 1"
proof -
  let ?t1 = "Register 7 ''k'' ''a:1'' 5 NewPeerTracker"
  let ?t = "Register 8 ''k'' ''b:2'' 6 ?t1"
  have "tracker_inv ?t1"
    by (rule tracker_inv_Register [OF tracker_inv_new]) (simp add: NewPeerTracker_def)
  then have inv: "tracker_inv ?t"
    by (rule tracker_inv_Register) (simp add: conns_Register NewPeerTracker_def)
  have c: "ran (fmlookup (tr_connections ?t)) = {''k''}"
    by (auto simp: conns_Register NewPeerTracker_def ran_def)
  from GetAll_report [OF inv, of 9] obtain r t' where g: "GetAll 9 ?t = Some (r, t')"
    and s: "sorted_wrt (<) (map pi_PublicKey (pr_Peers r))"
    and k: "set (map pi_PublicKey (pr_Peers r)) = {''k''}"
    and n: "pr_Count r = length (pr_Peers r)"
    by (auto simp: c)
  from s have "distinct (map pi_PublicKey (pr_Peers r))"
    by (rule strict_sorted_iff [THEN iffD1, THEN conjunct2])
  with k have "length (map pi_PublicKey (pr_Peers r)) = 1"
    by (metis distinct_card is_singletonI is_singleton_altdef)
  with k n g show ?thesis
    by (cases "pr_Peers r") auto
qed

end
