(* ===== verification/DerpServer.thy ===== *)
theory DerpServer
  imports ClientSet Forwarder Netip Tracker
begin

text \<open>
  The connection registry of the DERP server, \<open>Server\<close> and \<open>sclient\<close> of
  \<^verbatim>\<open>internal/derpserver/derpserver.go\<close>: registration and removal of clients, duplicate connections,
  mesh watchers and forwarders, peer-gone notifications, rate-limit configuration and the gauges.

  \<^item> The objects behind \<open>*sclient\<close> pointers are the store \<open>sv_conns\<close>, indexed by \<open>connNum\<close>.
  \<^item> Every operation below runs under \<open>Server.mu\<close> in the code, so it is one atomic step; a
    \<^verbatim>\<open>go f()\<close> statement appends to \<open>sv_spawned\<close>.
  \<^item> A \<open>panic\<close> is the result \<^term>\<open>None\<close>. Log output is left out.
  \<^item> \<open>kstr\<close> stands for \<open>NodePublic.String\<close> of \<^verbatim>\<open>tailscale.com/types/key\<close>; the mesh key is
    \<^term>\<open>None\<close> when it is the zero key; presence flags are the list of the flags that are set.
  \<^item> The \<open>expvar.Int\<close> gauges are integers: they move by at most two per connection event, so their
    64 bits are not exceeded in any run of the process.
\<close>

section \<open>State\<close>

type_synonym node_public = bytes

datatype dupPolicy = lastWriterIsActive | disableFighters

datatype PeerPresentFlag = PeerPresentIsRegular | PeerPresentIsMeshPeer | PeerPresentIsProber | PeerPresentNotIdeal

record peerConnState =
  pcs_ipPort :: AddrPort
  pcs_peer :: node_public
  pcs_flags :: "PeerPresentFlag list"
  pcs_present :: bool

record pkt =
  pk_enqueuedAt :: gotime
  pk_bs :: bytes
  pk_src :: node_public

datatype PeerGoneReason = PeerGoneReasonDisconnected | PeerGoneReasonNotHere

datatype goroutine =
    RequestMeshUpdate sptr
  | OnPeerGoneFromRegion sptr node_public
  | RequestPeerGoneWrite sptr node_public PeerGoneReason
  | CloseConn sptr

record RateConfig =
  PerClientRateLimitBytesPerSec :: uint64
  PerClientRateBurstBytes :: uint64

text \<open>A limiter of \<^verbatim>\<open>golang.org/x/time/rate\<close>, by the arguments it is made with.\<close>

record Limiter =
  lim_limit :: uint64
  lim_burst :: int

record sclient =
  sc_key :: node_public
  sc_isProber :: bool
  sc_remoteIPPort :: AddrPort
  sc_remoteAddr :: string
  sc_connectedAt :: gotime
  sc_canMesh :: bool
  sc_isNotIdealConn :: bool
  sc_isDup :: bool
  sc_isDisabled :: bool
  sc_preferred :: bool
  sc_ctxDone :: bool
  sc_sendQueue :: "pkt list"
  sc_discoSendQueue :: "pkt list"
  sc_sawSrc :: "(node_public, nat) fmap"
  sc_peerStateChange :: "peerConnState list"
  sc_recvLim :: "Limiter option"

record gauges =
  curClients :: int
  curClientsNotIdeal :: int
  curHomeClients :: int
  dupClientKeys :: int
  dupClientConns :: int
  dupClientConnTotal :: int
  homeMovesIn :: int
  homeMovesOut :: int
  multiForwarderCreated :: int
  multiForwarderDeleted :: int
  removePktForwardOther :: int

record Server =
  sv_publicKey :: node_public
  sv_dupPolicy :: dupPolicy
  sv_accepts :: int
  sv_conns :: "sptr \<Rightarrow> sclient"
  sv_clients :: "(node_public, clientSet) fmap"
  sv_numLocalClientKeys :: int
  sv_watchers :: "sptr fset"
  sv_clientsMesh :: "(node_public, PacketForwarder option) fmap"
  sv_peerGoneWatchers :: "(node_public, (nat, sptr) fmap) fmap"
  sv_nextHandle :: nat
  sv_keyOfAddr :: "(AddrPort, node_public) fmap"
  sv_rateConfig :: RateConfig
  sv_peerTracker :: "PeerTracker option"
  sv_gauges :: gauges
  sv_spawned :: "goroutine list"

abbreviation sv_key :: "Server \<Rightarrow> sptr \<Rightarrow> node_public" where
  "sv_key s c \<equiv> sc_key (sv_conns s c)"

definition upd_conn :: "sptr \<Rightarrow> (sclient \<Rightarrow> sclient) \<Rightarrow> Server \<Rightarrow> Server" where
  "upd_conn c f s = s\<lparr>sv_conns := (sv_conns s)(c := f (sv_conns s c))\<rparr>"

definition spawn :: "goroutine list \<Rightarrow> Server \<Rightarrow> Server" where
  "spawn gs s = s\<lparr>sv_spawned := sv_spawned s @ gs\<rparr>"

section \<open>Operations\<close>

definition setRateLimit :: "uint64 \<Rightarrow> uint64 \<Rightarrow> sclient \<Rightarrow> sclient" where
  "setRateLimit bytesPerSec burst c =
     (if sc_canMesh c \<or> bytesPerSec = 0 then c\<lparr>sc_recvLim := None\<rparr>
      else c\<lparr>sc_recvLim := Some \<lparr>lim_limit = bytesPerSec, lim_burst = sint burst\<rparr>\<rparr>)"

definition presentFlags :: "sclient \<Rightarrow> PeerPresentFlag list" where
  "presentFlags c =
     (let f = (if sc_isProber c then [PeerPresentIsProber] else []) @
              (if sc_canMesh c then [PeerPresentIsMeshPeer] else []) @
              (if sc_isNotIdealConn c then [PeerPresentNotIdeal] else [])
      in if f = [] then [PeerPresentIsRegular] else f)"

definition broadcastPeerStateChangeLocked ::
    "node_public \<Rightarrow> AddrPort \<Rightarrow> PeerPresentFlag list \<Rightarrow> bool \<Rightarrow> Server \<Rightarrow> Server" where
  "broadcastPeerStateChangeLocked peer ipPort flags present s =
     (let m = \<lparr>pcs_ipPort = ipPort, pcs_peer = peer, pcs_flags = flags, pcs_present = present\<rparr> in
      spawn (map RequestMeshUpdate (sorted_list_of_fset (sv_watchers s)))
        (s\<lparr>sv_conns := (\<lambda>w. if w |\<in>| sv_watchers s
             then (sv_conns s w)\<lparr>sc_peerStateChange := sc_peerStateChange (sv_conns s w) @ [m]\<rparr>
             else sv_conns s w)\<rparr>))"

text \<open>The client set after \<open>registerClient\<close> has added \<open>c\<close> to it.\<close>

definition add_client :: "sptr \<Rightarrow> clientSet \<Rightarrow> clientSet" where
  "add_client c cs =
     \<lparr>cs_activeClient = Some c,
      cs_dup = (case cs_dup cs of
                  None \<Rightarrow> (case cs_activeClient cs of
                             None \<Rightarrow> None
                           | Some was \<Rightarrow> Some \<lparr>dc_set = {|c, was|}, dc_last = Some c, dc_sendHistory = [was]\<rparr>)
                | Some d \<Rightarrow> Some (d\<lparr>dc_set := finsert c (dc_set d), dc_last := Some c,
                                    dc_sendHistory := dc_sendHistory d @ [c]\<rparr>))\<rparr>"

text \<open>The gauges of duplicate connections, from the state of the client set before \<open>c\<close> is added.\<close>

definition count_added :: "clientSet \<Rightarrow> gauges \<Rightarrow> gauges" where
  "count_added cs g =
     (case (cs_dup cs, cs_activeClient cs) of
        (None, Some _) \<Rightarrow> g\<lparr>dupClientKeys := dupClientKeys g + 1, dupClientConns := dupClientConns g + 2,
                             dupClientConnTotal := dupClientConnTotal g + 1\<rparr>
      | (Some _, _) \<Rightarrow> g\<lparr>dupClientConns := dupClientConns g + 1, dupClientConnTotal := dupClientConnTotal g + 1\<rparr>
      | (None, None) \<Rightarrow> g)"

text \<open>\<open>registerClient\<close> in the order of its statements: the client set of the key, before \<open>c\<close> joins
  (created and counted when absent); the duplicate marks; the new client set and its gauges; the
  nil mesh entry; the address and the connection gauges, announced to the watchers; the tracker.\<close>

definition set_before :: "sptr \<Rightarrow> Server \<Rightarrow> clientSet" where
  "set_before c s = (case fmlookup (sv_clients s) (sv_key s c) of None \<Rightarrow> new_clientSet | Some cs \<Rightarrow> cs)"

definition reg_marks :: "sptr \<Rightarrow> Server \<Rightarrow> Server" where
  "reg_marks c s =
     (case cs_activeClient (set_before c s) of
        None \<Rightarrow> s
      | Some was \<Rightarrow> upd_conn c (sc_isDup_update (\<lambda>_. True)) (upd_conn was (sc_isDup_update (\<lambda>_. True)) s))"

definition reg_set :: "sptr \<Rightarrow> Server \<Rightarrow> Server" where
  "reg_set c s =
     s\<lparr>sv_numLocalClientKeys := (if fmlookup (sv_clients s) (sv_key s c) = None then sv_numLocalClientKeys s + 1
                                  else sv_numLocalClientKeys s),
       sv_gauges := count_added (set_before c s) (sv_gauges s),
       sv_clients := fmupd (sv_key s c) (add_client c (set_before c s)) (sv_clients s)\<rparr>"

definition reg_mesh :: "sptr \<Rightarrow> Server \<Rightarrow> Server" where
  "reg_mesh c s =
     (if fmlookup (sv_clientsMesh s) (sv_key s c) = None
      then s\<lparr>sv_clientsMesh := fmupd (sv_key s c) None (sv_clientsMesh s)\<rparr> else s)"

definition reg_present :: "sptr \<Rightarrow> Server \<Rightarrow> Server" where
  "reg_present c s =
     (let me = sv_conns s c; g = sv_gauges s
      in broadcastPeerStateChangeLocked (sc_key me) (sc_remoteIPPort me) (presentFlags me) True
           (s\<lparr>sv_keyOfAddr := fmupd (sc_remoteIPPort me) (sc_key me) (sv_keyOfAddr s),
              sv_gauges := g\<lparr>curClients := curClients g + 1,
                              curClientsNotIdeal := (if sc_isNotIdealConn me then curClientsNotIdeal g + 1
                                                     else curClientsNotIdeal g)\<rparr>\<rparr>))"

definition reg_track :: "(node_public \<Rightarrow> string) \<Rightarrow> sptr \<Rightarrow> Server \<Rightarrow> Server" where
  "reg_track kstr c s =
     (let me = sv_conns s c in
      case sv_peerTracker s of
        Some t \<Rightarrow> if \<not> sc_canMesh me
                  then s\<lparr>sv_peerTracker := Some (Register c (kstr (sc_key me)) (sc_remoteAddr me) (sc_connectedAt me) t)\<rparr>
                  else s
      | None \<Rightarrow> s)"

definition registerClient :: "(node_public \<Rightarrow> string) \<Rightarrow> sptr \<Rightarrow> Server \<Rightarrow> Server" where
  "registerClient kstr c s =
     (reg_track kstr c \<circ> reg_present c \<circ> reg_mesh c \<circ> reg_set c \<circ> reg_marks c \<circ>
      upd_conn c (setRateLimit (PerClientRateLimitBytesPerSec (sv_rateConfig s))
                               (PerClientRateBurstBytes (sv_rateConfig s)))) s"

definition notePeerGoneFromRegionLocked :: "node_public \<Rightarrow> Server \<Rightarrow> Server option" where
  "notePeerGoneFromRegionLocked key s =
     (if fmlookup (sv_clientsMesh s) key \<noteq> None then None
      else (let ws = (case fmlookup (sv_peerGoneWatchers s) key of None \<Rightarrow> [] | Some h \<Rightarrow> map snd (sorted_list_of_fmap h))
            in Some (spawn (map (\<lambda>w. OnPeerGoneFromRegion w key) ws)
                       (s\<lparr>sv_peerGoneWatchers := fmdrop key (sv_peerGoneWatchers s)\<rparr>))))"

text \<open>The part of \<open>unregisterClient\<close> after the client set has been updated.\<close>

definition finish_unregister :: "sptr \<Rightarrow> Server \<Rightarrow> Server" where
  "finish_unregister c s =
     (let me = sv_conns s c;
          s = (if sc_canMesh me then s\<lparr>sv_watchers := sv_watchers s |-| {|c|}\<rparr> else s);
          g = sv_gauges s
      in s\<lparr>sv_keyOfAddr := fmdrop (sc_remoteIPPort me) (sv_keyOfAddr s),
           sv_gauges := g\<lparr>curClients := curClients g - 1,
                           curHomeClients := (if sc_preferred me then curHomeClients g - 1 else curHomeClients g),
                           curClientsNotIdeal := (if sc_isNotIdealConn me then curClientsNotIdeal g - 1
                                                  else curClientsNotIdeal g)\<rparr>\<rparr>)"

text \<open>The branch for a key with a single connection.\<close>

definition unregister_single :: "sptr \<Rightarrow> Server \<Rightarrow> Server option" where
  "unregister_single c s =
     (let key = sv_key s c;
          s = s\<lparr>sv_clients := fmdrop key (sv_clients s),
                sv_numLocalClientKeys := sv_numLocalClientKeys s - 1\<rparr>;
          gone = (if fmlookup (sv_clientsMesh s) key = Some None
                  then notePeerGoneFromRegionLocked key (s\<lparr>sv_clientsMesh := fmdrop key (sv_clientsMesh s)\<rparr>)
                  else Some s)
      in map_option (broadcastPeerStateChangeLocked key AddrPort_zero [] False) gone)"

text \<open>The branch for a key with several connections. A set of one element is demoted; picking its
  element from an empty set would be the panic on a nil \<open>remain\<close>.\<close>

definition unregister_dup :: "sptr \<Rightarrow> clientSet \<Rightarrow> dupClientSet \<Rightarrow> Server \<Rightarrow> Server option" where
  "unregister_dup c cs d s =
     (let key = sv_key s c;
          (removed, d') = removeClient c d;
          g = sv_gauges s;
          g = (if removed then g\<lparr>dupClientConns := dupClientConns g - 1\<rparr> else g)
      in if fcard (dc_set d') = 1 then
           (case sorted_list_of_fset (dc_set d') of
              [] \<Rightarrow> None
            | remain # _ \<Rightarrow> Some
                (upd_conn remain (\<lambda>x. x\<lparr>sc_isDisabled := False, sc_isDup := False\<rparr>)
                  (s\<lparr>sv_gauges := g\<lparr>dupClientConns := dupClientConns g - 1, dupClientKeys := dupClientKeys g - 1\<rparr>,
                     sv_clients := fmupd key (cs\<lparr>cs_dup := None, cs_activeClient := Some remain\<rparr>) (sv_clients s)\<rparr>)))
         else
           (let cs' = cs\<lparr>cs_dup := Some d'\<rparr> in
            Some (s\<lparr>sv_gauges := g,
                    sv_clients := fmupd key
                      (cs'\<lparr>cs_activeClient := pickActiveClient (\<lambda>x. sc_isDisabled (sv_conns s x)) cs'\<rparr>)
                      (sv_clients s)\<rparr>)))"

definition unreg_track :: "sptr \<Rightarrow> Server \<Rightarrow> Server option" where
  "unreg_track c s =
     (case sv_peerTracker s of
        Some t \<Rightarrow> if \<not> sc_canMesh (sv_conns s c)
                  then map_option (\<lambda>t'. s\<lparr>sv_peerTracker := Some t'\<rparr>) (Unregister c t) else Some s
      | None \<Rightarrow> Some s)"

definition unregisterClient :: "sptr \<Rightarrow> Server \<Rightarrow> Server option" where
  "unregisterClient c s0 =
     Option.bind (unreg_track c s0)
       (\<lambda>s. case fmlookup (sv_clients s) (sv_key s c) of
              None \<Rightarrow> Some s
            | Some cs \<Rightarrow>
                (case cs_dup cs of
                   None \<Rightarrow> if cs_activeClient cs \<noteq> Some c then Some s
                           else map_option (finish_unregister c) (unregister_single c s)
                 | Some d \<Rightarrow> map_option (finish_unregister c) (unregister_dup c cs d s)))"

text \<open>\<open>noteClientActivity\<close> reads two atomic flags before it takes \<open>Server.mu\<close>;
  \<open>noteActivityLocked\<close> is the part under the lock, which may run after the flags have changed.\<close>

definition activity_sets :: "dupPolicy \<Rightarrow> sptr \<Rightarrow> clientSet \<Rightarrow> dupClientSet \<Rightarrow> bool \<times> clientSet" where
  "activity_sets pol c cs d =
     (let take = pol = lastWriterIsActive \<or> dc_last d = None;
          d1 = (if take then d\<lparr>dc_last := Some c\<rparr> else d);
          act = (if take then Some c else cs_activeClient cs)
      in if dc_sendHistory d \<noteq> [] \<and> last (dc_sendHistory d) = c
         then (False, \<lparr>cs_activeClient = act, cs_dup = Some d1\<rparr>)
         else (let fighting = pol = disableFighters \<and> c \<in> set (dc_sendHistory d);
                   act' = (if fighting then (case act of Some a \<Rightarrow> if a |\<in>| dc_set d then None else act | None \<Rightarrow> None)
                           else act)
               in (fighting, \<lparr>cs_activeClient = act', cs_dup = Some (d1\<lparr>dc_sendHistory := dc_sendHistory d @ [c]\<rparr>)\<rparr>)))"

definition noteActivityLocked :: "sptr \<Rightarrow> Server \<Rightarrow> Server" where
  "noteActivityLocked c s =
     (case fmlookup (sv_clients s) (sv_key s c) of
        None \<Rightarrow> s
      | Some cs \<Rightarrow>
          (case cs_dup cs of
             None \<Rightarrow> s
           | Some d \<Rightarrow>
               (let (fighting, cs') = activity_sets (sv_dupPolicy s) c cs d
                in s\<lparr>sv_conns := (\<lambda>x. if fighting \<and> x |\<in>| dc_set d then (sv_conns s x)\<lparr>sc_isDisabled := True\<rparr>
                                        else sv_conns s x),
                     sv_clients := fmupd (sv_key s c) cs' (sv_clients s)\<rparr>)))"

definition noteClientActivity :: "sptr \<Rightarrow> Server \<Rightarrow> Server" where
  "noteClientActivity c s =
     (if \<not> sc_isDup (sv_conns s c) then s
      else if sc_isDisabled (sv_conns s c) then s
      else noteActivityLocked c s)"

definition addPeerGoneFromRegionWatcher :: "node_public \<Rightarrow> sptr \<Rightarrow> Server \<Rightarrow> nat \<times> Server" where
  "addPeerGoneFromRegionWatcher peer f s =
     (let hset = (case fmlookup (sv_peerGoneWatchers s) peer of None \<Rightarrow> fmempty | Some h \<Rightarrow> h);
          h = sv_nextHandle s
      in (h, s\<lparr>sv_peerGoneWatchers := fmupd peer (fmupd h f hset) (sv_peerGoneWatchers s),
               sv_nextHandle := Suc h\<rparr>))"

definition removePeerGoneFromRegionWatcher :: "node_public \<Rightarrow> nat \<Rightarrow> Server \<Rightarrow> Server" where
  "removePeerGoneFromRegionWatcher peer h s =
     (case fmlookup (sv_peerGoneWatchers s) peer of
        None \<Rightarrow> s
      | Some hset \<Rightarrow>
          (let hset' = fmdrop h hset in
           s\<lparr>sv_peerGoneWatchers := (if hset' = fmempty then fmdrop peer (sv_peerGoneWatchers s)
                                      else fmupd peer hset' (sv_peerGoneWatchers s))\<rparr>))"

definition noteSendFromSrc :: "sptr \<Rightarrow> node_public \<Rightarrow> Server \<Rightarrow> Server" where
  "noteSendFromSrc c src s =
     (case fmlookup (sc_sawSrc (sv_conns s c)) src of
        Some _ \<Rightarrow> s
      | None \<Rightarrow> (let (h, s') = addPeerGoneFromRegionWatcher src c s
                 in upd_conn c (\<lambda>x. x\<lparr>sc_sawSrc := fmupd src h (sc_sawSrc x)\<rparr>) s'))"

text \<open>The presence messages \<open>addWatcher\<close> queues for the clients already connected.\<close>

definition present_messages :: "Server \<Rightarrow> peerConnState list" where
  "present_messages s =
     concat (map (\<lambda>(peer, cs). case cs_activeClient cs of
                    None \<Rightarrow> []
                  | Some ac \<Rightarrow> [\<lparr>pcs_ipPort = sc_remoteIPPort (sv_conns s ac), pcs_peer = peer,
                                 pcs_flags = presentFlags (sv_conns s ac), pcs_present = True\<rparr>])
              (sorted_list_of_fmap (sv_clients s)))"

definition addWatcher :: "sptr \<Rightarrow> Server \<Rightarrow> Server option" where
  "addWatcher c s =
     (if \<not> sc_canMesh (sv_conns s c) then None
      else if sv_key s c = sv_publicKey s then Some s
      else (let s' = upd_conn c (\<lambda>x. x\<lparr>sc_peerStateChange := sc_peerStateChange x @ present_messages s\<rparr>) s
            in Some (spawn [RequestMeshUpdate c] (s'\<lparr>sv_watchers := finsert c (sv_watchers s')\<rparr>))))"

text \<open>The local client, the mesh forwarder, and the number of duplicate connections for a key.\<close>

definition lookupDest :: "node_public \<Rightarrow> Server \<Rightarrow> sptr option \<times> PacketForwarder option \<times> nat" where
  "lookupDest dst s =
     (let cs = fmlookup (sv_clients s) dst;
          act = Option.bind cs cs_activeClient
      in case act of
           Some c \<Rightarrow> (Some c, None, 1)
         | None \<Rightarrow>
             (let dstLen = (case cs of Some x \<Rightarrow> clientSet_Len x | None \<Rightarrow> 0);
                  fwd = (if dstLen < 1 then Option.bind (fmlookup (sv_clientsMesh s) dst) (\<lambda>x. x) else None)
              in (None, fwd, dstLen)))"

text \<open>\<open>sinceConnect\<close> is the result of \<open>clock.Since(c.connectedAt)\<close>.\<close>

definition setPreferred :: "sptr \<Rightarrow> bool \<Rightarrow> duration \<Rightarrow> Server \<Rightarrow> Server" where
  "setPreferred c v sinceConnect s =
     (if sc_preferred (sv_conns s c) = v then s
      else (let s = upd_conn c (sc_preferred_update (\<lambda>_. v)) s;
                g = sv_gauges s;
                g = (if v then g\<lparr>curHomeClients := curHomeClients g + 1\<rparr> else g\<lparr>curHomeClients := curHomeClients g - 1\<rparr>);
                g = (if sinceConnect > 5 * second
                     then (if v then g\<lparr>homeMovesIn := homeMovesIn g + 1\<rparr> else g\<lparr>homeMovesOut := homeMovesOut g + 1\<rparr>)
                     else g)
            in s\<lparr>sv_gauges := g\<rparr>))"

definition put_mesh :: "node_public \<Rightarrow> mesh_entry \<Rightarrow> Server \<Rightarrow> Server" where
  "put_mesh dst e s = s\<lparr>sv_clientsMesh := (case e of None \<Rightarrow> fmdrop dst (sv_clientsMesh s)
                                             | Some v \<Rightarrow> fmupd dst v (sv_clientsMesh s))\<rparr>"

definition AddPacketForwarder :: "node_public \<Rightarrow> fwd_id \<Rightarrow> Server \<Rightarrow> Server" where
  "AddPacketForwarder dst fwd s =
     (let (e, created) = add_entry fwd (fmlookup (sv_clientsMesh s) dst);
          s = (if created
               then s\<lparr>sv_gauges := (sv_gauges s)\<lparr>multiForwarderCreated := multiForwarderCreated (sv_gauges s) + 1\<rparr>\<rparr> else s)
      in put_mesh dst e s)"

definition RemovePacketForwarder :: "node_public \<Rightarrow> fwd_id \<Rightarrow> Server \<Rightarrow> Server option" where
  "RemovePacketForwarder dst fwd s =
     (case remove_entry fwd (fmlookup (sv_clientsMesh s) dst) of
        RemoveAbsent \<Rightarrow> Some s
      | RemovePanic \<Rightarrow> None
      | RemoveKept v \<Rightarrow> Some (put_mesh dst (Some (Some v)) s)
      | RemoveCollapsed r \<Rightarrow> Some (put_mesh dst (Some (Some (PlainForwarder r)))
          (s\<lparr>sv_gauges := (sv_gauges s)\<lparr>multiForwarderDeleted := multiForwarderDeleted (sv_gauges s) + 1\<rparr>\<rparr>))
      | RemoveOther \<Rightarrow> Some (s\<lparr>sv_gauges := (sv_gauges s)\<lparr>removePktForwardOther := removePktForwardOther (sv_gauges s) + 1\<rparr>\<rparr>)
      | RemoveGone \<Rightarrow>
          (if fmlookup (sv_clients s) dst \<noteq> None then Some (put_mesh dst (Some None) s)
           else notePeerGoneFromRegionLocked dst (put_mesh dst None s)))"

text \<open>\<open>minBucket\<close> is \<open>minRateLimitTokenBucketSize\<close>, the sum of two constants of
  \<^verbatim>\<open>tailscale.com/derp\<close>.\<close>

definition applied_limits :: "uint64 \<Rightarrow> RateConfig \<Rightarrow> RateConfig" where
  "applied_limits minBucket rc =
     (if PerClientRateLimitBytesPerSec rc = 0
      then \<lparr>PerClientRateLimitBytesPerSec = 0, PerClientRateBurstBytes = 0\<rparr>
      else rc\<lparr>PerClientRateBurstBytes := max (PerClientRateBurstBytes rc) minBucket\<rparr>)"

definition UpdateRateLimits :: "uint64 \<Rightarrow> RateConfig \<Rightarrow> Server \<Rightarrow> RateConfig \<times> Server" where
  "UpdateRateLimits minBucket rc0 s =
     (let rc = applied_limits minBucket rc0;
          all = (\<lambda>c. \<exists>cs\<in>set (map snd (sorted_list_of_fmap (sv_clients s))). c |\<in>| ForeachClient cs)
      in (rc, s\<lparr>sv_rateConfig := rc,
                sv_conns := (\<lambda>c. if all c
                  then setRateLimit (PerClientRateLimitBytesPerSec rc) (PerClientRateBurstBytes rc) (sv_conns s c)
                  else sv_conns s c)\<rparr>))"

text \<open>The three comparisons of \<open>ConsistencyCheck\<close>, in its order; \<open>verifyErr\<close> is the result of
  \<open>checkVerifyClientsLocalTailscaled\<close> when that check is enabled.\<close>

datatype consistency_error =
    MeshKeysNotInClients nat
  | ClientKeysNotInMesh nat
  | ConnectionsDiffer int int
  | VerifySelfFailed string

definition ConsistencyCheck :: "string option \<Rightarrow> Server \<Rightarrow> consistency_error list" where
  "ConsistencyCheck verifyErr s =
     (let nilMeshNotInClient = length (filter (\<lambda>(k, f). f = None \<and> fmlookup (sv_clients s) k = None)
                                         (sorted_list_of_fmap (sv_clientsMesh s)));
          clientNotInMesh = length (filter (\<lambda>(k, _). fmlookup (sv_clientsMesh s) k = None)
                                         (sorted_list_of_fmap (sv_clients s)))
      in (if nilMeshNotInClient \<noteq> 0 then [MeshKeysNotInClients nilMeshNotInClient] else []) @
         (if clientNotInMesh \<noteq> 0 then [ClientKeysNotInMesh clientNotInMesh] else []) @
         (if curClients (sv_gauges s) \<noteq> sv_numLocalClientKeys s
          then [ConnectionsDiffer (curClients (sv_gauges s)) (sv_numLocalClientKeys s)] else []) @
         (case verifyErr of None \<Rightarrow> [] | Some e \<Rightarrow> [VerifySelfFailed e]))"

section \<open>Well-formed servers\<close>

text \<open>The connections recorded for a key.\<close>

definition mem_at :: "Server \<Rightarrow> node_public \<Rightarrow> sptr fset" where
  "mem_at s k = (case fmlookup (sv_clients s) k of None \<Rightarrow> {||} | Some cs \<Rightarrow> ForeachClient cs)"

definition registered :: "Server \<Rightarrow> sptr set" where
  "registered s = {c. c |\<in>| mem_at s (sv_key s c)}"

text \<open>Sums over the registered connections, as sums over the client sets.\<close>

definition conn_count :: "(sptr \<Rightarrow> bool) \<Rightarrow> Server \<Rightarrow> int" where
  "conn_count P s = fm_sum (\<lambda>cs. int (fcard (ffilter P (ForeachClient cs)))) (sv_clients s)"

definition is_dup_set :: "clientSet \<Rightarrow> bool" where
  "is_dup_set cs \<longleftrightarrow> cs_dup cs \<noteq> None"

definition dup_keys :: "Server \<Rightarrow> int" where
  "dup_keys s = fm_sum (\<lambda>cs. if is_dup_set cs then 1 else 0) (sv_clients s)"

definition dup_conns :: "Server \<Rightarrow> int" where
  "dup_conns s = fm_sum (\<lambda>cs. if is_dup_set cs then int (fcard (ForeachClient cs)) else 0) (sv_clients s)"

text \<open>
  The client set of a key: it is well-formed and holds connections of that key only; a connection
  alone for its key is neither marked duplicate nor disabled. Under \<open>lastWriterIsActive\<close> nobody is
  disabled, every member of a duplicate set is marked, and the set is live.
\<close>

definition set_ok :: "(sptr \<Rightarrow> sclient) \<Rightarrow> dupPolicy \<Rightarrow> node_public \<Rightarrow> clientSet \<Rightarrow> bool" where
  "set_ok conns pol k cs \<longleftrightarrow>
     clientSet_wf cs \<and> (\<forall>c. c |\<in>| ForeachClient cs \<longrightarrow> sc_key (conns c) = k) \<and>
     (cs_dup cs = None \<longrightarrow> (\<forall>c. c |\<in>| ForeachClient cs \<longrightarrow> \<not> sc_isDup (conns c) \<and> \<not> sc_isDisabled (conns c))) \<and>
     (pol = lastWriterIsActive \<longrightarrow>
        (\<forall>c. c |\<in>| ForeachClient cs \<longrightarrow> \<not> sc_isDisabled (conns c)) \<and>
        (\<forall>d. cs_dup cs = Some d \<longrightarrow> dup_live (cs_activeClient cs) d \<and>
             (\<forall>c. c |\<in>| ForeachClient cs \<longrightarrow> sc_isDup (conns c))))"

definition sets_ok :: "Server \<Rightarrow> bool" where
  "sets_ok s \<longleftrightarrow> (\<forall>k cs. fmlookup (sv_clients s) k = Some cs \<longrightarrow> set_ok (sv_conns s) (sv_dupPolicy s) k cs)"

definition gauges_ok :: "Server \<Rightarrow> bool" where
  "gauges_ok s \<longleftrightarrow>
     sv_numLocalClientKeys s = int (fcard (fmdom (sv_clients s))) \<and>
     curClients (sv_gauges s) = conn_count (\<lambda>_. True) s \<and>
     curClientsNotIdeal (sv_gauges s) = conn_count (\<lambda>c. sc_isNotIdealConn (sv_conns s c)) s \<and>
     curHomeClients (sv_gauges s) = conn_count (\<lambda>c. sc_preferred (sv_conns s c)) s \<and>
     dupClientKeys (sv_gauges s) = dup_keys s \<and>
     dupClientConns (sv_gauges s) = dup_conns s"

text \<open>Mesh entries: every local key has one, a nil entry is a local key, forwarder sets are
  well-formed.\<close>

definition mesh_ok :: "Server \<Rightarrow> bool" where
  "mesh_ok s \<longleftrightarrow>
     (\<forall>k. fmlookup (sv_clients s) k \<noteq> None \<longrightarrow> fmlookup (sv_clientsMesh s) k \<noteq> None) \<and>
     (\<forall>k. fmlookup (sv_clientsMesh s) k = Some None \<longrightarrow> fmlookup (sv_clients s) k \<noteq> None) \<and>
     (\<forall>k m. fmlookup (sv_clientsMesh s) k = Some (Some (MultiForwarder m)) \<longrightarrow>
        2 \<le> length (mf_all m) \<and> distinct (map fst (mf_all m)))"

definition watchers_ok :: "Server \<Rightarrow> bool" where
  "watchers_ok s \<longleftrightarrow> (\<forall>w. w |\<in>| sv_watchers s \<longrightarrow> w \<in> registered s \<and> sc_canMesh (sv_conns s w))"

text \<open>The tracker, when there is one, knows exactly the registered connections that are not mesh
  peers.\<close>

definition tracker_for :: "PeerTracker option \<Rightarrow> sptr set \<Rightarrow> bool" where
  "tracker_for tr A \<longleftrightarrow> (case tr of None \<Rightarrow> True | Some t \<Rightarrow> tracker_inv t \<and> dom (fmlookup (tr_connections t)) = A)"

definition tracker_ok :: "Server \<Rightarrow> bool" where
  "tracker_ok s \<longleftrightarrow> tracker_for (sv_peerTracker s) {c \<in> registered s. \<not> sc_canMesh (sv_conns s c)}"

definition registry_ok :: "Server \<Rightarrow> bool" where
  "registry_ok s \<longleftrightarrow> sets_ok s \<and> gauges_ok s \<and> mesh_ok s \<and> watchers_ok s"

definition server_inv :: "Server \<Rightarrow> bool" where
  "server_inv s \<longleftrightarrow> registry_ok s \<and> tracker_ok s"

end
