(* ===== verification/DerpInvariant.thy ===== *)
theory DerpInvariant
  imports DerpServer
begin

text \<open>
  Preservation of the registry invariant \<^const>\<open>server_inv\<close> by the operations of theory
  \<open>DerpServer\<close>. Each operation is first described by what it does to the fields the invariant
  reads (its projections); the parts of the invariant then follow from lemmas on one client set.
\<close>

section \<open>One client set\<close>

lemma set_ok_frame:
  assumes "set_ok conns pol k cs"
    and "\<And>x. x |\<in>| ForeachClient cs \<Longrightarrow> sc_key (conns' x) = sc_key (conns x) \<and>
           sc_isDup (conns' x) = sc_isDup (conns x) \<and> sc_isDisabled (conns' x) = sc_isDisabled (conns x)"
  shows "set_ok conns' pol k cs"
  using assms by (simp add: set_ok_def)

lemma set_okD:
  assumes "set_ok conns pol k cs"
  shows "clientSet_wf cs" and "\<And>c. c |\<in>| ForeachClient cs \<Longrightarrow> sc_key (conns c) = k"
  using assms by (simp_all add: set_ok_def)

lemma ffilter_empty [simp]: "ffilter P {||} = {||}"
  by auto

lemma fcard_single [simp]: "fcard {|x|} = Suc 0"
  by (simp add: fcard_finsert_disjoint)

lemma fcard_filter_insert:
  "c |\<notin>| A \<Longrightarrow> int (fcard (ffilter P (finsert c A))) = int (fcard (ffilter P A)) + of_bool (P c)"
proof -
  assume "c |\<notin>| A"
  moreover have "ffilter P (finsert c A) = (if P c then finsert c (ffilter P A) else ffilter P A)" by auto
  ultimately show ?thesis by (simp add: fcard_finsert_disjoint)
qed

lemma fcard_filter_remove:
  "c |\<in>| A \<Longrightarrow> int (fcard (ffilter P (A |-| {|c|}))) = int (fcard (ffilter P A)) - of_bool (P c)"
  using fcard_filter_insert [of c "A |-| {|c|}" P] by (simp add: finsert_absorb)

lemma Foreach_add_client:
  assumes "cs = new_clientSet \<or> clientSet_wf cs"
  shows "ForeachClient (add_client c cs) = finsert c (ForeachClient cs)"
  using assms
  by (auto simp: ForeachClient_def add_client_def new_clientSet_def clientSet_wf_def split: option.splits)

lemma is_dup_add_client:
  "cs = new_clientSet \<Longrightarrow> \<not> is_dup_set (add_client c cs)"
  "clientSet_wf cs \<Longrightarrow> is_dup_set (add_client c cs)"
  by (auto simp: is_dup_set_def add_client_def new_clientSet_def clientSet_wf_def split: option.splits)

lemma add_client_wf:
  assumes "cs = new_clientSet \<or> clientSet_wf cs" and "c |\<notin>| ForeachClient cs"
  shows "clientSet_wf (add_client c cs)"
proof (cases "cs_dup cs")
  case None
  with assms show ?thesis
    by (auto simp: clientSet_wf_def add_client_def new_clientSet_def dup_wf_def ForeachClient_def
        fcard_finsert_disjoint split: option.splits)
next
  case (Some d)
  with assms show ?thesis
    by (auto simp: clientSet_wf_def add_client_def new_clientSet_def dup_wf_def ForeachClient_def
        fcard_finsert_disjoint)
qed

lemma add_client_live:
  assumes "clientSet_wf cs" and "\<And>d. cs_dup cs = Some d \<Longrightarrow> dup_live (cs_activeClient cs) d"
    and "cs_dup (add_client c cs) = Some d'"
  shows "dup_live (cs_activeClient (add_client c cs)) d'"
proof (cases "cs_dup cs")
  case None
  with assms(1) obtain was where was: "cs_activeClient cs = Some was"
    by (auto simp: clientSet_wf_def)
  have "card (insert c {was} - {was}) \<le> 1" by (rule order_trans [of _ "card {c}"], rule card_mono) auto
  with None was assms(3) show ?thesis by (auto simp: add_client_def dup_live_def)
next
  case (Some d)
  let ?out = "fset (dc_set d) - set (dc_sendHistory d)"
  have "insert c (fset (dc_set d)) - (insert c (set (dc_sendHistory d))) \<subseteq> ?out" by auto
  then have "card (insert c (fset (dc_set d)) - insert c (set (dc_sendHistory d))) \<le> card ?out"
    by (intro card_mono) auto
  with assms(2) [OF Some] Some assms(3) show ?thesis
    by (auto simp: add_client_def dup_live_def)
qed

section \<open>Counting connections\<close>

lemma conn_count_cong:
  assumes "sv_clients s' = sv_clients s"
    and "\<And>k cs c. fmlookup (sv_clients s) k = Some cs \<Longrightarrow> c |\<in>| ForeachClient cs \<Longrightarrow> P' c = P c"
  shows "conn_count P' s' = conn_count P s"
proof -
  have "ffilter P' (ForeachClient cs) = ffilter P (ForeachClient cs)"
    if "fmlookup (sv_clients s) k = Some cs" for k cs
    using assms(2) [OF that] by auto
  then show ?thesis
    unfolding conn_count_def assms(1) by (intro fm_sum_cong) simp
qed

lemma mem_at_Some: "fmlookup (sv_clients s) k = Some cs \<Longrightarrow> mem_at s k = ForeachClient cs"
  by (simp add: mem_at_def)

lemma sets_okD: "sets_ok s \<Longrightarrow> fmlookup (sv_clients s) k = Some cs \<Longrightarrow> set_ok (sv_conns s) (sv_dupPolicy s) k cs"
  by (simp add: sets_ok_def)

lemma sets_ok_key: "sets_ok s \<Longrightarrow> c |\<in>| mem_at s k \<Longrightarrow> sv_key s c = k"
  by (auto simp: mem_at_def dest: sets_okD set_okD split: option.splits)

lemma registered_iff: "sets_ok s \<Longrightarrow> c \<in> registered s \<longleftrightarrow> (\<exists>k. c |\<in>| mem_at s k)"
  by (auto simp: registered_def dest: sets_ok_key)

section \<open>Projections of the operations\<close>

lemma upd_conn_simps [simp]:
  "sv_clients (upd_conn c f s) = sv_clients s" "sv_gauges (upd_conn c f s) = sv_gauges s"
  "sv_clientsMesh (upd_conn c f s) = sv_clientsMesh s" "sv_watchers (upd_conn c f s) = sv_watchers s"
  "sv_peerTracker (upd_conn c f s) = sv_peerTracker s" "sv_dupPolicy (upd_conn c f s) = sv_dupPolicy s"
  "sv_numLocalClientKeys (upd_conn c f s) = sv_numLocalClientKeys s" "sv_keyOfAddr (upd_conn c f s) = sv_keyOfAddr s"
  "sv_rateConfig (upd_conn c f s) = sv_rateConfig s" "sv_accepts (upd_conn c f s) = sv_accepts s"
  "sv_conns (upd_conn c f s) = (sv_conns s)(c := f (sv_conns s c))"
  "sv_publicKey (upd_conn c f s) = sv_publicKey s" "sv_peerGoneWatchers (upd_conn c f s) = sv_peerGoneWatchers s"
  by (simp_all add: upd_conn_def)

lemma spawn_simps [simp]:
  "sv_clients (spawn g s) = sv_clients s" "sv_gauges (spawn g s) = sv_gauges s"
  "sv_clientsMesh (spawn g s) = sv_clientsMesh s" "sv_watchers (spawn g s) = sv_watchers s"
  "sv_peerTracker (spawn g s) = sv_peerTracker s" "sv_dupPolicy (spawn g s) = sv_dupPolicy s"
  "sv_numLocalClientKeys (spawn g s) = sv_numLocalClientKeys s" "sv_conns (spawn g s) = sv_conns s"
  "sv_accepts (spawn g s) = sv_accepts s" "sv_keyOfAddr (spawn g s) = sv_keyOfAddr s"
  "sv_peerGoneWatchers (spawn g s) = sv_peerGoneWatchers s" "sv_publicKey (spawn g s) = sv_publicKey s"
  by (simp_all add: spawn_def)

text \<open>The fields of a connection that no operation on the registry changes.\<close>

definition same_fixed :: "sclient \<Rightarrow> sclient \<Rightarrow> bool" where
  "same_fixed x y \<longleftrightarrow> sc_key x = sc_key y \<and> sc_canMesh x = sc_canMesh y \<and>
     sc_isNotIdealConn x = sc_isNotIdealConn y \<and> sc_remoteIPPort x = sc_remoteIPPort y \<and>
     sc_remoteAddr x = sc_remoteAddr y \<and> sc_isProber x = sc_isProber y"

lemma setRateLimit_simps [simp]:
  "sc_key (setRateLimit a b x) = sc_key x" "sc_canMesh (setRateLimit a b x) = sc_canMesh x"
  "sc_isNotIdealConn (setRateLimit a b x) = sc_isNotIdealConn x" "sc_preferred (setRateLimit a b x) = sc_preferred x"
  "sc_isDup (setRateLimit a b x) = sc_isDup x" "sc_isDisabled (setRateLimit a b x) = sc_isDisabled x"
  "sc_remoteIPPort (setRateLimit a b x) = sc_remoteIPPort x" "sc_remoteAddr (setRateLimit a b x) = sc_remoteAddr x"
  "sc_isProber (setRateLimit a b x) = sc_isProber x" "sc_connectedAt (setRateLimit a b x) = sc_connectedAt x"
  "sc_peerStateChange (setRateLimit a b x) = sc_peerStateChange x"
  by (simp_all add: setRateLimit_def)

lemma same_fixed_setRateLimit [simp]: "same_fixed (setRateLimit a b x) x"
  by (simp add: same_fixed_def)

lemma broadcast_simps [simp]:
  "sv_clients (broadcastPeerStateChangeLocked k a f p s) = sv_clients s"
  "sv_gauges (broadcastPeerStateChangeLocked k a f p s) = sv_gauges s"
  "sv_clientsMesh (broadcastPeerStateChangeLocked k a f p s) = sv_clientsMesh s"
  "sv_watchers (broadcastPeerStateChangeLocked k a f p s) = sv_watchers s"
  "sv_peerTracker (broadcastPeerStateChangeLocked k a f p s) = sv_peerTracker s"
  "sv_dupPolicy (broadcastPeerStateChangeLocked k a f p s) = sv_dupPolicy s"
  "sv_numLocalClientKeys (broadcastPeerStateChangeLocked k a f p s) = sv_numLocalClientKeys s"
  "sv_accepts (broadcastPeerStateChangeLocked k a f p s) = sv_accepts s"
  "sv_keyOfAddr (broadcastPeerStateChangeLocked k a f p s) = sv_keyOfAddr s"
  "sc_key (sv_conns (broadcastPeerStateChangeLocked k a f p s) x) = sc_key (sv_conns s x)"
  "sc_canMesh (sv_conns (broadcastPeerStateChangeLocked k a f p s) x) = sc_canMesh (sv_conns s x)"
  "sc_isNotIdealConn (sv_conns (broadcastPeerStateChangeLocked k a f p s) x) = sc_isNotIdealConn (sv_conns s x)"
  "sc_preferred (sv_conns (broadcastPeerStateChangeLocked k a f p s) x) = sc_preferred (sv_conns s x)"
  "sc_isDup (sv_conns (broadcastPeerStateChangeLocked k a f p s) x) = sc_isDup (sv_conns s x)"
  "sc_isDisabled (sv_conns (broadcastPeerStateChangeLocked k a f p s) x) = sc_isDisabled (sv_conns s x)"
  "sc_remoteIPPort (sv_conns (broadcastPeerStateChangeLocked k a f p s) x) = sc_remoteIPPort (sv_conns s x)"
  "sc_remoteAddr (sv_conns (broadcastPeerStateChangeLocked k a f p s) x) = sc_remoteAddr (sv_conns s x)"
  "sc_isProber (sv_conns (broadcastPeerStateChangeLocked k a f p s) x) = sc_isProber (sv_conns s x)"
  by (simp_all add: broadcastPeerStateChangeLocked_def Let_def)

subsection \<open>\<open>registerClient\<close>\<close>

text \<open>The fields of the connections that only the rate limit, the marks and the watchers' queues
  leave alone.\<close>

definition conn_view :: "Server \<Rightarrow> sptr \<Rightarrow> node_public \<times> bool \<times> bool \<times> bool \<times> bool \<times> string \<times> gotime" where
  "conn_view s x = (let c = sv_conns s x in
     (sc_key c, sc_canMesh c, sc_isNotIdealConn c, sc_preferred c, sc_isDisabled c, sc_remoteAddr c, sc_connectedAt c))"

lemma conn_viewD:
  assumes "conn_view s' x = conn_view s x"
  shows "sc_key (sv_conns s' x) = sc_key (sv_conns s x)" "sc_canMesh (sv_conns s' x) = sc_canMesh (sv_conns s x)"
    "sc_isNotIdealConn (sv_conns s' x) = sc_isNotIdealConn (sv_conns s x)"
    "sc_preferred (sv_conns s' x) = sc_preferred (sv_conns s x)"
    "sc_isDisabled (sv_conns s' x) = sc_isDisabled (sv_conns s x)"
    "sc_remoteAddr (sv_conns s' x) = sc_remoteAddr (sv_conns s x)"
    "sc_connectedAt (sv_conns s' x) = sc_connectedAt (sv_conns s x)"
  using assms by (simp_all add: conn_view_def Let_def)

lemma conn_view_broadcast [simp]: "conn_view (broadcastPeerStateChangeLocked k a f p s) x = conn_view s x"
  by (simp add: conn_view_def Let_def broadcastPeerStateChangeLocked_def)

lemma reg_marks_simps [simp]:
  "sv_clients (reg_marks c s) = sv_clients s" "sv_gauges (reg_marks c s) = sv_gauges s"
  "sv_clientsMesh (reg_marks c s) = sv_clientsMesh s" "sv_watchers (reg_marks c s) = sv_watchers s"
  "sv_peerTracker (reg_marks c s) = sv_peerTracker s" "sv_dupPolicy (reg_marks c s) = sv_dupPolicy s"
  "sv_numLocalClientKeys (reg_marks c s) = sv_numLocalClientKeys s" "sv_accepts (reg_marks c s) = sv_accepts s"
  "conn_view (reg_marks c s) x = conn_view s x"
  "sc_isDup (sv_conns (reg_marks c s) x) \<longleftrightarrow>
     sc_isDup (sv_conns s x) \<or> cs_activeClient (set_before c s) = Some x \<or>
     x = c \<and> cs_activeClient (set_before c s) \<noteq> None"
  by (simp_all add: reg_marks_def conn_view_def Let_def split: option.split)

lemma reg_set_simps [simp]:
  "sv_clients (reg_set c s) = fmupd (sv_key s c) (add_client c (set_before c s)) (sv_clients s)"
  "sv_gauges (reg_set c s) = count_added (set_before c s) (sv_gauges s)"
  "sv_clientsMesh (reg_set c s) = sv_clientsMesh s" "sv_watchers (reg_set c s) = sv_watchers s"
  "sv_peerTracker (reg_set c s) = sv_peerTracker s" "sv_dupPolicy (reg_set c s) = sv_dupPolicy s"
  "sv_numLocalClientKeys (reg_set c s) =
     sv_numLocalClientKeys s + of_bool (fmlookup (sv_clients s) (sv_key s c) = None)"
  "sv_accepts (reg_set c s) = sv_accepts s" "sv_conns (reg_set c s) = sv_conns s"
  "conn_view (reg_set c s) x = conn_view s x"
  by (simp_all add: reg_set_def conn_view_def)

lemma reg_mesh_simps [simp]:
  "sv_clients (reg_mesh c s) = sv_clients s" "sv_gauges (reg_mesh c s) = sv_gauges s"
  "sv_clientsMesh (reg_mesh c s) =
     (if fmlookup (sv_clientsMesh s) (sv_key s c) = None then fmupd (sv_key s c) None (sv_clientsMesh s)
      else sv_clientsMesh s)"
  "sv_watchers (reg_mesh c s) = sv_watchers s" "sv_peerTracker (reg_mesh c s) = sv_peerTracker s"
  "sv_dupPolicy (reg_mesh c s) = sv_dupPolicy s" "sv_numLocalClientKeys (reg_mesh c s) = sv_numLocalClientKeys s"
  "sv_accepts (reg_mesh c s) = sv_accepts s" "sv_conns (reg_mesh c s) = sv_conns s"
  "conn_view (reg_mesh c s) x = conn_view s x"
  by (simp_all add: reg_mesh_def conn_view_def)

lemma reg_present_simps [simp]:
  "sv_clients (reg_present c s) = sv_clients s" "sv_clientsMesh (reg_present c s) = sv_clientsMesh s"
  "sv_watchers (reg_present c s) = sv_watchers s" "sv_peerTracker (reg_present c s) = sv_peerTracker s"
  "sv_dupPolicy (reg_present c s) = sv_dupPolicy s" "sv_accepts (reg_present c s) = sv_accepts s"
  "sv_numLocalClientKeys (reg_present c s) = sv_numLocalClientKeys s"
  "sc_isDup (sv_conns (reg_present c s) x) = sc_isDup (sv_conns s x)"
  "conn_view (reg_present c s) x = conn_view s x"
  "sv_gauges (reg_present c s) = (sv_gauges s)\<lparr>curClients := curClients (sv_gauges s) + 1,
     curClientsNotIdeal := curClientsNotIdeal (sv_gauges s) + of_bool (sc_isNotIdealConn (sv_conns s c))\<rparr>"
  by (simp_all add: reg_present_def Let_def) (simp add: conn_view_def)

lemma reg_track_simps [simp]:
  "sv_clients (reg_track kstr c s) = sv_clients s" "sv_gauges (reg_track kstr c s) = sv_gauges s"
  "sv_clientsMesh (reg_track kstr c s) = sv_clientsMesh s" "sv_watchers (reg_track kstr c s) = sv_watchers s"
  "sv_peerTracker (reg_track kstr c s) =
     map_option (\<lambda>t. if sc_canMesh (sv_conns s c) then t
       else Register c (kstr (sv_key s c)) (sc_remoteAddr (sv_conns s c)) (sc_connectedAt (sv_conns s c)) t)
     (sv_peerTracker s)"
  "sv_dupPolicy (reg_track kstr c s) = sv_dupPolicy s"
  "sv_numLocalClientKeys (reg_track kstr c s) = sv_numLocalClientKeys s"
  "sv_accepts (reg_track kstr c s) = sv_accepts s" "sv_conns (reg_track kstr c s) = sv_conns s"
  "conn_view (reg_track kstr c s) x = conn_view s x"
  by (simp_all add: reg_track_def conn_view_def Let_def split: option.split)

lemmas conn_view_stages [simp] =
  conn_viewD [OF reg_marks_simps(9)] conn_viewD [OF reg_present_simps(9)] conn_viewD [OF conn_view_broadcast]

lemma conn_view_limits [simp]: "conn_view (upd_conn c (setRateLimit a b) s) x = conn_view s x"
  by (simp add: conn_view_def Let_def)

lemma set_before_cong: "sv_clients s' = sv_clients s \<Longrightarrow> sv_key s' c = sv_key s c \<Longrightarrow> set_before c s' = set_before c s"
  by (simp add: set_before_def)

lemma set_before_stages [simp]:
  "set_before c (reg_marks c s) = set_before c s"
  "set_before c (upd_conn c (setRateLimit a b) s) = set_before c s"
  by (simp_all add: set_before_def)

lemma register_view [simp]: "conn_view (registerClient kstr c s) x = conn_view s x"
  by (simp add: registerClient_def)

lemmas register_fields [simp] = conn_viewD [OF register_view]

lemma register_simps:
  "sv_clients (registerClient kstr c s) = fmupd (sv_key s c) (add_client c (set_before c s)) (sv_clients s)"
  "sv_dupPolicy (registerClient kstr c s) = sv_dupPolicy s"
  "sv_watchers (registerClient kstr c s) = sv_watchers s"
  "sv_accepts (registerClient kstr c s) = sv_accepts s"
  "sv_clientsMesh (registerClient kstr c s) =
     (if fmlookup (sv_clientsMesh s) (sv_key s c) = None then fmupd (sv_key s c) None (sv_clientsMesh s)
      else sv_clientsMesh s)"
  "sv_numLocalClientKeys (registerClient kstr c s) =
     sv_numLocalClientKeys s + of_bool (fmlookup (sv_clients s) (sv_key s c) = None)"
  "sv_gauges (registerClient kstr c s) =
     (let g = count_added (set_before c s) (sv_gauges s)
      in g\<lparr>curClients := curClients g + 1,
           curClientsNotIdeal := curClientsNotIdeal g + of_bool (sc_isNotIdealConn (sv_conns s c))\<rparr>)"
  "sv_peerTracker (registerClient kstr c s) =
     map_option (\<lambda>t. if sc_canMesh (sv_conns s c) then t
       else Register c (kstr (sv_key s c)) (sc_remoteAddr (sv_conns s c)) (sc_connectedAt (sv_conns s c)) t)
     (sv_peerTracker s)"
  "sc_isDup (sv_conns (registerClient kstr c s) x) \<longleftrightarrow>
     sc_isDup (sv_conns s x) \<or> cs_activeClient (set_before c s) = Some x \<or>
     x = c \<and> cs_activeClient (set_before c s) \<noteq> None"
  by (simp_all add: registerClient_def Let_def cong: if_cong)

section \<open>Preservation: \<open>registerClient\<close>\<close>

definition fresh_conn :: "Server \<Rightarrow> sptr \<Rightarrow> bool" where
  "fresh_conn s c \<longleftrightarrow> c \<notin> registered s \<and> \<not> sc_isDup (sv_conns s c) \<and> \<not> sc_isDisabled (sv_conns s c) \<and>
     \<not> sc_preferred (sv_conns s c)"

lemma set_before_cases:
  assumes "sets_ok s"
  obtains "fmlookup (sv_clients s) (sv_key s c) = None" and "set_before c s = new_clientSet"
  | "fmlookup (sv_clients s) (sv_key s c) = Some (set_before c s)"
    and "set_ok (sv_conns s) (sv_dupPolicy s) (sv_key s c) (set_before c s)"
  using assms by (cases "fmlookup (sv_clients s) (sv_key s c)") (auto simp: set_before_def sets_ok_def)

lemma Foreach_new [simp]: "ForeachClient new_clientSet = {||}"
  by (simp add: ForeachClient_def new_clientSet_def)

lemma Foreach_set_before: "ForeachClient (set_before c s) = mem_at s (sv_key s c)"
  by (simp add: set_before_def mem_at_def split: option.split)

lemma set_before_wf: "sets_ok s \<Longrightarrow> set_before c s = new_clientSet \<or> clientSet_wf (set_before c s)"
  by (erule set_before_cases [of s c]) (auto dest: set_okD)

lemma mem_at_register:
  "sets_ok s \<Longrightarrow> mem_at (registerClient kstr c s) k =
     (if k = sv_key s c then finsert c (mem_at s k) else mem_at s k)"
  using Foreach_add_client [OF set_before_wf, of s c c]
  by (simp add: mem_at_def register_simps Foreach_set_before)

lemma registered_register:
  "sets_ok s \<Longrightarrow> registered (registerClient kstr c s) = insert c (registered s)"
  by (auto simp: registered_def mem_at_register split: if_splits)

lemma add_client_active: "cs_activeClient (add_client c cs) = Some c"
  by (simp add: add_client_def)

lemma set_ok_added:
  assumes ok: "sets_ok s" and fresh: "fresh_conn s c"
  shows "set_ok (sv_conns (registerClient kstr c s)) (sv_dupPolicy s) (sv_key s c) (add_client c (set_before c s))"
proof -
  let ?cs = "set_before c s" and ?conns = "sv_conns (registerClient kstr c s)"
  have out: "c |\<notin>| ForeachClient ?cs"
    using fresh by (simp add: fresh_conn_def registered_def Foreach_set_before)
  have wf: "clientSet_wf (add_client c ?cs)"
    by (rule add_client_wf [OF set_before_wf [OF ok] out])
  have mem: "ForeachClient (add_client c ?cs) = finsert c (ForeachClient ?cs)"
    by (rule Foreach_add_client [OF set_before_wf [OF ok]])
  from ok show ?thesis
  proof (rule set_before_cases [of s c])
    assume new: "set_before c s = new_clientSet"
    then have "\<not> sc_isDup (?conns c)" "cs_dup (add_client c ?cs) = None"
      using fresh by (simp_all add: register_simps fresh_conn_def new_clientSet_def add_client_def)
    with wf mem new fresh show ?thesis
      by (simp add: set_ok_def fresh_conn_def)
  next
    assume so: "set_ok (sv_conns s) (sv_dupPolicy s) (sv_key s c) ?cs"
    then have wf0: "clientSet_wf ?cs" by (rule set_okD)
    have dup: "cs_dup (add_client c ?cs) \<noteq> None"
      using is_dup_add_client(2) [OF wf0, of c] by (simp add: is_dup_set_def)
    have live: "dup_live (cs_activeClient (add_client c ?cs)) d'"
      if "sv_dupPolicy s = lastWriterIsActive" "cs_dup (add_client c ?cs) = Some d'" for d'
      using add_client_live [OF wf0 _ that(2)] so that(1) by (simp add: set_ok_def)
    have marked: "sc_isDup (?conns x)"
      if p: "sv_dupPolicy s = lastWriterIsActive" and x: "x |\<in>| finsert c (ForeachClient ?cs)" for x
    proof (cases "cs_dup ?cs")
      case None
      then show ?thesis using wf0 x
        by (auto simp: register_simps clientSet_wf_def ForeachClient_def)
    next
      case (Some d)
      with so p have "cs_activeClient ?cs \<noteq> None" "x \<noteq> c \<Longrightarrow> sc_isDup (sv_conns s x)"
        using x by (auto simp: set_ok_def dup_live_def)
      then show ?thesis by (cases "x = c") (auto simp: register_simps)
    qed
    from so dup wf mem live marked fresh show ?thesis
      by (auto simp: set_ok_def fresh_conn_def)
  qed
qed

lemma sets_ok_register:
  assumes ok: "sets_ok s" and fresh: "fresh_conn s c"
  shows "sets_ok (registerClient kstr c s)"
  unfolding sets_ok_def
proof (intro allI impI)
  fix k cs
  assume look: "fmlookup (sv_clients (registerClient kstr c s)) k = Some cs"
  show "set_ok (sv_conns (registerClient kstr c s)) (sv_dupPolicy (registerClient kstr c s)) k cs"
  proof (cases "k = sv_key s c")
    case True
    with look show ?thesis using set_ok_added [OF assms] by (simp add: register_simps)
  next
    case False
    with look have so: "set_ok (sv_conns s) (sv_dupPolicy s) k cs"
      using ok by (simp add: register_simps sets_ok_def)
    have other: "x \<noteq> c \<and> cs_activeClient (set_before c s) \<noteq> Some x" if "x |\<in>| ForeachClient cs" for x
    proof -
      have "sv_key s x = k" using so that by (rule set_okD)
      moreover have "cs_activeClient (set_before c s) = Some x \<Longrightarrow> sv_key s x = sv_key s c"
        using ok by (rule set_before_cases [of s c])
          (auto simp: new_clientSet_def dest: set_okD active_member)
      ultimately show ?thesis using False by auto
    qed
    show ?thesis
      unfolding register_simps by (rule set_ok_frame [OF so]) (use other in \<open>simp add: register_simps\<close>)
  qed
qed

lemma fm_sum_put:
  "fm_sum f (fmupd k v m) = fm_sum f m - (case fmlookup m k of None \<Rightarrow> 0 | Some u \<Rightarrow> f u) + f v"
  by (simp add: fm_sum_insert fm_sum_update split: option.split)

lemma fcard_dom_put: "int (fcard (fmdom (fmupd k v m))) = int (fcard (fmdom m)) + of_bool (fmlookup m k = None)"
  using fm_sum_put [of "\<lambda>_. 1" k v m] by (simp split: option.splits)

lemma conn_count_register:
  assumes "sets_ok s" and "fresh_conn s c"
  shows "conn_count P (registerClient kstr c s) = conn_count P s + of_bool (P c)"
proof -
  have "c |\<notin>| ForeachClient (set_before c s)"
    using assms(2) by (simp add: fresh_conn_def registered_def Foreach_set_before)
  then show ?thesis
    using fcard_filter_insert [of c "ForeachClient (set_before c s)" P]
      Foreach_add_client [OF set_before_wf [OF assms(1)], of c c]
    by (simp add: conn_count_def register_simps fm_sum_put)
       (simp add: set_before_def split: option.splits)
qed

lemma count_added_simps [simp]:
  "curClients (count_added cs g) = curClients g" "curClientsNotIdeal (count_added cs g) = curClientsNotIdeal g"
  "curHomeClients (count_added cs g) = curHomeClients g"
  by (simp_all add: count_added_def split: option.split)

lemma dup_gauges_register:
  assumes ok: "sets_ok s" and fresh: "fresh_conn s c"
  shows "dup_keys (registerClient kstr c s) = dup_keys s + dupClientKeys (count_added (set_before c s) g) - dupClientKeys g"
    and "dup_conns (registerClient kstr c s) = dup_conns s + dupClientConns (count_added (set_before c s) g) - dupClientConns g"
proof -
  let ?cs = "set_before c s"
  have out: "c |\<notin>| ForeachClient ?cs"
    using fresh by (simp add: fresh_conn_def registered_def Foreach_set_before)
  have mem: "ForeachClient (add_client c ?cs) = finsert c (ForeachClient ?cs)"
    by (rule Foreach_add_client [OF set_before_wf [OF ok]])
  have "dup_keys (registerClient kstr c s) = dup_keys s + dupClientKeys (count_added ?cs g) - dupClientKeys g \<and>
    dup_conns (registerClient kstr c s) = dup_conns s + dupClientConns (count_added ?cs g) - dupClientConns g"
    using ok
  proof (rule set_before_cases [of s c])
    assume "fmlookup (sv_clients s) (sv_key s c) = None" and new: "?cs = new_clientSet"
    then show ?thesis
      using is_dup_add_client(1) [OF new, of c]
      by (simp add: dup_keys_def dup_conns_def register_simps fm_sum_put count_added_def new_clientSet_def)
  next
    assume look: "fmlookup (sv_clients s) (sv_key s c) = Some ?cs"
      and "set_ok (sv_conns s) (sv_dupPolicy s) (sv_key s c) ?cs"
    then have wf: "clientSet_wf ?cs" by (auto dest: set_okD)
    have "int (fcard (finsert c (ForeachClient ?cs))) = int (fcard (ForeachClient ?cs)) + 1"
      using out by (simp add: fcard_finsert_disjoint)
    with look wf show ?thesis
      using is_dup_add_client(2) [OF wf, of c] mem
      by (auto simp: dup_keys_def dup_conns_def register_simps fm_sum_put count_added_def clientSet_wf_def
          is_dup_set_def ForeachClient_def split: option.splits)
  qed
  then show "dup_keys (registerClient kstr c s) = dup_keys s + dupClientKeys (count_added ?cs g) - dupClientKeys g"
    and "dup_conns (registerClient kstr c s) = dup_conns s + dupClientConns (count_added ?cs g) - dupClientConns g"
    by auto
qed

lemma gauges_ok_register:
  assumes ok: "sets_ok s" and g: "gauges_ok s" and fresh: "fresh_conn s c"
  shows "gauges_ok (registerClient kstr c s)"
proof -
  note cc = conn_count_register [OF ok fresh, of _ kstr]
  note dg = dup_gauges_register [OF ok fresh, of kstr "sv_gauges s"]
  have home: "\<not> sc_preferred (sv_conns s c)" using fresh by (simp add: fresh_conn_def)
  show ?thesis
    unfolding gauges_ok_def
    using g home
    by (simp add: register_simps(6-7) Let_def cc dg gauges_ok_def register_simps(1) fcard_dom_put del: fmdom_fmupd)
qed

lemma mesh_ok_register: "mesh_ok s \<Longrightarrow> mesh_ok (registerClient kstr c s)"
  by (auto simp: mesh_ok_def register_simps)

lemma watchers_ok_register:
  "sets_ok s \<Longrightarrow> watchers_ok s \<Longrightarrow> watchers_ok (registerClient kstr c s)"
  by (auto simp: watchers_ok_def registered_register register_simps)

lemma tracker_ok_register:
  assumes ok: "sets_ok s" and tr: "tracker_ok s" and fresh: "fresh_conn s c"
  shows "tracker_ok (registerClient kstr c s)"
proof (cases "sv_peerTracker s")
  case None
  then show ?thesis by (simp add: tracker_ok_def tracker_for_def register_simps)
next
  case (Some t)
  with tr have inv: "tracker_inv t"
    and dom: "dom (fmlookup (tr_connections t)) = {x \<in> registered s. \<not> sc_canMesh (sv_conns s x)}"
    by (simp_all add: tracker_ok_def tracker_for_def)
  have none: "fmlookup (tr_connections t) c = None"
    using dom fresh by (auto simp: fresh_conn_def dom_def)
  show ?thesis
  proof (cases "sc_canMesh (sv_conns s c)")
    case True
    with Some inv dom show ?thesis
      by (auto simp: tracker_ok_def tracker_for_def register_simps registered_register [OF ok])
  next
    case False
    have "tracker_inv (Register c (kstr (sv_key s c)) a ts t)" for a ts
      using inv none by (intro tracker_inv_Register) auto
    with Some dom False show ?thesis
      by (auto simp: tracker_ok_def tracker_for_def register_simps registered_register [OF ok] conns_Register)
  qed
qed

lemma server_inv_register [inv_rules]:
  "server_inv s \<Longrightarrow> fresh_conn s c \<Longrightarrow> server_inv (registerClient kstr c s)"
  by (simp add: server_inv_def registry_ok_def sets_ok_register gauges_ok_register mesh_ok_register watchers_ok_register
      tracker_ok_register)

section \<open>Preservation: \<open>unregisterClient\<close>\<close>

subsection \<open>The stages\<close>

lemma finish_simps [simp]:
  "sv_clients (finish_unregister c s) = sv_clients s" "sv_clientsMesh (finish_unregister c s) = sv_clientsMesh s"
  "sv_peerTracker (finish_unregister c s) = sv_peerTracker s" "sv_dupPolicy (finish_unregister c s) = sv_dupPolicy s"
  "sv_conns (finish_unregister c s) = sv_conns s" "sv_accepts (finish_unregister c s) = sv_accepts s"
  "sv_numLocalClientKeys (finish_unregister c s) = sv_numLocalClientKeys s"
  "sv_watchers (finish_unregister c s) = (if sc_canMesh (sv_conns s c) then sv_watchers s |-| {|c|} else sv_watchers s)"
  "sv_gauges (finish_unregister c s) = (sv_gauges s)\<lparr>curClients := curClients (sv_gauges s) - 1,
     curHomeClients := curHomeClients (sv_gauges s) - of_bool (sc_preferred (sv_conns s c)),
     curClientsNotIdeal := curClientsNotIdeal (sv_gauges s) - of_bool (sc_isNotIdealConn (sv_conns s c))\<rparr>"
  by (simp_all add: finish_unregister_def Let_def)

text \<open>The fields left alone by both branches that update the client set.\<close>

definition keeps_frame :: "Server \<Rightarrow> Server \<Rightarrow> bool" where
  "keeps_frame s s' \<longleftrightarrow> sv_watchers s' = sv_watchers s \<and> sv_peerTracker s' = sv_peerTracker s \<and>
     sv_dupPolicy s' = sv_dupPolicy s \<and> sv_accepts s' = sv_accepts s \<and>
     (\<forall>x. sc_key (sv_conns s' x) = sc_key (sv_conns s x) \<and> sc_canMesh (sv_conns s' x) = sc_canMesh (sv_conns s x) \<and>
       sc_isNotIdealConn (sv_conns s' x) = sc_isNotIdealConn (sv_conns s x) \<and>
       sc_preferred (sv_conns s' x) = sc_preferred (sv_conns s x)) \<and>
     curClients (sv_gauges s') = curClients (sv_gauges s) \<and>
     curHomeClients (sv_gauges s') = curHomeClients (sv_gauges s) \<and>
     curClientsNotIdeal (sv_gauges s') = curClientsNotIdeal (sv_gauges s)"

lemma single_step:
  obtains s' where "unregister_single c s = Some s'" and "keeps_frame s s'"
    and "sv_clients s' = fmdrop (sv_key s c) (sv_clients s)"
    and "sv_numLocalClientKeys s' = sv_numLocalClientKeys s - 1"
    and "sv_clientsMesh s' = (if fmlookup (sv_clientsMesh s) (sv_key s c) = Some None
           then fmdrop (sv_key s c) (sv_clientsMesh s) else sv_clientsMesh s)"
    and "sv_gauges s' = sv_gauges s"
    and "\<And>x. sc_isDup (sv_conns s' x) = sc_isDup (sv_conns s x) \<and> sc_isDisabled (sv_conns s' x) = sc_isDisabled (sv_conns s x)"
proof -
  have "unregister_single c s \<noteq> None"
    by (simp add: unregister_single_def notePeerGoneFromRegionLocked_def Let_def)
  then obtain s' where s': "unregister_single c s = Some s'" by blast
  show thesis
    by (rule that [OF s'])
      (use s' in \<open>auto simp: unregister_single_def notePeerGoneFromRegionLocked_def Let_def keeps_frame_def split: if_splits\<close>)
qed

lemma fcard_one: "fcard A = 1 \<Longrightarrow> \<exists>r. A = {|r|}"
  by (simp add: fcard.rep_eq fset_inject [symmetric] card_1_singleton_iff)

lemma removeClient_pair: "c |\<in>| dc_set d \<Longrightarrow> removeClient c d = (True, snd (removeClient c d))"
  by (simp add: removeClient_member Let_def)

lemma dup_step_demote:
  assumes c: "c |\<in>| dc_set d" and r: "dc_set d |-| {|c|} = {|r|}"
  shows "unregister_dup c cs d s = Some
     (upd_conn r (\<lambda>x. x\<lparr>sc_isDisabled := False, sc_isDup := False\<rparr>)
       (s\<lparr>sv_gauges := (sv_gauges s)\<lparr>dupClientConns := dupClientConns (sv_gauges s) - 2,
                                      dupClientKeys := dupClientKeys (sv_gauges s) - 1\<rparr>,
          sv_clients := fmupd (sv_key s c) (cs\<lparr>cs_dup := None, cs_activeClient := Some r\<rparr>) (sv_clients s)\<rparr>))"
proof -
  have "sorted_list_of_fset {|r|} = [r]" by (simp add: sorted_list_of_fset.rep_eq)
  with c r show ?thesis
    by (simp add: unregister_dup_def removeClient_member Let_def)
qed

lemma dup_step_keep:
  assumes c: "c |\<in>| dc_set d" and n: "fcard (dc_set d |-| {|c|}) \<noteq> 1"
  shows "unregister_dup c cs d s = Some
     (s\<lparr>sv_gauges := (sv_gauges s)\<lparr>dupClientConns := dupClientConns (sv_gauges s) - 1\<rparr>,
        sv_clients := fmupd (sv_key s c)
          (cs\<lparr>cs_dup := Some (snd (removeClient c d)),
              cs_activeClient := pickActiveClient (\<lambda>x. sc_isDisabled (sv_conns s x))
                (cs\<lparr>cs_dup := Some (snd (removeClient c d))\<rparr>)\<rparr>) (sv_clients s)\<rparr>)"
proof -
  obtain d' where d': "removeClient c d = (True, d')" using removeClient_pair [OF c] by blast
  moreover have "fcard (dc_set d') \<noteq> 1" using removeClient_set [of c d] n d' by simp
  ultimately show ?thesis by (simp add: unregister_dup_def Let_def)
qed

text \<open>What the update of the client set does, for a registered connection \<open>c\<close>: it leaves the key
  without a set or with a set of the other connections, and adjusts the gauges of duplicates.\<close>

definition set_removed :: "sptr \<Rightarrow> Server \<Rightarrow> Server \<Rightarrow> bool" where
  "set_removed c s s' \<longleftrightarrow> keeps_frame s s' \<and> sets_ok s' \<and> mesh_ok s' \<and>
     (\<forall>k. mem_at s' k = (if k = sv_key s c then mem_at s k |-| {|c|} else mem_at s k)) \<and>
     (\<forall>P. conn_count P s' = conn_count P s - of_bool (P c)) \<and>
     sv_numLocalClientKeys s' - sv_numLocalClientKeys s = int (fcard (fmdom (sv_clients s'))) - int (fcard (fmdom (sv_clients s))) \<and>
     dupClientKeys (sv_gauges s') - dupClientKeys (sv_gauges s) = dup_keys s' - dup_keys s \<and>
     dupClientConns (sv_gauges s') - dupClientConns (sv_gauges s) = dup_conns s' - dup_conns s"

lemma sets_ok_other:
  assumes "sets_ok s" and "sv_dupPolicy s' = sv_dupPolicy s"
    and "\<And>k cs. k \<noteq> key \<Longrightarrow> fmlookup (sv_clients s') k = Some cs \<Longrightarrow> fmlookup (sv_clients s) k = Some cs"
    and "\<And>x. sv_key s x \<noteq> key \<Longrightarrow> sc_key (sv_conns s' x) = sc_key (sv_conns s x) \<and>
           sc_isDup (sv_conns s' x) = sc_isDup (sv_conns s x) \<and> sc_isDisabled (sv_conns s' x) = sc_isDisabled (sv_conns s x)"
    and "\<And>cs. fmlookup (sv_clients s') key = Some cs \<Longrightarrow> set_ok (sv_conns s') (sv_dupPolicy s) key cs"
  shows "sets_ok s'"
  unfolding sets_ok_def assms(2)
proof (intro allI impI)
  fix k cs
  assume look: "fmlookup (sv_clients s') k = Some cs"
  show "set_ok (sv_conns s') (sv_dupPolicy s) k cs"
  proof (cases "k = key")
    case True
    with look assms(5) show ?thesis by simp
  next
    case False
    with look assms(1,3) have so: "set_ok (sv_conns s) (sv_dupPolicy s) k cs" by (simp add: sets_ok_def)
    show ?thesis
    proof (rule set_ok_frame [OF so])
      fix x
      assume "x |\<in>| ForeachClient cs"
      with so False have "sv_key s x \<noteq> key" by (auto dest: set_okD)
      then show "sc_key (sv_conns s' x) = sc_key (sv_conns s x) \<and> sc_isDup (sv_conns s' x) = sc_isDup (sv_conns s x) \<and>
          sc_isDisabled (sv_conns s' x) = sc_isDisabled (sv_conns s x)" by (rule assms(4))
    qed
  qed
qed

lemma fcard_dom_drop: "fmlookup m k = Some v \<Longrightarrow> int (fcard (fmdom (fmdrop k m))) = int (fcard (fmdom m)) - 1"
  using fm_sum_drop [of m k v "\<lambda>_. 1"] by simp

lemma single_removed:
  assumes ok: "sets_ok s" and mesh: "mesh_ok s" and look: "fmlookup (sv_clients s) (sv_key s c) = Some cs"
    and single: "cs_dup cs = None" "cs_activeClient cs = Some c"
  obtains s' where "unregister_single c s = Some s'" and "set_removed c s s'"
proof -
  from single_step [of c s] obtain s' where s': "unregister_single c s = Some s'" "keeps_frame s s'"
    and clients: "sv_clients s' = fmdrop (sv_key s c) (sv_clients s)"
    and keys: "sv_numLocalClientKeys s' = sv_numLocalClientKeys s - 1"
    and m: "sv_clientsMesh s' = (if fmlookup (sv_clientsMesh s) (sv_key s c) = Some None
           then fmdrop (sv_key s c) (sv_clientsMesh s) else sv_clientsMesh s)"
    and g: "sv_gauges s' = sv_gauges s"
    and fl: "\<And>x. sc_isDup (sv_conns s' x) = sc_isDup (sv_conns s x) \<and> sc_isDisabled (sv_conns s' x) = sc_isDisabled (sv_conns s x)"
    by metis
  have mem: "ForeachClient cs = {|c|}" using single by (simp add: ForeachClient_def)
  have "sets_ok s'"
    by (rule sets_ok_other [OF ok, of s' "sv_key s c"])
       (use s'(2) fl in \<open>auto simp: clients keeps_frame_def\<close>)
  moreover have "mesh_ok s'"
    using mesh by (auto simp: mesh_ok_def clients m split: if_splits)
  moreover have "conn_count P s' = conn_count P s - of_bool (P c)" for P
  proof -
    have "int (fcard (ffilter P {|c|})) = of_bool (P c)" using fcard_filter_insert [of c "{||}" P] by simp
    then show ?thesis by (simp add: conn_count_def clients fm_sum_drop [OF look] mem del: of_bool_eq_iff)
  qed
  moreover have "mem_at s' k = (if k = sv_key s c then mem_at s k |-| {|c|} else mem_at s k)" for k
    using look mem by (simp add: mem_at_def clients)
  moreover have "dup_keys s' = dup_keys s" "dup_conns s' = dup_conns s"
    using single by (simp_all add: dup_keys_def dup_conns_def clients fm_sum_drop [OF look] is_dup_set_def)
  ultimately show thesis
    using s' fcard_dom_drop [OF look]
    by (intro that [OF s'(1)]) (simp add: set_removed_def g keys clients)
qed

lemma keyed_update_removed:
  assumes look: "fmlookup (sv_clients s) (sv_key s c) = Some cs" and c: "c |\<in>| ForeachClient cs"
    and clients: "sv_clients s' = fmupd (sv_key s c) cs' (sv_clients s)"
    and mem: "ForeachClient cs' = ForeachClient cs |-| {|c|}"
  shows "conn_count P s' = conn_count P s - of_bool (P c)"
    and "mem_at s' k = (if k = sv_key s c then mem_at s k |-| {|c|} else mem_at s k)"
    and "int (fcard (fmdom (sv_clients s'))) = int (fcard (fmdom (sv_clients s)))"
    and "dup_keys s' = dup_keys s - of_bool (is_dup_set cs) + of_bool (is_dup_set cs')"
    and "dup_conns s' = dup_conns s - (if is_dup_set cs then int (fcard (ForeachClient cs)) else 0) +
           (if is_dup_set cs' then int (fcard (ForeachClient cs)) - 1 else 0)"
proof -
  show "conn_count P s' = conn_count P s - of_bool (P c)"
    by (simp add: conn_count_def clients fm_sum_update [OF look] mem fcard_filter_remove [OF c])
  show "mem_at s' k = (if k = sv_key s c then mem_at s k |-| {|c|} else mem_at s k)"
    using look by (simp add: mem_at_def clients mem)
  show "int (fcard (fmdom (sv_clients s'))) = int (fcard (fmdom (sv_clients s)))"
    using fcard_dom_put [of "sv_key s c" cs' "sv_clients s"] look by (simp add: clients del: fmdom_fmupd)
  show "dup_keys s' = dup_keys s - of_bool (is_dup_set cs) + of_bool (is_dup_set cs')"
    by (simp add: dup_keys_def clients fm_sum_update [OF look])
  have "int (fcard (ForeachClient cs |-| {|c|})) = int (fcard (ForeachClient cs)) - 1"
    using fcard_remove [OF c] by linarith
  then show "dup_conns s' = dup_conns s - (if is_dup_set cs then int (fcard (ForeachClient cs)) else 0) +
           (if is_dup_set cs' then int (fcard (ForeachClient cs)) - 1 else 0)"
    by (simp add: dup_conns_def clients fm_sum_update [OF look] mem)
qed

lemma set_removedI:
  assumes "keeps_frame s s'" "sets_ok s'" "mesh_ok s'"
    "\<And>k. mem_at s' k = (if k = sv_key s c then mem_at s k |-| {|c|} else mem_at s k)"
    "\<And>P. conn_count P s' = conn_count P s - of_bool (P c)"
    "sv_numLocalClientKeys s' = sv_numLocalClientKeys s"
    "int (fcard (fmdom (sv_clients s'))) = int (fcard (fmdom (sv_clients s)))"
    "dupClientKeys (sv_gauges s') = dupClientKeys (sv_gauges s) - a" "dup_keys s' = dup_keys s - a"
    "dupClientConns (sv_gauges s') = dupClientConns (sv_gauges s) - b" "dup_conns s' = dup_conns s - b"
  shows "set_removed c s s'"
  unfolding set_removed_def using assms by simp

lemma mesh_ok_dom:
  assumes "mesh_ok s" and "sv_clientsMesh s' = sv_clientsMesh s"
    and "\<And>k. fmlookup (sv_clients s') k = None \<longleftrightarrow> fmlookup (sv_clients s) k = None"
  shows "mesh_ok s'"
  using assms(1) unfolding mesh_ok_def assms(2,3) .

lemma dup_removed_demote:
  assumes ok: "sets_ok s" and mesh: "mesh_ok s" and look: "fmlookup (sv_clients s) (sv_key s c) = Some cs"
    and d: "cs_dup cs = Some d" and c: "c |\<in>| dc_set d" and one: "fcard (dc_set d |-| {|c|}) = 1"
  obtains s' where "unregister_dup c cs d s = Some s'" and "set_removed c s s'"
proof -
  let ?key = "sv_key s c"
  from fcard_one [OF one] obtain r where r: "dc_set d |-| {|c|} = {|r|}" by blast
  let ?cs' = "cs\<lparr>cs_dup := None, cs_activeClient := Some r\<rparr>"
  let ?s' = "upd_conn r (\<lambda>x. x\<lparr>sc_isDisabled := False, sc_isDup := False\<rparr>)
       (s\<lparr>sv_gauges := (sv_gauges s)\<lparr>dupClientConns := dupClientConns (sv_gauges s) - 2,
                                      dupClientKeys := dupClientKeys (sv_gauges s) - 1\<rparr>,
          sv_clients := fmupd ?key ?cs' (sv_clients s)\<rparr>)"
  have clients: "sv_clients ?s' = fmupd ?key ?cs' (sv_clients s)" by simp
  have F: "ForeachClient cs = dc_set d" and F': "ForeachClient ?cs' = dc_set d |-| {|c|}"
    using d r by (simp_all add: ForeachClient_def)
  have so: "set_ok (sv_conns s) (sv_dupPolicy s) ?key cs" by (rule sets_okD [OF ok look])
  have n: "int (fcard (dc_set d)) = 2" using fcard_remove [OF c] one by linarith
  have rk: "sv_key s r = ?key"
    by (rule set_okD(2) [OF so]) (use r in \<open>auto simp: F fset_eq_iff\<close>)
  note u = keyed_update_removed [OF look _ clients, unfolded F F', OF c refl]
  have "set_removed c s ?s'"
  proof (rule set_removedI [where a = 1 and b = 2])
    show "sets_ok ?s'"
      by (rule sets_ok_other [OF ok, of ?s' ?key])
         (use rk in \<open>auto simp: set_ok_def clientSet_wf_def ForeachClient_def\<close>)
    show "mesh_ok ?s'" by (rule mesh_ok_dom [OF mesh]) (use look in auto)
    show "keeps_frame s ?s'" by (simp add: keeps_frame_def)
    show "dup_keys ?s' = dup_keys s - 1" using u(4) d by (simp add: is_dup_set_def)
    show "dup_conns ?s' = dup_conns s - 2" using u(5) d n by (simp add: is_dup_set_def)
  qed (use u(1-3) in simp_all)
  then show thesis by (rule that [OF dup_step_demote [OF c r]])
qed

lemma dup_removed_keep:
  assumes ok: "sets_ok s" and mesh: "mesh_ok s" and look: "fmlookup (sv_clients s) (sv_key s c) = Some cs"
    and d: "cs_dup cs = Some d" and c: "c |\<in>| dc_set d" and two: "fcard (dc_set d |-| {|c|}) \<noteq> 1"
  obtains s' where "unregister_dup c cs d s = Some s'" and "set_removed c s s'"
proof -
  let ?key = "sv_key s c" and ?d' = "snd (removeClient c d)"
  let ?act = "pickActiveClient (\<lambda>x. sc_isDisabled (sv_conns s x)) (cs\<lparr>cs_dup := Some ?d'\<rparr>)"
  let ?cs' = "cs\<lparr>cs_dup := Some ?d', cs_activeClient := ?act\<rparr>"
  let ?s' = "s\<lparr>sv_gauges := (sv_gauges s)\<lparr>dupClientConns := dupClientConns (sv_gauges s) - 1\<rparr>,
                sv_clients := fmupd ?key ?cs' (sv_clients s)\<rparr>"
  have clients: "sv_clients ?s' = fmupd ?key ?cs' (sv_clients s)" by simp
  have F: "ForeachClient cs = dc_set d" and F': "ForeachClient ?cs' = dc_set d |-| {|c|}"
    using d by (simp_all add: ForeachClient_def)
  have so: "set_ok (sv_conns s) (sv_dupPolicy s) ?key cs" by (rule sets_okD [OF ok look])
  have wf: "dup_wf (cs_activeClient cs) d" using set_okD(1) [OF so] d by (simp add: clientSet_wf_def)
  have n: "2 \<le> fcard (dc_set d |-| {|c|})"
    using fcard_remove [OF c] two wf by (simp add: dup_wf_def)
  have act: "?act = pickActiveClient (\<lambda>x. sc_isDisabled (sv_conns s x)) \<lparr>cs_activeClient = cs_activeClient cs, cs_dup = Some ?d'\<rparr>"
    by (cases cs) simp
  have live: "dup_live ?act ?d'" if "sv_dupPolicy s = lastWriterIsActive"
    by (rule removeClient_dup_live [OF _ wf c n _ act]) (use so d that in \<open>auto simp: set_ok_def F\<close>)
  note u = keyed_update_removed [OF look _ clients, unfolded F F', OF c refl]
  have "set_removed c s ?s'"
  proof (rule set_removedI [where a = 0 and b = 1])
    have "set_ok (sv_conns s) (sv_dupPolicy s) ?key ?cs'"
      using so live removeClient_dup_wf [OF wf c n act] d unfolding set_ok_def F F'
      by (simp add: clientSet_wf_def)
    then show "sets_ok ?s'"
      by (intro sets_ok_other [OF ok, of ?s' ?key]) auto
    show "mesh_ok ?s'" by (rule mesh_ok_dom [OF mesh]) (use look in auto)
    show "keeps_frame s ?s'" by (simp add: keeps_frame_def)
    show "dup_keys ?s' = dup_keys s - 0" using u(4) d by (simp add: is_dup_set_def)
    show "dup_conns ?s' = dup_conns s - 1" using u(5) d by (simp add: is_dup_set_def)
  qed (use u(1-3) in simp_all)
  then show thesis by (rule that [OF dup_step_keep [OF c two]])
qed

subsection \<open>The whole operation\<close>

lemma set_stage:
  assumes ok: "sets_ok s" and mesh: "mesh_ok s" and c: "c \<in> registered s"
  obtains cs s' where "fmlookup (sv_clients s) (sv_key s c) = Some cs" and "set_removed c s s'"
    and "(case cs_dup cs of
            None \<Rightarrow> if cs_activeClient cs \<noteq> Some c then Some s
                    else map_option (finish_unregister c) (unregister_single c s)
          | Some d \<Rightarrow> map_option (finish_unregister c) (unregister_dup c cs d s)) = Some (finish_unregister c s')"
proof -
  from c obtain cs where look: "fmlookup (sv_clients s) (sv_key s c) = Some cs" and mem: "c |\<in>| ForeachClient cs"
    by (auto simp: registered_def mem_at_def split: option.splits)
  show thesis
  proof (cases "cs_dup cs")
    case None
    with mem have act: "cs_activeClient cs = Some c" by (auto simp: ForeachClient_def split: option.splits)
    show thesis
      by (rule single_removed [OF ok mesh look None act], rule that [OF look])
         (use None act in auto)
  next
    case (Some d)
    with mem have cd: "c |\<in>| dc_set d" by (simp add: ForeachClient_def)
    obtain s' where "unregister_dup c cs d s = Some s'" "set_removed c s s'"
      using dup_removed_demote [OF ok mesh look Some cd] dup_removed_keep [OF ok mesh look Some cd] by blast
    then show thesis by (intro that [OF look]) (use Some in auto)
  qed
qed

lemma finish_removed:
  assumes inv: "registry_ok s" and rm: "set_removed c s s'"
  shows "registry_ok (finish_unregister c s')"
    and "registered (finish_unregister c s') = registered s - {c}"
    and "sv_peerTracker (finish_unregister c s') = sv_peerTracker s"
    and "sv_key (finish_unregister c s') x = sv_key s x"
    and "sc_canMesh (sv_conns (finish_unregister c s') x) = sc_canMesh (sv_conns s x)"
    and "sv_accepts (finish_unregister c s') = sv_accepts s" and "sv_dupPolicy (finish_unregister c s') = sv_dupPolicy s"
proof -
  let ?f = "finish_unregister c s'"
  have kf: "keeps_frame s s'" and so: "sets_ok s'" and mo: "mesh_ok s'"
    and mem: "\<And>k. mem_at s' k = (if k = sv_key s c then mem_at s k |-| {|c|} else mem_at s k)"
    and cc: "\<And>P. conn_count P s' = conn_count P s - of_bool (P c)"
    using rm by (simp_all add: set_removed_def)
  have key: "sc_key (sv_conns s' x) = sc_key (sv_conns s x)" "sc_canMesh (sv_conns s' x) = sc_canMesh (sv_conns s x)"
    "sc_isNotIdealConn (sv_conns s' x) = sc_isNotIdealConn (sv_conns s x)"
    "sc_preferred (sv_conns s' x) = sc_preferred (sv_conns s x)" for x
    using kf by (simp_all add: keeps_frame_def)
  have cf: "conn_count P ?f = conn_count P s - of_bool (P c)" "dup_keys ?f = dup_keys s'" "dup_conns ?f = dup_conns s'" for P
    using cc [of P] by (simp_all add: conn_count_def dup_keys_def dup_conns_def)
  have "mem_at ?f k = mem_at s' k" for k by (simp add: mem_at_def)
  then show reg: "registered ?f = registered s - {c}"
    by (auto simp: registered_def mem key split: if_splits)
  have "sets_ok ?f" using so by (simp add: sets_ok_def)
  moreover have "mesh_ok ?f" using mo by (simp add: mesh_ok_def)
  moreover have "gauges_ok ?f"
    using inv rm kf unfolding gauges_ok_def cf
    by (simp add: key set_removed_def keeps_frame_def cf registry_ok_def gauges_ok_def)
  moreover have "watchers_ok ?f"
    using inv kf reg by (auto simp: registry_ok_def watchers_ok_def keeps_frame_def)
  ultimately show "registry_ok ?f" by (simp add: registry_ok_def)
qed (use rm in \<open>simp_all add: set_removed_def keeps_frame_def\<close>)

lemma unreg_track_removed:
  assumes "tracker_ok s"
  obtains tr where "unreg_track c s = Some (s\<lparr>sv_peerTracker := tr\<rparr>)"
    and "tracker_for tr {x \<in> registered s - {c}. \<not> sc_canMesh (sv_conns s x)}"
proof (cases "sv_peerTracker s")
  case None
  then show thesis by (intro that [of None]) (simp_all add: unreg_track_def tracker_for_def)
next
  case (Some t)
  let ?A = "{x \<in> registered s. \<not> sc_canMesh (sv_conns s x)}"
  have ti: "tracker_inv t" and dom: "dom (fmlookup (tr_connections t)) = ?A"
    using assms Some by (simp_all add: tracker_ok_def tracker_for_def)
  have A: "{x \<in> registered s - {c}. \<not> sc_canMesh (sv_conns s x)} = ?A - {c}" by auto
  show thesis
  proof (cases "sc_canMesh (sv_conns s c)")
    case True
    then have same: "{x \<in> registered s - {c}. \<not> sc_canMesh (sv_conns s x)} = ?A" by auto
    have "tracker_for (Some t) {x \<in> registered s - {c}. \<not> sc_canMesh (sv_conns s x)}"
      unfolding same using ti dom by (simp add: tracker_for_def)
    with True Some show thesis by (intro that [of "Some t"]) (simp_all add: unreg_track_def)
  next
    case False
    from acct.unreg_dom [OF ti dom, of c] obtain t' where "Unregister c t = Some t'" "tracker_inv t'"
      "dom (fmlookup (tr_connections t')) = ?A - {c}" .
    moreover from this have "tracker_for (Some t') {x \<in> registered s - {c}. \<not> sc_canMesh (sv_conns s x)}"
      unfolding A by (simp add: tracker_for_def)
    ultimately show thesis
      using False Some by (intro that [of "Some t'"]) (simp_all add: unreg_track_def)
  qed
qed

text \<open>The registry does not look at the tracker.\<close>

lemma registry_ok_tracker [simp]:
  "registry_ok (s\<lparr>sv_peerTracker := tr\<rparr>) = registry_ok s" "registered (s\<lparr>sv_peerTracker := tr\<rparr>) = registered s"
  by (simp_all add: registry_ok_def sets_ok_def gauges_ok_def mesh_ok_def watchers_ok_def conn_count_def
      dup_keys_def dup_conns_def registered_def mem_at_def)

lemma unregister_inv:
  assumes inv: "server_inv s" and c: "c \<in> registered s"
  obtains s' where "unregisterClient c s = Some s'" and "server_inv s'" and "registered s' = registered s - {c}"
    and "sv_accepts s' = sv_accepts s" and "sv_dupPolicy s' = sv_dupPolicy s" and "\<forall>x. sv_key s' x = sv_key s x"
proof -
  have r: "registry_ok s" and t: "tracker_ok s" using inv by (simp_all add: server_inv_def)
  from unreg_track_removed [OF t, of c] obtain tr where s1: "unreg_track c s = Some (s\<lparr>sv_peerTracker := tr\<rparr>)"
    and tr: "tracker_for tr {x \<in> registered s - {c}. \<not> sc_canMesh (sv_conns s x)}" .
  let ?s1 = "s\<lparr>sv_peerTracker := tr\<rparr>"
  have r1: "registry_ok ?s1" "sets_ok ?s1" "mesh_ok ?s1" "c \<in> registered ?s1"
    using r c registry_ok_tracker [of tr s] by (simp_all add: registry_ok_def del: registry_ok_tracker(1))
  from set_stage [OF r1(2,3,4)] obtain cs s2 where look: "fmlookup (sv_clients ?s1) (sv_key ?s1 c) = Some cs"
    and rm: "set_removed c ?s1 s2"
    and st: "(case cs_dup cs of
            None \<Rightarrow> if cs_activeClient cs \<noteq> Some c then Some ?s1
                    else map_option (finish_unregister c) (unregister_single c ?s1)
          | Some d \<Rightarrow> map_option (finish_unregister c) (unregister_dup c cs d ?s1)) = Some (finish_unregister c s2)" .
  note f = finish_removed [OF r1(1) rm]
  show thesis
  proof (rule that)
    show "unregisterClient c s = Some (finish_unregister c s2)"
      using s1 look st by (simp add: unregisterClient_def)
    show "server_inv (finish_unregister c s2)"
      using f(1-3,5) tr by (simp add: server_inv_def tracker_ok_def)
  qed (use f in simp_all)
qed

section \<open>Preservation: operations that keep the connections\<close>

text \<open>Two servers with the same registry, as far as the invariant can tell.\<close>

definition same_registry :: "Server \<Rightarrow> Server \<Rightarrow> bool" where
  "same_registry s s' \<longleftrightarrow> sv_clients s' = sv_clients s \<and> sv_dupPolicy s' = sv_dupPolicy s \<and>
     sv_numLocalClientKeys s' = sv_numLocalClientKeys s \<and> sv_accepts s' = sv_accepts s \<and>
     sv_peerTracker s' = sv_peerTracker s \<and>
     (\<forall>x. sc_key (sv_conns s' x) = sc_key (sv_conns s x) \<and> sc_canMesh (sv_conns s' x) = sc_canMesh (sv_conns s x) \<and>
        sc_isNotIdealConn (sv_conns s' x) = sc_isNotIdealConn (sv_conns s x) \<and>
        sc_isDup (sv_conns s' x) = sc_isDup (sv_conns s x) \<and> sc_isDisabled (sv_conns s' x) = sc_isDisabled (sv_conns s x))"

definition same_home :: "Server \<Rightarrow> Server \<Rightarrow> bool" where
  "same_home s s' \<longleftrightarrow> curHomeClients (sv_gauges s') = curHomeClients (sv_gauges s) \<and>
     (\<forall>x. sc_preferred (sv_conns s' x) = sc_preferred (sv_conns s x))"

definition same_gauges :: "Server \<Rightarrow> Server \<Rightarrow> bool" where
  "same_gauges s s' \<longleftrightarrow> curClients (sv_gauges s') = curClients (sv_gauges s) \<and>
     curClientsNotIdeal (sv_gauges s') = curClientsNotIdeal (sv_gauges s) \<and>
     dupClientKeys (sv_gauges s') = dupClientKeys (sv_gauges s) \<and>
     dupClientConns (sv_gauges s') = dupClientConns (sv_gauges s)"

lemmas same_defs = same_registry_def same_home_def same_gauges_def

lemma same_registry_registered: "same_registry s s' \<Longrightarrow> registered s' = registered s"
  by (simp add: same_registry_def registered_def mem_at_def)

lemma same_registry_sets: "same_registry s s' \<Longrightarrow> sets_ok s \<Longrightarrow> sets_ok s'"
  by (auto simp: sets_ok_def same_registry_def intro: set_ok_frame)

lemma same_registry_tracker: "same_registry s s' \<Longrightarrow> tracker_ok s \<Longrightarrow> tracker_ok s'"
  by (simp add: tracker_ok_def same_registry_registered) (simp add: same_registry_def)

lemma same_registry_gauges:
  assumes "same_registry s s'" "same_gauges s s'" "same_home s s'" "gauges_ok s"
  shows "gauges_ok s'"
  using assms by (simp add: gauges_ok_def same_defs conn_count_def dup_keys_def dup_conns_def)

lemma server_inv_frame:
  assumes "server_inv s" "same_registry s s'" "same_gauges s s'" "same_home s s'" "mesh_ok s'" "watchers_ok s'"
  shows "server_inv s'"
  using assms same_registry_sets same_registry_tracker same_registry_gauges
  by (simp add: server_inv_def registry_ok_def)

lemma watchers_ok_same:
  "watchers_ok s \<Longrightarrow> same_registry s s' \<Longrightarrow> sv_watchers s' = sv_watchers s \<Longrightarrow> watchers_ok s'"
  by (simp add: watchers_ok_def same_registry_registered) (simp add: same_registry_def)

lemma mesh_ok_same:
  "mesh_ok s \<Longrightarrow> same_registry s s' \<Longrightarrow> sv_clientsMesh s' = sv_clientsMesh s \<Longrightarrow> mesh_ok s'"
  by (simp add: mesh_ok_def same_registry_def)

lemma server_inv_same:
  assumes "server_inv s" "same_registry s s'" "same_gauges s s'" "same_home s s'"
    "sv_clientsMesh s' = sv_clientsMesh s" "sv_watchers s' = sv_watchers s"
  shows "server_inv s'"
  using assms by (intro server_inv_frame [OF assms(1-4)])
    (auto simp: server_inv_def registry_ok_def intro: watchers_ok_same mesh_ok_same)

lemma server_inv_parts:
  assumes "server_inv s"
  shows "sets_ok s" "gauges_ok s" "mesh_ok s" "watchers_ok s" "tracker_ok s"
  using assms by (simp_all add: server_inv_def registry_ok_def)

subsection \<open>Mesh watchers and peer-gone watchers\<close>

lemma addWatcher_same:
  assumes "addWatcher c s = Some s'"
  shows "same_registry s s'" "same_gauges s s'" "same_home s s'" "sv_clientsMesh s' = sv_clientsMesh s"
    "sv_watchers s' = (if sv_key s c = sv_publicKey s then sv_watchers s else finsert c (sv_watchers s))"
    "sc_canMesh (sv_conns s c)"
  using assms by (auto simp: addWatcher_def Let_def same_defs split: if_splits)

lemma server_inv_addWatcher [inv_rules]:
  assumes "server_inv s" and "c \<in> registered s" and w: "addWatcher c s = Some s'"
  shows "server_inv s'"
proof (rule server_inv_frame [OF assms(1) addWatcher_same(1-3) [OF w]])
  show "mesh_ok s'" using server_inv_parts(3) [OF assms(1)] addWatcher_same(1,4) [OF w] by (rule mesh_ok_same)
  have "registered s' = registered s" by (rule same_registry_registered [OF addWatcher_same(1) [OF w]])
  moreover have "sc_canMesh (sv_conns s' x) = sc_canMesh (sv_conns s x)" for x
    using addWatcher_same(1) [OF w] by (simp add: same_registry_def)
  ultimately show "watchers_ok s'"
    using assms(2) server_inv_parts(4) [OF assms(1)] addWatcher_same(5,6) [OF w]
    by (auto simp: watchers_ok_def split: if_splits)
qed

lemma addWatcher_no_panic [panic_free]: "sc_canMesh (sv_conns s c) \<Longrightarrow> \<exists>s'. addWatcher c s = Some s'"
  by (simp add: addWatcher_def Let_def)

lemma noteSendFromSrc_same:
  "same_registry s (noteSendFromSrc c src s)" "same_gauges s (noteSendFromSrc c src s)"
  "same_home s (noteSendFromSrc c src s)" "sv_clientsMesh (noteSendFromSrc c src s) = sv_clientsMesh s"
  "sv_watchers (noteSendFromSrc c src s) = sv_watchers s"
  by (simp_all add: noteSendFromSrc_def addPeerGoneFromRegionWatcher_def Let_def same_defs split: option.split)

lemma server_inv_noteSendFromSrc [inv_rules]: "server_inv s \<Longrightarrow> server_inv (noteSendFromSrc c src s)"
  by (erule server_inv_same) (rule noteSendFromSrc_same)+

lemma removePeerGone_same:
  "same_registry s (removePeerGoneFromRegionWatcher p h s)" "same_gauges s (removePeerGoneFromRegionWatcher p h s)"
  "same_home s (removePeerGoneFromRegionWatcher p h s)"
  "sv_clientsMesh (removePeerGoneFromRegionWatcher p h s) = sv_clientsMesh s"
  "sv_watchers (removePeerGoneFromRegionWatcher p h s) = sv_watchers s"
  by (simp_all add: removePeerGoneFromRegionWatcher_def Let_def same_defs split: option.split)

lemma server_inv_removePeerGone [inv_rules]: "server_inv s \<Longrightarrow> server_inv (removePeerGoneFromRegionWatcher p h s)"
  by (erule server_inv_same) (rule removePeerGone_same)+

subsection \<open>Rate limits\<close>

lemma UpdateRateLimits_same:
  assumes "UpdateRateLimits mb rc s = (rc', s')"
  shows "same_registry s s'" "same_gauges s s'" "same_home s s'" "sv_clientsMesh s' = sv_clientsMesh s"
    "sv_watchers s' = sv_watchers s"
  using assms by (auto simp: UpdateRateLimits_def Let_def same_defs split: if_splits)

lemma server_inv_UpdateRateLimits [inv_rules]:
  "server_inv s \<Longrightarrow> UpdateRateLimits mb rc s = (rc', s') \<Longrightarrow> server_inv s'"
  by (erule server_inv_same) (erule UpdateRateLimits_same)+

subsection \<open>The home flag\<close>

lemma setPreferred_same: "same_registry s (setPreferred c v d s)" "same_gauges s (setPreferred c v d s)"
  "sv_clientsMesh (setPreferred c v d s) = sv_clientsMesh s" "sv_watchers (setPreferred c v d s) = sv_watchers s"
  "sc_preferred (sv_conns (setPreferred c v d s) x) = (if x = c then v else sc_preferred (sv_conns s x))"
  "curHomeClients (sv_gauges (setPreferred c v d s)) =
     curHomeClients (sv_gauges s) + of_bool v - of_bool (sc_preferred (sv_conns s c))"
  by (auto simp: setPreferred_def Let_def same_defs)

text \<open>A count over the connections when one registered connection changes.\<close>

lemma conn_count_flip:
  assumes ok: "sets_ok s" and c: "c \<in> registered s"
  shows "conn_count (\<lambda>x. if x = c then v else P x) s = conn_count P s + of_bool v - of_bool (P c)"
proof -
  let ?Q = "\<lambda>x. if x = c then v else P x"
  from c obtain cs where look: "fmlookup (sv_clients s) (sv_key s c) = Some cs" and mem: "c |\<in>| ForeachClient cs"
    by (auto simp: registered_def mem_at_def split: option.splits)
  let ?rest = "fmdrop (sv_key s c) (sv_clients s)"
  let ?f = "\<lambda>P cs. int (fcard (ffilter P (ForeachClient cs)))"
  have "fm_sum (?f ?Q) ?rest = fm_sum (?f P) ?rest"
  proof (rule fm_sum_cong)
    fix k cs'
    assume "fmlookup ?rest k = Some cs'"
    then have "k \<noteq> sv_key s c" "set_ok (sv_conns s) (sv_dupPolicy s) k cs'"
      using ok by (auto simp: sets_ok_def split: if_splits)
    then have "c |\<notin>| ForeachClient cs'" by (auto dest: set_okD)
    then have "ffilter ?Q (ForeachClient cs') = ffilter P (ForeachClient cs')" by auto
    then show "?f ?Q cs' = ?f P cs'" by simp
  qed
  moreover have "?f ?Q cs = ?f P cs + of_bool v - of_bool (P c)"
  proof -
    have "ffilter ?Q (ForeachClient cs |-| {|c|}) = ffilter P (ForeachClient cs |-| {|c|})" by auto
    then show ?thesis
      using fcard_filter_remove [OF mem, of ?Q] fcard_filter_remove [OF mem, of P] by simp
  qed
  ultimately show ?thesis
    using fm_sum_drop [OF look, of "?f ?Q"] fm_sum_drop [OF look, of "?f P"]
    unfolding conn_count_def by linarith
qed

lemma server_inv_setPreferred [inv_rules]:
  assumes "server_inv s" and "c \<in> registered s"
  shows "server_inv (setPreferred c v d s)"
proof -
  let ?s' = "setPreferred c v d s"
  note p = server_inv_parts [OF assms(1)] and q = setPreferred_same [where s = s and c = c and v = v and d = d]
  have cl: "sv_clients ?s' = sv_clients s" using q(1) by (simp add: same_registry_def)
  have "conn_count (\<lambda>x. sc_preferred (sv_conns ?s' x)) ?s' =
      conn_count (\<lambda>x. if x = c then v else sc_preferred (sv_conns s x)) s"
    by (simp add: conn_count_def cl q(5))
  then have "curHomeClients (sv_gauges ?s') = conn_count (\<lambda>x. sc_preferred (sv_conns ?s' x)) ?s'"
    using p(2) conn_count_flip [OF p(1) assms(2), of v "\<lambda>x. sc_preferred (sv_conns s x)"]
    by (simp add: q(6) gauges_ok_def)
  then have "gauges_ok ?s'"
    using p(2) q(1,2) by (simp add: gauges_ok_def same_registry_def same_gauges_def conn_count_def dup_keys_def dup_conns_def)
  then show ?thesis
    using same_registry_sets [OF q(1) p(1)] mesh_ok_same [OF p(3) q(1,3)] watchers_ok_same [OF p(4) q(1,4)]
      same_registry_tracker [OF q(1) p(5)]
    by (simp add: server_inv_def registry_ok_def)
qed

subsection \<open>Forwarders\<close>

text \<open>An entry of \<open>clientsMesh\<close> that the invariant allows for a key; \<open>loc\<close> tells whether the key
  has a local client.\<close>

definition entry_ok :: "bool \<Rightarrow> mesh_entry \<Rightarrow> bool" where
  "entry_ok loc e \<longleftrightarrow> (loc \<longrightarrow> e \<noteq> None) \<and> (e = Some None \<longrightarrow> loc) \<and>
     (\<forall>m. e = Some (Some (MultiForwarder m)) \<longrightarrow> 2 \<le> length (mf_all m) \<and> distinct (map fst (mf_all m)))"

lemma mesh_ok_entries:
  "mesh_ok s \<longleftrightarrow> (\<forall>k. entry_ok (fmlookup (sv_clients s) k \<noteq> None) (fmlookup (sv_clientsMesh s) k))"
  by (auto simp: mesh_ok_def entry_ok_def)

lemma put_mesh_lookup: "fmlookup (sv_clientsMesh (put_mesh dst e s)) k = (if k = dst then e else fmlookup (sv_clientsMesh s) k)"
  by (simp add: put_mesh_def split: option.split)

lemma put_mesh_same:
  "same_registry s (put_mesh dst e s)" "same_gauges s (put_mesh dst e s)" "same_home s (put_mesh dst e s)"
  "sv_watchers (put_mesh dst e s) = sv_watchers s" "sv_clients (put_mesh dst e s) = sv_clients s"
  by (simp_all add: put_mesh_def same_defs)

lemma server_inv_mesh_update:
  assumes "server_inv s" and "same_registry s s'" "same_gauges s s'" "same_home s s'" "sv_watchers s' = sv_watchers s"
    and "\<And>k. fmlookup (sv_clientsMesh s') k = (if k = dst then e else fmlookup (sv_clientsMesh s) k)"
    and "entry_ok (fmlookup (sv_clients s) dst \<noteq> None) e"
  shows "server_inv s'"
proof (rule server_inv_frame [OF assms(1-4)])
  show "watchers_ok s'" using server_inv_parts(4) [OF assms(1)] assms(2,5) by (rule watchers_ok_same)
  have "sv_clients s' = sv_clients s" using assms(2) by (simp add: same_registry_def)
  then show "mesh_ok s'"
    using server_inv_parts(3) [OF assms(1)] assms(6,7) by (simp add: mesh_ok_entries)
qed

lemma add_entry_ok: "entry_ok loc e \<Longrightarrow> entry_ok loc (fst (add_entry f e))"
  by (auto simp: entry_ok_def add_entry_def mf_add_def newMultiForwarder_def split: option.splits PacketForwarder.splits)

lemma AddPacketForwarder_same: "same_registry s (AddPacketForwarder dst fwd s)"
  by (cases "add_entry fwd (fmlookup (sv_clientsMesh s) dst)")
     (simp add: AddPacketForwarder_def Let_def put_mesh_def same_registry_def)

lemma server_inv_AddPacketForwarder [inv_rules]:
  assumes "server_inv s"
  shows "server_inv (AddPacketForwarder dst fwd s)"
proof (rule server_inv_mesh_update [OF assms])
  show "entry_ok (fmlookup (sv_clients s) dst \<noteq> None) (fst (add_entry fwd (fmlookup (sv_clientsMesh s) dst)))"
    using server_inv_parts(3) [OF assms] by (intro add_entry_ok) (simp add: mesh_ok_entries)
qed (simp_all add: AddPacketForwarder_def Let_def case_prod_unfold put_mesh_lookup same_defs put_mesh_def split: option.split)

lemma filter_key_length:
  "distinct (map fst xs) \<Longrightarrow> length xs \<le> Suc (length (filter (\<lambda>(k, _). k \<noteq> f) xs))"
proof (induction xs)
  case (Cons x xs)
  have "filter (\<lambda>(k, _). k \<noteq> f) xs = xs" if "f \<notin> fst ` set xs"
    using that by (intro filter_True) force
  with Cons show ?case by (cases x) auto
qed simp

lemma deleteLocked_kept:
  assumes "deleteLocked f m = (None, m')" and "2 \<le> length (mf_all m)" and "distinct (map fst (mf_all m))"
  shows "2 \<le> length (mf_all m') \<and> distinct (map fst (mf_all m'))"
proof -
  let ?rest = "filter (\<lambda>(k, _). k \<noteq> f) (mf_all m)"
  have "mf_all m' = ?rest" "length ?rest \<noteq> 1"
    using assms(1) by (auto simp: deleteLocked_def Let_def length_Suc_conv split: list.splits)
  with filter_key_length [OF assms(3), of f] assms(2,3) show ?thesis
    by (simp add: distinct_map_filter)
qed

lemma RemovePacketForwarder_inv:
  assumes inv: "server_inv s"
  obtains s' where "RemovePacketForwarder dst fwd s = Some s'" and "server_inv s'" and "same_registry s s'"
proof -
  let ?e = "fmlookup (sv_clientsMesh s) dst" and ?loc = "fmlookup (sv_clients s) dst \<noteq> None"
  have e: "entry_ok ?loc ?e" using server_inv_parts(3) [OF inv] by (simp add: mesh_ok_entries)
  have same: "same_registry s (put_mesh dst e' (s\<lparr>sv_gauges := g\<rparr>))" "sv_watchers (put_mesh dst e' (s\<lparr>sv_gauges := g\<rparr>)) = sv_watchers s"
    "same_registry s (put_mesh dst e' s)" for e' g
    by (simp_all add: put_mesh_def same_defs)
  show thesis
  proof (cases "remove_entry fwd ?e")
    case RemoveAbsent
    then show thesis using inv by (intro that [of s]) (auto simp: RemovePacketForwarder_def same_registry_def)
  next
    case RemovePanic
    with e have False
      by (auto simp: remove_entry_def entry_ok_def split: option.splits PacketForwarder.splits prod.splits if_splits)
    then show thesis ..
  next
    case (RemoveKept v)
    then obtain m m' where m: "?e = Some (Some (MultiForwarder m))" "deleteLocked fwd m = (None, m')" "v = MultiForwarder m'"
      by (auto simp: remove_entry_def split: option.splits PacketForwarder.splits prod.splits if_splits)
    have "entry_ok ?loc (Some (Some v))"
      using deleteLocked_kept [OF m(2)] e m by (auto simp: entry_ok_def)
    then have "server_inv (put_mesh dst (Some (Some v)) s)"
      by (intro server_inv_mesh_update [OF inv put_mesh_same(1-4) put_mesh_lookup])
    with RemoveKept show thesis by (intro that) (auto simp: RemovePacketForwarder_def same)
  next
    case (RemoveCollapsed r)
    let ?s = "put_mesh dst (Some (Some (PlainForwarder r)))
          (s\<lparr>sv_gauges := (sv_gauges s)\<lparr>multiForwarderDeleted := multiForwarderDeleted (sv_gauges s) + 1\<rparr>\<rparr>)"
    have "server_inv ?s"
      by (rule server_inv_mesh_update [OF inv, where dst = dst and e = "Some (Some (PlainForwarder r))"])
         (simp_all add: put_mesh_lookup same_defs put_mesh_def entry_ok_def)
    with RemoveCollapsed show thesis by (intro that) (auto simp: RemovePacketForwarder_def same)
  next
    case RemoveOther
    let ?s = "s\<lparr>sv_gauges := (sv_gauges s)\<lparr>removePktForwardOther := removePktForwardOther (sv_gauges s) + 1\<rparr>\<rparr>"
    have "server_inv ?s" by (rule server_inv_same [OF inv]) (simp_all add: same_defs)
    with RemoveOther show thesis by (intro that) (auto simp: RemovePacketForwarder_def same_registry_def)
  next
    case RemoveGone
    show thesis
    proof (cases ?loc)
      case True
      then have "server_inv (put_mesh dst (Some None) s)"
        by (intro server_inv_mesh_update [OF inv put_mesh_same(1-4) put_mesh_lookup]) (simp add: entry_ok_def)
      with RemoveGone True show thesis by (intro that) (auto simp: RemovePacketForwarder_def same)
    next
      case False
      have "fmlookup (sv_clientsMesh (put_mesh dst None s)) dst = None" by (simp add: put_mesh_lookup)
      then obtain s' where s': "notePeerGoneFromRegionLocked dst (put_mesh dst None s) = Some s'"
        by (simp add: notePeerGoneFromRegionLocked_def Let_def)
      then have f: "same_registry s s'" "same_gauges s s'" "same_home s s'" "sv_watchers s' = sv_watchers s"
        "sv_clientsMesh s' = sv_clientsMesh (put_mesh dst None s)"
        by (auto simp: notePeerGoneFromRegionLocked_def Let_def same_defs put_mesh_def split: if_splits)
      have "server_inv s'"
        by (rule server_inv_mesh_update [OF inv f(1-4), where dst = dst and e = None])
           (use False in \<open>simp_all add: f(5) put_mesh_lookup entry_ok_def\<close>)
      with RemoveGone False s' f(1) show thesis by (intro that) (auto simp: RemovePacketForwarder_def)
    qed
  qed
qed

subsection \<open>Activity of a duplicate\<close>

text \<open>Replacing the client set of a key by one with the same members.\<close>

lemma server_inv_set_update:
  assumes inv: "server_inv s" and look: "fmlookup (sv_clients s) key = Some cs" and cs': "cs_dup cs = Some d" "cs_dup cs' = Some d'"
    "dc_set d' = dc_set d"
    and s': "s' = s\<lparr>sv_conns := conns', sv_clients := fmupd key cs' (sv_clients s)\<rparr>"
    and conns: "\<And>x. conns' x = sv_conns s x \<or> x |\<in>| dc_set d \<and> conns' x = (sv_conns s x)\<lparr>sc_isDisabled := True\<rparr>"
    and so': "set_ok conns' (sv_dupPolicy s) key cs'"
  shows "server_inv s'" and "registered s' = registered s"
proof -
  note p = server_inv_parts [OF inv]
  have F: "ForeachClient cs = dc_set d" "ForeachClient cs' = dc_set d"
    using cs' by (simp_all add: ForeachClient_def)
  have fld: "sc_key (conns' x) = sv_key s x" "sc_canMesh (conns' x) = sc_canMesh (sv_conns s x)"
    "sc_isNotIdealConn (conns' x) = sc_isNotIdealConn (sv_conns s x)"
    "sc_preferred (conns' x) = sc_preferred (sv_conns s x)" "sc_isDup (conns' x) = sc_isDup (sv_conns s x)" for x
    using conns [of x] by auto
  have other: "conns' x = sv_conns s x" if "sv_key s x \<noteq> key" for x
  proof -
    have "x |\<notin>| dc_set d" using set_okD(2) [OF sets_okD [OF p(1) look], of x] that F by auto
    with conns [of x] show ?thesis by auto
  qed
  have "sets_ok s'"
    by (rule sets_ok_other [OF p(1), of s' key]) (use s' so' other in auto)
  moreover have cc: "conn_count P s' = conn_count P s" "dup_keys s' = dup_keys s" "dup_conns s' = dup_conns s" for P
    using cs' by (simp_all add: s' conn_count_def dup_keys_def dup_conns_def fm_sum_update [OF look] F is_dup_set_def)
  have "int (fcard (fmdom (sv_clients s'))) = int (fcard (fmdom (sv_clients s)))"
    using fcard_dom_put [of key cs' "sv_clients s"] look by (simp add: s' del: fmdom_fmupd)
  then have "gauges_ok s'"
    using p(2) cc by (simp add: gauges_ok_def) (simp add: s' fld)
  moreover have "mesh_ok s'"
    by (rule mesh_ok_dom [OF p(3)]) (use s' look in auto)
  moreover have mem: "mem_at s' k = mem_at s k" for k
    using look by (auto simp: s' mem_at_def F)
  then show reg: "registered s' = registered s"
    by (simp add: registered_def s' fld)
  have "watchers_ok s'" "tracker_ok s'"
    using p(4,5) reg by (simp_all add: watchers_ok_def tracker_ok_def) (simp_all add: s' fld)
  ultimately show "server_inv s'" using \<open>gauges_ok s'\<close> \<open>mesh_ok s'\<close> \<open>sets_ok s'\<close>
    by (simp add: server_inv_def registry_ok_def)
qed

lemma activity_sets_ok:
  assumes wf: "dup_wf (cs_activeClient cs) d" and c: "c |\<in>| dc_set d"
    and a: "activity_sets pol c cs d = (fighting, cs')"
  obtains d' where "cs_dup cs' = Some d'" and "dc_set d' = dc_set d" and "dup_wf (cs_activeClient cs') d'"
    and "dc_last d' \<noteq> None" and "fighting \<longrightarrow> pol = disableFighters \<and> cs_activeClient cs' = None"
    and "dup_live (cs_activeClient cs) d \<Longrightarrow> pol = lastWriterIsActive \<Longrightarrow> dup_live (cs_activeClient cs') d'"
proof -
  from a obtain d' where d': "cs_dup cs' = Some d'"
    by (auto simp: activity_sets_def Let_def split: if_splits)
  have h: "dc_set d' = dc_set d" "dc_sendHistory d' = dc_sendHistory d \<or> dc_sendHistory d' = dc_sendHistory d @ [c]"
    using a d' by (auto simp: activity_sets_def Let_def split: if_splits)
  have l: "dc_last d' = (if pol = lastWriterIsActive \<or> dc_last d = None then Some c else dc_last d)"
    using a d' by (auto simp: activity_sets_def Let_def split: if_splits)
  have act: "cs_activeClient cs' \<in> {None, Some c, cs_activeClient cs}"
    using a by (auto simp: activity_sets_def Let_def split: if_splits option.splits)
  have act_lw: "pol = lastWriterIsActive \<Longrightarrow> cs_activeClient cs' = Some c"
    using a by (auto simp: activity_sets_def Let_def split: if_splits)
  have f: "fighting \<longrightarrow> pol = disableFighters \<and> cs_activeClient cs' = None"
  proof -
    have "x |\<in>| dc_set d" if "cs_activeClient cs = Some x" for x using wf that by (simp add: dup_wf_def)
    with a c show ?thesis
      by (auto simp: activity_sets_def Let_def split: if_splits option.splits)
  qed
  have wf': "dup_wf (cs_activeClient cs') d'"
    using wf c act h l by (auto simp: dup_wf_def split: if_splits)
  have live: "dup_live (cs_activeClient cs') d'" if "dup_live (cs_activeClient cs) d" "pol = lastWriterIsActive"
  proof -
    have "card (fset (dc_set d') - set (dc_sendHistory d')) \<le> card (fset (dc_set d) - set (dc_sendHistory d))"
      using h by (intro card_mono) auto
    with that act_lw l show ?thesis by (simp add: dup_live_def)
  qed
  show thesis
    by (rule that [OF d' h(1) wf' _ f live]) (use l in auto)
qed

lemma noteActivityLocked_inv:
  assumes inv: "server_inv s" and c: "c \<in> registered s"
  shows "server_inv (noteActivityLocked c s) \<and> registered (noteActivityLocked c s) = registered s"
proof (cases "\<exists>cs d. fmlookup (sv_clients s) (sv_key s c) = Some cs \<and> cs_dup cs = Some d")
  case False
  then have "noteActivityLocked c s = s" by (auto simp: noteActivityLocked_def split: option.splits)
  with inv show ?thesis by simp
next
  case True
  then obtain cs d where look: "fmlookup (sv_clients s) (sv_key s c) = Some cs" and d: "cs_dup cs = Some d" by blast
  have so: "set_ok (sv_conns s) (sv_dupPolicy s) (sv_key s c) cs"
    by (rule sets_okD [OF server_inv_parts(1) [OF inv] look])
  have cd: "c |\<in>| dc_set d" using c look d by (simp add: registered_def mem_at_def ForeachClient_def)
  have wf: "dup_wf (cs_activeClient cs) d" using set_okD(1) [OF so] d by (simp add: clientSet_wf_def)
  obtain fighting cs' where a: "activity_sets (sv_dupPolicy s) c cs d = (fighting, cs')" by fastforce
  let ?conns = "\<lambda>x. if fighting \<and> x |\<in>| dc_set d then (sv_conns s x)\<lparr>sc_isDisabled := True\<rparr> else sv_conns s x"
  have n: "noteActivityLocked c s = s\<lparr>sv_conns := ?conns, sv_clients := fmupd (sv_key s c) cs' (sv_clients s)\<rparr>"
    by (simp add: noteActivityLocked_def look d a)
  from activity_sets_ok [OF wf cd a] obtain d' where d': "cs_dup cs' = Some d'" "dc_set d' = dc_set d"
    "dup_wf (cs_activeClient cs') d'" and f: "fighting \<longrightarrow> sv_dupPolicy s = disableFighters \<and> cs_activeClient cs' = None"
    and live: "dup_live (cs_activeClient cs) d \<Longrightarrow> sv_dupPolicy s = lastWriterIsActive \<Longrightarrow> dup_live (cs_activeClient cs') d'"
    by metis
  have "set_ok ?conns (sv_dupPolicy s) (sv_key s c) cs'"
    using so d d' f live by (auto simp: set_ok_def clientSet_wf_def ForeachClient_def)
  then show ?thesis
    using server_inv_set_update [OF inv look d d'(1,2) n] by auto
qed

lemma server_inv_activity [inv_rules]: "server_inv s \<Longrightarrow> c \<in> registered s \<Longrightarrow> server_inv (noteActivityLocked c s)"
  and registered_activity: "server_inv s \<Longrightarrow> c \<in> registered s \<Longrightarrow> registered (noteActivityLocked c s) = registered s"
  by (simp_all add: noteActivityLocked_inv)

end
