(* ===== verification/DerpSystem.thy ===== *)
theory DerpSystem
  imports DerpInvariant
begin

text \<open>
  The server as a transition system. A state is the server with the connections that have been
  accepted and are still in their handshake; an \<open>op\<close> is one critical section of \<open>Server.mu\<close>, made by
  the goroutine of some connection or by an administrative call. \<open>enabled\<close> says which calls the code
  can make in a state: the operations of a connection run between its \<open>registerClient\<close> and its
  deferred \<open>unregisterClient\<close>. Goroutines interleave freely.
\<close>

section \<open>States and operations\<close>

definition new_sclient :: "node_public \<Rightarrow> AddrPort \<Rightarrow> string \<Rightarrow> gotime \<Rightarrow> bool \<Rightarrow> bool \<Rightarrow> bool \<Rightarrow> sclient" where
  "new_sclient key remoteIPPort remoteAddr now canMesh notIdeal prober =
     \<lparr>sc_key = key, sc_isProber = prober, sc_remoteIPPort = remoteIPPort, sc_remoteAddr = remoteAddr,
      sc_connectedAt = now, sc_canMesh = canMesh, sc_isNotIdealConn = notIdeal, sc_isDup = False,
      sc_isDisabled = False, sc_preferred = False, sc_ctxDone = False, sc_sendQueue = [], sc_discoSendQueue = [],
      sc_sawSrc = fmempty, sc_peerStateChange = [], sc_recvLim = None\<rparr>"

definition zero_gauges :: gauges where
  "zero_gauges = \<lparr>curClients = 0, curClientsNotIdeal = 0, curHomeClients = 0, dupClientKeys = 0,
     dupClientConns = 0, dupClientConnTotal = 0, homeMovesIn = 0, homeMovesOut = 0,
     multiForwarderCreated = 0, multiForwarderDeleted = 0, removePktForwardOther = 0\<rparr>"

text \<open>\<open>New\<close>, followed by the configuration calls made before the first \<open>Accept\<close>. The store
  \<open>sv_conns\<close> is total; the entries of numbers not yet accepted are never read.\<close>

definition NewServer :: "node_public \<Rightarrow> dupPolicy \<Rightarrow> PeerTracker option \<Rightarrow> Server" where
  "NewServer pub pol tr =
     \<lparr>sv_publicKey = pub, sv_dupPolicy = pol, sv_accepts = 0,
      sv_conns = (\<lambda>_. new_sclient [] AddrPort_zero [] 0 False False False),
      sv_clients = fmempty, sv_numLocalClientKeys = 0, sv_watchers = {||}, sv_clientsMesh = fmempty,
      sv_peerGoneWatchers = fmempty, sv_nextHandle = 0, sv_keyOfAddr = fmempty,
      sv_rateConfig = \<lparr>PerClientRateLimitBytesPerSec = 0, PerClientRateBurstBytes = 0\<rparr>,
      sv_peerTracker = tr, sv_gauges = zero_gauges, sv_spawned = []\<rparr>"

record sys =
  sy_srv :: Server
  sy_pending :: "sptr fset" \<comment> \<open>accepted, not yet registered\<close>
  sy_sent :: "sptr \<Rightarrow> peerConnState list" \<comment> \<open>presence messages already taken by \<open>sendMeshUpdates\<close>\<close>

datatype op =
    OpAccept
  | OpReject sptr
  | OpServe sptr node_public AddrPort string gotime bool bool bool
  | OpActivity sptr
  | OpPreferred sptr bool duration
  | OpWatch sptr
  | OpMeshUpdates sptr
  | OpRecv sptr nat
  | OpSent sptr nat
  | OpSawSrc sptr node_public
  | OpUnwatchSrc node_public nat
  | OpClose sptr
  | OpAddForwarder node_public fwd_id
  | OpRemoveForwarder node_public fwd_id
  | OpLimits RateConfig

fun enabled :: "sys \<Rightarrow> op \<Rightarrow> bool" where
  "enabled y (OpReject c) \<longleftrightarrow> c |\<in>| sy_pending y"
| "enabled y (OpServe c _ _ _ _ _ _ _) \<longleftrightarrow> c |\<in>| sy_pending y"
| "enabled y (OpActivity c) \<longleftrightarrow> c \<in> registered (sy_srv y)"
| "enabled y (OpPreferred c _ _) \<longleftrightarrow> c \<in> registered (sy_srv y)"
| "enabled y (OpWatch c) \<longleftrightarrow> c \<in> registered (sy_srv y) \<and> sc_canMesh (sv_conns (sy_srv y) c)"
| "enabled y (OpMeshUpdates c) \<longleftrightarrow> c \<in> registered (sy_srv y)"
| "enabled y (OpRecv c _) \<longleftrightarrow> c \<in> registered (sy_srv y)"
| "enabled y (OpSent c _) \<longleftrightarrow> c \<in> registered (sy_srv y)"
| "enabled y (OpSawSrc c _) \<longleftrightarrow> c \<in> registered (sy_srv y)"
| "enabled y (OpClose c) \<longleftrightarrow> c \<in> registered (sy_srv y)"
| "enabled y _ \<longleftrightarrow> True"

definition track :: "(PeerTracker \<Rightarrow> PeerTracker option) \<Rightarrow> Server \<Rightarrow> Server option" where
  "track f s = (case sv_peerTracker s of
     None \<Rightarrow> Some s
   | Some t \<Rightarrow> map_option (\<lambda>t'. s\<lparr>sv_peerTracker := Some t'\<rparr>) (f t))"

definition on_srv :: "sys \<Rightarrow> Server option \<Rightarrow> sys option" where
  "on_srv y r = map_option (\<lambda>s. y\<lparr>sy_srv := s\<rparr>) r"

text \<open>The effect of an operation, \<^term>\<open>None\<close> for a panic.\<close>

fun exec :: "(node_public \<Rightarrow> string) \<Rightarrow> uint64 \<Rightarrow> op \<Rightarrow> sys \<Rightarrow> sys option" where
  "exec kstr mb OpAccept y =
     (let n = sv_accepts (sy_srv y) + 1
      in Some (y\<lparr>sy_srv := (sy_srv y)\<lparr>sv_accepts := n\<rparr>, sy_pending := finsert n (sy_pending y)\<rparr>))"
| "exec kstr mb (OpReject c) y = Some (y\<lparr>sy_pending := sy_pending y |-| {|c|}\<rparr>)"
| "exec kstr mb (OpServe c key addr raddr now mesh notIdeal prober) y =
     Some (y\<lparr>sy_srv := registerClient kstr c
               (upd_conn c (\<lambda>_. new_sclient key addr raddr now mesh notIdeal prober) (sy_srv y)),
             sy_pending := sy_pending y |-| {|c|}, sy_sent := (sy_sent y)(c := [])\<rparr>)"
| "exec kstr mb (OpActivity c) y = on_srv y (Some (noteActivityLocked c (sy_srv y)))"
| "exec kstr mb (OpPreferred c v d) y = on_srv y (Some (setPreferred c v d (sy_srv y)))"
| "exec kstr mb (OpWatch c) y = on_srv y (addWatcher c (sy_srv y))"
| "exec kstr mb (OpMeshUpdates c) y =
     Some (y\<lparr>sy_sent := (sy_sent y)(c := sy_sent y c @ sc_peerStateChange (sv_conns (sy_srv y) c)),
             sy_srv := upd_conn c (sc_peerStateChange_update (\<lambda>_. [])) (sy_srv y)\<rparr>)"
| "exec kstr mb (OpRecv c n) y = on_srv y (track (Receive c n) (sy_srv y))"
| "exec kstr mb (OpSent c n) y = on_srv y (track (Send c n) (sy_srv y))"
| "exec kstr mb (OpSawSrc c src) y = on_srv y (Some (noteSendFromSrc c src (sy_srv y)))"
| "exec kstr mb (OpUnwatchSrc p h) y = on_srv y (Some (removePeerGoneFromRegionWatcher p h (sy_srv y)))"
| "exec kstr mb (OpClose c) y = on_srv y (unregisterClient c (sy_srv y))"
| "exec kstr mb (OpAddForwarder dst f) y = on_srv y (Some (AddPacketForwarder dst f (sy_srv y)))"
| "exec kstr mb (OpRemoveForwarder dst f) y = on_srv y (RemovePacketForwarder dst f (sy_srv y))"
| "exec kstr mb (OpLimits rc) y = on_srv y (Some (snd (UpdateRateLimits mb rc (sy_srv y))))"

definition sys_init :: "node_public \<Rightarrow> dupPolicy \<Rightarrow> PeerTracker option \<Rightarrow> sys" where
  "sys_init pub pol tr = \<lparr>sy_srv = NewServer pub pol tr, sy_pending = {||}, sy_sent = (\<lambda>_. [])\<rparr>"

inductive reachable :: "(node_public \<Rightarrow> string) \<Rightarrow> uint64 \<Rightarrow> sys \<Rightarrow> bool" for kstr mb where
  start: "tr \<in> {None, Some NewPeerTracker} \<Longrightarrow> reachable kstr mb (sys_init pub pol tr)"
| step: "reachable kstr mb y \<Longrightarrow> enabled y x \<Longrightarrow> exec kstr mb x y = Some y' \<Longrightarrow> reachable kstr mb y'"

text \<open>A run from a start state, for evaluation: \<^term>\<open>None\<close> when an operation is not enabled or panics.\<close>

fun run_ops :: "(node_public \<Rightarrow> string) \<Rightarrow> uint64 \<Rightarrow> op list \<Rightarrow> sys \<Rightarrow> sys option" where
  "run_ops kstr mb [] y = Some y"
| "run_ops kstr mb (x # xs) y =
     (if enabled y x then Option.bind (exec kstr mb x y) (run_ops kstr mb xs) else None)"

lemma run_ops_reachable:
  "reachable kstr mb y \<Longrightarrow> run_ops kstr mb xs y = Some y' \<Longrightarrow> reachable kstr mb y'"
  by (induction xs arbitrary: y) (auto split: if_splits bind_splits intro: reachable.step)

section \<open>The invariant\<close>

text \<open>Connection numbers are used once: the pending and the registered ones are below the counter
  and disjoint.\<close>

definition sys_inv :: "sys \<Rightarrow> bool" where
  "sys_inv y \<longleftrightarrow> server_inv (sy_srv y) \<and>
     (\<forall>c. c |\<in>| sy_pending y \<longrightarrow> c \<le> sv_accepts (sy_srv y) \<and> c \<notin> registered (sy_srv y)) \<and>
     (\<forall>c \<in> registered (sy_srv y). c \<le> sv_accepts (sy_srv y))"

lemma NewServer_inv: "tr \<in> {None, Some NewPeerTracker} \<Longrightarrow> server_inv (NewServer pub pol tr)"
  by (auto simp: server_inv_def registry_ok_def NewServer_def sets_ok_def gauges_ok_def mesh_ok_def watchers_ok_def
      tracker_ok_def tracker_for_def conn_count_def dup_keys_def dup_conns_def registered_def mem_at_def
      zero_gauges_def tracker_inv_new) (simp_all add: NewPeerTracker_def)

lemma sys_inv_init: "tr \<in> {None, Some NewPeerTracker} \<Longrightarrow> sys_inv (sys_init pub pol tr)"
  using NewServer_inv by (auto simp: sys_inv_def sys_init_def NewServer_def registered_def mem_at_def)

lemma unregistered_nowhere: "sets_ok s \<Longrightarrow> c \<notin> registered s \<Longrightarrow> c |\<notin>| mem_at s k"
  by (auto simp: registered_iff)

text \<open>The object of a connection that is not registered can be replaced.\<close>

lemma new_object_inv:
  assumes inv: "server_inv s" and c: "c \<notin> registered s"
  shows "server_inv (upd_conn c f s)" and "registered (upd_conn c f s) = registered s"
proof -
  let ?s = "upd_conn c f s"
  note p = server_inv_parts [OF inv]
  have mem: "mem_at ?s k = mem_at s k" for k by (simp add: mem_at_def)
  have out: "c |\<notin>| mem_at s k" for k using unregistered_nowhere [OF p(1) c] .
  show reg: "registered ?s = registered s" using out by (auto simp: registered_def mem)
  have outF: "c |\<notin>| ForeachClient cs" if "fmlookup (sv_clients s) k = Some cs" for k cs
    using out [of k] mem_at_Some [OF that] by simp
  have "sets_ok ?s"
    unfolding sets_ok_def
  proof (intro allI impI)
    fix k cs
    assume look: "fmlookup (sv_clients ?s) k = Some cs"
    then have l: "fmlookup (sv_clients s) k = Some cs" by simp
    have "set_ok (sv_conns ?s) (sv_dupPolicy s) k cs"
      by (rule set_ok_frame [OF sets_okD [OF p(1) l]]) (use outF [OF l] in auto)
    then show "set_ok (sv_conns ?s) (sv_dupPolicy ?s) k cs" by simp
  qed
  moreover have cc: "conn_count (\<lambda>x. Q (sv_conns ?s x)) ?s = conn_count (\<lambda>x. Q (sv_conns s x)) s" for Q
    by (rule conn_count_cong) (use outF in \<open>auto split: if_splits\<close>)
  have "gauges_ok ?s"
    using p(2) cc [of "\<lambda>_. True"] cc [of sc_isNotIdealConn] cc [of sc_preferred]
    unfolding gauges_ok_def by (simp add: dup_keys_def dup_conns_def)
  moreover have "mesh_ok ?s" using p(3) by (simp add: mesh_ok_def)
  moreover have "watchers_ok ?s" using p(4) c by (auto simp: watchers_ok_def reg)
  moreover have "{x \<in> registered s. \<not> sc_canMesh (sv_conns ?s x)} = {x \<in> registered s. \<not> sc_canMesh (sv_conns s x)}"
    using c by auto
  then have "tracker_ok ?s" using p(5) by (simp add: tracker_ok_def reg)
  ultimately show "server_inv ?s" by (simp add: server_inv_def registry_ok_def)
qed

lemma serve_inv:
  assumes inv: "server_inv s" and c: "c \<notin> registered s"
    and s1_def: "s1 = upd_conn c (\<lambda>_. new_sclient key addr raddr now mesh notIdeal prober) s"
  shows "server_inv (registerClient kstr c s1)" and "registered (registerClient kstr c s1) = insert c (registered s)"
proof -
  have i: "server_inv s1" "registered s1 = registered s"
    unfolding s1_def by (rule new_object_inv [OF inv c])+
  moreover have "fresh_conn s1 c"
    using c i(2) by (simp add: fresh_conn_def s1_def new_sclient_def)
  ultimately show "server_inv (registerClient kstr c s1)" by (intro server_inv_register)
  show "registered (registerClient kstr c s1) = insert c (registered s)"
    using registered_register [OF server_inv_parts(1) [OF i(1)]] i(2) by simp
qed

lemma sys_inv_srv:
  assumes "sys_inv y" "server_inv s'" "registered s' \<subseteq> registered (sy_srv y)" "sv_accepts s' = sv_accepts (sy_srv y)"
  shows "sys_inv (y\<lparr>sy_srv := s'\<rparr>)"
  using assms by (auto simp: sys_inv_def)

lemma same_registry_sys:
  "sys_inv y \<Longrightarrow> server_inv s' \<Longrightarrow> same_registry (sy_srv y) s' \<Longrightarrow> sys_inv (y\<lparr>sy_srv := s'\<rparr>)"
  by (rule sys_inv_srv) (simp_all add: same_registry_registered, simp add: same_registry_def)

lemma track_inv:
  assumes inv: "server_inv s" and f: "\<And>t. tracker_inv t \<Longrightarrow> \<exists>t'. f t = Some t' \<and> tracker_inv t' \<and>
      fmlookup (tr_connections t') = fmlookup (tr_connections t)"
  obtains s' tr where "track f s = Some s'" and "server_inv s'" and "s' = s\<lparr>sv_peerTracker := tr\<rparr>"
proof (cases "sv_peerTracker s")
  case None
  then show thesis using inv by (intro that [of s None]) (simp_all add: track_def)
next
  case (Some t)
  with server_inv_parts(5) [OF inv] have "tracker_inv t" by (simp add: tracker_ok_def tracker_for_def)
  from f [OF this] obtain t' where t': "f t = Some t'" "tracker_inv t'"
    "fmlookup (tr_connections t') = fmlookup (tr_connections t)" by blast
  have "server_inv (s\<lparr>sv_peerTracker := Some t'\<rparr>)"
    using inv Some t' by (simp add: server_inv_def tracker_ok_def tracker_for_def)
  with Some t' show thesis by (intro that [of "s\<lparr>sv_peerTracker := Some t'\<rparr>" "Some t'"]) (simp_all add: track_def)
qed

lemma sys_step:
  assumes y: "sys_inv y" and en: "enabled y x"
  shows "\<exists>y'. exec kstr mb x y = Some y' \<and> sys_inv y'"
proof -
  let ?s = "sy_srv y"
  have inv: "server_inv ?s" and pend: "\<And>c. c |\<in>| sy_pending y \<Longrightarrow> c \<le> sv_accepts ?s \<and> c \<notin> registered ?s"
    and below: "\<And>c. c \<in> registered ?s \<Longrightarrow> c \<le> sv_accepts ?s"
    using y by (simp_all add: sys_inv_def)
  have simple: ?thesis if "exec kstr mb x y = on_srv y (Some s')" "server_inv s'" "same_registry ?s s'" for s'
    using same_registry_sys [OF y that(2,3)] that(1) by (simp add: on_srv_def)
  show ?thesis
  proof (cases x)
    case OpAccept
    let ?s' = "?s\<lparr>sv_accepts := sv_accepts ?s + 1\<rparr>"
    have "server_inv ?s'" and reg: "registered ?s' = registered ?s"
      using inv by (simp_all add: server_inv_def registry_ok_def sets_ok_def gauges_ok_def mesh_ok_def watchers_ok_def
          tracker_ok_def conn_count_def dup_keys_def dup_conns_def registered_def mem_at_def)
    with OpAccept pend below show ?thesis by (force simp: sys_inv_def Let_def)
  next
    case (OpReject c)
    with y show ?thesis by (auto simp: sys_inv_def)
  next
    case (OpServe c key addr raddr now mesh ni pr)
    with en pend have c: "c \<notin> registered ?s" "c \<le> sv_accepts ?s" by auto
    let ?s1 = "upd_conn c (\<lambda>_. new_sclient key addr raddr now mesh ni pr) ?s"
    have "sv_accepts (registerClient kstr c ?s1) = sv_accepts ?s" by (simp add: register_simps)
    with OpServe serve_inv [OF inv c(1) refl] pend below c show ?thesis by (auto simp: sys_inv_def)
  next
    case (OpActivity c)
    with en have c: "c \<in> registered ?s" by simp
    have "sv_accepts (noteActivityLocked c ?s) = sv_accepts ?s"
      by (simp add: noteActivityLocked_def Let_def case_prod_unfold split: option.split)
    with OpActivity noteActivityLocked_inv [OF inv c] sys_inv_srv [OF y] show ?thesis by (simp add: on_srv_def)
  next
    case (OpPreferred c v d)
    with en show ?thesis by (intro simple [OF _ server_inv_setPreferred [OF inv] setPreferred_same(1)]) auto
  next
    case (OpWatch c)
    with en obtain s' where s': "addWatcher c ?s = Some s'" using addWatcher_no_panic by fastforce
    with OpWatch en show ?thesis
      by (intro simple [OF _ server_inv_addWatcher [OF inv _ s'] addWatcher_same(1) [OF s']]) auto
  next
    case (OpMeshUpdates c)
    let ?s' = "upd_conn c (sc_peerStateChange_update (\<lambda>_. [])) ?s"
    have sr: "same_registry ?s ?s'" by (simp add: same_registry_def)
    have "server_inv ?s'" by (rule server_inv_same [OF inv sr]) (simp_all add: same_defs)
    with same_registry_sys [OF y _ sr] OpMeshUpdates show ?thesis by (auto simp: sys_inv_def)
  next
    case (OpRecv c n)
    from inv obtain s' tr where "track (Receive c n) ?s = Some s'" "server_inv s'" "s' = ?s\<lparr>sv_peerTracker := tr\<rparr>"
      by (rule track_inv) (rule acct.recv_ok)
    with OpRecv sys_inv_srv [OF y, of s'] show ?thesis by (simp add: on_srv_def)
  next
    case (OpSent c n)
    from inv obtain s' tr where "track (Send c n) ?s = Some s'" "server_inv s'" "s' = ?s\<lparr>sv_peerTracker := tr\<rparr>"
      by (rule track_inv) (rule acct.send_ok)
    with OpSent sys_inv_srv [OF y, of s'] show ?thesis by (simp add: on_srv_def)
  next
    case (OpSawSrc c src)
    then show ?thesis by (intro simple [OF _ server_inv_noteSendFromSrc [OF inv] noteSendFromSrc_same(1)]) simp
  next
    case (OpUnwatchSrc p h)
    then show ?thesis by (intro simple [OF _ server_inv_removePeerGone [OF inv] removePeerGone_same(1)]) simp
  next
    case (OpClose c)
    with en have c: "c \<in> registered ?s" by simp
    from unregister_inv [OF inv c] obtain s' where "unregisterClient c ?s = Some s'" "server_inv s'"
      "registered s' = registered ?s - {c}" "sv_accepts s' = sv_accepts ?s" "sv_dupPolicy s' = sv_dupPolicy ?s"
      "\<forall>x. sv_key s' x = sv_key ?s x" .
    with OpClose sys_inv_srv [OF y, of s'] show ?thesis by (auto simp: on_srv_def)
  next
    case (OpAddForwarder dst f)
    have "same_registry ?s (AddPacketForwarder dst f ?s)" by (rule AddPacketForwarder_same)
    with OpAddForwarder show ?thesis by (intro simple [OF _ server_inv_AddPacketForwarder [OF inv]]) simp
  next
    case (OpRemoveForwarder dst f)
    from RemovePacketForwarder_inv [OF inv] obtain s' where
      "RemovePacketForwarder dst f ?s = Some s'" "server_inv s'" "same_registry ?s s'" .
    with OpRemoveForwarder show ?thesis by (intro simple) auto
  next
    case (OpLimits rc)
    obtain rc' s' where u: "UpdateRateLimits mb rc ?s = (rc', s')" by fastforce
    with OpLimits show ?thesis
      by (intro simple [OF _ server_inv_UpdateRateLimits [OF inv u] UpdateRateLimits_same(1) [OF u]]) simp
  qed
qed

lemma reachable_inv: "reachable kstr mb y \<Longrightarrow> sys_inv y"
proof (induction rule: reachable.induct)
  case (start tr pub pol)
  then show ?case by (rule sys_inv_init)
next
  case (step y x y')
  from sys_step [OF step.IH step.hyps(2), of kstr mb] step.hyps(3) show ?case by auto
qed

section \<open>Counting\<close>

lemma conn_count_card:
  assumes ok: "sets_ok s"
  shows "conn_count P s = int (card {c \<in> registered s. P c})"
proof -
  let ?A = "\<lambda>k. {c. c |\<in>| mem_at s k \<and> P c}"
  have fin: "finite (?A k)" for k
    by (rule finite_subset [of _ "fset (mem_at s k)"]) auto
  have un: "{c \<in> registered s. P c} = (\<Union>k\<in>fset (fmdom (sv_clients s)). ?A k)"
  proof -
    have "k \<in> fset (fmdom (sv_clients s))" if "c |\<in>| mem_at s k" for c k
      using that by (auto simp: mem_at_def fmlookup_dom_iff split: option.splits)
    then show ?thesis by (auto simp: registered_iff [OF ok])
  qed
  have "card {c \<in> registered s. P c} = (\<Sum>k\<in>fset (fmdom (sv_clients s)). card (?A k))"
    unfolding un
  proof (rule card_UN_disjoint)
    show "\<forall>i\<in>fset (fmdom (sv_clients s)). \<forall>j\<in>fset (fmdom (sv_clients s)). i \<noteq> j \<longrightarrow> ?A i \<inter> ?A j = {}"
      by (auto dest: sets_ok_key [OF ok])
  qed (use fin in auto)
  moreover have "conn_count P s = (\<Sum>k\<in>fset (fmdom (sv_clients s)). int (card (?A k)))"
    unfolding conn_count_def fm_sum_def
  proof (rule sum.cong)
    fix k
    assume "k \<in> fset (fmdom (sv_clients s))"
    then obtain cs where cs: "fmlookup (sv_clients s) k = Some cs" by (auto simp: fmlookup_dom_iff)
    then have "fset (ffilter P (ForeachClient cs)) = ?A k" by (auto simp: mem_at_Some)
    then show "int (fcard (ffilter P (ForeachClient (the (fmlookup (sv_clients s) k))))) = int (card (?A k))"
      by (simp add: cs fcard.rep_eq)
  qed simp
  ultimately show ?thesis by simp
qed

lemma dup_set_iff: "clientSet_wf cs \<Longrightarrow> is_dup_set cs \<longleftrightarrow> 2 \<le> fcard (ForeachClient cs)"
  by (auto simp: clientSet_wf_def is_dup_set_def ForeachClient_def dup_wf_def split: option.splits)

text \<open>The number of connections of a key.\<close>

definition conns_of :: "Server \<Rightarrow> node_public \<Rightarrow> nat" where
  "conns_of s k = card {c \<in> registered s. sv_key s c = k}"

lemma conns_of_mem: "sets_ok s \<Longrightarrow> conns_of s k = fcard (mem_at s k)"
proof -
  assume ok: "sets_ok s"
  have "{c \<in> registered s. sv_key s c = k} = fset (mem_at s k)"
    by (auto simp: registered_def dest: sets_ok_key [OF ok])
  then show ?thesis by (simp add: conns_of_def fcard.rep_eq)
qed

lemma key_known_iff: "sets_ok s \<Longrightarrow> k |\<in>| fmdom (sv_clients s) \<longleftrightarrow> 0 < conns_of s k"
proof -
  assume ok: "sets_ok s"
  have "0 < fcard (ForeachClient cs)" if "fmlookup (sv_clients s) k = Some cs" for cs
    using clientSet_wf_nonempty [OF set_okD(1) [OF sets_okD [OF ok that]]] by (simp add: ForeachClient_Len)
  then show ?thesis
    by (auto simp: conns_of_mem [OF ok] mem_at_def fmlookup_dom_iff split: option.splits)
qed

lemma mem_at_known: "c |\<in>| mem_at s k \<Longrightarrow> k \<in> fset (fmdom (sv_clients s))"
  by (auto simp: mem_at_def fmlookup_dom_iff split: option.splits)

lemma finite_registered: "finite (registered s)"
proof (rule finite_subset)
  show "registered s \<subseteq> (\<Union>k\<in>fset (fmdom (sv_clients s)). fset (mem_at s k))"
    using mem_at_known by (fastforce simp: registered_def)
qed simp

lemma keys_registered: "sets_ok s \<Longrightarrow> fset (fmdom (sv_clients s)) = sv_key s ` registered s"
  using finite_registered key_known_iff by (fastforce simp: conns_of_def card_gt_0_iff)

lemma dup_keys_card:
  assumes ok: "sets_ok s"
  shows "dup_keys s = int (card {k. 2 \<le> conns_of s k})"
proof -
  let ?D = "fset (fmdom (sv_clients s))"
  have sub: "{k. 2 \<le> conns_of s k} = {k \<in> ?D. 2 \<le> conns_of s k}"
    using key_known_iff [OF ok] by fastforce
  have "dup_keys s = (\<Sum>k\<in>?D. of_bool (2 \<le> conns_of s k))"
    unfolding dup_keys_def fm_sum_def
  proof (rule sum.cong)
    fix k
    assume "k \<in> ?D"
    then obtain cs where cs: "fmlookup (sv_clients s) k = Some cs" by (auto simp: fmlookup_dom_iff)
    have "is_dup_set cs \<longleftrightarrow> 2 \<le> conns_of s k"
      using dup_set_iff [OF set_okD(1) [OF sets_okD [OF ok cs]]] by (simp add: conns_of_mem [OF ok] mem_at_Some [OF cs])
    then show "(if is_dup_set (the (fmlookup (sv_clients s) k)) then 1 else 0) = (of_bool (2 \<le> conns_of s k) :: int)"
      by (simp add: cs)
  qed simp
  also have "\<dots> = int (card {k \<in> ?D. 2 \<le> conns_of s k})"
    by (simp add: sum_of_bool_eq Int_def)
  finally show ?thesis unfolding sub .
qed

lemma dup_conns_card:
  assumes ok: "sets_ok s"
  shows "dup_conns s = int (card {c \<in> registered s. 2 \<le> conns_of s (sv_key s c)})"
proof -
  have "dup_conns s = conn_count (\<lambda>c. 2 \<le> conns_of s (sv_key s c)) s"
    unfolding dup_conns_def conn_count_def
  proof (rule fm_sum_cong)
    fix k cs
    assume cs: "fmlookup (sv_clients s) k = Some cs"
    note so = sets_okD [OF ok cs]
    have k: "c |\<in>| ForeachClient cs \<Longrightarrow> sv_key s c = k" for c by (rule set_okD(2) [OF so])
    have d: "is_dup_set cs \<longleftrightarrow> 2 \<le> conns_of s k"
      using dup_set_iff [OF set_okD(1) [OF so]] by (simp add: conns_of_mem [OF ok] mem_at_Some [OF cs])
    have "ffilter (\<lambda>c. 2 \<le> conns_of s (sv_key s c)) (ForeachClient cs) = (if is_dup_set cs then ForeachClient cs else {||})"
      using k d by auto
    then show "(if is_dup_set cs then int (fcard (ForeachClient cs)) else 0) =
        int (fcard (ffilter (\<lambda>c. 2 \<le> conns_of s (sv_key s c)) (ForeachClient cs)))" by simp
  qed
  then show ?thesis by (simp add: conn_count_card [OF ok])
qed

lemma reachable_parts:
  assumes "reachable kstr mb y"
  shows "sets_ok (sy_srv y)" "gauges_ok (sy_srv y)" "mesh_ok (sy_srv y)" "watchers_ok (sy_srv y)" "tracker_ok (sy_srv y)"
  using server_inv_parts reachable_inv [OF assms] by (simp_all add: sys_inv_def)

section \<open>Properties\<close>

text \<open>A concrete history used by the witnesses: three connections are accepted, two register
  under one key (the second as its duplicate), the third is a mesh peer that watches.\<close>

definition demo_ops :: "op list" where
  "demo_ops = [OpAccept, OpAccept, OpServe 1 [7] AddrPort_zero ''a'' 5 False False False, OpAccept,
     OpServe 2 [7] AddrPort_zero ''b'' 6 False True False,
     OpServe 3 [9] AddrPort_zero ''m'' 7 True False False, OpWatch 3, OpPreferred 1 True 0]"

definition demo_state :: "dupPolicy \<Rightarrow> sys" where
  "demo_state pol = the (run_ops (\<lambda>_. ''k'') 0 demo_ops (sys_init [1] pol (Some NewPeerTracker)))"

lemma in_registered: "c \<in> registered s \<longleftrightarrow> c |\<in>| mem_at s (sv_key s c)"
  by (simp add: registered_def)

lemmas server_eval = sys_init_def NewServer_def new_sclient_def registerClient_def reg_track_def reg_present_def
  reg_mesh_def reg_set_def reg_marks_def set_before_def upd_conn_def setRateLimit_def zero_gauges_def add_client_def
  count_added_def new_clientSet_def broadcastPeerStateChangeLocked_def spawn_def presentFlags_def Let_def
  in_registered mem_at_def ForeachClient_def addWatcher_def present_messages_def setPreferred_def lookupDest_def
  on_srv_def demo_state_def demo_ops_def

lemma demo_reachable: "reachable (\<lambda>_. ''k'') 0 (demo_state pol)"
proof -
  have "run_ops (\<lambda>_. ''k'') 0 demo_ops (sys_init [1] pol (Some NewPeerTracker)) \<noteq> None"
    by (simp add: server_eval)
  then have "run_ops (\<lambda>_. ''k'') 0 demo_ops (sys_init [1] pol (Some NewPeerTracker)) = Some (demo_state pol)"
    by (auto simp: demo_state_def)
  then show ?thesis
    by (rule run_ops_reachable [rotated]) (rule reachable.start, simp)
qed

text \<open>
  No operation of the server panics (C1): in every state the server can reach, whatever the
  interleaving of its connections, every call the code can make returns. This covers the explicit
  panics (peer-gone bookkeeping for a key still in the mesh, an emptied duplicate set, a
  forwarder set of fewer than two, a watcher without permission) and the nil dereferences of the
  tracker.
\<close>

theorem derp_no_panic:
  assumes "reachable kstr mb y" and "enabled y x"
  shows "\<exists>y'. exec kstr mb x y = Some y'"
  using sys_step [OF reachable_inv [OF assms(1)] assms(2)] by blast

theorem derp_no_panic_witness: "\<exists>y'. exec (\<lambda>_. ''k'') 0 (OpClose 1) (demo_state disableFighters) = Some y'"
proof (rule derp_no_panic [OF demo_reachable])
  show "enabled (demo_state disableFighters) (OpClose 1)" by (simp add: server_eval)
qed

text \<open>
  The gauges the server exports are exact in every reachable state (C2): they count the registered
  connections, the ones that are not on their ideal node, the home connections, the connected
  keys, the keys with at least two connections, and the connections of those keys.
\<close>

theorem derp_gauges_exact:
  assumes "reachable kstr mb y"
  shows "let s = sy_srv y; g = sv_gauges s in
     curClients g = int (card (registered s)) \<and>
     curClientsNotIdeal g = int (card {c \<in> registered s. sc_isNotIdealConn (sv_conns s c)}) \<and>
     curHomeClients g = int (card {c \<in> registered s. sc_preferred (sv_conns s c)}) \<and>
     sv_numLocalClientKeys s = int (card (sv_key s ` registered s)) \<and>
     dupClientKeys g = int (card {k. 2 \<le> conns_of s k}) \<and>
     dupClientConns g = int (card {c \<in> registered s. 2 \<le> conns_of s (sv_key s c)})"
  using reachable_parts(1,2) [OF assms]
  by (simp add: Let_def gauges_ok_def conn_count_card dup_keys_card dup_conns_card keys_registered [symmetric] fcard.rep_eq)

theorem derp_gauges_exact_witness:
  "let s = sy_srv (demo_state lastWriterIsActive)
   in int (card (registered s)) = 3 \<and> int (card {k. 2 \<le> conns_of s k}) = 1 \<and>
      int (card {c \<in> registered s. 2 \<le> conns_of s (sv_key s c)}) = 2"
proof -
  have "curClients (sv_gauges (sy_srv (demo_state lastWriterIsActive))) = 3"
    "dupClientKeys (sv_gauges (sy_srv (demo_state lastWriterIsActive))) = 1"
    "dupClientConns (sv_gauges (sy_srv (demo_state lastWriterIsActive))) = 2" by (simp_all add: server_eval)
  with derp_gauges_exact [OF demo_reachable, of lastWriterIsActive] show ?thesis
    by (simp add: Let_def)
qed

text \<open>
  Routing: the local connection \<open>lookupDest\<close> returns is registered and has the requested
  key, and then no forwarder is returned (local clients win over the mesh). Without a local
  connection the count is the number of connections of the key, never one, and a forwarder is
  returned only for a key with none.
\<close>

theorem lookupDest_correct:
  assumes "reachable kstr mb y" and "lookupDest dst (sy_srv y) = (r, f, n)"
  shows "(\<forall>c. r = Some c \<longrightarrow> c \<in> registered (sy_srv y) \<and> sv_key (sy_srv y) c = dst \<and> f = None) \<and>
    (r = None \<longrightarrow> n = conns_of (sy_srv y) dst \<and> n \<noteq> 1 \<and> (f \<noteq> None \<longrightarrow> n = 0))"
proof -
  let ?s = "sy_srv y"
  have ok: "sets_ok ?s" using reachable_parts(1) [OF assms(1)] .
  show ?thesis
  proof (cases "fmlookup (sv_clients ?s) dst")
    case None
    with assms(2) show ?thesis
      by (auto simp: lookupDest_def Let_def conns_of_mem [OF ok] mem_at_def)
  next
    case (Some cs)
    have wf: "clientSet_wf cs" and key: "\<And>c. c |\<in>| ForeachClient cs \<Longrightarrow> sv_key ?s c = dst"
      using set_okD [OF sets_okD [OF ok Some]] by auto
    have len: "conns_of ?s dst = clientSet_Len cs"
      using Some by (simp add: conns_of_mem [OF ok] mem_at_def ForeachClient_Len)
    show ?thesis
    proof (cases "cs_activeClient cs")
      case None
      with wf obtain d where "cs_dup cs = Some d" "2 \<le> fcard (dc_set d)"
        by (auto simp: clientSet_wf_def dup_wf_def split: option.splits)
      with None Some assms(2) len show ?thesis
        by (auto simp: lookupDest_def Let_def clientSet_Len_def fcard_fempty split: if_splits)
    next
      case (Some a)
      have look: "fmlookup (sv_clients ?s) dst = Some cs" by fact
      have "r = Some a" "f = None" using assms(2) Some look by (simp_all add: lookupDest_def)
      moreover have "a |\<in>| ForeachClient cs" "sv_key ?s a = dst"
        using active_member [OF wf Some] key by auto
      ultimately show ?thesis using look by (simp add: registered_def mem_at_def)
    qed
  qed
qed

theorem lookupDest_correct_witness:
  "lookupDest [7] (sy_srv (demo_state lastWriterIsActive)) = (Some 2, None, 1) \<and>
   2 \<in> registered (sy_srv (demo_state lastWriterIsActive))"
proof -
  have l: "lookupDest [7] (sy_srv (demo_state lastWriterIsActive)) = (Some 2, None, 1)" by (simp add: server_eval)
  with lookupDest_correct [OF demo_reachable l] show ?thesis by simp
qed

text \<open>
  Under the policy \<open>lastWriterIsActive\<close>, which every server uses, packets for a connected key
  always find a connection (C3): \<open>lookupDest\<close> fails to return a local client only for keys that have
  no connection at all, after any sequence of duplicate registrations, activity and
  disconnections.
\<close>

theorem connected_key_routable:
  assumes "reachable kstr mb y" and "sv_dupPolicy (sy_srv y) = lastWriterIsActive"
  shows "fst (lookupDest dst (sy_srv y)) = None \<longleftrightarrow> conns_of (sy_srv y) dst = 0"
proof -
  let ?s = "sy_srv y"
  have ok: "sets_ok ?s" using reachable_parts(1) [OF assms(1)] .
  have "cs_activeClient cs \<noteq> None" if "fmlookup (sv_clients ?s) dst = Some cs" for cs
    using sets_okD [OF ok that] assms(2)
    by (auto simp: set_ok_def clientSet_wf_def dup_live_def split: option.splits)
  then show ?thesis
    using key_known_iff [OF ok, of dst]
    by (auto simp: lookupDest_def Let_def fmlookup_dom_iff split: option.splits)
qed

theorem connected_key_routable_witness:
  "fst (lookupDest [8] (sy_srv (demo_state lastWriterIsActive))) = None \<and>
   conns_of (sy_srv (demo_state lastWriterIsActive)) [8] = 0"
proof -
  have "sv_dupPolicy (sy_srv (demo_state lastWriterIsActive)) = lastWriterIsActive"
    and l: "fst (lookupDest [8] (sy_srv (demo_state lastWriterIsActive))) = None" by (simp_all add: server_eval)
  with connected_key_routable [OF demo_reachable, of lastWriterIsActive "[8]"] show ?thesis by simp
qed

text \<open>
  The tracker and the registry agree in every reachable state (C6): the connections the tracker
  reports are exactly the registered ones that are not mesh peers, and the tracker itself is
  consistent.
\<close>

theorem tracker_matches_registry:
  assumes "reachable kstr mb y" and "sv_peerTracker (sy_srv y) = Some t"
  shows "tracker_inv t \<and>
    dom (fmlookup (tr_connections t)) = {c \<in> registered (sy_srv y). \<not> sc_canMesh (sv_conns (sy_srv y) c)}"
  using reachable_parts(5) [OF assms(1)] assms(2) by (simp add: tracker_ok_def tracker_for_def)

theorem tracker_matches_registry_witness:
  "tracker_inv (the (sv_peerTracker (sy_srv (demo_state disableFighters))))"
proof -
  have "sv_peerTracker (sy_srv (demo_state disableFighters)) \<noteq> None" by (simp add: server_eval)
  then obtain t where "sv_peerTracker (sy_srv (demo_state disableFighters)) = Some t" by blast
  with tracker_matches_registry [OF demo_reachable this] show ?thesis by simp
qed

end
