(* ===== verification/RateLimit.thy ===== *)
theory RateLimit
  imports DerpSystem
begin

text \<open>
  The receive rate limit: \<open>rateLimit\<close> and \<open>rateLimitWait\<close> of \<^verbatim>\<open>derpserver.go\<close>, and the limiters
  \<open>setRateLimit\<close> installs. The token bucket is \<^verbatim>\<open>golang.org/x/time/rate\<close>: a parameter that answers
  reservations.
\<close>

section \<open>Waiting for tokens\<close>

datatype wait_result = Waited duration | ExceedsBurst int int | ContextDone

text \<open>\<open>ok\<close> and \<open>delay\<close> are what the reservation of the limiter answers, \<open>fires\<close> whether the timer
  fires before the connection's context ends.\<close>

definition rateLimitWait :: "bool \<Rightarrow> duration \<Rightarrow> bool \<Rightarrow> int \<Rightarrow> int \<Rightarrow> wait_result" where
  "rateLimitWait ok delay fires n burst =
     (if \<not> ok then ExceedsBurst n burst
      else if delay = 0 then Waited 0
      else if fires then Waited delay
      else ContextDone)"

text \<open>The result is the error, if any, and whether \<open>rateLimitPerClientWaited\<close> is incremented.\<close>

definition rateLimit :: "(Limiter \<Rightarrow> gotime \<Rightarrow> int \<Rightarrow> bool \<times> duration) \<Rightarrow> bool \<Rightarrow> uint64 \<Rightarrow> gotime \<Rightarrow> int \<Rightarrow> sclient \<Rightarrow>
    wait_result option \<times> bool" where
  "rateLimit reserve fires minBucket now n c =
     (case sc_recvLim c of
        None \<Rightarrow> (None, False)
      | Some lm \<Rightarrow>
          (let clampedN = min n (uint minBucket);
               (ok, delay) = reserve lm now clampedN
           in case rateLimitWait ok delay fires clampedN (lim_burst lm) of
                Waited d \<Rightarrow> (None, d > 0)
              | e \<Rightarrow> (Some e, False)))"

section \<open>The limiters follow the configuration\<close>

definition limits_inv :: "uint64 \<Rightarrow> Server \<Rightarrow> bool" where
  "limits_inv mb s \<longleftrightarrow>
     (\<forall>c \<in> registered s. sc_recvLim (sv_conns s c) =
        sc_recvLim (setRateLimit (PerClientRateLimitBytesPerSec (sv_rateConfig s)) (PerClientRateBurstBytes (sv_rateConfig s)) (sv_conns s c))) \<and>
     (PerClientRateLimitBytesPerSec (sv_rateConfig s) \<noteq> 0 \<longrightarrow> mb \<le> PerClientRateBurstBytes (sv_rateConfig s))"

definition same_limits :: "Server \<Rightarrow> Server \<Rightarrow> bool" where
  "same_limits s s' \<longleftrightarrow> sv_rateConfig s' = sv_rateConfig s \<and>
     (\<forall>x. sc_recvLim (sv_conns s' x) = sc_recvLim (sv_conns s x) \<and> sc_canMesh (sv_conns s' x) = sc_canMesh (sv_conns s x))"

lemma recvLim_setRateLimit:
  "sc_recvLim (setRateLimit r b c) = (if sc_canMesh c \<or> r = 0 then None else Some \<lparr>lim_limit = r, lim_burst = sint b\<rparr>)"
  by (simp add: setRateLimit_def)

lemma limits_inv_frame: "limits_inv mb s \<Longrightarrow> same_limits s s' \<Longrightarrow> registered s' \<subseteq> registered s \<Longrightarrow> limits_inv mb s'"
  by (auto simp: limits_inv_def same_limits_def recvLim_setRateLimit)

lemma same_limits_trans: "same_limits s t \<Longrightarrow> same_limits t u \<Longrightarrow> same_limits s u"
  by (simp add: same_limits_def)

lemma same_limits_broadcast [simp]:
  "sv_rateConfig (broadcastPeerStateChangeLocked k a f p s) = sv_rateConfig s"
  "sc_recvLim (sv_conns (broadcastPeerStateChangeLocked k a f p s) x) = sc_recvLim (sv_conns s x)"
  by (simp_all add: broadcastPeerStateChangeLocked_def Let_def spawn_def)

lemma same_limits_ops:
  "same_limits s (noteActivityLocked c s)" "same_limits s (setPreferred c v d s)" "same_limits s (noteSendFromSrc c src s)"
  "same_limits s (removePeerGoneFromRegionWatcher p h s)" "same_limits s (AddPacketForwarder dst f s)"
  "same_limits s (s\<lparr>sv_peerTracker := tr\<rparr>)"
proof -
  show "same_limits s (noteActivityLocked c s)"
    by (auto simp: same_limits_def noteActivityLocked_def Let_def case_prod_unfold split: option.split)
  show "same_limits s (setPreferred c v d s)" by (simp add: same_limits_def setPreferred_def Let_def)
  show "same_limits s (noteSendFromSrc c src s)"
    by (simp add: same_limits_def noteSendFromSrc_def addPeerGoneFromRegionWatcher_def Let_def split: option.split)
  show "same_limits s (removePeerGoneFromRegionWatcher p h s)"
    by (simp add: same_limits_def removePeerGoneFromRegionWatcher_def Let_def split: option.split)
  show "same_limits s (AddPacketForwarder dst f s)"
    by (cases "add_entry f (fmlookup (sv_clientsMesh s) dst)")
       (simp add: same_limits_def AddPacketForwarder_def put_mesh_def Let_def)
  show "same_limits s (s\<lparr>sv_peerTracker := tr\<rparr>)" by (simp add: same_limits_def)
qed

lemma same_limits_partial:
  "addWatcher c s = Some s' \<Longrightarrow> same_limits s s'" "RemovePacketForwarder dst f s = Some s' \<Longrightarrow> same_limits s s'"
  "unregisterClient c s = Some s' \<Longrightarrow> same_limits s s'"
proof -
  show "addWatcher c s = Some s' \<Longrightarrow> same_limits s s'"
    by (auto simp: same_limits_def addWatcher_def Let_def spawn_def split: if_splits)
  show "RemovePacketForwarder dst f s = Some s' \<Longrightarrow> same_limits s s'"
    by (auto simp: same_limits_def RemovePacketForwarder_def put_mesh_def notePeerGoneFromRegionLocked_def Let_def spawn_def
      split: remove_outcome.splits if_splits)
  have t: "unreg_track c s = Some s1 \<Longrightarrow> same_limits s s1" for s1
    by (auto simp: unreg_track_def same_limits_def split: option.splits if_splits)
  have sg: "unregister_single c s1 = Some s2 \<Longrightarrow> same_limits s1 s2" for s1 s2
    by (auto simp: unregister_single_def notePeerGoneFromRegionLocked_def Let_def same_limits_def spawn_def split: if_splits)
  have dp: "unregister_dup c cs d s1 = Some s2 \<Longrightarrow> same_limits s1 s2" for cs d s1 s2
    by (auto simp: unregister_dup_def Let_def case_prod_unfold same_limits_def split: if_splits list.splits)
  have fi: "same_limits s2 (finish_unregister c s2)" for s2
    by (simp add: same_limits_def finish_unregister_def Let_def)
  have refl: "same_limits s2 s2" for s2 by (simp add: same_limits_def)
  show "same_limits s s'" if "unregisterClient c s = Some s'"
  proof -
    from that obtain s1 where s1: "unreg_track c s = Some s1"
      and r: "(case fmlookup (sv_clients s1) (sv_key s1 c) of
              None \<Rightarrow> Some s1
            | Some cs \<Rightarrow>
                (case cs_dup cs of
                   None \<Rightarrow> if cs_activeClient cs \<noteq> Some c then Some s1
                           else map_option (finish_unregister c) (unregister_single c s1)
                 | Some d \<Rightarrow> map_option (finish_unregister c) (unregister_dup c cs d s1))) = Some s'"
      by (auto simp: unregisterClient_def bind_eq_Some_conv)
    have "same_limits s1 s'"
      using r by (auto split: option.splits if_splits intro: refl dest!: sg dp intro: same_limits_trans [OF _ fi])
    with t [OF s1] show ?thesis by (rule same_limits_trans)
  qed
qed

lemma register_limits:
  "sv_rateConfig (registerClient kstr c s) = sv_rateConfig s"
  "sc_recvLim (sv_conns (registerClient kstr c s) x) =
     (if x = c then sc_recvLim (setRateLimit (PerClientRateLimitBytesPerSec (sv_rateConfig s)) (PerClientRateBurstBytes (sv_rateConfig s)) (sv_conns s x))
      else sc_recvLim (sv_conns s x))"
proof -
  have t: "same_limits s (reg_track kstr c s)" for s by (simp add: same_limits_def reg_track_def Let_def split: option.split)
  have p: "same_limits s (reg_present c s)" for s by (simp add: same_limits_def reg_present_def Let_def)
  have m: "same_limits s (reg_mesh c s)" for s by (simp add: same_limits_def reg_mesh_def)
  have g: "same_limits s (reg_set c s)" for s by (simp add: same_limits_def reg_set_def)
  have k: "same_limits s (reg_marks c s)" for s by (simp add: same_limits_def reg_marks_def split: option.split)
  let ?s1 = "upd_conn c (setRateLimit (PerClientRateLimitBytesPerSec (sv_rateConfig s)) (PerClientRateBurstBytes (sv_rateConfig s))) s"
  have "same_limits ?s1 (registerClient kstr c s)"
    unfolding registerClient_def comp_def
    by (rule same_limits_trans [OF same_limits_trans [OF same_limits_trans [OF same_limits_trans [OF k g] m] p] t])
  then show "sv_rateConfig (registerClient kstr c s) = sv_rateConfig s"
    and "sc_recvLim (sv_conns (registerClient kstr c s) x) =
     (if x = c then sc_recvLim (setRateLimit (PerClientRateLimitBytesPerSec (sv_rateConfig s)) (PerClientRateBurstBytes (sv_rateConfig s)) (sv_conns s x))
      else sc_recvLim (sv_conns s x))" by (simp_all add: same_limits_def)
qed

lemma limits_update:
  assumes ok: "sets_ok s" and l: "limits_inv mb s" and u: "UpdateRateLimits mb rc s = (rc', s')"
  shows "limits_inv mb s'"
proof -
  have reg: "registered s' = registered s" by (rule same_registry_registered [OF UpdateRateLimits_same(1) [OF u]])
  have all: "\<exists>cs\<in>set (map snd (sorted_list_of_fmap (sv_clients s))). c |\<in>| ForeachClient cs" if "c \<in> registered s" for c
  proof -
    from that obtain cs where "fmlookup (sv_clients s) (sv_key s c) = Some cs" "c |\<in>| ForeachClient cs"
      by (auto simp: registered_def mem_at_def split: option.splits)
    moreover from this(1) have "(sv_key s c, cs) \<in> set (sorted_list_of_fmap (sv_clients s))"
      by (simp add: sorted_list_of_fmap_mem)
    then have "cs \<in> set (map snd (sorted_list_of_fmap (sv_clients s)))" by force
    ultimately show ?thesis by blast
  qed
  have s': "sv_rateConfig s' = applied_limits mb rc"
    "\<And>c. c \<in> registered s \<Longrightarrow> sv_conns s' c = setRateLimit (PerClientRateLimitBytesPerSec (applied_limits mb rc))
       (PerClientRateBurstBytes (applied_limits mb rc)) (sv_conns s c)"
    using u all by (auto simp: UpdateRateLimits_def Let_def)
  show ?thesis
    unfolding limits_inv_def reg s'(1)
    by (auto simp: s'(2) recvLim_setRateLimit) (simp_all add: applied_limits_def split: if_splits)
qed

lemma limits_step:
  assumes y: "sys_inv y" and l: "limits_inv mb (sy_srv y)" and en: "enabled y x" and e: "exec kstr mb x y = Some y'"
  shows "limits_inv mb (sy_srv y')"
proof -
  let ?s = "sy_srv y"
  have inv: "server_inv ?s" using y by (simp add: sys_inv_def)
  have simple: ?thesis if "same_limits ?s (sy_srv y')" "same_registry ?s (sy_srv y')"
    using limits_inv_frame [OF l that(1)] same_registry_registered [OF that(2)] by simp
  have tracked: ?thesis if "exec kstr mb x y = on_srv y (track f ?s)" for f
  proof -
    have "on_srv y (track f ?s) = Some y'" using that e by simp
    then obtain s' where s': "track f ?s = Some s'" and y': "y' = y\<lparr>sy_srv := s'\<rparr>" by (auto simp: on_srv_def)
    then obtain tr where tr: "s' = ?s\<lparr>sv_peerTracker := tr\<rparr>"
      by (cases "sv_peerTracker ?s") (auto simp: track_def intro: that [of None])
    have "limits_inv mb s'" unfolding tr by (rule limits_inv_frame [OF l same_limits_ops(6)]) simp
    then show ?thesis by (simp add: y')
  qed
  show ?thesis
  proof (cases x)
    case OpAccept
    with e have "sy_srv y' = ?s\<lparr>sv_accepts := sv_accepts ?s + 1\<rparr>" by (auto simp: Let_def)
    then show ?thesis
      by (intro limits_inv_frame [OF l]) (simp_all add: same_limits_def registered_def mem_at_def)
  next
    case (OpReject c)
    with e l show ?thesis by auto
  next
    case (OpServe c key addr raddr now mesh ni pr)
    let ?s1 = "upd_conn c (\<lambda>_. new_sclient key addr raddr now mesh ni pr) ?s"
    from OpServe en y have c: "c \<notin> registered ?s" by (simp add: sys_inv_def)
    have s': "sy_srv y' = registerClient kstr c ?s1" using e OpServe by auto
    have reg: "registered (sy_srv y') = insert c (registered ?s)" unfolding s' by (rule serve_inv(2) [OF inv c refl])
    show ?thesis
      using l c unfolding limits_inv_def reg
      by (auto simp: s' register_limits recvLim_setRateLimit split: if_splits)
  next
    case (OpActivity c)
    with en have "registered (noteActivityLocked c ?s) = registered ?s" by (simp add: registered_activity [OF inv])
    then have "limits_inv mb (noteActivityLocked c ?s)" by (intro limits_inv_frame [OF l same_limits_ops(1)]) simp
    with OpActivity e show ?thesis by (auto simp: on_srv_def)
  next
    case (OpPreferred c v d)
    with e have "sy_srv y' = setPreferred c v d ?s" by (auto simp: on_srv_def)
    then show ?thesis by (intro simple) (simp_all add: same_limits_ops setPreferred_same(1))
  next
    case (OpWatch c)
    with e have w: "addWatcher c ?s = Some (sy_srv y')" by (auto simp: on_srv_def)
    show ?thesis by (rule simple [OF same_limits_partial(1) [OF w] addWatcher_same(1) [OF w]])
  next
    case (OpMeshUpdates c)
    with e have "sy_srv y' = upd_conn c (sc_peerStateChange_update (\<lambda>_. [])) ?s" by auto
    then show ?thesis by (intro simple) (simp_all add: same_limits_def same_registry_def)
  next
    case (OpRecv c n)
    show ?thesis by (rule tracked) (simp add: OpRecv)
  next
    case (OpSent c n)
    show ?thesis by (rule tracked) (simp add: OpSent)
  next
    case (OpSawSrc c src)
    with e have "sy_srv y' = noteSendFromSrc c src ?s" by (auto simp: on_srv_def)
    then show ?thesis by (intro simple) (simp_all add: same_limits_ops noteSendFromSrc_same(1))
  next
    case (OpUnwatchSrc p h)
    with e have "sy_srv y' = removePeerGoneFromRegionWatcher p h ?s" by (auto simp: on_srv_def)
    then show ?thesis by (intro simple) (simp_all add: same_limits_ops removePeerGone_same(1))
  next
    case (OpClose c)
    with e have w: "unregisterClient c ?s = Some (sy_srv y')" by (auto simp: on_srv_def)
    from OpClose en have c: "c \<in> registered ?s" by simp
    from unregister_inv [OF inv c] obtain s2 where "unregisterClient c ?s = Some s2" "server_inv s2" "registered s2 = registered ?s - {c}"
    "sv_accepts s2 = sv_accepts ?s" "sv_dupPolicy s2 = sv_dupPolicy ?s" "\<forall>x. sv_key s2 x = sv_key ?s x" .
    with w have "registered (sy_srv y') \<subseteq> registered ?s" by auto
    then show ?thesis by (rule limits_inv_frame [OF l same_limits_partial(3) [OF w]])
  next
    case (OpAddForwarder dst f)
    with e have "sy_srv y' = AddPacketForwarder dst f ?s" by (auto simp: on_srv_def)
    then show ?thesis by (intro simple) (simp_all add: same_limits_ops AddPacketForwarder_same)
  next
    case (OpRemoveForwarder dst f)
    with e have w: "RemovePacketForwarder dst f ?s = Some (sy_srv y')" by (auto simp: on_srv_def)
    have "same_registry ?s (sy_srv y')" using RemovePacketForwarder_inv [OF inv] w by (metis option.inject)
    then show ?thesis by (rule simple [OF same_limits_partial(2) [OF w]])
  next
    case (OpLimits rc)
    obtain rc' s' where u: "UpdateRateLimits mb rc ?s = (rc', s')" by fastforce
    with e OpLimits have "sy_srv y' = s'" by (auto simp: on_srv_def)
    with limits_update [OF server_inv_parts(1) [OF inv] l u] show ?thesis by simp
  qed
qed

lemma reachable_limits: "reachable kstr mb y \<Longrightarrow> limits_inv mb (sy_srv y)"
proof (induction rule: reachable.induct)
  case (start tr pub pol)
  then show ?case by (auto simp: limits_inv_def sys_init_def NewServer_def registered_def mem_at_def)
next
  case (step y x y')
  from limits_step [OF reachable_inv [OF step.hyps(1)] step.IH step.hyps(2,3)] show ?case .
qed


section \<open>Properties\<close>



text \<open>
  What the code relies on of \<^verbatim>\<open>golang.org/x/time/rate\<close>, as its documentation of \<open>ReserveN\<close> states it: a reservation
  is refused exactly when it exceeds the burst of the limiter.
\<close>

definition reserves_within_burst :: "(Limiter \<Rightarrow> gotime \<Rightarrow> int \<Rightarrow> bool \<times> duration) \<Rightarrow> bool" where
  "reserves_within_burst reserve \<longleftrightarrow> (\<forall>l now n. fst (reserve l now n) \<longleftrightarrow> n \<le> lim_burst l)"

lemma sint_small: "(b :: uint64) < 2 ^ 63 \<Longrightarrow> sint b = uint b"
proof -
  assume "b < 2 ^ 63"
  then have "uint b < 2 ^ 63" by (simp add: word_less_def)
  moreover have "- (2 ^ 63) \<le> uint b" by (rule order_trans [of _ 0]) simp_all
  ultimately show ?thesis by (simp only: sint_uint) (simp add: signed_take_bit_int_eq_self)
qed

lemma sint_large: "2 ^ 63 \<le> (b :: uint64) \<Longrightarrow> sint b < 0"
proof -
  assume "2 ^ 63 \<le> b"
  then have "2 ^ 63 \<le> uint b" by (simp add: word_le_def)
  moreover have "uint b < 2 ^ 64" using uint_lt2p [of b] by simp
  ultimately have "uint b div 2 ^ 63 = 1" by (intro int_div_pos_eq [of _ _ _ "uint b - 2 ^ 63"]) simp_all
  then have "bit (uint b) 63" by (simp add: bit_iff_odd)
  moreover have "sint b = take_bit 64 (uint b) - 2 ^ 64 * of_bool (bit (uint b) 63)"
    using signed_take_bit_eq_take_bit_minus [of 63 "uint b"] by (simp add: sint_uint)
  moreover have "take_bit 64 (uint b) < 2 ^ 64" by (rule take_bit_int_less_exp)
  ultimately show ?thesis by simp
qed

text \<open>
  The clamp of \<open>rateLimit\<close> works: with a configured burst below \<open>2^63\<close> bytes, no frame of any length is refused for
  exceeding the bucket, so a registered connection is delayed or (when its context ends) stopped, but never closed
  with that error.
\<close>

theorem rateLimit_never_exceeds:
  assumes "reachable kstr mb y" and "c \<in> registered (sy_srv y)" and "reserves_within_burst reserve"
    and "PerClientRateBurstBytes (sv_rateConfig (sy_srv y)) < 2 ^ 63"
  shows "fst (rateLimit reserve fires mb now n (sv_conns (sy_srv y) c)) \<in> {None, Some ContextDone}"
proof -
  let ?rc = "sv_rateConfig (sy_srv y)"
  have l: "sc_recvLim (sv_conns (sy_srv y) c) = (if sc_canMesh (sv_conns (sy_srv y) c) \<or> PerClientRateLimitBytesPerSec ?rc = 0 then None
       else Some \<lparr>lim_limit = PerClientRateLimitBytesPerSec ?rc, lim_burst = sint (PerClientRateBurstBytes ?rc)\<rparr>) \<and>
    (PerClientRateLimitBytesPerSec ?rc \<noteq> 0 \<longrightarrow> mb \<le> PerClientRateBurstBytes ?rc)"
    using reachable_limits [OF assms(1)] assms(2) by (simp add: limits_inv_def recvLim_setRateLimit)
  show ?thesis
  proof (cases "sc_recvLim (sv_conns (sy_srv y) c)")
    case None
    then show ?thesis by (simp add: rateLimit_def)
  next
    case (Some lm)
    with l have b: "lim_burst lm = sint (PerClientRateBurstBytes ?rc)" "mb \<le> PerClientRateBurstBytes ?rc"
      by (auto split: if_splits)
    then have "uint mb \<le> lim_burst lm" using sint_small [OF assms(4)] by (simp add: word_le_def)
    then have "min n (uint mb) \<le> lim_burst lm" by simp
    with assms(3) have "fst (reserve lm now (min n (uint mb)))" by (simp add: reserves_within_burst_def)
    with Some show ?thesis
      by (auto simp: rateLimit_def Let_def case_prod_unfold rateLimitWait_def)
  qed
qed

definition demo_reserve :: "Limiter \<Rightarrow> gotime \<Rightarrow> int \<Rightarrow> bool \<times> duration" where
  "demo_reserve l now n = (n \<le> lim_burst l, 0)"

definition limited_ops :: "op list" where
  "limited_ops = demo_ops @ [OpLimits \<lparr>PerClientRateLimitBytesPerSec = 100, PerClientRateBurstBytes = 10\<rparr>]"

definition limited_state :: sys where
  "limited_state = the (run_ops (\<lambda>_. ''k'') 65568 limited_ops (sys_init [1] lastWriterIsActive None))"


lemma limited_reachable: "reachable (\<lambda>_. ''k'') 65568 limited_state"
proof -
  have "run_ops (\<lambda>_. ''k'') 65568 limited_ops (sys_init [1] lastWriterIsActive None) \<noteq> None"
    by (simp add: limited_ops_def server_eval)
  then have "run_ops (\<lambda>_. ''k'') 65568 limited_ops (sys_init [1] lastWriterIsActive None) = Some limited_state"
    by (auto simp: limited_state_def)
  then show ?thesis by (rule run_ops_reachable [rotated]) (rule reachable.start, simp)
qed

theorem rateLimit_never_exceeds_witness:
  "fst (rateLimit demo_reserve True 65568 0 1000000 (sv_conns (sy_srv limited_state) 2)) \<in> {None, Some ContextDone}"
proof (rule rateLimit_never_exceeds [OF limited_reachable])
  show "2 \<in> registered (sy_srv limited_state)"
    and "PerClientRateBurstBytes (sv_rateConfig (sy_srv limited_state)) < 2 ^ 63"
    by (simp_all add: limited_state_def limited_ops_def server_eval UpdateRateLimits_def applied_limits_def)
  show "reserves_within_burst demo_reserve" by (simp add: reserves_within_burst_def demo_reserve_def)
qed

text \<open>
  A configured burst of \<open>2^63\<close> bytes or more turns into a negative one (\<open>int(burst)\<close> in \<open>setRateLimit\<close>): then every
  frame of every connection that is not a mesh peer is refused, and \<open>rateLimit\<close> ends the connection.
\<close>

theorem rateLimit_huge_burst:
  assumes "reachable kstr mb y" and "c \<in> registered (sy_srv y)" and "reserves_within_burst reserve"
    and "PerClientRateLimitBytesPerSec (sv_rateConfig (sy_srv y)) \<noteq> 0"
    and "2 ^ 63 \<le> PerClientRateBurstBytes (sv_rateConfig (sy_srv y))"
    and "\<not> sc_canMesh (sv_conns (sy_srv y) c)" and "0 \<le> n"
  shows "\<exists>m b. fst (rateLimit reserve fires mb now n (sv_conns (sy_srv y) c)) = Some (ExceedsBurst m b)"
proof -
  let ?rc = "sv_rateConfig (sy_srv y)"
  have l: "sc_recvLim (sv_conns (sy_srv y) c) =
      Some \<lparr>lim_limit = PerClientRateLimitBytesPerSec ?rc, lim_burst = sint (PerClientRateBurstBytes ?rc)\<rparr>"
    using reachable_limits [OF assms(1)] assms(2,4,6) by (simp add: limits_inv_def recvLim_setRateLimit)
  have "\<not> min n (uint mb) \<le> sint (PerClientRateBurstBytes ?rc)"
  proof -
    have "0 \<le> min n (uint mb)" using assms(7) by simp
    with sint_large [OF assms(5)] show ?thesis by linarith
  qed
  then have "\<not> fst (reserve \<lparr>lim_limit = PerClientRateLimitBytesPerSec ?rc, lim_burst = sint (PerClientRateBurstBytes ?rc)\<rparr> now (min n (uint mb)))"
    using assms(3) by (simp add: reserves_within_burst_def)
  then show ?thesis by (simp add: rateLimit_def l Let_def case_prod_unfold rateLimitWait_def)
qed

definition huge_ops :: "op list" where
  "huge_ops = demo_ops @ [OpLimits \<lparr>PerClientRateLimitBytesPerSec = 100, PerClientRateBurstBytes = 2 ^ 63\<rparr>]"

definition huge_state :: sys where
  "huge_state = the (run_ops (\<lambda>_. ''k'') 65568 huge_ops (sys_init [1] lastWriterIsActive None))"

lemma huge_reachable: "reachable (\<lambda>_. ''k'') 65568 huge_state"
proof -
  have "run_ops (\<lambda>_. ''k'') 65568 huge_ops (sys_init [1] lastWriterIsActive None) \<noteq> None"
    by (simp add: huge_ops_def server_eval)
  then have "run_ops (\<lambda>_. ''k'') 65568 huge_ops (sys_init [1] lastWriterIsActive None) = Some huge_state"
    by (auto simp: huge_state_def)
  then show ?thesis by (rule run_ops_reachable [rotated]) (rule reachable.start, simp)
qed

theorem rateLimit_huge_burst_witness:
  "\<exists>m b. fst (rateLimit demo_reserve True 65568 0 5 (sv_conns (sy_srv huge_state) 2)) = Some (ExceedsBurst m b)"
proof (rule rateLimit_huge_burst [OF huge_reachable])
  show "2 \<in> registered (sy_srv huge_state)" and "\<not> sc_canMesh (sv_conns (sy_srv huge_state) 2)"
    and "PerClientRateLimitBytesPerSec (sv_rateConfig (sy_srv huge_state)) \<noteq> 0"
    and "2 ^ 63 \<le> PerClientRateBurstBytes (sv_rateConfig (sy_srv huge_state))"
    by (simp_all add: huge_state_def huge_ops_def server_eval UpdateRateLimits_def applied_limits_def)
  show "reserves_within_burst demo_reserve" by (simp add: reserves_within_burst_def demo_reserve_def)
qed simp

end
