(* ===== verification/MeshView.thy ===== *)
theory MeshView
  imports DerpSystem
begin

text \<open>
  What the mesh watchers of a server are told. \<open>registerClient\<close>, \<open>unregisterClient\<close> and
  \<open>addWatcher\<close> queue presence messages (\<open>peerStateChange\<close>) that \<open>sendMeshUpdates\<close> writes out; a
  watcher keeps the set of keys it has been told about. The theory shows that this set is the set of
  connected keys.
\<close>

section \<open>Presence messages\<close>

text \<open>The messages queued for a connection, the view they amount to, and all messages queued for
  a connection since it registered.\<close>

abbreviation queue :: "Server \<Rightarrow> sptr \<Rightarrow> peerConnState list" where
  "queue s x \<equiv> sc_peerStateChange (sv_conns s x)"

definition replay :: "peerConnState list \<Rightarrow> node_public set \<Rightarrow> node_public set" where
  "replay ms V = fold (\<lambda>m V. if pcs_present m then insert (pcs_peer m) V else V - {pcs_peer m}) ms V"

definition history :: "sys \<Rightarrow> sptr \<Rightarrow> peerConnState list" where
  "history y x = sy_sent y x @ queue (sy_srv y) x"

text \<open>A watcher's view is the set of connected keys; other connections are sent nothing.\<close>

definition view_inv :: "sys \<Rightarrow> bool" where
  "view_inv y \<longleftrightarrow> sv_dupPolicy (sy_srv y) = lastWriterIsActive \<longrightarrow>
     (\<forall>x \<in> registered (sy_srv y).
        if x |\<in>| sv_watchers (sy_srv y) then replay (history y x) {} = fset (fmdom (sv_clients (sy_srv y)))
        else history y x = [])"

lemma replay_append [simp]: "replay (xs @ ys) V = replay ys (replay xs V)"
  by (simp add: replay_def)

lemma replay_simps [simp]: "replay [] V = V"
  "replay (m # ms) V = replay ms (if pcs_present m then insert (pcs_peer m) V else V - {pcs_peer m})"
  by (simp_all add: replay_def)

lemma replay_present: "(\<And>m. m \<in> set ms \<Longrightarrow> pcs_present m) \<Longrightarrow> replay ms V = pcs_peer ` set ms \<union> V"
  by (induction ms arbitrary: V) auto

lemma view_invI:
  "(\<And>x. sv_dupPolicy (sy_srv y) = lastWriterIsActive \<Longrightarrow> x \<in> registered (sy_srv y) \<Longrightarrow>
      if x |\<in>| sv_watchers (sy_srv y) then replay (history y x) {} = fset (fmdom (sv_clients (sy_srv y)))
      else history y x = []) \<Longrightarrow> view_inv y"
  by (simp add: view_inv_def)

lemma view_inv_frame:
  assumes "view_inv y" and "sv_dupPolicy (sy_srv y') = sv_dupPolicy (sy_srv y)"
    and "registered (sy_srv y') \<subseteq> registered (sy_srv y)"
    and "sv_watchers (sy_srv y') = sv_watchers (sy_srv y)"
    and "fmdom (sv_clients (sy_srv y')) = fmdom (sv_clients (sy_srv y))"
    and "\<And>x. history y' x = history y x"
  shows "view_inv y'"
  using assms by (auto simp: view_inv_def)

lemma queue_register:
  "queue (registerClient kstr c s) x =
     queue s x @ (if x |\<in>| sv_watchers s
       then [\<lparr>pcs_ipPort = sc_remoteIPPort (sv_conns s c), pcs_peer = sv_key s c, pcs_flags = presentFlags (sv_conns s c), pcs_present = True\<rparr>]
       else [])"
proof -
  have "queue (reg_track kstr c s) x = queue s x" for s
    by (simp add: reg_track_def Let_def split: option.split)
  moreover have "queue (reg_present c s) x = queue s x @ (if x |\<in>| sv_watchers s
       then [\<lparr>pcs_ipPort = sc_remoteIPPort (sv_conns s c), pcs_peer = sv_key s c, pcs_flags = presentFlags (sv_conns s c), pcs_present = True\<rparr>]
       else [])" for s
    by (simp add: reg_present_def broadcastPeerStateChangeLocked_def Let_def)
  moreover have "queue (reg_marks c s) x = queue s x \<and> sc_remoteIPPort (sv_conns (reg_marks c s) x) = sc_remoteIPPort (sv_conns s x) \<and>
      presentFlags (sv_conns (reg_marks c s) x) = presentFlags (sv_conns s x)" for s x
    by (simp add: reg_marks_def presentFlags_def split: option.split)
  moreover have "presentFlags (setRateLimit a b z) = presentFlags z" for a b z
    by (simp add: presentFlags_def)
  ultimately show ?thesis by (simp add: registerClient_def)
qed

lemma unregister_queue:
  assumes u: "unregisterClient c s = Some s'" and look: "fmlookup (sv_clients s) (sv_key s c) = Some cs"
    and act: "cs_dup cs = None \<longrightarrow> cs_activeClient cs = Some c"
  shows "queue s' x = queue s x @ (if cs_dup cs = None \<and> x |\<in>| sv_watchers s
       then [\<lparr>pcs_ipPort = AddrPort_zero, pcs_peer = sv_key s c, pcs_flags = [], pcs_present = False\<rparr>] else [])"
    and "fmdom (sv_clients s') = (if cs_dup cs = None then fmdom (sv_clients s) |-| {|sv_key s c|} else fmdom (sv_clients s))"
    and "sv_watchers s' = (if sc_canMesh (sv_conns s c) then sv_watchers s |-| {|c|} else sv_watchers s)"
proof -
  obtain tr where tr: "unreg_track c s = Some (s\<lparr>sv_peerTracker := tr\<rparr>)"
  proof -
    from u obtain s1 where "unreg_track c s = Some s1" by (auto simp: unregisterClient_def bind_eq_Some_conv)
    moreover from this have "s1 = s\<lparr>sv_peerTracker := sv_peerTracker s1\<rparr>"
      by (auto simp: unreg_track_def split: option.splits if_splits)
    ultimately show thesis by (metis that)
  qed
  let ?s = "s\<lparr>sv_peerTracker := tr\<rparr>"
  have key: "sv_key s c |\<in>| fmdom (sv_clients s)" using look by (simp add: fmlookup_dom_iff)
  have fin: "queue (finish_unregister c s2) x = queue s2 x" for s2 by simp
  have "queue s' x = queue s x @ (if cs_dup cs = None \<and> x |\<in>| sv_watchers s
       then [\<lparr>pcs_ipPort = AddrPort_zero, pcs_peer = sv_key s c, pcs_flags = [], pcs_present = False\<rparr>] else []) \<and>
    fmdom (sv_clients s') = (if cs_dup cs = None then fmdom (sv_clients s) |-| {|sv_key s c|} else fmdom (sv_clients s)) \<and>
    sv_watchers s' = (if sc_canMesh (sv_conns s c) then sv_watchers s |-| {|c|} else sv_watchers s)"
  proof (cases "cs_dup cs")
    case None
    with u tr look act obtain s2 where s2: "unregister_single c ?s = Some s2" "s' = finish_unregister c s2"
      by (auto simp: unregisterClient_def)
    have "queue s2 x = queue s x @ (if x |\<in>| sv_watchers s
       then [\<lparr>pcs_ipPort = AddrPort_zero, pcs_peer = sv_key s c, pcs_flags = [], pcs_present = False\<rparr>] else [])"
      using s2(1) by (auto simp: unregister_single_def notePeerGoneFromRegionLocked_def Let_def
          broadcastPeerStateChangeLocked_def split: if_splits)
    moreover have "sv_clients s2 = fmdrop (sv_key s c) (sv_clients s)" "sv_watchers s2 = sv_watchers s"
      "sc_canMesh (sv_conns s2 c) = sc_canMesh (sv_conns s c)"
      using single_step [of c ?s] s2(1) by (auto simp: keeps_frame_def)
    ultimately show ?thesis using s2(2) None by simp
  next
    case (Some d)
    with u tr look obtain s2 where s2: "unregister_dup c cs d ?s = Some s2" "s' = finish_unregister c s2"
      by (auto simp: unregisterClient_def)
    have "queue s2 x = queue s x \<and> fmdom (sv_clients s2) = finsert (sv_key s c) (fmdom (sv_clients s)) \<and>
       sv_watchers s2 = sv_watchers s \<and> sc_canMesh (sv_conns s2 c) = sc_canMesh (sv_conns s c)"
      using s2(1) by (auto simp: unregister_dup_def Let_def case_prod_unfold split: if_splits list.splits)
    then show ?thesis using s2(2) Some key by (simp add: finsert_absorb)
  qed
  then show "queue s' x = queue s x @ (if cs_dup cs = None \<and> x |\<in>| sv_watchers s
       then [\<lparr>pcs_ipPort = AddrPort_zero, pcs_peer = sv_key s c, pcs_flags = [], pcs_present = False\<rparr>] else [])"
    and "fmdom (sv_clients s') = (if cs_dup cs = None then fmdom (sv_clients s) |-| {|sv_key s c|} else fmdom (sv_clients s))"
    and "sv_watchers s' = (if sc_canMesh (sv_conns s c) then sv_watchers s |-| {|c|} else sv_watchers s)" by simp_all
qed


lemma present_messages_keys:
  assumes "\<And>k cs. fmlookup (sv_clients s) k = Some cs \<Longrightarrow> cs_activeClient cs \<noteq> None"
  shows "replay (present_messages s) V = fset (fmdom (sv_clients s)) \<union> V"
proof -
  let ?f = "\<lambda>(peer, cs). case cs_activeClient cs of None \<Rightarrow> []
      | Some ac \<Rightarrow> [\<lparr>pcs_ipPort = sc_remoteIPPort (sv_conns s ac), pcs_peer = peer,
                     pcs_flags = presentFlags (sv_conns s ac), pcs_present = True\<rparr>]"
  let ?l = "sorted_list_of_fmap (sv_clients s)"
  have pm: "present_messages s = concat (map ?f ?l)" by (simp add: present_messages_def)
  have all: "\<And>m. m \<in> set (present_messages s) \<Longrightarrow> pcs_present m"
    unfolding pm by (auto split: option.splits)
  have "pcs_peer ` set (?f x) = {fst x}" if x: "x \<in> set ?l" for x
  proof -
    obtain k cs where kc: "x = (k, cs)" by (cases x)
    with x have "fmlookup (sv_clients s) k = Some cs" by (simp add: sorted_list_of_fmap_mem)
    from assms [OF this] kc show ?thesis by auto
  qed
  then have "(\<Union>x\<in>set ?l. pcs_peer ` set (?f x)) = fst ` set ?l" by (simp add: UNION_singleton_eq_range)
  moreover have "pcs_peer ` set (concat (map ?f ?l)) = (\<Union>x\<in>set ?l. pcs_peer ` set (?f x))"
    by (simp only: set_concat set_map image_UN image_image)
  ultimately have "pcs_peer ` set (concat (map ?f ?l)) = fst ` set ?l" by simp
  also have "\<dots> = fset (fmdom (sv_clients s))"
    by (metis list.set_map sorted_list_of_fmap_keys sorted_list_of_fset.rep_eq set_sorted_list_of_set finite_fset)
  finally have "pcs_peer ` set (present_messages s) = fset (fmdom (sv_clients s))" unfolding pm .
  then show ?thesis using replay_present [of "present_messages s" V, OF all] by simp
qed

lemma active_under_lastWriter:
  "sets_ok s \<Longrightarrow> sv_dupPolicy s = lastWriterIsActive \<Longrightarrow> fmlookup (sv_clients s) k = Some cs \<Longrightarrow> cs_activeClient cs \<noteq> None"
  by (drule (1) sets_okD) (auto simp: set_ok_def clientSet_wf_def dup_live_def split: option.splits)

text \<open>Operations that neither queue messages nor change the keys or the watchers.\<close>

definition same_view :: "Server \<Rightarrow> Server \<Rightarrow> bool" where
  "same_view s s' \<longleftrightarrow> sv_dupPolicy s' = sv_dupPolicy s \<and> sv_watchers s' = sv_watchers s \<and>
     fmdom (sv_clients s') = fmdom (sv_clients s) \<and> (\<forall>x. queue s' x = queue s x)"

lemma same_view_inv:
  "view_inv y \<Longrightarrow> same_view (sy_srv y) s' \<Longrightarrow> registered s' \<subseteq> registered (sy_srv y) \<Longrightarrow> view_inv (y\<lparr>sy_srv := s'\<rparr>)"
  by (erule view_inv_frame) (simp_all add: same_view_def history_def)

lemma same_views:
  "same_view s (setPreferred c v d s)" "same_view s (noteSendFromSrc c src s)"
  "same_view s (removePeerGoneFromRegionWatcher p h s)" "same_view s (AddPacketForwarder dst f s)"
  "same_view s (snd (UpdateRateLimits mb rc s))" "same_view s (s\<lparr>sv_peerTracker := tr\<rparr>)"
proof -
  show "same_view s (setPreferred c v d s)" by (simp add: same_view_def setPreferred_def Let_def)
  show "same_view s (noteSendFromSrc c src s)"
    by (simp add: same_view_def noteSendFromSrc_def addPeerGoneFromRegionWatcher_def Let_def split: option.split)
  show "same_view s (removePeerGoneFromRegionWatcher p h s)"
    by (simp add: same_view_def removePeerGoneFromRegionWatcher_def Let_def split: option.split)
  show "same_view s (AddPacketForwarder dst f s)"
    by (cases "add_entry f (fmlookup (sv_clientsMesh s) dst)")
       (simp add: same_view_def AddPacketForwarder_def put_mesh_def Let_def)
  show "same_view s (snd (UpdateRateLimits mb rc s))"
    by (simp add: same_view_def UpdateRateLimits_def Let_def)
  show "same_view s (s\<lparr>sv_peerTracker := tr\<rparr>)" by (simp add: same_view_def)
qed

lemma same_view_remove: "RemovePacketForwarder dst f s = Some s' \<Longrightarrow> same_view s s'"
  by (auto simp: same_view_def RemovePacketForwarder_def put_mesh_def notePeerGoneFromRegionLocked_def Let_def
      split: remove_outcome.splits if_splits)

lemma same_view_activity: "same_view s (noteActivityLocked c s)"
proof (cases "fmlookup (sv_clients s) (sv_key s c)")
  case (Some cs)
  then have "sv_key s c |\<in>| fmdom (sv_clients s)" by (simp add: fmlookup_dom_iff)
  with Some show ?thesis
    by (auto simp: same_view_def noteActivityLocked_def Let_def case_prod_unfold finsert_absorb split: option.split)
qed (simp add: same_view_def noteActivityLocked_def)

lemma view_serve:
  assumes y: "sys_inv y" and v: "view_inv y" and c: "c |\<in>| sy_pending y"
    and e: "exec kstr mb (OpServe c key addr raddr now mesh ni pr) y = Some y'"
  shows "view_inv y'"
proof -
  let ?s = "sy_srv y" and ?s1 = "upd_conn c (\<lambda>_. new_sclient key addr raddr now mesh ni pr) (sy_srv y)"
  have inv: "server_inv ?s" and new: "c \<notin> registered ?s" using y c by (simp_all add: sys_inv_def)
  have y': "sy_srv y' = registerClient kstr c ?s1" "sy_sent y' = (sy_sent y)(c := [])" using e by auto
  have nw: "c |\<notin>| sv_watchers ?s" using new server_inv_parts(4) [OF inv] by (auto simp: watchers_ok_def)
  have reg: "registered (sy_srv y') = insert c (registered ?s)"
    using serve_inv [OF inv new refl] by (simp add: y')
  have wat: "sv_watchers (sy_srv y') = sv_watchers ?s" "sv_dupPolicy (sy_srv y') = sv_dupPolicy ?s"
    "fset (fmdom (sv_clients (sy_srv y'))) = insert key (fset (fmdom (sv_clients ?s)))"
    by (simp_all add: y' register_simps new_sclient_def)
  have hc: "history y' c = []"
    using nw by (simp add: history_def y' queue_register new_sclient_def)
  have hx: "history y' x = history y x @ (if x |\<in>| sv_watchers ?s then [\<lparr>pcs_ipPort = addr, pcs_peer = key,
      pcs_flags = presentFlags (new_sclient key addr raddr now mesh ni pr), pcs_present = True\<rparr>] else [])" if "x \<noteq> c" for x
    using that by (simp add: history_def y' queue_register) (simp add: new_sclient_def)
  show ?thesis
    unfolding view_inv_def wat reg
  proof (intro impI ballI)
    fix x
    assume p: "sv_dupPolicy ?s = lastWriterIsActive" and x: "x \<in> insert c (registered ?s)"
    show "if x |\<in>| sv_watchers ?s then replay (history y' x) {} = insert key (fset (fmdom (sv_clients ?s)))
          else history y' x = []"
    proof (cases "x = c")
      case True
      with nw hc show ?thesis by simp
    next
      case False
      with x p v have "if x |\<in>| sv_watchers ?s then replay (history y x) {} = fset (fmdom (sv_clients ?s)) else history y x = []"
        by (simp add: view_inv_def)
      with hx [OF False] show ?thesis by (simp split: if_splits)
    qed
  qed
qed

lemma view_watch:
  assumes y: "sys_inv y" and v: "view_inv y" and c: "c \<in> registered (sy_srv y)"
    and e: "exec kstr mb (OpWatch c) y = Some y'"
  shows "view_inv y'"
proof -
  let ?s = "sy_srv y"
  from e obtain s' where s': "addWatcher c ?s = Some s'" "y' = y\<lparr>sy_srv := s'\<rparr>" by (auto simp: on_srv_def)
  have ok: "sets_ok ?s" using y by (simp add: sys_inv_def server_inv_def registry_ok_def)
  show ?thesis
  proof (cases "sv_key ?s c = sv_publicKey ?s")
    case True
    with s' have "y' = y" by (auto simp: addWatcher_def split: if_splits)
    with v show ?thesis by simp
  next
    case False
    have reg: "registered s' = registered ?s" using addWatcher_same(1) [OF s'(1)] by (rule same_registry_registered)
    have "sc_canMesh (sv_conns ?s c)" using addWatcher_same(6) [OF s'(1)] .
    with s'(1) False have s'_eq: "s' = spawn [RequestMeshUpdate c]
        ((upd_conn c (\<lambda>x. x\<lparr>sc_peerStateChange := sc_peerStateChange x @ present_messages ?s\<rparr>) ?s)
          \<lparr>sv_watchers := finsert c (sv_watchers ?s)\<rparr>)"
      unfolding addWatcher_def Let_def by (simp only: not_True_eq_False if_False option.inject simp_thms upd_conn_simps)
    have f: "sv_dupPolicy s' = sv_dupPolicy ?s" "sv_clients s' = sv_clients ?s" "sv_watchers s' = finsert c (sv_watchers ?s)"
      "\<And>x. queue s' x = queue ?s x @ (if x = c then present_messages ?s else [])"
      by (simp_all add: s'_eq)
    have sy: "sy_srv y' = s'" using s'(2) by simp
    show ?thesis
    proof (rule view_invI)
      fix x
      assume "sv_dupPolicy (sy_srv y') = lastWriterIsActive" and "x \<in> registered (sy_srv y')"
      then have p: "sv_dupPolicy ?s = lastWriterIsActive" and x: "x \<in> registered ?s" by (simp_all add: sy f reg)
      have old: "if x |\<in>| sv_watchers ?s then replay (history y x) {} = fset (fmdom (sv_clients ?s)) else history y x = []"
        using v p x by (simp add: view_inv_def)
      have h: "history y' x = history y x @ (if x = c then present_messages ?s else [])"
        by (simp add: history_def f s'(2))
      have pm: "replay (present_messages ?s) V = fset (fmdom (sv_clients ?s)) \<union> V" for V
        by (rule present_messages_keys) (rule active_under_lastWriter [OF ok p])
      show "if x |\<in>| sv_watchers (sy_srv y') then replay (history y' x) {} = fset (fmdom (sv_clients (sy_srv y')))
          else history y' x = []"
      proof (cases "x = c")
        case True
        have "fset (fmdom (sv_clients ?s)) \<union> replay (history y x) {} = fset (fmdom (sv_clients ?s))"
          using old by (cases "x |\<in>| sv_watchers ?s") simp_all
        with h pm True show ?thesis by (simp add: sy f)
      next
        case False
        with old show ?thesis by (simp add: h sy f)
      qed
    qed
  qed
qed

lemma view_close:
  assumes y: "sys_inv y" and v: "view_inv y" and c: "c \<in> registered (sy_srv y)"
    and e: "exec kstr mb (OpClose c) y = Some y'"
  shows "view_inv y'"
proof -
  let ?s = "sy_srv y" and ?gone = "\<lparr>pcs_ipPort = AddrPort_zero, pcs_peer = sv_key (sy_srv y) c, pcs_flags = [], pcs_present = False\<rparr>"
  have inv: "server_inv ?s" using y by (simp add: sys_inv_def)
  from e obtain s' where s': "unregisterClient c ?s = Some s'" "y' = y\<lparr>sy_srv := s'\<rparr>" by (auto simp: on_srv_def)
  from unregister_inv [OF inv c] obtain s2 where "unregisterClient c ?s = Some s2" "server_inv s2" "registered s2 = registered ?s - {c}"
    "sv_accepts s2 = sv_accepts ?s" "sv_dupPolicy s2 = sv_dupPolicy ?s" "\<forall>x. sv_key s2 x = sv_key ?s x" .
  with s'(1) have reg: "registered s' = registered ?s - {c}" and pol: "sv_dupPolicy s' = sv_dupPolicy ?s" by simp_all
  from c obtain cs where look: "fmlookup (sv_clients ?s) (sv_key ?s c) = Some cs" and m: "c |\<in>| ForeachClient cs"
    by (auto simp: registered_def mem_at_def split: option.splits)
  have act: "cs_dup cs = None \<longrightarrow> cs_activeClient cs = Some c"
    using m by (auto simp: ForeachClient_def split: option.splits)
  note q = unregister_queue [OF s'(1) look act]
  have sy: "sy_srv y' = s'" using s'(2) by simp
  show ?thesis
  proof (rule view_invI)
    fix x
    assume "sv_dupPolicy (sy_srv y') = lastWriterIsActive" and "x \<in> registered (sy_srv y')"
    then have p: "sv_dupPolicy ?s = lastWriterIsActive" and x: "x \<in> registered ?s" "x \<noteq> c"
      by (simp_all add: sy pol reg)
    have old: "if x |\<in>| sv_watchers ?s then replay (history y x) {} = fset (fmdom (sv_clients ?s)) else history y x = []"
      using v p x by (simp add: view_inv_def)
    have h: "history y' x = history y x @ (if cs_dup cs = None \<and> x |\<in>| sv_watchers ?s then [?gone] else [])"
      by (simp add: history_def q(1) s'(2))
    have w: "x |\<in>| sv_watchers s' \<longleftrightarrow> x |\<in>| sv_watchers ?s" using x(2) by (simp add: q(3))
    show "if x |\<in>| sv_watchers (sy_srv y') then replay (history y' x) {} = fset (fmdom (sv_clients (sy_srv y')))
          else history y' x = []"
      using old by (simp add: h sy w q(2))
  qed
qed

section \<open>The view is exact\<close>

lemma view_step:
  assumes y: "sys_inv y" and v: "view_inv y" and en: "enabled y x" and e: "exec kstr mb x y = Some y'"
  shows "view_inv y'"
proof -
  let ?s = "sy_srv y"
  have simple: "view_inv y'" if "y' = y\<lparr>sy_srv := s'\<rparr>" "same_view ?s s'" "registered s' \<subseteq> registered ?s" for s'
    using same_view_inv [OF v that(2,3)] that(1) by simp
  have inv: "server_inv ?s" using y by (simp add: sys_inv_def)
  have tracked: "view_inv y'" if "exec kstr mb x y = on_srv y (track f ?s)" for f
  proof -
    have "on_srv y (track f ?s) = Some y'" using that e by simp
    then obtain s' where s': "track f ?s = Some s'" "y' = y\<lparr>sy_srv := s'\<rparr>" by (auto simp: on_srv_def)
    then obtain tr where tr: "s' = ?s\<lparr>sv_peerTracker := tr\<rparr>"
      by (cases "sv_peerTracker ?s") (auto simp: track_def intro: that [of None])
    show ?thesis by (rule simple [OF s'(2)]) (simp_all add: tr same_views)
  qed
  show ?thesis
  proof (cases x)
    case OpAccept
    with e have "y' = y\<lparr>sy_srv := ?s\<lparr>sv_accepts := sv_accepts ?s + 1\<rparr>, sy_pending := finsert (sv_accepts ?s + 1) (sy_pending y)\<rparr>"
      by (simp add: Let_def)
    then show ?thesis
      by (intro view_inv_frame [OF v]) (simp_all add: history_def registered_def mem_at_def)
  next
    case (OpReject c)
    with e have "y' = y\<lparr>sy_pending := sy_pending y |-| {|c|}\<rparr>" by simp
    then show ?thesis by (intro view_inv_frame [OF v]) (simp_all add: history_def)
  next
    case (OpServe c key addr raddr now mesh ni pr)
    with en e show ?thesis by (intro view_serve [OF y v]) auto
  next
    case (OpActivity c)
    with en e have a: "y' = y\<lparr>sy_srv := noteActivityLocked c ?s\<rparr>" "c \<in> registered ?s" by (simp_all add: on_srv_def)
    show ?thesis by (rule simple [OF a(1) same_view_activity]) (simp add: registered_activity [OF inv a(2)])
  next
    case (OpPreferred c v d)
    with e have a: "y' = y\<lparr>sy_srv := setPreferred c v d ?s\<rparr>" by (simp add: on_srv_def)
    show ?thesis by (rule simple [OF a]) (simp_all add: same_registry_registered [OF setPreferred_same(1)] same_views)
  next
    case (OpWatch c)
    with en e show ?thesis by (intro view_watch [OF y v]) auto
  next
    case (OpMeshUpdates c)
    with e have "y' = y\<lparr>sy_sent := (sy_sent y)(c := sy_sent y c @ queue ?s c),
        sy_srv := upd_conn c (sc_peerStateChange_update (\<lambda>_. [])) ?s\<rparr>" by simp
    then show ?thesis
      by (intro view_inv_frame [OF v]) (auto simp: history_def registered_def mem_at_def split: if_splits)
  next
    case (OpRecv c n)
    show ?thesis by (rule tracked) (simp add: OpRecv)
  next
    case (OpSent c n)
    show ?thesis by (rule tracked) (simp add: OpSent)
  next
    case (OpSawSrc c src)
    with e have a: "y' = y\<lparr>sy_srv := noteSendFromSrc c src ?s\<rparr>" by (simp add: on_srv_def)
    show ?thesis by (rule simple [OF a]) (simp_all add: same_registry_registered [OF noteSendFromSrc_same(1)] same_views)
  next
    case (OpUnwatchSrc p h)
    with e have a: "y' = y\<lparr>sy_srv := removePeerGoneFromRegionWatcher p h ?s\<rparr>" by (simp add: on_srv_def)
    show ?thesis by (rule simple [OF a]) (simp_all add: same_registry_registered [OF removePeerGone_same(1)] same_views)
  next
    case (OpClose c)
    with en e show ?thesis by (intro view_close [OF y v]) auto
  next
    case (OpAddForwarder dst f)
    with e have a: "y' = y\<lparr>sy_srv := AddPacketForwarder dst f ?s\<rparr>" by (simp add: on_srv_def)
    show ?thesis by (rule simple [OF a]) (simp_all add: same_registry_registered [OF AddPacketForwarder_same] same_views)
  next
    case (OpRemoveForwarder dst f)
    with e obtain s' where s': "RemovePacketForwarder dst f ?s = Some s'" "y' = y\<lparr>sy_srv := s'\<rparr>"
      by (auto simp: on_srv_def)
    have "same_registry ?s s'" using RemovePacketForwarder_inv [OF inv] s'(1) by (metis option.inject)
    then show ?thesis
      by (intro simple [OF s'(2)] same_view_remove [OF s'(1)]) (simp add: same_registry_registered)
  next
    case (OpLimits rc)
    obtain rc' s' where u: "UpdateRateLimits mb rc ?s = (rc', s')" by fastforce
    with e OpLimits have y': "y' = y\<lparr>sy_srv := s'\<rparr>" by (simp add: on_srv_def)
    show ?thesis
      by (rule simple [OF y']) (use same_views(5) [of ?s mb rc] u in \<open>simp_all add: same_registry_registered [OF UpdateRateLimits_same(1)]\<close>)
  qed
qed

lemma reachable_view: "reachable kstr mb y \<Longrightarrow> view_inv y"
proof (induction rule: reachable.induct)
  case (start tr pub pol)
  then show ?case by (auto simp: view_inv_def sys_init_def NewServer_def registered_def mem_at_def)
next
  case (step y x y')
  from view_step [OF reachable_inv [OF step.hyps(1)] step.IH step.hyps(2,3)] show ?case .
qed

text \<open>
  A mesh watcher knows who is connected (C4): in every reachable state of a server with the policy
  \<open>lastWriterIsActive\<close>, replaying the presence messages queued for a watcher since it registered
  (those \<open>sendMeshUpdates\<close> has written and those still queued) gives exactly the keys that have a
  connection, whatever duplicate connections came and went. A connection that is not a watcher
  is sent no presence message.
\<close>

theorem watcher_view_exact:
  assumes "reachable kstr mb y" and "sv_dupPolicy (sy_srv y) = lastWriterIsActive" and "w \<in> registered (sy_srv y)"
  shows "if w |\<in>| sv_watchers (sy_srv y)
    then replay (history y w) {} = sv_key (sy_srv y) ` registered (sy_srv y)
    else history y w = []"
  using reachable_view [OF assms(1)] assms(2,3) keys_registered [OF reachable_parts(1) [OF assms(1)]]
  by (simp add: view_inv_def)

theorem watcher_view_exact_witness:
  "replay (history (demo_state lastWriterIsActive) 3) {} =
     sv_key (sy_srv (demo_state lastWriterIsActive)) ` registered (sy_srv (demo_state lastWriterIsActive))"
proof -
  have "sv_dupPolicy (sy_srv (demo_state lastWriterIsActive)) = lastWriterIsActive"
    and "3 \<in> registered (sy_srv (demo_state lastWriterIsActive))"
    and "3 |\<in>| sv_watchers (sy_srv (demo_state lastWriterIsActive))" by (simp_all add: server_eval)
  with watcher_view_exact [OF demo_reachable, of lastWriterIsActive 3] show ?thesis by simp
qed

end
