(* ===== verification/DerpPolicy.thy ===== *)
theory DerpPolicy
  imports MeshView
begin

text \<open>
  Duplicate connections and what the server reports about them: the consistency check, the policy
  that disables fighting duplicates, and the peer-gone notifications.
\<close>

section \<open>Duplicate keys\<close>

lemma two_conns_iff: "2 \<le> conns_of s k \<longleftrightarrow>
    (\<exists>c \<in> registered s. \<exists>c' \<in> registered s. c \<noteq> c' \<and> sv_key s c = k \<and> sv_key s c' = k)"
proof -
  have "finite {c \<in> registered s. sv_key s c = k}" using finite_registered by (rule rev_finite_subset) auto
  then have "card {c \<in> registered s. sv_key s c = k} \<le> Suc 0 \<longleftrightarrow>
      (\<forall>a \<in> {c \<in> registered s. sv_key s c = k}. \<forall>b \<in> {c \<in> registered s. sv_key s c = k}. a = b)"
    by (rule card_le_Suc0_iff_eq)
  then show ?thesis unfolding conns_of_def by (auto simp: not_less_eq_eq [symmetric] numeral_2_eq_2)
qed

lemma keys_distinct_iff: "card (sv_key s ` registered s) = card (registered s) \<longleftrightarrow> (\<forall>k. conns_of s k < 2)"
proof -
  have "card (sv_key s ` registered s) = card (registered s) \<longleftrightarrow> inj_on (sv_key s) (registered s)"
    using finite_registered by (auto simp: card_image eq_card_imp_inj_on)
  also have "\<dots> \<longleftrightarrow> (\<forall>k. \<not> 2 \<le> conns_of s k)"
    unfolding two_conns_iff inj_on_def by blast
  finally show ?thesis by (simp add: not_le)
qed

lemma mesh_counts_zero:
  assumes "mesh_ok s"
  shows "filter (\<lambda>(k, f). f = None \<and> fmlookup (sv_clients s) k = None) (sorted_list_of_fmap (sv_clientsMesh s)) = []"
    and "filter (\<lambda>(k, _). fmlookup (sv_clientsMesh s) k = None) (sorted_list_of_fmap (sv_clients s)) = []"
  using assms by (auto simp: filter_empty_conv sorted_list_of_fmap_mem mesh_ok_def)

text \<open>
  The result of \<open>ConsistencyCheck\<close> (without the tailscaled check) in every reachable state: the
  mesh table and the client table always agree, so the only thing the check can report is that the
  numbers of connections and of keys differ, and it reports that exactly when some key has two
  connections.
\<close>

theorem consistency_check_duplicates:
  assumes "reachable kstr mb y"
  shows "ConsistencyCheck None (sy_srv y) =
    (if \<forall>k. conns_of (sy_srv y) k < 2 then []
     else [ConnectionsDiffer (int (card (registered (sy_srv y)))) (int (card (sv_key (sy_srv y) ` registered (sy_srv y))))])"
proof -
  let ?s = "sy_srv y"
  note ok = reachable_parts(1,2,3) [OF assms]
  have g: "curClients (sv_gauges ?s) = int (card (registered ?s))"
    "sv_numLocalClientKeys ?s = int (card (sv_key ?s ` registered ?s))"
    using ok by (simp_all add: gauges_ok_def conn_count_card keys_registered [symmetric] fcard.rep_eq)
  show ?thesis
    unfolding ConsistencyCheck_def Let_def mesh_counts_zero [OF ok(3)] g keys_distinct_iff [symmetric]
    by auto
qed

theorem consistency_check_duplicates_witness:
  "ConsistencyCheck None (sy_srv (demo_state lastWriterIsActive)) = [ConnectionsDiffer 3 2]"
proof -
  let ?s = "sy_srv (demo_state lastWriterIsActive)"
  have g: "curClients (sv_gauges ?s) = 3" "sv_numLocalClientKeys ?s = 2" by (simp_all add: server_eval)
  have "ConsistencyCheck None ?s \<noteq> []" using g by (simp add: ConsistencyCheck_def Let_def)
  with consistency_check_duplicates [OF demo_reachable, of lastWriterIsActive] g show ?thesis
    by (auto simp: ConsistencyCheck_def Let_def split: if_splits)
qed

section \<open>Fighting duplicates\<close>

text \<open>
  Under the policy \<open>disableFighters\<close>: when a connection that has spoken before speaks again after
  another connection of its key, every connection of the key is disabled and packets to the key find
  no destination (they are dropped as a duplicate, the number of connections being reported), while
  routing to every other key is unchanged.
\<close>

theorem fighters_disabled:
  assumes y: "reachable kstr mb y" and pol: "sv_dupPolicy (sy_srv y) = disableFighters" and c: "c \<in> registered (sy_srv y)"
    and d: "fmlookup (sv_clients (sy_srv y)) (sv_key (sy_srv y) c) = Some cs" "cs_dup cs = Some d"
    and spoke: "c \<in> set (dc_sendHistory d)" and other: "last (dc_sendHistory d) \<noteq> c"
  shows "let s = sy_srv y; s' = noteActivityLocked c s in
     (\<forall>x \<in> registered s'. sv_key s' x = sv_key s c \<longrightarrow> sc_isDisabled (sv_conns s' x)) \<and>
     lookupDest (sv_key s c) s' = (None, None, conns_of s (sv_key s c)) \<and>
     (\<forall>k. k \<noteq> sv_key s c \<longrightarrow> lookupDest k s' = lookupDest k s)"
proof -
  let ?s = "sy_srv y"
  let ?s' = "noteActivityLocked c ?s"
  have inv: "server_inv ?s" using reachable_inv [OF y] by (simp add: sys_inv_def)
  have ok: "sets_ok ?s" by (rule server_inv_parts(1) [OF inv])
  have wf: "dup_wf (cs_activeClient cs) d" using set_okD(1) [OF sets_okD [OF ok d(1)]] d(2) by (simp add: clientSet_wf_def)
  have cd: "c |\<in>| dc_set d" using c d by (simp add: registered_def mem_at_def ForeachClient_def)
  obtain f cs' where a: "activity_sets (sv_dupPolicy ?s) c cs d = (f, cs')" by fastforce
  have f: f using a spoke other pol by (auto simp: activity_sets_def Let_def split: if_splits)
  from activity_sets_ok [OF wf cd a] f obtain d' where d': "cs_dup cs' = Some d'" "dc_set d' = dc_set d" "cs_activeClient cs' = None"
    by metis
  have s': "?s' = ?s\<lparr>sv_conns := (\<lambda>x. if x |\<in>| dc_set d then (sv_conns ?s x)\<lparr>sc_isDisabled := True\<rparr> else sv_conns ?s x),
      sv_clients := fmupd (sv_key ?s c) cs' (sv_clients ?s)\<rparr>"
    by (simp add: noteActivityLocked_def d a f)
  have len: "conns_of ?s (sv_key ?s c) = fcard (dc_set d)"
    using d by (simp add: conns_of_mem [OF ok] mem_at_def ForeachClient_def)
  have "2 \<le> fcard (dc_set d)" using wf by (simp add: dup_wf_def)
  then have "lookupDest (sv_key ?s c) ?s' = (None, None, conns_of ?s (sv_key ?s c))"
    by (auto simp: s' lookupDest_def Let_def d' clientSet_Len_def len fcard_fempty)
  moreover have "sc_isDisabled (sv_conns ?s' x)" if "x \<in> registered ?s'" "sv_key ?s' x = sv_key ?s c" for x
    using that by (auto simp: registered_def mem_at_def s' ForeachClient_def d' split: if_splits)
  moreover have "lookupDest k ?s' = lookupDest k ?s" if "k \<noteq> sv_key ?s c" for k
    using that by (simp add: s' lookupDest_def Let_def cong: if_cong option.case_cong)
  ultimately show ?thesis by (simp add: Let_def)
qed


definition fight_state :: sys where
  "fight_state = the (run_ops (\<lambda>_. ''k'') 0 (demo_ops @ [OpActivity 2]) (sys_init [1] disableFighters None))"

lemmas fight_eval = server_eval fight_state_def noteActivityLocked_def activity_sets_def

lemma fight_reachable: "reachable (\<lambda>_. ''k'') 0 fight_state"
proof -
  have "run_ops (\<lambda>_. ''k'') 0 (demo_ops @ [OpActivity 2]) (sys_init [1] disableFighters None) \<noteq> None"
    by (simp add: fight_eval)
  then have "run_ops (\<lambda>_. ''k'') 0 (demo_ops @ [OpActivity 2]) (sys_init [1] disableFighters None) = Some fight_state"
    by (auto simp: fight_state_def)
  then show ?thesis by (rule run_ops_reachable [rotated]) (rule reachable.start, simp)
qed

theorem fighters_disabled_witness:
  "lookupDest [7] (noteActivityLocked 1 (sy_srv fight_state)) = (None, None, conns_of (sy_srv fight_state) [7])"
proof -
  let ?s = "sy_srv fight_state"
  let ?d = "\<lparr>dc_set = {|2, 1|}, dc_last = Some 2, dc_sendHistory = [1, 2]\<rparr>"
  have f: "sv_dupPolicy ?s = disableFighters" "1 \<in> registered ?s" "sv_key ?s 1 = [7]"
    "fmlookup (sv_clients ?s) (sv_key ?s 1) = Some \<lparr>cs_activeClient = Some 2, cs_dup = Some ?d\<rparr>"
    by (simp_all add: fight_eval)
  from fighters_disabled [OF fight_reachable f(1,2,4), of ?d] show ?thesis by (simp add: Let_def f(3))
qed

text \<open>
  A connection that joins a set whose members have all been disabled is not marked as a duplicate, although
  other connections of its key are open: \<open>registerClient\<close> tests the active client, which is nil then. Its
  activity is therefore never recorded.
\<close>

theorem joins_disabled_set_unmarked:
  assumes "fmlookup (sv_clients s) (sv_key s c) = Some cs" and "cs_activeClient cs = None" and "\<not> sc_isDup (sv_conns s c)"
  shows "\<not> sc_isDup (sv_conns (registerClient kstr c s) c) \<and>
    noteClientActivity c (registerClient kstr c s) = registerClient kstr c s"
  using assms by (simp add: register_simps set_before_def noteClientActivity_def)

theorem joins_disabled_set_unmarked_witness:
  "let s = upd_conn 4 (\<lambda>_. new_sclient [7] AddrPort_zero ''d'' 9 False False False)
             (noteActivityLocked 1 (sy_srv fight_state));
       s' = registerClient (\<lambda>_. ''k'') 4 s
   in \<not> sc_isDup (sv_conns s' 4) \<and> mem_at s' [7] = {|4, 2, 1|}"
proof -
  let ?s = "upd_conn 4 (\<lambda>_. new_sclient [7] AddrPort_zero ''d'' 9 False False False)
             (noteActivityLocked 1 (sy_srv fight_state))"
  have f: "fmlookup (sv_clients ?s) (sv_key ?s 4) = Some \<lparr>cs_activeClient = None,
      cs_dup = Some \<lparr>dc_set = {|2, 1|}, dc_last = Some 2, dc_sendHistory = [1, 2, 1]\<rparr>\<rparr>" "\<not> sc_isDup (sv_conns ?s 4)"
    by (simp_all add: fight_eval)
  moreover have "mem_at (registerClient (\<lambda>_. ''k'') 4 ?s) [7] = {|4, 2, 1|}"
    by (simp add: fight_eval)
  ultimately show ?thesis
    using joins_disabled_set_unmarked [OF f(1) _ f(2), of "\<lambda>_. ''k''"] by (simp add: Let_def)
qed

section \<open>Peer-gone notifications\<close>

text \<open>
  The first packet a connection is sent from a peer registers it for that peer's departure: when the peer then
  leaves the region the connection is notified.
\<close>

theorem peer_gone_notifies_first:
  assumes "fmlookup (sc_sawSrc (sv_conns s c)) k = None"
    and "notePeerGoneFromRegionLocked k (noteSendFromSrc c k s) = Some s'"
  shows "OnPeerGoneFromRegion c k \<in> set (sv_spawned s') \<and> fmlookup (sv_peerGoneWatchers s') k = None \<and>
    fmlookup (sc_sawSrc (sv_conns s' c)) k \<noteq> None"
proof -
  let ?s1 = "noteSendFromSrc c k s"
  let ?h = "fmupd (sv_nextHandle s) c (case fmlookup (sv_peerGoneWatchers s) k of None \<Rightarrow> fmempty | Some h \<Rightarrow> h)"
  have w: "fmlookup (sv_peerGoneWatchers ?s1) k = Some ?h" "fmlookup (sc_sawSrc (sv_conns ?s1 c)) k \<noteq> None"
    using assms(1) by (simp_all add: noteSendFromSrc_def addPeerGoneFromRegionWatcher_def Let_def upd_conn_def)
  have "c \<in> set (map snd (sorted_list_of_fmap ?h))"
    by (force simp: sorted_list_of_fmap_mem intro: image_eqI [of _ _ "(sv_nextHandle s, c)"])
  then have "OnPeerGoneFromRegion c k \<in> set (map (\<lambda>w. OnPeerGoneFromRegion w k) (map snd (sorted_list_of_fmap ?h)))"
    unfolding set_map by (rule imageI)
  moreover have "s' = spawn (map (\<lambda>w. OnPeerGoneFromRegion w k) (map snd (sorted_list_of_fmap ?h)))
      (?s1\<lparr>sv_peerGoneWatchers := fmdrop k (sv_peerGoneWatchers ?s1)\<rparr>)"
    using assms(2) w(1) by (simp add: notePeerGoneFromRegionLocked_def Let_def split: if_splits)
  ultimately show ?thesis using w(2) by (simp add: spawn_def)
qed

text \<open>
  It is notified only once: after that notification, further packets from the peer do not register the
  connection again, so a later departure of the same peer is not reported to it.
\<close>

theorem peer_gone_not_repeated:
  assumes "fmlookup (sc_sawSrc (sv_conns s c)) k \<noteq> None" and "notePeerGoneFromRegionLocked k s = Some s'"
  shows "noteSendFromSrc c k s' = s' \<and> fmlookup (sv_peerGoneWatchers s') k = None \<and>
    (\<forall>s''. notePeerGoneFromRegionLocked k s' = Some s'' \<longrightarrow> sv_spawned s'' = sv_spawned s')"
proof -
  have "fmlookup (sc_sawSrc (sv_conns s' c)) k \<noteq> None" "fmlookup (sv_peerGoneWatchers s') k = None"
    using assms by (auto simp: notePeerGoneFromRegionLocked_def Let_def spawn_def split: if_splits)
  then show ?thesis
    by (auto simp: noteSendFromSrc_def notePeerGoneFromRegionLocked_def Let_def spawn_def split: if_splits)
qed

definition saw_state :: Server where
  "saw_state = noteSendFromSrc 2 [5] (sy_srv (demo_state lastWriterIsActive))"

lemmas saw_eval = server_eval saw_state_def noteSendFromSrc_def addPeerGoneFromRegionWatcher_def notePeerGoneFromRegionLocked_def

theorem peer_gone_notifies_first_witness:
  "OnPeerGoneFromRegion 2 [5] \<in> set (sv_spawned (the (notePeerGoneFromRegionLocked [5] saw_state)))"
proof -
  let ?s = "sy_srv (demo_state lastWriterIsActive)"
  have n: "fmlookup (sc_sawSrc (sv_conns ?s 2)) [5] = None" by (simp add: server_eval)
  have "notePeerGoneFromRegionLocked [5] (noteSendFromSrc 2 [5] ?s) \<noteq> None" by (simp add: saw_eval)
  then obtain s' where s': "notePeerGoneFromRegionLocked [5] (noteSendFromSrc 2 [5] ?s) = Some s'" by blast
  from peer_gone_notifies_first [OF n s'] s' show ?thesis by (simp add: saw_state_def)
qed

theorem peer_gone_not_repeated_witness:
  "let s' = the (notePeerGoneFromRegionLocked [5] saw_state) in noteSendFromSrc 2 [5] s' = s'"
proof -
  have n: "fmlookup (sc_sawSrc (sv_conns saw_state 2)) [5] \<noteq> None" by (simp add: saw_eval)
  have "notePeerGoneFromRegionLocked [5] saw_state \<noteq> None" by (simp add: saw_eval)
  then obtain s' where s': "notePeerGoneFromRegionLocked [5] saw_state = Some s'" by blast
  from peer_gone_not_repeated [OF n s'] s' show ?thesis by simp
qed

end
