(* ===== verification/Frames.thy ===== *)
theory Frames
  imports DerpSystem
begin

text \<open>
  Receiving frames: the read loop \<open>sclient.run\<close> of \<^verbatim>\<open>derpserver.go\<close>, its handlers, the parsing of
  packet frames and the bounded send queues.

  \<^item> The reader \<open>br\<close> is the list of bytes that will still arrive before the connection ends; a read
    that needs more is the error \<open>ReadError\<close>.
  \<^item> Constants and predicates of \<^verbatim>\<open>tailscale.com/derp\<close>, \<^verbatim>\<open>disco\<close> and \<^verbatim>\<open>types/key\<close> are the fields of
    \<open>wire\<close>; the frame header is read by its field \<open>w_header\<close>.
  \<^item> What other goroutines do while a packet is queued, whether the destination has gone, the answer
    of the peer-gone limiter and the clock are the fields of \<open>ienv\<close>.
\<close>

section \<open>State\<close>

datatype FrameType = FrameNotePreferred | FrameSendPacket | FrameForwardPacket | FrameWatchConns
  | FrameClosePeer | FramePing | FrameOther nat

text \<open>The result of \<open>derp.ReadFrameHeader\<close>: the end of the stream, another error, or a header and the
  rest of the stream.\<close>

datatype header = HdrEOF | HdrError | Hdr FrameType uint32 bytes

record wire =
  w_KeyLen :: uint32
  w_NodePublicRawLen :: nat
  w_MaxPacketSize :: uint32
  w_LooksLikeDiscoWrapper :: "bytes \<Rightarrow> bool"
  w_header :: "bytes \<Rightarrow> header"

datatype dropReason = dropReasonUnknownDest | dropReasonUnknownDestOnFwd | dropReasonGoneDisconnected
  | dropReasonQueueHead | dropReasonQueueTail | dropReasonWriteError | dropReasonDupClient

datatype packetKind = packetKindDisco | packetKindOther

record counters =
  packetsRecv :: int
  bytesRecv :: int
  packetsRecvKind :: "packetKind \<Rightarrow> int"
  packetsForwardedIn :: int
  packetsForwardedOut :: int
  gotPing :: int
  packetsDropped :: "packetKind \<Rightarrow> dropReason \<Rightarrow> int"
  bytesDropped :: "packetKind \<Rightarrow> dropReason \<Rightarrow> int"
  sendPongCh :: "bytes option" \<comment> \<open>the pong channel of the connection, of capacity one\<close>

record ienv =
  ie_done :: "nat \<Rightarrow> bool" \<comment> \<open>the destination's context is done at attempt \<open>i\<close>\<close>
  ie_pre :: "nat \<Rightarrow> pkt list \<Rightarrow> pkt list" \<comment> \<open>the queue when attempt \<open>i\<close> tries to send\<close>
  ie_mid :: "nat \<Rightarrow> pkt list \<Rightarrow> pkt list" \<comment> \<open>the queue when attempt \<open>i\<close> tries to drop its head\<close>
  ie_depth :: nat
  ie_allow :: bool
  ie_now :: gotime
  ie_since :: duration
  ie_closed :: bool

datatype frame_error = ReadError | WrongSize | InsufficientPermissions | ShortFrame | PacketTooLong
  | ShortPing | PingTooLarge | HeaderError

section \<open>Reading\<close>

definition read_full :: "nat \<Rightarrow> bytes \<Rightarrow> (bytes \<times> bytes) option" where
  "read_full n br = (if length br < n then None else Some (take n br, drop n br))"

definition packet_kind :: "wire \<Rightarrow> bytes \<Rightarrow> packetKind" where
  "packet_kind w bs = (if w_LooksLikeDiscoWrapper w bs then packetKindDisco else packetKindOther)"

definition recvPacket :: "wire \<Rightarrow> uint32 \<Rightarrow> bytes \<Rightarrow> counters \<Rightarrow> (frame_error + (node_public \<times> bytes \<times> bytes)) \<times> counters" where
  "recvPacket w frameLen br k =
     (if frameLen < w_KeyLen w then (Inl ShortFrame, k)
      else case read_full (w_NodePublicRawLen w) br of
             None \<Rightarrow> (Inl ReadError, k)
           | Some (dstKey, br) \<Rightarrow>
               (let packetLen = frameLen - w_KeyLen w in
                if packetLen > w_MaxPacketSize w then (Inl PacketTooLong, k)
                else case read_full (unat packetLen) br of
                       None \<Rightarrow> (Inl ReadError, k)
                     | Some (contents, br) \<Rightarrow>
                         (Inr (dstKey, contents, br),
                          k\<lparr>packetsRecv := packetsRecv k + 1, bytesRecv := bytesRecv k + int (length contents),
                            packetsRecvKind := (packetsRecvKind k)(packet_kind w contents :=
                              packetsRecvKind k (packet_kind w contents) + 1)\<rparr>)))"

definition recvForwardPacket :: "wire \<Rightarrow> uint32 \<Rightarrow> bytes \<Rightarrow> frame_error + (node_public \<times> node_public \<times> bytes \<times> bytes)" where
  "recvForwardPacket w frameLen br =
     (if frameLen < w_KeyLen w * 2 then Inl ShortFrame
      else case read_full (w_NodePublicRawLen w) br of
             None \<Rightarrow> Inl ReadError
           | Some (srcKey, br) \<Rightarrow>
               (case read_full (w_NodePublicRawLen w) br of
                  None \<Rightarrow> Inl ReadError
                | Some (dstKey, br) \<Rightarrow>
                    (let packetLen = frameLen - w_KeyLen w * 2 in
                     if packetLen > w_MaxPacketSize w then Inl PacketTooLong
                     else case read_full (unat packetLen) br of
                            None \<Rightarrow> Inl ReadError
                          | Some (contents, br) \<Rightarrow> Inr (srcKey, dstKey, contents, br))))"

section \<open>Queueing\<close>

definition recordDrop :: "wire \<Rightarrow> bytes \<Rightarrow> dropReason \<Rightarrow> counters \<Rightarrow> counters" where
  "recordDrop w bs reason k =
     (let d = packet_kind w bs in
      k\<lparr>packetsDropped := (packetsDropped k)(d := (packetsDropped k d)(reason := packetsDropped k d reason + 1)),
        bytesDropped := (bytesDropped k)(d := (bytesDropped k d)(reason := bytesDropped k d reason + int (length bs)))\<rparr>)"

datatype send_outcome = Enqueued | DestinationGone | TailDropped

text \<open>The attempts from number \<open>i\<close> on (\<open>n\<close> are left): the outcome, the queue, and the packets
  dropped from its head.\<close>

fun sendPkt_attempts :: "ienv \<Rightarrow> pkt \<Rightarrow> nat \<Rightarrow> nat \<Rightarrow> pkt list \<Rightarrow> pkt list \<Rightarrow> send_outcome \<times> pkt list \<times> pkt list" where
  "sendPkt_attempts e p i 0 q dropped = (TailDropped, q, dropped)"
| "sendPkt_attempts e p i (Suc n) q dropped =
     (let q = ie_pre e i q in
      if ie_done e i then (DestinationGone, q, dropped)
      else if length q < ie_depth e then (Enqueued, q @ [p], dropped)
      else (case ie_mid e i q of
              [] \<Rightarrow> sendPkt_attempts e p (Suc i) n [] dropped
            | h # q' \<Rightarrow> sendPkt_attempts e p (Suc i) n q' (dropped @ [h])))"

definition sendPkt :: "wire \<Rightarrow> ienv \<Rightarrow> sptr \<Rightarrow> pkt \<Rightarrow> Server \<times> counters \<Rightarrow> send_outcome \<times> Server \<times> counters" where
  "sendPkt w e dst p sk =
     (let (s, k) = sk;
          disco = w_LooksLikeDiscoWrapper w (pk_bs p);
          q0 = (if disco then sc_discoSendQueue (sv_conns s dst) else sc_sendQueue (sv_conns s dst));
          (out, q, dropped) = sendPkt_attempts e p 0 3 q0 [];
          s' = upd_conn dst (\<lambda>x. if disco then x\<lparr>sc_discoSendQueue := q\<rparr> else x\<lparr>sc_sendQueue := q\<rparr>) s;
          k = fold (\<lambda>h. recordDrop w (pk_bs h) dropReasonQueueHead) dropped k;
          k = (case out of
                 Enqueued \<Rightarrow> k
               | DestinationGone \<Rightarrow> recordDrop w (pk_bs p) dropReasonGoneDisconnected k
               | TailDropped \<Rightarrow> recordDrop w (pk_bs p) dropReasonQueueTail k)
      in (out, s', k))"

definition requestPeerGoneWriteLimited :: "wire \<Rightarrow> ienv \<Rightarrow> sptr \<Rightarrow> node_public \<Rightarrow> bytes \<Rightarrow> PeerGoneReason \<Rightarrow> Server \<Rightarrow> Server" where
  "requestPeerGoneWriteLimited w e c peer contents reason s =
     (if \<not> w_LooksLikeDiscoWrapper w contents then s
      else if ie_allow e then spawn [RequestPeerGoneWrite c peer reason] s else s)"

section \<open>Handlers\<close>

text \<open>What became of a packet.\<close>

datatype fate = Delivered send_outcome sptr | Forwarded fwd_id | DroppedAs dropReason

definition handleFrameSendPacket ::
    "wire \<Rightarrow> ienv \<Rightarrow> sptr \<Rightarrow> uint32 \<Rightarrow> bytes \<Rightarrow> Server \<times> counters \<Rightarrow> ((frame_error + bytes \<times> fate) \<times> Server \<times> counters) option" where
  "handleFrameSendPacket w e c fl br sk =
     (let (s, k) = sk in
      case recvPacket w fl br k of
        (Inl err, k) \<Rightarrow> Some (Inl err, s, k)
      | (Inr (dstKey, contents, br), k) \<Rightarrow>
          (case track (Receive c (length contents)) s of
             None \<Rightarrow> None
           | Some s \<Rightarrow>
               (case lookupDest dstKey s of
                  (None, Some fwd, _) \<Rightarrow>
                    Some (Inr (br, Forwarded (forward_target fwd)), s, k\<lparr>packetsForwardedOut := packetsForwardedOut k + 1\<rparr>)
                | (None, None, dstLen) \<Rightarrow>
                    (let reason = (if dstLen > 1 then dropReasonDupClient else dropReasonUnknownDest);
                         s = (if dstLen > 1 then s
                              else requestPeerGoneWriteLimited w e c dstKey contents PeerGoneReasonNotHere s)
                     in Some (Inr (br, DroppedAs reason), s, recordDrop w contents reason k))
                | (Some dst, _, _) \<Rightarrow>
                    (let (out, s, k) = sendPkt w e dst \<lparr>pk_enqueuedAt = ie_now e, pk_bs = contents, pk_src = sv_key s c\<rparr> (s, k)
                     in Some (Inr (br, Delivered out dst), s, k)))))"

definition handleFrameForwardPacket ::
    "wire \<Rightarrow> ienv \<Rightarrow> sptr \<Rightarrow> uint32 \<Rightarrow> bytes \<Rightarrow> Server \<times> counters \<Rightarrow> (frame_error + bytes \<times> fate) \<times> Server \<times> counters" where
  "handleFrameForwardPacket w e c fl br sk =
     (let (s, k) = sk in
      if \<not> sc_canMesh (sv_conns s c) then (Inl InsufficientPermissions, s, k)
      else case recvForwardPacket w fl br of
             Inl err \<Rightarrow> (Inl err, s, k)
           | Inr (srcKey, dstKey, contents, br) \<Rightarrow>
               (let k = k\<lparr>packetsForwardedIn := packetsForwardedIn k + 1\<rparr> in
                case lookupDest dstKey s of
                  (None, _, dstLen) \<Rightarrow>
                    (let reason = (if dstLen > 1 then dropReasonDupClient else dropReasonUnknownDestOnFwd);
                         s = (if dstLen > 1 then s
                              else requestPeerGoneWriteLimited w e c dstKey contents PeerGoneReasonNotHere s)
                     in (Inr (br, DroppedAs reason), s, recordDrop w contents reason k))
                | (Some dst, _, _) \<Rightarrow>
                    (let (out, s, k) = sendPkt w e dst \<lparr>pk_enqueuedAt = ie_now e, pk_bs = contents, pk_src = srcKey\<rparr> (s, k)
                     in (Inr (br, Delivered out dst), s, k))))"

definition handleUnknownFrame :: "uint32 \<Rightarrow> bytes \<Rightarrow> frame_error + bytes" where
  "handleUnknownFrame fl br = (case read_full (unat fl) br of None \<Rightarrow> Inl ReadError | Some (_, br) \<Rightarrow> Inr br)"

definition handleFrameNotePreferred :: "ienv \<Rightarrow> sptr \<Rightarrow> uint32 \<Rightarrow> bytes \<Rightarrow> Server \<Rightarrow> (frame_error + bytes) \<times> Server" where
  "handleFrameNotePreferred e c fl br s =
     (if fl \<noteq> 1 then (Inl WrongSize, s)
      else case br of
             [] \<Rightarrow> (Inl ReadError, s)
           | v # br \<Rightarrow> (Inr br, setPreferred c (v \<noteq> 0) (ie_since e) s))"

definition handleFrameWatchConns :: "sptr \<Rightarrow> uint32 \<Rightarrow> bytes \<Rightarrow> Server \<Rightarrow> ((frame_error + bytes) \<times> Server) option" where
  "handleFrameWatchConns c fl br s =
     (if fl \<noteq> 0 then Some (Inl WrongSize, s)
      else if \<not> sc_canMesh (sv_conns s c) then Some (Inl InsufficientPermissions, s)
      else map_option (\<lambda>s. (Inr br, s)) (addWatcher c s))"

definition handleFramePing :: "uint32 \<Rightarrow> bytes \<Rightarrow> counters \<Rightarrow> (frame_error + bytes) \<times> counters" where
  "handleFramePing fl br k0 =
     (let k = k0\<lparr>gotPing := gotPing k0 + 1\<rparr> in
      if fl < 8 then (Inl ShortPing, k)
      else if fl > 1000 then (Inl PingTooLarge, k)
      else case read_full 8 br of
             None \<Rightarrow> (Inl ReadError, k)
           | Some (m, br) \<Rightarrow>
               (let k' = (case sendPongCh k of None \<Rightarrow> k\<lparr>sendPongCh := Some m\<rparr> | Some _ \<Rightarrow> k)
                in case read_full (unat fl - 8) br of
                     None \<Rightarrow> (Inl ReadError, k')
                   | Some (_, br) \<Rightarrow> (Inr br, k')))"

definition handleFrameClosePeer :: "wire \<Rightarrow> sptr \<Rightarrow> uint32 \<Rightarrow> bytes \<Rightarrow> Server \<Rightarrow> (frame_error + bytes) \<times> Server" where
  "handleFrameClosePeer w c fl br s =
     (if fl \<noteq> w_KeyLen w then (Inl WrongSize, s)
      else if \<not> sc_canMesh (sv_conns s c) then (Inl InsufficientPermissions, s)
      else case read_full (w_NodePublicRawLen w) br of
             None \<Rightarrow> (Inl ReadError, s)
           | Some (targetKey, br) \<Rightarrow>
               (case fmlookup (sv_clients s) targetKey of
                  None \<Rightarrow> (Inr br, s)
                | Some cs \<Rightarrow> (Inr br, spawn (map CloseConn (sorted_list_of_fset (ForeachClient cs))) s)))"

text \<open>The body of the loop of \<open>run\<close> after the header and the rate limit.\<close>

definition handleFrame ::
    "wire \<Rightarrow> ienv \<Rightarrow> sptr \<Rightarrow> FrameType \<Rightarrow> uint32 \<Rightarrow> bytes \<Rightarrow> Server \<times> counters \<Rightarrow>
      ((frame_error + bytes) \<times> Server \<times> counters) option" where
  "handleFrame w e c ft fl br sk =
     (let s = noteClientActivity c (fst sk); k = snd sk in
      case ft of
        FrameNotePreferred \<Rightarrow> (let (r, s) = handleFrameNotePreferred e c fl br s in Some (r, s, k))
      | FrameSendPacket \<Rightarrow> map_option (\<lambda>(r, s, k). (map_sum id fst r, s, k)) (handleFrameSendPacket w e c fl br (s, k))
      | FrameForwardPacket \<Rightarrow> (let (r, s, k) = handleFrameForwardPacket w e c fl br (s, k) in Some (map_sum id fst r, s, k))
      | FrameWatchConns \<Rightarrow> map_option (\<lambda>(r, s). (r, s, k)) (handleFrameWatchConns c fl br s)
      | FrameClosePeer \<Rightarrow> (let (r, s) = handleFrameClosePeer w c fl br s in Some (r, s, k))
      | FramePing \<Rightarrow> (let (r, k) = handleFramePing fl br k in Some (r, s, k))
      | FrameOther _ \<Rightarrow> Some (handleUnknownFrame fl br, s, k))"

text \<open>The loop of \<open>run\<close>, for connections without a rate limiter; \<open>envs\<close> gives the environment of each
  frame. It ends without an error at the end of the stream (or on a read error of a closed server),
  otherwise with the first error. The outer \<^term>\<open>None\<close> is a lack of fuel, the inner one a panic.\<close>

fun run_frames :: "nat \<Rightarrow> wire \<Rightarrow> (nat \<Rightarrow> ienv) \<Rightarrow> sptr \<Rightarrow> bytes \<Rightarrow> Server \<times> counters \<Rightarrow>
    (frame_error option \<times> Server \<times> counters) option option" where
  "run_frames 0 w envs c br sk = None"
| "run_frames (Suc n) w envs c br sk =
     (case w_header w br of
        HdrEOF \<Rightarrow> Some (Some (None, sk))
      | HdrError \<Rightarrow> Some (Some (if ie_closed (envs n) then None else Some HeaderError, sk))
      | Hdr ft fl br \<Rightarrow>
          (case handleFrame w (envs n) c ft fl br sk of
             None \<Rightarrow> Some None
           | Some (Inl err, sk) \<Rightarrow> Some (Some (Some err, sk))
           | Some (Inr br, sk) \<Rightarrow> run_frames n w envs c br sk))"

section \<open>Reading: exactness\<close>

text \<open>The wire constants the handlers rely on: a raw key is as long as the protocol says, and keys and
  packets are far from the 32-bit limit of a frame length.\<close>

definition wire_ok :: "wire \<Rightarrow> bool" where
  "wire_ok w \<longleftrightarrow> unat (w_KeyLen w) = w_NodePublicRawLen w \<and> w_NodePublicRawLen w \<le> 1024 \<and> unat (w_MaxPacketSize w) \<le> 2 ^ 30"

lemma read_full_Some: "read_full n br = Some (a, b) \<longleftrightarrow> n \<le> length br \<and> a = take n br \<and> b = drop n br"
  by (auto simp: read_full_def)

lemma unat_sub_add: "b \<le> (a :: uint32) \<Longrightarrow> unat b + unat (a - b) = unat a"
  by (simp add: unat_sub word_le_nat_alt)

lemma key_twice: "wire_ok w \<Longrightarrow> unat (w_KeyLen w * 2) = 2 * w_NodePublicRawLen w"
proof -
  assume "wire_ok w"
  then have "unat (w_KeyLen w) = w_NodePublicRawLen w" "w_NodePublicRawLen w \<le> 1024" by (simp_all add: wire_ok_def)
  then show ?thesis by (simp add: unat_word_ariths)
qed

lemma recvPacket_sync:
  assumes "wire_ok w" and "recvPacket w fl br k = (Inr (dst, contents, br'), k')"
  shows "unat fl \<le> length br \<and> br' = drop (unat fl) br \<and> dst = take (w_NodePublicRawLen w) br \<and>
    contents = take (unat fl - w_NodePublicRawLen w) (drop (w_NodePublicRawLen w) br) \<and>
    length contents + w_NodePublicRawLen w = unat fl"
proof -
  have le: "w_KeyLen w \<le> fl" and r1: "w_NodePublicRawLen w \<le> length br" "dst = take (w_NodePublicRawLen w) br"
    and r2: "unat (fl - w_KeyLen w) \<le> length (drop (w_NodePublicRawLen w) br)"
      "contents = take (unat (fl - w_KeyLen w)) (drop (w_NodePublicRawLen w) br)"
      "br' = drop (unat (fl - w_KeyLen w)) (drop (w_NodePublicRawLen w) br)"
    using assms(2) by (auto simp: recvPacket_def Let_def read_full_Some not_less split: if_splits option.splits)
  have n: "w_NodePublicRawLen w + unat (fl - w_KeyLen w) = unat fl"
    using unat_sub_add [OF le] assms(1) by (simp add: wire_ok_def)
  then have "unat (fl - w_KeyLen w) = unat fl - w_NodePublicRawLen w" by simp
  with r1 r2 n show ?thesis by (simp add: add.commute)
qed

lemma recvForwardPacket_sync:
  assumes "wire_ok w" and "recvForwardPacket w fl br = Inr (src, dst, contents, br')"
  shows "unat fl \<le> length br \<and> br' = drop (unat fl) br"
proof -
  let ?n = "w_NodePublicRawLen w"
  have le: "w_KeyLen w * 2 \<le> fl" and r1: "?n + ?n \<le> length br"
    and r2: "unat (fl - w_KeyLen w * 2) \<le> length br - (?n + ?n)" "br' = drop (unat (fl - w_KeyLen w * 2)) (drop ?n (drop ?n br))"
    using assms(2) by (auto simp: recvForwardPacket_def Let_def read_full_Some not_less split: if_splits option.splits)
  have "?n + ?n + unat (fl - w_KeyLen w * 2) = unat fl"
    using unat_sub_add [OF le] key_twice [OF assms(1)] by simp
  with r1 r2 show ?thesis by (simp add: add.commute add.assoc)
qed

text \<open>The frames a client sends for a packet.\<close>

lemma recvPacket_frame:
  assumes "wire_ok w" and "length dst = w_NodePublicRawLen w" and "length contents \<le> unat (w_MaxPacketSize w)"
  shows "fst (recvPacket w (word_of_nat (length dst + length contents)) (dst @ contents @ rest) k) = Inr (dst, contents, rest)"
proof -
  let ?fl = "word_of_nat (length dst + length contents) :: uint32"
  have "length dst + length contents < 2 ^ LENGTH(32)" using assms by (simp add: wire_ok_def)
  then have fl: "unat ?fl = length dst + length contents"
    by (simp only: unsigned_of_nat take_bit_nat_eq_self of_nat_id)
  have le: "w_KeyLen w \<le> ?fl" using fl assms by (simp add: wire_ok_def word_le_nat_alt)
  have pl: "unat (?fl - w_KeyLen w) = length contents"
    using unat_sub_add [OF le] fl assms by (simp add: wire_ok_def)
  then have "\<not> ?fl - w_KeyLen w > w_MaxPacketSize w" using assms(3) by (simp add: word_less_nat_alt)
  with le pl assms(2) show ?thesis
    by (simp add: recvPacket_def Let_def read_full_def not_less)
qed

section \<open>Queues\<close>

text \<open>Without interference: the queue is used as a ring that prefers fresh packets.\<close>

definition quiet :: "ienv \<Rightarrow> bool" where
  "quiet e \<longleftrightarrow> (\<forall>i q. ie_pre e i q = q \<and> ie_mid e i q = q) \<and> (\<forall>i. \<not> ie_done e i) \<and> 0 < ie_depth e"

lemma sendPkt_quiet:
  assumes "quiet e" and "length q \<le> ie_depth e"
  shows "sendPkt_attempts e p 0 3 q [] =
    (Enqueued, (if length q < ie_depth e then q else tl q) @ [p], if length q < ie_depth e then [] else [hd q])"
proof (cases "length q < ie_depth e")
  case True
  then show ?thesis using assms(1) by (simp add: quiet_def Let_def numeral_3_eq_3)
next
  case False
  with assms have "length q = ie_depth e" "q \<noteq> []" by (auto simp: quiet_def)
  then obtain h q' where q: "q = h # q'" by (cases q) auto
  with \<open>length q = ie_depth e\<close> have "length q' < ie_depth e" by simp
  with False q assms(1) show ?thesis by (simp add: quiet_def Let_def numeral_3_eq_3)
qed

text \<open>Under any interference: at most three head drops; the packet is enqueued last, or not at all.\<close>

lemma sendPkt_outcome:
  "sendPkt_attempts e p i n q ds = (out, q', ds') \<Longrightarrow>
   (\<exists>hs. ds' = ds @ hs \<and> length hs \<le> n) \<and> (out = Enqueued \<longrightarrow> q' \<noteq> [] \<and> last q' = p \<and> length q' \<le> ie_depth e)"
proof (induction e p i n q ds rule: sendPkt_attempts.induct)
  case (1 e p i q ds)
  then show ?case by simp
next
  case (2 e p i n q ds)
  let ?q = "ie_pre e i q"
  show ?case
  proof (cases "ie_done e i \<or> length ?q < ie_depth e")
    case True
    with "2.prems" show ?thesis by (auto simp: Let_def split: if_splits)
  next
    case False
    show ?thesis
    proof (cases "ie_mid e i ?q")
      case Nil
      with "2.prems" False "2.IH"(1) [OF refl _ _ Nil] show ?thesis by (auto simp: Let_def)
    next
      case (Cons h qs)
      with "2.prems" False "2.IH"(2) [OF refl _ _ Cons] show ?thesis by (auto simp: Let_def)
    qed
  qed
qed

section \<open>Handlers keep the registry\<close>

lemma sendPkt_same:
  assumes "sendPkt w e dst p (s, k) = (out, s', k')"
  shows "same_registry s s'" "same_gauges s s'" "same_home s s'" "sv_clientsMesh s' = sv_clientsMesh s" "sv_watchers s' = sv_watchers s"
proof -
  from assms obtain d q where s': "s' = upd_conn dst (\<lambda>x. if d then x\<lparr>sc_discoSendQueue := q\<rparr> else x\<lparr>sc_sendQueue := q\<rparr>) s"
    by (auto simp: sendPkt_def Let_def case_prod_unfold)
  show "same_registry s s'" "same_gauges s s'" "same_home s s'" "sv_clientsMesh s' = sv_clientsMesh s" "sv_watchers s' = sv_watchers s"
    by (simp_all add: s' same_defs)
qed

lemma peerGone_same:
  "same_registry s (requestPeerGoneWriteLimited w e c p bs r s)" "same_gauges s (requestPeerGoneWriteLimited w e c p bs r s)"
  "same_home s (requestPeerGoneWriteLimited w e c p bs r s)"
  "sv_clientsMesh (requestPeerGoneWriteLimited w e c p bs r s) = sv_clientsMesh s"
  "sv_watchers (requestPeerGoneWriteLimited w e c p bs r s) = sv_watchers s"
  by (simp_all add: requestPeerGoneWriteLimited_def same_defs)

lemma inv_sendPkt:
  assumes "server_inv s" and h: "sendPkt w e dst p (s, k) = (out, s', k')"
  shows "server_inv s' \<and> registered s' = registered s"
  using server_inv_same [OF assms(1) sendPkt_same [OF h]] same_registry_registered [OF sendPkt_same(1) [OF h]] by simp

lemma inv_peerGone:
  assumes "server_inv s"
  shows "server_inv (requestPeerGoneWriteLimited w e c p bs r s) \<and>
    registered (requestPeerGoneWriteLimited w e c p bs r s) = registered s"
  using server_inv_same [OF assms peerGone_same] same_registry_registered [OF peerGone_same(1)] by simp

lemma inv_activity: "server_inv s \<Longrightarrow> c \<in> registered s \<Longrightarrow>
    server_inv (noteClientActivity c s) \<and> registered (noteClientActivity c s) = registered s"
  using noteActivityLocked_inv by (simp add: noteClientActivity_def)

lemma inv_receive:
  assumes "server_inv s"
  obtains s' where "track (Receive c n) s = Some s'" and "server_inv s'" and "registered s' = registered s"
proof -
  from assms obtain s' tr where "track (Receive c n) s = Some s'" "server_inv s'" "s' = s\<lparr>sv_peerTracker := tr\<rparr>"
    by (rule track_inv) (rule acct.recv_ok)
  then show thesis by (intro that [of s']) simp_all
qed

lemma send_handler_inv:
  assumes inv: "server_inv s"
  obtains r s' k' where "handleFrameSendPacket w e c fl br (s, k) = Some (r, s', k')" and "server_inv s'" and "registered s' = registered s"
proof (cases "fst (recvPacket w fl br k)")
  case (Inl err)
  then show thesis
    using that inv by (cases "recvPacket w fl br k") (auto simp: handleFrameSendPacket_def)
next
  case (Inr x)
  obtain dstKey contents br' where x: "x = (dstKey, contents, br')" by (cases x)
  obtain k1 where rp: "recvPacket w fl br k = (Inr (dstKey, contents, br'), k1)"
    using Inr x by (cases "recvPacket w fl br k") auto
  from inv_receive [OF inv, of c "length contents"] obtain s1 where s1: "track (Receive c (length contents)) s = Some s1" "server_inv s1"
    "registered s1 = registered s" .
  obtain dst fwd n where l: "lookupDest dstKey s1 = (dst, fwd, n)" by (cases "lookupDest dstKey s1")
  show thesis
  proof (cases dst)
    case (Some d)
    let ?p = "\<lparr>pk_enqueuedAt = ie_now e, pk_bs = contents, pk_src = sv_key s1 c\<rparr>"
    obtain out s2 k2 where sp: "sendPkt w e d ?p (s1, k1) = (out, s2, k2)" by (cases "sendPkt w e d ?p (s1, k1)")
    show thesis
      by (rule that [of "Inr (br', Delivered out d)" s2 k2])
         (use inv_sendPkt [OF s1(2) sp] s1 in \<open>simp_all add: handleFrameSendPacket_def rp s1 l Some sp\<close>)
  next
    case None
    show thesis
    proof (cases fwd)
      case (Some f)
      show thesis
        by (rule that [OF _ s1(2,3)]) (simp add: handleFrameSendPacket_def rp s1 l None Some)
    next
      case fn: None
      let ?s2 = "if n > 1 then s1 else requestPeerGoneWriteLimited w e c dstKey contents PeerGoneReasonNotHere s1"
      have "server_inv ?s2 \<and> registered ?s2 = registered s" using inv_peerGone s1 by auto
      then show thesis
        by (intro that [of _ ?s2]) (auto simp: handleFrameSendPacket_def rp s1 l None fn Let_def)
    qed
  qed
qed

lemma forward_handler_inv:
  assumes inv: "server_inv s" and h: "handleFrameForwardPacket w e c fl br (s, k) = (r, s', k')"
  shows "server_inv s' \<and> registered s' = registered s"
proof (cases "sc_canMesh (sv_conns s c) \<and> (\<exists>x. recvForwardPacket w fl br = Inr x)")
  case False
  with h inv show ?thesis by (auto simp: handleFrameForwardPacket_def split: if_splits sum.splits)
next
  case True
  then obtain src dstKey contents br' where rp: "recvForwardPacket w fl br = Inr (src, dstKey, contents, br')" by auto
  obtain dst fwd n where l: "lookupDest dstKey s = (dst, fwd, n)" by (cases "lookupDest dstKey s")
  show ?thesis
  proof (cases dst)
    case None
    with h True rp l inv_peerGone [OF inv, of w e c dstKey contents PeerGoneReasonNotHere] inv show ?thesis
      by (auto simp: handleFrameForwardPacket_def Let_def split: if_splits)
  next
    case (Some d)
    let ?p = "\<lparr>pk_enqueuedAt = ie_now e, pk_bs = contents, pk_src = src\<rparr>" and ?k = "k\<lparr>packetsForwardedIn := packetsForwardedIn k + 1\<rparr>"
    obtain out s2 k2 where sp: "sendPkt w e d ?p (s, ?k) = (out, s2, k2)" by (cases "sendPkt w e d ?p (s, ?k)")
    with h True rp l Some inv_sendPkt [OF inv sp] show ?thesis by (simp add: handleFrameForwardPacket_def)
  qed
qed

lemma spawn_inv: "server_inv s \<Longrightarrow> server_inv (spawn gs s) \<and> registered (spawn gs s) = registered s"
  using server_inv_same [of s "spawn gs s"] same_registry_registered [of s "spawn gs s"] by (simp add: same_defs)

text \<open>A frame of a registered connection is handled without a panic, and the invariant is kept.\<close>

lemma handleFrame_inv:
  assumes inv: "server_inv s" and c: "c \<in> registered s"
  obtains r s' k' where "handleFrame w e c ft fl br (s, k) = Some (r, s', k')" and "server_inv s'" and "registered s' = registered s"
proof -
  let ?s = "noteClientActivity c s"
  have a: "server_inv ?s" "registered ?s = registered s" using inv_activity [OF inv c] by auto
  have c': "c \<in> registered ?s" using a c by simp
  show thesis
  proof (cases ft)
    case FrameNotePreferred
    obtain r s' where h: "handleFrameNotePreferred e c fl br ?s = (r, s')" by (cases "handleFrameNotePreferred e c fl br ?s")
    have "server_inv s' \<and> registered s' = registered ?s"
      using h a c' server_inv_setPreferred [OF a(1) c'] same_registry_registered [OF setPreferred_same(1)]
      by (auto simp: handleFrameNotePreferred_def split: if_splits list.splits)
    with h FrameNotePreferred a show thesis by (intro that [of r s' k]) (auto simp: handleFrame_def)
  next
    case FrameSendPacket
    obtain r s' k' where h: "handleFrameSendPacket w e c fl br (?s, k) = Some (r, s', k')" "server_inv s'" "registered s' = registered ?s"
      by (rule send_handler_inv [OF a(1)])
    with FrameSendPacket a show thesis by (intro that [of "map_sum id fst r" s' k']) (auto simp: handleFrame_def)
  next
    case FrameForwardPacket
    obtain r s' k' where h: "handleFrameForwardPacket w e c fl br (?s, k) = (r, s', k')"
      by (cases "handleFrameForwardPacket w e c fl br (?s, k)")
    with forward_handler_inv [OF a(1) h] FrameForwardPacket a show thesis
      by (intro that [of "map_sum id fst r" s' k']) (auto simp: handleFrame_def)
  next
    case FrameWatchConns
    show thesis
    proof (cases "fl = 0 \<and> sc_canMesh (sv_conns ?s c)")
      case True
      then obtain s' where w: "addWatcher c ?s = Some s'" using addWatcher_no_panic by blast
      have "server_inv s' \<and> registered s' = registered ?s"
        using server_inv_addWatcher [OF a(1) c' w] same_registry_registered [OF addWatcher_same(1) [OF w]] by simp
      with True w FrameWatchConns a show thesis
        by (intro that [of "Inr br" s' k]) (auto simp: handleFrame_def handleFrameWatchConns_def)
    next
      case False
      with FrameWatchConns a show thesis
        by (intro that [of "if fl \<noteq> 0 then Inl WrongSize else Inl InsufficientPermissions" ?s k])
           (auto simp: handleFrame_def handleFrameWatchConns_def)
    qed
  next
    case FrameClosePeer
    obtain r s' where h: "handleFrameClosePeer w c fl br ?s = (r, s')" by (cases "handleFrameClosePeer w c fl br ?s")
    have "server_inv s' \<and> registered s' = registered ?s"
      using h a spawn_inv [OF a(1)] by (auto simp: handleFrameClosePeer_def split: if_splits option.splits)
    with h FrameClosePeer a show thesis by (intro that [of r s' k]) (auto simp: handleFrame_def)
  next
    case FramePing
    obtain r k' where h: "handleFramePing fl br k = (r, k')" by (cases "handleFramePing fl br k")
    with FramePing a show thesis by (intro that [of r ?s k']) (auto simp: handleFrame_def)
  next
    case (FrameOther x)
    with a show thesis by (intro that [of "handleUnknownFrame fl br" ?s k]) (auto simp: handleFrame_def)
  qed
qed

lemma map_sum_Inr: "map_sum id fst r = Inr b \<longleftrightarrow> (\<exists>f. r = Inr (b, f))"
  by (cases r) auto

text \<open>Every frame that is handled without an error consumes exactly its length.\<close>

lemma handleFrame_sync:
  assumes w: "wire_ok w" and h: "handleFrame w e c ft fl br sk = Some (Inr br', sk')"
  shows "unat fl \<le> length br \<and> br' = drop (unat fl) br"
proof (cases ft)
  case FrameNotePreferred
  with h show ?thesis
    by (auto simp: handleFrame_def handleFrameNotePreferred_def Let_def split: if_splits list.splits)
next
  case FrameSendPacket
  with h obtain f s' k' where "handleFrameSendPacket w e c fl br (noteClientActivity c (fst sk), snd sk) = Some (Inr (br', f), s', k')"
    by (auto simp: handleFrame_def Let_def map_sum_Inr)
  moreover obtain r k1 where rp: "recvPacket w fl br (snd sk) = (r, k1)" by fastforce
  ultimately obtain dst contents where "r = Inr (dst, contents, br')"
    by (auto simp: handleFrameSendPacket_def Let_def case_prod_unfold split: prod.splits sum.splits option.splits)
  with rp have "recvPacket w fl br (snd sk) = (Inr (dst, contents, br'), k1)" by simp
  with recvPacket_sync [OF w] show ?thesis by blast
next
  case FrameForwardPacket
  let ?s = "noteClientActivity c (fst sk)"
  from FrameForwardPacket h obtain f s' k' where "handleFrameForwardPacket w e c fl br (?s, snd sk) = (Inr (br', f), s', k')"
    by (cases "handleFrameForwardPacket w e c fl br (?s, snd sk)") (auto simp: handleFrame_def Let_def map_sum_Inr)
  then obtain src dst contents where "recvForwardPacket w fl br = Inr (src, dst, contents, br')"
    by (auto simp: handleFrameForwardPacket_def Let_def case_prod_unfold split: prod.splits sum.splits option.splits if_splits)
  with recvForwardPacket_sync [OF w] show ?thesis by blast
next
  case FrameWatchConns
  with h show ?thesis by (auto simp: handleFrame_def handleFrameWatchConns_def Let_def split: if_splits)
next
  case FrameClosePeer
  with h w show ?thesis
    by (auto simp: handleFrame_def handleFrameClosePeer_def Let_def read_full_Some wire_ok_def split: if_splits option.splits)
next
  case FramePing
  with h have "8 \<le> fl" and r: "8 \<le> length br" "unat fl - 8 \<le> length br - 8" "br' = drop (unat fl - 8) (drop 8 br)"
    by (auto simp: handleFrame_def handleFramePing_def Let_def read_full_Some not_less split: if_splits option.splits)
  then have "8 \<le> unat fl" by (simp add: word_le_nat_alt)
  with r show ?thesis by simp
next
  case (FrameOther x)
  with h show ?thesis
    by (auto simp: handleFrame_def handleUnknownFrame_def Let_def read_full_Some split: option.splits)
qed

section \<open>Properties\<close>

text \<open>What the loop relies on of \<open>derp.ReadFrameHeader\<close>: a header takes at least one byte.\<close>

definition header_consumes :: "wire \<Rightarrow> bool" where
  "header_consumes w \<longleftrightarrow> (\<forall>br ft fl br'. w_header w br = Hdr ft fl br' \<longrightarrow> length br' < length br)"

lemma run_frames_total:
  assumes w: "wire_ok w" and hdr: "header_consumes w"
    and "server_inv s" "c \<in> registered s" "length br < n"
  shows "\<exists>err s' k'. run_frames n w envs c br (s, k) = Some (Some (err, s', k')) \<and> server_inv s' \<and> registered s' = registered s"
  using assms(3-5)
proof (induction n arbitrary: br s k)
  case 0
  then show ?case by simp
next
  case (Suc n)
  show ?case
  proof (cases "w_header w br")
    case HdrEOF
    with Suc.prems show ?thesis by simp
  next
    case HdrError
    with Suc.prems show ?thesis by simp
  next
    case (Hdr ft fl br1)
    obtain r s1 k1 where h: "handleFrame w (envs n) c ft fl br1 (s, k) = Some (r, s1, k1)" "server_inv s1" "registered s1 = registered s"
      by (rule handleFrame_inv [OF Suc.prems(1,2)])
    show ?thesis
    proof (cases r)
      case (Inl err)
      with h Hdr show ?thesis by simp
    next
      case (Inr br2)
      with h(1) have "br2 = drop (unat fl) br1" using handleFrame_sync [OF w] by blast
      then have "length br2 < n" using hdr Hdr Suc.prems(3) by (force simp: header_consumes_def)
      with Suc.IH [OF h(2), of br2 k1] h Hdr Inr Suc.prems show ?thesis by simp
    qed
  qed
qed


definition demo_header :: "bytes \<Rightarrow> header" where
  "demo_header br = (case br of [] \<Rightarrow> HdrEOF
     | [_] \<Rightarrow> HdrError
     | t # l # rest \<Rightarrow> Hdr (if t = 1 then FrameSendPacket else if t = 2 then FramePing else FrameOther (unat t)) (ucast l) rest)"

definition demo_wire :: wire where
  "demo_wire = \<lparr>w_KeyLen = 1, w_NodePublicRawLen = 1, w_MaxPacketSize = 16, w_LooksLikeDiscoWrapper = (\<lambda>bs. bs = [77]),
     w_header = demo_header\<rparr>"

definition zero_counters :: counters where
  "zero_counters = \<lparr>packetsRecv = 0, bytesRecv = 0, packetsRecvKind = (\<lambda>_. 0), packetsForwardedIn = 0, packetsForwardedOut = 0,
     gotPing = 0, packetsDropped = (\<lambda>_ _. 0), bytesDropped = (\<lambda>_ _. 0), sendPongCh = None\<rparr>"

definition demo_env :: ienv where
  "demo_env = \<lparr>ie_done = (\<lambda>_. False), ie_pre = (\<lambda>_ q. q), ie_mid = (\<lambda>_ q. q), ie_depth = 2, ie_allow = True, ie_now = 9,
     ie_since = 0, ie_closed = False\<rparr>"

lemma demo_wire_ok: "wire_ok demo_wire"
  by (simp add: wire_ok_def demo_wire_def)

lemma demo_header_consumes: "header_consumes demo_wire"
  by (auto simp: header_consumes_def demo_wire_def demo_header_def split: list.splits)


text \<open>
  The stream stays in step: a frame of any type that is handled without an error consumes exactly the number of
  bytes its header announces, so the next header is read at its place.
\<close>

theorem frame_sync:
  assumes "wire_ok w" and "handleFrame w e c ft fl br sk = Some (Inr br', sk')"
  shows "unat fl \<le> length br \<and> br' = drop (unat fl) br"
  using assms by (rule handleFrame_sync)

theorem frame_sync_witness:
  "unat (12 :: uint32) \<le> length ([1,2,3,4,5,6,7,8,9,10,11,12,13] :: bytes)"
proof -
  let ?br = "[1,2,3,4,5,6,7,8,9,10,11,12,13] :: bytes" and ?s = "sy_srv (demo_state lastWriterIsActive)"
  have "handleFrame demo_wire demo_env 3 FramePing 12 ?br (?s, zero_counters) =
      Some (Inr [13], noteClientActivity 3 ?s, zero_counters\<lparr>gotPing := 1, sendPongCh := Some [1,2,3,4,5,6,7,8]\<rparr>)"
    by (simp add: handleFrame_def handleFramePing_def read_full_def zero_counters_def)
  from frame_sync [OF demo_wire_ok this] show ?thesis by simp
qed

text \<open>
  A packet frame is parsed back to what the client put in it: for every destination key and every payload up to the
  maximum packet size, whatever follows on the stream.
\<close>

theorem packet_frame_roundtrip:
  assumes "wire_ok w" and "length dst = w_NodePublicRawLen w" and "length contents \<le> unat (w_MaxPacketSize w)"
  shows "fst (recvPacket w (word_of_nat (length dst + length contents)) (dst @ contents @ rest) k) = Inr (dst, contents, rest)"
  using assms by (rule recvPacket_frame)

theorem packet_frame_roundtrip_witness:
  "fst (recvPacket demo_wire 4 [7, 1, 2, 3, 9, 9] zero_counters) = Inr ([7], [1, 2, 3], [9, 9])"
  using packet_frame_roundtrip [of demo_wire "[7]" "[1, 2, 3]" "[9, 9]" zero_counters] demo_wire_ok
  by (simp add: demo_wire_def)

text \<open>
  Fair queueing without interference: a packet for a connected destination is always enqueued, at the end of its
  queue; a full queue loses its oldest packet only, so the queue never exceeds its depth and keeps the freshest
  packets in their order. Data packets and disco packets use separate queues.
\<close>

theorem sendPkt_drops_oldest:
  assumes "quiet e"
    and "length (sc_sendQueue (sv_conns s dst)) \<le> ie_depth e" and "\<not> w_LooksLikeDiscoWrapper w (pk_bs p)"
  shows "let q = sc_sendQueue (sv_conns s dst); full = (length q = ie_depth e); (out, s', k') = sendPkt w e dst p (s, k) in
    out = Enqueued \<and> sc_sendQueue (sv_conns s' dst) = (if full then tl q else q) @ [p] \<and>
    sc_discoSendQueue (sv_conns s' dst) = sc_discoSendQueue (sv_conns s dst) \<and>
    k' = (if full then recordDrop w (pk_bs (hd q)) dropReasonQueueHead k else k) \<and>
    (\<forall>x. x \<noteq> dst \<longrightarrow> sv_conns s' x = sv_conns s x)"
  using sendPkt_quiet [OF assms(1,2), of p] assms(2,3) by (auto simp: sendPkt_def Let_def)

theorem sendPkt_drops_oldest_witness:
  "let p = \<lparr>pk_enqueuedAt = 0, pk_bs = [1], pk_src = [4]\<rparr>; s = sy_srv (demo_state lastWriterIsActive);
       (out, s', k') = sendPkt demo_wire demo_env 2 p (s, zero_counters)
   in out = Enqueued \<and> sc_sendQueue (sv_conns s' 2) = [p]"
proof -
  let ?s = "sy_srv (demo_state lastWriterIsActive)" and ?p = "\<lparr>pk_enqueuedAt = 0, pk_bs = [1], pk_src = [4]\<rparr>"
  have q: "sc_sendQueue (sv_conns ?s 2) = []" by (simp add: server_eval)
  have "quiet demo_env" "\<not> w_LooksLikeDiscoWrapper demo_wire (pk_bs ?p)" "ie_depth demo_env = 2"
    by (simp_all add: quiet_def demo_env_def demo_wire_def)
  with sendPkt_drops_oldest [of demo_env ?s 2 demo_wire ?p zero_counters] q show ?thesis
    by (auto simp: Let_def)
qed

text \<open>The packets dropped in all, over kinds and reasons.\<close>

definition dropped_total :: "counters \<Rightarrow> int" where
  "dropped_total k = (\<Sum>d\<in>{packetKindDisco, packetKindOther}. \<Sum>r\<in>{dropReasonUnknownDest, dropReasonUnknownDestOnFwd,
     dropReasonGoneDisconnected, dropReasonQueueHead, dropReasonQueueTail, dropReasonWriteError, dropReasonDupClient}. packetsDropped k d r)"

lemma dropped_total_record: "dropped_total (recordDrop w bs r k) = dropped_total k + 1"
  by (cases r; cases "packet_kind w bs") (simp_all add: dropped_total_def recordDrop_def Let_def)

lemma dropped_total_fold: "dropped_total (fold (\<lambda>h. recordDrop w (pk_bs h) r) ds k) = dropped_total k + int (length ds)"
  by (induction ds arbitrary: k) (simp_all add: dropped_total_record)

lemma dropped_total_other [simp]:
  "dropped_total (k\<lparr>packetsForwardedOut := a\<rparr>) = dropped_total k"
  "dropped_total (k\<lparr>packetsRecv := a, bytesRecv := b, packetsRecvKind := f\<rparr>) = dropped_total k"
  by (simp_all add: dropped_total_def)

lemma recordDrop_simps [simp]:
  "packetsForwardedOut (recordDrop w bs r k) = packetsForwardedOut k" "packetsRecv (recordDrop w bs r k) = packetsRecv k"
  by (simp_all add: recordDrop_def Let_def)

lemma fold_recordDrop_simps [simp]:
  "packetsForwardedOut (fold (\<lambda>h. recordDrop w (pk_bs h) r) ds k) = packetsForwardedOut k"
  "packetsRecv (fold (\<lambda>h. recordDrop w (pk_bs h) r) ds k) = packetsRecv k"
  by (induction ds arbitrary: k) simp_all

lemma sendPkt_account:
  assumes "sendPkt w e dst p (s, k) = (out, s', k')"
  shows "\<exists>heads. heads \<le> 3 \<and> dropped_total k' = dropped_total k + int heads + of_bool (out \<noteq> Enqueued) \<and>
      packetsForwardedOut k' = packetsForwardedOut k \<and> packetsRecv k' = packetsRecv k \<and>
      (out = Enqueued \<longrightarrow> last (if w_LooksLikeDiscoWrapper w (pk_bs p) then sc_discoSendQueue (sv_conns s' dst)
                                else sc_sendQueue (sv_conns s' dst)) = p)"
proof -
  let ?disco = "w_LooksLikeDiscoWrapper w (pk_bs p)"
  let ?q0 = "if ?disco then sc_discoSendQueue (sv_conns s dst) else sc_sendQueue (sv_conns s dst)"
  obtain out1 q ds where a: "sendPkt_attempts e p 0 3 ?q0 [] = (out1, q, ds)" by (cases "sendPkt_attempts e p 0 3 ?q0 []")
  have o: "length ds \<le> 3" "out1 = Enqueued \<longrightarrow> last q = p" using sendPkt_outcome [OF a] by auto
  show ?thesis
    using assms a o
    by (intro exI [of _ "length ds"]) (auto simp: sendPkt_def Let_def dropped_total_record dropped_total_fold split: send_outcome.splits)
qed



text \<open>
  Mesh privileges: a connection that has not proved knowledge of the mesh key cannot watch connections, close peers
  or inject forwarded packets. These frames end its connection with an error, and leave the server and all
  counters as they were (up to the activity noted for the frame itself).
\<close>

theorem mesh_frames_need_permission:
  assumes "\<not> sc_canMesh (sv_conns s c)" and "ft \<in> {FrameWatchConns, FrameClosePeer, FrameForwardPacket}"
  shows "\<exists>err. handleFrame w e c ft fl br (s, k) = Some (Inl err, noteClientActivity c s, k)"
proof -
  have "\<not> sc_canMesh (sv_conns (noteClientActivity c s) c)"
    using assms(1) by (auto simp: noteClientActivity_def noteActivityLocked_def Let_def case_prod_unfold split: option.splits)
  with assms(2) show ?thesis
    by (auto simp: handleFrame_def Let_def handleFrameWatchConns_def handleFrameClosePeer_def handleFrameForwardPacket_def)
qed

theorem mesh_frames_need_permission_witness:
  "\<exists>err. handleFrame demo_wire demo_env 2 FrameForwardPacket 9 [1, 2, 3] (sy_srv (demo_state lastWriterIsActive), zero_counters) =
     Some (Inl err, noteClientActivity 2 (sy_srv (demo_state lastWriterIsActive)), zero_counters)"
  by (rule mesh_frames_need_permission) (simp_all add: server_eval)

end
