(* ===== verification/GoStrings.thy ===== *)
theory GoStrings
  imports Prelude
begin

text \<open>
  The parts of the Go packages \<^verbatim>\<open>strings\<close> and \<^verbatim>\<open>strconv\<close> the sources use, on strings of ASCII
  characters: for other characters \<open>TrimSpace\<close>, \<open>ToLower\<close> and \<open>EqualFold\<close> follow Unicode tables that
  are not modelled. Lengths are lengths in bytes, as \<open>len\<close> has them.
\<close>

section \<open>Trimming, case, prefixes\<close>

definition is_space :: "char \<Rightarrow> bool" where
  "is_space c \<longleftrightarrow> c = CHR 0x09 \<or> c = CHR 0x0A \<or> c = CHR 0x0B \<or> c = CHR 0x0C \<or> c = CHR 0x0D \<or> c = CHR '' ''"

definition TrimFunc :: "(char \<Rightarrow> bool) \<Rightarrow> string \<Rightarrow> string" where
  "TrimFunc f s = rev (dropWhile f (rev (dropWhile f s)))"

definition TrimSpace :: "string \<Rightarrow> string" where
  "TrimSpace s = TrimFunc is_space s"

definition TrimRight :: "(char \<Rightarrow> bool) \<Rightarrow> string \<Rightarrow> string" where
  "TrimRight f s = rev (dropWhile f (rev s))"

fun HasPrefix :: "string \<Rightarrow> string \<Rightarrow> bool" where
  "HasPrefix s [] = True"
| "HasPrefix [] (p # ps) = False"
| "HasPrefix (c # cs) (p # ps) = (c = p \<and> HasPrefix cs ps)"

fun Contains :: "string \<Rightarrow> string \<Rightarrow> bool" where
  "Contains [] p = (p = [])"
| "Contains (c # cs) p = (HasPrefix (c # cs) p \<or> Contains cs p)"

definition TrimPrefix :: "string \<Rightarrow> string \<Rightarrow> string" where
  "TrimPrefix s p = (if HasPrefix s p then drop (length p) s else s)"

definition TrimSuffix :: "string \<Rightarrow> string \<Rightarrow> string" where
  "TrimSuffix s p = (if HasPrefix (rev s) (rev p) then take (length s - length p) s else s)"

definition char_code :: "char \<Rightarrow> nat" where
  "char_code c = of_char c"

definition to_lower_char :: "char \<Rightarrow> char" where
  "to_lower_char c = (if 65 \<le> char_code c \<and> char_code c \<le> 90 then char_of (char_code c + 32) else c)"

definition ToLower :: "string \<Rightarrow> string" where
  "ToLower s = map to_lower_char s"

definition EqualFold :: "string \<Rightarrow> string \<Rightarrow> bool" where
  "EqualFold s t \<longleftrightarrow> ToLower s = ToLower t"

section \<open>Splitting\<close>

text \<open>\<open>strings.Split(s, sep)\<close> for a separator of one character, and \<open>strings.FieldsFunc\<close>.\<close>

fun SplitFunc :: "(char \<Rightarrow> bool) \<Rightarrow> string \<Rightarrow> string list" where
  "SplitFunc f [] = [[]]"
| "SplitFunc f (c # cs) =
     (if f c then [] # SplitFunc f cs
      else (case SplitFunc f cs of [] \<Rightarrow> [[c]] | w # ws \<Rightarrow> (c # w) # ws))"

definition SplitChar :: "char \<Rightarrow> string \<Rightarrow> string list" where
  "SplitChar sep s = SplitFunc (\<lambda>c. c = sep) s"

definition FieldsFunc :: "(char \<Rightarrow> bool) \<Rightarrow> string \<Rightarrow> string list" where
  "FieldsFunc f s = filter (\<lambda>w. w \<noteq> []) (SplitFunc f s)"

definition Fields :: "string \<Rightarrow> string list" where
  "Fields s = FieldsFunc is_space s"

fun Join :: "string \<Rightarrow> string list \<Rightarrow> string" where
  "Join sep [] = []"
| "Join sep [s] = s"
| "Join sep (s # t # ss) = s @ sep @ Join sep (t # ss)"

section \<open>Numbers\<close>

definition is_digit :: "char \<Rightarrow> bool" where
  "is_digit c \<longleftrightarrow> 48 \<le> char_code c \<and> char_code c \<le> 57"

definition digit_value :: "char \<Rightarrow> nat" where
  "digit_value c = char_code c - 48"

definition decimal :: "string \<Rightarrow> nat" where
  "decimal s = foldl (\<lambda>n c. 10 * n + digit_value c) 0 s"

text \<open>\<open>strconv.ParseUint(s, 10, bits)\<close>: \<^term>\<open>None\<close> for a syntax or range error.\<close>

definition ParseUint :: "nat \<Rightarrow> string \<Rightarrow> nat option" where
  "ParseUint bits s = (if s \<noteq> [] \<and> list_all is_digit s \<and> decimal s < 2 ^ bits then Some (decimal s) else None)"

text \<open>\<open>strconv.Atoi\<close> on a 64-bit platform.\<close>

definition Atoi :: "string \<Rightarrow> int option" where
  "Atoi s =
     (let (neg, ds) = (case s of c # cs \<Rightarrow> if c = CHR ''-'' then (True, cs) else if c = CHR ''+'' then (False, cs) else (False, s)
                       | [] \<Rightarrow> (False, []))
      in if ds \<noteq> [] \<and> list_all is_digit ds then
           (let n = (if neg then - int (decimal ds) else int (decimal ds))
            in if - (2 ^ 63) \<le> n \<and> n < 2 ^ 63 then Some n else None)
         else None)"

text \<open>\<open>strconv.Itoa\<close>.\<close>

fun digits_of :: "nat \<Rightarrow> string" where
  "digits_of n = (if n < 10 then [char_of (48 + n)] else digits_of (n div 10) @ [char_of (48 + n mod 10)])"

declare digits_of.simps [simp del]

definition Itoa :: "int \<Rightarrow> string" where
  "Itoa i = (if i < 0 then CHR ''-'' # digits_of (nat (- i)) else digits_of (nat i))"

section \<open>Facts\<close>

lemma dropWhile_self: "s = [] \<or> \<not> f (hd s) \<Longrightarrow> dropWhile f s = s"
  by (cases s) auto

lemma TrimFunc_fixed: "s = [] \<or> \<not> f (hd s) \<and> \<not> f (last s) \<Longrightarrow> TrimFunc f s = s"
  using dropWhile_self [of s f] dropWhile_self [of "rev s" f] by (auto simp: TrimFunc_def hd_rev)

lemma dropWhile_suffix: "\<exists>p. xs = p @ dropWhile f xs \<and> list_all f p"
  by (rule exI [of _ "takeWhile f xs"]) (auto simp: list_all_iff dest: set_takeWhileD)

lemma TrimFunc_ends: "TrimFunc f s \<noteq> [] \<Longrightarrow> \<not> f (hd (TrimFunc f s)) \<and> \<not> f (last (TrimFunc f s))"
proof -
  let ?d = "dropWhile f s"
  assume ne: "TrimFunc f s \<noteq> []"
  then have r: "dropWhile f (rev ?d) \<noteq> []" by (simp add: TrimFunc_def)
  have last: "\<not> f (last (TrimFunc f s))"
    using hd_dropWhile [OF r] by (simp add: TrimFunc_def last_rev)
  obtain p where p: "rev ?d = p @ dropWhile f (rev ?d)" using dropWhile_suffix by blast
  then have d: "?d = TrimFunc f s @ rev p" by (metis TrimFunc_def rev_append rev_rev_ident)
  then have "?d \<noteq> []" "hd ?d = hd (TrimFunc f s)" using ne by auto
  with hd_dropWhile [of f s] last show ?thesis by auto
qed

lemma TrimFunc_idem [simp]: "TrimFunc f (TrimFunc f s) = TrimFunc f s"
  using TrimFunc_ends [of f s] by (intro TrimFunc_fixed) auto

lemma TrimSpace_idem [simp]: "TrimSpace (TrimSpace s) = TrimSpace s"
  by (simp add: TrimSpace_def)

lemma to_lower_idem [simp]: "to_lower_char (to_lower_char c) = to_lower_char c"
  by (auto simp: to_lower_char_def char_code_def)

lemma ToLower_idem [simp]: "ToLower (ToLower s) = ToLower s"
  by (simp add: ToLower_def)

lemma HasPrefix_iff: "HasPrefix s p \<longleftrightarrow> (\<exists>t. s = p @ t)"
  by (induction s p rule: HasPrefix.induct) auto

lemma Contains_iff: "Contains s p \<longleftrightarrow> (\<exists>a b. s = a @ p @ b)"
proof (induction s)
  case (Cons c cs)
  have "(\<exists>a b. c # cs = a @ p @ b) \<longleftrightarrow> (\<exists>b. c # cs = p @ b) \<or> (\<exists>a b. cs = a @ p @ b)"
    by (metis append_Cons append_Nil list.exhaust list.inject)
  with Cons show ?case by (simp add: HasPrefix_iff)
qed simp

lemma SplitFunc_not_empty [simp]: "SplitFunc f s \<noteq> []"
  by (induction s) (auto split: list.splits)

lemma SplitFunc_pieces: "w \<in> set (SplitFunc f s) \<Longrightarrow> c \<in> set w \<Longrightarrow> \<not> f c"
proof (induction s arbitrary: w)
  case Nil
  then show ?case by simp
next
  case (Cons d cs)
  then show ?case
    by (cases "SplitFunc f cs") (fastforce split: if_splits)+
qed

lemma FieldsFunc_pieces: "w \<in> set (FieldsFunc f s) \<Longrightarrow> w \<noteq> [] \<and> (\<forall>c\<in>set w. \<not> f c)"
  by (auto simp: FieldsFunc_def dest: SplitFunc_pieces)

lemma SplitFunc_prefix: "\<forall>c\<in>set w. \<not> f c \<Longrightarrow> f c \<Longrightarrow> SplitFunc f (w @ c # rest) = w # SplitFunc f rest"
  by (induction w) simp_all

lemma SplitFunc_whole: "\<forall>c\<in>set w. \<not> f c \<Longrightarrow> SplitFunc f w = [w]"
  by (induction w) simp_all

end
