(* ===== verification/Devices.thy ===== *)
theory Devices
  imports GoStrings Netip Tracker
begin

text \<open>
  The device store of \<^verbatim>\<open>internal/ops/devices.go\<close>, with the cache updates of
  \<^verbatim>\<open>device_management.go\<close> and \<^verbatim>\<open>tailnet_api.go\<close>: the devices of each configured tailnet as last
  listed by the Tailscale API, and the admission decision taken from them.

  \<^item> Results of the Tailscale API (\<^verbatim>\<open>tailscale.com/client/tailscale/v2\<close>) are arguments: a list of
    \<open>rawDevice\<close>s, or \<^term>\<open>None\<close> for an error; \<open>rawDevice\<close> has the fields the code reads.
  \<^item> Formatted times are the instants they denote, the empty text is \<^term>\<open>None\<close>. Every text the code
    stores there was formatted by it, so the parse error of \<open>deviceExpired\<close> does not occur.
  \<^item> \<open>needle\<close> stands for \<open>nodeKey.String()\<close>.
\<close>

section \<open>Configuration and state\<close>

datatype APIAuthType = AuthUnset | APIAuthTypeAPIKey | APIAuthTypeOAuth | AuthOther string

record APIConfig =
  ac_Name :: string
  ac_Label :: string
  ac_Tailnet :: string
  ac_AuthType :: APIAuthType
  ac_APIKey :: string
  ac_OAuthClientID :: string
  ac_OAuthClientSecret :: string
  ac_DERPMapSync :: bool
  ac_StunOnly :: bool
  ac_RegionID :: int
  ac_RegionCode :: string
  ac_RegionName :: string
  ac_NodeName :: string
  ac_Hostname :: string
  ac_CertName :: string

definition isConfigured :: "APIConfig \<Rightarrow> bool" where
  "isConfigured c =
     (if TrimSpace (ac_Tailnet c) = [] then False
      else (case ac_AuthType c of
              APIAuthTypeOAuth \<Rightarrow> TrimSpace (ac_OAuthClientID c) \<noteq> [] \<and> TrimSpace (ac_OAuthClientSecret c) \<noteq> []
            | AuthUnset \<Rightarrow> TrimSpace (ac_APIKey c) \<noteq> []
            | APIAuthTypeAPIKey \<Rightarrow> TrimSpace (ac_APIKey c) \<noteq> []
            | AuthOther _ \<Rightarrow> False))"

record VerifyConfig =
  vc_Enabled :: bool
  vc_URLsEnabled :: bool
  vc_TailscaledEnabled :: bool
  vc_TailscaledSocketEnabled :: bool
  vc_TailscaledSocket :: string
  vc_APIEnabled :: bool
  vc_URLs :: "string list"
  vc_APIs :: "APIConfig list"
  vc_SyncInterval :: duration
  vc_CacheTTL :: duration

record DeviceOrigin =
  do_Instance :: string
  do_Label :: string
  do_NodeID :: string

record Device =
  dv_NodeID :: string
  dv_NodeKey :: string
  dv_Name :: string
  dv_Hostname :: string
  dv_User :: string
  dv_Addresses :: "string list"
  dv_OS :: string
  dv_ClientVersion :: string
  dv_Authorized :: bool
  dv_ConnectedToControl :: bool
  dv_LastSeen :: "gotime option"
  dv_Expires :: "gotime option"
  dv_KeyExpiryDisabled :: bool
  dv_Tags :: "string list"
  dv_IsExternal :: bool
  dv_IsEphemeral :: bool
  dv_MultipleConnections :: bool
  dv_Sources :: "string list"
  dv_Origins :: "DeviceOrigin list"

record rawDevice =
  rd_NodeID :: string
  rd_NodeKey :: string
  rd_Name :: string
  rd_Hostname :: string
  rd_User :: string
  rd_Addresses :: "string list"
  rd_OS :: string
  rd_ClientVersion :: string
  rd_Authorized :: bool
  rd_ConnectedToControl :: bool
  rd_LastSeen :: "gotime option"
  rd_Expires :: gotime
  rd_KeyExpiryDisabled :: bool
  rd_Tags :: "string list"
  rd_IsExternal :: bool
  rd_IsEphemeral :: bool

record DeviceSyncStatus =
  ss_Name :: string
  ss_Label :: string
  ss_Tailnet :: string
  ss_AuthType :: APIAuthType
  ss_Configured :: bool
  ss_Fresh :: bool
  ss_LastAttempt :: "gotime option"
  ss_LastSuccess :: "gotime option"
  ss_DeviceCount :: nat
  ss_Error :: string

record deviceCache =
  dc_devices :: "(string, Device) fmap"
  dc_lastAttempt :: gotime
  dc_lastSuccess :: gotime
  dc_err :: string

record deviceStore =
  ds_configs :: "APIConfig list"
  ds_cache :: "(string, deviceCache) fmap"
  ds_interval :: duration
  ds_ttl :: duration

definition zero_cache :: deviceCache where
  "zero_cache = \<lparr>dc_devices = fmempty, dc_lastAttempt = 0, dc_lastSuccess = 0, dc_err = []\<rparr>"

definition cache_entry :: "deviceStore \<Rightarrow> string \<Rightarrow> deviceCache" where
  "cache_entry s name = (case fmlookup (ds_cache s) name of None \<Rightarrow> zero_cache | Some e \<Rightarrow> e)"

definition defaultDeviceSyncInterval :: duration where
  "defaultDeviceSyncInterval = 5 * minute"

definition defaultDeviceCacheTTL :: duration where
  "defaultDeviceCacheTTL = 15 * minute"

definition normalizeVerifyConfig :: "VerifyConfig \<Rightarrow> VerifyConfig" where
  "normalizeVerifyConfig cfg =
     (let cfg = (if vc_SyncInterval cfg \<le> 0 then cfg\<lparr>vc_SyncInterval := defaultDeviceSyncInterval\<rparr> else cfg)
      in if vc_CacheTTL cfg \<le> 0 then cfg\<lparr>vc_CacheTTL := defaultDeviceCacheTTL\<rparr> else cfg)"

definition normalize_api :: "APIConfig \<Rightarrow> APIConfig" where
  "normalize_api c =
     (let c = (if TrimSpace (ac_Tailnet c) = [] then c\<lparr>ac_Tailnet := ''-''\<rparr> else c)
      in if ac_AuthType c = AuthUnset then c\<lparr>ac_AuthType := APIAuthTypeAPIKey\<rparr> else c)"

definition newDeviceStore :: "VerifyConfig \<Rightarrow> deviceStore" where
  "newDeviceStore cfg0 =
     (let cfg = normalizeVerifyConfig cfg0;
          configs = map normalize_api (vc_APIs cfg)
      in \<lparr>ds_configs = configs, ds_cache = fold (\<lambda>c. fmupd (ac_Name c) zero_cache) configs fmempty,
          ds_interval = vc_SyncInterval cfg, ds_ttl = vc_CacheTTL cfg\<rparr>)"

section \<open>Synchronisation\<close>

definition formatAPITimeValue :: "gotime \<Rightarrow> gotime option" where
  "formatAPITimeValue t = (if t = 0 then None else Some t)"

definition formatAPITime :: "gotime option \<Rightarrow> gotime option" where
  "formatAPITime v = (case v of None \<Rightarrow> None | Some t \<Rightarrow> formatAPITimeValue t)"

definition instance_label :: "APIConfig \<Rightarrow> string" where
  "instance_label c = (if ac_Label c = [] then ac_Name c else ac_Label c)"

definition sanitizeDevice :: "rawDevice \<Rightarrow> APIConfig \<Rightarrow> Device" where
  "sanitizeDevice raw c =
     \<lparr>dv_NodeID = rd_NodeID raw, dv_NodeKey = rd_NodeKey raw, dv_Name = rd_Name raw, dv_Hostname = rd_Hostname raw,
      dv_User = rd_User raw, dv_Addresses = rd_Addresses raw, dv_OS = rd_OS raw, dv_ClientVersion = rd_ClientVersion raw,
      dv_Authorized = rd_Authorized raw, dv_ConnectedToControl = rd_ConnectedToControl raw,
      dv_LastSeen = formatAPITime (rd_LastSeen raw), dv_Expires = formatAPITimeValue (rd_Expires raw),
      dv_KeyExpiryDisabled = rd_KeyExpiryDisabled raw, dv_Tags = rd_Tags raw, dv_IsExternal = rd_IsExternal raw,
      dv_IsEphemeral = rd_IsEphemeral raw, dv_MultipleConnections = False, dv_Sources = [instance_label c],
      dv_Origins = [\<lparr>do_Instance = ac_Name c, do_Label = instance_label c, do_NodeID = rd_NodeID raw\<rparr>]\<rparr>"

definition recordFailure :: "gotime \<Rightarrow> string \<Rightarrow> string \<Rightarrow> deviceStore \<Rightarrow> deviceStore" where
  "recordFailure now name err s =
     s\<lparr>ds_cache := fmupd name ((cache_entry s name)\<lparr>dc_lastAttempt := now, dc_err := err\<rparr>) (ds_cache s)\<rparr>"

definition listed_devices :: "APIConfig \<Rightarrow> rawDevice list \<Rightarrow> (string, Device) fmap" where
  "listed_devices c raws =
     fold (\<lambda>raw m. let d = sanitizeDevice raw c in if dv_NodeKey d \<noteq> [] then fmupd (dv_NodeKey d) d m else m) raws fmempty"

definition refreshInstance :: "gotime \<Rightarrow> rawDevice list option \<Rightarrow> APIConfig \<Rightarrow> deviceStore \<Rightarrow> bool \<times> deviceStore" where
  "refreshInstance now listing c s =
     (case listing of
        None \<Rightarrow> (False, recordFailure now (ac_Name c) ''Tailscale API request failed'' s)
      | Some raws \<Rightarrow>
          (True, s\<lparr>ds_cache := fmupd (ac_Name c)
             \<lparr>dc_devices = listed_devices c raws, dc_lastAttempt = now, dc_lastSuccess = now, dc_err = []\<rparr> (ds_cache s)\<rparr>))"

text \<open>\<open>refresh\<close>; \<open>env i\<close> is the time of instance number \<open>i\<close> and what its API answers. The result says
  whether there was no error.\<close>

fun refresh_from :: "(nat \<Rightarrow> gotime \<times> rawDevice list option) \<Rightarrow> nat \<Rightarrow> APIConfig list \<Rightarrow> deviceStore \<Rightarrow> bool \<times> deviceStore" where
  "refresh_from env i [] s = (True, s)"
| "refresh_from env i (c # cs) s =
     (let (now, listing) = env i;
          (ok, s) = (if \<not> isConfigured c
                     then (False, recordFailure now (ac_Name c) ''tailnet and selected API credentials are required'' s)
                     else refreshInstance now listing c s);
          (oks, s) = refresh_from env (Suc i) cs s
      in (ok \<and> oks, s))"

definition refresh :: "(nat \<Rightarrow> gotime \<times> rawDevice list option) \<Rightarrow> deviceStore \<Rightarrow> bool \<times> deviceStore" where
  "refresh env s = refresh_from env 0 (ds_configs s) s"

section \<open>Admission\<close>

definition deviceExpired :: "gotime option \<Rightarrow> gotime \<Rightarrow> bool" where
  "deviceExpired value now = (case value of None \<Rightarrow> False | Some expires \<Rightarrow> \<not> expires > now)"

definition entry_fresh :: "duration \<Rightarrow> gotime \<Rightarrow> deviceCache \<Rightarrow> bool" where
  "entry_fresh ttl now e \<longleftrightarrow> \<not> (dc_lastSuccess e = 0 \<or> time_sub now (dc_lastSuccess e) > ttl)"

definition device_admits :: "gotime \<Rightarrow> Device \<Rightarrow> bool" where
  "device_admits now d \<longleftrightarrow> dv_Authorized d \<and> (dv_KeyExpiryDisabled d \<or> \<not> deviceExpired (dv_Expires d) now)"

definition allowed :: "string \<Rightarrow> gotime \<Rightarrow> deviceStore \<Rightarrow> bool" where
  "allowed needle now s =
     list_ex (\<lambda>(_, e). entry_fresh (ds_ttl s) now e \<and>
                (case fmlookup (dc_devices e) needle of None \<Rightarrow> False | Some d \<Rightarrow> device_admits now d))
       (sorted_list_of_fmap (ds_cache s))"

text \<open>\<open>verifier.verify\<close>: \<open>urlOk\<close> tells which URLs accept the client, \<open>localOk\<close> whether the local
  tailscaled knows it.\<close>

definition verifier_verify :: "VerifyConfig \<Rightarrow> (string \<Rightarrow> bool) \<Rightarrow> bool \<Rightarrow> string \<Rightarrow> gotime \<Rightarrow> deviceStore \<Rightarrow> bool" where
  "verifier_verify cfg urlOk localOk needle now s =
     (if \<not> vc_Enabled cfg then True
      else if vc_URLsEnabled cfg \<and> list_ex urlOk (vc_URLs cfg) then True
      else if vc_TailscaledEnabled cfg \<and> localOk then True
      else if vc_APIEnabled cfg \<and> allowed needle now s then True
      else False)"

section \<open>Reporting\<close>

definition appendUnique :: "string list \<Rightarrow> string list \<Rightarrow> string list" where
  "appendUnique values additions = values @ dedup_into (\<lambda>x. x) (set values) (filter (\<lambda>v. v \<noteq> []) additions)"

definition origin_key :: "DeviceOrigin \<Rightarrow> string" where
  "origin_key v = do_Instance v @ [CHR 0x00] @ do_NodeID v"

definition appendUniqueOrigins :: "DeviceOrigin list \<Rightarrow> DeviceOrigin list \<Rightarrow> DeviceOrigin list" where
  "appendUniqueOrigins values additions =
     values @ dedup_into origin_key (origin_key ` set values)
       (filter (\<lambda>v. \<not> (do_Instance v = [] \<or> do_NodeID v = [])) additions)"

text \<open>A time formatted with \<open>time.RFC3339\<close> loses its fraction of a second.\<close>

definition truncate_second :: "gotime \<Rightarrow> gotime" where
  "truncate_second t = t - t mod second"

definition formatSeconds :: "gotime \<Rightarrow> gotime option" where
  "formatSeconds t = (if t = 0 then None else Some (truncate_second t))"

definition sync_status :: "gotime \<Rightarrow> deviceStore \<Rightarrow> APIConfig \<Rightarrow> DeviceSyncStatus" where
  "sync_status now s c =
     (let e = cache_entry s (ac_Name c)
      in \<lparr>ss_Name = ac_Name c, ss_Label = instance_label c, ss_Tailnet = ac_Tailnet c, ss_AuthType = ac_AuthType c,
          ss_Configured = isConfigured c,
          ss_Fresh = (dc_lastSuccess e \<noteq> 0 \<and> time_sub now (dc_lastSuccess e) \<le> ds_ttl s),
          ss_LastAttempt = formatSeconds (dc_lastAttempt e), ss_LastSuccess = formatSeconds (dc_lastSuccess e),
          ss_DeviceCount = fcard (fmdom (dc_devices e)), ss_Error = dc_err e\<rparr>)"

definition merge_device :: "string \<times> Device \<Rightarrow> (string, Device) fmap \<Rightarrow> (string, Device) fmap" where
  "merge_device kd m =
     (case fmlookup m (fst kd) of
        Some existing \<Rightarrow> fmupd (fst kd) (existing\<lparr>dv_Sources := appendUnique (dv_Sources existing) (dv_Sources (snd kd)),
            dv_Origins := appendUniqueOrigins (dv_Origins existing) (dv_Origins (snd kd))\<rparr>) m
      | None \<Rightarrow> fmupd (fst kd) (snd kd) m)"

definition merged_devices :: "deviceStore \<Rightarrow> (string, Device) fmap" where
  "merged_devices s =
     fold (\<lambda>c. fold merge_device (sorted_list_of_fmap (dc_devices (cache_entry s (ac_Name c))))) (ds_configs s) fmempty"

definition snapshot :: "gotime \<Rightarrow> deviceStore \<Rightarrow> Device list \<times> DeviceSyncStatus list" where
  "snapshot now s = (map snd (sorted_list_of_fmap (merged_devices s)), map (sync_status now s) (ds_configs s))"

section \<open>Changes through the API\<close>

text \<open>The cache after a change: the first device with the id, in the order of the keys (the code
  ranges over the map, an id belongs to one device).\<close>

definition find_device :: "string \<Rightarrow> deviceCache \<Rightarrow> (string \<times> Device) option" where
  "find_device deviceID e = find (\<lambda>(_, d). dv_NodeID d = deviceID) (sorted_list_of_fmap (dc_devices e))"

definition updateCachedDevice :: "string \<Rightarrow> string \<Rightarrow> (Device \<Rightarrow> Device) \<Rightarrow> deviceStore \<Rightarrow> deviceStore" where
  "updateCachedDevice name deviceID update s =
     (case fmlookup (ds_cache s) name of
        None \<Rightarrow> s
      | Some e \<Rightarrow>
          (let e' = (case find_device deviceID e of
                       None \<Rightarrow> e
                     | Some (k, d) \<Rightarrow> e\<lparr>dc_devices := fmupd k (update d) (dc_devices e)\<rparr>)
           in s\<lparr>ds_cache := fmupd name e' (ds_cache s)\<rparr>))"

definition removeCachedDevice :: "string \<Rightarrow> string \<Rightarrow> deviceStore \<Rightarrow> deviceStore" where
  "removeCachedDevice name deviceID s =
     (case fmlookup (ds_cache s) name of
        None \<Rightarrow> s
      | Some e \<Rightarrow>
          (let e' = (case find_device deviceID e of
                       None \<Rightarrow> e
                     | Some (k, _) \<Rightarrow> e\<lparr>dc_devices := fmdrop k (dc_devices e)\<rparr>)
           in s\<lparr>ds_cache := fmupd name e' (ds_cache s)\<rparr>))"

datatype api_error = APIErr nat string | NetworkErr

datatype op_error = UnknownAPIInstance | UnconfiguredAPIInstance | ApiFailure api_error
  | BadDeviceRequest | InvalidExpiry | InvalidValue

fun apiInstance_in :: "APIConfig list \<Rightarrow> string \<Rightarrow> op_error + APIConfig" where
  "apiInstance_in [] name = Inl UnknownAPIInstance"
| "apiInstance_in (c # cs) name =
     (if ac_Name c \<noteq> name then apiInstance_in cs name
      else if \<not> isConfigured c then Inl UnconfiguredAPIInstance
      else Inr c)"

definition apiInstance :: "deviceStore \<Rightarrow> string \<Rightarrow> op_error + APIConfig" where
  "apiInstance s name = apiInstance_in (ds_configs s) name"

text \<open>A mutation: \<open>call c\<close> is the outcome of the API call for the instance (\<^term>\<open>None\<close> for success), after
  which the cache is changed by \<open>f\<close>.\<close>

definition api_mutation ::
    "(APIConfig \<Rightarrow> api_error option) \<Rightarrow> string \<Rightarrow> (deviceStore \<Rightarrow> deviceStore) \<Rightarrow> deviceStore \<Rightarrow> op_error option \<times> deviceStore" where
  "api_mutation call name f s =
     (case apiInstance s name of
        Inl e \<Rightarrow> (Some e, s)
      | Inr c \<Rightarrow> (case call c of Some e \<Rightarrow> (Some (ApiFailure e), s) | None \<Rightarrow> (None, f s)))"

definition setDeviceAuthorized where
  "setDeviceAuthorized call name deviceID authorized =
     api_mutation call name (updateCachedDevice name deviceID (\<lambda>d. d\<lparr>dv_Authorized := authorized\<rparr>))"

definition setDeviceName where
  "setDeviceName call name deviceID n = api_mutation call name (updateCachedDevice name deviceID (\<lambda>d. d\<lparr>dv_Name := n\<rparr>))"

definition setDeviceTags where
  "setDeviceTags call name deviceID tags = api_mutation call name (updateCachedDevice name deviceID (\<lambda>d. d\<lparr>dv_Tags := tags\<rparr>))"

definition setDeviceKey where
  "setDeviceKey call name deviceID disabled =
     api_mutation call name (updateCachedDevice name deviceID (\<lambda>d. d\<lparr>dv_KeyExpiryDisabled := disabled\<rparr>))"

definition deleteDevice where
  "deleteDevice call name deviceID = api_mutation call name (removeCachedDevice name deviceID)"

text \<open>\<open>expireDevice\<close> makes the request itself: the outcome is a transport failure, or a status with the
  message of the body when it decodes as an API error. The cached time is stored to the second.\<close>

datatype http_outcome = HttpFailed | HttpResponse nat "string option"

definition expire_result :: "http_outcome \<Rightarrow> api_error option" where
  "expire_result r =
     (case r of
        HttpFailed \<Rightarrow> Some NetworkErr
      | HttpResponse status msg \<Rightarrow>
          if 200 \<le> status \<and> status < 300 then None
          else (case msg of Some m \<Rightarrow> Some (APIErr status m) | None \<Rightarrow> Some NetworkErr))"

definition expireDevice where
  "expireDevice call now name deviceID =
     api_mutation (\<lambda>c. expire_result (call c)) name
       (updateCachedDevice name deviceID (\<lambda>d. d\<lparr>dv_Expires := Some (truncate_second now)\<rparr>))"

text \<open>The address loop of \<open>updateCachedIPv4\<close>; \<open>is4\<close> tells which texts \<open>netip.ParseAddr\<close> reads as IPv4.\<close>

fun replace_ipv4 :: "(string \<Rightarrow> bool) \<Rightarrow> string \<Rightarrow> bool \<Rightarrow> string list \<Rightarrow> string list" where
  "replace_ipv4 is4 ipv4 replaced [] = (if replaced then [] else [ipv4])"
| "replace_ipv4 is4 ipv4 replaced (a # as) =
     (if is4 a then (if replaced then replace_ipv4 is4 ipv4 True as else ipv4 # replace_ipv4 is4 ipv4 True as)
      else a # replace_ipv4 is4 ipv4 replaced as)"

definition updateCachedIPv4 :: "(string \<Rightarrow> bool) \<Rightarrow> string \<Rightarrow> string \<Rightarrow> string \<Rightarrow> deviceStore \<Rightarrow> deviceStore" where
  "updateCachedIPv4 is4 name deviceID ipv4 =
     updateCachedDevice name deviceID (\<lambda>d. d\<lparr>dv_Addresses := replace_ipv4 is4 ipv4 False (dv_Addresses d)\<rparr>)"

definition setDeviceIPv4 where
  "setDeviceIPv4 call is4 name deviceID ipv4 = api_mutation call name (updateCachedIPv4 is4 name deviceID ipv4)"

end
