(* ===== verification/DeviceSync.thy ===== *)
theory DeviceSync
  imports Devices
begin

text \<open>
  What the device store of \<open>Devices\<close> guarantees: the admission decision as a function of what the
  Tailscale API last listed, the effect of a revocation, and the merged view of the tailnets.
\<close>

section \<open>Lookups\<close>

definition raw_admits :: "gotime \<Rightarrow> rawDevice \<Rightarrow> bool" where
  "raw_admits now raw \<longleftrightarrow> rd_Authorized raw \<and> (rd_KeyExpiryDisabled raw \<or> rd_Expires raw = 0 \<or> now < rd_Expires raw)"

definition last_with_key :: "string \<Rightarrow> rawDevice list \<Rightarrow> rawDevice option" where
  "last_with_key k raws = find (\<lambda>raw. rd_NodeKey raw = k) (rev raws)"

lemma device_admits_sanitize [simp]: "device_admits now (sanitizeDevice raw c) = raw_admits now raw"
  by (auto simp: device_admits_def raw_admits_def sanitizeDevice_def deviceExpired_def formatAPITimeValue_def)

lemma dv_NodeKey_sanitize [simp]: "dv_NodeKey (sanitizeDevice raw c) = rd_NodeKey raw"
  by (simp add: sanitizeDevice_def)

lemma listed_devices_snoc:
  "listed_devices c (raws @ [r]) =
     (if rd_NodeKey r \<noteq> [] then fmupd (rd_NodeKey r) (sanitizeDevice r c) (listed_devices c raws) else listed_devices c raws)"
  by (simp add: listed_devices_def Let_def)

lemma listed_devices_lookup:
  "k \<noteq> [] \<Longrightarrow> fmlookup (listed_devices c raws) k = map_option (\<lambda>r. sanitizeDevice r c) (last_with_key k raws)"
proof (induction raws rule: rev_induct)
  case Nil
  then show ?case by (simp add: listed_devices_def last_with_key_def)
next
  case (snoc r raws)
  then show ?case by (auto simp: listed_devices_snoc last_with_key_def)
qed

definition admits_from :: "string \<Rightarrow> string \<Rightarrow> gotime \<Rightarrow> deviceStore \<Rightarrow> bool" where
  "admits_from name needle now s =
     (case fmlookup (ds_cache s) name of
        None \<Rightarrow> False
      | Some e \<Rightarrow> entry_fresh (ds_ttl s) now e \<and>
                   (case fmlookup (dc_devices e) needle of None \<Rightarrow> False | Some d \<Rightarrow> device_admits now d))"

lemma allowed_iff: "allowed needle now s \<longleftrightarrow> (\<exists>name. admits_from name needle now s)"
proof -
  have "allowed needle now s \<longleftrightarrow> (\<exists>name e. fmlookup (ds_cache s) name = Some e \<and> entry_fresh (ds_ttl s) now e \<and>
                (case fmlookup (dc_devices e) needle of None \<Rightarrow> False | Some d \<Rightarrow> device_admits now d))"
    unfolding allowed_def list_ex_iff by (simp add: sorted_list_of_fmap_mem case_prod_beta Bex_def)
  also have "\<dots> \<longleftrightarrow> (\<exists>name. admits_from name needle now s)"
    unfolding admits_from_def by (rule ex_cong1) (simp split: option.split)
  finally show ?thesis .
qed

section \<open>Synchronisation\<close>

text \<open>The rounds of \<open>start\<close> and of \<open>/devices/refresh\<close>, one after the other (\<open>refreshMu\<close>).\<close>

definition refresh_all :: "(nat \<Rightarrow> gotime \<times> rawDevice list option) list \<Rightarrow> deviceStore \<Rightarrow> deviceStore" where
  "refresh_all rounds s = fold (\<lambda>env s. snd (refresh env s)) rounds s"

text \<open>What the API last answered for instance \<open>i\<close>, and when.\<close>

fun last_listing :: "nat \<Rightarrow> (nat \<Rightarrow> gotime \<times> rawDevice list option) list \<Rightarrow> (gotime \<times> rawDevice list) option" where
  "last_listing i [] = None"
| "last_listing i (env # rounds) =
     (case last_listing i rounds of
        Some l \<Rightarrow> Some l
      | None \<Rightarrow> (case env i of (t, Some raws) \<Rightarrow> Some (t, raws) | (_, None) \<Rightarrow> None))"

lemma last_listing_snoc:
  "last_listing i (rounds @ [env]) = (case env i of (t, Some raws) \<Rightarrow> Some (t, raws) | (_, None) \<Rightarrow> last_listing i rounds)"
  by (induction rounds) (auto split: prod.splits option.splits)

lemma recordFailure_keeps [simp]:
  "ds_configs (recordFailure now n err s) = ds_configs s" "ds_ttl (recordFailure now n err s) = ds_ttl s"
  by (simp_all add: recordFailure_def)

lemma refreshInstance_keeps [simp]:
  "ds_configs (snd (refreshInstance now l c s)) = ds_configs s" "ds_ttl (snd (refreshInstance now l c s)) = ds_ttl s"
  by (simp_all add: refreshInstance_def split: option.split)

definition refresh_step :: "gotime \<times> rawDevice list option \<Rightarrow> APIConfig \<Rightarrow> deviceStore \<Rightarrow> bool \<times> deviceStore" where
  "refresh_step e c s =
     (if \<not> isConfigured c
      then (False, recordFailure (fst e) (ac_Name c) ''tailnet and selected API credentials are required'' s)
      else refreshInstance (fst e) (snd e) c s)"

lemma refresh_step_keeps [simp]:
  "ds_configs (snd (refresh_step e c s)) = ds_configs s" "ds_ttl (snd (refresh_step e c s)) = ds_ttl s"
  by (simp_all add: refresh_step_def)

lemma refresh_from_step: "snd (refresh_from env i (c # cs) s) = snd (refresh_from env (Suc i) cs (snd (refresh_step (env i) c s)))"
  by (simp add: refresh_step_def case_prod_beta Let_def)

lemma refresh_from_keeps [simp]:
  "ds_configs (snd (refresh_from env i cs s)) = ds_configs s" "ds_ttl (snd (refresh_from env i cs s)) = ds_ttl s"
  by (induction cs arbitrary: i s) (simp_all add: refresh_from_step del: refresh_from.simps(2))

text \<open>A step touches the entry of its own instance only.\<close>

lemma refresh_step_other: "name \<noteq> ac_Name c \<Longrightarrow> fmlookup (ds_cache (snd (refresh_step e c s))) name = fmlookup (ds_cache s) name"
  by (simp add: refresh_step_def recordFailure_def refreshInstance_def split: option.split)

lemma refresh_from_other:
  "name \<notin> ac_Name ` set cs \<Longrightarrow> fmlookup (ds_cache (snd (refresh_from env i cs s))) name = fmlookup (ds_cache s) name"
proof (induction cs arbitrary: i s)
  case (Cons c cs)
  then show ?case by (simp add: refresh_from_step refresh_step_other del: refresh_from.simps(2))
qed simp

text \<open>The part of an entry that admission reads.\<close>

definition admission_part :: "string \<Rightarrow> deviceStore \<Rightarrow> (string, Device) fmap \<times> gotime" where
  "admission_part name s = (let e = cache_entry s name in (dc_devices e, dc_lastSuccess e))"

definition synced :: "APIConfig \<Rightarrow> gotime \<times> rawDevice list option \<Rightarrow> (string, Device) fmap \<times> gotime \<Rightarrow> (string, Device) fmap \<times> gotime" where
  "synced c e p = (case e of (t, Some raws) \<Rightarrow> if isConfigured c then (listed_devices c raws, t) else p | (_, None) \<Rightarrow> p)"

lemma admission_part_step:
  "admission_part (ac_Name c) (snd (refresh_step e c s)) =
     synced c e (admission_part (ac_Name c) s)"
  by (auto simp: synced_def admission_part_def refresh_step_def refreshInstance_def recordFailure_def cache_entry_def Let_def
      split: option.split prod.split)

lemma admission_part_refresh_from:
  assumes "distinct (map ac_Name cs)" "j < length cs"
  shows "admission_part (ac_Name (cs ! j)) (snd (refresh_from env i cs s)) =
     synced (cs ! j) (env (i + j)) (admission_part (ac_Name (cs ! j)) s)"
  using assms
proof (induction cs arbitrary: i j s)
  case Nil
  then show ?case by simp
next
  case (Cons c cs)
  have other: "admission_part n (snd (refresh_from env (Suc i) cs s')) = admission_part n s'"
    if "n \<notin> ac_Name ` set cs" for n s'
    using refresh_from_other [OF that] by (simp add: admission_part_def cache_entry_def)
  show ?case
  proof (cases j)
    case 0
    with Cons.prems show ?thesis
      by (simp add: refresh_from_step other admission_part_step del: refresh_from.simps(2))
  next
    case (Suc k)
    with Cons.prems have "ac_Name (cs ! k) \<noteq> ac_Name c" by (metis distinct.simps(2) length_Cons length_map list.simps(9) not_less_eq nth_map nth_mem)
    then have "admission_part (ac_Name (cs ! k)) (snd (refresh_step (env i) c s)) = admission_part (ac_Name (cs ! k)) s"
      by (simp add: admission_part_def cache_entry_def refresh_step_other)
    with Suc Cons show ?thesis by (simp add: refresh_from_step del: refresh_from.simps(2))
  qed
qed

lemma refresh_all_snoc: "refresh_all (rounds @ [env]) s = snd (refresh env (refresh_all rounds s))"
  by (simp add: refresh_all_def)

lemma refresh_all_keeps [simp]:
  "ds_configs (refresh_all rounds s) = ds_configs s" "ds_ttl (refresh_all rounds s) = ds_ttl s"
  by (induction rounds rule: rev_induct) (simp_all add: refresh_all_snoc refresh_def, simp_all add: refresh_all_def)

lemma admission_part_refresh_all:
  assumes d: "distinct (map ac_Name (ds_configs s))" and j: "j < length (ds_configs s)"
    and c: "c = ds_configs s ! j"
  shows "admission_part (ac_Name c) (refresh_all rounds s) =
     (case last_listing j rounds of Some (t, raws) \<Rightarrow> if isConfigured c then (listed_devices c raws, t) else admission_part (ac_Name c) s
      | None \<Rightarrow> admission_part (ac_Name c) s)"
proof (induction rounds rule: rev_induct)
  case Nil
  then show ?case by (simp add: refresh_all_def)
next
  case (snoc env rounds)
  have "admission_part (ac_Name c) (refresh_all (rounds @ [env]) s) =
     synced c (env j) (admission_part (ac_Name c) (refresh_all rounds s))"
    using admission_part_refresh_from [of "ds_configs s" j env 0 "refresh_all rounds s"] d j c
    by (simp add: refresh_all_snoc refresh_def)
  then show ?case
    using snoc by (auto simp: last_listing_snoc synced_def split: prod.splits option.splits)
qed

lemma newDeviceStore_dom: "fmlookup (ds_cache (newDeviceStore cfg)) name =
    (if name \<in> ac_Name ` set (ds_configs (newDeviceStore cfg)) then Some zero_cache else None)"
proof -
  have "fmlookup (fold (\<lambda>c. fmupd (ac_Name c) zero_cache) cs m) name =
      (if name \<in> ac_Name ` set cs then Some zero_cache else fmlookup m name)" for cs :: "APIConfig list" and m
    by (induction cs arbitrary: m) auto
  then show ?thesis by (simp add: newDeviceStore_def Let_def)
qed

lemma admission_part_new [simp]: "admission_part name (newDeviceStore cfg) = (fmempty, 0)"
  by (simp add: admission_part_def cache_entry_def newDeviceStore_dom zero_cache_def)

lemma admits_from_part:
  "admits_from name needle now s \<longleftrightarrow>
     (let (m, t) = admission_part name s
      in t \<noteq> 0 \<and> time_sub now t \<le> ds_ttl s \<and> (case fmlookup m needle of None \<Rightarrow> False | Some d \<Rightarrow> device_admits now d))"
  by (auto simp: admits_from_def admission_part_def cache_entry_def entry_fresh_def zero_cache_def split: option.splits)

lemma refresh_all_outside:
  assumes "name \<notin> ac_Name ` set (ds_configs s)"
  shows "admission_part name (refresh_all rounds s) = admission_part name s"
proof -
  have "fmlookup (ds_cache (refresh_all rounds s)) name = fmlookup (ds_cache s) name"
    using assms by (induction rounds rule: rev_induct)
      (simp_all add: refresh_all_snoc refresh_def refresh_from_other, simp_all add: refresh_all_def)
  then show ?thesis by (simp add: admission_part_def cache_entry_def)
qed

text \<open> Admission through the API cache is exactly the last successful listing of some configured
  instance, while it is at most the TTL old (C9): after any rounds of synchronisation, with any failures
  among them, a key is allowed iff the last successful listing of an instance with credentials is
  fresh and the last record of that key in it is authorized and not expired. Failed refreshes neither
  admit nor keep a key beyond the TTL.\<close>

theorem admission_is_last_listing:
  assumes cfgs: "cs = ds_configs (newDeviceStore cfg)"
    and distinct: "distinct (map ac_Name cs)" and key: "needle \<noteq> []"
  shows "allowed needle now (refresh_all rounds (newDeviceStore cfg)) \<longleftrightarrow>
     (\<exists>i < length cs. isConfigured (cs ! i) \<and>
        (\<exists>t raws raw. last_listing i rounds = Some (t, raws) \<and> t \<noteq> 0 \<and> time_sub now t \<le> ds_ttl (newDeviceStore cfg) \<and>
            last_with_key needle raws = Some raw \<and> raw_admits now raw))"
    (is "?L \<longleftrightarrow> (\<exists>i < length cs. ?A i)")
proof -
  let ?s = "refresh_all rounds (newDeviceStore cfg)"
  have one: "admits_from (ac_Name (cs ! i)) needle now ?s \<longleftrightarrow> ?A i" if "i < length cs" for i
  proof (cases "last_listing i rounds")
    case None
    then show ?thesis
      using admission_part_refresh_all [of "newDeviceStore cfg" i "cs ! i" rounds] that distinct cfgs
      by (simp add: admits_from_part)
  next
    case (Some l)
    then show ?thesis
      using admission_part_refresh_all [of "newDeviceStore cfg" i "cs ! i" rounds] that distinct cfgs
      by (cases l) (auto simp: admits_from_part listed_devices_lookup [OF key] split: option.splits)
  qed
  have outside: "name \<in> ac_Name ` set cs" if "admits_from name needle now ?s" for name
  proof (rule ccontr)
    assume "name \<notin> ac_Name ` set cs"
    then have "admission_part name ?s = (fmempty, 0)"
      using refresh_all_outside [of name "newDeviceStore cfg" rounds] cfgs by simp
    with that show False by (simp add: admits_from_part)
  qed
  have "?L \<longleftrightarrow> (\<exists>name \<in> ac_Name ` set cs. admits_from name needle now ?s)"
    unfolding allowed_iff using outside by blast
  also have "\<dots> \<longleftrightarrow> (\<exists>i < length cs. admits_from (ac_Name (cs ! i)) needle now ?s)"
    by (metis (no_types, lifting) image_iff in_set_conv_nth)
  also have "\<dots> \<longleftrightarrow> (\<exists>i < length cs. ?A i)" using one by auto
  finally show ?thesis .
qed


definition demo_api :: APIConfig where
  "demo_api = \<lparr>ac_Name = ''home'', ac_Label = [], ac_Tailnet = ''example.com'', ac_AuthType = APIAuthTypeAPIKey,
     ac_APIKey = ''k'', ac_OAuthClientID = [], ac_OAuthClientSecret = [], ac_DERPMapSync = True, ac_StunOnly = False,
     ac_RegionID = 901, ac_RegionCode = ''home'', ac_RegionName = ''Home'', ac_NodeName = ''901a'',
     ac_Hostname = ''derp.example.com'', ac_CertName = []\<rparr>"

definition demo_verify :: VerifyConfig where
  "demo_verify = \<lparr>vc_Enabled = True, vc_URLsEnabled = False, vc_TailscaledEnabled = False, vc_TailscaledSocketEnabled = False,
     vc_TailscaledSocket = [], vc_APIEnabled = True, vc_URLs = [], vc_APIs = [demo_api], vc_SyncInterval = 0, vc_CacheTTL = 0\<rparr>"

definition demo_raw :: rawDevice where
  "demo_raw = \<lparr>rd_NodeID = ''n1'', rd_NodeKey = ''nodekey:1'', rd_Name = ''a'', rd_Hostname = ''a'', rd_User = ''u'',
     rd_Addresses = [], rd_OS = [], rd_ClientVersion = [], rd_Authorized = True, rd_ConnectedToControl = True,
     rd_LastSeen = None, rd_Expires = 0, rd_KeyExpiryDisabled = False, rd_Tags = [], rd_IsExternal = False, rd_IsEphemeral = False\<rparr>"

definition demo_rounds :: "(nat \<Rightarrow> gotime \<times> rawDevice list option) list" where
  "demo_rounds = [\<lambda>_. (1000, Some [demo_raw]), \<lambda>_. (2000, None)]"

lemma demo_configs [simp]: "ds_configs (newDeviceStore demo_verify) = [demo_api]"
  by (simp add: newDeviceStore_def Let_def demo_verify_def normalizeVerifyConfig_def normalize_api_def demo_api_def
      TrimSpace_def TrimFunc_def is_space_def)

lemma demo_ttl [simp]: "ds_ttl (newDeviceStore demo_verify) = 900000000000"
  by (simp add: newDeviceStore_def Let_def demo_verify_def normalizeVerifyConfig_def defaultDeviceCacheTTL_def duration_defs)

lemma demo_configured [simp]: "isConfigured demo_api"
  by (simp add: isConfigured_def demo_api_def TrimSpace_def TrimFunc_def is_space_def)

theorem admission_is_last_listing_witness:
  "allowed ''nodekey:1'' 3000 (refresh_all demo_rounds (newDeviceStore demo_verify)) \<and>
   \<not> allowed ''nodekey:1'' 900000001001 (refresh_all demo_rounds (newDeviceStore demo_verify))"
  using admission_is_last_listing [OF refl, of demo_verify "''nodekey:1''" 3000 demo_rounds]
    admission_is_last_listing [OF refl, of demo_verify "''nodekey:1''" 900000001001 demo_rounds]
  by (simp add: demo_rounds_def last_with_key_def demo_raw_def raw_admits_def time_sub_def max_duration_def min_duration_def)

section \<open>Changes\<close>

definition ids_unique :: "deviceCache \<Rightarrow> bool" where
  "ids_unique e \<longleftrightarrow> (\<forall>k k' d d'. fmlookup (dc_devices e) k = Some d \<longrightarrow> fmlookup (dc_devices e) k' = Some d' \<longrightarrow>
       dv_NodeID d = dv_NodeID d' \<longrightarrow> k = k')"

lemma find_device_Some:
  "find_device i e = Some (k, d) \<Longrightarrow> fmlookup (dc_devices e) k = Some d \<and> dv_NodeID d = i"
  by (auto simp: find_device_def find_Some_iff sorted_list_of_fmap_mem [symmetric] in_set_conv_nth)

lemma find_device_unique:
  assumes u: "ids_unique e" and d: "fmlookup (dc_devices e) k = Some d"
  shows "find_device (dv_NodeID d) e = Some (k, d)"
proof (cases "find_device (dv_NodeID d) e")
  case None
  then show ?thesis using d by (auto simp: find_device_def find_None_iff sorted_list_of_fmap_mem)
next
  case (Some kd)
  obtain k' d' where kd: "kd = (k', d')" by (cases kd)
  from find_device_Some [OF Some [unfolded kd]] have l: "fmlookup (dc_devices e) k' = Some d'" "dv_NodeID d' = dv_NodeID d" by auto
  then have "k' = k" using u d unfolding ids_unique_def by metis
  then show ?thesis using Some kd l d by simp
qed

text \<open>Each change of the cache, seen through the admission it leaves.\<close>

lemma admits_from_update:
  assumes "fmlookup (ds_cache s) name = Some e" "ids_unique e" "fmlookup (dc_devices e) k = Some d"
  shows "admits_from n needle now (updateCachedDevice name (dv_NodeID d) f s) \<longleftrightarrow>
     (if n = name \<and> needle = k then entry_fresh (ds_ttl s) now e \<and> device_admits now (f d) else admits_from n needle now s)"
  using assms by (auto simp: updateCachedDevice_def find_device_unique admits_from_def entry_fresh_def cong: option.case_cong)

lemma admits_from_remove:
  assumes "fmlookup (ds_cache s) name = Some e" "ids_unique e" "fmlookup (dc_devices e) k = Some d"
  shows "admits_from n needle now (removeCachedDevice name (dv_NodeID d) s) \<longleftrightarrow>
     (n, needle) \<noteq> (name, k) \<and> admits_from n needle now s"
  using assms by (auto simp: removeCachedDevice_def find_device_unique admits_from_def entry_fresh_def cong: option.case_cong)

lemma api_mutation_ok: "api_mutation call name f s = (None, s') \<Longrightarrow> s' = f s"
  by (auto simp: api_mutation_def split: sum.splits option.splits)

lemma truncate_second_le: "truncate_second t \<le> t"
  by (simp add: truncate_second_def second_def)


lemma demo_cache:
  "ds_cache (refresh_all [\<lambda>_. (1000, Some [demo_raw])] (newDeviceStore demo_verify)) =
     fmupd ''home'' \<lparr>dc_devices = fmupd ''nodekey:1'' (sanitizeDevice demo_raw demo_api) fmempty, dc_lastAttempt = 1000,
       dc_lastSuccess = 1000, dc_err = []\<rparr> fmempty"
  by (rule fmap_ext) (auto simp: refresh_all_def refresh_def refreshInstance_def newDeviceStore_dom listed_devices_def Let_def
      demo_api_def [THEN arg_cong, of ac_Name, simplified] demo_raw_def [THEN arg_cong, of rd_NodeKey, simplified] case_prod_beta)



section \<open>The merged view\<close>

definition merge_into :: "Device option \<Rightarrow> Device \<Rightarrow> Device" where
  "merge_into old d = (case old of None \<Rightarrow> d
     | Some x \<Rightarrow> x\<lparr>dv_Sources := appendUnique (dv_Sources x) (dv_Sources d), dv_Origins := appendUniqueOrigins (dv_Origins x) (dv_Origins d)\<rparr>)"

lemma merge_device_lookup:
  "fmlookup (merge_device (k, d) m) k' = (if k' = k then Some (merge_into (fmlookup m k) d) else fmlookup m k')"
  by (auto simp: merge_device_def merge_into_def split: option.split)

lemma fold_merge_device:
  "distinct (map fst l) \<Longrightarrow> fmlookup (fold merge_device l m) k =
     (case map_of l k of None \<Rightarrow> fmlookup m k | Some d \<Rightarrow> Some (merge_into (fmlookup m k) d))"
proof (induction l arbitrary: m)
  case (Cons kd l)
  obtain k0 d0 where kd: "kd = (k0, d0)" by (cases kd)
  with Cons.prems have none: "map_of l k0 = None" by (simp add: map_of_eq_None_iff)
  show ?case
  proof (cases "k = k0")
    case True
    then show ?thesis using Cons none by (simp add: kd merge_device_lookup)
  next
    case False
    then show ?thesis using Cons by (simp add: kd merge_device_lookup split: option.split)
  qed
qed simp

lemma fold_merge_map:
  "fmlookup (fold merge_device (sorted_list_of_fmap x) m) k =
     (case fmlookup x k of None \<Rightarrow> fmlookup m k | Some d \<Rightarrow> Some (merge_into (fmlookup m k) d))"
proof -
  have "distinct (map fst (sorted_list_of_fmap x))"
    by (simp add: sorted_list_of_fmap_keys sorted_list_of_fset.rep_eq)
  from fold_merge_device [OF this] show ?thesis by simp
qed

definition owners :: "string \<Rightarrow> deviceStore \<Rightarrow> APIConfig list \<Rightarrow> Device list" where
  "owners k s cs = List.map_filter (\<lambda>c. fmlookup (dc_devices (cache_entry s (ac_Name c))) k) cs"

lemma merged_lookup:
  "fmlookup (merged_devices s) k = fold (\<lambda>d old. Some (merge_into old d)) (owners k s (ds_configs s)) None"
proof -
  have "fmlookup (fold (\<lambda>c. fold merge_device (sorted_list_of_fmap (dc_devices (cache_entry s (ac_Name c))))) cs m) k =
      fold (\<lambda>d old. Some (merge_into old d)) (owners k s cs) (fmlookup m k)" for cs :: "APIConfig list" and m
    by (induction cs arbitrary: m)
      (simp_all add: owners_def fold_merge_map split: option.split)
  then show ?thesis by (simp add: merged_devices_def)
qed


definition origin_pairs :: "Device \<Rightarrow> (string \<times> string) set" where
  "origin_pairs d = (\<lambda>v. (do_Instance v, do_NodeID v)) ` set (dv_Origins d)"

definition origin_wf :: "DeviceOrigin \<Rightarrow> bool" where
  "origin_wf v \<longleftrightarrow> do_Instance v \<noteq> [] \<and> do_NodeID v \<noteq> [] \<and> CHR 0x00 \<notin> set (do_Instance v)"

lemma append_sep_inj:
  "c \<notin> set xs \<Longrightarrow> c \<notin> set xs' \<Longrightarrow> xs @ c # ys = xs' @ c # ys' \<longleftrightarrow> xs = xs' \<and> ys = ys'"
proof (induction xs arbitrary: xs')
  case Nil
  then show ?case by (cases xs') auto
next
  case (Cons x xs)
  then show ?case by (cases xs') auto
qed

lemma origin_key_inj: "origin_wf v \<Longrightarrow> origin_wf w \<Longrightarrow> origin_key v = origin_key w \<longleftrightarrow>
    do_Instance v = do_Instance w \<and> do_NodeID v = do_NodeID w"
  unfolding origin_wf_def origin_key_def by (simp add: append_sep_inj)

lemma appendUniqueOrigins_pairs:
  assumes "\<forall>v \<in> set vs \<union> set ws. origin_wf v"
  shows "(\<lambda>v. (do_Instance v, do_NodeID v)) ` set (appendUniqueOrigins vs ws) =
     (\<lambda>v. (do_Instance v, do_NodeID v)) ` (set vs \<union> set ws)"
    and "\<forall>v \<in> set (appendUniqueOrigins vs ws). origin_wf v"
proof -
  let ?r = "dedup_into origin_key (origin_key ` set vs) ws"
  have f: "filter (\<lambda>v. \<not> (do_Instance v = [] \<or> do_NodeID v = [])) ws = ws"
    using assms by (auto simp: origin_wf_def intro!: filter_True)
  have r: "set ?r \<subseteq> set ws" by (rule dedup_into_subset)
  have "\<exists>v \<in> set vs \<union> set ?r. origin_key v = origin_key w" if "w \<in> set ws" for w
  proof (cases "origin_key w \<in> origin_key ` set vs")
    case False
    with that have "origin_key w \<in> origin_key ` set ?r" by (simp add: dedup_into_image)
    then show ?thesis by (metis UnI2 imageE)
  qed (metis UnI1 imageE)
  then show "(\<lambda>v. (do_Instance v, do_NodeID v)) ` set (appendUniqueOrigins vs ws) =
     (\<lambda>v. (do_Instance v, do_NodeID v)) ` (set vs \<union> set ws)"
    using r assms origin_key_inj unfolding appendUniqueOrigins_def f by (fastforce simp: image_iff)
  show "\<forall>v \<in> set (appendUniqueOrigins vs ws). origin_wf v"
    using r assms unfolding appendUniqueOrigins_def f by auto
qed

definition origins_wf :: "Device \<Rightarrow> bool" where
  "origins_wf d \<longleftrightarrow> (\<forall>v \<in> set (dv_Origins d). origin_wf v)"

lemma merge_into_pairs:
  assumes "origins_wf d" "\<forall>x. old = Some x \<longrightarrow> origins_wf x"
  shows "origin_pairs (merge_into old d) = (case old of None \<Rightarrow> {} | Some x \<Rightarrow> origin_pairs x) \<union> origin_pairs d"
    and "origins_wf (merge_into old d)"
proof -
  have "origin_pairs (merge_into old d) = (case old of None \<Rightarrow> {} | Some x \<Rightarrow> origin_pairs x) \<union> origin_pairs d \<and>
      origins_wf (merge_into old d)"
  proof (cases old)
    case None
    with assms show ?thesis by (simp add: merge_into_def)
  next
    case (Some x)
    with assms have "\<forall>v \<in> set (dv_Origins x) \<union> set (dv_Origins d). origin_wf v" by (auto simp: origins_wf_def)
    from appendUniqueOrigins_pairs [OF this] Some show ?thesis
      by (simp add: merge_into_def origin_pairs_def origins_wf_def image_Un)
  qed
  then show "origin_pairs (merge_into old d) = (case old of None \<Rightarrow> {} | Some x \<Rightarrow> origin_pairs x) \<union> origin_pairs d"
    and "origins_wf (merge_into old d)" by auto
qed

lemma fold_merge_pairs:
  assumes "\<forall>d \<in> set ds. origins_wf d" "\<forall>x. old = Some x \<longrightarrow> origins_wf x"
    and "fold (\<lambda>d old. Some (merge_into old d)) ds old = Some y"
  shows "origin_pairs y = (case old of None \<Rightarrow> {} | Some x \<Rightarrow> origin_pairs x) \<union> (\<Union>d \<in> set ds. origin_pairs d)"
  using assms
proof (induction ds arbitrary: old)
  case (Cons d ds)
  have "origins_wf d" using Cons.prems by simp
  note m = merge_into_pairs [OF this Cons.prems(2)]
  show ?case using Cons.IH [of "Some (merge_into old d)"] Cons.prems m by auto
qed simp

lemma fold_merge_None: "fold (\<lambda>d old. Some (merge_into old d)) ds old = None \<longleftrightarrow> ds = [] \<and> old = None"
  by (induction ds arbitrary: old) auto

text \<open>The cache of an instance holds devices that name the instance as their origin.\<close>

definition device_owned :: "string \<Rightarrow> string \<Rightarrow> Device \<Rightarrow> bool" where
  "device_owned name k d \<longleftrightarrow> dv_NodeKey d = k \<and> origin_pairs d = {(name, dv_NodeID d)}"

definition cache_owned :: "deviceStore \<Rightarrow> bool" where
  "cache_owned s \<longleftrightarrow> (\<forall>name e k d. fmlookup (ds_cache s) name = Some e \<longrightarrow> fmlookup (dc_devices e) k = Some d \<longrightarrow>
device_owned name k d)"

inductive store_reach :: "VerifyConfig \<Rightarrow> deviceStore \<Rightarrow> bool" for cfg where
  new: "store_reach cfg (newDeviceStore cfg)"
| refreshed: "store_reach cfg s \<Longrightarrow> store_reach cfg (snd (refresh env s))"
| authorized: "store_reach cfg s \<Longrightarrow> store_reach cfg (snd (setDeviceAuthorized call name i b s))"
| renamed: "store_reach cfg s \<Longrightarrow> store_reach cfg (snd (setDeviceName call name i n s))"
| tagged: "store_reach cfg s \<Longrightarrow> store_reach cfg (snd (setDeviceTags call name i tags s))"
| keyed: "store_reach cfg s \<Longrightarrow> store_reach cfg (snd (setDeviceKey call name i b s))"
| deleted: "store_reach cfg s \<Longrightarrow> store_reach cfg (snd (deleteDevice call name i s))"
| expired: "store_reach cfg s \<Longrightarrow> store_reach cfg (snd (expireDevice http t name i s))"
| addressed: "store_reach cfg s \<Longrightarrow> store_reach cfg (snd (setDeviceIPv4 call is4 name i ip s))"

lemma cache_owned_update:
  assumes "cache_owned s" "\<And>n k d. device_owned n k (f d) = device_owned n k d"
  shows "cache_owned (updateCachedDevice name i f s)"
  using assms unfolding cache_owned_def updateCachedDevice_def
  by (auto split: option.splits if_splits dest!: find_device_Some)

lemma cache_owned_remove: "cache_owned s \<Longrightarrow> cache_owned (removeCachedDevice name i s)"
  unfolding cache_owned_def removeCachedDevice_def
  by (auto split: option.splits if_splits)

lemma cache_owned_mutation:
  "cache_owned s \<Longrightarrow> (cache_owned (f s)) \<Longrightarrow> cache_owned (snd (api_mutation call name f s))"
  by (simp add: api_mutation_def split: sum.split option.split)

lemma listed_devices_owned:
  "fmlookup (listed_devices c raws) k = Some d \<Longrightarrow> \<exists>raw. rd_NodeKey raw = k \<and> d = sanitizeDevice raw c"
  by (induction raws rule: rev_induct) (auto simp: listed_devices_snoc split: if_splits, simp add: listed_devices_def)

lemma cache_owned_step: "cache_owned s \<Longrightarrow> cache_owned (snd (refresh_step e c s))"
  unfolding refresh_step_def refreshInstance_def recordFailure_def cache_owned_def
  by (auto simp: cache_entry_def zero_cache_def sanitizeDevice_def device_owned_def origin_pairs_def split: option.splits if_splits dest!: listed_devices_owned)

lemma cache_owned_refresh: "cache_owned s \<Longrightarrow> cache_owned (snd (refresh_from env i cs s))"
  by (induction cs arbitrary: i s) (simp_all add: refresh_from_step cache_owned_step del: refresh_from.simps(2))

lemma store_reach_owned: "store_reach cfg s \<Longrightarrow> cache_owned s"
proof (induction rule: store_reach.induct)
  case new
  then show ?case by (auto simp: cache_owned_def newDeviceStore_dom zero_cache_def split: if_splits)
qed (auto simp: refresh_def cache_owned_refresh setDeviceAuthorized_def setDeviceName_def setDeviceTags_def setDeviceKey_def
      deleteDevice_def expireDevice_def setDeviceIPv4_def updateCachedIPv4_def
      device_owned_def origin_pairs_def intro!: cache_owned_mutation cache_owned_update cache_owned_remove)


lemma refresh_from_configs: "ds_configs (snd (refresh env s)) = ds_configs s"
  by (simp add: refresh_def)

lemma mutation_configs:
  "ds_configs (snd (api_mutation call name (updateCachedDevice name i f) s)) = ds_configs s"
  "ds_configs (snd (api_mutation call name (removeCachedDevice name i) s)) = ds_configs s"
  by (auto simp: api_mutation_def updateCachedDevice_def removeCachedDevice_def Let_def split: sum.split option.split)

lemma store_reach_configs: "store_reach cfg s \<Longrightarrow> ds_configs s = ds_configs (newDeviceStore cfg)"
  by (induction rule: store_reach.induct)
    (simp_all add: refresh_from_configs mutation_configs setDeviceAuthorized_def setDeviceName_def setDeviceTags_def setDeviceKey_def
      deleteDevice_def expireDevice_def setDeviceIPv4_def updateCachedIPv4_def)

definition names_ok :: "APIConfig list \<Rightarrow> bool" where
  "names_ok cs \<longleftrightarrow> distinct (map ac_Name cs) \<and> (\<forall>c \<in> set cs. ac_Name c \<noteq> [] \<and> CHR 0x00 \<notin> set (ac_Name c))"

definition ids_present :: "deviceStore \<Rightarrow> bool" where
  "ids_present s \<longleftrightarrow> (\<forall>name e k d. fmlookup (ds_cache s) name = Some e \<longrightarrow> fmlookup (dc_devices e) k = Some d \<longrightarrow> dv_NodeID d \<noteq> [])"

lemma owners_set:
  "d \<in> set (owners k s cs) \<longleftrightarrow> (\<exists>c \<in> set cs. fmlookup (dc_devices (cache_entry s (ac_Name c))) k = Some d)"
  by (induction cs) (auto simp: owners_def split: option.split)

lemma cache_entry_owned:
  assumes "cache_owned s" "fmlookup (dc_devices (cache_entry s name)) k = Some d"
  shows "device_owned name k d"
  using assms by (auto simp: cache_entry_def cache_owned_def zero_cache_def split: option.splits)

lemma owners_origins:
  assumes own: "cache_owned s" and names: "names_ok cs" and ids: "ids_present s"
  shows "\<forall>d \<in> set (owners k s cs). origins_wf d"
    and "(\<Union>d \<in> set (owners k s cs). origin_pairs d) =
      {(name, i). \<exists>c \<in> set cs. name = ac_Name c \<and>
         (\<exists>d. fmlookup (dc_devices (cache_entry s (ac_Name c))) k = Some d \<and> dv_NodeID d = i)}"
proof -
  show "\<forall>d \<in> set (owners k s cs). origins_wf d"
  proof
    fix d assume "d \<in> set (owners k s cs)"
    then obtain c where c: "c \<in> set cs" "fmlookup (dc_devices (cache_entry s (ac_Name c))) k = Some d"
      by (auto simp: owners_set)
    from c(2) ids have "dv_NodeID d \<noteq> []"
      by (auto simp: ids_present_def cache_entry_def zero_cache_def split: option.splits)
    moreover have "origin_pairs d = {(ac_Name c, dv_NodeID d)}"
      using cache_entry_owned [OF own c(2)] by (simp add: device_owned_def)
    ultimately have "do_Instance v = ac_Name c \<and> do_NodeID v \<noteq> []" if "v \<in> set (dv_Origins d)" for v
      using that by (auto simp: origin_pairs_def dest: equalityD1 [THEN subsetD, OF _ imageI])
    then show "origins_wf d"
      using names c(1) by (simp add: origins_wf_def origin_wf_def names_ok_def)
  qed
  have op: "origin_pairs d = {(ac_Name c, dv_NodeID d)}"
    if "fmlookup (dc_devices (cache_entry s (ac_Name c))) k = Some d" for c :: APIConfig and d
    using cache_entry_owned [OF own that] by (simp add: device_owned_def)
  show "(\<Union>d \<in> set (owners k s cs). origin_pairs d) =
      {(name, i). \<exists>c \<in> set cs. name = ac_Name c \<and>
         (\<exists>d. fmlookup (dc_devices (cache_entry s (ac_Name c))) k = Some d \<and> dv_NodeID d = i)}"
    (is "?L = ?R")
  proof
    show "?L \<subseteq> ?R" by (fastforce simp: owners_set op)
    show "?R \<subseteq> ?L"
    proof clarsimp
      fix c :: APIConfig and d assume c: "c \<in> set cs" and d: "fmlookup (dc_devices (cache_entry s (ac_Name c))) k = Some d"
      then have "d \<in> set (owners k s cs)" by (auto simp: owners_set)
      then show "\<exists>x \<in> set (owners k s cs). (ac_Name c, dv_NodeID d) \<in> origin_pairs x" using op [OF d] by auto
    qed
  qed
qed

lemma merged_key: "cache_owned s \<Longrightarrow> fmlookup (merged_devices s) k = Some d \<Longrightarrow> dv_NodeKey d = k"
proof -
  assume own: "cache_owned s" and m: "fmlookup (merged_devices s) k = Some d"
  have "fold (\<lambda>d old. Some (merge_into old d)) ds old = Some y \<Longrightarrow> \<forall>d \<in> set ds. dv_NodeKey d = k \<Longrightarrow>
      \<forall>x. old = Some x \<longrightarrow> dv_NodeKey x = k \<Longrightarrow> dv_NodeKey y = k" for ds old y
    by (induction ds arbitrary: old) (auto simp: merge_into_def split: option.splits)
  moreover have "\<forall>d \<in> set (owners k s (ds_configs s)). dv_NodeKey d = k"
    using cache_entry_owned [OF own] by (auto simp: owners_set device_owned_def)
  ultimately show ?thesis using m by (auto simp: merged_lookup)
qed

text \<open> The merged view lists every key known to some configured instance once, and the origins of an
  entry are exactly the pairs of instance and node id under which the key is cached, so a change
  addressed by such a pair reaches the device shown.\<close>

theorem snapshot_origins:
  assumes reach: "store_reach cfg s" and names: "names_ok (ds_configs (newDeviceStore cfg))" and ids: "ids_present s"
    and snap: "ds = fst (snapshot now s)"
  shows "distinct (map dv_NodeKey ds) \<and>
     dv_NodeKey ` set ds = {k. \<exists>c \<in> set (ds_configs s). fmlookup (dc_devices (cache_entry s (ac_Name c))) k \<noteq> None} \<and>
     (\<forall>d \<in> set ds. origin_pairs d =
        {(name, i). \<exists>c \<in> set (ds_configs s). name = ac_Name c \<and>
           (\<exists>d'. fmlookup (dc_devices (cache_entry s (ac_Name c))) (dv_NodeKey d) = Some d' \<and> dv_NodeID d' = i)})"
proof (intro conjI)
  let ?l = "sorted_list_of_fmap (merged_devices s)"
  have own: "cache_owned s" using reach by (rule store_reach_owned)
  have nm: "names_ok (ds_configs s)" using names store_reach_configs [OF reach] by simp
  have ds: "ds = map snd ?l" by (simp add: snap snapshot_def)
  have keys: "map dv_NodeKey ds = map fst ?l"
    unfolding ds by (auto simp: sorted_list_of_fmap_mem intro: merged_key [OF own])
  show "distinct (map dv_NodeKey ds)"
    unfolding keys by (simp add: sorted_list_of_fmap_keys sorted_list_of_fset.rep_eq)
  have "dv_NodeKey ` set ds = set (map dv_NodeKey ds)" by simp
  also have "\<dots> = {k. fmlookup (merged_devices s) k \<noteq> None}"
    unfolding keys by (auto simp: sorted_list_of_fmap_keys sorted_list_of_fset.rep_eq fmlookup_dom_iff)
  also have "\<dots> = {k. \<exists>c \<in> set (ds_configs s). fmlookup (dc_devices (cache_entry s (ac_Name c))) k \<noteq> None}"
  proof -
    have "owners k s cs = [] \<longleftrightarrow> (\<forall>c \<in> set cs. fmlookup (dc_devices (cache_entry s (ac_Name c))) k = None)"
      for k and cs :: "APIConfig list"
      by (induction cs) (auto simp: owners_def split: option.split)
    then show ?thesis by (auto simp: merged_lookup fold_merge_None)
  qed
  finally show "dv_NodeKey ` set ds = {k. \<exists>c \<in> set (ds_configs s). fmlookup (dc_devices (cache_entry s (ac_Name c))) k \<noteq> None}" .
  show "\<forall>d \<in> set ds. origin_pairs d = {(name, i). \<exists>c \<in> set (ds_configs s). name = ac_Name c \<and>
           (\<exists>d'. fmlookup (dc_devices (cache_entry s (ac_Name c))) (dv_NodeKey d) = Some d' \<and> dv_NodeID d' = i)}"
  proof
    fix d assume "d \<in> set ds"
    then obtain k where k: "fmlookup (merged_devices s) k = Some d" by (auto simp: ds sorted_list_of_fmap_mem)
    note o = owners_origins [OF own nm ids, of k]
    have "origin_pairs d = (\<Union>d \<in> set (owners k s (ds_configs s)). origin_pairs d)"
      using fold_merge_pairs [OF o(1), of None d] k by (simp add: merged_lookup)
    then show "origin_pairs d = {(name, i). \<exists>c \<in> set (ds_configs s). name = ac_Name c \<and>
           (\<exists>d'. fmlookup (dc_devices (cache_entry s (ac_Name c))) (dv_NodeKey d) = Some d' \<and> dv_NodeID d' = i)}"
      using merged_key [OF own k] o(2) by simp
  qed
qed

theorem snapshot_origins_witness:
  "\<exists>d \<in> set (fst (snapshot 3000 (refresh_all [\<lambda>_. (1000, Some [demo_raw])] (newDeviceStore demo_verify)))).
     dv_NodeKey d = ''nodekey:1'' \<and> (''home'', ''n1'') \<in> origin_pairs d"
proof -
  let ?s = "refresh_all [\<lambda>_. (1000, Some [demo_raw])] (newDeviceStore demo_verify)"
  have r: "store_reach demo_verify ?s"
    unfolding refresh_all_def by (simp add: store_reach.intros)
  have n: "names_ok (ds_configs (newDeviceStore demo_verify))" by (simp add: names_ok_def, simp add: demo_api_def)
  have id: "dv_NodeID (sanitizeDevice demo_raw demo_api) = ''n1''" by (simp add: sanitizeDevice_def demo_raw_def)
  have i: "ids_present ?s" by (auto simp: ids_present_def demo_cache id split: if_splits)
  have nm: "ac_Name demo_api = ''home''" by (simp add: demo_api_def)
  have c: "fmlookup (dc_devices (cache_entry ?s ''home'')) ''nodekey:1'' = Some (sanitizeDevice demo_raw demo_api)"
    by (simp add: cache_entry_def demo_cache)
  note p = snapshot_origins [OF r n i refl, of 3000]
  from p c nm have "''nodekey:1'' \<in> dv_NodeKey ` set (fst (snapshot 3000 ?s))" by simp
  then obtain d where "d \<in> set (fst (snapshot 3000 ?s))" "dv_NodeKey d = ''nodekey:1''" by auto
  with p c nm id show ?thesis by auto
qed

end
