(* ===== verification/Admission.thy ===== *)
theory Admission
  imports Frames DeviceSync
begin

text \<open>
  Who may connect: the handshake and the admission checks of \<^verbatim>\<open>derpserver.go\<close> (\<open>recvClientKey\<close>,
  \<open>isMeshPeer\<close>, \<open>verifyClient\<close>, \<open>accept\<close>), composed with the verifier of \<^verbatim>\<open>internal/ops\<close>
  (\<open>checkVerifyURL\<close>, \<open>verifyURLs\<close>, \<open>Runtime.VerifyClientFunc\<close>) which \<open>main\<close> installs as the callback.

  \<^item> The answers of tailscaled, of the admission controller and of the verification URLs are arguments.
  \<^item> \<open>derp.ReadFrameTypeHeader\<close>, the NaCl box of the node key and the JSON of the client info are the
    fields of \<open>handshake\<close>.
\<close>

section \<open>The handshake\<close>

record ClientInfo =
  ci_MeshKey :: bytes
  ci_IsProber :: bool

record handshake =
  hs_KeyLen :: uint32
  hs_NonceLen :: uint32
  hs_NodePublicRawLen :: nat
  hs_header :: "bytes \<Rightarrow> (uint32 \<times> bytes) option" \<comment> \<open>\<open>ReadFrameTypeHeader(br, FrameClientInfo)\<close>\<close>
  hs_OpenFrom :: "node_public \<Rightarrow> bytes \<Rightarrow> bytes option"
  hs_Unmarshal :: "bytes \<Rightarrow> ClientInfo option"

datatype handshake_error = HsHeader | HsShort | HsLong | HsKey | HsMsgbox | HsCannotOpen | HsBadJSON

definition maxClientInfo :: uint32 where
  "maxClientInfo = 256 * 1024"

definition recvClientKey :: "handshake \<Rightarrow> bytes \<Rightarrow> handshake_error + (node_public \<times> ClientInfo \<times> bytes)" where
  "recvClientKey h br =
     (case hs_header h br of
        None \<Rightarrow> Inl HsHeader
      | Some (fl, br) \<Rightarrow>
          if fl < hs_KeyLen h + hs_NonceLen h then Inl HsShort
          else if fl > maxClientInfo then Inl HsLong
          else (case read_full (hs_NodePublicRawLen h) br of
                  None \<Rightarrow> Inl HsKey
                | Some (clientKey, br) \<Rightarrow>
                    (case read_full (unat (fl - hs_KeyLen h)) br of
                       None \<Rightarrow> Inl HsMsgbox
                     | Some (msgbox, br) \<Rightarrow>
                         (case hs_OpenFrom h clientKey msgbox of
                            None \<Rightarrow> Inl HsCannotOpen
                          | Some msg \<Rightarrow> (case hs_Unmarshal h msg of None \<Rightarrow> Inl HsBadJSON | Some info \<Rightarrow> Inr (clientKey, info, br))))))"

section \<open>Checks of the server\<close>

text \<open>The result of \<open>WhoIsNodeKey\<close>, and of the request to the admission controller: an error before it
  is sent, no answer, or a status with the \<open>Allow\<close> field of the body when the body decodes.\<close>

datatype whois = WhoIsFound | WhoIsPeerNotFound | WhoIsError string

datatype admit_answer = AdmitBadRequest | AdmitUnreachable | AdmitStatus nat "bool option"

record verify_server =
  vs_meshKey :: bytes
  vs_verifyClientsLocalTailscaled :: bool
  vs_verifyClientsURL :: string
  vs_verifyClientsURLFailOpen :: bool
  vs_verifyClientFunc :: "(node_public \<Rightarrow> Addr \<Rightarrow> string option) option"

datatype verify_error = PeerNotAuthorized | TailscaledTooOld | TailscaledQuery string | AdmitRequest | AdmitNoAnswer
  | AdmitController nat | AdmitBadBody | AdmitNotAllowed | CallbackError string

definition mesh_zero :: "bytes \<Rightarrow> bool" where
  "mesh_zero k \<longleftrightarrow> list_all (\<lambda>b. b = 0) k"

definition isMeshPeer :: "verify_server \<Rightarrow> ClientInfo option \<Rightarrow> bool" where
  "isMeshPeer s info =
     (case info of
        None \<Rightarrow> False
      | Some i \<Rightarrow> if mesh_zero (ci_MeshKey i) then False else vs_meshKey s = ci_MeshKey i)"

definition tailscaled_error :: "verify_server \<Rightarrow> whois \<Rightarrow> verify_error option" where
  "tailscaled_error s who =
     (if \<not> vs_verifyClientsLocalTailscaled s then None
      else (case who of
              WhoIsFound \<Rightarrow> None
            | WhoIsPeerNotFound \<Rightarrow> Some PeerNotAuthorized
            | WhoIsError e \<Rightarrow> if Contains e ''invalid 'addr' parameter'' then Some TailscaledTooOld else Some (TailscaledQuery e)))"

text \<open>The admission controller: \<open>Inl\<close> ends \<open>verifyClient\<close> with that result, \<open>Inr\<close> goes on.\<close>

definition controller_result :: "verify_server \<Rightarrow> admit_answer \<Rightarrow> verify_error option + unit" where
  "controller_result s ans =
     (if vs_verifyClientsURL s = [] then Inr ()
      else (case ans of
              AdmitBadRequest \<Rightarrow> Inl (Some AdmitRequest)
            | AdmitUnreachable \<Rightarrow> if vs_verifyClientsURLFailOpen s then Inl None else Inl (Some AdmitNoAnswer)
            | AdmitStatus st body \<Rightarrow>
                if st \<noteq> 200 then Inl (Some (AdmitController st))
                else (case body of
                        None \<Rightarrow> Inl (Some AdmitBadBody)
                      | Some allow \<Rightarrow> if \<not> allow then Inl (Some AdmitNotAllowed) else Inr ())))"

definition verifyClient ::
    "verify_server \<Rightarrow> whois \<Rightarrow> admit_answer \<Rightarrow> node_public \<Rightarrow> ClientInfo option \<Rightarrow> Addr \<Rightarrow> verify_error option" where
  "verifyClient s who ans clientKey info clientIP =
     (if isMeshPeer s info then None
      else (case tailscaled_error s who of
              Some e \<Rightarrow> Some e
            | None \<Rightarrow>
                (case controller_result s ans of
                   Inl r \<Rightarrow> r
                 | Inr _ \<Rightarrow>
                     (case vs_verifyClientFunc s of
                        None \<Rightarrow> None
                      | Some verify \<Rightarrow> map_option CallbackError (verify clientKey clientIP)))))"

text \<open>\<open>checkVerifyClientsLocalTailscaled\<close>: the own node key, as a prober; \<open>self\<close> is the public key that
  \<open>StatusWithoutPeers\<close> returns, if it does.\<close>

definition checkVerifyClientsLocalTailscaled :: "verify_server \<Rightarrow> node_public option \<Rightarrow> whois \<Rightarrow> admit_answer \<Rightarrow> bool" where
  "checkVerifyClientsLocalTailscaled s self who ans =
     (case self of
        None \<Rightarrow> False
      | Some k \<Rightarrow> verifyClient s who ans k (Some \<lparr>ci_MeshKey = [], ci_IsProber = True\<rparr>) (Addr6 1 []) = None)"

section \<open>The verifier as callback\<close>

text \<open>\<open>checkVerifyURL\<close>: the URL does not parse, no answer, or a status. The result is the error.\<close>

datatype url_answer = UrlUnparsable | UrlUnreachable | UrlStatus nat

datatype url_error = ErrVerifyNetwork | UrlRejected nat

definition checkVerifyURL :: "url_answer \<Rightarrow> url_error option" where
  "checkVerifyURL a =
     (case a of
        UrlUnparsable \<Rightarrow> Some ErrVerifyNetwork
      | UrlUnreachable \<Rightarrow> Some ErrVerifyNetwork
      | UrlStatus st \<Rightarrow> if 200 \<le> st \<and> st < 300 then None
                        else if st \<ge> 500 then Some ErrVerifyNetwork else Some (UrlRejected st))"

definition verifyURLs :: "(string \<Rightarrow> string \<Rightarrow> url_answer) \<Rightarrow> VerifyConfig \<Rightarrow> string \<Rightarrow> bool" where
  "verifyURLs ask cfg needle = list_ex (\<lambda>u. checkVerifyURL (ask u needle) = None) (vc_URLs cfg)"

text \<open>\<open>Runtime.VerifyClientFunc\<close>; a nil runtime or verifier is \<^term>\<open>None\<close>. The URLs are asked with the text of
  the key (\<open>kstr\<close>), the local tailscaled with the key.\<close>

record verify_world =
  vw_ask :: "string \<Rightarrow> string \<Rightarrow> url_answer"
  vw_whois :: "node_public \<Rightarrow> bool"
  vw_now :: gotime

definition VerifyClientFunc ::
    "(node_public \<Rightarrow> string) \<Rightarrow> verify_world \<Rightarrow> (VerifyConfig \<times> deviceStore) option \<Rightarrow> node_public \<Rightarrow> Addr \<Rightarrow> string option" where
  "VerifyClientFunc kstr vw v nodeKey source =
     (case v of
        None \<Rightarrow> Some ''not authorized by configured verifier''
      | Some (cfg, store) \<Rightarrow>
          if verifier_verify cfg (\<lambda>u. checkVerifyURL (vw_ask vw u (kstr nodeKey)) = None) (vw_whois vw nodeKey)
               (kstr nodeKey) (vw_now vw) store
          then None else Some ''not authorized by configured verifier'')"

section \<open>accept\<close>

text \<open>What \<open>accept\<close> meets on one connection: whether the server key and the server info can be written,
  the stream of the client, the answers of the checks.\<close>

record accept_env =
  ae_serverKeySent :: bool
  ae_serverInfoSent :: bool
  ae_stream :: bytes
  ae_remote :: AddrPort
  ae_remoteAddr :: string
  ae_notIdeal :: bool
  ae_now :: gotime
  ae_whois :: whois
  ae_admit :: admit_answer
  ae_frames :: "nat \<Rightarrow> ienv"

datatype accept_error = SendServerKeyFailed | ReceiveClientKey handshake_error | ClientRejected verify_error
  | SendServerInfoFailed | RunError frame_error

fun addr_of :: "AddrPort \<Rightarrow> Addr" where
  "addr_of (AddrPort a p) = a"

text \<open>What \<open>accept\<close> does before it serves: the error, or the registered connection and the rest of the
  stream.\<close>

definition accept_register ::
    "(node_public \<Rightarrow> string) \<Rightarrow> handshake \<Rightarrow> verify_server \<Rightarrow> accept_env \<Rightarrow> sptr \<Rightarrow> Server \<Rightarrow> accept_error + (Server \<times> bytes)" where
  "accept_register kstr h vs e c s =
     (if \<not> ae_serverKeySent e then Inl SendServerKeyFailed
      else (case recvClientKey h (ae_stream e) of
              Inl err \<Rightarrow> Inl (ReceiveClientKey err)
            | Inr (clientKey, info, br) \<Rightarrow>
                (case verifyClient vs (ae_whois e) (ae_admit e) clientKey (Some info) (addr_of (ae_remote e)) of
                   Some err \<Rightarrow> Inl (ClientRejected err)
                 | None \<Rightarrow>
                     Inr (registerClient kstr c
                            (upd_conn c (\<lambda>_. new_sclient clientKey (ae_remote e) (ae_remoteAddr e) (ae_now e)
                                (isMeshPeer vs (Some info)) (ae_notIdeal e) (ci_IsProber info)) s), br))))"

text \<open>Serving the registered connection: the server info, then the read loop. The fuel of the loop is the
  length of the stream, as every frame consumes a byte.\<close>

definition serve_conn ::
    "wire \<Rightarrow> accept_env \<Rightarrow> sptr \<Rightarrow> bytes \<Rightarrow> Server \<times> counters \<Rightarrow> (accept_error option \<times> Server \<times> counters) option" where
  "serve_conn w e c br sk =
     (if \<not> ae_serverInfoSent e then Some (Some SendServerInfoFailed, sk)
      else (case run_frames (Suc (length br)) w (ae_frames e) c br sk of
              Some (Some (err, sk)) \<Rightarrow> Some (map_option RunError err, sk)
            | _ \<Rightarrow> None))"

text \<open>All of \<open>accept\<close> for one connection, the others at rest: registration, service and the deferred
  \<open>unregisterClient\<close>. \<^term>\<open>None\<close> is a panic.\<close>

definition accept ::
    "(node_public \<Rightarrow> string) \<Rightarrow> wire \<Rightarrow> handshake \<Rightarrow> verify_server \<Rightarrow> accept_env \<Rightarrow> sptr \<Rightarrow> Server \<times> counters \<Rightarrow>
      (accept_error option \<times> Server \<times> counters) option" where
  "accept kstr w h vs e c sk =
     (case accept_register kstr h vs e c (fst sk) of
        Inl err \<Rightarrow> Some (Some err, sk)
      | Inr (s, br) \<Rightarrow>
          (case serve_conn w e c br (s, snd sk) of
             None \<Rightarrow> None
           | Some (err, s, k) \<Rightarrow> map_option (\<lambda>s. (err, s, k)) (unregisterClient c s)))"

section \<open>Decisions\<close>

text \<open> The admission decision of the server, for every configuration and every answer of the services: a
  client is admitted exactly when it is a mesh peer, or tailscaled (if asked) knows it and then
  either the admission controller cannot be reached and failing open is configured, or the controller (if
  configured) answers 200 with \<open>Allow\<close> and the callback (if set) does not object.\<close>

theorem verifyClient_decision:
  "verifyClient s who ans k info ip = None \<longleftrightarrow>
     isMeshPeer s info \<or>
     ((vs_verifyClientsLocalTailscaled s \<longrightarrow> who = WhoIsFound) \<and>
      (vs_verifyClientsURL s \<noteq> [] \<and> ans = AdmitUnreachable \<and> vs_verifyClientsURLFailOpen s \<or>
       (vs_verifyClientsURL s = [] \<or> ans = AdmitStatus 200 (Some True)) \<and>
       (\<forall>f. vs_verifyClientFunc s = Some f \<longrightarrow> f k ip = None)))"
  by (auto simp: verifyClient_def tailscaled_error_def controller_result_def split: option.splits whois.splits admit_answer.splits)

definition demo_vs :: "bool \<Rightarrow> verify_server" where
  "demo_vs failOpen = \<lparr>vs_meshKey = [1, 2], vs_verifyClientsLocalTailscaled = True, vs_verifyClientsURL = ''http://admit'',
     vs_verifyClientsURLFailOpen = failOpen, vs_verifyClientFunc = Some (\<lambda>_ _. Some ''no'')\<rparr>"

theorem verifyClient_decision_witness:
  "verifyClient (demo_vs False) WhoIsFound (AdmitStatus 200 (Some True)) [7] (Some \<lparr>ci_MeshKey = [0, 0], ci_IsProber = False\<rparr>) AddrZero \<noteq> None \<and>
   verifyClient (demo_vs False) WhoIsPeerNotFound AdmitUnreachable [7] (Some \<lparr>ci_MeshKey = [1, 2], ci_IsProber = False\<rparr>) AddrZero = None"
  using verifyClient_decision [of "demo_vs False" WhoIsFound "AdmitStatus 200 (Some True)" "[7]" "Some \<lparr>ci_MeshKey = [0, 0], ci_IsProber = False\<rparr>" AddrZero]
    verifyClient_decision [of "demo_vs False" WhoIsPeerNotFound AdmitUnreachable "[7]" "Some \<lparr>ci_MeshKey = [1, 2], ci_IsProber = False\<rparr>" AddrZero]
  by (simp add: demo_vs_def isMeshPeer_def mesh_zero_def)

text \<open> Failing open skips the callback: with an unreachable admission controller and failing open configured, a
  client that tailscaled knows is admitted whatever the callback says.\<close>

theorem fail_open_skips_callback:
  assumes "vs_verifyClientsURL s \<noteq> []" "vs_verifyClientsURLFailOpen s"
    and "vs_verifyClientsLocalTailscaled s \<Longrightarrow> who = WhoIsFound"
    and "vs_verifyClientFunc s = Some (\<lambda>_ _. Some reason)"
  shows "verifyClient s who AdmitUnreachable k info ip = None"
  using assms by (auto simp: verifyClient_def tailscaled_error_def controller_result_def)

theorem fail_open_skips_callback_witness:
  "verifyClient (demo_vs True) WhoIsFound AdmitUnreachable [7] None AddrZero = None"
  by (rule fail_open_skips_callback [where reason = "''no''"]) (simp_all add: demo_vs_def)

text \<open> With the verifier of \<open>internal/ops\<close> as the only check, as \<open>main\<close> installs it, a client that is no mesh peer is
  admitted exactly when verification is off or one of the enabled mechanisms accepts it: a URL that answers with a
  2xx status, the local tailscaled, or the fresh device list of a tailnet.\<close>

theorem verifier_or_composition:
  assumes "vs_verifyClientFunc s = Some (VerifyClientFunc kstr vw (Some (cfg, store)))"
    and "\<not> vs_verifyClientsLocalTailscaled s" and "vs_verifyClientsURL s = []" and "\<not> isMeshPeer s info"
  shows "verifyClient s who ans k info ip = None \<longleftrightarrow>
     \<not> vc_Enabled cfg \<or>
     vc_URLsEnabled cfg \<and> (\<exists>u \<in> set (vc_URLs cfg). \<exists>st. vw_ask vw u (kstr k) = UrlStatus st \<and> 200 \<le> st \<and> st < 300) \<or>
     vc_TailscaledEnabled cfg \<and> vw_whois vw k \<or>
     vc_APIEnabled cfg \<and> (\<exists>name. admits_from name (kstr k) (vw_now vw) store)"
proof -
  have url: "checkVerifyURL a = None \<longleftrightarrow> (\<exists>st. a = UrlStatus st \<and> 200 \<le> st \<and> st < 300)" for a
    by (auto simp: checkVerifyURL_def split: url_answer.split)
  have "verifyClient s who ans k info ip = None \<longleftrightarrow> VerifyClientFunc kstr vw (Some (cfg, store)) k ip = None"
    using assms by (simp add: verifyClient_def tailscaled_error_def controller_result_def)
  then show ?thesis
    by (auto simp: VerifyClientFunc_def verifier_verify_def list_ex_iff url allowed_iff)
qed

definition demo_vw :: verify_world where
  "demo_vw = \<lparr>vw_ask = (\<lambda>u _. if u = ''http://ok'' then UrlStatus 204 else UrlUnreachable), vw_whois = (\<lambda>_. False), vw_now = 0\<rparr>"

theorem verifier_or_composition_witness:
  "verifyClient \<lparr>vs_meshKey = [], vs_verifyClientsLocalTailscaled = False, vs_verifyClientsURL = [], vs_verifyClientsURLFailOpen = False,
      vs_verifyClientFunc = Some (VerifyClientFunc (\<lambda>_. ''k'') demo_vw
        (Some (demo_verify\<lparr>vc_URLsEnabled := True, vc_URLs := [''http://down'', ''http://ok'']\<rparr>, newDeviceStore demo_verify)))\<rparr>
     WhoIsPeerNotFound AdmitUnreachable [7] None AddrZero = None"
  by (subst verifier_or_composition [OF _ _ _]) (auto simp: isMeshPeer_def demo_vw_def demo_verify_def)

section \<open>Accepting\<close>

text \<open>The lengths of a key and of a nonce are constants of the protocol, far below the 32-bit limit.\<close>

definition handshake_ok :: "handshake \<Rightarrow> bool" where
  "handshake_ok h \<longleftrightarrow> unat (hs_KeyLen h) \<le> 1024 \<and> unat (hs_NonceLen h) \<le> 1024"

lemma recvClientKey_ok:
  assumes "recvClientKey h br = Inr (k, info, br')"
  shows "\<exists>fl rest msgbox msg. hs_header h br = Some (fl, rest) \<and> hs_KeyLen h + hs_NonceLen h \<le> fl \<and> fl \<le> maxClientInfo \<and>
     msgbox = take (unat (fl - hs_KeyLen h)) (drop (hs_NodePublicRawLen h) rest) \<and>
     length msgbox = unat (fl - hs_KeyLen h) \<and> k = take (hs_NodePublicRawLen h) rest \<and>
     hs_OpenFrom h k msgbox = Some msg \<and> hs_Unmarshal h msg = Some info"
  using assms by (auto simp: recvClientKey_def read_full_def not_less split: option.splits if_splits)

lemma accept_register_Inr:
  assumes "accept_register kstr h vs e c s = Inr (s', br)"
  shows "\<exists>k info. recvClientKey h (ae_stream e) = Inr (k, info, br) \<and>
     verifyClient vs (ae_whois e) (ae_admit e) k (Some info) (addr_of (ae_remote e)) = None \<and>
     s' = registerClient kstr c (upd_conn c (\<lambda>_. new_sclient k (ae_remote e) (ae_remoteAddr e) (ae_now e)
            (isMeshPeer vs (Some info)) (ae_notIdeal e) (ci_IsProber info)) s)"
  using assms by (auto simp: accept_register_def split: if_splits sum.splits option.splits)

text \<open> A connection becomes a client only after both proofs (C11): \<open>accept\<close> registers a connection under a key only if the client info
  opened with that key, in at most 256 KiB, and the checks admitted the key; otherwise the server is left as it was.\<close>

theorem accept_registers_verified:
  assumes "handshake_ok h"
  shows "case accept_register kstr h vs e c s of
     Inl err \<Rightarrow> accept kstr w h vs e c (s, k) = Some (Some err, s, k)
   | Inr (s', br) \<Rightarrow> \<exists>key info msg box. sv_key s' c = key \<and> hs_OpenFrom h key box = Some msg \<and> hs_Unmarshal h msg = Some info \<and>
       length box \<le> 262144 \<and> verifyClient vs (ae_whois e) (ae_admit e) key (Some info) (addr_of (ae_remote e)) = None \<and>
       sc_canMesh (sv_conns s' c) = isMeshPeer vs (Some info)"
proof (cases "accept_register kstr h vs e c s")
  case (Inl err)
  then show ?thesis by (simp add: accept_def)
next
  case (Inr r)
  obtain s' br where r: "r = (s', br)" by (cases r)
  from accept_register_Inr [OF Inr [unfolded r]] obtain key info where a: "recvClientKey h (ae_stream e) = Inr (key, info, br)"
    "verifyClient vs (ae_whois e) (ae_admit e) key (Some info) (addr_of (ae_remote e)) = None"
    "s' = registerClient kstr c (upd_conn c (\<lambda>_. new_sclient key (ae_remote e) (ae_remoteAddr e) (ae_now e)
            (isMeshPeer vs (Some info)) (ae_notIdeal e) (ci_IsProber info)) s)" by blast
  from recvClientKey_ok [OF a(1)] obtain fl box msg where b: "hs_KeyLen h + hs_NonceLen h \<le> fl" "fl \<le> maxClientInfo" "length box = unat (fl - hs_KeyLen h)"
    "hs_OpenFrom h key box = Some msg" "hs_Unmarshal h msg = Some info" by blast
  have "unat (hs_KeyLen h + hs_NonceLen h) = unat (hs_KeyLen h) + unat (hs_NonceLen h)"
    using assms by (simp add: handshake_ok_def unat_word_ariths)
  then have "hs_KeyLen h \<le> fl" using b(1) by (simp add: word_le_nat_alt)
  then have "unat (fl - hs_KeyLen h) \<le> unat fl" by (simp add: unat_sub word_le_nat_alt)
  moreover have "unat fl \<le> 262144" using b(2) by (simp add: maxClientInfo_def word_le_nat_alt)
  ultimately have "length box \<le> 262144" using b(3) by simp
  moreover have "sv_key s' c = key" "sc_canMesh (sv_conns s' c) = isMeshPeer vs (Some info)"
    by (simp_all add: a(3) register_simps new_sclient_def)
  ultimately show ?thesis
    using Inr r a(2) b by (simp add: exI [of _ info] exI [of _ msg] exI [of _ box])
qed



definition demo_hs :: handshake where
  "demo_hs = \<lparr>hs_KeyLen = 1, hs_NonceLen = 1, hs_NodePublicRawLen = 1,
     hs_header = (\<lambda>br. case br of [] \<Rightarrow> None | l # rest \<Rightarrow> Some (ucast l, rest)),
     hs_OpenFrom = (\<lambda>k box. if k = [7] then Some box else None), hs_Unmarshal = (\<lambda>_. Some \<lparr>ci_MeshKey = [0], ci_IsProber = False\<rparr>)\<rparr>"

definition demo_accept :: accept_env where
  "demo_accept = \<lparr>ae_serverKeySent = True, ae_serverInfoSent = True, ae_stream = [3, 7, 5, 6, 2, 9], ae_remote = AddrPort_zero,
     ae_remoteAddr = [], ae_notIdeal = False, ae_now = 5, ae_whois = WhoIsFound, ae_admit = AdmitUnreachable, ae_frames = (\<lambda>_. demo_env)\<rparr>"

definition open_vs :: verify_server where
  "open_vs = \<lparr>vs_meshKey = [1], vs_verifyClientsLocalTailscaled = False, vs_verifyClientsURL = [], vs_verifyClientsURLFailOpen = False,
     vs_verifyClientFunc = None\<rparr>"

theorem accept_registers_verified_witness:
  "\<exists>s' br. accept_register (\<lambda>_. ''k'') demo_hs open_vs demo_accept 9 (sy_srv (demo_state lastWriterIsActive)) = Inr (s', br) \<and>
     verifyClient open_vs WhoIsFound AdmitUnreachable (sv_key s' 9) (Some \<lparr>ci_MeshKey = [0], ci_IsProber = False\<rparr>) AddrZero = None"
proof -
  have ok: "handshake_ok demo_hs" by (simp add: handshake_ok_def demo_hs_def)
  have r: "recvClientKey demo_hs (ae_stream demo_accept) = Inr ([7], \<lparr>ci_MeshKey = [0], ci_IsProber = False\<rparr>, [2, 9])"
    by (simp add: recvClientKey_def demo_hs_def demo_accept_def maxClientInfo_def read_full_def)
  have v: "verifyClient open_vs a b k (Some \<lparr>ci_MeshKey = [0], ci_IsProber = False\<rparr>) ip = None" for a b k ip
    by (simp add: verifyClient_def open_vs_def isMeshPeer_def mesh_zero_def tailscaled_error_def controller_result_def)
  have sent: "ae_serverKeySent demo_accept" by (simp add: demo_accept_def)
  obtain s' br where a: "accept_register (\<lambda>_. ''k'') demo_hs open_vs demo_accept 9 (sy_srv (demo_state lastWriterIsActive)) = Inr (s', br)"
    using sent by (simp add: accept_register_def r v)
  from accept_registers_verified [OF ok, where kstr = "\<lambda>_. ''k''" and vs = open_vs and e = demo_accept and c = 9 and
      s = "sy_srv (demo_state lastWriterIsActive)" and w = demo_wire and k = zero_counters] a
  show ?thesis using v by auto
qed


end
