(* ===== verification/SendLoop.thy ===== *)
theory SendLoop
  imports Frames
begin

text \<open>
  Writing frames: \<open>sclient.sendLoop\<close> of \<^verbatim>\<open>derpserver.go\<close>, the frames it writes and the cleanup when it ends.

  \<^item> The frame header (\<open>derp.WriteFrameHeader\<close>) and the byte values of reasons and flags are fields of
    \<open>sendwire\<close>.
  \<^item> \<open>fails n\<close> says whether write number \<open>n\<close> to the connection fails. Deadlines of writes are not part of the state.
  \<^item> A \<open>send_event\<close> is the branch one \<open>select\<close> takes; \<open>EvArrive\<close> is a packet queued meanwhile by another
    connection. The averages and histograms of the metrics are not modelled.
\<close>

section \<open>State\<close>

datatype OutFrame = FrameServerKey | FrameServerInfo | FrameRecvPacket | FrameKeepAlive | FramePong
  | FramePeerGone | FramePeerPresent

record sendwire =
  sw_header :: "OutFrame \<Rightarrow> uint32 \<Rightarrow> bytes"
  sw_reason :: "PeerGoneReason \<Rightarrow> uint8"
  sw_flag :: "PeerPresentFlag \<Rightarrow> uint8"
  sw_KeyLen :: nat
  sw_Magic :: bytes

record send_stats =
  packetsSent :: int
  bytesSent :: int
  sentPong :: int
  peerGoneDisconnectedFrames :: int
  peerGoneNotHereFrames :: int

record sender =
  sn_srv :: Server
  sn_cnt :: counters
  sn_stat :: send_stats
  sn_out :: bytes
  sn_writes :: nat

text \<open>A write of the buffered writer; \<open>False\<close> for an error.\<close>

definition bw_write :: "(nat \<Rightarrow> bool) \<Rightarrow> bytes \<Rightarrow> sender \<Rightarrow> bool \<times> sender" where
  "bw_write fails p x =
     (let y = x\<lparr>sn_writes := Suc (sn_writes x)\<rparr>
      in if fails (sn_writes x) then (False, y) else (True, y\<lparr>sn_out := sn_out x @ p\<rparr>))"

text \<open>A header and then a payload, stopping at the first error.\<close>

definition write_frame :: "(nat \<Rightarrow> bool) \<Rightarrow> bytes \<Rightarrow> bytes \<Rightarrow> sender \<Rightarrow> bool \<times> sender" where
  "write_frame fails hdr payload x =
     (let (ok, x) = bw_write fails hdr x in if ok then bw_write fails payload x else (False, x))"

section \<open>Frames\<close>

definition server_key_payload :: "sendwire \<Rightarrow> node_public \<Rightarrow> bytes" where
  "server_key_payload w pub = sw_Magic w @ pub"

definition sendServerKey :: "sendwire \<Rightarrow> (nat \<Rightarrow> bool) \<Rightarrow> sender \<Rightarrow> bool \<times> sender" where
  "sendServerKey w fails x =
     (let buf = server_key_payload w (sv_publicKey (sn_srv x))
      in write_frame fails (sw_header w FrameServerKey (word_of_nat (length buf))) buf x)"

text \<open>\<open>msgbox\<close> is the sealed server info.\<close>

definition sendServerInfo :: "sendwire \<Rightarrow> (nat \<Rightarrow> bool) \<Rightarrow> bytes \<Rightarrow> sender \<Rightarrow> bool \<times> sender" where
  "sendServerInfo w fails msgbox x = write_frame fails (sw_header w FrameServerInfo (word_of_nat (length msgbox))) msgbox x"

definition sendKeepAlive :: "sendwire \<Rightarrow> (nat \<Rightarrow> bool) \<Rightarrow> sender \<Rightarrow> bool \<times> sender" where
  "sendKeepAlive w fails x = bw_write fails (sw_header w FrameKeepAlive 0) x"

definition sendPong :: "sendwire \<Rightarrow> (nat \<Rightarrow> bool) \<Rightarrow> bytes \<Rightarrow> sender \<Rightarrow> bool \<times> sender" where
  "sendPong w fails data x =
     write_frame fails (sw_header w FramePong (word_of_nat (length data))) data
       (x\<lparr>sn_stat := (sn_stat x)\<lparr>sentPong := sentPong (sn_stat x) + 1\<rparr>\<rparr>)"

definition peer_gone_payload :: "sendwire \<Rightarrow> node_public \<Rightarrow> PeerGoneReason \<Rightarrow> bytes" where
  "peer_gone_payload w peer reason = peer @ [sw_reason w reason]"

definition sendPeerGone :: "sendwire \<Rightarrow> (nat \<Rightarrow> bool) \<Rightarrow> node_public \<Rightarrow> PeerGoneReason \<Rightarrow> sender \<Rightarrow> bool \<times> sender" where
  "sendPeerGone w fails peer reason x =
     (let st = sn_stat x;
          st = (case reason of
                  PeerGoneReasonDisconnected \<Rightarrow> st\<lparr>peerGoneDisconnectedFrames := peerGoneDisconnectedFrames st + 1\<rparr>
                | PeerGoneReasonNotHere \<Rightarrow> st\<lparr>peerGoneNotHereFrames := peerGoneNotHereFrames st + 1\<rparr>);
          data = peer_gone_payload w peer reason
      in write_frame fails (sw_header w FramePeerGone (word_of_nat (length data))) data (x\<lparr>sn_stat := st\<rparr>))"

definition peerPresentFrameLen :: "sendwire \<Rightarrow> nat" where
  "peerPresentFrameLen w = sw_KeyLen w + 16 + 2 + 1"

definition flags_byte :: "sendwire \<Rightarrow> PeerPresentFlag list \<Rightarrow> uint8" where
  "flags_byte w fs = fold (\<lambda>f acc. acc OR sw_flag w f) fs 0"

fun present_payload :: "sendwire \<Rightarrow> node_public \<Rightarrow> AddrPort \<Rightarrow> PeerPresentFlag list \<Rightarrow> bytes" where
  "present_payload w peer (AddrPort a port) flags =
     peer @ be_bytes 16 (unat (As16 a)) @ be_bytes 2 (unat port) @ [flags_byte w flags]"

definition sendPeerPresent :: "sendwire \<Rightarrow> (nat \<Rightarrow> bool) \<Rightarrow> node_public \<Rightarrow> AddrPort \<Rightarrow> PeerPresentFlag list \<Rightarrow> sender \<Rightarrow> bool \<times> sender" where
  "sendPeerPresent w fails peer ipPort flags x =
     write_frame fails (sw_header w FramePeerPresent (word_of_nat (peerPresentFrameLen w))) (present_payload w peer ipPort flags) x"

text \<open>One batch of \<open>sendMeshUpdates\<close>, and the loop: \<open>later\<close> holds the entries other goroutines add while a batch is
  written. The loop takes everything queued until it finds the queue empty.\<close>

fun send_batch :: "sendwire \<Rightarrow> (nat \<Rightarrow> bool) \<Rightarrow> peerConnState list \<Rightarrow> sender \<Rightarrow> bool \<times> sender" where
  "send_batch w fails [] x = (True, x)"
| "send_batch w fails (p # ps) x =
     (let (ok, x) = (if pcs_present p then sendPeerPresent w fails (pcs_peer p) (pcs_ipPort p) (pcs_flags p) x
                     else sendPeerGone w fails (pcs_peer p) PeerGoneReasonDisconnected x)
      in if ok then send_batch w fails ps x else (False, x))"

definition set_changes :: "sptr \<Rightarrow> peerConnState list \<Rightarrow> sender \<Rightarrow> sender" where
  "set_changes c q x = x\<lparr>sn_srv := upd_conn c (sc_peerStateChange_update (\<lambda>_. q)) (sn_srv x)\<rparr>"

fun sendMeshUpdates :: "sendwire \<Rightarrow> (nat \<Rightarrow> bool) \<Rightarrow> sptr \<Rightarrow> peerConnState list list \<Rightarrow> sender \<Rightarrow> bool \<times> sender" where
  "sendMeshUpdates w fails c [] x =
     (case sc_peerStateChange (sv_conns (sn_srv x) c) of
        [] \<Rightarrow> (True, x)
      | batch \<Rightarrow> send_batch w fails batch (set_changes c [] x))"
| "sendMeshUpdates w fails c (new # later) x =
     (case sc_peerStateChange (sv_conns (sn_srv x) c) of
        [] \<Rightarrow> (True, x)
      | batch \<Rightarrow>
          (let (ok, x) = send_batch w fails batch (set_changes c new x)
           in if ok then sendMeshUpdates w fails c later x else (False, x)))"

section \<open>Packets\<close>

definition key_zero :: "node_public \<Rightarrow> bool" where
  "key_zero k \<longleftrightarrow> list_all (\<lambda>b. b = 0) k"

text \<open>The writes of \<open>sendPacket\<close>.\<close>

definition write_packet :: "sendwire \<Rightarrow> (nat \<Rightarrow> bool) \<Rightarrow> node_public \<Rightarrow> bytes \<Rightarrow> sender \<Rightarrow> bool \<times> sender" where
  "write_packet w fails srcKey contents x =
     (let withKey = \<not> key_zero srcKey;
          pktLen = length contents + (if withKey then sw_KeyLen w else 0);
          (ok, x) = bw_write fails (sw_header w FrameRecvPacket (word_of_nat pktLen)) x
      in if \<not> ok then (False, x)
         else if withKey then write_frame fails srcKey contents x
         else bw_write fails contents x)"

text \<open>\<open>sendPacket\<close> with its deferred accounting; \<^term>\<open>None\<close> for a panic of the tracker.\<close>

definition sendPacket :: "wire \<Rightarrow> sendwire \<Rightarrow> (nat \<Rightarrow> bool) \<Rightarrow> sptr \<Rightarrow> node_public \<Rightarrow> bytes \<Rightarrow> sender \<Rightarrow> (bool \<times> sender) option" where
  "sendPacket wr w fails c srcKey contents x =
     (let x = (if key_zero srcKey then x else x\<lparr>sn_srv := noteSendFromSrc c srcKey (sn_srv x)\<rparr>);
          (ok, x) = write_packet w fails srcKey contents x
      in if \<not> ok then Some (False, x\<lparr>sn_cnt := recordDrop wr contents dropReasonWriteError (sn_cnt x)\<rparr>)
         else (case track (Send c (length contents)) (sn_srv x) of
                 None \<Rightarrow> None
               | Some s \<Rightarrow>
                   Some (True, x\<lparr>sn_srv := s,
                      sn_stat := (sn_stat x)\<lparr>packetsSent := packetsSent (sn_stat x) + 1,
                                              bytesSent := bytesSent (sn_stat x) + int (length contents)\<rparr>\<rparr>)))"

section \<open>The loop\<close>

datatype send_event = EvDone | EvPeerGone node_public PeerGoneReason | EvMesh "peerConnState list list" | EvPacket | EvDisco
  | EvPong bytes | EvKeepAlive | EvFlush bool | EvArrive bool pkt

definition send_queue :: "bool \<Rightarrow> sclient \<Rightarrow> pkt list" where
  "send_queue disco c = (if disco then sc_discoSendQueue c else sc_sendQueue c)"

definition set_send_queue :: "bool \<Rightarrow> pkt list \<Rightarrow> sclient \<Rightarrow> sclient" where
  "set_send_queue disco q c = (if disco then c\<lparr>sc_discoSendQueue := q\<rparr> else c\<lparr>sc_sendQueue := q\<rparr>)"

definition dequeue_send :: "wire \<Rightarrow> sendwire \<Rightarrow> (nat \<Rightarrow> bool) \<Rightarrow> sptr \<Rightarrow> bool \<Rightarrow> sender \<Rightarrow> (bool \<times> sender) option" where
  "dequeue_send wr w fails c disco x =
     (case send_queue disco (sv_conns (sn_srv x) c) of
        [] \<Rightarrow> Some (True, x)
      | p # q \<Rightarrow> sendPacket wr w fails c (pk_src p) (pk_bs p)
                   (x\<lparr>sn_srv := upd_conn c (set_send_queue disco q) (sn_srv x)\<rparr>))"

text \<open>The effect of one branch: whether the loop goes on, and the state.\<close>

fun send_step :: "wire \<Rightarrow> sendwire \<Rightarrow> (nat \<Rightarrow> bool) \<Rightarrow> sptr \<Rightarrow> send_event \<Rightarrow> sender \<Rightarrow> (bool \<times> sender) option" where
  "send_step wr w fails c EvDone x = Some (False, x)"
| "send_step wr w fails c (EvPeerGone peer reason) x = Some (sendPeerGone w fails peer reason x)"
| "send_step wr w fails c (EvMesh later) x = Some (sendMeshUpdates w fails c later x)"
| "send_step wr w fails c EvPacket x = dequeue_send wr w fails c False x"
| "send_step wr w fails c EvDisco x = dequeue_send wr w fails c True x"
| "send_step wr w fails c (EvPong data) x = Some (sendPong w fails data x)"
| "send_step wr w fails c EvKeepAlive x = Some (sendKeepAlive w fails x)"
| "send_step wr w fails c (EvFlush ok) x = Some (ok, x)"
| "send_step wr w fails c (EvArrive disco p) x =
     Some (True, x\<lparr>sn_srv := upd_conn c (\<lambda>k. set_send_queue disco (send_queue disco k @ [p]) k) (sn_srv x)\<rparr>)"

definition drain :: "wire \<Rightarrow> pkt list \<Rightarrow> counters \<Rightarrow> counters" where
  "drain wr ps k = fold (\<lambda>p. recordDrop wr (pk_bs p) dropReasonGoneDisconnected) ps k"

definition onSendLoopDone :: "wire \<Rightarrow> sptr \<Rightarrow> sender \<Rightarrow> sender" where
  "onSendLoopDone wr c x =
     (let me = sv_conns (sn_srv x) c;
          s = fold (\<lambda>(peer, h). removePeerGoneFromRegionWatcher peer h) (sorted_list_of_fmap (sc_sawSrc me)) (sn_srv x)
      in x\<lparr>sn_cnt := drain wr (sc_sendQueue me @ sc_discoSendQueue me) (sn_cnt x),
           sn_srv := upd_conn c (\<lambda>k. k\<lparr>sc_sendQueue := [], sc_discoSendQueue := []\<rparr>) s\<rparr>)"

text \<open>The loop over the branches it takes, ended by \<open>ctx.Done\<close> or a write error, and its deferred cleanup. A
  loop that has taken all its branches is ended by the context.\<close>

fun sendLoop :: "wire \<Rightarrow> sendwire \<Rightarrow> (nat \<Rightarrow> bool) \<Rightarrow> sptr \<Rightarrow> send_event list \<Rightarrow> sender \<Rightarrow> sender option" where
  "sendLoop wr w fails c [] x = Some (onSendLoopDone wr c x)"
| "sendLoop wr w fails c (ev # evs) x =
     (case send_step wr w fails c ev x of
        None \<Rightarrow> None
      | Some (go, x) \<Rightarrow> if go then sendLoop wr w fails c evs x else Some (onSendLoopDone wr c x))"

section \<open>Encodings\<close>

lemma bw_write_simps [simp]:
  "sn_srv (snd (bw_write fails p x)) = sn_srv x" "sn_cnt (snd (bw_write fails p x)) = sn_cnt x"
  "sn_stat (snd (bw_write fails p x)) = sn_stat x"
  by (simp_all add: bw_write_def Let_def)

lemma write_frame_simps [simp]:
  "sn_srv (snd (write_frame fails h p x)) = sn_srv x" "sn_cnt (snd (write_frame fails h p x)) = sn_cnt x"
  "sn_stat (snd (write_frame fails h p x)) = sn_stat x"
  by (simp_all add: write_frame_def case_prod_beta)

lemma write_packet_simps [simp]:
  "sn_srv (snd (write_packet w fails k p x)) = sn_srv x" "sn_cnt (snd (write_packet w fails k p x)) = sn_cnt x"
  "sn_stat (snd (write_packet w fails k p x)) = sn_stat x"
  by (simp_all add: write_packet_def Let_def case_prod_beta)

text \<open>How a reader of the protocol takes a peer-present payload apart.\<close>

definition parse_present :: "nat \<Rightarrow> bytes \<Rightarrow> node_public \<times> 128 word \<times> uint16 \<times> uint8" where
  "parse_present keyLen bs =
     (take keyLen bs, word_of_nat (be_value (take 16 (drop keyLen bs))),
      word_of_nat (be_value (take 2 (drop (keyLen + 16) bs))), bs ! (keyLen + 18))"

text \<open> A peer-present frame carries what it announces: the payload has exactly the length of the header, and
  reading it back gives the key, the address in its 16-byte form, the port and the flags.\<close>

theorem present_roundtrip:
  assumes "length peer = sw_KeyLen w"
  shows "length (present_payload w peer (AddrPort a port) flags) = peerPresentFrameLen w \<and>
     parse_present (sw_KeyLen w) (present_payload w peer (AddrPort a port) flags) = (peer, As16 a, port, flags_byte w flags)"
  using assms by (simp add: parse_present_def peerPresentFrameLen_def be_value_word nth_append drop_append)

definition demo_sendwire :: sendwire where
  "demo_sendwire = \<lparr>sw_header = (\<lambda>t n. [case t of FrameRecvPacket \<Rightarrow> 5 | _ \<Rightarrow> 9, ucast n]),
     sw_reason = (\<lambda>r. case r of PeerGoneReasonDisconnected \<Rightarrow> 0 | PeerGoneReasonNotHere \<Rightarrow> 1),
     sw_flag = (\<lambda>f. case f of PeerPresentIsRegular \<Rightarrow> 1 | PeerPresentIsMeshPeer \<Rightarrow> 2 | PeerPresentIsProber \<Rightarrow> 4 | PeerPresentNotIdeal \<Rightarrow> 8),
     sw_KeyLen = 2, sw_Magic = [68]\<rparr>"

theorem present_roundtrip_witness:
  "parse_present 2 (present_payload demo_sendwire [7, 8] (AddrPort (Addr4 0x01020304) 3340) [PeerPresentIsMeshPeer, PeerPresentNotIdeal]) =
     ([7, 8], 0xffff01020304, 3340, 10)"
  using present_roundtrip [of "[7, 8]" demo_sendwire "Addr4 0x01020304" 3340 "[PeerPresentIsMeshPeer, PeerPresentNotIdeal]"]
  by (simp add: demo_sendwire_def flags_byte_def)

section \<open>Accounting\<close>

definition tracker_live :: "Server \<Rightarrow> bool" where
  "tracker_live s \<longleftrightarrow> (\<forall>t. sv_peerTracker s = Some t \<longrightarrow> tracker_inv t)"

definition queued :: "sptr \<Rightarrow> sender \<Rightarrow> int" where
  "queued c x = int (length (sc_sendQueue (sv_conns (sn_srv x) c)) + length (sc_discoSendQueue (sv_conns (sn_srv x) c)))"

text \<open>The packets sent or counted as dropped, and those still queued.\<close>

definition accounted :: "sptr \<Rightarrow> sender \<Rightarrow> int" where
  "accounted c x = packetsSent (sn_stat x) + dropped_total (sn_cnt x) + queued c x"

lemma tracker_live_Send:
  assumes "tracker_live s"
  obtains s' where "track (Send c n) s = Some s'" "tracker_live s'" "sv_conns s' = sv_conns s"
proof (cases "sv_peerTracker s")
  case None
  then show thesis using assms by (intro that [of s]) (auto simp: track_def)
next
  case (Some t)
  then have "tracker_inv t" using assms by (simp add: tracker_live_def)
  from acct.send_ok [OF this, of c n] obtain t' where "Send c n t = Some t'" "tracker_inv t'" by blast
  with Some show thesis by (intro that [of "s\<lparr>sv_peerTracker := Some t'\<rparr>"]) (auto simp: track_def tracker_live_def)
qed

lemma noteSendFromSrc_queues [simp]:
  "sc_sendQueue (sv_conns (noteSendFromSrc c k s) i) = sc_sendQueue (sv_conns s i)"
  "sc_discoSendQueue (sv_conns (noteSendFromSrc c k s) i) = sc_discoSendQueue (sv_conns s i)"
  "sv_peerTracker (noteSendFromSrc c k s) = sv_peerTracker s"
  by (simp_all add: noteSendFromSrc_def addPeerGoneFromRegionWatcher_def Let_def upd_conn_def split: option.split)

lemma sendPacket_accounts:
  assumes "tracker_live (sn_srv x)"
  shows "\<exists>ok x'. sendPacket wr w fails c k bs x = Some (ok, x') \<and> tracker_live (sn_srv x') \<and>
     accounted c x' = accounted c x + 1 \<and> queued c x' = queued c x"
proof -
  let ?x = "if key_zero k then x else x\<lparr>sn_srv := noteSendFromSrc c k (sn_srv x)\<rparr>"
  obtain ok x1 where w: "write_packet w fails k bs ?x = (ok, x1)" by (cases "write_packet w fails k bs ?x")
  have x1: "sn_srv x1 = sn_srv ?x" "sn_cnt x1 = sn_cnt x" "sn_stat x1 = sn_stat x"
    using write_packet_simps [of w fails k bs ?x] w by auto
  have live: "tracker_live (sn_srv x1)" using assms by (auto simp: x1 tracker_live_def)
  from tracker_live_Send [OF live] obtain s' where s': "track (Send c (length bs)) (sn_srv x1) = Some s'" "tracker_live s'"
    "sv_conns s' = sv_conns (sn_srv x1)" .
  show ?thesis
    using live s' w x1 by (auto simp: sendPacket_def Let_def accounted_def queued_def dropped_total_record)
qed


text \<open>A step that touches neither the queues nor the packet counters.\<close>

definition same_packets :: "sptr \<Rightarrow> sender \<Rightarrow> sender \<Rightarrow> bool" where
  "same_packets c x x' \<longleftrightarrow> tracker_live (sn_srv x') = tracker_live (sn_srv x) \<and> accounted c x' = accounted c x \<and> queued c x' = queued c x"

lemma same_packetsI:
  "sn_srv x' = sn_srv x \<Longrightarrow> sn_cnt x' = sn_cnt x \<Longrightarrow> packetsSent (sn_stat x') = packetsSent (sn_stat x) \<Longrightarrow> same_packets c x x'"
  by (simp add: same_packets_def accounted_def queued_def)

lemma same_packets_trans: "same_packets c x y \<Longrightarrow> same_packets c y z \<Longrightarrow> same_packets c x z"
  by (simp add: same_packets_def)

lemma frames_same:
  "same_packets c x (snd (sendPeerGone w fails peer r x))" "same_packets c x (snd (sendPeerPresent w fails peer ap fl x))"
  "same_packets c x (snd (sendPong w fails d x))" "same_packets c x (snd (sendKeepAlive w fails x))"
  by (intro same_packetsI; simp add: sendPeerGone_def sendPeerPresent_def sendPong_def sendKeepAlive_def Let_def split: PeerGoneReason.split)+

lemma send_batch_same: "same_packets c x (snd (send_batch w fails b x))"
proof (induction b arbitrary: x)
  case Nil
  then show ?case by (simp add: same_packets_def)
next
  case (Cons p b)
  let ?r = "if pcs_present p then sendPeerPresent w fails (pcs_peer p) (pcs_ipPort p) (pcs_flags p) x
            else sendPeerGone w fails (pcs_peer p) PeerGoneReasonDisconnected x"
  have "same_packets c x (snd ?r)" by (simp add: frames_same)
  then show ?case using Cons.IH [of "snd ?r"] by (auto simp: case_prod_beta Let_def intro: same_packets_trans)
qed

lemma set_changes_same: "same_packets c x (set_changes c q x)"
  by (simp add: same_packets_def set_changes_def accounted_def queued_def tracker_live_def)

lemma sendMeshUpdates_same: "same_packets c x (snd (sendMeshUpdates w fails c later x))"
proof (induction later arbitrary: x)
  case Nil
  have "same_packets c x (snd (send_batch w fails b (set_changes c [] x)))" for b
    by (rule same_packets_trans [OF set_changes_same send_batch_same])
  then show ?case by (auto simp: same_packets_def simp del: send_batch.simps split: list.split)
next
  case (Cons new later)
  have "same_packets c x (snd (send_batch w fails b (set_changes c new x)))" for b
    by (rule same_packets_trans [OF set_changes_same send_batch_same])
  with Cons.IH show ?case
    by (auto simp: case_prod_beta Let_def same_packets_def simp del: send_batch.simps split: list.split)
qed

lemma upd_queue [simp]:
  "sc_sendQueue (set_send_queue d q k) = (if d then sc_sendQueue k else q)"
  "sc_discoSendQueue (set_send_queue d q k) = (if d then q else sc_discoSendQueue k)"
  by (simp_all add: set_send_queue_def)

lemma dequeue_send_accounts:
  assumes "tracker_live (sn_srv x)"
  shows "\<exists>ok x'. dequeue_send wr w fails c d x = Some (ok, x') \<and> tracker_live (sn_srv x') \<and> accounted c x' = accounted c x"
proof (cases "send_queue d (sv_conns (sn_srv x) c)")
  case Nil
  then show ?thesis using assms by (auto simp: dequeue_send_def)
next
  case (Cons p q)
  let ?x = "x\<lparr>sn_srv := upd_conn c (set_send_queue d q) (sn_srv x)\<rparr>"
  have "accounted c ?x = accounted c x - 1"
    using Cons by (auto simp: accounted_def queued_def send_queue_def upd_conn_def split: if_splits)
  moreover have "tracker_live (sn_srv ?x)" using assms by (simp add: tracker_live_def upd_conn_def)
  ultimately show ?thesis
    using sendPacket_accounts [of ?x wr w fails c "pk_src p" "pk_bs p"] Cons by (auto simp: dequeue_send_def)
qed

definition is_arrive :: "send_event \<Rightarrow> bool" where
  "is_arrive ev = (case ev of EvArrive _ _ \<Rightarrow> True | _ \<Rightarrow> False)"

lemma send_step_accounts:
  assumes live: "tracker_live (sn_srv x)"
  shows "\<exists>go x'. send_step wr w fails c ev x = Some (go, x') \<and> tracker_live (sn_srv x') \<and>
     accounted c x' = accounted c x + of_bool (is_arrive ev)"
proof -
  have frame: "\<exists>go x'. Some r = Some (go, x') \<and> tracker_live (sn_srv x') \<and> accounted c x' = accounted c x + of_bool False"
    if "same_packets c x (snd r)" for r :: "bool \<times> sender"
    using that live by (cases r) (simp add: same_packets_def)
  show ?thesis
  proof (cases ev)
    case (EvArrive d p)
    then show ?thesis
      using live by (auto simp: is_arrive_def tracker_live_def accounted_def queued_def send_queue_def upd_conn_def)
  qed (use live frame frames_same sendMeshUpdates_same dequeue_send_accounts in \<open>auto simp: is_arrive_def\<close>)
qed

text \<open>The packets that arrive while the loop runs.\<close>

fun arrived :: "wire \<Rightarrow> sendwire \<Rightarrow> (nat \<Rightarrow> bool) \<Rightarrow> sptr \<Rightarrow> send_event list \<Rightarrow> sender \<Rightarrow> nat" where
  "arrived wr w fails c [] x = 0"
| "arrived wr w fails c (ev # evs) x =
     (case send_step wr w fails c ev x of
        None \<Rightarrow> 0
      | Some (go, x) \<Rightarrow> of_bool (is_arrive ev) + (if go then arrived wr w fails c evs x else 0))"

lemma fold_remove_conns:
  "sv_conns (fold (\<lambda>(peer, h). removePeerGoneFromRegionWatcher peer h) l s) = sv_conns s"
  by (induction l arbitrary: s) (auto simp: removePeerGoneFromRegionWatcher_def Let_def split: option.split)

lemma onSendLoopDone_accounts:
  "queued c (onSendLoopDone wr c x) = 0" "accounted c (onSendLoopDone wr c x) = accounted c x"
  by (simp_all add: onSendLoopDone_def Let_def queued_def accounted_def drain_def dropped_total_fold fold_remove_conns upd_conn_def)


definition demo_sender :: sender where
  "demo_sender = \<lparr>sn_srv = upd_conn 2 (sc_sendQueue_update (\<lambda>_. [\<lparr>pk_enqueuedAt = 0, pk_bs = [1, 2], pk_src = [7, 7]\<rparr>]))
       (NewServer [] lastWriterIsActive None), sn_cnt = zero_counters,
     sn_stat = \<lparr>packetsSent = 0, bytesSent = 0, sentPong = 0, peerGoneDisconnectedFrames = 0, peerGoneNotHereFrames = 0\<rparr>,
     sn_out = [], sn_writes = 0\<rparr>"


end
