(* ===== verification/DerpMap.thy ===== *)
theory DerpMap
  imports Devices
begin

text \<open>
  \<^verbatim>\<open>internal/ops/derpmap.go\<close> with the policy calls of \<^verbatim>\<open>tailnet_api.go\<close>: the relay's own node is published into, and
  withdrawn from, the DERP map of a tailnet policy.

  \<^item> The parser and printer of \<^verbatim>\<open>github.com/tailscale/hujson\<close> and its literals are the fields of \<open>hujson\<close>; its syntax
    tree is \<open>hval\<close>, with the white space and comments before and after a value, so a tree determines the text.
  \<^item> In-place changes through pointers are functional updates along the path from the root.
  \<^item> The policy API is a document with its ETag; \<open>policy_api\<close> holds what other writers do in between.
\<close>

section \<open>Syntax trees\<close>

datatype hval = HV string htrim string
  and htrim = HLit string | HObj "(hval \<times> hval) list" string | HArr "hval list" string

type_synonym members = "(hval \<times> hval) list"

record hujson =
  hj_Parse :: "string \<Rightarrow> hval option"
  hj_Pack :: "hval \<Rightarrow> string"
  hj_Kind :: "string \<Rightarrow> char"
  hj_AsString :: "string \<Rightarrow> string"
  hj_AsInt :: "string \<Rightarrow> int"
  hj_String :: "string \<Rightarrow> string"
  hj_Int :: "int \<Rightarrow> string"
  hj_Bool :: "bool \<Rightarrow> string"

record Endpoint =
  ep_IPv4 :: string
  ep_IPv6 :: string
  ep_DERPPort :: uint16
  ep_STUNPort :: int
  ep_Method :: string
  ep_LeaseUntil :: "gotime option"

datatype patch_error = BadHuJSON | RootNotObject | DerpMapNotObject | RegionsNotObject | RegionNotObject | NodesNotArray
  | OwnershipUnclear string | ManagedMismatch string | NodeNotObject | NodeNameNotString | EndpointRequired | ForeignNodes

fun tval :: "hval \<Rightarrow> htrim" where
  "tval (HV b t a) = t"

fun with_tval :: "htrim \<Rightarrow> hval \<Rightarrow> hval" where
  "with_tval t (HV b _ a) = HV b t a"

definition mk_val :: "htrim \<Rightarrow> hval" where
  "mk_val t = HV [] t []"

section \<open>Object members\<close>

fun name_is :: "hujson \<Rightarrow> string \<Rightarrow> hval \<times> hval \<Rightarrow> bool" where
  "name_is H name (HV _ (HLit raw) _, _) = (hj_Kind H raw = CHR 0x22 \<and> EqualFold (hj_AsString H raw) name)"
| "name_is H name _ = False"

text \<open>\<open>objectMember\<close>: the index of the first member with the name, up to case.\<close>

fun objectMember :: "hujson \<Rightarrow> string \<Rightarrow> members \<Rightarrow> nat option" where
  "objectMember H name [] = None"
| "objectMember H name (m # ms) = (if name_is H name m then Some 0 else map_option Suc (objectMember H name ms))"

definition member_value :: "hujson \<Rightarrow> string \<Rightarrow> members \<Rightarrow> htrim option" where
  "member_value H name ms = map_option (\<lambda>i. tval (snd (ms ! i))) (objectMember H name ms)"

definition new_member :: "hujson \<Rightarrow> string \<Rightarrow> htrim \<Rightarrow> hval \<times> hval" where
  "new_member H name t = (mk_val (HLit (hj_String H name)), mk_val t)"

definition appendObjectMember :: "hujson \<Rightarrow> string \<Rightarrow> htrim \<Rightarrow> members \<Rightarrow> members" where
  "appendObjectMember H name t ms = ms @ [new_member H name t]"

definition removeObjectMember :: "hujson \<Rightarrow> string \<Rightarrow> members \<Rightarrow> members" where
  "removeObjectMember H name ms = (case objectMember H name ms of None \<Rightarrow> ms | Some i \<Rightarrow> take i ms @ drop (Suc i) ms)"

text \<open>A store through the pointer to the value of member \<open>i\<close>.\<close>

definition put :: "nat \<Rightarrow> htrim \<Rightarrow> members \<Rightarrow> members" where
  "put i t ms = ms[i := (fst (ms ! i), with_tval t (snd (ms ! i)))]"

definition set_member :: "hujson \<Rightarrow> string \<Rightarrow> htrim \<Rightarrow> members \<Rightarrow> members" where
  "set_member H name t ms = (case objectMember H name ms of None \<Rightarrow> appendObjectMember H name t ms | Some i \<Rightarrow> put i t ms)"

definition setObjectString :: "hujson \<Rightarrow> string \<Rightarrow> string \<Rightarrow> members \<Rightarrow> members" where
  "setObjectString H name value = set_member H name (HLit (hj_String H value))"

definition setObjectInt :: "hujson \<Rightarrow> string \<Rightarrow> int \<Rightarrow> members \<Rightarrow> members" where
  "setObjectInt H name value = set_member H name (HLit (hj_Int H value))"

definition setObjectBool :: "hujson \<Rightarrow> string \<Rightarrow> bool \<Rightarrow> members \<Rightarrow> members" where
  "setObjectBool H name value = set_member H name (HLit (hj_Bool H value))"

definition requireMatchingInt :: "hujson \<Rightarrow> string \<Rightarrow> int \<Rightarrow> members \<Rightarrow> patch_error option" where
  "requireMatchingInt H name expected ms =
     (case member_value H name ms of
        None \<Rightarrow> None
      | Some (HLit raw) \<Rightarrow> if hj_Kind H raw \<noteq> CHR ''0'' \<or> hj_AsInt H raw \<noteq> expected then Some (ManagedMismatch name) else None
      | Some _ \<Rightarrow> Some (ManagedMismatch name))"

definition requireOwnedInt :: "hujson \<Rightarrow> string \<Rightarrow> int \<Rightarrow> members \<Rightarrow> patch_error option" where
  "requireOwnedInt H name expected ms =
     (if member_value H name ms = None then Some (OwnershipUnclear name) else requireMatchingInt H name expected ms)"

text \<open>\<open>findNode\<close>: the index of the node, and its members.\<close>

fun findNode :: "hujson \<Rightarrow> string \<Rightarrow> hval list \<Rightarrow> patch_error + (nat \<times> members \<times> string) option" where
  "findNode H name [] = Inr None"
| "findNode H name (HV b (HObj ms ex) a # es) =
     (let rest = (case findNode H name es of
                    Inl e \<Rightarrow> Inl e | Inr None \<Rightarrow> Inr None | Inr (Some (i, r)) \<Rightarrow> Inr (Some (Suc i, r)))
      in case member_value H ''Name'' ms of
           None \<Rightarrow> rest
         | Some (HLit raw) \<Rightarrow>
             if hj_Kind H raw \<noteq> CHR 0x22 then Inl NodeNameNotString
             else if hj_AsString H raw = name then Inr (Some (0, ms, ex)) else rest
         | Some _ \<Rightarrow> Inl NodeNameNotString)"
| "findNode H name (_ # es) = Inl NodeNotObject"

section \<open>Publishing\<close>

text \<open>The members written to the node and to the region.\<close>

definition publish_node :: "hujson \<Rightarrow> APIConfig \<Rightarrow> Endpoint \<Rightarrow> members \<Rightarrow> members" where
  "publish_node H cfg v ms0 =
     (let ms = setObjectString H ''name'' (ac_NodeName cfg) ms0;
          ms = setObjectInt H ''regionID'' (ac_RegionID cfg) ms;
          ms = setObjectString H ''hostName'' (ac_Hostname cfg) ms;
          ms = (if ep_IPv4 v = [] then removeObjectMember H ''ipv4'' ms else setObjectString H ''ipv4'' (ep_IPv4 v) ms);
          ms = (if ep_IPv6 v = [] then removeObjectMember H ''ipv6'' ms else setObjectString H ''ipv6'' (ep_IPv6 v) ms);
          ms = setObjectInt H ''derpPort'' (uint (ep_DERPPort v)) ms;
          ms = setObjectInt H ''stunPort'' (ep_STUNPort v) ms;
          ms = (if ac_CertName cfg = [] then removeObjectMember H ''CertName'' ms else setObjectString H ''certName'' (ac_CertName cfg) ms)
      in if ac_StunOnly cfg then setObjectBool H ''stunOnly'' True ms else removeObjectMember H ''stunOnly'' ms)"

definition publish_meta :: "hujson \<Rightarrow> APIConfig \<Rightarrow> members \<Rightarrow> members" where
  "publish_meta H cfg ms =
     setObjectInt H ''regionID'' (ac_RegionID cfg)
       (setObjectString H ''regionName'' (ac_RegionName cfg) (setObjectString H ''regionCode'' (ac_RegionCode cfg) ms))"

text \<open>A member found up to case, or appended.\<close>

definition get_or_add :: "hujson \<Rightarrow> string \<Rightarrow> string \<Rightarrow> htrim \<Rightarrow> members \<Rightarrow> members \<times> nat \<times> htrim" where
  "get_or_add H name added t ms =
     (case objectMember H name ms of
        Some i \<Rightarrow> (ms, i, tval (snd (ms ! i)))
      | None \<Rightarrow> (appendObjectMember H added t ms, length ms, t))"

definition publish_region :: "hujson \<Rightarrow> APIConfig \<Rightarrow> Endpoint option \<Rightarrow> bool \<Rightarrow> members \<Rightarrow> patch_error + members" where
  "publish_region H cfg value regionExists ms =
     (case (if regionExists then requireOwnedInt H ''RegionID'' (ac_RegionID cfg) ms else None) of
        Some e \<Rightarrow> Inl e
      | None \<Rightarrow>
          (case get_or_add H ''Nodes'' ''nodes'' (HArr [] []) ms of
             (ms, ni, HArr es ex) \<Rightarrow>
               (case findNode H (ac_NodeName cfg) es of
                  Inl e \<Rightarrow> Inl e
                | Inr found \<Rightarrow>
                    (case value of
                       None \<Rightarrow> Inl EndpointRequired
                     | Some v \<Rightarrow>
                         (case found of
                            None \<Rightarrow>
                              if regionExists then Inl ForeignNodes
                              else Inr (publish_meta H cfg (put ni (HArr (es @ [mk_val (HObj (publish_node H cfg v []) [])]) ex) ms))
                          | Some (i, node, nex) \<Rightarrow>
                              (case requireOwnedInt H ''RegionID'' (ac_RegionID cfg) node of
                                 Some e \<Rightarrow> Inl e
                               | None \<Rightarrow>
                                   Inr (publish_meta H cfg
                                     (put ni (HArr (es[i := with_tval (HObj (publish_node H cfg v node) nex) (es ! i)]) ex) ms))))))
           | _ \<Rightarrow> Inl NodesNotArray))"

definition publish_root :: "hujson \<Rightarrow> APIConfig \<Rightarrow> Endpoint option \<Rightarrow> members \<Rightarrow> patch_error + members" where
  "publish_root H cfg value rt =
     (case get_or_add H ''derpMap'' ''derpMap'' (HObj [] []) rt of
        (rt, di, HObj dm dex) \<Rightarrow>
          (case get_or_add H ''Regions'' ''regions'' (HObj [] []) dm of
             (dm, ri, HObj rs rex) \<Rightarrow>
               (let regionExists = objectMember H (Itoa (ac_RegionID cfg)) rs \<noteq> None in
                case get_or_add H (Itoa (ac_RegionID cfg)) (Itoa (ac_RegionID cfg)) (HObj [] []) rs of
                  (rs, gi, HObj reg gex) \<Rightarrow>
                    (case publish_region H cfg value regionExists reg of
                       Inl e \<Rightarrow> Inl e
                     | Inr reg' \<Rightarrow> Inr (put di (HObj (put ri (HObj (put gi (HObj reg' gex) rs) rex) dm) dex) rt))
                | _ \<Rightarrow> Inl RegionNotObject)
           | _ \<Rightarrow> Inl RegionsNotObject)
      | _ \<Rightarrow> Inl DerpMapNotObject)"

section \<open>Withdrawing\<close>

definition del_at :: "nat \<Rightarrow> 'a list \<Rightarrow> 'a list" where
  "del_at i xs = take i xs @ drop (Suc i) xs"

text \<open>The array of nodes without the own node: the error, nothing to do (\<^term>\<open>None\<close>), or the rest.\<close>

definition withdraw_nodes :: "hujson \<Rightarrow> APIConfig \<Rightarrow> members \<Rightarrow> patch_error + (nat \<times> hval list \<times> string) option" where
  "withdraw_nodes H cfg reg =
     (case requireOwnedInt H ''RegionID'' (ac_RegionID cfg) reg of
        Some e \<Rightarrow> Inl e
      | None \<Rightarrow>
          (case objectMember H ''Nodes'' reg of
             None \<Rightarrow> Inr None
           | Some ni \<Rightarrow>
               (case tval (snd (reg ! ni)) of
                  HArr es ex \<Rightarrow>
                    (case findNode H (ac_NodeName cfg) es of
                       Inl e \<Rightarrow> Inl e
                     | Inr None \<Rightarrow> Inr None
                     | Inr (Some (i, node, _)) \<Rightarrow>
                         (case requireOwnedInt H ''RegionID'' (ac_RegionID cfg) node of
                            Some e \<Rightarrow> Inl e
                          | None \<Rightarrow> Inr (Some (ni, del_at i es, ex))))
                | _ \<Rightarrow> Inl NodesNotArray)))"

text \<open>The tree after the node has gone; an emptied region, an emptied region list and an emptied map go with it.\<close>

definition withdraw_root :: "hujson \<Rightarrow> APIConfig \<Rightarrow> members \<Rightarrow> patch_error + members option" where
  "withdraw_root H cfg rt =
     (case objectMember H ''derpMap'' rt of
        None \<Rightarrow> Inr None
      | Some di \<Rightarrow>
          (case tval (snd (rt ! di)) of
             HObj dm dex \<Rightarrow>
               (case objectMember H ''Regions'' dm of
                  None \<Rightarrow> Inr None
                | Some ri \<Rightarrow>
                    (case tval (snd (dm ! ri)) of
                       HObj rs rex \<Rightarrow>
                         (case objectMember H (Itoa (ac_RegionID cfg)) rs of
                            None \<Rightarrow> Inr None
                          | Some gi \<Rightarrow>
                              (case tval (snd (rs ! gi)) of
                                 HObj reg gex \<Rightarrow>
                                   (case withdraw_nodes H cfg reg of
                                      Inl e \<Rightarrow> Inl e
                                    | Inr None \<Rightarrow> Inr None
                                    | Inr (Some (ni, es, ex)) \<Rightarrow>
                                        if es \<noteq> [] then
                                          Inr (Some (put di (HObj (put ri (HObj (put gi (HObj (put ni (HArr es ex) reg) gex) rs) rex) dm) dex) rt))
                                        else
                                          (let rs' = del_at gi rs;
                                               dm' = put ri (HObj rs' rex) dm;
                                               dm' = (if rs' = [] then removeObjectMember H ''Regions'' dm' else dm')
                                           in if dm' = [] then Inr (Some (del_at di rt))
                                              else Inr (Some (put di (HObj dm' dex) rt))))
                               | _ \<Rightarrow> Inl RegionNotObject))
                     | _ \<Rightarrow> Inl RegionsNotObject))
           | _ \<Rightarrow> Inl DerpMapNotObject))"

text \<open>\<open>patchDERPMap\<close>: the new text and whether it differs.\<close>

definition patchDERPMap :: "hujson \<Rightarrow> string \<Rightarrow> APIConfig \<Rightarrow> Endpoint option \<Rightarrow> bool \<Rightarrow> patch_error + (string \<times> bool)" where
  "patchDERPMap H source cfg value withdraw =
     (case hj_Parse H source of
        None \<Rightarrow> Inl BadHuJSON
      | Some (HV b (HObj rt ex) a) \<Rightarrow>
          (let pack = (\<lambda>ms. let packed = hj_Pack H (HV b (HObj ms ex) a) in Inr (packed, packed \<noteq> source))
           in if withdraw then
                (case withdraw_root H cfg rt of
                   Inl e \<Rightarrow> Inl e
                 | Inr None \<Rightarrow> Inr (source, False)
                 | Inr (Some ms) \<Rightarrow> pack ms)
              else (case publish_root H cfg value rt of Inl e \<Rightarrow> Inl e | Inr ms \<Rightarrow> pack ms))
      | Some _ \<Rightarrow> Inl RootNotObject)"

section \<open>Reconciliation with the policy API\<close>

record policy_doc =
  pd_HuJSON :: string
  pd_ETag :: string

text \<open>What happens at attempt \<open>i\<close>: failures of the three calls, the cancellation of the context during the delay, and
  what other writers make of the policy between reading and setting it. \<open>pe_etag\<close> is the ETag the API gives a text.\<close>

record policy_env =
  pe_raw :: "nat \<Rightarrow> api_error option"
  pe_validate :: "nat \<Rightarrow> api_error option"
  pe_set :: "nat \<Rightarrow> api_error option"
  pe_done :: "nat \<Rightarrow> bool"
  pe_others :: "nat \<Rightarrow> policy_doc \<Rightarrow> policy_doc"
  pe_etag :: "string \<Rightarrow> string"

datatype reconcile_error = RcInstance op_error | RcAPI api_error | RcPatch patch_error | RcContext | RcConflicts

definition policyUpdateAttempts :: nat where
  "policyUpdateAttempts = 3"

definition isPolicyConflict :: "api_error \<Rightarrow> bool" where
  "isPolicyConflict e = (case e of APIErr status _ \<Rightarrow> status = 412 \<or> status = 409 | NetworkErr \<Rightarrow> False)"

text \<open>\<open>setPolicyUnlocked\<close> at attempt \<open>i\<close>: validate, then set; the API refuses an outdated ETag with status 412.\<close>

definition setPolicyUnlocked :: "policy_env \<Rightarrow> nat \<Rightarrow> string \<Rightarrow> string \<Rightarrow> policy_doc \<Rightarrow> api_error option \<times> policy_doc" where
  "setPolicyUnlocked pe i text etag doc =
     (case pe_validate pe i of
        Some e \<Rightarrow> (Some e, doc)
      | None \<Rightarrow>
          (case pe_set pe i of
             Some e \<Rightarrow> (Some e, doc)
           | None \<Rightarrow>
               if etag \<noteq> pd_ETag doc then (Some (APIErr 412 ''precondition failed''), doc)
               else (None, \<lparr>pd_HuJSON = text, pd_ETag = pe_etag pe text\<rparr>)))"

fun reconcile_attempts ::
    "policy_env \<Rightarrow> hujson \<Rightarrow> APIConfig \<Rightarrow> Endpoint option \<Rightarrow> bool \<Rightarrow> nat \<Rightarrow> nat \<Rightarrow> policy_doc \<Rightarrow> reconcile_error option \<times> policy_doc" where
  "reconcile_attempts pe H cfg value withdraw i 0 doc = (Some RcConflicts, doc)"
| "reconcile_attempts pe H cfg value withdraw i (Suc n) doc =
     (case pe_raw pe i of
        Some e \<Rightarrow> (Some (RcAPI e), doc)
      | None \<Rightarrow>
          (case patchDERPMap H (pd_HuJSON doc) cfg value withdraw of
             Inl e \<Rightarrow> (Some (RcPatch e), doc)
           | Inr (updated, changed) \<Rightarrow>
               if \<not> changed then (None, doc)
               else (case setPolicyUnlocked pe i updated (pd_ETag doc) (pe_others pe i doc) of
                       (None, doc) \<Rightarrow> (None, doc)
                     | (Some e, doc) \<Rightarrow>
                         if isPolicyConflict e \<and> Suc i < policyUpdateAttempts
                         then (if pe_done pe i then (Some RcContext, doc)
                               else reconcile_attempts pe H cfg value withdraw (Suc i) n doc)
                         else (Some (RcAPI e), doc))))"

definition reconcileDERPMap ::
    "deviceStore \<Rightarrow> policy_env \<Rightarrow> hujson \<Rightarrow> APIConfig \<Rightarrow> Endpoint option \<Rightarrow> bool \<Rightarrow> policy_doc \<Rightarrow> reconcile_error option \<times> policy_doc" where
  "reconcileDERPMap s pe H cfg value withdraw doc =
     (case apiInstance s (ac_Name cfg) of
        Inl e \<Rightarrow> (Some (RcInstance e), doc)
      | Inr _ \<Rightarrow> reconcile_attempts pe H cfg value withdraw 0 policyUpdateAttempts doc)"

datatype instance_state = IsPublished | IsWithdrawn | IsError reconcile_error

record InstanceStatus =
  is_Name :: string
  is_Label :: string
  is_State :: instance_state
  is_LastAttempt :: gotime
  is_LastSuccess :: "gotime option"

text \<open>\<open>reconcileDERPMaps\<close>: every instance that takes part, one after the other; \<open>envs\<close> and \<open>docs\<close> by name. \<open>certName\<close> is
  the name of the certificate provider, if one is set.\<close>

fun reconcile_instances ::
    "deviceStore \<Rightarrow> (string \<Rightarrow> policy_env) \<Rightarrow> hujson \<Rightarrow> gotime \<Rightarrow> string option \<Rightarrow> Endpoint option \<Rightarrow> bool \<Rightarrow> APIConfig list \<Rightarrow>
      (string \<Rightarrow> policy_doc) \<Rightarrow> InstanceStatus list \<times> (string \<Rightarrow> policy_doc)" where
  "reconcile_instances s envs H now certName value withdraw [] docs = ([], docs)"
| "reconcile_instances s envs H now certName value withdraw (cfg0 # cfgs) docs =
     (if \<not> ac_DERPMapSync cfg0 then reconcile_instances s envs H now certName value withdraw cfgs docs
      else
        (let cfg = (case certName of None \<Rightarrow> cfg0 | Some n \<Rightarrow> cfg0\<lparr>ac_CertName := n\<rparr>);
             (err, doc) = reconcileDERPMap s (envs (ac_Name cfg)) H cfg value withdraw (docs (ac_Name cfg));
             status = \<lparr>is_Name = ac_Name cfg, is_Label = ac_Label cfg,
                       is_State = (case err of Some e \<Rightarrow> IsError e | None \<Rightarrow> if withdraw then IsWithdrawn else IsPublished),
                       is_LastAttempt = truncate_second now,
                       is_LastSuccess = (if err = None then Some (truncate_second now) else None)\<rparr>;
             (rest, docs) = reconcile_instances s envs H now certName value withdraw cfgs (docs(ac_Name cfg := doc))
         in (status # rest, docs)))"

definition reconcileDERPMaps where
  "reconcileDERPMaps s envs H now certName value withdraw docs =
     (let (st, docs) = reconcile_instances s envs H now certName value withdraw (ds_configs s) docs
      in (st, list_ex (\<lambda>x. case is_State x of IsError _ \<Rightarrow> True | _ \<Rightarrow> False) st, docs))"

end
