(* ===== verification/DerpMapSync.thy ===== *)
theory DerpMapSync
  imports DerpMap
begin

text \<open>
  What the reconciliation of \<open>DerpMap\<close> guarantees: members of an object by their names up to case, the own node as a list
  of settings, idempotence, the frame (nothing of others is touched), the round trip of publishing and withdrawing, and
  freedom from lost updates.
\<close>

section \<open>Members by name\<close>

text \<open>The laws of literals: what is written is read back.\<close>

definition hujson_ok :: "hujson \<Rightarrow> bool" where
  "hujson_ok H \<longleftrightarrow> (\<forall>s. hj_Kind H (hj_String H s) = CHR 0x22 \<and> hj_AsString H (hj_String H s) = s) \<and>
     (\<forall>i. hj_Kind H (hj_Int H i) = CHR ''0'' \<and> hj_AsInt H (hj_Int H i) = i)"

definition key_of :: "hujson \<Rightarrow> hval \<times> hval \<Rightarrow> string option" where
  "key_of H m = (case tval (fst m) of HLit raw \<Rightarrow> if hj_Kind H raw = CHR 0x22 then Some (ToLower (hj_AsString H raw)) else None | _ \<Rightarrow> None)"

lemma name_is_key: "name_is H n m \<longleftrightarrow> key_of H m = Some (ToLower n)"
  by (cases m; cases "fst m"; cases "tval (fst m)") (auto simp: key_of_def EqualFold_def)

lemma key_of_put [simp]: "key_of H (fst m, v) = key_of H m"
  by (simp add: key_of_def)

lemma key_of_new [simp]: "hujson_ok H \<Longrightarrow> key_of H (new_member H n t) = Some (ToLower n)"
  by (simp add: key_of_def new_member_def mk_val_def hujson_ok_def)

lemma objectMember_Some:
  "objectMember H n ms = Some i \<Longrightarrow> i < length ms \<and> key_of H (ms ! i) = Some (ToLower n)"
  by (induction ms arbitrary: i) (auto simp: name_is_key split: if_splits)

lemma objectMember_None: "objectMember H n ms = None \<longleftrightarrow> (\<forall>m \<in> set ms. key_of H m \<noteq> Some (ToLower n))"
  by (induction ms) (auto simp: name_is_key)

lemma objectMember_cong: "map (key_of H) ms = map (key_of H) ms' \<Longrightarrow> objectMember H n ms = objectMember H n ms'"
proof (induction ms arbitrary: ms')
  case (Cons m ms)
  then show ?case by (cases ms') (auto simp: name_is_key)
qed simp

lemma objectMember_fold: "ToLower n = ToLower n' \<Longrightarrow> objectMember H n ms = objectMember H n' ms"
  by (induction ms) (auto simp: name_is_key)

lemma objectMember_append:
  "objectMember H n (ms @ ms') =
     (case objectMember H n ms of Some i \<Rightarrow> Some i | None \<Rightarrow> map_option (\<lambda>i. length ms + i) (objectMember H n ms'))"
proof (induction ms)
  case Nil
  then show ?case by (cases "objectMember H n ms'") auto
next
  case (Cons m ms)
  then show ?case by (cases "objectMember H n ms'") (auto split: option.split)
qed

lemma tval_with_tval [simp]: "tval (with_tval t v) = t"
  by (cases v) simp

lemma with_tval_id [simp]: "with_tval (tval v) v = v"
  by (cases v) simp

lemma with_tval_twice [simp]: "with_tval t (with_tval t' v) = with_tval t v"
  by (cases v) simp

lemma length_put [simp]: "length (put i t ms) = length ms"
  by (simp add: put_def)

lemma put_nth [simp]: "i < length ms \<Longrightarrow> put i t ms ! i = (fst (ms ! i), with_tval t (snd (ms ! i)))"
  "i < length ms \<Longrightarrow> j \<noteq> i \<Longrightarrow> put i t ms ! j = ms ! j"
  by (simp_all add: put_def)

lemma put_put [simp]: "put i t (put i t' ms) = put i t ms"
  by (cases "i < length ms") (simp_all add: put_def list_update_beyond)

lemma put_id: "i < length ms \<Longrightarrow> tval (snd (ms ! i)) = t \<Longrightarrow> put i t ms = ms"
  by (auto simp: put_def intro: list_update_same_conv [THEN iffD2])

lemma keys_put [simp]: "map (key_of H) (put i t ms) = map (key_of H) ms"
  by (cases "i < length ms") (auto simp: put_def map_update list_update_beyond intro: list_update_same_conv [THEN iffD2])

lemma objectMember_put [simp]: "objectMember H n (put i t ms) = objectMember H n ms"
  by (rule objectMember_cong) simp

lemma put_append: "i < length ms \<Longrightarrow> put i t (ms @ ms') = put i t ms @ ms'"
  by (simp add: put_def list_update_append nth_append)

section \<open>Values by name\<close>

lemma member_value_put:
  "i < length ms \<Longrightarrow> member_value H n (put i t ms) = (if objectMember H n ms = Some i then Some t else member_value H n ms)"
  by (cases "objectMember H n ms") (auto simp: member_value_def)

lemma member_value_fold: "ToLower n = ToLower n' \<Longrightarrow> member_value H n ms = member_value H n' ms"
  by (simp add: member_value_def objectMember_fold [of n n'])

lemma member_value_None: "member_value H n ms = None \<longleftrightarrow> objectMember H n ms = None"
  by (simp add: member_value_def)

lemma member_value_append:
  assumes "hujson_ok H"
  shows "member_value H n (appendObjectMember H m t ms) =
     (case member_value H n ms of Some v \<Rightarrow> Some v | None \<Rightarrow> if ToLower n = ToLower m then Some t else None)"
proof (cases "objectMember H n ms")
  case None
  then show ?thesis
    using assms by (auto simp: member_value_def appendObjectMember_def objectMember_append name_is_key, simp add: new_member_def mk_val_def)
next
  case (Some i)
  then show ?thesis
    by (auto simp: member_value_def appendObjectMember_def objectMember_append nth_append dest: objectMember_Some)
qed

lemma objectMember_same_index:
  assumes "objectMember H n ms = Some i" "objectMember H m ms = Some i"
  shows "ToLower n = ToLower m"
  using assms by (auto dest!: objectMember_Some)

text \<open>Setting a member: that name has the value, every other name keeps its own.\<close>

lemma member_value_set:
  assumes ok: "hujson_ok H"
  shows "member_value H n (set_member H m t ms) = (if ToLower n = ToLower m then Some t else member_value H n ms)"
proof (cases "objectMember H m ms")
  case None
  then have "member_value H m ms = None" by (simp add: member_value_None)
  with None show ?thesis
    using member_value_fold [of n m H ms]
    by (auto simp: set_member_def member_value_append [OF ok] split: option.split)
next
  case (Some i)
  then show ?thesis
    using objectMember_Some [OF Some] objectMember_same_index [of H n ms i m] objectMember_fold [of n m H ms]
    by (auto simp: set_member_def member_value_put)
qed

lemma set_member_id: "member_value H n ms = Some t \<Longrightarrow> set_member H n t ms = ms"
  by (auto simp: member_value_def set_member_def put_id objectMember_Some [THEN conjunct1])

text \<open>No two members of one object with the same name up to case.\<close>

definition tidy :: "hujson \<Rightarrow> members \<Rightarrow> bool" where
  "tidy H ms \<longleftrightarrow> distinct (filter (\<lambda>k. k \<noteq> None) (map (key_of H) ms))"

lemma tidy_set: "hujson_ok H \<Longrightarrow> tidy H ms \<Longrightarrow> tidy H (set_member H m t ms)"
  by (auto simp: tidy_def set_member_def appendObjectMember_def objectMember_None split: option.split)

lemma removeObjectMember_eq: "removeObjectMember H m ms =
    (case objectMember H m ms of None \<Rightarrow> ms | Some i \<Rightarrow> del_at i ms)"
  by (simp add: removeObjectMember_def del_at_def split: option.split)

lemma tidy_remove: "tidy H ms \<Longrightarrow> tidy H (removeObjectMember H m ms)"
proof (cases "objectMember H m ms")
  case (Some i)
  assume "tidy H ms"
  moreover have "ms = take i ms @ ms ! i # drop (Suc i) ms" using objectMember_Some [OF Some] by (simp add: id_take_nth_drop)
  then have "map (key_of H) ms = map (key_of H) (take i ms) @ key_of H (ms ! i) # map (key_of H) (drop (Suc i) ms)"
    by (metis list.simps(9) map_append)
  ultimately show ?thesis using Some by (auto simp: tidy_def removeObjectMember_def split: if_splits)
qed (simp add: removeObjectMember_def)

lemma member_value_remove:
  assumes "tidy H ms"
  shows "member_value H n (removeObjectMember H m ms) = (if ToLower n = ToLower m then None else member_value H n ms)"
  using assms
proof (induction ms)
  case Nil
  then show ?case by (simp add: removeObjectMember_def member_value_def)
next
  case (Cons x ms)
  have td: "tidy H ms" using Cons.prems by (auto simp: tidy_def split: if_splits)
  show ?case
  proof (cases "name_is H m x")
    case True
    then have k: "key_of H x = Some (ToLower m)" by (simp add: name_is_key)
    then have "Some (ToLower m) \<notin> key_of H ` set ms" using Cons.prems by (simp add: tidy_def)
    then have "\<forall>y \<in> set ms. key_of H y \<noteq> Some (ToLower m)" by (metis image_eqI)
    then have "objectMember H m ms = None" by (simp add: objectMember_None)
    moreover have "objectMember H n ms = None" if "ToLower n = ToLower m" using calculation objectMember_fold [OF that] by simp
    ultimately show ?thesis
      using True k by (auto simp: removeObjectMember_def member_value_def name_is_key option.map_comp comp_def)
  next
    case False
    then have r: "removeObjectMember H m (x # ms) = x # removeObjectMember H m ms"
      by (simp add: removeObjectMember_def split: option.split)
    have c: "member_value H n (x # ys) = (if name_is H n x then Some (tval (snd x)) else member_value H n ys)" for ys
      by (simp add: member_value_def option.map_comp comp_def)
    show ?thesis using Cons.IH [OF td] False by (auto simp: r c name_is_key)
  qed
qed

lemma remove_id: "member_value H n ms = None \<Longrightarrow> removeObjectMember H n ms = ms"
  by (simp add: member_value_None removeObjectMember_def)


section \<open>The own node\<close>

lemmas set_defs = setObjectString_def setObjectInt_def setObjectBool_def

lemma fold_names:
  "ToLower ''name'' = ''name''" "ToLower ''Name'' = ''name''" "ToLower ''regionID'' = ''regionid''" "ToLower ''RegionID'' = ''regionid''"
  "ToLower ''hostName'' = ''hostname''" "ToLower ''ipv4'' = ''ipv4''" "ToLower ''ipv6'' = ''ipv6''" "ToLower ''derpPort'' = ''derpport''"
  "ToLower ''stunPort'' = ''stunport''" "ToLower ''CertName'' = ''certname''" "ToLower ''certName'' = ''certname''"
  "ToLower ''stunOnly'' = ''stunonly''" "ToLower ''regionCode'' = ''regioncode''" "ToLower ''regionName'' = ''regionname''"
  "ToLower ''Nodes'' = ''nodes''" "ToLower ''nodes'' = ''nodes''" "ToLower ''Regions'' = ''regions''" "ToLower ''regions'' = ''regions''"
  "ToLower ''derpMap'' = ''derpmap''"
  by (simp_all add: ToLower_def to_lower_char_def char_code_def char_of_def bit_iff_odd)

text \<open>The values a published node has, by name.\<close>

definition node_spec :: "hujson \<Rightarrow> APIConfig \<Rightarrow> Endpoint \<Rightarrow> string \<Rightarrow> htrim option \<Rightarrow> htrim option" where
  "node_spec H cfg v n old =
     (let k = ToLower n; str = (\<lambda>s. if s = [] then None else Some (HLit (hj_String H s)))
      in if k = ''name'' then Some (HLit (hj_String H (ac_NodeName cfg)))
         else if k = ''regionid'' then Some (HLit (hj_Int H (ac_RegionID cfg)))
         else if k = ''hostname'' then Some (HLit (hj_String H (ac_Hostname cfg)))
         else if k = ''ipv4'' then str (ep_IPv4 v)
         else if k = ''ipv6'' then str (ep_IPv6 v)
         else if k = ''derpport'' then Some (HLit (hj_Int H (uint (ep_DERPPort v))))
         else if k = ''stunport'' then Some (HLit (hj_Int H (ep_STUNPort v)))
         else if k = ''certname'' then str (ac_CertName cfg)
         else if k = ''stunonly'' then (if ac_StunOnly cfg then Some (HLit (hj_Bool H True)) else None)
         else old)"

text \<open>The effect of setting, or of removing when there is no value.\<close>

definition set_opt :: "hujson \<Rightarrow> string \<Rightarrow> htrim option \<Rightarrow> members \<Rightarrow> members" where
  "set_opt H n t ms = (case t of None \<Rightarrow> removeObjectMember H n ms | Some t \<Rightarrow> set_member H n t ms)"

lemma tidy_set_opt: "hujson_ok H \<Longrightarrow> tidy H ms \<Longrightarrow> tidy H (set_opt H n t ms)"
  by (simp add: set_opt_def tidy_set tidy_remove split: option.split)

lemma member_value_set_opt:
  "hujson_ok H \<Longrightarrow> tidy H ms \<Longrightarrow> member_value H n (set_opt H m t ms) = (if ToLower n = ToLower m then t else member_value H n ms)"
  by (simp add: set_opt_def member_value_set member_value_remove split: option.split)

lemma set_opt_id: "member_value H n ms = t \<Longrightarrow> set_opt H n t ms = ms"
  by (auto simp: set_opt_def set_member_id remove_id split: option.split)

text \<open>A sequence of such settings.\<close>

definition set_all :: "hujson \<Rightarrow> (string \<times> htrim option) list \<Rightarrow> members \<Rightarrow> members" where
  "set_all H ps ms = fold (\<lambda>(n, t). set_opt H n t) ps ms"

lemma set_all_value:
  assumes "hujson_ok H" "tidy H ms" "distinct (map (ToLower \<circ> fst) ps)"
  shows "tidy H (set_all H ps ms)"
    and "member_value H n (set_all H ps ms) = (case map_of (map (\<lambda>(m, t). (ToLower m, t)) ps) (ToLower n) of Some t \<Rightarrow> t | None \<Rightarrow> member_value H n ms)"
  using assms(2,3)
proof (induction ps arbitrary: ms)
  case Nil
  { case 1 then show ?case by (simp add: set_all_def) }
  { case 2 then show ?case by (simp add: set_all_def) }
next
  case (Cons p ps)
  obtain m t where p: "p = (m, t)" by (cases p)
  { case 1 then show ?case using Cons.IH(1) [of "set_opt H m t ms"] assms(1) by (simp add: p set_all_def tidy_set_opt) }
  { case 2
    then have "map_of (map (\<lambda>(m, t). (ToLower m, t)) ps) (ToLower m) = None"
      by (auto simp: map_of_eq_None_iff image_iff p)
    moreover have "member_value H n (set_all H (p # ps) ms) = member_value H n (set_all H ps (set_opt H m t ms))"
      by (simp add: p set_all_def)
    ultimately show ?case
      using Cons.IH(2) [of "set_opt H m t ms"] 2 assms(1)
      by (auto simp: p tidy_set_opt member_value_set_opt split: option.split) }
qed

lemma set_all_id: "\<forall>(n, t) \<in> set ps. member_value H n ms = t \<Longrightarrow> set_all H ps ms = ms"
proof (induction ps)
  case (Cons p ps)
  then show ?case by (cases p) (simp add: set_all_def set_opt_id)
qed (simp add: set_all_def)

definition node_settings :: "hujson \<Rightarrow> APIConfig \<Rightarrow> Endpoint \<Rightarrow> (string \<times> htrim option) list" where
  "node_settings H cfg v = map (\<lambda>n. (n, node_spec H cfg v n None))
     [''name'', ''regionID'', ''hostName'', ''ipv4'', ''ipv6'', ''derpPort'', ''stunPort'', ''certName'', ''stunOnly'']"

lemma remove_CertName: "removeObjectMember H ''CertName'' ms = removeObjectMember H ''certName'' ms"
  using objectMember_fold [of "''CertName''" "''certName''" H ms] by (simp add: removeObjectMember_def fold_names)

lemma publish_node_settings: "publish_node H cfg v ms = set_all H (node_settings H cfg v) ms"
  by (simp add: publish_node_def node_settings_def set_all_def node_spec_def Let_def set_opt_def fold_names set_defs remove_CertName)

lemma node_settings_distinct: "distinct (map (ToLower \<circ> fst) (node_settings H cfg v))"
  by (simp add: node_settings_def fold_names)

lemma publish_node_value:
  assumes "hujson_ok H" "tidy H ms"
  shows "member_value H n (publish_node H cfg v ms) = node_spec H cfg v n (member_value H n ms)"
  using set_all_value(2) [OF assms node_settings_distinct [of H cfg v], where n = n]
  by (simp add: publish_node_settings) (simp add: node_settings_def node_spec_def fold_names Let_def)

lemma publish_node_idem:
  assumes "hujson_ok H" "tidy H ms"
  shows "publish_node H cfg v (publish_node H cfg v ms) = publish_node H cfg v ms"
proof -
  let ?m = "publish_node H cfg v ms"
  have "member_value H n ?m = node_spec H cfg v n None" if "(n, node_spec H cfg v n None) \<in> set (node_settings H cfg v)" for n
    using that by (auto simp: publish_node_value [OF assms] node_settings_def node_spec_def fold_names Let_def)
  then have "\<forall>(n, t) \<in> set (node_settings H cfg v). member_value H n ?m = t"
    by (fastforce simp: node_settings_def)
  then show ?thesis by (simp add: publish_node_settings [of H cfg v ?m] set_all_id)
qed


section \<open>Nodes\<close>

definition named :: "hujson \<Rightarrow> string \<Rightarrow> members \<Rightarrow> bool" where
  "named H name ms \<longleftrightarrow> (\<exists>raw. member_value H ''Name'' ms = Some (HLit raw) \<and> hj_Kind H raw = CHR 0x22 \<and> hj_AsString H raw = name)"

lemma findNode_named:
  "findNode H name (HV b (HObj ms ex) a # es) =
     (if named H name ms then Inr (Some (0, ms, ex))
      else (case member_value H ''Name'' ms of
              Some (HLit raw) \<Rightarrow> if hj_Kind H raw \<noteq> CHR 0x22 then Inl NodeNameNotString
                 else (case findNode H name es of Inl e \<Rightarrow> Inl e | Inr None \<Rightarrow> Inr None | Inr (Some (i, r)) \<Rightarrow> Inr (Some (Suc i, r)))
            | Some _ \<Rightarrow> Inl NodeNameNotString
            | None \<Rightarrow> (case findNode H name es of Inl e \<Rightarrow> Inl e | Inr None \<Rightarrow> Inr None | Inr (Some (i, r)) \<Rightarrow> Inr (Some (Suc i, r)))))"
  by (auto simp: named_def Let_def split: option.split htrim.split)

lemma findNode_Some:
  assumes "findNode H name es = Inr (Some (i, node, ex))"
  shows "i < length es \<and> (\<exists>b a. es ! i = HV b (HObj node ex) a) \<and> named H name node \<and>
     (\<forall>node'. named H name node' \<longrightarrow> findNode H name (es[i := with_tval (HObj node' ex) (es ! i)]) = Inr (Some (i, node', ex)))"
  using assms
proof (induction es arbitrary: i)
  case Nil
  then show ?case by simp
next
  case (Cons e es)
  obtain b t a where e: "e = HV b t a" by (cases e)
  show ?case
  proof (cases t)
    case (HObj ms x)
    show ?thesis
    proof (cases "named H name ms")
      case True
      then show ?thesis using Cons.prems by (auto simp: e HObj findNode_named simp del: findNode.simps)
    next
      case False
      then obtain j where j: "findNode H name es = Inr (Some (j, node, ex))" "i = Suc j"
        using Cons.prems
        by (auto simp: e HObj findNode_named simp del: findNode.simps split: option.splits htrim.splits if_splits sum.splits)
      from Cons.IH [OF j(1)] show ?thesis
        using False Cons.prems j
        by (auto simp: e HObj findNode_named simp del: findNode.simps split: option.splits htrim.splits if_splits)
    qed
  qed (use Cons.prems e in simp_all)
qed

lemma findNode_None_append:
  assumes "findNode H name es = Inr None" "named H name node"
  shows "findNode H name (es @ [HV b (HObj node ex) a]) = Inr (Some (length es, node, ex))"
  using assms(1)
proof (induction es)
  case Nil
  then show ?case using assms(2) by (simp add: findNode_named del: findNode.simps)
next
  case (Cons e es)
  obtain b' t a' where e: "e = HV b' t a'" by (cases e)
  then show ?case
    using Cons
    by (cases t) (auto simp: findNode_named simp del: findNode.simps(2) split: option.splits htrim.splits if_splits sum.splits)
qed

lemma publish_node_named: "hujson_ok H \<Longrightarrow> tidy H ms \<Longrightarrow> named H (ac_NodeName cfg) (publish_node H cfg v ms)"
  by (simp add: named_def publish_node_value node_spec_def fold_names) (simp add: hujson_ok_def)

lemma owned_value: "hujson_ok H \<Longrightarrow> member_value H n ms = Some (HLit (hj_Int H i)) \<Longrightarrow> requireOwnedInt H n i ms = None"
  by (simp add: requireOwnedInt_def requireMatchingInt_def hujson_ok_def)

lemma publish_node_owned:
  "hujson_ok H \<Longrightarrow> tidy H ms \<Longrightarrow> requireOwnedInt H ''RegionID'' (ac_RegionID cfg) (publish_node H cfg v ms) = None"
  by (rule owned_value) (simp_all add: publish_node_value node_spec_def fold_names)

section \<open>Regions\<close>

lemma get_or_add_ok:
  assumes ok: "hujson_ok H" and n: "ToLower added = ToLower n" and g: "get_or_add H n added t ms = (ms1, i, t1)"
  shows "objectMember H n ms1 = Some i" and "i < length ms1" and "tval (snd (ms1 ! i)) = t1"
proof -
  have "objectMember H n ms1 = Some i \<and> tval (snd (ms1 ! i)) = t1"
  proof (cases "objectMember H n ms")
    case None
    then show ?thesis
      using ok n g by (auto simp: get_or_add_def appendObjectMember_def objectMember_append name_is_key)
        (simp add: new_member_def mk_val_def)
  next
    case (Some j)
    then show ?thesis using g by (auto simp: get_or_add_def)
  qed
  then show "objectMember H n ms1 = Some i" "tval (snd (ms1 ! i)) = t1" by auto
  then show "i < length ms1" by (auto dest: objectMember_Some)
qed

lemma get_or_add_again: "objectMember H n ms = Some i \<Longrightarrow> get_or_add H n added t ms = (ms, i, tval (snd (ms ! i)))"
  by (simp add: get_or_add_def)

lemma set_member_keeps_index:
  assumes "objectMember H n ms = Some i" "ToLower n \<noteq> ToLower m"
  shows "objectMember H n (set_member H m t ms) = Some i" "set_member H m t ms ! i = ms ! i"
proof -
  have i: "i < length ms" using objectMember_Some [OF assms(1)] by simp
  show "objectMember H n (set_member H m t ms) = Some i"
    using assms by (simp add: set_member_def appendObjectMember_def objectMember_append split: option.split)
  show "set_member H m t ms ! i = ms ! i"
  proof (cases "objectMember H m ms")
    case None
    then show ?thesis using i by (simp add: set_member_def appendObjectMember_def nth_append)
  next
    case (Some j)
    then have "j \<noteq> i" using objectMember_same_index [OF assms(1)] assms(2) by auto
    then show ?thesis using Some by (simp add: set_member_def put_def)
  qed
qed

lemma publish_meta_keeps:
  assumes "objectMember H ''Nodes'' ms = Some i"
  shows "objectMember H ''Nodes'' (publish_meta H cfg ms) = Some i" "publish_meta H cfg ms ! i = ms ! i"
  using assms set_member_keeps_index [of H "''Nodes''"] by (simp_all add: publish_meta_def set_defs fold_names)

lemma publish_meta_value:
  "hujson_ok H \<Longrightarrow> member_value H n (publish_meta H cfg ms) =
     (if ToLower n = ''regionid'' then Some (HLit (hj_Int H (ac_RegionID cfg)))
      else if ToLower n = ''regionname'' then Some (HLit (hj_String H (ac_RegionName cfg)))
      else if ToLower n = ''regioncode'' then Some (HLit (hj_String H (ac_RegionCode cfg)))
      else member_value H n ms)"
  by (simp add: publish_meta_def set_defs member_value_set fold_names)

lemma publish_meta_id:
  assumes "hujson_ok H"
  shows "publish_meta H cfg (publish_meta H cfg ms) = publish_meta H cfg ms"
proof -
  let ?m = "publish_meta H cfg ms"
  have "member_value H ''regionCode'' ?m = Some (HLit (hj_String H (ac_RegionCode cfg)))"
    "member_value H ''regionName'' ?m = Some (HLit (hj_String H (ac_RegionName cfg)))"
    "member_value H ''regionID'' ?m = Some (HLit (hj_Int H (ac_RegionID cfg)))"
    by (simp_all add: publish_meta_value [OF assms] fold_names)
  then show ?thesis by (simp add: publish_meta_def [of H cfg ?m] set_defs set_member_id)
qed

text \<open>The own node of a region, if there is one, has no two members of the same name.\<close>

definition own_tidy :: "hujson \<Rightarrow> APIConfig \<Rightarrow> members \<Rightarrow> bool" where
  "own_tidy H cfg ms \<longleftrightarrow> (\<forall>es exx i node x. member_value H ''Nodes'' ms = Some (HArr es exx) \<longrightarrow>
     findNode H (ac_NodeName cfg) es = Inr (Some (i, node, x)) \<longrightarrow> tidy H node)"

text \<open>What a successful \<open>publish_region\<close> leaves: the array of nodes with the own node in it.\<close>

lemma publish_region_result:
  assumes ok: "hujson_ok H" and p: "publish_region H cfg (Some v) ex ms = Inr ms'"
    and td: "own_tidy H cfg ms"
  obtains m1 ni es exx i node0 nex where "ms' = publish_meta H cfg m1" "objectMember H ''Nodes'' m1 = Some ni"
    "tval (snd (m1 ! ni)) = HArr es exx" "findNode H (ac_NodeName cfg) es = Inr (Some (i, publish_node H cfg v node0, nex))"
    "tidy H node0" "\<forall>n. ToLower n \<noteq> ''nodes'' \<longrightarrow> member_value H n m1 = member_value H n ms"
proof -
  obtain m1 ni t where g: "get_or_add H ''Nodes'' ''nodes'' (HArr [] []) ms = (m1, ni, t)" by (cases "get_or_add H ''Nodes'' ''nodes'' (HArr [] []) ms")
  note i = get_or_add_ok [OF ok _ g, simplified fold_names, OF refl]
  have other: "member_value H n (put ni t' m1) = member_value H n ms" if "ToLower n \<noteq> ''nodes''" for n t'
  proof -
    have "objectMember H n m1 \<noteq> Some ni" using objectMember_same_index [of H n m1 ni "''Nodes''"] i(1) that by (auto simp: fold_names)
    moreover have "member_value H n m1 = member_value H n ms"
      using g that by (auto simp: get_or_add_def member_value_append [OF ok] fold_names split: option.splits)
    ultimately show ?thesis using i(2) by (simp add: member_value_put)
  qed
  obtain es exx where t: "t = HArr es exx"
    using p g by (auto simp: publish_region_def split: option.splits htrim.splits)
  have nodes: "member_value H ''Nodes'' ms = Some (HArr es exx) \<or> es = []"
    using g t by (auto simp: get_or_add_def member_value_def split: option.splits)
  obtain f where f: "findNode H (ac_NodeName cfg) es = Inr f"
    using p g t by (auto simp: publish_region_def split: option.splits sum.splits if_splits)
  show thesis
  proof (cases f)
    case None
    have td0: "tidy H []" by (simp add: tidy_def)
    let ?node = "publish_node H cfg v []"
    have a: "ms' = publish_meta H cfg (put ni (HArr (es @ [mk_val (HObj ?node [])]) exx) m1)"
      using p g t f None by (auto simp: publish_region_def split: option.splits if_splits)
    have b: "findNode H (ac_NodeName cfg) (es @ [mk_val (HObj ?node [])]) = Inr (Some (length es, ?node, []))"
      unfolding mk_val_def using f None by (intro findNode_None_append publish_node_named ok td0) simp
    show thesis by (rule that [OF a _ _ b td0]) (use i other in auto)
  next
    case (Some r)
    obtain k node nex where r: "r = (k, node, nex)" by (cases r)
    have fn: "findNode H (ac_NodeName cfg) es = Inr (Some (k, node, nex))" using f Some r by simp
    have tdn: "tidy H node" using nodes td fn unfolding own_tidy_def by auto
    let ?es = "es[k := with_tval (HObj (publish_node H cfg v node) nex) (es ! k)]"
    have a: "ms' = publish_meta H cfg (put ni (HArr ?es exx) m1)"
      using p g t fn by (auto simp: publish_region_def split: option.splits if_splits)
    have b: "findNode H (ac_NodeName cfg) ?es = Inr (Some (k, publish_node H cfg v node, nex))"
      using findNode_Some [OF fn] publish_node_named [OF ok tdn] by blast
    show thesis by (rule that [OF a _ _ b tdn]) (use i other in auto)
  qed
qed

lemma publish_region_idem:
  assumes ok: "hujson_ok H" and p: "publish_region H cfg (Some v) ex ms = Inr ms'"
    and td: "own_tidy H cfg ms"
  shows "publish_region H cfg (Some v) True ms' = Inr ms'"
proof -
  from publish_region_result [OF ok p td] obtain m1 ni es exx i node0 nex where
    ms': "ms' = publish_meta H cfg m1" and ni: "objectMember H ''Nodes'' m1 = Some ni"
    and nodes: "tval (snd (m1 ! ni)) = HArr es exx"
    and fn: "findNode H (ac_NodeName cfg) es = Inr (Some (i, publish_node H cfg v node0, nex))" and tdy: "tidy H node0"
    and "\<forall>n. ToLower n \<noteq> ''nodes'' \<longrightarrow> member_value H n m1 = member_value H n ms" .
  have own: "requireOwnedInt H ''RegionID'' (ac_RegionID cfg) ms' = None"
    using ok by (intro owned_value) (simp_all add: ms' publish_meta_value fold_names)
  note keep = publish_meta_keeps [OF ni, of cfg, folded ms']
  have lt: "ni < length ms'" using objectMember_Some [OF keep(1)] by simp
  have g: "get_or_add H ''Nodes'' ''nodes'' (HArr [] []) ms' = (ms', ni, HArr es exx)"
    using keep nodes by (simp add: get_or_add_again)
  have "es ! i = HV (case es ! i of HV b _ _ \<Rightarrow> b) (HObj (publish_node H cfg v node0) nex) (case es ! i of HV _ _ a \<Rightarrow> a)"
    using findNode_Some [OF fn] by auto
  then have same: "es[i := with_tval (HObj (publish_node H cfg v node0) nex) (es ! i)] = es"
    by (metis list_update_id tval.simps with_tval_id)
  have "put ni (HArr es exx) ms' = ms'" using lt keep nodes by (simp add: put_id)
  then show ?thesis
    using own g fn publish_node_owned [OF ok tdy] publish_node_idem [OF ok tdy] same publish_meta_id [OF ok, of cfg m1]
    by (simp add: publish_region_def ms')
qed


section \<open>The policy\<close>

definition sub_obj :: "hujson \<Rightarrow> string \<Rightarrow> members \<Rightarrow> members option" where
  "sub_obj H n ms = (case member_value H n ms of Some (HObj m _) \<Rightarrow> Some m | _ \<Rightarrow> None)"

definition regions_of :: "hujson \<Rightarrow> members \<Rightarrow> members option" where
  "regions_of H rt = Option.bind (sub_obj H ''derpMap'' rt) (sub_obj H ''Regions'')"

text \<open>The value of a region of the DERP map.\<close>

definition region_value :: "hujson \<Rightarrow> string \<Rightarrow> members \<Rightarrow> htrim option" where
  "region_value H k rt = Option.bind (regions_of H rt) (member_value H k)"

definition policy_tidy :: "hujson \<Rightarrow> APIConfig \<Rightarrow> members \<Rightarrow> bool" where
  "policy_tidy H cfg rt \<longleftrightarrow> tidy H rt \<and> (\<forall>dm. sub_obj H ''derpMap'' rt = Some dm \<longrightarrow> tidy H dm) \<and>
     (\<forall>reg ex. region_value H (Itoa (ac_RegionID cfg)) rt = Some (HObj reg ex) \<longrightarrow> own_tidy H cfg reg)"

lemma get_or_add_put:
  assumes ok: "hujson_ok H" and n: "ToLower added = ToLower n" and g: "get_or_add H n added t ms = (ms1, i, t1)"
  shows "objectMember H n (put i t' ms1) = Some i" "put i t' ms1 ! i = (fst (ms1 ! i), with_tval t' (snd (ms1 ! i)))"
    "member_value H m (put i t' ms1) = (if ToLower m = ToLower n then Some t' else member_value H m ms)"
proof -
  note i = get_or_add_ok [OF ok n g]
  show "objectMember H n (put i t' ms1) = Some i" "put i t' ms1 ! i = (fst (ms1 ! i), with_tval t' (snd (ms1 ! i)))"
    using i by simp_all
  have "objectMember H m ms1 = Some i \<longleftrightarrow> ToLower m = ToLower n"
    using i(1) objectMember_same_index [of H m ms1 i n] objectMember_fold [of m n H ms1] by auto
  moreover have "member_value H m ms1 = member_value H m ms" if "ToLower m \<noteq> ToLower n"
    using g n that by (auto simp: get_or_add_def member_value_append [OF ok] split: option.splits)
  ultimately show "member_value H m (put i t' ms1) = (if ToLower m = ToLower n then Some t' else member_value H m ms)"
    using i(2) by (simp add: member_value_put)
qed

lemma get_or_add_value: "get_or_add H n added t ms = (ms1, i, t1) \<Longrightarrow> member_value H n ms = Some t1 \<or> member_value H n ms = None \<and> t1 = t"
  by (auto simp: get_or_add_def member_value_def split: option.splits)

lemma publish_root_result:
  assumes "publish_root H cfg v rt = Inr rt'"
  obtains rt1 di dm dex dm1 ri rs rex rs1 gi reg gex reg' where
    "get_or_add H ''derpMap'' ''derpMap'' (HObj [] []) rt = (rt1, di, HObj dm dex)"
    "get_or_add H ''Regions'' ''regions'' (HObj [] []) dm = (dm1, ri, HObj rs rex)"
    "get_or_add H (Itoa (ac_RegionID cfg)) (Itoa (ac_RegionID cfg)) (HObj [] []) rs = (rs1, gi, HObj reg gex)"
    "publish_region H cfg v (objectMember H (Itoa (ac_RegionID cfg)) rs \<noteq> None) reg = Inr reg'"
    "rt' = put di (HObj (put ri (HObj (put gi (HObj reg' gex) rs1) rex) dm1) dex) rt1"
  using assms that unfolding publish_root_def Let_def
  by (force split: prod.splits htrim.splits sum.splits)

lemma publish_root_own_tidy:
  assumes "policy_tidy H cfg rt"
    and "get_or_add H ''derpMap'' ''derpMap'' (HObj [] []) rt = (rt1, di, HObj dm dex)"
    and "get_or_add H ''Regions'' ''regions'' (HObj [] []) dm = (dm1, ri, HObj rs rex)"
    and "get_or_add H (Itoa (ac_RegionID cfg)) (Itoa (ac_RegionID cfg)) (HObj [] []) rs = (rs1, gi, HObj reg gex)"
  shows "own_tidy H cfg reg"
proof -
  have e: "member_value H n [] = None" for n by (simp add: member_value_def)
  have "own_tidy H cfg []" by (simp add: own_tidy_def e)
  then show ?thesis
    using assms(1) get_or_add_value [OF assms(2)] get_or_add_value [OF assms(3)] get_or_add_value [OF assms(4)]
    by (auto simp: policy_tidy_def region_value_def regions_of_def sub_obj_def e)
qed

lemma publish_root_idem:
  assumes ok: "hujson_ok H" and td: "policy_tidy H cfg rt" and p: "publish_root H cfg (Some v) rt = Inr rt'"
  shows "publish_root H cfg (Some v) rt' = Inr rt'"
proof -
  let ?K = "Itoa (ac_RegionID cfg)"
  from publish_root_result [OF p] obtain rt1 di dm dex dm1 ri rs rex rs1 gi reg gex reg' where
    g1: "get_or_add H ''derpMap'' ''derpMap'' (HObj [] []) rt = (rt1, di, HObj dm dex)" and
    g2: "get_or_add H ''Regions'' ''regions'' (HObj [] []) dm = (dm1, ri, HObj rs rex)" and
    g3: "get_or_add H ?K ?K (HObj [] []) rs = (rs1, gi, HObj reg gex)" and
    r: "publish_region H cfg (Some v) (objectMember H ?K rs \<noteq> None) reg = Inr reg'" and
    rt': "rt' = put di (HObj (put ri (HObj (put gi (HObj reg' gex) rs1) rex) dm1) dex) rt1" .
  have f: "ToLower ''regions'' = ToLower ''Regions''" by (simp add: fold_names)
  note a1 = get_or_add_put [OF ok refl g1] and a2 = get_or_add_put [OF ok f g2] and a3 = get_or_add_put [OF ok refl g3]
  have "publish_region H cfg (Some v) True reg' = Inr reg'"
    by (rule publish_region_idem [OF ok r publish_root_own_tidy [OF td g1 g2 g3]])
  then show ?thesis
    by (simp add: publish_root_def Let_def rt' get_or_add_again [OF a1(1)] get_or_add_again [OF a2(1)] get_or_add_again [OF a3(1)]
        a1(2) a2(2) a3(2) a3(1) del: objectMember_put)
qed

lemma publish_root_frame:
  assumes ok: "hujson_ok H" and p: "publish_root H cfg (Some v) rt = Inr rt'"
  shows "ToLower n \<noteq> ''derpmap'' \<Longrightarrow> member_value H n rt' = member_value H n rt"
    and "ToLower k \<noteq> ToLower (Itoa (ac_RegionID cfg)) \<Longrightarrow> region_value H k rt' = region_value H k rt"
proof -
  let ?K = "Itoa (ac_RegionID cfg)"
  from publish_root_result [OF p] obtain rt1 di dm dex dm1 ri rs rex rs1 gi reg gex reg' where
    g1: "get_or_add H ''derpMap'' ''derpMap'' (HObj [] []) rt = (rt1, di, HObj dm dex)" and
    g2: "get_or_add H ''Regions'' ''regions'' (HObj [] []) dm = (dm1, ri, HObj rs rex)" and
    g3: "get_or_add H ?K ?K (HObj [] []) rs = (rs1, gi, HObj reg gex)" and
    r: "publish_region H cfg (Some v) (objectMember H ?K rs \<noteq> None) reg = Inr reg'" and
    rt': "rt' = put di (HObj (put ri (HObj (put gi (HObj reg' gex) rs1) rex) dm1) dex) rt1" .
  have f: "ToLower ''regions'' = ToLower ''Regions''" by (simp add: fold_names)
  have e: "member_value H n [] = None" for n by (simp add: member_value_def)
  note a1 = get_or_add_put [OF ok refl g1] and a2 = get_or_add_put [OF ok f g2] and a3 = get_or_add_put [OF ok refl g3]
  show "member_value H n rt' = member_value H n rt" if "ToLower n \<noteq> ''derpmap''"
    using that by (simp add: rt' a1(3) fold_names)
  assume k: "ToLower k \<noteq> ToLower ?K"
  have "regions_of H rt' = Some (put gi (HObj reg' gex) rs1)"
    by (simp add: regions_of_def sub_obj_def rt' a1(3) a2(3))
  then have "region_value H k rt' = member_value H k rs" using k by (simp add: region_value_def a3(3))
  also have "\<dots> = region_value H k rt"
    using get_or_add_value [OF g1] get_or_add_value [OF g2]
    by (auto simp: region_value_def regions_of_def sub_obj_def e)
  finally show "region_value H k rt' = region_value H k rt" .
qed

section \<open>Withdrawing\<close>

lemma member_value_del:
  assumes "objectMember H m ms = Some i" "ToLower n \<noteq> ToLower m"
  shows "member_value H n (del_at i ms) = member_value H n ms"
  using assms(1)
proof (induction ms arbitrary: i)
  case (Cons x ms)
  have c: "member_value H n (x # ys) = (if name_is H n x then Some (tval (snd x)) else member_value H n ys)" for ys
    by (simp add: member_value_def option.map_comp comp_def)
  show ?case using Cons assms(2) by (auto simp: del_at_def c name_is_key split: if_splits)
qed simp

lemma tidy_del: "tidy H ms \<Longrightarrow> objectMember H m ms = Some i \<Longrightarrow> tidy H (del_at i ms)"
  using tidy_remove [of H ms m] by (simp add: removeObjectMember_eq)

lemma tidy_del_value:
  assumes "tidy H ms" "objectMember H m ms = Some i"
  shows "member_value H n (del_at i ms) = (if ToLower n = ToLower m then None else member_value H n ms)"
  using member_value_remove [OF assms(1), of n m] assms(2) by (simp add: removeObjectMember_eq)

lemma tidy_put [simp]: "tidy H (put i t ms) = tidy H ms"
  by (simp add: tidy_def)

lemma member_value_put_at:
  assumes "objectMember H m ms = Some i"
  shows "member_value H n (put i t ms) = (if ToLower n = ToLower m then Some t else member_value H n ms)"
proof -
  have "objectMember H n ms = Some i \<longleftrightarrow> ToLower n = ToLower m"
    using assms objectMember_same_index [of H n ms i m] objectMember_fold [of n m H ms] by auto
  then show ?thesis using objectMember_Some [OF assms] by (simp add: member_value_put)
qed

lemma withdraw_root_result:
  assumes "withdraw_root H cfg rt = Inr (Some rt')"
  obtains di dm dex ri rs rex gi reg gex ni es ex where
    "objectMember H ''derpMap'' rt = Some di" "tval (snd (rt ! di)) = HObj dm dex"
    "objectMember H ''Regions'' dm = Some ri" "tval (snd (dm ! ri)) = HObj rs rex"
    "objectMember H (Itoa (ac_RegionID cfg)) rs = Some gi" "tval (snd (rs ! gi)) = HObj reg gex"
    "withdraw_nodes H cfg reg = Inr (Some (ni, es, ex))"
    "rt' = (if es \<noteq> [] then put di (HObj (put ri (HObj (put gi (HObj (put ni (HArr es ex) reg) gex) rs) rex) dm) dex) rt
            else (let rs' = del_at gi rs; dm' = put ri (HObj rs' rex) dm;
                      dm' = (if rs' = [] then removeObjectMember H ''Regions'' dm' else dm')
                  in if dm' = [] then del_at di rt else put di (HObj dm' dex) rt))"
  using assms that unfolding withdraw_root_def Let_def
  by (force split: option.splits htrim.splits sum.splits prod.splits if_splits)

lemma withdraw_root_frame:
  assumes td: "policy_tidy H cfg rt" and w: "withdraw_root H cfg rt = Inr (Some rt')"
  shows "ToLower n \<noteq> ''derpmap'' \<Longrightarrow> member_value H n rt' = member_value H n rt"
    and "ToLower k \<noteq> ToLower (Itoa (ac_RegionID cfg)) \<Longrightarrow> region_value H k rt' = region_value H k rt"
proof -
  let ?K = "Itoa (ac_RegionID cfg)"
  from withdraw_root_result [OF w] obtain di dm dex ri rs rex gi reg gex ni es ex where
    d: "objectMember H ''derpMap'' rt = Some di" "tval (snd (rt ! di)) = HObj dm dex" and
    r: "objectMember H ''Regions'' dm = Some ri" "tval (snd (dm ! ri)) = HObj rs rex" and
    g: "objectMember H ?K rs = Some gi" "tval (snd (rs ! gi)) = HObj reg gex" and
    "withdraw_nodes H cfg reg = Inr (Some (ni, es, ex))" and
    rt': "rt' = (if es \<noteq> [] then put di (HObj (put ri (HObj (put gi (HObj (put ni (HArr es ex) reg) gex) rs) rex) dm) dex) rt
            else (let rs' = del_at gi rs; dm' = put ri (HObj rs' rex) dm;
                      dm' = (if rs' = [] then removeObjectMember H ''Regions'' dm' else dm')
                  in if dm' = [] then del_at di rt else put di (HObj dm' dex) rt))" .
  have e: "member_value H n [] = None" for n by (simp add: member_value_def)
  have tds: "tidy H rt" "tidy H dm" using td d by (simp_all add: policy_tidy_def sub_obj_def member_value_def)
  show "member_value H n rt' = member_value H n rt" if "ToLower n \<noteq> ''derpmap''"
    using that by (simp add: rt' member_value_put_at [OF d(1)] member_value_del [OF d(1)] fold_names Let_def)
  assume k: "ToLower k \<noteq> ToLower ?K"
  have old: "region_value H k rt = member_value H k rs"
    using d r by (simp add: region_value_def regions_of_def sub_obj_def member_value_def [of H "''derpMap''"] member_value_def [of H "''Regions''"])
  note del = member_value_del [OF g(1) k]
  show "region_value H k rt' = region_value H k rt"
  proof (cases "es = []")
    case False
    then show ?thesis
      using k unfolding old by (simp add: rt' region_value_def regions_of_def sub_obj_def member_value_put_at [OF d(1)] member_value_put_at [OF r(1)]
          member_value_put_at [OF g(1)])
  next
    case True
    show ?thesis
    proof (cases "del_at gi rs = []")
      case True
      then have none: "member_value H k rs = None" using del e by metis
      have "member_value H ''Regions'' (removeObjectMember H ''Regions'' (put ri (HObj [] rex) dm)) = None"
        using tds(2) by (simp add: member_value_remove)
      then show ?thesis
        using \<open>es = []\<close> True none tidy_del_value [OF tds(1) d(1)] unfolding old
        by (simp add: rt' region_value_def regions_of_def sub_obj_def member_value_put_at [OF d(1)] Let_def)
    next
      case False
      then have "put ri (HObj (del_at gi rs) rex) dm \<noteq> []" using objectMember_Some [OF r(1)] by (metis length_put less_nat_zero_code list.size(3))
      then show ?thesis
        using \<open>es = []\<close> False del unfolding old
        by (simp add: rt' region_value_def regions_of_def sub_obj_def member_value_put_at [OF d(1)] member_value_put_at [OF r(1)] Let_def)
    qed
  qed
qed


lemma publish_region_new:
  assumes "publish_region H cfg (Some v) False [] = Inr reg"
  shows "reg = publish_meta H cfg [new_member H ''nodes'' (HArr [mk_val (HObj (publish_node H cfg v []) [])] [])]"
  using assms by (simp add: publish_region_def get_or_add_def appendObjectMember_def put_def new_member_def mk_val_def)

lemma withdraw_root_published:
  assumes ok: "hujson_ok H" and none: "objectMember H ''derpMap'' rt = None" and p: "publish_root H cfg (Some v) rt = Inr rt'"
  shows "withdraw_root H cfg rt' = Inr (Some rt)"
proof -
  let ?K = "Itoa (ac_RegionID cfg)"
  have tn: "tidy H []" by (simp add: tidy_def)
  obtain reg where reg: "publish_region H cfg (Some v) False [] = Inr reg"
    and rt': "rt' = rt @ [new_member H ''derpMap'' (HObj [new_member H ''regions'' (HObj [new_member H ?K (HObj reg [])] [])] [])]"
    using p none
    by (auto simp: publish_root_def get_or_add_def appendObjectMember_def Let_def put_def nth_append list_update_append
        new_member_def mk_val_def split: sum.splits)
  let ?node = "publish_node H cfg v []"
  let ?nodes = "HArr [mk_val (HObj ?node [])] []"
  let ?m0 = "[new_member H ''nodes'' ?nodes]"
  have n0: "objectMember H ''Nodes'' ?m0 = Some 0" using ok by (simp add: name_is_key fold_names)
  note keep = publish_meta_keeps [OF n0, of cfg]
  have own: "requireOwnedInt H ''RegionID'' (ac_RegionID cfg) (publish_meta H cfg ?m0) = None"
    using ok by (intro owned_value) (simp_all add: publish_meta_value fold_names)
  have find: "findNode H (ac_NodeName cfg) [mk_val (HObj ?node [])] = Inr (Some (0, ?node, []))"
    using publish_node_named [OF ok tn, of cfg v] by (simp add: mk_val_def findNode_named del: findNode.simps(2))
  have nodes: "withdraw_nodes H cfg reg = Inr (Some (0, [], []))"
    using own keep find publish_node_owned [OF ok tn, of cfg v]
    by (simp add: withdraw_nodes_def publish_region_new [OF reg] del_at_def)
      (simp add: new_member_def mk_val_def del_at_def)
  have tv: "tval (snd (new_member H n t)) = t" for n t by (simp add: new_member_def mk_val_def)
  show ?thesis
    using none ok
    by (simp add: withdraw_root_def rt' objectMember_append name_is_key fold_names nth_append tv nodes Let_def del_at_def
        put_def removeObjectMember_def with_tval.simps)
qed

section \<open>Properties\<close>

text \<open>The law of texts: a parsed text is printed as it was.\<close>

definition prints_back :: "hujson \<Rightarrow> bool" where
  "prints_back H \<longleftrightarrow> (\<forall>s v. hj_Parse H s = Some v \<longrightarrow> hj_Pack H v = s)"

text \<open>The tree with the node published into the policy, printed, parses to that tree.\<close>

definition reparses :: "hujson \<Rightarrow> APIConfig \<Rightarrow> Endpoint \<Rightarrow> string \<Rightarrow> bool" where
  "reparses H cfg v source \<longleftrightarrow>
     (\<forall>b rt ex a rt'. hj_Parse H source = Some (HV b (HObj rt ex) a) \<longrightarrow> publish_root H cfg (Some v) rt = Inr rt' \<longrightarrow>
        hj_Parse H (hj_Pack H (HV b (HObj rt' ex) a)) = Some (HV b (HObj rt' ex) a))"

lemma patch_publish:
  assumes "patchDERPMap H source cfg (Some v) False = Inr (out, ch)"
  obtains b rt ex a rt' where "hj_Parse H source = Some (HV b (HObj rt ex) a)" "publish_root H cfg (Some v) rt = Inr rt'"
    "out = hj_Pack H (HV b (HObj rt' ex) a)" "ch = (out \<noteq> source)"
  using assms that unfolding patchDERPMap_def by (auto simp: Let_def split: option.splits hval.splits htrim.splits sum.splits)

definition source_tidy :: "hujson \<Rightarrow> APIConfig \<Rightarrow> string \<Rightarrow> bool" where
  "source_tidy H cfg source \<longleftrightarrow> (\<forall>b rt ex a. hj_Parse H source = Some (HV b (HObj rt ex) a) \<longrightarrow> policy_tidy H cfg rt)"

text \<open> Publishing is idempotent: applied to the policy it has produced, \<open>patchDERPMap\<close> for the same endpoint and
  configuration changes nothing, so a reconciliation that finds its own node in place sends no update.\<close>

theorem publish_idempotent:
  assumes ok: "hujson_ok H" and td: "source_tidy H cfg source" and rp: "reparses H cfg v source"
    and p: "patchDERPMap H source cfg (Some v) False = Inr (out, ch)"
  shows "patchDERPMap H out cfg (Some v) False = Inr (out, False)"
proof -
  from patch_publish [OF p] obtain b rt ex a rt' where x: "hj_Parse H source = Some (HV b (HObj rt ex) a)"
    "publish_root H cfg (Some v) rt = Inr rt'" "out = hj_Pack H (HV b (HObj rt' ex) a)" "ch = (out \<noteq> source)" .
  have "hj_Parse H out = Some (HV b (HObj rt' ex) a)" using rp x by (simp add: reparses_def)
  moreover have "publish_root H cfg (Some v) rt' = Inr rt'"
    using publish_root_idem [OF ok _ x(2)] td x(1) by (auto simp: source_tidy_def)
  ultimately show ?thesis by (simp add: patchDERPMap_def x(3))
qed

text \<open> Publishing and withdrawing touch nothing of others (C19): in the tree of the new text every section of the policy other than the DERP
  map, and every region of the map other than the configured one, has the value it had.\<close>

theorem patch_touches_own_region:
  assumes ok: "hujson_ok H" and pb: "prints_back H"
    and src: "hj_Parse H source = Some (HV b (HObj rt ex) a)" and td: "policy_tidy H cfg rt"
    and p: "patchDERPMap H source cfg (if withdraw then None else Some v) withdraw = Inr (out, ch)"
  shows "\<exists>rt'. out = hj_Pack H (HV b (HObj rt' ex) a) \<and>
     (\<forall>n. ToLower n \<noteq> ''derpmap'' \<longrightarrow> member_value H n rt' = member_value H n rt) \<and>
     (\<forall>k. ToLower k \<noteq> ToLower (Itoa (ac_RegionID cfg)) \<longrightarrow> region_value H k rt' = region_value H k rt)"
proof (cases withdraw)
  case False
  then obtain rt' where "publish_root H cfg (Some v) rt = Inr rt'" "out = hj_Pack H (HV b (HObj rt' ex) a)"
    using p src by (auto simp: patchDERPMap_def Let_def split: sum.splits)
  then show ?thesis using publish_root_frame [OF ok] by blast
next
  case True
  then consider rt' where "withdraw_root H cfg rt = Inr (Some rt')" "out = hj_Pack H (HV b (HObj rt' ex) a)" | "out = source"
    using p src by (auto simp: patchDERPMap_def Let_def split: sum.splits option.splits)
  then show ?thesis
  proof cases
    case 1
    then show ?thesis using withdraw_root_frame [OF td] by blast
  next
    case 2
    then show ?thesis using pb src by (intro exI [of _ rt]) (simp add: prints_back_def)
  qed
qed


section \<open>Reconciliation\<close>

text \<open>The policy as other writers leave it before attempt \<open>i\<close>.\<close>

fun policy_at :: "policy_env \<Rightarrow> policy_doc \<Rightarrow> nat \<Rightarrow> policy_doc" where
  "policy_at pe doc 0 = doc"
| "policy_at pe doc (Suc i) = pe_others pe i (policy_at pe doc i)"

definition etag_ok :: "policy_env \<Rightarrow> policy_doc \<Rightarrow> bool" where
  "etag_ok pe d \<longleftrightarrow> pd_ETag d = pe_etag pe (pd_HuJSON d)"

lemma reconcile_attempts_sound:
  assumes "inj (pe_etag pe)" "\<forall>i d. etag_ok pe d \<longrightarrow> etag_ok pe (pe_others pe i d)" "etag_ok pe (policy_at pe doc0 i)"
    and "reconcile_attempts pe H cfg value wd i n (policy_at pe doc0 i) = (None, doc')"
  shows "\<exists>j. i \<le> j \<and> j < i + n \<and> (\<exists>new ch. patchDERPMap H (pd_HuJSON (policy_at pe doc0 j)) cfg value wd = Inr (new, ch) \<and>
     (if ch then pd_HuJSON doc' = new \<and> policy_at pe doc0 (Suc j) = policy_at pe doc0 j else doc' = policy_at pe doc0 j))"
  using assms(3,4)
proof (induction n arbitrary: i)
  case 0
  then show ?case by simp
next
  case (Suc n)
  let ?d = "policy_at pe doc0 i"
  obtain new ch where pt: "patchDERPMap H (pd_HuJSON ?d) cfg value wd = Inr (new, ch)" and raw: "pe_raw pe i = None"
    using Suc.prems(2) by (auto split: option.splits sum.splits)
  show ?case
  proof (cases ch)
    case False
    then show ?thesis using Suc.prems(2) pt raw by (intro exI [of _ i]) auto
  next
    case True
    obtain e d2 where st: "setPolicyUnlocked pe i new (pd_ETag ?d) (pe_others pe i ?d) = (e, d2)" by (cases "setPolicyUnlocked pe i new (pd_ETag ?d) (pe_others pe i ?d)")
    have e1: "etag_ok pe (pe_others pe i ?d)" using assms(2) Suc.prems(1) by simp
    show ?thesis
    proof (cases e)
      case None
      then have "pd_ETag ?d = pd_ETag (pe_others pe i ?d)" "pd_HuJSON d2 = new"
        using st by (auto simp: setPolicyUnlocked_def split: option.splits if_splits)
      moreover from this have "pd_HuJSON (pe_others pe i ?d) = pd_HuJSON ?d"
        using Suc.prems(1) e1 injD [OF assms(1)] unfolding etag_ok_def by metis
      ultimately have "pe_others pe i ?d = ?d" "pd_HuJSON d2 = new" by simp_all
      moreover have "doc' = d2" using Suc.prems(2) pt raw True st None by simp
      ultimately show ?thesis using pt True by (intro exI [of _ i]) auto
    next
      case (Some err)
      then have "d2 = policy_at pe doc0 (Suc i)" using st by (auto simp: setPolicyUnlocked_def split: option.splits if_splits)
      then have "reconcile_attempts pe H cfg value wd (Suc i) n (policy_at pe doc0 (Suc i)) = (None, doc')"
        using Suc.prems(2) pt raw True st Some by (auto split: if_splits)
      from Suc.IH [OF _ this] e1 obtain j where "Suc i \<le> j" "j < Suc i + n"
        "\<exists>new ch. patchDERPMap H (pd_HuJSON (policy_at pe doc0 j)) cfg value wd = Inr (new, ch) \<and>
     (if ch then pd_HuJSON doc' = new \<and> policy_at pe doc0 (Suc j) = policy_at pe doc0 j else doc' = policy_at pe doc0 j)" by auto
      then show ?thesis by (intro exI [of _ j]) simp
    qed
  qed
qed

text \<open> Reconciliation loses no update of others (C21): when it reports success, the policy is the patch of the policy as it was at that
  moment with everything other writers had done, found within three attempts, or it needed no change.\<close>

theorem reconcile_no_lost_update:
  assumes "inj (pe_etag pe)" and "\<forall>i d. etag_ok pe d \<longrightarrow> etag_ok pe (pe_others pe i d)" and "etag_ok pe doc"
    and "reconcileDERPMap s pe H cfg value wd doc = (None, doc')"
  shows "\<exists>j < 3. \<exists>text ch. patchDERPMap H (pd_HuJSON (policy_at pe doc j)) cfg value wd = Inr (text, ch) \<and>
     (if ch then pd_HuJSON doc' = text \<and> policy_at pe doc (Suc j) = policy_at pe doc j else doc' = policy_at pe doc j)"
proof -
  have "reconcile_attempts pe H cfg value wd 0 3 (policy_at pe doc 0) = (None, doc')"
    using assms(4) by (auto simp: reconcileDERPMap_def policyUpdateAttempts_def split: sum.splits)
  from reconcile_attempts_sound [OF assms(1,2) _ this] assms(3) show ?thesis by auto
qed


section \<open>An instance\<close>

text \<open>A parser that knows two texts, the empty policy and the policy with the node, with literals marked by their first
  character: enough to run the functions on.\<close>

definition demo_int :: "int \<Rightarrow> string" where
  "demo_int i = CHR ''0'' # (if i < 0 then CHR ''-'' # replicate (nat (- i)) CHR ''x'' else replicate (nat i) CHR ''x'')"

definition demo_as_int :: "string \<Rightarrow> int" where
  "demo_as_int s = (case tl s of [] \<Rightarrow> 0 | c # cs \<Rightarrow> if c = CHR ''-'' then - int (length cs) else int (length (tl s)))"

definition demo_endpoint :: Endpoint where
  "demo_endpoint = \<lparr>ep_IPv4 = ''192.0.2.1'', ep_IPv6 = [], ep_DERPPort = 443, ep_STUNPort = 3478, ep_Method = ''direct'', ep_LeaseUntil = None\<rparr>"

definition demo_cfg :: APIConfig where
  "demo_cfg = \<lparr>ac_Name = ''home'', ac_Label = [], ac_Tailnet = ''example.com'', ac_AuthType = APIAuthTypeAPIKey,
     ac_APIKey = ''k'', ac_OAuthClientID = [], ac_OAuthClientSecret = [], ac_DERPMapSync = True, ac_StunOnly = False,
     ac_RegionID = 7, ac_RegionCode = ''home'', ac_RegionName = ''Home'', ac_NodeName = ''7a'',
     ac_Hostname = ''derp.example.com'', ac_CertName = []\<rparr>"

definition lit :: "char \<Rightarrow> string \<Rightarrow> hval" where
  "lit k s = mk_val (HLit (k # s))"

definition demo_policy :: members where
  "demo_policy = [(lit CHR 0x22 ''acls'', mk_val (HArr [] []))]"

definition demo_node :: members where
  "demo_node = [(lit CHR 0x22 ''name'', lit CHR 0x22 ''7a''), (lit CHR 0x22 ''regionID'', mk_val (HLit (demo_int 7))),
     (lit CHR 0x22 ''hostName'', lit CHR 0x22 ''derp.example.com''), (lit CHR 0x22 ''ipv4'', lit CHR 0x22 ''192.0.2.1''),
     (lit CHR 0x22 ''derpPort'', mk_val (HLit (demo_int 443))), (lit CHR 0x22 ''stunPort'', mk_val (HLit (demo_int 3478)))]"

definition demo_region :: members where
  "demo_region = [(lit CHR 0x22 ''nodes'', mk_val (HArr [mk_val (HObj demo_node [])] [])), (lit CHR 0x22 ''regionCode'', lit CHR 0x22 ''home''),
     (lit CHR 0x22 ''regionName'', lit CHR 0x22 ''Home''), (lit CHR 0x22 ''regionID'', mk_val (HLit (demo_int 7)))]"

definition demo_published :: members where
  "demo_published = demo_policy @ [(lit CHR 0x22 ''derpMap'', mk_val (HObj [(lit CHR 0x22 ''regions'',
     mk_val (HObj [(lit CHR 0x22 ''7'', mk_val (HObj demo_region []))] []))] []))]"

definition demo_hujson :: hujson where
  "demo_hujson = \<lparr>
     hj_Parse = (\<lambda>s. if s = ''a'' then Some (HV [] (HObj demo_policy []) []) else if s = ''b'' then Some (HV [] (HObj demo_published []) []) else None),
     hj_Pack = (\<lambda>v. if v = HV [] (HObj demo_policy []) [] then ''a'' else ''b''),
     hj_Kind = hd, hj_AsString = tl, hj_AsInt = demo_as_int,
     hj_String = (\<lambda>s. CHR 0x22 # s), hj_Int = demo_int, hj_Bool = (\<lambda>b. if b then ''t'' else ''f'')\<rparr>"

lemma demo_int_back: "demo_as_int (demo_int i) = i"
proof (cases "i < 0")
  case False
  then show ?thesis by (cases "nat i") (auto simp: demo_as_int_def demo_int_def)
qed (simp add: demo_as_int_def demo_int_def)

lemma demo_hujson_ok: "hujson_ok demo_hujson"
  by (simp add: hujson_ok_def demo_hujson_def demo_int_back) (simp add: demo_int_def)

lemma demo_Itoa: "Itoa 7 = ''7''"
  by (simp add: Itoa_def digits_of.simps char_of_def bit_iff_odd)

lemma demo_fields [simp]:
  "hj_Kind demo_hujson = hd" "hj_AsString demo_hujson = tl" "hj_String demo_hujson s = CHR 0x22 # s" "hj_Int demo_hujson = demo_int"
  by (simp_all add: demo_hujson_def)

lemma demo_fold: "ToLower ''acls'' = ''acls''" "ToLower ''7'' = ''7''"
  by (simp_all add: ToLower_def to_lower_char_def char_code_def)

lemmas demo_eval = name_is_key key_of_def lit_def mk_val_def fold_names demo_fold

lemma demo_publish_node: "publish_node demo_hujson demo_cfg demo_endpoint [] = demo_node"
  by (simp add: publish_node_def demo_cfg_def demo_endpoint_def Let_def set_defs set_member_def appendObjectMember_def removeObjectMember_def
      new_member_def demo_eval demo_node_def)

lemma demo_publish: "publish_root demo_hujson demo_cfg (Some demo_endpoint) demo_policy = Inr demo_published"
  by (simp add: publish_root_def publish_region_def publish_meta_def get_or_add_def appendObjectMember_def new_member_def demo_publish_node
      set_defs set_member_def put_def Let_def demo_policy_def demo_published_def demo_region_def demo_eval)
    (simp add: demo_cfg_def demo_Itoa demo_eval)

lemma demo_parse: "hj_Parse demo_hujson ''a'' = Some (HV [] (HObj demo_policy []) [])"
  by (simp add: demo_hujson_def)

lemma demo_reparses: "reparses demo_hujson demo_cfg demo_endpoint ''a''"
  by (simp add: reparses_def demo_parse demo_publish) (simp add: demo_hujson_def demo_published_def)

lemma demo_prints_back: "prints_back demo_hujson"
  by (simp add: prints_back_def demo_hujson_def demo_published_def)

lemma demo_no_map: "objectMember demo_hujson ''derpMap'' demo_policy = None"
  by (simp add: demo_policy_def demo_eval)

lemma demo_tidy: "policy_tidy demo_hujson demo_cfg demo_policy"
proof -
  have "member_value demo_hujson ''derpMap'' demo_policy = None" using demo_no_map by (simp add: member_value_None)
  then show ?thesis
    by (simp add: policy_tidy_def region_value_def regions_of_def sub_obj_def) (simp add: tidy_def demo_policy_def)
qed

lemma demo_patch: "patchDERPMap demo_hujson ''a'' demo_cfg (Some demo_endpoint) False = Inr (''b'', True)"
  by (simp add: patchDERPMap_def demo_parse demo_publish) (simp add: demo_hujson_def demo_published_def)


theorem publish_idempotent_witness: "patchDERPMap demo_hujson ''b'' demo_cfg (Some demo_endpoint) False = Inr (''b'', False)"
proof (rule publish_idempotent [OF demo_hujson_ok _ demo_reparses demo_patch])
  show "source_tidy demo_hujson demo_cfg ''a''" using demo_tidy by (simp add: source_tidy_def demo_parse)
qed

theorem patch_touches_own_region_witness:
  "\<exists>rt'. hj_Pack demo_hujson (HV [] (HObj rt' []) []) = ''b'' \<and> member_value demo_hujson ''acls'' rt' = Some (HArr [] [])"
proof -
  have v: "member_value demo_hujson ''acls'' demo_policy = Some (HArr [] [])" by (simp add: member_value_def demo_policy_def demo_eval)
  have "patchDERPMap demo_hujson ''a'' demo_cfg (if False then None else Some demo_endpoint) False = Inr (''b'', True)" using demo_patch by simp
  from patch_touches_own_region [OF demo_hujson_ok demo_prints_back demo_parse demo_tidy this] obtain rt' where
    rt': "''b'' = hj_Pack demo_hujson (HV [] (HObj rt' []) [])"
    "\<forall>n. ToLower n \<noteq> ''derpmap'' \<longrightarrow> member_value demo_hujson n rt' = member_value demo_hujson n demo_policy" by blast
  have "member_value demo_hujson ''acls'' rt' = Some (HArr [] [])" using rt'(2) v by (simp add: demo_fold)
  with rt'(1) show ?thesis by (intro exI [of _ rt']) simp
qed


definition demo_policy_env :: policy_env where
  "demo_policy_env = \<lparr>pe_raw = (\<lambda>_. None), pe_validate = (\<lambda>_. None), pe_set = (\<lambda>_. None), pe_done = (\<lambda>_. False),
     pe_others = (\<lambda>_ d. d), pe_etag = (\<lambda>t. t)\<rparr>"

theorem reconcile_no_lost_update_witness:
  "\<exists>j < 3. \<exists>text ch. patchDERPMap demo_hujson (pd_HuJSON (policy_at demo_policy_env \<lparr>pd_HuJSON = ''a'', pd_ETag = ''a''\<rparr> j)) demo_cfg (Some demo_endpoint) False = Inr (text, ch) \<and> text = ''b''"
proof -
  let ?s = "\<lparr>ds_configs = [demo_cfg], ds_cache = fmempty, ds_interval = 0, ds_ttl = 0\<rparr>"
  have "isConfigured demo_cfg" by (simp add: isConfigured_def demo_cfg_def TrimSpace_def TrimFunc_def is_space_def)
  then have "reconcileDERPMap ?s demo_policy_env demo_hujson demo_cfg (Some demo_endpoint) False \<lparr>pd_HuJSON = ''a'', pd_ETag = ''a''\<rparr> =
      (None, \<lparr>pd_HuJSON = ''b'', pd_ETag = ''b''\<rparr>)"
    by (simp add: reconcileDERPMap_def apiInstance_def policyUpdateAttempts_def numeral_3_eq_3 demo_patch setPolicyUnlocked_def demo_policy_env_def)
  moreover have "inj (pe_etag demo_policy_env)" "\<forall>i d. etag_ok demo_policy_env d \<longrightarrow> etag_ok demo_policy_env (pe_others demo_policy_env i d)"
    "etag_ok demo_policy_env \<lparr>pd_HuJSON = ''a'', pd_ETag = ''a''\<rparr>"
    by (simp_all add: demo_policy_env_def etag_ok_def inj_on_def)
  ultimately obtain j new ch where "j < 3"
    "patchDERPMap demo_hujson (pd_HuJSON (policy_at demo_policy_env \<lparr>pd_HuJSON = ''a'', pd_ETag = ''a''\<rparr> j)) demo_cfg (Some demo_endpoint) False = Inr (new, ch)"
    using reconcile_no_lost_update by blast
  moreover have "policy_at demo_policy_env \<lparr>pd_HuJSON = ''a'', pd_ETag = ''a''\<rparr> j = \<lparr>pd_HuJSON = ''a'', pd_ETag = ''a''\<rparr>"
    by (induction j) (simp_all add: demo_policy_env_def)
  ultimately show ?thesis using demo_patch by (intro exI [of _ j]) auto
qed

end
