(* ===== verification/Portmap.thy ===== *)
theory Portmap
  imports GoStrings Netip "HOL-Library.Multiset"
begin

text \<open>
  \<^verbatim>\<open>internal/portmap\<close>: port mappings by PCP, NAT-PMP and UPnP, the choice between them and the check of what a gateway
  returned.

  \<^item> A lease carries the number of its release function; \<open>acquire\<close> operations allocate the next number for every mapping
    a gateway grants and list the releases they make.
  \<^item> The answers of gateways and services (also of \<^verbatim>\<open>go-nat-pmp\<close> and \<^verbatim>\<open>goupnp\<close>) are arguments.
\<close>

section \<open>Types\<close>

datatype Protocol = TCP | UDP

record PortRequest =
  pr_Protocol :: Protocol
  pr_InternalPort :: uint16
  pr_ExternalPort :: uint16
  pr_Strict :: bool

record Request =
  rq_Interface :: string
  rq_DERP :: PortRequest
  rq_STUN :: "PortRequest option"
  rq_Lifetime :: duration

record Lease =
  le_Protocol :: Protocol
  le_InternalPort :: uint16
  le_ExternalPort :: uint16
  le_ExternalIP :: Addr
  le_ExpiresAt :: gotime
  le_release :: "nat option"

record Mapping =
  mp_Method :: string
  mp_DERP :: "Lease option"
  mp_STUN :: "Lease option"

datatype map_error = NoGateway | NoSource | GatewayError | NotGranted uint16 | ContextDone | WrongService
  | MissingDERP | NonPublic Addr | EmptyDERPPort | WrongDERPPort | MissingSTUN | DifferentAddresses | EmptySTUNPort | WrongSTUNPort
  | Unsupported string | MethodError string map_error | NoMethods | Joined "map_error list"

text \<open>\<open>Lease.Release\<close> and \<open>Mapping.Release\<close>, also on nil: the release functions that are called.\<close>

definition Lease_Release :: "Lease option \<Rightarrow> nat list" where
  "Lease_Release l = (case l of None \<Rightarrow> [] | Some x \<Rightarrow> (case le_release x of None \<Rightarrow> [] | Some h \<Rightarrow> [h]))"

definition Mapping_Release :: "Mapping option \<Rightarrow> nat list" where
  "Mapping_Release m = (case m of None \<Rightarrow> [] | Some x \<Rightarrow> Lease_Release (mp_DERP x) @ Lease_Release (mp_STUN x))"

definition Mapping_ExpiresAt :: "Mapping option \<Rightarrow> gotime" where
  "Mapping_ExpiresAt m =
     (case m of
        None \<Rightarrow> 0
      | Some x \<Rightarrow>
          (case mp_DERP x of
             None \<Rightarrow> 0
           | Some d \<Rightarrow>
               (case mp_STUN x of
                  None \<Rightarrow> le_ExpiresAt d
                | Some s \<Rightarrow> if le_ExpiresAt d = 0 \<or> le_ExpiresAt s < le_ExpiresAt d then le_ExpiresAt s else le_ExpiresAt d)))"

section \<open>Public addresses\<close>

text \<open>\<open>netip.Prefix.Contains\<close> on IPv4: the first \<open>bits\<close> bits agree.\<close>

definition prefix4_contains :: "32 word \<times> nat \<Rightarrow> 32 word \<Rightarrow> bool" where
  "prefix4_contains p w \<longleftrightarrow> drop_bit (32 - snd p) (w XOR fst p) = 0"

definition nonPublicIPv4 :: "(32 word \<times> nat) list" where
  "nonPublicIPv4 =
     [(0x00000000, 8), (0x0A000000, 8), (0x64400000, 10), (0x7F000000, 8), (0xA9FE0000, 16), (0xAC100000, 12), (0xC0000000, 24),
      (0xC0000200, 24), (0xC0A80000, 16), (0xC6120000, 15), (0xC6336400, 24), (0xCB007100, 24), (0xE0000000, 4), (0xF0000000, 4)]"

text \<open>\<open>IsGlobalUnicast\<close> on IPv4: neither unspecified nor broadcast, loopback, multicast or link-local.\<close>

definition IsGlobalUnicast4 :: "32 word \<Rightarrow> bool" where
  "IsGlobalUnicast4 w \<longleftrightarrow> w \<noteq> 0 \<and> w \<noteq> 0xFFFFFFFF \<and> drop_bit 24 w \<noteq> 127 \<and> drop_bit 28 w \<noteq> 14 \<and> drop_bit 16 w \<noteq> 0xA9FE"

definition IsPublicIPv4 :: "Addr \<Rightarrow> bool" where
  "IsPublicIPv4 addr =
     (case Unmap addr of
        Addr4 w \<Rightarrow> IsGlobalUnicast4 w \<and> \<not> list_ex (\<lambda>p. prefix4_contains p w) nonPublicIPv4
      | _ \<Rightarrow> False)"

section \<open>Choosing a method\<close>

definition validateMapping :: "Mapping option \<Rightarrow> Request \<Rightarrow> map_error option" where
  "validateMapping m request =
     (case Option.bind m mp_DERP of
        None \<Rightarrow> Some MissingDERP
      | Some derp \<Rightarrow>
          if \<not> IsPublicIPv4 (le_ExternalIP derp) then Some (NonPublic (le_ExternalIP derp))
          else if le_ExternalPort derp = 0 then Some EmptyDERPPort
          else if pr_Strict (rq_DERP request) \<and> le_ExternalPort derp \<noteq> pr_ExternalPort (rq_DERP request) then Some WrongDERPPort
          else (case rq_STUN request of
                  None \<Rightarrow> None
                | Some rs \<Rightarrow>
                    (case Option.bind m mp_STUN of
                       None \<Rightarrow> Some MissingSTUN
                     | Some stun \<Rightarrow>
                         if le_ExternalIP stun \<noteq> le_ExternalIP derp then Some DifferentAddresses
                         else if le_ExternalPort stun = 0 then Some EmptySTUNPort
                         else if pr_Strict rs \<and> le_ExternalPort stun \<noteq> pr_ExternalPort rs then Some WrongSTUNPort
                         else None)))"

text \<open>The result of a backend started when the next number is \<open>n\<close>: the next number afterwards, the releases it made,
  and the mapping or the error.\<close>

record bres =
  br_next :: nat
  br_released :: "nat list"
  br_result :: "map_error + Mapping"

definition NewClientWithBackends :: "string list \<Rightarrow> string list" where
  "NewClientWithBackends methods =
     filter (\<lambda>m. m \<noteq> []) (map (\<lambda>m. ToLower (TrimSpace m)) (if methods = [] then [''pcp'', ''natpmp'', ''upnp''] else methods))"

text \<open>The loop of \<open>Client.Map\<close>; \<open>backends k\<close> are the backends as the \<open>k\<close>-th call meets them.\<close>

type_synonym backend_run = "nat \<Rightarrow> Request \<Rightarrow> bres"

fun map_methods :: "(nat \<Rightarrow> string \<Rightarrow> backend_run option) \<Rightarrow> Request \<Rightarrow> nat \<Rightarrow> string list \<Rightarrow> map_error list \<Rightarrow> nat \<Rightarrow> bres" where
  "map_methods backends request k [] errs n =
     \<lparr>br_next = n, br_released = [], br_result = Inl (if errs = [] then NoMethods else Joined errs)\<rparr>"
| "map_methods backends request k (method # methods) errs n =
     (case backends k method of
        None \<Rightarrow> map_methods backends request (Suc k) methods (errs @ [Unsupported method]) n
      | Some run \<Rightarrow>
          (let r = run n request in
           case br_result r of
             Inl e \<Rightarrow>
               (let rest = map_methods backends request (Suc k) methods (errs @ [MethodError method e]) (br_next r)
                in rest\<lparr>br_released := br_released r @ br_released rest\<rparr>)
           | Inr mapping \<Rightarrow>
               (case validateMapping (Some mapping) request of
                  Some e \<Rightarrow>
                    (let rest = map_methods backends request (Suc k) methods (errs @ [MethodError method e]) (br_next r)
                     in rest\<lparr>br_released := br_released r @ Mapping_Release (Some mapping) @ br_released rest\<rparr>)
                | None \<Rightarrow> r\<lparr>br_result := Inr (mapping\<lparr>mp_Method := method\<rparr>)\<rparr>)))"

definition Client_Map :: "(nat \<Rightarrow> string \<Rightarrow> backend_run option) \<Rightarrow> string list \<Rightarrow> nat \<Rightarrow> Request \<Rightarrow> bres" where
  "Client_Map backends methods n request = map_methods backends request 0 methods [] n"

section \<open>Backends\<close>

definition normalizedLifetime :: "duration \<Rightarrow> duration" where
  "normalizedLifetime v = (if v \<le> 0 then 2 * hour else v)"

definition requested_port :: "PortRequest \<Rightarrow> uint16" where
  "requested_port r = (if pr_ExternalPort r = 0 then pr_InternalPort r else pr_ExternalPort r)"

text \<open>The result of acquiring one lease, as \<open>bres\<close>.\<close>

type_synonym ares = "nat \<times> nat list \<times> (map_error + Lease)"

definition mk_lease :: "PortRequest \<Rightarrow> uint16 \<Rightarrow> Addr \<Rightarrow> gotime \<Rightarrow> nat \<Rightarrow> Lease" where
  "mk_lease r port ip expires h =
     \<lparr>le_Protocol = pr_Protocol r, le_InternalPort = pr_InternalPort r, le_ExternalPort = port, le_ExternalIP = ip,
      le_ExpiresAt = expires, le_release = Some h\<rparr>"

text \<open>\<open>grant\<close>: what \<open>AddPortMapping\<close> returns, the port and the lifetime in seconds.\<close>

definition acquireNATPMP ::
    "bool \<Rightarrow> (PortRequest \<Rightarrow> uint16 \<Rightarrow> (uint16 \<times> uint32) option) \<Rightarrow> gotime \<Rightarrow> Addr \<Rightarrow> PortRequest \<Rightarrow> nat \<Rightarrow> ares" where
  "acquireNATPMP ctxDone grant now externalIP r n =
     (if ctxDone then (n, [], Inl ContextDone)
      else (case grant r (requested_port r) of
              None \<Rightarrow> (n, [], Inl GatewayError)
            | Some (port, life) \<Rightarrow>
                (let lease = mk_lease r port externalIP (now + uint life * second) n
                 in if pr_Strict r \<and> port \<noteq> requested_port r then (Suc n, Lease_Release (Some lease), Inl (NotGranted (requested_port r)))
                    else (Suc n, [], Inr lease))))"

text \<open>The two acquisitions every backend makes: the DERP lease, then the STUN lease, giving the first back when the second
  fails.\<close>

definition acquire_both :: "(PortRequest \<Rightarrow> nat \<Rightarrow> ares) \<Rightarrow> (PortRequest \<Rightarrow> nat \<Rightarrow> ares) \<Rightarrow> Request \<Rightarrow> nat \<Rightarrow> bres" where
  "acquire_both acq1 acq2 request n =
     (case acq1 (rq_DERP request) n of
        (n1, rel1, Inl e) \<Rightarrow> \<lparr>br_next = n1, br_released = rel1, br_result = Inl e\<rparr>
      | (n1, rel1, Inr derp) \<Rightarrow>
          (let mapping = \<lparr>mp_Method = [], mp_DERP = Some derp, mp_STUN = None\<rparr> in
           case rq_STUN request of
             None \<Rightarrow> \<lparr>br_next = n1, br_released = rel1, br_result = Inr mapping\<rparr>
           | Some rs \<Rightarrow>
               (case acq2 rs n1 of
                  (n2, rel2, Inl e) \<Rightarrow>
                    \<lparr>br_next = n2, br_released = rel1 @ rel2 @ Mapping_Release (Some mapping), br_result = Inl e\<rparr>
                | (n2, rel2, Inr stun) \<Rightarrow>
                    \<lparr>br_next = n2, br_released = rel1 @ rel2, br_result = Inr (mapping\<lparr>mp_STUN := Some stun\<rparr>)\<rparr>)))"

definition no_mapping :: "nat \<Rightarrow> map_error \<Rightarrow> bres" where
  "no_mapping n e = \<lparr>br_next = n, br_released = [], br_result = Inl e\<rparr>"

record natpmp_env =
  nat_gateway :: "Addr option"
  nat_external :: "32 word option"
  nat_ctxDone :: bool
  nat_grant :: "PortRequest \<Rightarrow> uint16 \<Rightarrow> (uint16 \<times> uint32) option"
  nat_now :: gotime

definition natPMP_Map :: "natpmp_env \<Rightarrow> nat \<Rightarrow> Request \<Rightarrow> bres" where
  "natPMP_Map e n request =
     (case nat_gateway e of
        None \<Rightarrow> no_mapping n NoGateway
      | Some _ \<Rightarrow>
          (case nat_external e of
             None \<Rightarrow> no_mapping n GatewayError
           | Some ip \<Rightarrow>
               (let acq = acquireNATPMP (nat_ctxDone e) (nat_grant e) (nat_now e) (Addr4 ip) in acquire_both acq acq request n)))"

text \<open>UPnP: the address of the service, its external address when it answers with one that parses, what
  \<open>AddPortMapping\<close> says, and what \<open>AddAnyPortMapping\<close> grants where the service has it.\<close>

record upnp_service =
  us_local :: "Addr option"
  us_external :: "Addr option"
  us_add :: "PortRequest \<Rightarrow> uint16 \<Rightarrow> bool"
  us_addAny :: "PortRequest \<Rightarrow> uint16 option"

definition acquireUPnP :: "upnp_service \<Rightarrow> gotime \<Rightarrow> Addr \<Rightarrow> uint32 \<Rightarrow> PortRequest \<Rightarrow> nat \<Rightarrow> ares" where
  "acquireUPnP svc now externalIP lifetime r n =
     (case (if us_add svc r (requested_port r) then Some (requested_port r)
            else if \<not> pr_Strict r then us_addAny svc r else None) of
        None \<Rightarrow> (n, [], Inl GatewayError)
      | Some granted \<Rightarrow> (Suc n, [], Inr (mk_lease r granted externalIP (now + uint lifetime * second) n)))"

definition mapUPnPService :: "upnp_service \<Rightarrow> gotime \<Rightarrow> Addr \<Rightarrow> nat \<Rightarrow> Request \<Rightarrow> bres" where
  "mapUPnPService svc now source n request =
     (if map_option Unmap (us_local svc) \<noteq> Some (Unmap source) then no_mapping n WrongService
      else (case us_external svc of
              None \<Rightarrow> no_mapping n GatewayError
            | Some ip \<Rightarrow>
                (let acq = acquireUPnP svc now (Unmap ip) (word_of_int (normalizedLifetime (rq_Lifetime request) div second))
                 in acquire_both acq acq request n)))"

fun upnp_services :: "upnp_service list \<Rightarrow> gotime \<Rightarrow> Addr \<Rightarrow> nat \<Rightarrow> Request \<Rightarrow> bres" where
  "upnp_services [] now source n request = no_mapping n GatewayError"
| "upnp_services (svc # svcs) now source n request =
     (let r = mapUPnPService svc now source n request in
      case br_result r of
        Inr _ \<Rightarrow> r
      | Inl _ \<Rightarrow>
          (let rest = upnp_services svcs now source (br_next r) request
           in rest\<lparr>br_released := br_released r @ br_released rest\<rparr>))"

record upnp_env =
  up_gateway :: "Addr option"
  up_source :: "Addr option"
  up_services2 :: "upnp_service list"
  up_services1 :: "upnp_service list"
  up_now :: gotime

definition upnp_Map :: "upnp_env \<Rightarrow> nat \<Rightarrow> Request \<Rightarrow> bres" where
  "upnp_Map e n request =
     (case (up_gateway e, up_source e) of
        (None, _) \<Rightarrow> no_mapping n NoGateway
      | (Some _, None) \<Rightarrow> no_mapping n NoSource
      | (Some _, Some source) \<Rightarrow> upnp_services (up_services2 e @ up_services1 e) (up_now e) source n request)"

end
