(* ===== verification/Pcp.thy ===== *)
theory Pcp
  imports Portmap
begin

text \<open>
  \<^verbatim>\<open>internal/portmap/pcp.go\<close>: the PCP MAP request and response as bytes, the exchange with its retries, and the
  table of nonces that lets a later request renew a mapping.
\<close>

section \<open>Messages\<close>

record pcpLeaseKey =
  lk_gateway :: Addr
  lk_source :: Addr
  lk_protocol :: Protocol
  lk_internalPort :: uint16

record pcpMapResponse =
  pm_ip :: Addr
  pm_port :: uint16
  pm_lifetime :: uint32

datatype pcp_error = PcpDial | PcpContext | PcpWrite | PcpRead | PcpInvalid | PcpResult uint8 | PcpMismatch

definition pcp_protocol :: "PortRequest \<Rightarrow> uint8" where
  "pcp_protocol r = (if pr_Protocol r = UDP then 17 else 6)"

text \<open>The request of 60 bytes, field by field.\<close>

definition pcp_packet :: "Addr \<Rightarrow> PortRequest \<Rightarrow> uint16 \<Rightarrow> uint32 \<Rightarrow> bytes \<Rightarrow> bytes" where
  "pcp_packet source r externalPort lifetime nonce =
     [2, 1, 0, 0] @ be_bytes 4 (unat lifetime) @ be_bytes 16 (unat (As16 source)) @ nonce @
     [pcp_protocol r, 0, 0, 0] @ be_bytes 2 (unat (pr_InternalPort r)) @ be_bytes 2 (unat externalPort) @ replicate 16 0"

definition slice :: "nat \<Rightarrow> nat \<Rightarrow> bytes \<Rightarrow> bytes" where
  "slice a b bs = take (b - a) (drop a bs)"

text \<open>The checks of a response and its reading.\<close>

definition pcp_parse :: "bytes \<Rightarrow> PortRequest \<Rightarrow> bytes \<Rightarrow> pcp_error + pcpMapResponse" where
  "pcp_parse response r nonce =
     (if length response < 60 \<or> response ! 0 \<noteq> 2 \<or> response ! 1 \<noteq> 0x81 then Inl PcpInvalid
      else if response ! 3 \<noteq> 0 then Inl (PcpResult (response ! 3))
      else if slice 24 36 response \<noteq> nonce \<or> response ! 36 \<noteq> pcp_protocol r \<or>
              word_of_nat (be_value (slice 40 42 response)) \<noteq> pr_InternalPort r then Inl PcpMismatch
      else Inr \<lparr>pm_ip = Unmap (Addr6 (word_of_nat (be_value (slice 44 60 response))) []),
                pm_port = word_of_nat (be_value (slice 42 44 response)),
                pm_lifetime = word_of_nat (be_value (slice 4 8 response))\<rparr>)"

text \<open>One round of the exchange: whether the context has ended, whether the write fails, the time that passes until the read
  deadline is set, and the result of the read; a read times out no earlier than its deadline.\<close>

datatype pcp_read = PcpData bytes | PcpTimeout nat | PcpReadError

record pcp_round =
  rd_ctxErr :: bool
  rd_writeErr :: bool
  rd_wait :: nat
  rd_read :: pcp_read

fun retryDelay :: "nat \<Rightarrow> duration" where
  "retryDelay 0 = 250 * millisecond"
| "retryDelay (Suc k) = (if retryDelay k < second then 2 * retryDelay k else retryDelay k)"

lemma retryDelay_pos: "0 < retryDelay k"
  by (induction k) (auto simp: millisecond_def)

text \<open>The loop from its round \<open>k\<close> on: the number of packets written and the bytes read.\<close>

function pcp_exchange :: "gotime \<Rightarrow> (nat \<Rightarrow> pcp_round) \<Rightarrow> nat \<Rightarrow> gotime \<Rightarrow> nat \<times> (pcp_error + bytes)" where
  "pcp_exchange deadline rounds k now =
     (let a = rounds k in
      if rd_ctxErr a then (k, Inl PcpContext)
      else if rd_writeErr a then (k, Inl PcpWrite)
      else (let readDeadline = min deadline (now + int (rd_wait a) + retryDelay k) in
            case rd_read a of
              PcpData bs \<Rightarrow> (Suc k, Inr bs)
            | PcpReadError \<Rightarrow> (Suc k, Inl PcpRead)
            | PcpTimeout late \<Rightarrow>
                if \<not> readDeadline + int late < deadline then (Suc k, Inl PcpRead)
                else pcp_exchange deadline rounds (Suc k) (readDeadline + int late)))"
  by pat_completeness auto
termination
proof (relation "measure (\<lambda>(deadline, _, _, now). nat (deadline - now))", goal_cases)
  case (2 deadline rounds k now a readDeadline late)
  have "0 < retryDelay k" by (rule retryDelay_pos)
  with 2 show ?case by (simp add: min_def split: if_splits)
qed simp

declare pcp_exchange.simps [simp del]

text \<open>The network a call meets: whether dialling fails, the time, the deadline of the context, and the rounds that follow
  when the given packet is sent. The buffer has 1100 bytes.\<close>

record pcp_net =
  pn_dialErr :: bool
  pn_start :: gotime
  pn_ctxDeadline :: "gotime option"
  pn_rounds :: "bytes \<Rightarrow> nat \<Rightarrow> pcp_round"

definition pcp_deadline :: "pcp_net \<Rightarrow> gotime" where
  "pcp_deadline net =
     (let deadline = pn_start net + 3 * second in
      case pn_ctxDeadline net of Some v \<Rightarrow> if v < deadline then v else deadline | None \<Rightarrow> deadline)"

definition pcpMap :: "pcp_net \<Rightarrow> Addr \<Rightarrow> PortRequest \<Rightarrow> uint16 \<Rightarrow> uint32 \<Rightarrow> bytes \<Rightarrow> pcp_error + pcpMapResponse" where
  "pcpMap net source r externalPort lifetime nonce =
     (if pn_dialErr net then Inl PcpDial
      else (case snd (pcp_exchange (pcp_deadline net) (pn_rounds net (pcp_packet source r externalPort lifetime nonce)) 0 (pn_start net)) of
              Inl e \<Rightarrow> Inl e
            | Inr bs \<Rightarrow> pcp_parse (take 1100 bs) r nonce))"

section \<open>Nonces and leases\<close>

type_synonym nonces = "pcpLeaseKey \<Rightarrow> bytes option"

text \<open>\<open>nonce\<close>: the nonce, whether it is new; \<open>rand\<close> is what \<open>rand.Read\<close> delivers.\<close>

definition pcp_nonce :: "bytes option \<Rightarrow> pcpLeaseKey \<Rightarrow> nonces \<Rightarrow> (bytes \<times> bool) option \<times> nonces" where
  "pcp_nonce rand key b =
     (case b key of
        Some n \<Rightarrow> (Some (n, False), b)
      | None \<Rightarrow> (case rand of None \<Rightarrow> (None, b) | Some n \<Rightarrow> (Some (n, True), b(key \<mapsto> n))))"

definition removeNonce :: "pcpLeaseKey \<Rightarrow> bytes \<Rightarrow> nonces \<Rightarrow> nonces" where
  "removeNonce key nonce b = (if b key = Some nonce then b(key := None) else b)"

text \<open>What one \<open>acquire\<close> meets: randomness, the network of the request and of a release, the time of the answer.\<close>

record pcp_env =
  pcp_rand :: "bytes option"
  pcp_request :: pcp_net
  pcp_releaseNet :: pcp_net
  pcp_now :: gotime

definition lease_key :: "Addr \<Rightarrow> Addr \<Rightarrow> PortRequest \<Rightarrow> pcpLeaseKey" where
  "lease_key gateway source r =
     \<lparr>lk_gateway = gateway, lk_source = source, lk_protocol = pr_Protocol r, lk_internalPort = pr_InternalPort r\<rparr>"

text \<open>The release function of a PCP lease: the nonce goes when the gateway has answered.\<close>

definition pcp_release :: "pcp_net \<Rightarrow> Addr \<Rightarrow> PortRequest \<Rightarrow> uint16 \<Rightarrow> pcpLeaseKey \<Rightarrow> bytes \<Rightarrow> nonces \<Rightarrow> nonces" where
  "pcp_release net source r port key nonce b =
     (case pcpMap net source r port 0 nonce of Inr _ \<Rightarrow> removeNonce key nonce b | Inl _ \<Rightarrow> b)"

text \<open>\<open>acquire\<close>: the lease or the error, the nonces, and the effect of the lease's release function on them.\<close>

definition pcp_acquire ::
    "pcp_env \<Rightarrow> Addr \<Rightarrow> Addr \<Rightarrow> duration \<Rightarrow> PortRequest \<Rightarrow> nat \<Rightarrow> nonces \<Rightarrow> ares \<times> nonces \<times> (nonces \<Rightarrow> nonces)" where
  "pcp_acquire e gateway source lifetime r n b =
     (let key = lease_key gateway source r in
      case pcp_nonce (pcp_rand e) key b of
        (None, b) \<Rightarrow> ((n, [], Inl GatewayError), b, (\<lambda>b. b))
      | (Some (nonce, created), b) \<Rightarrow>
          (case pcpMap (pcp_request e) source r (requested_port r) (word_of_int (lifetime div second)) nonce of
             Inl _ \<Rightarrow> ((n, [], Inl GatewayError), (if created then removeNonce key nonce b else b), (\<lambda>b. b))
           | Inr response \<Rightarrow>
               (let lease = mk_lease r (pm_port response) (pm_ip response) (pcp_now e + uint (pm_lifetime response) * second) n;
                    release = pcp_release (pcp_releaseNet e) source r (pm_port response) key nonce
                in if pr_Strict r \<and> pm_port response \<noteq> requested_port r
                   then ((Suc n, Lease_Release (Some lease), Inl (NotGranted (requested_port r))), release b, release)
                   else ((Suc n, [], Inr lease), b, release))))"

text \<open>\<open>pcpBackend.Map\<close>, with the environments of the two acquisitions: the result and the nonces after it.\<close>

definition pcp_Map ::
    "Addr option \<Rightarrow> Addr option \<Rightarrow> pcp_env \<Rightarrow> pcp_env \<Rightarrow> nonces \<Rightarrow> nat \<Rightarrow> Request \<Rightarrow> bres \<times> nonces" where
  "pcp_Map gateway source e1 e2 b n request =
     (case (gateway, source) of
        (None, _) \<Rightarrow> (no_mapping n NoGateway, b)
      | (Some _, None) \<Rightarrow> (no_mapping n NoSource, b)
      | (Some g, Some s) \<Rightarrow>
          (let lifetime = normalizedLifetime (rq_Lifetime request);
               a1 = pcp_acquire e1 g s lifetime (rq_DERP request) n b;
               b1 = fst (snd a1);
               a2 = (\<lambda>r n. pcp_acquire e2 g s lifetime r n b1)
           in (acquire_both (\<lambda>r n. fst (pcp_acquire e1 g s lifetime r n b)) (\<lambda>r n. fst (a2 r n)) request n,
               (case (snd (snd (fst a1)), rq_STUN request) of
                  (Inr _, Some rs) \<Rightarrow>
                    (case a2 rs (fst (fst a1)) of
                       ((_, _, Inl _), b2, _) \<Rightarrow> snd (snd a1) b2
                     | ((_, _, Inr _), b2, _) \<Rightarrow> b2)
                | _ \<Rightarrow> b1))))"

section \<open>Responses\<close>

text \<open>The response a gateway sends to a MAP request.\<close>

definition pcp_response :: "PortRequest \<Rightarrow> bytes \<Rightarrow> Addr \<Rightarrow> uint16 \<Rightarrow> uint32 \<Rightarrow> bytes \<Rightarrow> bytes" where
  "pcp_response r nonce ip port lifetime rest =
     [2, 0x81, 0, 0] @ be_bytes 4 (unat lifetime) @ replicate 16 0 @ nonce @
     [pcp_protocol r, 0, 0, 0] @ be_bytes 2 (unat (pr_InternalPort r)) @ be_bytes 2 (unat port) @ be_bytes 16 (unat (As16 ip)) @ rest"

lemma As16_Unmap: "Unmap (Addr6 (As16 (Addr4 w)) []) = Addr4 w"
proof -
  have top: "(0xffff00000000 :: 128 word) = push_bit 32 0xffff" by simp
  have high: "\<not> bit (0xffff00000000 :: 128 word) n" if "n < 32" for n
    using that unfolding top bit_push_bit_iff by simp
  have mapped: "drop_bit 32 (As16 (Addr4 w)) = 0xffff"
    by (rule bit_word_eqI) (auto simp: bit_simps dest: bit_imp_le_length)
  have low: "(ucast (As16 (Addr4 w)) :: 32 word) = w"
    by (rule bit_word_eqI) (use high in \<open>auto simp: bit_simps\<close>)
  show ?thesis using mapped low by simp
qed

end
