(* ===== verification/PortmapSafety.thy ===== *)
theory PortmapSafety
  imports Pcp
begin

text \<open>
  Theorems on \<^verbatim>\<open>internal/portmap\<close>: every mapping a gateway grants is returned or given back, a returned mapping
  is valid, the table of reserved addresses as ranges, and the PCP message and its exchange.
\<close>

section \<open>Every granted mapping is returned or given back\<close>

text \<open>The numbers of the release functions of a result, and the balance: the releases made and the releases returned are
  the numbers allocated, each once.\<close>

definition result_handles :: "map_error + Mapping \<Rightarrow> nat list" where
  "result_handles r = (case r of Inl _ \<Rightarrow> [] | Inr m \<Rightarrow> Mapping_Release (Some m))"

definition balanced :: "nat \<Rightarrow> bres \<Rightarrow> bool" where
  "balanced n r \<longleftrightarrow> n \<le> br_next r \<and> mset (br_released r @ result_handles (br_result r)) = mset [n..<br_next r]"

definition acq_balanced :: "nat \<Rightarrow> ares \<Rightarrow> bool" where
  "acq_balanced n a \<longleftrightarrow>
     (case a of
        (n', rel, Inl _) \<Rightarrow> n \<le> n' \<and> mset rel = mset [n..<n']
      | (n', rel, Inr l) \<Rightarrow> n \<le> n' \<and> mset (rel @ Lease_Release (Some l)) = mset [n..<n'])"

lemma mset_upt_append: "i \<le> j \<Longrightarrow> j \<le> k \<Longrightarrow> mset [i..<j] + mset [j..<k] = mset [i..<k]"
  by (metis mset_append upt_add_eq_append le_Suc_ex)

text \<open>A backend acquires at most two leases.\<close>

locale acquirer =
  fixes acq :: "PortRequest \<Rightarrow> nat \<Rightarrow> ares"
  assumes acq_balanced: "acq_balanced n (acq r n)"

locale two_acquirers = first: acquirer acq1 + second: acquirer acq2
  for acq1 acq2 :: "PortRequest \<Rightarrow> nat \<Rightarrow> ares"
begin

lemma both_balanced: "balanced n (acquire_both acq1 acq2 request n)"
proof (cases "acq1 (rq_DERP request) n")
  case a1: (fields n1 rel1 res1)
  have f: "acq_balanced n (n1, rel1, res1)"
    using first.acq_balanced [of n "rq_DERP request"] by (simp add: a1)
  show ?thesis
  proof (cases res1)
    case (Inl e)
    then show ?thesis using f by (simp add: a1 acquire_both_def balanced_def acq_balanced_def result_handles_def)
  next
    case derp: (Inr derp)
    show ?thesis
    proof (cases "rq_STUN request")
      case None
      then show ?thesis using f derp
        by (simp add: a1 acquire_both_def balanced_def acq_balanced_def result_handles_def Mapping_Release_def Lease_Release_def)
    next
      case stun: (Some rs)
      obtain n2 rel2 res2 where a2: "acq2 rs n1 = (n2, rel2, res2)" by (metis prod_cases3)
      have s: "acq_balanced n1 (n2, rel2, res2)"
        using second.acq_balanced [of n1 rs] by (simp add: a2)
      have le: "n \<le> n1" "n1 \<le> n2" using f s derp by (auto simp: acq_balanced_def split: sum.splits)
      have l: "mset rel1 + mset (Lease_Release (Some derp)) = mset [n..<n1]" using f derp by (simp add: acq_balanced_def)
      have r: "mset rel2 + (case res2 of Inl _ \<Rightarrow> {#} | Inr x \<Rightarrow> mset (Lease_Release (Some x))) = mset [n1..<n2]"
        using s by (auto simp: acq_balanced_def split: sum.splits)
      have "mset [n..<n2] = mset rel1 + mset (Lease_Release (Some derp)) +
          (mset rel2 + (case res2 of Inl _ \<Rightarrow> {#} | Inr x \<Rightarrow> mset (Lease_Release (Some x))))"
        unfolding l r by (simp add: mset_upt_append le del: mset_upt)
      moreover have "Lease_Release None = []" by (simp add: Lease_Release_def)
      ultimately show ?thesis using le
        by (cases res2)
          (simp_all add: a1 a2 derp stun acquire_both_def balanced_def result_handles_def Mapping_Release_def ac_simps del: mset_upt)
    qed
  qed
qed

end

lemmas acq_defs = acq_balanced_def mk_lease_def Lease_Release_def Let_def

interpretation natpmp_acq: acquirer "acquireNATPMP ctxDone grant now ip" for ctxDone grant now ip
  by unfold_locales (auto simp: acquireNATPMP_def acq_defs split: option.splits)

interpretation upnp_acq: acquirer "acquireUPnP svc now ip lifetime" for svc now ip lifetime
  by unfold_locales (auto simp: acquireUPnP_def acq_defs split: option.splits)

interpretation pcp_acq: acquirer "\<lambda>r n. fst (pcp_acquire e g s lifetime r n b)" for e g s lifetime b
  by unfold_locales (auto simp: pcp_acquire_def acq_defs split: option.splits prod.splits sum.splits)

interpretation natpmp_two: two_acquirers "acquireNATPMP ctxDone grant now ip" "acquireNATPMP ctxDone grant now ip" for ctxDone grant now ip
  by unfold_locales

interpretation upnp_two: two_acquirers "acquireUPnP svc now ip lifetime" "acquireUPnP svc now ip lifetime" for svc now ip lifetime
  by unfold_locales

interpretation pcp_two: two_acquirers
  "\<lambda>r n. fst (pcp_acquire e1 g s lifetime r n b1)" "\<lambda>r n. fst (pcp_acquire e2 g s lifetime r n b2)" for e1 e2 g s lifetime b1 b2
  by unfold_locales

text \<open>The contract of a backend, as \<open>Client.Map\<close> relies on it.\<close>

locale leak_free_backend =
  fixes run :: backend_run
  assumes run_balanced: "balanced n (run n request)"

lemma balanced_none: "balanced n (no_mapping n e)"
  by (simp add: balanced_def no_mapping_def result_handles_def)

text \<open>A failed attempt and what follows it.\<close>

lemma balanced_append:
  assumes "balanced n r" "mset rel = mset (br_released r @ result_handles (br_result r))" "balanced (br_next r) rest"
  shows "balanced n (rest\<lparr>br_released := rel @ br_released rest\<rparr>)"
proof -
  have "mset [n..<br_next rest] = mset [n..<br_next r] + mset [br_next r..<br_next rest]"
    using assms by (simp add: balanced_def mset_upt_append del: mset_upt)
  then show ?thesis using assms by (simp add: balanced_def ac_simps del: mset_upt)
qed

interpretation natpmp_backend: leak_free_backend "natPMP_Map e" for e
  by unfold_locales (simp add: natPMP_Map_def Let_def balanced_none natpmp_two.both_balanced split: option.split)

interpretation pcp_backend: leak_free_backend "\<lambda>n request. fst (pcp_Map g s e1 e2 b n request)" for g s e1 e2 b
  by unfold_locales (auto simp: pcp_Map_def Let_def balanced_none pcp_two.both_balanced split: option.split)

lemma service_balanced: "balanced n (mapUPnPService svc now source n request)"
  by (simp add: mapUPnPService_def Let_def balanced_none upnp_two.both_balanced split: option.split)

lemma services_balanced: "balanced n (upnp_services svcs now source n request)"
proof (induction svcs arbitrary: n)
  case (Cons svc svcs)
  let ?r = "mapUPnPService svc now source n request"
  show ?case
  proof (cases "br_result ?r")
    case (Inl e)
    have "balanced n (upnp_services svcs now source (br_next ?r) request
        \<lparr>br_released := br_released ?r @ br_released (upnp_services svcs now source (br_next ?r) request)\<rparr>)"
      by (rule balanced_append [OF service_balanced _ Cons.IH]) (simp add: Inl result_handles_def)
    then show ?thesis by (simp add: Inl Let_def)
  qed (simp add: Let_def service_balanced)
qed (simp add: balanced_none)

interpretation upnp_backend: leak_free_backend "upnp_Map e" for e
  by unfold_locales (auto simp: upnp_Map_def balanced_none services_balanced split: option.split)

locale port_client =
  fixes backends :: "nat \<Rightarrow> string \<Rightarrow> backend_run option"
  assumes leak_free: "backends k method = Some run \<Longrightarrow> leak_free_backend run"
begin

lemma methods_balanced: "balanced n (map_methods backends request k methods errs n)"
proof (induction methods arbitrary: n k errs)
  case Nil
  then show ?case by (simp add: balanced_def result_handles_def)
next
  case (Cons meth methods)
  show ?case
  proof (cases "backends k meth")
    case None
    then show ?thesis using Cons.IH by simp
  next
    case run: (Some run)
    let ?r = "run n request"
    have b: "balanced n ?r" using leak_free [OF run] by (rule leak_free_backend.run_balanced)
    have failed: "balanced n (map_methods backends request (Suc k) methods es (br_next ?r)
        \<lparr>br_released := rel @ br_released (map_methods backends request (Suc k) methods es (br_next ?r))\<rparr>)"
      if "mset rel = mset (br_released ?r @ result_handles (br_result ?r))" for rel es
      by (rule balanced_append [OF b that Cons.IH])
    show ?thesis
    proof (cases "br_result ?r")
      case (Inl e)
      with failed [of "br_released ?r"] show ?thesis by (simp add: run Let_def result_handles_def)
    next
      case res: (Inr m)
      show ?thesis
      proof (cases "validateMapping (Some m) request")
        case None
        then show ?thesis using b by (simp add: run res Let_def result_handles_def balanced_def Mapping_Release_def)
      next
        case (Some e)
        with res failed [of "br_released ?r @ Mapping_Release (Some m)"] show ?thesis
          by (simp add: run Let_def result_handles_def)
      qed
    qed
  qed
qed

lemma Client_Map_balanced: "balanced n (Client_Map backends methods n request)"
  by (simp add: Client_Map_def methods_balanced)

end

text \<open>A mapping that \<open>Client.Map\<close> returns passed the check, with the method that gave it.\<close>

lemma validateMapping_Method: "validateMapping (Some (m\<lparr>mp_Method := x\<rparr>)) request = validateMapping (Some m) request"
  by (auto simp: validateMapping_def split: option.split)

lemma map_methods_valid:
  "br_result (map_methods backends request k methods errs n) = Inr m \<Longrightarrow>
     validateMapping (Some m) request = None \<and> mp_Method m \<in> set methods"
proof (induction methods arbitrary: n k errs)
  case (Cons meth methods)
  from Cons.prems consider n' k' errs' where "br_result (map_methods backends request k' methods errs' n') = Inr m"
    | m' where "m = m'\<lparr>mp_Method := meth\<rparr>" "validateMapping (Some m') request = None"
    by (auto simp: Let_def split: option.splits sum.splits)
  then show ?case
  proof cases
    case 1
    then show ?thesis using Cons.IH by auto
  next
    case 2
    then show ?thesis by (simp add: validateMapping_Method)
  qed
qed simp

section \<open>The client of \<open>NewClient\<close>\<close>

text \<open>What the \<open>k\<close>-th call meets, and the backends \<open>NewClient\<close> installs.\<close>

record portmap_env =
  pe_natpmp :: natpmp_env
  pe_upnp :: upnp_env
  pe_source :: "Addr option"
  pe_pcp1 :: pcp_env
  pe_pcp2 :: pcp_env
  pe_nonces :: nonces

definition NewClient :: "(nat \<Rightarrow> portmap_env) \<Rightarrow> nat \<Rightarrow> string \<Rightarrow> backend_run option" where
  "NewClient env k =
     [''pcp'' \<mapsto> \<lambda>n request. fst (pcp_Map (nat_gateway (pe_natpmp (env k))) (pe_source (env k)) (pe_pcp1 (env k)) (pe_pcp2 (env k)) (pe_nonces (env k)) n request),
      ''natpmp'' \<mapsto> natPMP_Map (pe_natpmp (env k)),
      ''upnp'' \<mapsto> upnp_Map (pe_upnp (env k))]"

interpretation client: port_client "NewClient env" for env
proof (unfold_locales, goal_cases)
  case (1 k meth run)
  then show ?case
    using natpmp_backend.run_balanced pcp_backend.run_balanced upnp_backend.run_balanced
    by (auto simp: NewClient_def split: if_splits)
qed

lemma validateMapping_ok:
  assumes "validateMapping (Some m) request = None"
  obtains d where "mp_DERP m = Some d" "IsPublicIPv4 (le_ExternalIP d)" "le_ExternalPort d \<noteq> 0"
    "case rq_STUN request of None \<Rightarrow> True
     | Some _ \<Rightarrow> (case mp_STUN m of None \<Rightarrow> False | Some st \<Rightarrow> le_ExternalIP st = le_ExternalIP d \<and> le_ExternalPort st \<noteq> 0)"
  using assms by (auto simp: validateMapping_def split: option.splits if_splits)

text \<open>
  No mapping is lost (C22). Whatever the gateways answer to \<open>Client.Map\<close> with the backends of \<open>NewClient\<close>: if it
  fails, the release functions of all mappings granted on the way have been called, each once. If it returns a
  mapping, the releases called together with those of the mapping are all there are, the DERP lease has a public
  address and a port, and a requested STUN lease has the same address and a port.
\<close>

theorem portmap_no_leak:
  "let r = Client_Map (NewClient env) (NewClientWithBackends methods) n request in
   case br_result r of
     Inl _ \<Rightarrow> mset (br_released r) = mset [n..<br_next r]
   | Inr m \<Rightarrow>
       mset (br_released r @ Mapping_Release (Some m)) = mset [n..<br_next r] \<and>
       mp_Method m \<in> set (NewClientWithBackends methods) \<and>
       (\<exists>d. mp_DERP m = Some d \<and> IsPublicIPv4 (le_ExternalIP d) \<and> le_ExternalPort d \<noteq> 0 \<and>
          (case rq_STUN request of None \<Rightarrow> True
           | Some _ \<Rightarrow> (case mp_STUN m of None \<Rightarrow> False | Some st \<Rightarrow> le_ExternalIP st = le_ExternalIP d \<and> le_ExternalPort st \<noteq> 0)))"
proof -
  define r where "r = Client_Map (NewClient env) (NewClientWithBackends methods) n request"
  have bal: "mset (br_released r @ result_handles (br_result r)) = mset [n..<br_next r]"
    using client.Client_Map_balanced unfolding r_def balanced_def by blast
  show ?thesis
  proof (cases "br_result r")
    case (Inl e)
    then show ?thesis using bal by (simp add: r_def [symmetric] result_handles_def)
  next
    case (Inr m)
    then have valid: "validateMapping (Some m) request = None" "mp_Method m \<in> set (NewClientWithBackends methods)"
      using map_methods_valid unfolding r_def Client_Map_def by blast+
    from valid(1) obtain d where d: "mp_DERP m = Some d" "IsPublicIPv4 (le_ExternalIP d)" "le_ExternalPort d \<noteq> 0"
      "case rq_STUN request of None \<Rightarrow> True
       | Some _ \<Rightarrow> (case mp_STUN m of None \<Rightarrow> False | Some st \<Rightarrow> le_ExternalIP st = le_ExternalIP d \<and> le_ExternalPort st \<noteq> 0)"
      by (rule validateMapping_ok)
    have "mset (br_released r @ Mapping_Release (Some m)) = mset [n..<br_next r]"
      using bal by (simp add: Inr result_handles_def)
    with valid(2) d show ?thesis by (simp add: r_def [symmetric] Inr del: mset_upt)
  qed
qed

section \<open>Public addresses as ranges\<close>

definition quad :: "nat \<Rightarrow> nat \<Rightarrow> nat \<Rightarrow> nat \<Rightarrow> 32 word" where
  "quad a b c d = word_of_nat (((a * 256 + b) * 256 + c) * 256 + d)"

lemma prefix4_contains_div:
  "prefix4_contains (b, l) w \<longleftrightarrow> unat w div 2 ^ (32 - l) = unat b div 2 ^ (32 - l)"
proof -
  have "drop_bit (32 - l) (w XOR b) = drop_bit (32 - l) w XOR drop_bit (32 - l) b"
    by (rule bit_word_eqI) (simp add: bit_simps)
  then have "prefix4_contains (b, l) w \<longleftrightarrow> drop_bit (32 - l) w = drop_bit (32 - l) b"
    by (metis prefix4_contains_def fst_conv snd_conv xor_self_eq bit.xor_left_self xor.right_neutral)
  also have "\<dots> \<longleftrightarrow> unat (drop_bit (32 - l) w) = unat (drop_bit (32 - l) b)"
    by (rule word_unat_eq_iff)
  also have "\<dots> \<longleftrightarrow> unat w div 2 ^ (32 - l) = unat b div 2 ^ (32 - l)"
    unfolding unat_drop_bit_eq by (simp add: drop_bit_eq_div)
  finally show ?thesis .
qed

lemma div_eq_range:
  fixes x y m :: nat
  assumes "0 < m" "y mod m = 0"
  shows "x div m = y div m \<longleftrightarrow> y \<le> x \<and> x < y + m"
proof -
  obtain q where y: "y = m * q" using assms(2) by auto
  have "y \<le> x \<and> x < y + m" if "x div m = q"
  proof -
    have "m * q + x mod m = x" using that by (metis mult_div_mod_eq)
    moreover have "x mod m < m" using assms(1) by simp
    ultimately show ?thesis unfolding y by linarith
  qed
  moreover have "x div m = q" if "y \<le> x \<and> x < y + m"
    using that by (intro div_nat_eqI) (simp_all add: y mult.commute)
  moreover have "y div m = q" using assms(1) by (simp add: y)
  ultimately show ?thesis by metis
qed

lemma prefix4_contains_range:
  assumes "lo = b" "unat b mod 2 ^ (32 - l) = 0" "unat hi + 1 = unat b + 2 ^ (32 - l)"
  shows "prefix4_contains (b, l) w \<longleftrightarrow> lo \<le> w \<and> w \<le> hi"
proof -
  have "prefix4_contains (b, l) w \<longleftrightarrow> unat b \<le> unat w \<and> unat w < unat b + 2 ^ (32 - l)"
    unfolding prefix4_contains_div by (rule div_eq_range) (simp_all add: assms)
  also have "\<dots> \<longleftrightarrow> unat b \<le> unat w \<and> unat w \<le> unat hi" using assms(3) by linarith
  finally show ?thesis by (simp add: assms(1) word_le_nat_alt)
qed

text \<open>
  The addresses taken as public. An IPv4 address is public exactly when it lies outside the special-purpose
  ranges 0/8, 10/8, 100.64/10, 127/8, 169.254/16, 172.16/12, 192.0.0/24, 192.0.2/24, 192.168/16, 198.18/15,
  198.51.100/24, 203.0.113/24 and everything from 224.0.0.0 on.
\<close>

theorem IsPublicIPv4_ranges:
  "IsPublicIPv4 (Addr4 w) \<longleftrightarrow>
     \<not> list_ex (\<lambda>(lo, hi). lo \<le> w \<and> w \<le> hi)
        [(quad 0 0 0 0, quad 0 255 255 255), (quad 10 0 0 0, quad 10 255 255 255), (quad 100 64 0 0, quad 100 127 255 255),
         (quad 127 0 0 0, quad 127 255 255 255), (quad 169 254 0 0, quad 169 254 255 255), (quad 172 16 0 0, quad 172 31 255 255),
         (quad 192 0 0 0, quad 192 0 0 255), (quad 192 0 2 0, quad 192 0 2 255), (quad 192 168 0 0, quad 192 168 255 255),
         (quad 198 18 0 0, quad 198 19 255 255), (quad 198 51 100 0, quad 198 51 100 255), (quad 203 0 113 0, quad 203 0 113 255),
         (quad 224 0 0 0, quad 255 255 255 255)]"
proof -
  have ranges:
    "prefix4_contains (0x00000000, 8) w \<longleftrightarrow> quad 0 0 0 0 \<le> w \<and> w \<le> quad 0 255 255 255"
    "prefix4_contains (0x0A000000, 8) w \<longleftrightarrow> quad 10 0 0 0 \<le> w \<and> w \<le> quad 10 255 255 255"
    "prefix4_contains (0x64400000, 10) w \<longleftrightarrow> quad 100 64 0 0 \<le> w \<and> w \<le> quad 100 127 255 255"
    "prefix4_contains (0x7F000000, 8) w \<longleftrightarrow> quad 127 0 0 0 \<le> w \<and> w \<le> quad 127 255 255 255"
    "prefix4_contains (0xA9FE0000, 16) w \<longleftrightarrow> quad 169 254 0 0 \<le> w \<and> w \<le> quad 169 254 255 255"
    "prefix4_contains (0xAC100000, 12) w \<longleftrightarrow> quad 172 16 0 0 \<le> w \<and> w \<le> quad 172 31 255 255"
    "prefix4_contains (0xC0000000, 24) w \<longleftrightarrow> quad 192 0 0 0 \<le> w \<and> w \<le> quad 192 0 0 255"
    "prefix4_contains (0xC0000200, 24) w \<longleftrightarrow> quad 192 0 2 0 \<le> w \<and> w \<le> quad 192 0 2 255"
    "prefix4_contains (0xC0A80000, 16) w \<longleftrightarrow> quad 192 168 0 0 \<le> w \<and> w \<le> quad 192 168 255 255"
    "prefix4_contains (0xC6120000, 15) w \<longleftrightarrow> quad 198 18 0 0 \<le> w \<and> w \<le> quad 198 19 255 255"
    "prefix4_contains (0xC6336400, 24) w \<longleftrightarrow> quad 198 51 100 0 \<le> w \<and> w \<le> quad 198 51 100 255"
    "prefix4_contains (0xCB007100, 24) w \<longleftrightarrow> quad 203 0 113 0 \<le> w \<and> w \<le> quad 203 0 113 255"
    "prefix4_contains (0xE0000000, 4) w \<longleftrightarrow> quad 224 0 0 0 \<le> w \<and> w \<le> quad 239 255 255 255"
    "prefix4_contains (0xF0000000, 4) w \<longleftrightarrow> quad 240 0 0 0 \<le> w \<and> w \<le> quad 255 255 255 255"
    by (rule prefix4_contains_range; simp add: quad_def)+
  have top: "quad 224 0 0 0 \<le> w \<and> w \<le> quad 255 255 255 255 \<longleftrightarrow>
      quad 224 0 0 0 \<le> w \<and> w \<le> quad 239 255 255 255 \<or> quad 240 0 0 0 \<le> w \<and> w \<le> quad 255 255 255 255"
    by (auto simp: quad_def word_le_nat_alt)
  have gu: "IsGlobalUnicast4 w" if "\<not> list_ex (\<lambda>p. prefix4_contains p w) nonPublicIPv4"
  proof -
    have drop: "unat w div 2 ^ k = unat (drop_bit k w)" for k
      unfolding unat_drop_bit_eq by (simp add: drop_bit_eq_div)
    have "unat w div 16777216 \<noteq> 0" "unat w div 16777216 \<noteq> 127" "unat w div 65536 \<noteq> 43518" "unat w div 268435456 \<noteq> 14"
      "unat w div 268435456 \<noteq> 15"
      using that by (simp_all add: nonPublicIPv4_def prefix4_contains_div)
    then show ?thesis
      using drop [of 24] drop [of 16] drop [of 28] by (auto simp: IsGlobalUnicast4_def)
  qed
  have "IsPublicIPv4 (Addr4 w) \<longleftrightarrow> \<not> list_ex (\<lambda>p. prefix4_contains p w) nonPublicIPv4"
    using gu by (auto simp: IsPublicIPv4_def)
  then show ?thesis
    by (simp add: nonPublicIPv4_def ranges top)
qed

section \<open>PCP messages\<close>

lemma pcp_exchange_last: "deadline - now \<le> retryDelay k \<Longrightarrow> fst (pcp_exchange deadline rounds k now) \<le> Suc k"
  by (subst pcp_exchange.simps) (auto simp: Let_def split: pcp_read.split)

lemma pcp_exchange_next:
  assumes "deadline - now \<le> budget" "Suc k \<le> m"
    and "\<And>now'. deadline - now' \<le> budget - retryDelay k \<Longrightarrow> fst (pcp_exchange deadline rounds (Suc k) now') \<le> m"
  shows "fst (pcp_exchange deadline rounds k now) \<le> m"
  using assms by (subst pcp_exchange.simps) (auto simp: Let_def split: pcp_read.split)

text \<open>
  Retries are bounded (C23). The exchange of \<open>pcpMap\<close> ends under every behaviour of the network, after at most five
  requests.
\<close>

theorem pcp_exchange_bounded: "fst (pcp_exchange (pcp_deadline net) rounds 0 (pn_start net)) \<le> 5"
proof -
  define d where "d = pcp_deadline net"
  have delay: "retryDelay 0 = 250000000" "retryDelay 1 = 500000000" "retryDelay 2 = 1000000000" "retryDelay 3 = 1000000000"
    "retryDelay 4 = 1000000000"
    by (simp_all add: numeral_eq_Suc millisecond_def second_def)
  have r4: "fst (pcp_exchange d rounds 4 now) \<le> 5" if "d - now \<le> 250000000" for now
    using pcp_exchange_last [of d now 4 rounds] that by (simp add: delay)
  have r3: "fst (pcp_exchange d rounds 3 now) \<le> 5" if "d - now \<le> 1250000000" for now
    by (rule pcp_exchange_next [OF that]) (use r4 in \<open>simp_all add: delay\<close>)
  have r2: "fst (pcp_exchange d rounds 2 now) \<le> 5" if "d - now \<le> 2250000000" for now
    by (rule pcp_exchange_next [OF that]) (use r3 in \<open>simp_all add: delay\<close>)
  have r1: "fst (pcp_exchange d rounds 1 now) \<le> 5" if "d - now \<le> 2750000000" for now
    by (rule pcp_exchange_next [OF that]) (use r2 in \<open>simp_all add: delay numeral_2_eq_2 [symmetric] del: retryDelay.simps One_nat_def\<close>)
  have r0: "fst (pcp_exchange d rounds 0 now) \<le> 5" if "d - now \<le> 3000000000" for now
    by (rule pcp_exchange_next [OF that]) (use r1 in \<open>simp_all add: delay del: retryDelay.simps\<close>)
  have "d - pn_start net \<le> 3000000000"
    by (simp add: d_def pcp_deadline_def Let_def second_def split: option.split)
  then show ?thesis using r0 unfolding d_def by blast
qed

text \<open>
  A response is matched with its request. When the network delivers the response of a gateway that granted the
  request, \<open>pcpMap\<close> returns the address, port and lifetime in it; a response to another nonce, protocol or internal
  port is refused.
\<close>

theorem pcp_response_matched:
  assumes "\<not> pn_dialErr net" and "length nonce = 12" and "length nonce' = 12" and "length rest \<le> 1040"
    and "snd (pcp_exchange (pcp_deadline net) (pn_rounds net (pcp_packet source r externalPort lifetime nonce)) 0 (pn_start net)) =
           Inr (pcp_response r' nonce' (Addr4 ip) port granted rest)"
  shows "pcpMap net source r externalPort lifetime nonce =
           (if nonce' = nonce \<and> pr_Protocol r' = pr_Protocol r \<and> pr_InternalPort r' = pr_InternalPort r
            then Inr \<lparr>pm_ip = Addr4 ip, pm_port = port, pm_lifetime = granted\<rparr> else Inl PcpMismatch)"
proof -
  define bs where "bs = pcp_response r' nonce' (Addr4 ip) port granted rest"
  have len: "length bs = 60 + length rest" using assms by (simp add: bs_def pcp_response_def)
  have parts: "slice 4 8 bs = be_bytes 4 (unat granted)" "slice 24 36 bs = nonce'" "bs ! 36 = pcp_protocol r'"
    "slice 40 42 bs = be_bytes 2 (unat (pr_InternalPort r'))" "slice 42 44 bs = be_bytes 2 (unat port)"
    "slice 44 60 bs = be_bytes 16 (unat (As16 (Addr4 ip)))" "bs ! 0 = 2" "bs ! 1 = 0x81" "bs ! 3 = 0"
    using assms(3) by (simp_all add: bs_def pcp_response_def slice_def nth_append del: be_bytes.simps As16.simps)
  have words: "word_of_nat (be_value (be_bytes 2 (unat w))) = w" for w :: uint16
    by (rule be_value_word) simp
  have word4: "word_of_nat (be_value (be_bytes 4 (unat w))) = w" for w :: uint32
    by (rule be_value_word) simp
  have word16: "word_of_nat (be_value (be_bytes 16 (unat w))) = w" for w :: "128 word"
    by (rule be_value_word) simp
  have proto: "pcp_protocol r' = pcp_protocol r \<longleftrightarrow> pr_Protocol r' = pr_Protocol r"
    by (cases "pr_Protocol r"; cases "pr_Protocol r'") (simp_all add: pcp_protocol_def)
  have "pcpMap net source r externalPort lifetime nonce = pcp_parse bs r nonce"
    using assms(1,4,5) len by (simp add: pcpMap_def bs_def [symmetric])
  also have "\<dots> = (if nonce' = nonce \<and> pr_Protocol r' = pr_Protocol r \<and> pr_InternalPort r' = pr_InternalPort r
            then Inr \<lparr>pm_ip = Addr4 ip, pm_port = port, pm_lifetime = granted\<rparr> else Inl PcpMismatch)"
    unfolding pcp_parse_def parts words word4 word16 As16_Unmap using len by (auto simp: proto)
  finally show ?thesis .
qed

definition demo_port :: PortRequest where
  "demo_port = \<lparr>pr_Protocol = TCP, pr_InternalPort = 3340, pr_ExternalPort = 443, pr_Strict = True\<rparr>"

definition demo_net :: pcp_net where
  "demo_net =
     \<lparr>pn_dialErr = False, pn_start = 0, pn_ctxDeadline = None,
      pn_rounds = (\<lambda>packet k. \<lparr>rd_ctxErr = False, rd_writeErr = False, rd_wait = 0,
        rd_read = PcpData (pcp_response demo_port (replicate 12 7) (Addr4 0x08080808) 443 7200 [])\<rparr>)\<rparr>"

theorem pcp_response_matched_witness:
  "pcpMap demo_net AddrZero demo_port 443 7200 (replicate 12 7) =
     Inr \<lparr>pm_ip = Addr4 0x08080808, pm_port = 443, pm_lifetime = 7200\<rparr>"
proof -
  have "snd (pcp_exchange (pcp_deadline demo_net)
      (pn_rounds demo_net (pcp_packet AddrZero demo_port 443 7200 (replicate 12 7))) 0 (pn_start demo_net)) =
      Inr (pcp_response demo_port (replicate 12 7) (Addr4 0x08080808) 443 7200 [])"
    by (subst pcp_exchange.simps) (simp add: demo_net_def)
  then show ?thesis
    using pcp_response_matched [of demo_net "replicate 12 7" "replicate 12 7" "[]" AddrZero demo_port 443 7200 demo_port "0x08080808" 443 7200]
    by (simp add: demo_net_def)
qed

end
