(* ===== verification/NetipText.thy ===== *)
theory NetipText
  imports Netip GoStrings
begin

text \<open>
  \<open>Addr.String\<close> of Go's \<^verbatim>\<open>net/netip\<close>: dotted decimal for IPv4, the shortened form for IPv6 (the longest run of at least
  two zero groups is left out, mapped IPv4 addresses keep their dotted form, the zone follows).
\<close>


definition hex_char :: "nat \<Rightarrow> char" where
  "hex_char n = (if n < 10 then char_of (48 + n) else char_of (87 + n))"

fun hex_of :: "nat \<Rightarrow> string" where
  "hex_of n = (if n < 16 then [hex_char n] else hex_of (n div 16) @ [hex_char (n mod 16)])"

declare hex_of.simps [simp del]

definition hextets :: "128 word \<Rightarrow> nat list" where
  "hextets w = map (\<lambda>i. unat (drop_bit (16 * (7 - i)) w) mod 65536) [0..<8]"

text \<open>The longest run of at least two zero groups, the first of several.\<close>

definition zero_run :: "nat list \<Rightarrow> nat \<times> nat" where
  "zero_run hs =
     foldl (\<lambda>(st, l) i. let n = length (takeWhile (\<lambda>h. h = 0) (drop i hs)) in if 2 \<le> n \<and> l < n then (i, n) else (st, l))
       (0, 0) [0..<length hs]"

definition dotted :: "32 word \<Rightarrow> string" where
  "dotted w = Join ''.'' (map (\<lambda>i. digits_of (unat w div 256 ^ (3 - i) mod 256)) [0..<4])"

fun Addr_String :: "Addr \<Rightarrow> string" where
  "Addr_String AddrZero = ''invalid IP''"
| "Addr_String (Addr4 w) = dotted w"
| "Addr_String (Addr6 w zone) =
     (if Is4In6 (Addr6 w zone) then ''::ffff:'' @ dotted (ucast w)
      else (let hs = hextets w; (st, l) = zero_run hs
            in if l = 0 then Join '':'' (map hex_of hs)
               else Join '':'' (map hex_of (take st hs)) @ ''::'' @ Join '':'' (map hex_of (drop (st + l) hs)))) @
     (if zone = [] then [] else ''%'' @ zone)"

lemma Join_not_empty: "xs \<noteq> [] \<Longrightarrow> hd xs \<noteq> [] \<Longrightarrow> Join sep xs \<noteq> []"
  by (induction sep xs rule: Join.induct) auto

lemma dotted_not_empty: "dotted w \<noteq> []"
proof -
  have "digits_of n \<noteq> []" for n by (subst digits_of.simps) simp
  then show ?thesis unfolding dotted_def by (intro Join_not_empty) (simp_all add: hd_map)
qed

lemma Addr_String_not_empty: "Addr_String a \<noteq> []"
proof (cases a)
  case (Addr6 w zone)
  have "hex_of n \<noteq> []" for n by (subst hex_of.simps) simp
  moreover have "hextets w \<noteq> []" by (simp add: hextets_def)
  ultimately have "Join '':'' (map hex_of (hextets w)) \<noteq> []"
    by (intro Join_not_empty) (simp_all add: hd_map)
  then show ?thesis by (simp add: Addr6 Let_def split: prod.split)
qed (simp_all add: dotted_not_empty)

end
