(* ===== verification/EndpointManager.thy ===== *)
theory EndpointManager
  imports PortmapSafety DerpMap NetipText
begin

text \<open>
  \<^verbatim>\<open>internal/endpoint/manager.go\<close>: discovery, validation, publication and withdrawal of the relay's external endpoint.

  \<^item> \<open>Manager\<close> has the fields of the struct; \<open>mg_next\<close> numbers the release functions of port mappings as in \<open>Portmap\<close>, and
    \<open>mg_trace\<close> lists the effects outside the manager in their order.
  \<^item> The mapper is \<open>Client_Map\<close> with the backends of \<open>NewClient\<close>; addresses, routes, the validator, the certificate and the
    syncer are the fields of \<open>menv\<close>, what one operation meets.
  \<^item> An operation that panics is \<^term>\<open>None\<close>; errors are their texts. \<open>opMu\<close> serialises the operations.
\<close>

section \<open>Data\<close>

definition failureThreshold :: int where "failureThreshold = 3"

record EConfig =
  ec_Enabled :: bool
  ec_Mode :: string
  ec_AddressFamily :: string
  ec_Methods :: "string list"
  ec_WANInterface :: string
  ec_DERPPort :: string
  ec_STUNPort :: string
  ec_LeaseDuration :: duration
  ec_RetryInterval :: duration
  ec_SyncInterval :: duration
  ec_ValidateEndpoint :: bool
  ec_TLSConfigured :: bool
  ec_ValidationNames :: "string list"
  ec_STUNEnabled :: bool

record FamilyValidation =
  fv_State :: string
  fv_DERP :: bool
  fv_STUN :: bool
  fv_Error :: string

record ValidationResult =
  vr_Scope :: string
  vr_State :: string
  vr_DERP :: bool
  vr_STUN :: bool
  vr_CheckedAt :: "gotime option"
  vr_Error :: string
  vr_IPv4 :: "FamilyValidation option"
  vr_IPv6 :: "FamilyValidation option"

record EStatus =
  st_Enabled :: bool
  st_State :: string
  st_LocalDERPPort :: uint16
  st_LocalSTUNPort :: uint16
  st_Endpoint :: "Endpoint option"
  st_Validation :: ValidationResult
  st_ValidationEnabled :: bool
  st_FailureCount :: int
  st_FailureThreshold :: int
  st_LastAttempt :: "gotime option"
  st_LastSuccess :: "gotime option"
  st_Error :: string
  st_Instances :: "InstanceStatus list"

text \<open>Effects: a release function called; the release functions of a mapping dropped because its renewal has taken it
  over; the certificate made for addresses; calls of the syncer.\<close>

datatype mevent = EvRelease nat | EvTakenOver nat | EvCert "string list" | EvPublish Endpoint | EvWithdraw

record Manager =
  mg_started :: bool
  mg_wake :: bool
  mg_localDERPPort :: uint16
  mg_localSTUNPort :: uint16
  mg_supportsIPv4 :: bool
  mg_supportsIPv6 :: bool
  mg_active :: "Mapping option"
  mg_endpoint :: "Endpoint option"
  mg_nextRenew :: gotime
  mg_nextSync :: gotime
  mg_network :: string
  mg_withdrawRetry :: bool
  mg_status :: EStatus
  mg_next :: nat
  mg_trace :: "mevent list"

record syncer =
  sy_Publish :: "Endpoint \<Rightarrow> InstanceStatus list \<times> string option"
  sy_Withdraw :: "InstanceStatus list \<times> string option"

text \<open>A value of the interface \<open>CertificateUpdater\<close>: nil, a nil pointer, or an updater (its error for the \<open>i\<close>-th call of
  an operation).\<close>

datatype CertificateUpdater = CertNone | CertNilPointer | CertUpdater "nat \<Rightarrow> string list \<Rightarrow> string option"

record menv =
  en_now :: gotime
  en_port :: "nat \<Rightarrow> portmap_env"
  en_mapText :: "map_error \<Rightarrow> string"
  en_publicIPv4 :: "(string \<Rightarrow> string + Addr) option"
  en_publicIPv6 :: "(string \<Rightarrow> string + Addr) option"
  en_fingerprint :: "(nat \<Rightarrow> string \<Rightarrow> string + string) option"
  en_cert :: CertificateUpdater
  en_validate :: "Endpoint \<Rightarrow> string list \<Rightarrow> bool \<Rightarrow> ValidationResult"
  en_syncer :: "syncer option"

definition disabled_validation :: ValidationResult where
  "disabled_validation =
     \<lparr>vr_Scope = ''local_reachability'', vr_State = ''disabled'', vr_DERP = False, vr_STUN = False, vr_CheckedAt = None,
      vr_Error = [], vr_IPv4 = None, vr_IPv6 = None\<rparr>"

text \<open>The defaults of \<open>NewManager\<close>, and the manager it returns.\<close>

definition normalized_config :: "EConfig \<Rightarrow> EConfig" where
  "normalized_config cfg =
     cfg\<lparr>ec_LeaseDuration := (if ec_LeaseDuration cfg \<le> 0 then 2 * hour else ec_LeaseDuration cfg),
         ec_RetryInterval := (if ec_RetryInterval cfg \<le> 0 then minute else ec_RetryInterval cfg),
         ec_SyncInterval := (if ec_SyncInterval cfg \<le> 0 then 5 * minute else ec_SyncInterval cfg),
         ec_Mode := (if ec_Mode cfg = [] then ''nat'' else ec_Mode cfg),
         ec_AddressFamily := (if ec_AddressFamily cfg = [] then ''ipv4'' else ec_AddressFamily cfg)\<rparr>"

definition NewManager :: "EConfig \<Rightarrow> Manager" where
  "NewManager cfg =
     \<lparr>mg_started = False, mg_wake = False, mg_localDERPPort = 0, mg_localSTUNPort = 0, mg_supportsIPv4 = True, mg_supportsIPv6 = True,
      mg_active = None, mg_endpoint = None, mg_nextRenew = 0, mg_nextSync = 0, mg_network = [], mg_withdrawRetry = False,
      mg_status =
        \<lparr>st_Enabled = ec_Enabled cfg, st_State = (if ec_Enabled cfg then ''discovering'' else ''disabled''),
         st_LocalDERPPort = 0, st_LocalSTUNPort = 0, st_Endpoint = None, st_Validation = disabled_validation,
         st_ValidationEnabled = ec_ValidateEndpoint cfg, st_FailureCount = 0, st_FailureThreshold = failureThreshold,
         st_LastAttempt = None, st_LastSuccess = None, st_Error = [], st_Instances = []\<rparr>,
      mg_next = 0, mg_trace = []\<rparr>"

section \<open>Small operations\<close>

definition emit :: "mevent list \<Rightarrow> Manager \<Rightarrow> Manager" where
  "emit evs m = m\<lparr>mg_trace := mg_trace m @ evs\<rparr>"

definition set_status :: "(EStatus \<Rightarrow> EStatus) \<Rightarrow> Manager \<Rightarrow> Manager" where
  "set_status f m = m\<lparr>mg_status := f (mg_status m)\<rparr>"

definition release_mapping :: "Mapping option \<Rightarrow> Manager \<Rightarrow> Manager" where
  "release_mapping mapping m = emit (map EvRelease (Mapping_Release mapping)) m"

definition signal :: "Manager \<Rightarrow> Manager" where
  "signal m = m\<lparr>mg_wake := True\<rparr>"

definition SetLocalBindings :: "uint16 \<Rightarrow> uint16 \<Rightarrow> bool \<Rightarrow> bool \<Rightarrow> Manager \<Rightarrow> Manager" where
  "SetLocalBindings derpPort stunPort ipv4 ipv6 m =
     signal (set_status (\<lambda>st. st\<lparr>st_LocalDERPPort := derpPort, st_LocalSTUNPort := stunPort\<rparr>)
       (m\<lparr>mg_localDERPPort := derpPort, mg_localSTUNPort := stunPort, mg_supportsIPv4 := ipv4, mg_supportsIPv6 := ipv6\<rparr>))"

definition SetLocalPorts :: "uint16 \<Rightarrow> uint16 \<Rightarrow> Manager \<Rightarrow> Manager" where
  "SetLocalPorts derpPort stunPort m = SetLocalBindings derpPort stunPort True True m"

definition wantsIPv4 :: "EConfig \<Rightarrow> bool" where
  "wantsIPv4 cfg \<longleftrightarrow> ec_AddressFamily cfg = ''ipv4'' \<or> ec_AddressFamily cfg = ''dual''"

definition wantsIPv6 :: "EConfig \<Rightarrow> bool" where
  "wantsIPv6 cfg \<longleftrightarrow> ec_AddressFamily cfg = ''ipv6'' \<or> ec_AddressFamily cfg = ''dual''"

definition addresses :: "Endpoint \<Rightarrow> string list" where
  "addresses e = (if ep_IPv4 e \<noteq> [] then [ep_IPv4 e] else []) @ (if ep_IPv6 e \<noteq> [] then [ep_IPv6 e] else [])"

definition not_passed :: "FamilyValidation option \<Rightarrow> bool" where
  "not_passed f \<longleftrightarrow> (case f of None \<Rightarrow> False | Some v \<Rightarrow> fv_State v \<noteq> ''passed'')"

definition validated :: "Endpoint \<Rightarrow> ValidationResult \<Rightarrow> Endpoint" where
  "validated e result =
     (let e = (if not_passed (vr_IPv4 result) then e\<lparr>ep_IPv4 := []\<rparr> else e);
          e = (if not_passed (vr_IPv6 result) then e\<lparr>ep_IPv6 := []\<rparr> else e)
      in if vr_IPv4 result = None \<and> vr_IPv6 result = None \<and> vr_State result \<noteq> ''passed'' then e\<lparr>ep_IPv4 := [], ep_IPv6 := []\<rparr> else e)"

definition requestedPort :: "string \<Rightarrow> uint16 \<Rightarrow> string + (uint16 \<times> bool)" where
  "requestedPort value local =
     (let value = TrimSpace (ToLower value)
      in if value = [] \<or> value = ''auto'' then Inr (local, False)
         else (case ParseUint 16 value of
                 None \<Rightarrow> Inl ''must be auto or an integer from 1 to 65535''
               | Some parsed \<Rightarrow>
                   if parsed = 0 then Inl ''must be auto or an integer from 1 to 65535'' else Inr (word_of_nat parsed, True)))"

text \<open>\<open>end.Sub(start) / 2\<close> truncates; the difference saturates only beyond 292 years.\<close>

definition midpoint :: "gotime \<Rightarrow> gotime \<Rightarrow> gotime" where
  "midpoint start stop = (if stop = 0 \<or> \<not> start < stop then start + hour else start + (stop - start) div 2)"

definition sameLease :: "Lease option \<Rightarrow> Lease option \<Rightarrow> bool" where
  "sameLease a b =
     (case (a, b) of
        (Some x, Some y) \<Rightarrow>
          le_Protocol x = le_Protocol y \<and> le_InternalPort x = le_InternalPort y \<and>
          le_ExternalPort x = le_ExternalPort y \<and> le_ExternalIP x = le_ExternalIP y
      | (None, None) \<Rightarrow> True
      | _ \<Rightarrow> False)"

definition sameMapping :: "Mapping option \<Rightarrow> Mapping option \<Rightarrow> bool" where
  "sameMapping a b =
     (case (a, b) of
        (Some x, Some y) \<Rightarrow> mp_Method x = mp_Method y \<and> sameLease (mp_DERP x) (mp_DERP y) \<and> sameLease (mp_STUN x) (mp_STUN y)
      | _ \<Rightarrow> False)"

definition setAttempt :: "string \<Rightarrow> gotime \<Rightarrow> Manager \<Rightarrow> Manager" where
  "setAttempt state now = set_status (\<lambda>st. st\<lparr>st_State := state, st_LastAttempt := Some (truncate_second now), st_Error := []\<rparr>)"

definition setState :: "string \<Rightarrow> string \<Rightarrow> Manager \<Rightarrow> Manager" where
  "setState state msg = set_status (\<lambda>st. st\<lparr>st_State := state, st_Error := msg\<rparr>)"

definition releaseActive :: "Manager \<Rightarrow> Manager" where
  "releaseActive m =
     release_mapping (mg_active m)
       (set_status (\<lambda>st. st\<lparr>st_Endpoint := None\<rparr>) (m\<lparr>mg_active := None, mg_endpoint := None, mg_network := []\<rparr>))"

definition errors_Join :: "string option list \<Rightarrow> string option" where
  "errors_Join errs = (case List.map_filter (\<lambda>x. x) errs of [] \<Rightarrow> None | es \<Rightarrow> Some (Join [CHR 0x0A] es))"

section \<open>Failures\<close>

definition fail_state :: "EConfig \<Rightarrow> Manager \<Rightarrow> string" where
  "fail_state cfg m =
     (if ec_ValidateEndpoint cfg then
        (if st_State (mg_status m) = ''withdrawn'' \<or> failureThreshold \<le> st_FailureCount (mg_status m) + 1 then ''withdrawn''
         else ''degraded'')
      else if mg_active m \<noteq> None then ''stale'' else ''error'')"

definition fail_retry :: "EConfig \<Rightarrow> Manager \<Rightarrow> bool" where
  "fail_retry cfg m \<longleftrightarrow>
     mg_withdrawRetry m \<or>
     ec_ValidateEndpoint cfg \<and> st_State (mg_status m) \<noteq> ''withdrawn'' \<and> st_FailureCount (mg_status m) + 1 = failureThreshold"

definition fail_note :: "EConfig \<Rightarrow> menv \<Rightarrow> string \<Rightarrow> Manager \<Rightarrow> Manager" where
  "fail_note cfg e err m =
     set_status (\<lambda>st. st\<lparr>st_LastAttempt := Some (truncate_second (en_now e)), st_Error := err,
         st_FailureCount := (if ec_ValidateEndpoint cfg then st_FailureCount st + 1 else st_FailureCount st),
         st_State := fail_state cfg m\<rparr>)
       (m\<lparr>mg_withdrawRetry := fail_retry cfg m\<rparr>)"

definition fail :: "EConfig \<Rightarrow> menv \<Rightarrow> string \<Rightarrow> Manager \<Rightarrow> string option \<times> Manager" where
  "fail cfg e err m =
     (let m = fail_note cfg e err m in
      case en_syncer e of
        None \<Rightarrow> (Some err, m)
      | Some sy \<Rightarrow>
          if \<not> mg_withdrawRetry m then (Some err, m)
          else (let (instances, withdrawErr) = sy_Withdraw sy;
                    m = set_status (\<lambda>st. st\<lparr>st_Instances := instances, st_State := ''withdrawn''\<rparr>)
                          (emit [EvWithdraw] (m\<lparr>mg_withdrawRetry := withdrawErr \<noteq> None\<rparr>))
                in (errors_Join [Some err, withdrawErr], releaseActive m)))"

definition resetValidationFailures :: "bool \<Rightarrow> Manager \<Rightarrow> Manager" where
  "resetValidationFailures markReady m =
     set_status (\<lambda>st. let hadFailures = 0 < st_FailureCount st; st = st\<lparr>st_FailureCount := 0\<rparr>
                      in if hadFailures \<and> markReady
                         then st\<lparr>st_Error := [], st_State := (if mg_endpoint m \<noteq> None then ''ready'' else st_State st)\<rparr>
                         else st)
       (m\<lparr>mg_withdrawRetry := False\<rparr>)"

definition publish :: "EConfig \<Rightarrow> menv \<Rightarrow> Endpoint \<Rightarrow> Manager \<Rightarrow> string option \<times> Manager" where
  "publish cfg e value m =
     (case en_syncer e of
        None \<Rightarrow> (None, m)
      | Some sy \<Rightarrow>
          (let (instances, err) = sy_Publish sy value
           in (err, set_status (\<lambda>st. st\<lparr>st_Instances := instances\<rparr>)
                      (emit [EvPublish value] (m\<lparr>mg_nextSync := en_now e + ec_SyncInterval cfg\<rparr>)))))"

text \<open>\<open>UpdateEndpointIPs\<close> when the manager has a certificate updater: \<^term>\<open>None\<close> is the panic on a nil pointer.\<close>

definition update_cert :: "menv \<Rightarrow> nat \<Rightarrow> string list \<Rightarrow> Manager \<Rightarrow> (string option \<times> Manager) option" where
  "update_cert e i ips m =
     (case en_cert e of
        CertNone \<Rightarrow> Some (None, m)
      | CertNilPointer \<Rightarrow> None
      | CertUpdater f \<Rightarrow> (case f i ips of Some err \<Rightarrow> Some (Some err, m) | None \<Rightarrow> Some (None, emit [EvCert ips] m)))"

section \<open>Reconciling\<close>

definition mappingRequest :: "EConfig \<Rightarrow> uint16 \<Rightarrow> uint16 \<Rightarrow> string + Request" where
  "mappingRequest cfg localDERP localSTUN =
     (case requestedPort (ec_DERPPort cfg) localDERP of
        Inl err \<Rightarrow> Inl (''DERP port: '' @ err)
      | Inr (derpExternal, derpStrict) \<Rightarrow>
          (let request = \<lparr>rq_Interface = ec_WANInterface cfg,
                 rq_DERP = \<lparr>pr_Protocol = TCP, pr_InternalPort = localDERP, pr_ExternalPort = derpExternal, pr_Strict = derpStrict\<rparr>,
                 rq_STUN = None, rq_Lifetime = ec_LeaseDuration cfg\<rparr>
           in if \<not> ec_STUNEnabled cfg then Inr request
              else (case requestedPort (ec_STUNPort cfg) localSTUN of
                      Inl err \<Rightarrow> Inl (''STUN port: '' @ err)
                    | Inr (stunExternal, stunStrict) \<Rightarrow>
                        Inr (request\<lparr>rq_STUN := Some \<lparr>pr_Protocol = UDP, pr_InternalPort = localSTUN,
                          pr_ExternalPort = stunExternal, pr_Strict = stunStrict\<rparr>\<rparr>))))"

text \<open>What an attempt has gathered.\<close>

record attempt =
  at_mapping :: "Mapping option"
  at_candidate :: Endpoint
  at_problems :: "string list"
  at_network :: string

definition problem :: "string \<Rightarrow> attempt \<Rightarrow> attempt" where
  "problem p a = a\<lparr>at_problems := at_problems a @ [p]\<rparr>"

text \<open>The ports and the method of an endpoint without mapping.\<close>

definition local_ports :: "EConfig \<Rightarrow> Manager \<Rightarrow> Endpoint \<Rightarrow> Endpoint" where
  "local_ports cfg m c =
     c\<lparr>ep_DERPPort := mg_localDERPPort m,
       ep_STUNPort := (if ec_STUNEnabled cfg then uint (mg_localSTUNPort m) else -1),
       ep_Method := ''direct'', ep_LeaseUntil := None\<rparr>"

definition first_attempt :: "EConfig \<Rightarrow> Manager \<Rightarrow> attempt" where
  "first_attempt cfg m =
     \<lparr>at_mapping = None,
      at_candidate = local_ports cfg m
        \<lparr>ep_IPv4 = [], ep_IPv6 = [], ep_DERPPort = 0, ep_STUNPort = -1, ep_Method = [], ep_LeaseUntil = None\<rparr>,
      at_problems = [], at_network = []\<rparr>"

text \<open>The endpoint of a mapping; a mapping without a DERP lease would be a nil dereference.\<close>

definition mapped :: "Mapping \<Rightarrow> Endpoint \<Rightarrow> Endpoint option" where
  "mapped mapping c =
     (case mp_DERP mapping of
        None \<Rightarrow> None
      | Some d \<Rightarrow>
          Some (c\<lparr>ep_IPv4 := Addr_String (le_ExternalIP d), ep_DERPPort := le_ExternalPort d,
            ep_STUNPort := (case mp_STUN mapping of None \<Rightarrow> -1 | Some st \<Rightarrow> uint (le_ExternalPort st)),
            ep_Method := mp_Method mapping, ep_LeaseUntil := Some (truncate_second (Mapping_ExpiresAt (Some mapping)))\<rparr>))"

definition map_ports :: "EConfig \<Rightarrow> menv \<Rightarrow> Request \<Rightarrow> attempt \<Rightarrow> Manager \<Rightarrow> (attempt \<times> Manager) option" where
  "map_ports cfg e request a m =
     (let r = Client_Map (NewClient (en_port e)) (NewClientWithBackends (ec_Methods cfg)) (mg_next m) request;
          m = emit (map EvRelease (br_released r)) (m\<lparr>mg_next := br_next r\<rparr>)
      in case br_result r of
           Inl err \<Rightarrow> Some (problem (en_mapText e err) a, m)
         | Inr mapping \<Rightarrow>
             (case mapped mapping (at_candidate a) of
                None \<Rightarrow> None
              | Some c \<Rightarrow> Some (a\<lparr>at_mapping := Some mapping, at_candidate := c\<rparr>, m)))"

definition gather_ipv4 :: "EConfig \<Rightarrow> menv \<Rightarrow> attempt \<Rightarrow> Manager \<Rightarrow> (attempt \<times> Manager) option" where
  "gather_ipv4 cfg e a m =
     (if \<not> wantsIPv4 cfg then Some (a, m)
      else if \<not> mg_supportsIPv4 m then Some (problem ''DERP/STUN listeners are not bound for IPv4'' a, m)
      else if ec_Mode cfg = ''direct'' then
        (case en_publicIPv4 e of
           None \<Rightarrow> Some (problem ''public IPv4 discovery is unavailable'' a, m)
         | Some discover \<Rightarrow>
             (case discover (ec_WANInterface cfg) of
                Inl err \<Rightarrow> Some (problem (''discover public IPv4: '' @ err) a, m)
              | Inr address \<Rightarrow> Some (a\<lparr>at_candidate := (at_candidate a)\<lparr>ep_IPv4 := Addr_String address\<rparr>\<rparr>, m)))
      else (case mappingRequest cfg (mg_localDERPPort m) (mg_localSTUNPort m) of
              Inl err \<Rightarrow> Some (problem err a, m)
            | Inr request \<Rightarrow> map_ports cfg e request a m))"

definition gather_ipv6 :: "EConfig \<Rightarrow> menv \<Rightarrow> Manager \<Rightarrow> attempt \<Rightarrow> attempt" where
  "gather_ipv6 cfg e m a =
     (if \<not> wantsIPv6 cfg then a
      else if \<not> mg_supportsIPv6 m then problem ''DERP/STUN listeners are not bound for IPv6'' a
      else (case en_publicIPv6 e of
              None \<Rightarrow> problem ''public IPv6 discovery is unavailable'' a
            | Some discover \<Rightarrow>
                (case discover (ec_WANInterface cfg) of
                   Inl err \<Rightarrow> problem (''discover public IPv6: '' @ err) a
                 | Inr address \<Rightarrow> a\<lparr>at_candidate := (at_candidate a)\<lparr>ep_IPv6 := Addr_String address\<rparr>\<rparr>)))"

definition has_both :: "attempt \<Rightarrow> bool" where
  "has_both a \<longleftrightarrow> ep_IPv4 (at_candidate a) \<noteq> [] \<and> ep_IPv6 (at_candidate a) \<noteq> [] \<and> at_mapping a \<noteq> None"

definition no_address :: "Endpoint \<Rightarrow> bool" where
  "no_address c \<longleftrightarrow> ep_IPv4 c = [] \<and> ep_IPv6 c = []"

text \<open>A mapping to other ports than the local ones is given up when IPv6 is to be published too.\<close>

definition preserve_ports :: "EConfig \<Rightarrow> attempt \<Rightarrow> Manager \<Rightarrow> attempt \<times> Manager" where
  "preserve_ports cfg a m =
     (let c = at_candidate a
      in if has_both a \<and> (ep_DERPPort c \<noteq> mg_localDERPPort m \<or> ec_STUNEnabled cfg \<and> ep_STUNPort c \<noteq> uint (mg_localSTUNPort m))
         then (problem ''IPv4 NAT mapping did not preserve the local port required for dual-stack publishing''
                 (a\<lparr>at_mapping := None, at_candidate := local_ports cfg m (c\<lparr>ep_IPv4 := []\<rparr>)\<rparr>),
               release_mapping (at_mapping a) m)
         else (a, m))"

definition abandon :: "EConfig \<Rightarrow> menv \<Rightarrow> string \<Rightarrow> attempt \<Rightarrow> Manager \<Rightarrow> string option \<times> Manager" where
  "abandon cfg e err a m = fail cfg e err (release_mapping (at_mapping a) m)"

text \<open>A stage ends the attempt, goes on, or panics (\<^term>\<open>None\<close>).\<close>

type_synonym stage = "((string option \<times> Manager) + (attempt \<times> Manager)) option"

definition cert_stage :: "EConfig \<Rightarrow> menv \<Rightarrow> nat \<Rightarrow> attempt \<Rightarrow> Manager \<Rightarrow> stage" where
  "cert_stage cfg e i a m =
     (case update_cert e i (addresses (at_candidate a)) m of
        None \<Rightarrow> None
      | Some (Some err, m) \<Rightarrow> Some (Inl (abandon cfg e (''refresh automatic TLS certificate: '' @ err) a m))
      | Some (None, m) \<Rightarrow> Some (Inr (a, m)))"

definition network_stage :: "EConfig \<Rightarrow> menv \<Rightarrow> attempt \<Rightarrow> Manager \<Rightarrow> stage" where
  "network_stage cfg e a m =
     (if ec_Mode cfg = ''nat'' \<and> ep_IPv4 (at_candidate a) \<noteq> [] then
        (case en_fingerprint e of
           None \<Rightarrow> Some (Inr (a, m))
         | Some fingerprint \<Rightarrow>
             (case fingerprint 1 (ec_WANInterface cfg) of
                Inl err \<Rightarrow> Some (Inl (abandon cfg e (''inspect external network route: '' @ err) a m))
              | Inr network \<Rightarrow> Some (Inr (a\<lparr>at_network := network\<rparr>, m))))
      else Some (Inr (a, m)))"

text \<open>The candidate after validation, its mapping given up where IPv4 did not pass.\<close>

definition prune_attempt :: "EConfig \<Rightarrow> ValidationResult \<Rightarrow> attempt \<Rightarrow> Manager \<Rightarrow> attempt \<times> Manager" where
  "prune_attempt cfg result a m =
     (let a = (if vr_State result \<noteq> ''passed'' \<and> vr_Error result \<noteq> [] then problem (vr_Error result) a else a)
      in if ep_IPv4 (at_candidate a) = [] \<and> at_mapping a \<noteq> None
         then (a\<lparr>at_mapping := None, at_candidate := local_ports cfg m (at_candidate a), at_network := []\<rparr>, release_mapping (at_mapping a) m)
         else (a, m))"

definition validate_stage :: "EConfig \<Rightarrow> menv \<Rightarrow> bool \<Rightarrow> attempt \<Rightarrow> Manager \<Rightarrow> stage" where
  "validate_stage cfg e force a m =
     (if ec_ValidateEndpoint cfg \<or> force then
        (let result = en_validate e (at_candidate a) (ec_ValidationNames cfg) (ec_STUNEnabled cfg);
             m = set_status (\<lambda>st. st\<lparr>st_Validation := result\<rparr>) (setState ''validating'' [] m);
             a = a\<lparr>at_candidate := validated (at_candidate a) result\<rparr>
         in if no_address (at_candidate a) then Some (Inl (abandon cfg e (vr_Error result) a m))
            else (let (a, m) = prune_attempt cfg result a m in cert_stage cfg e 1 a m))
      else Some (Inr (a, set_status (\<lambda>st. st\<lparr>st_Validation := disabled_validation\<rparr>) m)))"

definition commit_status :: "EConfig \<Rightarrow> menv \<Rightarrow> attempt \<Rightarrow> EStatus \<Rightarrow> EStatus" where
  "commit_status cfg e a st =
     st\<lparr>st_Endpoint := Some (at_candidate a), st_FailureCount := 0,
        st_Error := (if at_problems a = [] then [] else Join [CHR 0x0A] (at_problems a)),
        st_State := (if at_problems a \<noteq> [] \<or> ec_ValidateEndpoint cfg \<and> vr_State (st_Validation st) \<noteq> ''passed''
                     then ''degraded'' else ''ready''),
        st_LastSuccess := Some (truncate_second (en_now e))\<rparr>"

definition commit :: "EConfig \<Rightarrow> menv \<Rightarrow> attempt \<Rightarrow> Manager \<Rightarrow> Manager" where
  "commit cfg e a m =
     (let m1 = set_status (commit_status cfg e a)
            (m\<lparr>mg_active := at_mapping a, mg_endpoint := Some (at_candidate a),
               mg_nextRenew := (if at_mapping a = None then en_now e + ec_RetryInterval cfg
                                else midpoint (en_now e) (Mapping_ExpiresAt (at_mapping a))),
               mg_network := at_network a\<rparr>)
      in if mg_active m \<noteq> None \<and> (mg_network m \<noteq> at_network a \<or> \<not> sameMapping (mg_active m) (at_mapping a))
         then release_mapping (mg_active m) m1
         else emit (map EvTakenOver (Mapping_Release (mg_active m))) m1)"

definition publish_stage :: "EConfig \<Rightarrow> menv \<Rightarrow> attempt \<Rightarrow> Manager \<Rightarrow> string option \<times> Manager" where
  "publish_stage cfg e a m =
     (case publish cfg e (at_candidate a) (commit cfg e a m) of
        (Some err, m) \<Rightarrow> (Some err, setState ''degraded'' err m)
      | (None, m) \<Rightarrow> (None, m))"

text \<open>One stage after another.\<close>

definition then_stage :: "stage \<Rightarrow> (attempt \<Rightarrow> Manager \<Rightarrow> stage) \<Rightarrow> stage" where
  "then_stage s f =
     (case s of None \<Rightarrow> None | Some (Inl r) \<Rightarrow> Some (Inl r) | Some (Inr (a, m)) \<Rightarrow> f a m)"

definition gather :: "EConfig \<Rightarrow> menv \<Rightarrow> Manager \<Rightarrow> (attempt \<times> Manager) option" where
  "gather cfg e m =
     (case gather_ipv4 cfg e (first_attempt cfg m) m of
        None \<Rightarrow> None
      | Some (a, m) \<Rightarrow> Some (preserve_ports cfg (gather_ipv6 cfg e m a) m))"

text \<open>\<open>fail\<close> with the joined problems of an attempt without address; no problem at all is a nil error.\<close>

definition address_stage :: "EConfig \<Rightarrow> menv \<Rightarrow> attempt \<Rightarrow> Manager \<Rightarrow> stage" where
  "address_stage cfg e a m =
     (if no_address (at_candidate a) then
        (if at_problems a = [] then None
         else Some (Inl (abandon cfg e (Join [CHR 0x0A] (at_problems a)) a m)))
      else (let a = (if has_both a then a\<lparr>at_candidate := (at_candidate a)\<lparr>ep_Method := ''nat+direct''\<rparr>\<rparr> else a)
            in if \<not> ec_TLSConfigured cfg
               then Some (Inl (abandon cfg e ''TLS certificate and key are required before publishing a DERP endpoint'' a m))
               else Some (Inr (a, m))))"

definition not_ready :: "EConfig \<Rightarrow> Manager \<Rightarrow> bool" where
  "not_ready cfg m \<longleftrightarrow> mg_localDERPPort m = 0 \<or> ec_STUNEnabled cfg \<and> mg_localSTUNPort m = 0"

definition reconcile :: "EConfig \<Rightarrow> menv \<Rightarrow> bool \<Rightarrow> Manager \<Rightarrow> (string option \<times> Manager) option" where
  "reconcile cfg e force m =
     (if \<not> ec_Enabled cfg then Some (Some ''external endpoint management is disabled'', m)
      else if not_ready cfg m then Some (fail cfg e ''DERP/STUN listeners are not ready'' m)
      else (case gather cfg e (setAttempt ''mapping'' (en_now e) m) of
              None \<Rightarrow> None
            | Some (a, m) \<Rightarrow>
                (case then_stage (then_stage (then_stage (address_stage cfg e a m) (cert_stage cfg e 0)) (network_stage cfg e))
                        (validate_stage cfg e force) of
                   None \<Rightarrow> None
                 | Some (Inl r) \<Rightarrow> Some r
                 | Some (Inr (a, m)) \<Rightarrow> Some (publish_stage cfg e a m))))"

definition Reconcile :: "EConfig \<Rightarrow> menv \<Rightarrow> Manager \<Rightarrow> (string option \<times> Manager) option" where
  "Reconcile cfg e m = reconcile cfg e False m"

section \<open>Checking and synchronising\<close>

text \<open>The endpoint that remains of \<open>current\<close>, or the failure.\<close>

definition applyPartialValidation ::
    "EConfig \<Rightarrow> menv \<Rightarrow> Endpoint \<Rightarrow> ValidationResult \<Rightarrow> Manager \<Rightarrow> ((string option \<times> Manager) + (Endpoint \<times> Manager)) option" where
  "applyPartialValidation cfg e current result m =
     (let pruned = validated current result
      in if no_address pruned then Some (Inl (fail cfg e (vr_Error result) m))
         else (case update_cert e 0 (addresses pruned) m of
                 None \<Rightarrow> None
               | Some (Some err, m) \<Rightarrow> Some (Inl (fail cfg e (''refresh automatic TLS certificate: '' @ err) m))
               | Some (None, m) \<Rightarrow>
                   (let lost = ep_IPv4 current \<noteq> [] \<and> ep_IPv4 pruned = [];
                        pruned = (if lost then local_ports cfg m pruned else pruned);
                        m1 = (if lost then m\<lparr>mg_active := None, mg_network := [], mg_nextRenew := en_now e + ec_RetryInterval cfg\<rparr> else m);
                        m2 = set_status (\<lambda>st. st\<lparr>st_Endpoint := Some pruned, st_State := ''degraded'', st_Error := vr_Error result\<rparr>)
                               (m1\<lparr>mg_endpoint := Some pruned\<rparr>)
                    in Some (Inr (pruned, if lost then release_mapping (mg_active m) m2 else m2)))))"

definition degraded_publish :: "EConfig \<Rightarrow> menv \<Rightarrow> Endpoint \<Rightarrow> ValidationResult \<Rightarrow> Manager \<Rightarrow> (string option \<times> Manager) option" where
  "degraded_publish cfg e current result m =
     (case applyPartialValidation cfg e current result m of
        None \<Rightarrow> None
      | Some (Inl r) \<Rightarrow> Some r
      | Some (Inr (current, m)) \<Rightarrow> Some (publish cfg e current (resetValidationFailures False m)))"

definition Check :: "EConfig \<Rightarrow> menv \<Rightarrow> Manager \<Rightarrow> (string option \<times> Manager) option" where
  "Check cfg e m =
     (case mg_endpoint m of
        None \<Rightarrow> Some (Some ''no mapped endpoint is available'', m)
      | Some current \<Rightarrow>
          (let result = en_validate e current (ec_ValidationNames cfg) (ec_STUNEnabled cfg);
               m = set_status (\<lambda>st. st\<lparr>st_Validation := result\<rparr>) m
           in if vr_State result = ''failed'' then
                Some (if ec_ValidateEndpoint cfg then fail cfg e (vr_Error result) m else (Some (vr_Error result), m))
              else if vr_State result = ''degraded'' then degraded_publish cfg e current result m
              else Some (None, resetValidationFailures True m)))"

definition Sync :: "EConfig \<Rightarrow> menv \<Rightarrow> Manager \<Rightarrow> (string option \<times> Manager) option" where
  "Sync cfg e m =
     (case mg_endpoint m of
        None \<Rightarrow> Some (Some ''no mapped endpoint is available'', m)
      | Some current \<Rightarrow>
          if \<not> ec_ValidateEndpoint cfg then Some (publish cfg e current m)
          else (let result = en_validate e current (ec_ValidationNames cfg) (ec_STUNEnabled cfg);
                    m = set_status (\<lambda>st. st\<lparr>st_Validation := result\<rparr>) m
                in if vr_State result = ''failed'' then Some (fail cfg e (vr_Error result) m)
                   else if vr_State result = ''degraded'' then degraded_publish cfg e current result m
                   else Some (publish cfg e current (resetValidationFailures True m))))"

text \<open>\<open>maintain\<close>, which drops the errors.\<close>

definition ignore_error :: "(string option \<times> Manager) option \<Rightarrow> Manager option" where
  "ignore_error r = map_option snd r"

definition maintain :: "EConfig \<Rightarrow> menv \<Rightarrow> Manager \<Rightarrow> Manager option" where
  "maintain cfg e m =
     (let due = (if mg_endpoint m = None \<or> \<not> en_now e < mg_nextRenew m then ignore_error (Reconcile cfg e m)
                 else if \<not> en_now e < mg_nextSync m then ignore_error (Sync cfg e m)
                 else Some m)
      in if not_ready cfg m then Some m
         else if mg_endpoint m \<noteq> None \<and> ec_Mode cfg = ''nat'' \<and> wantsIPv4 cfg then
           (case en_fingerprint e of
              None \<Rightarrow> due
            | Some fingerprint \<Rightarrow>
                (case fingerprint 0 (ec_WANInterface cfg) of
                   Inl err \<Rightarrow> Some (snd (fail cfg e (''inspect external network route: '' @ err) m))
                 | Inr current \<Rightarrow>
                     if mg_network m \<noteq> [] \<and> current \<noteq> mg_network m then ignore_error (Reconcile cfg e m) else due))
         else due)"

text \<open>The operations on the manager: the iterations of \<open>loop\<close> (woken up or by the timer), its end, and the calls from outside.\<close>

datatype mop = MMaintain bool menv | MReconcile menv | MCheck menv | MSync menv | MBind uint16 uint16 bool bool | MStart | MStop

definition mexec :: "EConfig \<Rightarrow> mop \<Rightarrow> Manager \<Rightarrow> Manager option" where
  "mexec cfg p m =
     (case p of
        MMaintain woken e \<Rightarrow>
          (let m = (if woken then m\<lparr>mg_wake := False\<rparr> else m) in if ec_Enabled cfg then maintain cfg e m else Some m)
      | MReconcile e \<Rightarrow> ignore_error (Reconcile cfg e m)
      | MCheck e \<Rightarrow> ignore_error (Check cfg e m)
      | MSync e \<Rightarrow> ignore_error (Sync cfg e m)
      | MBind d s v4 v6 \<Rightarrow> Some (SetLocalBindings d s v4 v6 m)
      | MStart \<Rightarrow> Some (m\<lparr>mg_started := True\<rparr>)
      | MStop \<Rightarrow> Some (releaseActive m))"

fun mrun :: "EConfig \<Rightarrow> mop list \<Rightarrow> Manager \<Rightarrow> Manager option" where
  "mrun cfg [] m = Some m"
| "mrun cfg (p # ps) m = (case mexec cfg p m of None \<Rightarrow> None | Some m' \<Rightarrow> mrun cfg ps m')"

text \<open>The certificate updater that \<^verbatim>\<open>main\<close> passes to \<open>NewManager\<close>: the variable of type \<^verbatim>\<open>*cert.Manager\<close>, which stays a
  nil pointer unless the TLS mode is self-signed, as a value of the interface.\<close>

definition external_certificate :: "string \<Rightarrow> (nat \<Rightarrow> string list \<Rightarrow> string option) \<Rightarrow> CertificateUpdater" where
  "external_certificate tlsMode updater = (if tlsMode = ''self_signed'' then CertUpdater updater else CertNilPointer)"

end
