(* ===== verification/EndpointSafety.thy ===== *)
theory EndpointSafety
  imports EndpointManager
begin

text \<open>
  Theorems on the endpoint manager: its invariant under every sequence of operations, when it withdraws an endpoint,
  what it publishes, and three failures of the code.
\<close>

section \<open>The invariant\<close>

text \<open>The release functions that are gone: called, or dropped with a mapping that its renewal took over.\<close>

fun gone_event :: "mevent \<Rightarrow> nat list" where
  "gone_event (EvRelease h) = [h]"
| "gone_event (EvTakenOver h) = [h]"
| "gone_event _ = []"

definition gone :: "mevent list \<Rightarrow> nat list" where
  "gone tr = concat (map gone_event tr)"

text \<open>An endpoint has the address and the ports of its mapping.\<close>

definition matches :: "Mapping option \<Rightarrow> Endpoint \<Rightarrow> bool" where
  "matches a c \<longleftrightarrow>
     (case a of
        None \<Rightarrow> True
      | Some mp \<Rightarrow>
          (case mp_DERP mp of
             None \<Rightarrow> False
           | Some d \<Rightarrow>
               ep_IPv4 c = Addr_String (le_ExternalIP d) \<and> ep_DERPPort c = le_ExternalPort d \<and>
               ep_STUNPort c = (case mp_STUN mp of None \<Rightarrow> -1 | Some st \<Rightarrow> uint (le_ExternalPort st))))"

definition shown :: "Mapping option \<Rightarrow> Endpoint option \<Rightarrow> bool" where
  "shown a ep \<longleftrightarrow> (case ep of None \<Rightarrow> a = None | Some c \<Rightarrow> \<not> no_address c \<and> matches a c)"

definition endpoint_ok :: "Manager \<Rightarrow> bool" where
  "endpoint_ok m \<longleftrightarrow> st_Endpoint (mg_status m) = mg_endpoint m \<and> shown (mg_active m) (mg_endpoint m)"

lemma shown_simps [simp]: "shown a None = (a = None)" "shown a (Some c) = (\<not> no_address c \<and> matches a c)"
  by (simp_all add: shown_def)

definition accounted :: "nat list \<Rightarrow> Manager \<Rightarrow> bool" where
  "accounted held m \<longleftrightarrow> mset (gone (mg_trace m)) + mset (Mapping_Release (mg_active m)) + mset held = mset [0..<mg_next m]"

definition mgr_inv :: "Manager \<Rightarrow> bool" where
  "mgr_inv m \<longleftrightarrow> accounted [] m \<and> endpoint_ok m"

text \<open>During an attempt, with the mapping it holds.\<close>

definition pending :: "attempt \<Rightarrow> Manager \<Rightarrow> bool" where
  "pending a m \<longleftrightarrow> accounted (Mapping_Release (at_mapping a)) m \<and> endpoint_ok m \<and> matches (at_mapping a) (at_candidate a)"

definition stage_ok :: "stage \<Rightarrow> bool" where
  "stage_ok s \<longleftrightarrow>
     (case s of
        None \<Rightarrow> False
      | Some (Inl r) \<Rightarrow> mgr_inv (snd r)
      | Some (Inr (a, m)) \<Rightarrow> pending a m \<and> \<not> no_address (at_candidate a))"

definition result_ok :: "(string option \<times> Manager) option \<Rightarrow> bool" where
  "result_ok r \<longleftrightarrow> (case r of None \<Rightarrow> False | Some (_, m) \<Rightarrow> mgr_inv m)"

lemma gone_append [simp]: "gone (xs @ ys) = gone xs @ gone ys"
  by (simp add: gone_def)

lemma gone_simps [simp]: "gone (map EvRelease hs) = hs" "gone (map EvTakenOver hs) = hs" "gone [EvCert ips] = []"
  "gone [EvPublish v] = []" "gone [EvWithdraw] = []" "gone [] = []"
  by (induction hs) (auto simp: gone_def)

lemma Mapping_Release_None [simp]: "Mapping_Release None = []"
  by (simp add: Mapping_Release_def)

lemma emit_simps [simp]: "mg_active (emit evs m) = mg_active m" "mg_endpoint (emit evs m) = mg_endpoint m"
  "mg_status (emit evs m) = mg_status m" "mg_next (emit evs m) = mg_next m" "mg_trace (emit evs m) = mg_trace m @ evs"
  "mg_withdrawRetry (emit evs m) = mg_withdrawRetry m" "mg_localDERPPort (emit evs m) = mg_localDERPPort m"
  "mg_localSTUNPort (emit evs m) = mg_localSTUNPort m" "mg_supportsIPv4 (emit evs m) = mg_supportsIPv4 m"
  "mg_supportsIPv6 (emit evs m) = mg_supportsIPv6 m" "mg_network (emit evs m) = mg_network m"
  "mg_nextRenew (emit evs m) = mg_nextRenew m" "mg_nextSync (emit evs m) = mg_nextSync m"
  by (simp_all add: emit_def)

lemma set_status_simps [simp]: "mg_active (set_status f m) = mg_active m" "mg_endpoint (set_status f m) = mg_endpoint m"
  "mg_status (set_status f m) = f (mg_status m)" "mg_next (set_status f m) = mg_next m" "mg_trace (set_status f m) = mg_trace m"
  "mg_withdrawRetry (set_status f m) = mg_withdrawRetry m" "mg_localDERPPort (set_status f m) = mg_localDERPPort m"
  "mg_localSTUNPort (set_status f m) = mg_localSTUNPort m" "mg_supportsIPv4 (set_status f m) = mg_supportsIPv4 m"
  "mg_supportsIPv6 (set_status f m) = mg_supportsIPv6 m" "mg_network (set_status f m) = mg_network m"
  "mg_nextRenew (set_status f m) = mg_nextRenew m" "mg_nextSync (set_status f m) = mg_nextSync m"
  by (simp_all add: set_status_def)

lemmas mgr_defs = accounted_def endpoint_ok_def
lemmas small_op_defs = setAttempt_def setState_def release_mapping_def signal_def SetLocalBindings_def

text \<open>Updates that keep what the invariant speaks of.\<close>

definition same_mgr_view :: "Manager \<Rightarrow> Manager \<Rightarrow> bool" where
  "same_mgr_view m m' \<longleftrightarrow>
     mg_active m' = mg_active m \<and> mg_endpoint m' = mg_endpoint m \<and> st_Endpoint (mg_status m') = st_Endpoint (mg_status m) \<and>
     mg_next m' = mg_next m \<and> gone (mg_trace m') = gone (mg_trace m)"

lemma mgr_view_inv:
  assumes "same_mgr_view m m'"
  shows "mgr_inv m' = mgr_inv m" "pending a m' = pending a m"
  using assms by (simp_all add: mgr_inv_def pending_def mgr_defs same_mgr_view_def)

lemma releaseActive_inv: "mgr_inv m \<Longrightarrow> mgr_inv (releaseActive m)"
  by (simp add: releaseActive_def release_mapping_def mgr_inv_def mgr_defs ac_simps)

lemma release_pending:
  "pending a m \<Longrightarrow> mgr_inv (release_mapping (at_mapping a) m)"
  by (simp add: release_mapping_def mgr_inv_def pending_def mgr_defs ac_simps)

lemma fail_note_view: "same_mgr_view m (fail_note cfg e err m)"
  by (simp add: same_mgr_view_def fail_note_def)

lemma fail_inv: "mgr_inv m \<Longrightarrow> mgr_inv (snd (fail cfg e err m))"
proof -
  assume inv: "mgr_inv m"
  have noted: "mgr_inv (fail_note cfg e err m)" using inv mgr_view_inv(1) [OF fail_note_view] by simp
  have "mgr_inv (set_status (\<lambda>st. st\<lparr>st_Instances := i, st_State := s\<rparr>) (emit [EvWithdraw] (fail_note cfg e err m\<lparr>mg_withdrawRetry := r\<rparr>)))" for i s r
    using noted by (simp add: mgr_inv_def mgr_defs)
  from releaseActive_inv [OF this] noted show ?thesis
    by (simp add: fail_def Let_def split: option.split prod.split)
qed

lemma abandon_inv: "pending a m \<Longrightarrow> mgr_inv (snd (abandon cfg e err a m))"
  unfolding abandon_def by (rule fail_inv [OF release_pending])

lemma publish_view: "same_mgr_view m (snd (publish cfg e v m))"
  by (simp add: same_mgr_view_def publish_def split: option.split prod.split)

lemma reset_view: "same_mgr_view m (resetValidationFailures b m)"
  by (simp add: same_mgr_view_def resetValidationFailures_def Let_def)

lemma setState_view: "same_mgr_view m (setState s t m)"
  by (simp add: same_mgr_view_def setState_def)

lemma update_cert_view: "update_cert e i ips m = Some (r, m') \<Longrightarrow> same_mgr_view m m'"
  by (auto simp: same_mgr_view_def update_cert_def split: CertificateUpdater.splits option.splits)

lemma update_cert_Some: "en_cert e \<noteq> CertNilPointer \<Longrightarrow> \<exists>r m'. update_cert e i ips m = Some (r, m')"
  by (auto simp: update_cert_def split: CertificateUpdater.split option.split)

section \<open>Stages\<close>

lemma local_ports_simps [simp]: "ep_IPv4 (local_ports cfg m c) = ep_IPv4 c" "ep_IPv6 (local_ports cfg m c) = ep_IPv6 c"
  by (simp_all add: local_ports_def)

lemma matches_None [simp]: "matches None c"
  by (simp add: matches_def)

lemma matches_ipv4: "matches (Some mp) c \<Longrightarrow> ep_IPv4 c \<noteq> []"
  by (auto simp: matches_def Addr_String_not_empty split: option.splits)

lemma matches_update [simp]: "matches a (c\<lparr>ep_IPv6 := x\<rparr>) = matches a c" "matches a (c\<lparr>ep_Method := x\<rparr>) = matches a c"
  by (simp_all add: matches_def split: option.split)

lemma problem_simps [simp]: "at_mapping (problem p a) = at_mapping a" "at_candidate (problem p a) = at_candidate a"
  "at_problems (problem p a) = at_problems a @ [p]" "at_network (problem p a) = at_network a"
  by (simp_all add: problem_def)

lemma pending_first: "mgr_inv m \<Longrightarrow> pending (first_attempt cfg m) m"
  by (simp add: pending_def first_attempt_def mgr_inv_def)

lemma pending_problem: "pending (problem p a) m = pending a m"
  by (simp add: pending_def)

text \<open>The mapper: what \<open>portmap\<close> promises of \<open>Client.Map\<close>.\<close>

lemma Client_Map_result:
  assumes "r = Client_Map (NewClient env) methods n request"
  shows "n \<le> br_next r" "mset (br_released r @ result_handles (br_result r)) = mset [n..<br_next r]"
    "br_result r = Inr mp \<Longrightarrow> \<exists>d. mp_DERP mp = Some d"
proof -
  show "n \<le> br_next r" "mset (br_released r @ result_handles (br_result r)) = mset [n..<br_next r]"
    using client.Client_Map_balanced unfolding assms balanced_def by blast+
  show "\<exists>d. mp_DERP mp = Some d" if "br_result r = Inr mp"
  proof -
    have "validateMapping (Some mp) request = None"
      using that map_methods_valid unfolding assms Client_Map_def by blast
    then show ?thesis by (rule validateMapping_ok) blast
  qed
qed

lemma map_ports_ok:
  assumes "pending a m" "at_mapping a = None"
  shows "\<exists>a' m'. map_ports cfg e request a m = Some (a', m') \<and> pending a' m' \<and>
      (ep_IPv4 (at_candidate a') \<noteq> [] \<or> at_problems a' \<noteq> [])"
proof -
  define r where "r = Client_Map (NewClient (en_port e)) (NewClientWithBackends (ec_Methods cfg)) (mg_next m) request"
  note facts = Client_Map_result [OF r_def]
  have acc: "mset (gone (mg_trace m)) + mset (Mapping_Release (mg_active m)) + mset (br_released r @ result_handles (br_result r)) =
      mset [0..<br_next r]"
    using assms facts(1) mset_upt_append [of 0 "mg_next m" "br_next r"] unfolding facts(2)
    by (simp add: pending_def accounted_def del: mset_upt)
  show ?thesis
  proof (cases "br_result r")
    case (Inl err)
    have "accounted [] (emit (map EvRelease (br_released r)) (m\<lparr>mg_next := br_next r\<rparr>))"
      using acc by (simp add: accounted_def Inl result_handles_def add.commute add.left_commute)
    then show ?thesis using assms Inl
      by (simp add: map_ports_def r_def [symmetric] Let_def pending_def endpoint_ok_def)
  next
    case (Inr mp)
    obtain d where d: "mp_DERP mp = Some d" using facts(3) [OF Inr] by blast
    have "accounted (Mapping_Release (Some mp)) (emit (map EvRelease (br_released r)) (m\<lparr>mg_next := br_next r\<rparr>))"
      using acc by (simp add: accounted_def Inr result_handles_def add.commute add.left_commute)
    then show ?thesis using assms Inr d
      by (simp add: map_ports_def r_def [symmetric] Let_def mapped_def pending_def endpoint_ok_def matches_def Addr_String_not_empty)
  qed
qed

lemma gather_ipv4_ok:
  assumes "pending a m" "at_mapping a = None"
  shows "\<exists>a' m'. gather_ipv4 cfg e a m = Some (a', m') \<and> pending a' m' \<and>
      (wantsIPv4 cfg \<longrightarrow> ep_IPv4 (at_candidate a') \<noteq> [] \<or> at_problems a' \<noteq> [])"
proof -
  have "pending (a\<lparr>at_candidate := c\<rparr>) m" for c using assms by (simp add: pending_def)
  then show ?thesis
    using assms map_ports_ok [OF assms]
    by (auto simp: gather_ipv4_def pending_problem Addr_String_not_empty split: option.split sum.split)
qed

lemma gather_ipv6_ok:
  assumes "pending a m"
  shows "pending (gather_ipv6 cfg e m a) m"
    "wantsIPv6 cfg \<Longrightarrow> ep_IPv6 (at_candidate (gather_ipv6 cfg e m a)) \<noteq> [] \<or> at_problems (gather_ipv6 cfg e m a) \<noteq> []"
    "at_problems a \<noteq> [] \<Longrightarrow> at_problems (gather_ipv6 cfg e m a) \<noteq> []"
    "ep_IPv4 (at_candidate (gather_ipv6 cfg e m a)) = ep_IPv4 (at_candidate a)"
  using assms
  by (auto simp: gather_ipv6_def Addr_String_not_empty pending_def split: option.split sum.split)

lemma preserve_ports_ok:
  assumes "pending a m"
  shows "pending (fst (preserve_ports cfg a m)) (snd (preserve_ports cfg a m))"
    "at_problems (fst (preserve_ports cfg a m)) = [] \<Longrightarrow> preserve_ports cfg a m = (a, m)"
proof -
  have "pending (problem p (a\<lparr>at_mapping := None, at_candidate := c\<rparr>)) (release_mapping (at_mapping a) m)" for p c
    using release_pending [OF assms] by (simp add: pending_def mgr_inv_def)
  then show "pending (fst (preserve_ports cfg a m)) (snd (preserve_ports cfg a m))"
    using assms by (simp add: preserve_ports_def Let_def)
  show "preserve_ports cfg a m = (a, m)" if "at_problems (fst (preserve_ports cfg a m)) = []"
    using that by (auto simp: preserve_ports_def Let_def split: if_splits)
qed

definition family_ok :: "EConfig \<Rightarrow> bool" where
  "family_ok cfg \<longleftrightarrow> wantsIPv4 cfg \<or> wantsIPv6 cfg"

lemma gather_ok:
  assumes "mgr_inv m" "family_ok cfg"
  shows "\<exists>a m'. gather cfg e m = Some (a, m') \<and> pending a m' \<and> (no_address (at_candidate a) \<longrightarrow> at_problems a \<noteq> [])"
proof -
  obtain a1 m1 where g4: "gather_ipv4 cfg e (first_attempt cfg m) m = Some (a1, m1)" "pending a1 m1"
    "wantsIPv4 cfg \<longrightarrow> ep_IPv4 (at_candidate a1) \<noteq> [] \<or> at_problems a1 \<noteq> []"
    using gather_ipv4_ok [OF pending_first [OF assms(1)], of cfg cfg e] by (auto simp: first_attempt_def)
  note g6 = gather_ipv6_ok [OF g4(2), of cfg e]
  define a2 where "a2 = gather_ipv6 cfg e m1 a1"
  note pp = preserve_ports_ok [OF g6(1), of cfg, folded a2_def]
  obtain a3 m3 where a3: "preserve_ports cfg a2 m1 = (a3, m3)" by fastforce
  have "gather cfg e m = Some (a3, m3)" by (simp add: gather_def g4 a3 a2_def [symmetric])
  moreover have "pending a3 m3" using pp(1) by (simp add: a3)
  moreover have "at_problems a3 \<noteq> []" if "no_address (at_candidate a3)"
  proof
    assume "at_problems a3 = []"
    with pp(2) have "a3 = a2" by (simp add: a3)
    with \<open>at_problems a3 = []\<close> that show False
      using assms(2) g4(3) g6(2-4) by (auto simp: a2_def no_address_def family_ok_def)
  qed
  ultimately show ?thesis by blast
qed

lemma address_stage_ok:
  assumes "pending a m" "no_address (at_candidate a) \<longrightarrow> at_problems a \<noteq> []"
  shows "stage_ok (address_stage cfg e a m)"
proof -
  have "pending (a\<lparr>at_candidate := (at_candidate a)\<lparr>ep_Method := x\<rparr>\<rparr>) m" for x
    using assms(1) by (simp add: pending_def)
  with assms show ?thesis
    by (auto simp: address_stage_def stage_ok_def Let_def no_address_def intro: abandon_inv)
qed

lemma cert_stage_ok:
  assumes "pending a m" "\<not> no_address (at_candidate a)" "en_cert e \<noteq> CertNilPointer"
  shows "stage_ok (cert_stage cfg e i a m)"
proof -
  obtain r m' where u: "update_cert e i (addresses (at_candidate a)) m = Some (r, m')" using update_cert_Some [OF assms(3)] by blast
  have "pending a m'" using assms(1) mgr_view_inv(2) [OF update_cert_view [OF u]] by simp
  with assms(2) show ?thesis by (cases r) (auto simp: cert_stage_def u stage_ok_def intro: abandon_inv)
qed

lemma network_stage_ok:
  assumes "pending a m" "\<not> no_address (at_candidate a)"
  shows "stage_ok (network_stage cfg e a m)"
proof -
  have "pending (a\<lparr>at_network := x\<rparr>) m" for x using assms(1) by (simp add: pending_def)
  with assms show ?thesis
    by (auto simp: network_stage_def stage_ok_def split: option.split sum.split intro: abandon_inv)
qed

lemma validated_fields: "ep_IPv4 (validated c result) = [] \<or> ep_IPv4 (validated c result) = ep_IPv4 c"
  "ep_DERPPort (validated c result) = ep_DERPPort c" "ep_STUNPort (validated c result) = ep_STUNPort c"
  by (simp_all add: validated_def Let_def)

lemma prune_ok:
  assumes acc: "accounted (Mapping_Release (at_mapping a)) m" "endpoint_ok m"
    and match: "ep_IPv4 (at_candidate a) \<noteq> [] \<Longrightarrow> matches (at_mapping a) (at_candidate a)"
    and "\<not> no_address (at_candidate a)"
  shows "pending (fst (prune_attempt cfg result a m)) (snd (prune_attempt cfg result a m))"
    "\<not> no_address (at_candidate (fst (prune_attempt cfg result a m)))"
proof -
  define b where "b = (if vr_State result \<noteq> ''passed'' \<and> vr_Error result \<noteq> [] then problem (vr_Error result) a else a)"
  have b: "at_mapping b = at_mapping a" "at_candidate b = at_candidate a" by (simp_all add: b_def)
  have rel: "accounted [] (release_mapping (at_mapping a) m)" "endpoint_ok (release_mapping (at_mapping a) m)"
    using acc by (simp_all add: release_mapping_def mgr_defs add.commute add.left_commute)
  have "matches (at_mapping a) (at_candidate a)" if "at_mapping a = None \<or> ep_IPv4 (at_candidate a) \<noteq> []"
    using that match by auto
  with acc rel show "pending (fst (prune_attempt cfg result a m)) (snd (prune_attempt cfg result a m))"
    by (auto simp: prune_attempt_def b_def [symmetric] b pending_def)
  show "\<not> no_address (at_candidate (fst (prune_attempt cfg result a m)))"
    using assms(4) by (simp add: prune_attempt_def b_def [symmetric] b no_address_def)
qed

lemma then_stage_ok:
  assumes "stage_ok s" "\<And>a m. pending a m \<Longrightarrow> \<not> no_address (at_candidate a) \<Longrightarrow> stage_ok (f a m)"
  shows "stage_ok (then_stage s f)"
proof -
  consider r where "s = Some (Inl r)" | a m where "s = Some (Inr (a, m))" "pending a m" "\<not> no_address (at_candidate a)"
    using assms(1) by (auto simp: stage_ok_def split: option.splits sum.splits)
  then show ?thesis
    using assms by cases (simp_all add: then_stage_def)
qed

lemma validate_stage_on:
  assumes "ec_ValidateEndpoint cfg \<or> force" "result = en_validate e (at_candidate a) (ec_ValidationNames cfg) (ec_STUNEnabled cfg)"
    and "m1 = set_status (\<lambda>st. st\<lparr>st_Validation := result\<rparr>) (setState ''validating'' [] m)"
    and "b = a\<lparr>at_candidate := validated (at_candidate a) result\<rparr>"
  shows "validate_stage cfg e force a m =
      (if no_address (at_candidate b) then Some (Inl (abandon cfg e (vr_Error result) b m1))
       else cert_stage cfg e 1 (fst (prune_attempt cfg result b m1)) (snd (prune_attempt cfg result b m1)))"
  using assms(1) unfolding validate_stage_def Let_def assms(2) [symmetric] assms(3) [symmetric] assms(4) [symmetric]
  by (simp add: case_prod_unfold)

lemma validate_stage_ok:
  assumes "pending a m" "\<not> no_address (at_candidate a)" "en_cert e \<noteq> CertNilPointer"
  shows "stage_ok (validate_stage cfg e force a m)"
proof -
  define result where "result = en_validate e (at_candidate a) (ec_ValidationNames cfg) (ec_STUNEnabled cfg)"
  define m1 where "m1 = set_status (\<lambda>st. st\<lparr>st_Validation := result\<rparr>) (setState ''validating'' [] m)"
  define b where "b = a\<lparr>at_candidate := validated (at_candidate a) result\<rparr>"
  have acc: "accounted (Mapping_Release (at_mapping b)) m1" "endpoint_ok m1"
    using assms(1) by (simp_all add: pending_def mgr_defs m1_def b_def setState_def)
  have match: "matches (at_mapping b) (at_candidate b)" if "ep_IPv4 (at_candidate b) \<noteq> []"
    using that assms(1) validated_fields [of "at_candidate a" result]
    by (auto simp: pending_def b_def matches_def split: option.splits)
  have fin: "mgr_inv (snd (abandon cfg e err b m1))" for err
    using acc fail_inv [of "release_mapping (at_mapping b) m1"]
    by (simp add: abandon_def mgr_inv_def mgr_defs release_mapping_def add.commute add.left_commute)
  have go: "stage_ok (cert_stage cfg e 1 (fst (prune_attempt cfg result b m1)) (snd (prune_attempt cfg result b m1)))"
    if "\<not> no_address (at_candidate b)"
    using prune_ok [OF acc match that] by (intro cert_stage_ok assms(3)) simp_all
  have skip: "pending a (set_status (\<lambda>st. st\<lparr>st_Validation := disabled_validation\<rparr>) m)"
    using assms(1) by (simp add: pending_def mgr_defs)
  show ?thesis
  proof (cases "ec_ValidateEndpoint cfg \<or> force")
    case True
    note validate_stage_on [OF this result_def m1_def b_def]
    then show ?thesis using fin go by (simp add: stage_ok_def)
  next
    case False
    then show ?thesis using skip assms(2) by (simp add: validate_stage_def stage_ok_def)
  qed
qed

lemma commit_inv:
  assumes "pending a m" "\<not> no_address (at_candidate a)"
  shows "mgr_inv (commit cfg e a m)"
  using assms
  by (simp add: commit_def Let_def mgr_inv_def pending_def mgr_defs commit_status_def release_mapping_def add.commute add.left_commute)

lemma publish_stage_inv:
  assumes "pending a m" "\<not> no_address (at_candidate a)"
  shows "mgr_inv (snd (publish_stage cfg e a m))"
proof -
  have "mgr_inv (snd (publish cfg e (at_candidate a) (commit cfg e a m)))"
    using commit_inv [OF assms] mgr_view_inv(1) [OF publish_view] by blast
  then show ?thesis using mgr_view_inv(1) [OF setState_view]
    by (auto simp: publish_stage_def split: prod.splits option.splits)
qed

lemma reconcile_ok:
  assumes "mgr_inv m" "family_ok cfg" "en_cert e \<noteq> CertNilPointer"
  shows "result_ok (reconcile cfg e force m)"
proof -
  have "mgr_inv (setAttempt ''mapping'' (en_now e) m)" using assms(1) by (simp add: setAttempt_def mgr_inv_def mgr_defs)
  from gather_ok [OF this assms(2), of e] obtain a m' where g: "gather cfg e (setAttempt ''mapping'' (en_now e) m) = Some (a, m')"
    "pending a m'" "no_address (at_candidate a) \<longrightarrow> at_problems a \<noteq> []" by blast
  let ?s = "then_stage (then_stage (then_stage (address_stage cfg e a m') (cert_stage cfg e 0)) (network_stage cfg e)) (validate_stage cfg e force)"
  have "stage_ok ?s"
    by (intro then_stage_ok address_stage_ok cert_stage_ok network_stage_ok validate_stage_ok g(2,3) assms(3))
  then consider r where "?s = Some (Inl r)" "mgr_inv (snd r)" | b n where "?s = Some (Inr (b, n))" "pending b n" "\<not> no_address (at_candidate b)"
    by (auto simp: stage_ok_def split: option.splits sum.splits)
  then have "result_ok (case ?s of None \<Rightarrow> None | Some (Inl r) \<Rightarrow> Some r | Some (Inr (a, m)) \<Rightarrow> Some (publish_stage cfg e a m))"
    by cases (auto simp: result_ok_def split: prod.splits dest: publish_stage_inv [of _ _ cfg e])
  moreover have "result_ok (Some (fail cfg e err m))" for err
    using fail_inv [OF assms(1), of cfg e err] by (simp add: result_ok_def case_prod_unfold)
  ultimately show ?thesis
    using assms(1) g(1) by (simp add: reconcile_def result_ok_def)
qed

section \<open>Checking, synchronising, maintaining\<close>

lemma result_fail: "mgr_inv m \<Longrightarrow> result_ok (Some (fail cfg e err m))"
  using fail_inv by (simp add: result_ok_def case_prod_unfold)

lemma result_publish: "mgr_inv m \<Longrightarrow> result_ok (Some (publish cfg e v m))"
  using mgr_view_inv(1) [OF publish_view] by (simp add: result_ok_def case_prod_unfold)

lemma validation_view: "same_mgr_view m (set_status (\<lambda>st. st\<lparr>st_Validation := result\<rparr>) m)"
  by (simp add: same_mgr_view_def)

lemma degraded_publish_ok:
  assumes "mgr_inv m" "mg_endpoint m = Some current" "en_cert e \<noteq> CertNilPointer"
  shows "result_ok (degraded_publish cfg e current result m)"
proof -
  define pruned where "pruned = validated current result"
  obtain r m' where u: "update_cert e 0 (addresses pruned) m = Some (r, m')" using update_cert_Some [OF assms(3)] by blast
  have m': "mgr_inv m'" "mg_active m' = mg_active m"
    using assms(1) mgr_view_inv(1) [OF update_cert_view [OF u]] update_cert_view [OF u] by (simp_all add: same_mgr_view_def)
  have cur: "\<not> no_address current" "matches (mg_active m) current"
    using assms(1,2) by (simp_all add: mgr_inv_def endpoint_ok_def)
  have kept: "matches (mg_active m) pruned" if "ep_IPv4 current = [] \<or> ep_IPv4 pruned \<noteq> []"
    using that cur(2) validated_fields [of current result]
    by (auto simp: pruned_def matches_def Addr_String_not_empty split: option.splits)
  consider "no_address pruned" | err where "\<not> no_address pruned" "r = Some err"
    | "\<not> no_address pruned" "r = None" by (cases r) auto
  then show ?thesis
  proof cases
    case 1
    then show ?thesis using result_fail [OF assms(1)]
      by (simp add: degraded_publish_def applyPartialValidation_def pruned_def [symmetric] Let_def)
  next
    case 2
    then show ?thesis using result_fail [OF m'(1)] u
      by (simp add: degraded_publish_def applyPartialValidation_def pruned_def [symmetric] Let_def)
  next
    case 3
    let ?lost = "ep_IPv4 current \<noteq> [] \<and> ep_IPv4 pruned = []"
    obtain v m2 where v: "applyPartialValidation cfg e current result m = Some (Inr (v, m2))"
      using 3 u by (simp add: applyPartialValidation_def pruned_def [symmetric] Let_def)
    have "mgr_inv m2"
      using v 3 u m' kept
      by (auto simp: applyPartialValidation_def pruned_def [symmetric] Let_def mgr_inv_def mgr_defs release_mapping_def no_address_def
          add.commute split: if_splits)
    then have "mgr_inv (resetValidationFailures False m2)" using mgr_view_inv(1) [OF reset_view] by blast
    then show ?thesis using result_publish by (simp add: degraded_publish_def v)
  qed
qed

lemma Check_ok:
  assumes "mgr_inv m" "en_cert e \<noteq> CertNilPointer"
  shows "result_ok (Check cfg e m)"
proof (cases "mg_endpoint m")
  case None
  then show ?thesis using assms(1) by (simp add: Check_def result_ok_def)
next
  case (Some current)
  define result where "result = en_validate e current (ec_ValidationNames cfg) (ec_STUNEnabled cfg)"
  define m1 where "m1 = set_status (\<lambda>st. st\<lparr>st_Validation := result\<rparr>) m"
  have m1: "mgr_inv m1" "mg_endpoint m1 = Some current"
    using assms(1) mgr_view_inv(1) [OF validation_view] by (simp_all add: m1_def Some)
  then show ?thesis
    using result_fail [OF m1(1)] degraded_publish_ok [OF m1 assms(2)] mgr_view_inv(1) [OF reset_view]
    by (simp add: Check_def Some result_def [symmetric] m1_def [symmetric] Let_def) (simp add: result_ok_def)
qed

lemma Sync_ok:
  assumes "mgr_inv m" "en_cert e \<noteq> CertNilPointer"
  shows "result_ok (Sync cfg e m)"
proof (cases "mg_endpoint m")
  case None
  then show ?thesis using assms(1) by (simp add: Sync_def result_ok_def)
next
  case (Some current)
  define result where "result = en_validate e current (ec_ValidationNames cfg) (ec_STUNEnabled cfg)"
  define m1 where "m1 = set_status (\<lambda>st. st\<lparr>st_Validation := result\<rparr>) m"
  have m1: "mgr_inv m1" "mg_endpoint m1 = Some current"
    using assms(1) mgr_view_inv(1) [OF validation_view] by (simp_all add: m1_def Some)
  have "mgr_inv (resetValidationFailures True m1)" using m1 mgr_view_inv(1) [OF reset_view] by blast
  then show ?thesis
    using result_fail [OF m1(1)] degraded_publish_ok [OF m1 assms(2)] result_publish assms(1)
    by (simp add: Sync_def Some result_def [symmetric] m1_def [symmetric] Let_def)
qed

definition kept_inv :: "Manager option \<Rightarrow> bool" where
  "kept_inv r \<longleftrightarrow> (case r of None \<Rightarrow> False | Some m \<Rightarrow> mgr_inv m)"

lemma ignore_error_inv: "result_ok r \<Longrightarrow> kept_inv (ignore_error r)"
  by (auto simp: result_ok_def kept_inv_def ignore_error_def split: option.splits)

lemma maintain_ok:
  assumes "mgr_inv m" "family_ok cfg" "en_cert e \<noteq> CertNilPointer"
  shows "kept_inv (maintain cfg e m)"
proof -
  have rec: "kept_inv (ignore_error (Reconcile cfg e m))"
    unfolding Reconcile_def by (intro ignore_error_inv reconcile_ok assms)
  have sync: "kept_inv (ignore_error (Sync cfg e m))"
    by (intro ignore_error_inv Sync_ok assms)
  have "kept_inv (Some m)" "kept_inv (Some (snd (fail cfg e err m)))" for err
    using assms(1) fail_inv by (simp_all add: kept_inv_def)
  with rec sync show ?thesis
    by (simp add: maintain_def Let_def split: option.split sum.split)
qed

fun op_env :: "mop \<Rightarrow> menv option" where
  "op_env (MMaintain _ e) = Some e"
| "op_env (MReconcile e) = Some e"
| "op_env (MCheck e) = Some e"
| "op_env (MSync e) = Some e"
| "op_env _ = None"

definition cert_usable :: "mop \<Rightarrow> bool" where
  "cert_usable p \<longleftrightarrow> (case op_env p of None \<Rightarrow> True | Some e \<Rightarrow> en_cert e \<noteq> CertNilPointer)"

lemma mexec_ok:
  assumes "mgr_inv m" "family_ok cfg" "cert_usable p"
  shows "kept_inv (mexec cfg p m)"
proof -
  have wake: "mgr_inv (m\<lparr>mg_wake := False\<rparr>)" using assms(1) by (simp add: mgr_inv_def mgr_defs)
  show ?thesis
  proof (cases p)
    case (MMaintain woken e)
    with assms(3) have "en_cert e \<noteq> CertNilPointer" by (simp add: cert_usable_def)
    then show ?thesis using MMaintain assms(1) wake maintain_ok [OF _ assms(2)]
      by (simp add: mexec_def Let_def) (simp add: kept_inv_def)
  next
    case (MReconcile e)
    then show ?thesis using assms
      by (auto simp: mexec_def Reconcile_def cert_usable_def intro: ignore_error_inv reconcile_ok)
  next
    case (MCheck e)
    then show ?thesis using assms by (auto simp: mexec_def cert_usable_def intro: ignore_error_inv Check_ok)
  next
    case (MSync e)
    then show ?thesis using assms by (auto simp: mexec_def cert_usable_def intro: ignore_error_inv Sync_ok)
  next
    case (MBind d st v4 v6)
    then show ?thesis using assms(1) by (simp add: mexec_def kept_inv_def mgr_inv_def mgr_defs SetLocalBindings_def signal_def)
  next
    case MStart
    then show ?thesis using assms(1) by (simp add: mexec_def kept_inv_def mgr_inv_def mgr_defs)
  next
    case MStop
    then show ?thesis using releaseActive_inv [OF assms(1)] by (simp add: mexec_def kept_inv_def)
  qed
qed

lemma mrun_ok:
  assumes "mgr_inv m" "family_ok cfg" "list_all cert_usable ops"
  shows "kept_inv (mrun cfg ops m)"
  using assms
proof (induction ops arbitrary: m)
  case Nil
  then show ?case by (simp add: kept_inv_def)
next
  case (Cons p ps)
  from Cons.prems mexec_ok [of m cfg p] obtain m' where "mexec cfg p m = Some m'" "mgr_inv m'"
    by (auto simp: kept_inv_def split: option.splits)
  with Cons show ?case by simp
qed

lemma NewManager_inv: "mgr_inv (NewManager cfg)"
  by (simp add: mgr_inv_def mgr_defs NewManager_def)

section \<open>Every run\<close>


section \<open>Withdrawal\<close>

lemma fail_simps:
  "en_syncer e = Some sy \<Longrightarrow> fail_retry cfg m \<Longrightarrow>
     mg_endpoint (snd (fail cfg e err m)) = None \<and> mg_active (snd (fail cfg e err m)) = None \<and>
     mg_trace (snd (fail cfg e err m)) = mg_trace m @ EvWithdraw # map EvRelease (Mapping_Release (mg_active m))"
  "\<not> fail_retry cfg m \<Longrightarrow> fail cfg e err m = (Some err, fail_note cfg e err m)"
  by (simp_all add: fail_def fail_note_def Let_def releaseActive_def release_mapping_def case_prod_unfold split: option.split)

lemma Sync_failed:
  assumes "mg_endpoint m = Some c" "ec_ValidateEndpoint cfg"
    and "vr_State (en_validate e c (ec_ValidationNames cfg) (ec_STUNEnabled cfg)) = ''failed''"
  shows "Sync cfg e m = Some (fail cfg e (vr_Error (en_validate e c (ec_ValidationNames cfg) (ec_STUNEnabled cfg)))
      (set_status (\<lambda>st. st\<lparr>st_Validation := en_validate e c (ec_ValidationNames cfg) (ec_STUNEnabled cfg)\<rparr>) m))"
  using assms by (simp add: Sync_def Let_def)

definition validation_fails :: "EConfig \<Rightarrow> Endpoint \<Rightarrow> menv \<Rightarrow> bool" where
  "validation_fails cfg c e \<longleftrightarrow>
     vr_State (en_validate e c (ec_ValidationNames cfg) (ec_STUNEnabled cfg)) = ''failed'' \<and> en_syncer e \<noteq> None"

lemma Sync_kept:
  assumes "mg_endpoint m = Some c" "ec_ValidateEndpoint cfg" "validation_fails cfg c e"
    and "\<not> mg_withdrawRetry m" "st_FailureCount (mg_status m) + 1 < failureThreshold" "st_State (mg_status m) \<noteq> ''withdrawn''"
  shows "\<exists>m'. mexec cfg (MSync e) m = Some m' \<and> mg_endpoint m' = Some c \<and> mg_active m' = mg_active m \<and> mg_trace m' = mg_trace m \<and>
    \<not> mg_withdrawRetry m' \<and> st_FailureCount (mg_status m') = st_FailureCount (mg_status m) + 1 \<and> st_State (mg_status m') \<noteq> ''withdrawn''"
proof -
  define m1 where "m1 = set_status (\<lambda>st. st\<lparr>st_Validation := en_validate e c (ec_ValidationNames cfg) (ec_STUNEnabled cfg)\<rparr>) m"
  have "\<not> fail_retry cfg m1" using assms by (simp add: fail_retry_def m1_def failureThreshold_def)
  from fail_simps(2) [OF this] show ?thesis
    using assms by (simp add: mexec_def ignore_error_def Sync_failed validation_fails_def m1_def [symmetric])
      (simp add: m1_def fail_note_def fail_retry_def fail_state_def failureThreshold_def)
qed


section \<open>What is published\<close>

definition ports_local :: "EConfig \<Rightarrow> Manager \<Rightarrow> Endpoint \<Rightarrow> bool" where
  "ports_local cfg m c \<longleftrightarrow> ep_DERPPort c = mg_localDERPPort m \<and> (ec_STUNEnabled cfg \<longrightarrow> ep_STUNPort c = uint (mg_localSTUNPort m))"

definition families :: "EConfig \<Rightarrow> Manager \<Rightarrow> attempt \<Rightarrow> bool" where
  "families cfg m a \<longleftrightarrow>
     (ep_IPv4 (at_candidate a) \<noteq> [] \<longrightarrow> wantsIPv4 cfg \<and> mg_supportsIPv4 m) \<and>
     (ep_IPv6 (at_candidate a) \<noteq> [] \<longrightarrow> wantsIPv6 cfg \<and> mg_supportsIPv6 m) \<and>
     (at_mapping a = None \<longrightarrow> ports_local cfg m (at_candidate a))"

text \<open>What an attempt keeps of the manager.\<close>

definition same_base :: "Manager \<Rightarrow> Manager \<Rightarrow> bool" where
  "same_base m m' \<longleftrightarrow>
     mg_localDERPPort m' = mg_localDERPPort m \<and> mg_localSTUNPort m' = mg_localSTUNPort m \<and>
     mg_supportsIPv4 m' = mg_supportsIPv4 m \<and> mg_supportsIPv6 m' = mg_supportsIPv6 m \<and> mg_withdrawRetry m' = mg_withdrawRetry m"

definition stage_keeps :: "EConfig \<Rightarrow> Manager \<Rightarrow> stage \<Rightarrow> bool" where
  "stage_keeps cfg m s \<longleftrightarrow>
     (case s of
        None \<Rightarrow> True
      | Some (Inl r) \<Rightarrow> fst r \<noteq> None
      | Some (Inr (a, m')) \<Rightarrow>
          same_base m m' \<and> families cfg m a \<and> (ep_IPv6 (at_candidate a) \<noteq> [] \<longrightarrow> ports_local cfg m (at_candidate a)))"

lemma same_base_refl [simp]: "same_base m m"
  by (simp add: same_base_def)

lemma same_base_trans: "same_base m m' \<Longrightarrow> same_base m' m'' \<Longrightarrow> same_base m m''"
  by (simp add: same_base_def)

lemma same_base_keeps:
  assumes "same_base m m'"
  shows "families cfg m' a = families cfg m a" "ports_local cfg m' c = ports_local cfg m c" "stage_keeps cfg m' s = stage_keeps cfg m s"
  using assms by (simp_all add: families_def ports_local_def stage_keeps_def same_base_def split: option.split sum.split)

lemma ports_local_simps [simp]: "ports_local cfg m (local_ports cfg m c)" "ports_local cfg m (c\<lparr>ep_IPv4 := x\<rparr>) = ports_local cfg m c"
  "ports_local cfg m (c\<lparr>ep_IPv6 := x\<rparr>) = ports_local cfg m c" "ports_local cfg m (c\<lparr>ep_Method := x\<rparr>) = ports_local cfg m c"
  by (simp_all add: ports_local_def local_ports_def)

lemma gather_ipv4_families:
  "gather_ipv4 cfg e (first_attempt cfg m) m = Some (a, m') \<Longrightarrow>
     same_base m m' \<and> families cfg m a \<and> ep_IPv6 (at_candidate a) = []"
  by (auto simp: gather_ipv4_def first_attempt_def map_ports_def mapped_def Let_def families_def same_base_def problem_def
      split: if_splits option.splits sum.splits)

lemma gather_ipv6_families:
  "families cfg m a \<Longrightarrow> same_base m m' \<Longrightarrow> ep_IPv6 (at_candidate a) = [] \<Longrightarrow> families cfg m (gather_ipv6 cfg e m' a)"
  by (auto simp: gather_ipv6_def families_def same_base_def split: option.split sum.split)

lemma preserve_ports_families:
  assumes "families cfg m a" "matches (at_mapping a) (at_candidate a)" "preserve_ports cfg a m = (b, n)"
  shows "same_base m n" "families cfg m b" "ep_IPv6 (at_candidate b) \<noteq> [] \<Longrightarrow> ports_local cfg m (at_candidate b)"
proof -
  have mapped: "ep_IPv4 (at_candidate a) \<noteq> []" if "at_mapping a \<noteq> None" using that matches_ipv4 assms(2) by auto
  show "same_base m n" using assms(3)
    by (auto simp: preserve_ports_def Let_def same_base_def release_mapping_def split: if_splits)
  show "families cfg m b" using assms(1,3)
    by (auto simp: preserve_ports_def Let_def families_def split: if_splits)
  show "ports_local cfg m (at_candidate b)" if "ep_IPv6 (at_candidate b) \<noteq> []"
    using that assms(1,3) mapped
    by (cases "at_mapping a") (auto simp: preserve_ports_def Let_def families_def has_both_def ports_local_def local_ports_def split: if_splits)
qed

lemma gather_families:
  assumes "mgr_inv m" "gather cfg e m = Some (a, m')"
  shows "same_base m m'" "families cfg m a" "ep_IPv6 (at_candidate a) \<noteq> [] \<Longrightarrow> ports_local cfg m (at_candidate a)"
proof -
  obtain a1 m1 where g4: "gather_ipv4 cfg e (first_attempt cfg m) m = Some (a1, m1)" "pending a1 m1"
    using gather_ipv4_ok [OF pending_first [OF assms(1)], of cfg cfg e] by (auto simp: first_attempt_def)
  note f4 = gather_ipv4_families [OF g4(1)]
  define a2 where "a2 = gather_ipv6 cfg e m1 a1"
  have f6: "families cfg m1 a2" using f4 gather_ipv6_families same_base_keeps(1) by (auto simp: a2_def)
  have match: "matches (at_mapping a2) (at_candidate a2)" using gather_ipv6_ok(1) [OF g4(2)] by (simp add: a2_def pending_def)
  have "preserve_ports cfg a2 m1 = (a, m')" using assms(2) by (simp add: gather_def g4 a2_def)
  note pp = preserve_ports_families [OF f6 match this]
  show "same_base m m'" using f4 pp(1) same_base_trans by blast
  show "families cfg m a" "ep_IPv6 (at_candidate a) \<noteq> [] \<Longrightarrow> ports_local cfg m (at_candidate a)"
    using f4 pp(2,3) same_base_keeps by auto
qed

lemma abandon_error: "fst (abandon cfg e err a m) \<noteq> None"
  by (simp add: abandon_def fail_def Let_def errors_Join_def case_prod_unfold List.map_filter_simps split: option.split)

lemma keeps_then:
  assumes "stage_keeps cfg m s" "\<And>a m'. stage_keeps cfg m (Some (Inr (a, m'))) \<Longrightarrow> stage_keeps cfg m (f a m')"
  shows "stage_keeps cfg m (then_stage s f)"
proof -
  consider "s = None" | r where "s = Some (Inl r)" | a m' where "s = Some (Inr (a, m'))"
    by (metis option.exhaust sum.exhaust surj_pair)
  then show ?thesis using assms by cases (auto simp: then_stage_def)
qed

lemma cert_keeps: "stage_keeps cfg m (Some (Inr (a, m'))) \<Longrightarrow> stage_keeps cfg m (cert_stage cfg e i a m')"
  by (auto simp: stage_keeps_def cert_stage_def update_cert_def same_base_def abandon_error
      split: CertificateUpdater.split option.split)

lemma network_keeps: "stage_keeps cfg m (Some (Inr (a, m'))) \<Longrightarrow> stage_keeps cfg m (network_stage cfg e a m')"
  by (auto simp: stage_keeps_def network_stage_def families_def abandon_error split: option.split sum.split)

lemma address_keeps: "stage_keeps cfg m (Some (Inr (a, m'))) \<Longrightarrow> stage_keeps cfg m (address_stage cfg e a m')"
  by (auto simp: stage_keeps_def address_stage_def families_def abandon_error Let_def split: option.split sum.split)

lemma validated_ipv6: "ep_IPv6 (validated c result) = [] \<or> ep_IPv6 (validated c result) = ep_IPv6 c"
  by (simp add: validated_def Let_def)

lemma prune_keeps:
  assumes "same_base m m'" "families cfg m a" "ep_IPv6 (at_candidate a) \<noteq> [] \<longrightarrow> ports_local cfg m (at_candidate a)"
  shows "stage_keeps cfg m (Some (Inr (prune_attempt cfg result a m')))"
proof -
  have "ports_local cfg m (local_ports cfg m' c)" for c
    using assms(1) by (simp add: ports_local_def local_ports_def same_base_def)
  moreover have "same_base m (release_mapping mp m')" for mp
    using assms(1) by (simp add: same_base_def release_mapping_def)
  ultimately show ?thesis
    using assms by (simp add: prune_attempt_def Let_def stage_keeps_def families_def)
qed

lemma validate_keeps:
  assumes "stage_keeps cfg m (Some (Inr (a, m')))"
  shows "stage_keeps cfg m (validate_stage cfg e force a m')"
proof -
  define result where "result = en_validate e (at_candidate a) (ec_ValidationNames cfg) (ec_STUNEnabled cfg)"
  define m1 where "m1 = set_status (\<lambda>st. st\<lparr>st_Validation := result\<rparr>) (setState ''validating'' [] m')"
  define b where "b = a\<lparr>at_candidate := validated (at_candidate a) result\<rparr>"
  have base: "same_base m m1" using assms by (simp add: stage_keeps_def m1_def setState_def same_base_def)
  have ports: "ports_local cfg m (validated c result) = ports_local cfg m c" for c
    using validated_fields(2,3) [of c result] by (simp add: ports_local_def)
  have fam: "families cfg m b" "ep_IPv6 (at_candidate b) \<noteq> [] \<longrightarrow> ports_local cfg m (at_candidate b)"
    using assms validated_fields(1) [of "at_candidate a" result] validated_ipv6 [of "at_candidate a" result]
    by (auto simp: b_def stage_keeps_def families_def ports)
  have "stage_keeps cfg m (cert_stage cfg e 1 (fst (prune_attempt cfg result b m1)) (snd (prune_attempt cfg result b m1)))"
    using cert_keeps prune_keeps [OF base fam] by simp
  then have on: "stage_keeps cfg m (if no_address (at_candidate b) then Some (Inl (abandon cfg e (vr_Error result) b m1))
      else cert_stage cfg e 1 (fst (prune_attempt cfg result b m1)) (snd (prune_attempt cfg result b m1)))"
    using abandon_error by (simp add: stage_keeps_def)
  show ?thesis
  proof (cases "ec_ValidateEndpoint cfg \<or> force")
    case True
    from on validate_stage_on [OF this result_def m1_def b_def] show ?thesis by simp
  next
    case False
    then show ?thesis using assms by (simp add: validate_stage_def stage_keeps_def same_base_def)
  qed
qed

text \<open>A reconciliation that succeeds ends in the commit of an attempt.\<close>

lemma reconcile_success:
  assumes "mgr_inv m" "reconcile cfg e force m = Some (None, m')"
  obtains a n where "stage_keeps cfg m (Some (Inr (a, n)))" "publish_stage cfg e a n = (None, m')"
proof -
  define m0 where "m0 = setAttempt ''mapping'' (en_now e) m"
  have "mgr_inv m0" using assms(1) by (simp add: m0_def setAttempt_def mgr_inv_def mgr_defs)
  have base: "same_base m m0" by (simp add: m0_def setAttempt_def same_base_def)
  have nofail: "fail cfg e err x \<noteq> (None, y)" for err x y
    by (simp add: fail_def Let_def errors_Join_def case_prod_unfold List.map_filter_simps split: option.split)
  from assms(2) nofail obtain a m1 where g: "gather cfg e m0 = Some (a, m1)"
    by (auto simp: reconcile_def m0_def [symmetric] split: if_splits option.splits)
  let ?s = "then_stage (then_stage (then_stage (address_stage cfg e a m1) (cert_stage cfg e 0)) (network_stage cfg e)) (validate_stage cfg e force)"
  note gf = gather_families [OF \<open>mgr_inv m0\<close> g]
  have "stage_keeps cfg m0 (Some (Inr (a, m1)))" using gf by (simp add: stage_keeps_def)
  then have keeps: "stage_keeps cfg m0 ?s"
    by (intro keeps_then address_keeps cert_keeps network_keeps validate_keeps)
  have res: "(case ?s of None \<Rightarrow> None | Some (Inl r) \<Rightarrow> Some r | Some (Inr (a, m)) \<Rightarrow> Some (publish_stage cfg e a m)) = Some (None, m')"
    using assms(2) nofail g by (auto simp: reconcile_def m0_def [symmetric] split: if_splits)
  show thesis
  proof (cases ?s)
    case None
    then show thesis using res by simp
  next
    case (Some x)
    then obtain b n where "?s = Some (Inr (b, n))"
      using res keeps by (cases x) (auto simp: stage_keeps_def)
    with res keeps same_base_keeps(3) [OF base] show thesis by (auto intro: that [of b n])
  qed
qed

lemma publish_stage_simps:
  assumes "publish_stage cfg e a n = (None, m')"
  shows "mg_endpoint m' = Some (at_candidate a)" "mg_withdrawRetry m' = mg_withdrawRetry n" "st_FailureCount (mg_status m') = 0"
    "en_syncer e \<noteq> None \<Longrightarrow> last (mg_trace m') = EvPublish (at_candidate a)" "mg_active m' = at_mapping a"
proof -
  have c: "mg_endpoint (commit cfg e a n) = Some (at_candidate a)" "mg_withdrawRetry (commit cfg e a n) = mg_withdrawRetry n"
    "st_FailureCount (mg_status (commit cfg e a n)) = 0" "mg_active (commit cfg e a n) = at_mapping a"
    by (simp_all add: commit_def Let_def commit_status_def release_mapping_def)
  show "mg_endpoint m' = Some (at_candidate a)" "mg_withdrawRetry m' = mg_withdrawRetry n" "st_FailureCount (mg_status m') = 0"
    "en_syncer e \<noteq> None \<Longrightarrow> last (mg_trace m') = EvPublish (at_candidate a)" "mg_active m' = at_mapping a"
    using assms c by (auto simp: publish_stage_def publish_def split: option.splits prod.splits)
qed

text \<open>
  What a successful reconciliation publishes (C26): an endpoint with an address only of the wanted families that the
  listeners are bound for; with an IPv6 address, its ports are those of the listeners, also when IPv4 is mapped.
\<close>

theorem published_families:
  assumes "mrun cfg ops (NewManager cfg) = Some m" and "family_ok cfg" and "list_all cert_usable ops"
    and "Reconcile cfg e m = Some (None, m')" and "en_syncer e \<noteq> None"
  shows "\<exists>c. last (mg_trace m') = EvPublish c \<and> mg_endpoint m' = Some c \<and>
    (ep_IPv4 c \<noteq> [] \<longrightarrow> wantsIPv4 cfg \<and> mg_supportsIPv4 m) \<and>
    (ep_IPv6 c \<noteq> [] \<longrightarrow> wantsIPv6 cfg \<and> mg_supportsIPv6 m \<and>
       ep_DERPPort c = mg_localDERPPort m \<and> (ec_STUNEnabled cfg \<longrightarrow> ep_STUNPort c = uint (mg_localSTUNPort m)))"
proof -
  have inv: "mgr_inv m" using mrun_ok [OF NewManager_inv [of cfg] assms(2,3)] assms(1) by (simp add: kept_inv_def)
  from reconcile_success [OF inv assms(4) [unfolded Reconcile_def]] obtain a n
    where "stage_keeps cfg m (Some (Inr (a, n)))" "publish_stage cfg e a n = (None, m')" .
  then show ?thesis
    using publish_stage_simps(1,4) assms(5) by (auto simp: stage_keeps_def families_def ports_local_def)
qed

text \<open>
  A success does not clear a pending withdrawal. When a withdrawal failed and a later reconciliation succeeds, the
  failure count is back at zero, and yet the next single failed validation withdraws the endpoint.
\<close>

theorem success_keeps_pending_withdrawal:
  assumes "mrun cfg ops (NewManager cfg) = Some m" and "family_ok cfg" and "list_all cert_usable ops"
    and "mg_withdrawRetry m" and "Reconcile cfg e m = Some (None, m1)" and "mg_endpoint m1 = Some c"
    and "ec_ValidateEndpoint cfg" and "validation_fails cfg c e2"
  shows "st_FailureCount (mg_status m1) = 0 \<and>
    (\<exists>m2. mexec cfg (MSync e2) m1 = Some m2 \<and> mg_endpoint m2 = None \<and>
       mg_trace m2 = mg_trace m1 @ EvWithdraw # map EvRelease (Mapping_Release (mg_active m1)))"
proof -
  have inv: "mgr_inv m" using mrun_ok [OF NewManager_inv [of cfg] assms(2,3)] assms(1) by (simp add: kept_inv_def)
  from reconcile_success [OF inv assms(5) [unfolded Reconcile_def]] obtain a n
    where keeps: "stage_keeps cfg m (Some (Inr (a, n)))" and pub: "publish_stage cfg e a n = (None, m1)" .
  have retry: "mg_withdrawRetry m1" "st_FailureCount (mg_status m1) = 0"
    using keeps assms(4) publish_stage_simps(2,3) [OF pub] by (simp_all add: stage_keeps_def same_base_def)
  define result where "result = en_validate e2 c (ec_ValidationNames cfg) (ec_STUNEnabled cfg)"
  define k where "k = set_status (\<lambda>st. st\<lparr>st_Validation := result\<rparr>) m1"
  obtain sy where sy: "en_syncer e2 = Some sy" using assms(8) by (auto simp: validation_fails_def)
  have k: "fail_retry cfg k" "mg_trace k = mg_trace m1" "mg_active k = mg_active m1"
    using retry by (simp_all add: k_def fail_retry_def)
  have "mexec cfg (MSync e2) m1 = Some (snd (fail cfg e2 (vr_Error result) k))"
    using assms(6-8) by (simp add: mexec_def ignore_error_def Sync_failed validation_fails_def result_def k_def)
  with fail_simps(1) [OF sy k(1), of "vr_Error result"] k(2,3) retry(2) show ?thesis by simp
qed

section \<open>A nil certificate manager\<close>

text \<open>
  Publishing with certificate files panics. When the TLS mode is not self-signed, the certificate manager that
  \<open>main\<close> hands over is a nil pointer inside a non-nil interface value: the first reconciliation that has found an
  address calls \<open>UpdateEndpointIPs\<close> on it.
\<close>

theorem nil_certificate_panics:
  assumes "en_cert e = external_certificate tlsMode updater" and "tlsMode \<noteq> ''self_signed''"
    and "ec_Enabled cfg" and "ec_TLSConfigured cfg" and "\<not> not_ready cfg m"
    and "ec_Mode cfg = ''direct''" and "wantsIPv4 cfg" and "mg_supportsIPv4 m"
    and "en_publicIPv4 e = Some discover" and "discover (ec_WANInterface cfg) = Inr address"
  shows "Reconcile cfg e m = None"
proof -
  define m0 where "m0 = setAttempt ''mapping'' (en_now e) m"
  define a where "a = (first_attempt cfg m0)\<lparr>at_candidate := (at_candidate (first_attempt cfg m0))\<lparr>ep_IPv4 := Addr_String address\<rparr>\<rparr>"
  define b where "b = gather_ipv6 cfg e m0 a"
  have m0: "mg_supportsIPv4 m0" using assms(8) by (simp add: m0_def setAttempt_def)
  have "gather_ipv4 cfg e (first_attempt cfg m0) m0 = Some (a, m0)"
    using assms(6,7,9,10) m0 by (simp add: gather_ipv4_def a_def)
  moreover have b: "at_mapping b = None" "ep_IPv4 (at_candidate b) \<noteq> []"
    by (simp_all add: b_def gather_ipv6_def a_def first_attempt_def Addr_String_not_empty split: option.split sum.split)
  then have "preserve_ports cfg b m0 = (b, m0)" by (simp add: preserve_ports_def has_both_def Let_def)
  ultimately have "gather cfg e m0 = Some (b, m0)" by (simp add: gather_def b_def)
  moreover have "address_stage cfg e b m0 = Some (Inr (b, m0))"
    using b assms(4) by (simp add: address_stage_def no_address_def has_both_def)
  moreover have "cert_stage cfg e 0 b m0 = None"
    using assms(1,2) by (simp add: cert_stage_def update_cert_def external_certificate_def)
  ultimately show ?thesis
    using assms(3,5) by (simp add: Reconcile_def reconcile_def m0_def [symmetric] then_stage_def)
qed

section \<open>A failed renewal\<close>

text \<open>
  A failed renewal gives the active mapping back. When the renewal of the active mapping is granted with the same
  address and ports, but the validation then fails, the manager keeps the endpoint and the mapping as active and yet
  calls the release functions of the renewed leases, which stand for the same ports at the gateway.
\<close>

theorem failed_renewal_releases_active:
  assumes "mg_active m = Some old" and "ec_Enabled cfg" and "ec_TLSConfigured cfg" and "\<not> not_ready cfg m"
    and "ec_Mode cfg \<noteq> ''direct''" and "ec_AddressFamily cfg = ''ipv4''" and "mg_supportsIPv4 m"
    and "mappingRequest cfg (mg_localDERPPort m) (mg_localSTUNPort m) = Inr request"
    and "Client_Map (NewClient (en_port e)) (NewClientWithBackends (ec_Methods cfg)) (mg_next m) request = r"
    and "br_result r = Inr mp" and "sameMapping (Some old) (Some mp)"
    and "en_cert e = CertNone" and "en_fingerprint e = None" and "ec_ValidateEndpoint cfg"
    and "\<And>c. not_passed (vr_IPv4 (en_validate e c (ec_ValidationNames cfg) (ec_STUNEnabled cfg)))"
    and "\<not> mg_withdrawRetry m" and "st_FailureCount (mg_status m) + 1 < failureThreshold"
  shows "\<exists>err m'. Reconcile cfg e m = Some (Some err, m') \<and> mg_active m' = Some old \<and> mg_endpoint m' = mg_endpoint m \<and>
    mg_trace m' = mg_trace m @ map EvRelease (br_released r) @ map EvRelease (Mapping_Release (Some mp))"
proof -
  define m0 where "m0 = setAttempt ''mapping'' (en_now e) m"
  define m1 where "m1 = emit (map EvRelease (br_released r)) (m0\<lparr>mg_next := br_next r\<rparr>)"
  obtain d where d: "mp_DERP mp = Some d" using Client_Map_result(3) [OF assms(9) [symmetric] assms(10)] by blast
  have m0: "mg_supportsIPv4 m0" "mg_localDERPPort m0 = mg_localDERPPort m" "mg_localSTUNPort m0 = mg_localSTUNPort m" "mg_next m0 = mg_next m"
    using assms(7) by (simp_all add: m0_def setAttempt_def)
  obtain c where c: "mapped mp (at_candidate (first_attempt cfg m0)) = Some c" "ep_IPv6 c = []" "ep_IPv4 c \<noteq> []"
    using d by (simp add: mapped_def first_attempt_def local_ports_def Addr_String_not_empty)
  define a where "a = (first_attempt cfg m0)\<lparr>at_mapping := Some mp, at_candidate := c\<rparr>"
  have a: "at_mapping a = Some mp" "at_candidate a = c" by (simp_all add: a_def)
  have w: "wantsIPv4 cfg" "\<not> wantsIPv6 cfg" using assms(6) by (simp_all add: wantsIPv4_def wantsIPv6_def)
  have "gather_ipv4 cfg e (first_attempt cfg m0) m0 = Some (a, m1)"
    using assms(5,8,9,10) m0 c w by (simp add: gather_ipv4_def map_ports_def Let_def m1_def a_def)
  then have g: "gather cfg e m0 = Some (a, m1)"
    using c w by (simp add: gather_def gather_ipv6_def preserve_ports_def has_both_def a Let_def)
  define result where "result = en_validate e c (ec_ValidationNames cfg) (ec_STUNEnabled cfg)"
  define m2 where "m2 = set_status (\<lambda>st. st\<lparr>st_Validation := result\<rparr>) (setState ''validating'' [] m1)"
  define b where "b = a\<lparr>at_candidate := validated c result\<rparr>"
  have "no_address (validated c result)"
    using assms(15) [of c] c(2) by (simp add: result_def no_address_def validated_def Let_def)
  then have v: "validate_stage cfg e False a m1 = Some (Inl (abandon cfg e (vr_Error result) b m2))"
    using validate_stage_on [of cfg False result e a m2 m1 b] assms(14) by (simp add: result_def m2_def b_def a)
  define n where "n = release_mapping (Some mp) m2"
  have "\<not> fail_retry cfg n" using assms(16,17)
    by (simp add: n_def release_mapping_def m2_def setState_def m1_def m0_def setAttempt_def fail_retry_def failureThreshold_def)
  then have f: "abandon cfg e (vr_Error result) b m2 = (Some (vr_Error result), fail_note cfg e (vr_Error result) n)"
    using fail_simps(2) by (simp add: abandon_def b_def a n_def)
  have "Reconcile cfg e m = Some (Some (vr_Error result), fail_note cfg e (vr_Error result) n)"
    using assms(2,3,4,12,13) c g v f
    by (simp add: Reconcile_def reconcile_def m0_def [symmetric] then_stage_def address_stage_def no_address_def has_both_def a Let_def
        cert_stage_def update_cert_def network_stage_def)
  then show ?thesis using assms(1)
    by (simp add: fail_note_def n_def release_mapping_def m2_def setState_def m1_def m0_def setAttempt_def)
qed

section \<open>Witnesses\<close>

definition demo_ecfg :: EConfig where
  "demo_ecfg =
     \<lparr>ec_Enabled = True, ec_Mode = ''direct'', ec_AddressFamily = ''ipv4'', ec_Methods = [''natpmp''], ec_WANInterface = ''wan'',
      ec_DERPPort = ''auto'', ec_STUNPort = ''auto'', ec_LeaseDuration = 2 * hour, ec_RetryInterval = minute, ec_SyncInterval = 5 * minute,
      ec_ValidateEndpoint = True, ec_TLSConfigured = True, ec_ValidationNames = [''derp.example''], ec_STUNEnabled = False\<rparr>"

definition demo_natpmp :: natpmp_env where
  "demo_natpmp = \<lparr>nat_gateway = Some (Addr4 0x0A000001), nat_external = Some 0x08080808, nat_ctxDone = False,
     nat_grant = (\<lambda>r port. Some (3340, 7200)), nat_now = second\<rparr>"

definition demo_pcp :: pcp_env where
  "demo_pcp = \<lparr>pcp_rand = None, pcp_request = demo_net, pcp_releaseNet = demo_net, pcp_now = 0\<rparr>"

definition demo_port_env :: portmap_env where
  "demo_port_env = \<lparr>pe_natpmp = demo_natpmp,
     pe_upnp = \<lparr>up_gateway = None, up_source = None, up_services2 = [], up_services1 = [], up_now = 0\<rparr>,
     pe_source = None, pe_pcp1 = demo_pcp, pe_pcp2 = demo_pcp, pe_nonces = (\<lambda>_. None)\<rparr>"

text \<open>An environment in which validation passes or fails and the withdrawal has the given error.\<close>

definition demo_env :: "bool \<Rightarrow> string option \<Rightarrow> menv" where
  "demo_env good withdrawErr =
     \<lparr>en_now = second, en_port = (\<lambda>_. demo_port_env), en_mapText = (\<lambda>_. ''error''),
      en_publicIPv4 = Some (\<lambda>_. Inr (Addr4 0x08080808)), en_publicIPv6 = None, en_fingerprint = None, en_cert = CertNone,
      en_validate = (\<lambda>c names stun.
        let state = (if good then ''passed'' else ''failed'')
        in \<lparr>vr_Scope = ''local_reachability'', vr_State = state, vr_DERP = good, vr_STUN = good, vr_CheckedAt = None,
            vr_Error = (if good then [] else ''unreachable''),
            vr_IPv4 = Some \<lparr>fv_State = state, fv_DERP = good, fv_STUN = good, fv_Error = []\<rparr>, vr_IPv6 = None\<rparr>),
      en_syncer = Some \<lparr>sy_Publish = (\<lambda>_. ([], None)), sy_Withdraw = ([], withdrawErr)\<rparr>\<rparr>"

lemmas mgr_eval = demo_ecfg_def demo_env_def NewManager_def mexec_def ignore_error_def maintain_def Reconcile_def reconcile_def Check_def Sync_def
  Let_def not_ready_def setAttempt_def setState_def set_status_def emit_def gather_def gather_ipv4_def gather_ipv6_def first_attempt_def
  local_ports_def wantsIPv4_def wantsIPv6_def preserve_ports_def has_both_def no_address_def address_stage_def then_stage_def cert_stage_def
  update_cert_def network_stage_def validate_stage_def validated_def not_passed_def prune_attempt_def publish_stage_def commit_def
  commit_status_def publish_def fail_def fail_note_def fail_retry_def fail_state_def failureThreshold_def releaseActive_def
  release_mapping_def resetValidationFailures_def SetLocalBindings_def signal_def errors_Join_def problem_def disabled_validation_def
  Addr_String_not_empty dotted_not_empty sameMapping_def

text \<open>The endpoint of the demonstration.\<close>

definition demo_published :: Endpoint where
  "demo_published = \<lparr>ep_IPv4 = dotted 0x08080808, ep_IPv6 = [], ep_DERPPort = 3340, ep_STUNPort = -1, ep_Method = ''direct'', ep_LeaseUntil = None\<rparr>"

definition demo_start :: "mop list" where
  "demo_start = [MBind 3340 0 True False, MReconcile (demo_env True None)]"


lemma demo_first:
  obtains m where "mrun demo_ecfg demo_start (NewManager demo_ecfg) = Some m" "mg_endpoint m = Some demo_published"
    "mg_trace m = [EvPublish demo_published]" "\<not> mg_withdrawRetry m" "st_FailureCount (mg_status m) = 0"
    "st_State (mg_status m) = ''ready''" "mg_active m = None" "mg_localDERPPort m = 3340" "mg_supportsIPv4 m" "mg_network m = []"
  by (simp add: demo_start_def mgr_eval demo_published_def)

lemma demo_fails: "validation_fails demo_ecfg c (demo_env False err)"
  by (simp add: validation_fails_def demo_env_def Let_def)


theorem published_families_witness:
  "\<exists>m m' c. mrun demo_ecfg [MBind 3340 0 True False] (NewManager demo_ecfg) = Some m \<and>
     Reconcile demo_ecfg (demo_env True None) m = Some (None, m') \<and> last (mg_trace m') = EvPublish c \<and> ep_IPv6 c = []"
proof -
  obtain m where m: "mrun demo_ecfg [MBind 3340 0 True False] (NewManager demo_ecfg) = Some m" "\<not> mg_supportsIPv6 m"
    by (simp add: mgr_eval)
  have "\<exists>m'. Reconcile demo_ecfg (demo_env True None) m = Some (None, m')"
    using m(1) by (auto simp: mgr_eval)
  then obtain m' where m': "Reconcile demo_ecfg (demo_env True None) m = Some (None, m')" ..
  have "family_ok demo_ecfg" "list_all cert_usable [MBind 3340 0 True False]" "en_syncer (demo_env True None) \<noteq> None"
    by (simp_all add: family_ok_def wantsIPv4_def demo_ecfg_def cert_usable_def demo_env_def)
  from published_families [OF m(1) this(1,2) m' this(3)] m m' show ?thesis by auto
qed

definition demo_retry :: "mop list" where
  "demo_retry = demo_start @ replicate 3 (MSync (demo_env False (Some ''down'')))"

theorem success_keeps_pending_withdrawal_witness:
  "\<exists>m m1 m2. mrun demo_ecfg demo_retry (NewManager demo_ecfg) = Some m \<and> Reconcile demo_ecfg (demo_env True None) m = Some (None, m1) \<and>
     st_FailureCount (mg_status m1) = 0 \<and> mexec demo_ecfg (MSync (demo_env False None)) m1 = Some m2 \<and> mg_endpoint m2 = None"
proof -
  obtain m where m: "mrun demo_ecfg demo_retry (NewManager demo_ecfg) = Some m" "mg_withdrawRetry m"
    "\<exists>m1. Reconcile demo_ecfg (demo_env True None) m = Some (None, m1) \<and> mg_endpoint m1 \<noteq> None"
    by (simp add: demo_retry_def demo_start_def numeral_3_eq_3 mgr_eval List.map_filter_simps)
  then obtain m1 c where m1: "Reconcile demo_ecfg (demo_env True None) m = Some (None, m1)" "mg_endpoint m1 = Some c" by auto
  have "family_ok demo_ecfg" "list_all cert_usable demo_retry" "ec_ValidateEndpoint demo_ecfg"
    by (simp_all add: family_ok_def wantsIPv4_def demo_ecfg_def cert_usable_def demo_retry_def demo_start_def demo_env_def numeral_3_eq_3)
  from success_keeps_pending_withdrawal [OF m(1) this(1,2) m(2) m1 this(3) demo_fails] m(1) m1(1) show ?thesis by auto
qed

theorem nil_certificate_panics_witness:
  "Reconcile demo_ecfg ((demo_env True None)\<lparr>en_cert := external_certificate ''files'' (\<lambda>_ _. None)\<rparr>)
     (SetLocalBindings 3340 0 True False (NewManager demo_ecfg)) = None"
  by (rule nil_certificate_panics [where tlsMode = "''files''" and updater = "\<lambda>_ _. None" and discover = "\<lambda>_. Inr (Addr4 0x08080808)"
        and address = "Addr4 0x08080808"])
    (simp_all add: demo_env_def demo_ecfg_def not_ready_def SetLocalBindings_def signal_def set_status_def wantsIPv4_def NewManager_def)

text \<open>A manager whose NAT-PMP mapping is due for renewal.\<close>

definition demo_natcfg :: EConfig where
  "demo_natcfg = demo_ecfg\<lparr>ec_Mode := ''nat''\<rparr>"

definition demo_lease :: "nat \<Rightarrow> Lease" where
  "demo_lease h = \<lparr>le_Protocol = TCP, le_InternalPort = 3340, le_ExternalPort = 3340, le_ExternalIP = Addr4 0x08080808,
     le_ExpiresAt = second + 7200 * second, le_release = Some h\<rparr>"

definition demo_mapping :: "nat \<Rightarrow> Mapping" where
  "demo_mapping h = \<lparr>mp_Method = ''natpmp'', mp_DERP = Some (demo_lease h), mp_STUN = None\<rparr>"

definition demo_mapped :: Manager where
  "demo_mapped = (SetLocalBindings 3340 0 True False (NewManager demo_natcfg))
     \<lparr>mg_active := Some (demo_mapping 0), mg_next := 1,
      mg_endpoint := mapped (demo_mapping 0) (local_ports demo_natcfg (NewManager demo_natcfg) demo_published)\<rparr>"

definition demo_request :: Request where
  "demo_request = \<lparr>rq_Interface = ''wan'',
     rq_DERP = \<lparr>pr_Protocol = TCP, pr_InternalPort = 3340, pr_ExternalPort = 3340, pr_Strict = False\<rparr>, rq_STUN = None, rq_Lifetime = 2 * hour\<rparr>"

lemma demo_methods: "NewClientWithBackends [''natpmp''] = [''natpmp'']"
  by code_simp

lemma demo_requestedPort: "requestedPort ''auto'' 3340 = Inr (3340, False)"
  by code_simp

lemma demo_public: "IsPublicIPv4 (Addr4 0x08080808)"
  by code_simp

lemma demo_renewal:
  "Client_Map (NewClient (\<lambda>_. demo_port_env)) [''natpmp''] 1 demo_request = \<lparr>br_next = 2, br_released = [], br_result = Inr (demo_mapping 1)\<rparr>"
  by (simp add: Client_Map_def NewClient_def natPMP_Map_def demo_port_env_def demo_natpmp_def acquire_both_def acquireNATPMP_def
      demo_request_def Let_def mk_lease_def validateMapping_def demo_public demo_mapping_def demo_lease_def requested_port_def)

theorem failed_renewal_releases_active_witness:
  "\<exists>err m'. Reconcile demo_natcfg (demo_env False None) demo_mapped = Some (Some err, m') \<and> mg_active m' = Some (demo_mapping 0) \<and>
     mg_trace m' = [EvRelease 1]"
proof -
  define r where "r = \<lparr>br_next = 2, br_released = [], br_result = Inr (demo_mapping 1)\<rparr>"
  have cfg: "ec_Methods demo_natcfg = [''natpmp'']" "ec_ValidationNames demo_natcfg = [''derp.example'']" "ec_STUNEnabled demo_natcfg = False"
    by (simp_all add: demo_natcfg_def demo_ecfg_def)
  have m: "mg_active demo_mapped = Some (demo_mapping 0)" "mg_next demo_mapped = 1" "mg_trace demo_mapped = []"
    by (simp_all add: demo_mapped_def NewManager_def SetLocalBindings_def signal_def)
  have rel: "Mapping_Release (Some (demo_mapping 1)) = [1]" by (simp add: Mapping_Release_def demo_mapping_def demo_lease_def Lease_Release_def)
  have "\<exists>err m'. Reconcile demo_natcfg (demo_env False None) demo_mapped = Some (Some err, m') \<and> mg_active m' = Some (demo_mapping 0) \<and>
     mg_endpoint m' = mg_endpoint demo_mapped \<and>
     mg_trace m' = mg_trace demo_mapped @ map EvRelease (br_released r) @ map EvRelease (Mapping_Release (Some (demo_mapping 1)))"
  proof (rule failed_renewal_releases_active)
    show "Client_Map (NewClient (en_port (demo_env False None))) (NewClientWithBackends (ec_Methods demo_natcfg)) (mg_next demo_mapped) demo_request = r"
      using demo_renewal by (simp add: cfg m demo_methods demo_env_def r_def)
    show "mappingRequest demo_natcfg (mg_localDERPPort demo_mapped) (mg_localSTUNPort demo_mapped) = Inr demo_request"
      using demo_requestedPort
      by (simp add: mappingRequest_def demo_natcfg_def demo_ecfg_def demo_mapped_def SetLocalBindings_def signal_def demo_request_def)
    show "sameMapping (Some (demo_mapping 0)) (Some (demo_mapping 1))"
      by (simp add: sameMapping_def sameLease_def demo_mapping_def demo_lease_def)
  qed (simp_all add: m r_def demo_natcfg_def demo_ecfg_def demo_env_def not_ready_def demo_mapped_def SetLocalBindings_def signal_def
      set_status_def NewManager_def not_passed_def failureThreshold_def Let_def)
  then show ?thesis using rel by (auto simp: m r_def)
qed

end
