(* ===== verification/EndpointValidator.thy ===== *)
theory EndpointValidator
  imports EndpointManager
begin

text \<open>
  \<^verbatim>\<open>internal/endpoint/validator.go\<close>: the check of an endpoint over TLS and STUN. What a probe of a server and a STUN
  exchange give are arguments.
\<close>

section \<open>Probes\<close>

text \<open>\<open>uniqueNames\<close>: trimmed, without blanks, each once, in order.\<close>

fun unique_names :: "string list \<Rightarrow> string list \<Rightarrow> string list" where
  "unique_names seen [] = []"
| "unique_names seen (v # vs) =
     (let name = TrimSpace v
      in if name = [] \<or> name \<in> set seen then unique_names seen vs else name # unique_names (name # seen) vs)"

definition uniqueNames :: "string list \<Rightarrow> string list" where
  "uniqueNames vs = unique_names [] vs"

datatype http_probe = ProbeFailed string | ProbeStatus int

text \<open>The network: a GET of \<open>/derp/probe\<close> over TLS, by network, address, port, server name and pinned certificate hash; a
  STUN request, by network, address and port.\<close>

datatype stun_reply = StunResolve string | StunDial string | StunWrite string | StunRead string | StunParse string | StunReply bytes bytes

record probe_env =
  pv_get :: "string \<Rightarrow> string \<Rightarrow> uint16 \<Rightarrow> string \<Rightarrow> bytes option \<Rightarrow> http_probe"
  pv_stun :: "string \<Rightarrow> string \<Rightarrow> int \<Rightarrow> stun_reply"
  pv_hash :: "bytes option"
  pv_now :: gotime

definition validateDERP :: "probe_env \<Rightarrow> string \<Rightarrow> uint16 \<Rightarrow> string \<Rightarrow> string \<Rightarrow> bytes \<Rightarrow> string option" where
  "validateDERP pv address port serverName network expected =
     (let serverName = TrimSpace serverName
      in if serverName = [] then Some ''empty TLS server name''
         else if expected \<noteq> [] \<and> length expected \<noteq> 32 then Some ''automatic TLS certificate hash is invalid''
         else (case pv_get pv network address port serverName (if expected = [] then None else Some expected) of
                 ProbeFailed err \<Rightarrow> Some (''DERP TLS loopback check failed: '' @ err)
               | ProbeStatus code \<Rightarrow>
                   if code < 200 \<or> 300 \<le> code then Some (''DERP loopback check returned HTTP '' @ Itoa code) else None))"

text \<open>\<open>StunReply sent received\<close>: the transaction identifiers of the request and of the response.\<close>

definition validateSTUN :: "probe_env \<Rightarrow> string \<Rightarrow> int \<Rightarrow> string \<Rightarrow> string option" where
  "validateSTUN pv address port network =
     (case pv_stun pv network address port of
        StunResolve err \<Rightarrow> Some err
      | StunDial err \<Rightarrow> Some err
      | StunWrite err \<Rightarrow> Some (''STUN loopback request failed: '' @ err)
      | StunRead err \<Rightarrow> Some (''STUN loopback response failed: '' @ err)
      | StunParse err \<Rightarrow> Some (''invalid STUN loopback response: '' @ err)
      | StunReply sent received \<Rightarrow> if received \<noteq> sent then Some ''STUN loopback response transaction ID did not match'' else None)"

section \<open>Families and the verdict\<close>

definition expectedHash :: "probe_env \<Rightarrow> bytes" where
  "expectedHash pv = (case pv_hash pv of None \<Rightarrow> [] | Some h \<Rightarrow> h)"

fun check_names :: "probe_env \<Rightarrow> string \<Rightarrow> uint16 \<Rightarrow> string \<Rightarrow> string list \<Rightarrow> string option" where
  "check_names pv address port network [] = None"
| "check_names pv address port network (n # ns) =
     (case validateDERP pv address port n network (expectedHash pv) of
        Some err \<Rightarrow> Some err
      | None \<Rightarrow> check_names pv address port network ns)"

definition family_result :: "string \<Rightarrow> bool \<Rightarrow> bool \<Rightarrow> string \<Rightarrow> FamilyValidation" where
  "family_result state derp stun err = \<lparr>fv_State = state, fv_DERP = derp, fv_STUN = stun, fv_Error = err\<rparr>"

definition validateFamily :: "probe_env \<Rightarrow> Endpoint \<Rightarrow> string \<Rightarrow> string \<Rightarrow> string \<Rightarrow> string list \<Rightarrow> bool \<Rightarrow> FamilyValidation" where
  "validateFamily pv e address tcpNetwork udpNetwork names stunEnabled =
     (if names = [] then family_result ''failed'' False (\<not> stunEnabled) ''a hostname or certificate name is required for TLS validation''
      else (case check_names pv address (ep_DERPPort e) tcpNetwork (uniqueNames names) of
              Some err \<Rightarrow> family_result ''failed'' False (\<not> stunEnabled) err
            | None \<Rightarrow>
                if \<not> stunEnabled then family_result ''passed'' True True []
                else if ep_STUNPort e \<le> 0 then family_result ''failed'' True False ''mapped STUN port is unavailable''
                else (case validateSTUN pv address (ep_STUNPort e) udpNetwork of
                        Some err \<Rightarrow> family_result ''failed'' True False err
                      | None \<Rightarrow> family_result ''passed'' True True [])))"

definition family_check :: "probe_env \<Rightarrow> Endpoint \<Rightarrow> string \<Rightarrow> string \<Rightarrow> string \<Rightarrow> string list \<Rightarrow> bool \<Rightarrow> FamilyValidation option" where
  "family_check pv e address tcp udp names stunEnabled =
     (if address = [] then None else Some (validateFamily pv e address tcp udp names stunEnabled))"

definition family_failure :: "string \<Rightarrow> FamilyValidation option \<Rightarrow> string list" where
  "family_failure tag f = (case f of None \<Rightarrow> [] | Some v \<Rightarrow> if fv_State v = ''passed'' then [] else [tag @ '': '' @ fv_Error v])"

definition family_passed :: "FamilyValidation option \<Rightarrow> bool" where
  "family_passed f \<longleftrightarrow> (case f of None \<Rightarrow> False | Some v \<Rightarrow> fv_State v = ''passed'')"

definition Validate :: "probe_env \<Rightarrow> Endpoint \<Rightarrow> string list \<Rightarrow> bool \<Rightarrow> ValidationResult" where
  "Validate pv e names stunEnabled =
     (let f4 = family_check pv e (ep_IPv4 e) ''tcp4'' ''udp4'' names stunEnabled;
          f6 = family_check pv e (ep_IPv6 e) ''tcp6'' ''udp6'' names stunEnabled;
          failures = family_failure ''IPv4'' f4 @ family_failure ''IPv6'' f6;
          result = \<lparr>vr_Scope = ''local_reachability'', vr_State = ''failed'', vr_DERP = False, vr_STUN = \<not> stunEnabled,
                    vr_CheckedAt = Some (truncate_second (pv_now pv)), vr_Error = [], vr_IPv4 = f4, vr_IPv6 = f6\<rparr>
      in if \<not> family_passed f4 \<and> \<not> family_passed f6 then
           (let err = Join ''; '' failures in result\<lparr>vr_Error := (if err = [] then ''no endpoint address is available'' else err)\<rparr>)
         else
           (let result = result\<lparr>vr_DERP := True, vr_STUN := True\<rparr>
            in if failures = [] then result\<lparr>vr_State := ''passed''\<rparr>
               else result\<lparr>vr_State := ''degraded'', vr_Error := Join ''; '' failures\<rparr>))"

section \<open>The verdict\<close>

lemma unique_names_set: "set (unique_names seen vs) = {TrimSpace v | v. v \<in> set vs \<and> TrimSpace v \<noteq> []} - set seen"
  by (induction seen vs rule: unique_names.induct) (auto simp: Let_def)

lemma check_names_None:
  "check_names pv address port network ns = None \<longleftrightarrow>
     list_all (\<lambda>n. validateDERP pv address port n network (expectedHash pv) = None) ns"
  by (induction ns) (auto split: option.split)

lemma uniqueNames_all: "list_all P (uniqueNames names) \<longleftrightarrow> list_all (\<lambda>v. TrimSpace v = [] \<or> P (TrimSpace v)) names"
  unfolding uniqueNames_def list_all_iff unique_names_set by auto

text \<open>What a family needs to pass.\<close>

definition reachable_at :: "probe_env \<Rightarrow> Endpoint \<Rightarrow> string \<Rightarrow> string \<Rightarrow> string \<Rightarrow> string list \<Rightarrow> bool \<Rightarrow> bool" where
  "reachable_at pv e address tcp udp names stunEnabled \<longleftrightarrow>
     names \<noteq> [] \<and>
     list_all (\<lambda>v. TrimSpace v = [] \<or>
       validateDERP pv address (ep_DERPPort e) (TrimSpace v) tcp (expectedHash pv) = None) names \<and>
     (stunEnabled \<longrightarrow> 0 < ep_STUNPort e \<and> validateSTUN pv address (ep_STUNPort e) udp = None)"

lemma validateFamily_passed:
  "fv_State (validateFamily pv e address tcp udp names stunEnabled) = ''passed'' \<longleftrightarrow> reachable_at pv e address tcp udp names stunEnabled"
proof -
  have names: "check_names pv address (ep_DERPPort e) tcp (uniqueNames names) = None \<longleftrightarrow>
      list_all (\<lambda>v. TrimSpace v = [] \<or> validateDERP pv address (ep_DERPPort e) (TrimSpace v) tcp (expectedHash pv) = None) names"
    by (simp add: check_names_None uniqueNames_all)
  show ?thesis unfolding reachable_at_def names [symmetric]
    by (auto simp: validateFamily_def family_result_def split: option.splits)
qed

lemma family_passed_iff:
  "family_passed (family_check pv e address tcp udp names stunEnabled) \<longleftrightarrow>
     address \<noteq> [] \<and> reachable_at pv e address tcp udp names stunEnabled"
  by (simp add: family_passed_def family_check_def validateFamily_passed)

lemma family_failure_iff: "family_failure tag f = [] \<longleftrightarrow> f = None \<or> family_passed f"
  by (auto simp: family_failure_def family_passed_def split: option.split)

text \<open>
  The verdict of the validator. The endpoint passes when it has an address and every address it has is reachable: every
  name that is not blank answers the probe over TLS and, with STUN enabled, a STUN request is echoed. It fails when no
  address is reachable, and is degraded when only one of two is; the addresses that remain after \<open>validated\<close> are the
  reachable ones.
\<close>

theorem validator_verdict:
  "let r4 = ep_IPv4 e \<noteq> [] \<and> reachable_at pv e (ep_IPv4 e) ''tcp4'' ''udp4'' names stunEnabled;
       r6 = ep_IPv6 e \<noteq> [] \<and> reachable_at pv e (ep_IPv6 e) ''tcp6'' ''udp6'' names stunEnabled;
       result = Validate pv e names stunEnabled
   in vr_State result =
        (if \<not> r4 \<and> \<not> r6 then ''failed''
         else if (ep_IPv4 e = [] \<or> r4) \<and> (ep_IPv6 e = [] \<or> r6) then ''passed'' else ''degraded'') \<and>
      addresses (validated e result) = (if r4 then [ep_IPv4 e] else []) @ (if r6 then [ep_IPv6 e] else [])"
proof -
  define f4 where "f4 = family_check pv e (ep_IPv4 e) ''tcp4'' ''udp4'' names stunEnabled"
  define f6 where "f6 = family_check pv e (ep_IPv6 e) ''tcp6'' ''udp6'' names stunEnabled"
  define result where "result = Validate pv e names stunEnabled"
  have none: "f4 = None \<longleftrightarrow> ep_IPv4 e = []" "f6 = None \<longleftrightarrow> ep_IPv6 e = []" by (simp_all add: f4_def f6_def family_check_def)
  have st: "vr_State result = (if \<not> family_passed f4 \<and> \<not> family_passed f6 then ''failed''
      else if (f4 = None \<or> family_passed f4) \<and> (f6 = None \<or> family_passed f6) then ''passed'' else ''degraded'')"
    "vr_IPv4 result = f4" "vr_IPv6 result = f6"
    by (simp_all add: result_def Validate_def f4_def [symmetric] f6_def [symmetric] Let_def family_failure_iff)
  have np: "not_passed f \<longleftrightarrow> f \<noteq> None \<and> \<not> family_passed f" for f by (simp add: not_passed_def family_passed_def split: option.split)
  have "addresses (validated e result) = (if family_passed f4 then [ep_IPv4 e] else []) @ (if family_passed f6 then [ep_IPv6 e] else [])"
  proof -
    have "\<not> family_passed None" by (simp add: family_passed_def)
    then show ?thesis using none st
      by (auto simp: validated_def Let_def np addresses_def f4_def [symmetric] f6_def [symmetric])
  qed
  with st none show ?thesis
    unfolding Let_def result_def [symmetric] f4_def f6_def family_passed_iff by simp
qed

text \<open>
  Blank names pass without a probe. \<open>validateFamily\<close> asks for a name, but when all names are blank no TLS probe is made at
  all: with STUN disabled the address passes whatever the server answers.
\<close>

theorem blank_names_pass:
  assumes "names \<noteq> []" and "list_all (\<lambda>v. TrimSpace v = []) names"
  shows "fv_State (validateFamily pv e address tcp udp names False) = ''passed''"
  using assms by (simp add: validateFamily_passed reachable_at_def list_all_iff)

theorem blank_names_pass_witness:
  "fv_State (validateFamily \<lparr>pv_get = (\<lambda>_ _ _ _ _. ProbeFailed ''refused''), pv_stun = (\<lambda>_ _ _. StunDial ''refused''), pv_hash = None, pv_now = 0\<rparr>
     \<lparr>ep_IPv4 = ''192.0.2.1'', ep_IPv6 = [], ep_DERPPort = 443, ep_STUNPort = -1, ep_Method = [], ep_LeaseUntil = None\<rparr>
     ''192.0.2.1'' ''tcp4'' ''udp4'' ['' ''] False) = ''passed''"
  by (rule blank_names_pass) (simp_all add: TrimSpace_def TrimFunc_def is_space_def)

end
