(* ===== verification/Traffic.thy ===== *)
theory Traffic
  imports Prelude
begin

text \<open>
  \<^verbatim>\<open>internal/traffic/traffic.go\<close>: totals that survive restarts. Counters are 64-bit words and wrap; the file holds the
  marshalled \<open>Stats\<close>, \<^term>\<open>None\<close> when it does not exist. The session counters are sampled outside the lock, so a save may
  work with an old sample.
\<close>

record Stats =
  ts_BytesRecv :: int64
  ts_BytesSent :: int64
  ts_Accepts :: int64
  ts_SavedAt :: gotime

record Persister =
  pt_path :: string
  pt_persisted :: Stats
  pt_offset :: Stats
  pt_enabled :: bool

datatype traffic_error = PathRequired | ReadFailed | BadJSON | WriteFailed

text \<open>What the file system answers: a file that cannot be read or decoded, and whether writing fails.\<close>

datatype traffic_file = NoFile | FileStats Stats | FileUnreadable | FileCorrupt

definition zero_stats :: Stats where
  "zero_stats = \<lparr>ts_BytesRecv = 0, ts_BytesSent = 0, ts_Accepts = 0, ts_SavedAt = 0\<rparr>"

definition traffic_New :: "bool \<Rightarrow> string \<Rightarrow> Persister" where
  "traffic_New enabled path = \<lparr>pt_path = path, pt_persisted = zero_stats, pt_offset = zero_stats, pt_enabled = enabled\<rparr>"

text \<open>A sample of the session, as \<open>currentSession\<close> returns it; without a source it is zero.\<close>

definition currentSession :: "(int64 \<times> int64 \<times> int64) option \<Rightarrow> Stats" where
  "currentSession ref =
     (case ref of
        None \<Rightarrow> zero_stats
      | Some (r, s, a) \<Rightarrow> \<lparr>ts_BytesRecv = r, ts_BytesSent = s, ts_Accepts = a, ts_SavedAt = 0\<rparr>)"

definition traffic_Load :: "traffic_file \<Rightarrow> Stats \<Rightarrow> Persister \<Rightarrow> traffic_error option \<times> Persister" where
  "traffic_Load file current p =
     (if \<not> pt_enabled p then (None, p)
      else if pt_path p = [] then (Some PathRequired, p)
      else (case file of
              FileUnreadable \<Rightarrow> (Some ReadFailed, p)
            | FileCorrupt \<Rightarrow> (Some BadJSON, p)
            | NoFile \<Rightarrow> (None, p\<lparr>pt_persisted := zero_stats, pt_offset := current\<rparr>)
            | FileStats st \<Rightarrow> (None, p\<lparr>pt_persisted := st, pt_offset := current\<rparr>)))"

definition add_session :: "Stats \<Rightarrow> Stats \<Rightarrow> Stats \<Rightarrow> Stats" where
  "add_session base current offset =
     base\<lparr>ts_BytesRecv := ts_BytesRecv base + (ts_BytesRecv current - ts_BytesRecv offset),
          ts_BytesSent := ts_BytesSent base + (ts_BytesSent current - ts_BytesSent offset),
          ts_Accepts := ts_Accepts base + (ts_Accepts current - ts_Accepts offset)\<rparr>"

text \<open>\<open>Save\<close> with the sample it took before the lock; the temporary file replaces the file in one step or not at all.\<close>

definition traffic_Save :: "bool \<Rightarrow> gotime \<Rightarrow> Stats \<Rightarrow> Persister \<Rightarrow> traffic_file \<Rightarrow> traffic_error option \<times> Persister \<times> traffic_file" where
  "traffic_Save writeFails now current p file =
     (if \<not> pt_enabled p then (None, p, file)
      else if pt_path p = [] then (Some PathRequired, p, file)
      else (let nextPersisted = (add_session (pt_persisted p) current (pt_offset p))\<lparr>ts_SavedAt := now\<rparr>;
                nextOffset = current\<lparr>ts_SavedAt := 0\<rparr>
            in if writeFails then (Some WriteFailed, p, file)
               else (None, p\<lparr>pt_persisted := nextPersisted, pt_offset := nextOffset\<rparr>, FileStats nextPersisted)))"

definition Total :: "Stats \<Rightarrow> Persister \<Rightarrow> Stats" where
  "Total current p = (if \<not> pt_enabled p then zero_stats else add_session (pt_persisted p) current (pt_offset p))"

text \<open>The saves of one run of the program: for each whether it fails, its time and its sample.\<close>

fun saves :: "(bool \<times> gotime \<times> Stats) list \<Rightarrow> Persister \<times> traffic_file \<Rightarrow> Persister \<times> traffic_file" where
  "saves [] pf = pf"
| "saves ((fails, now, current) # rest) (p, file) = saves rest (snd (traffic_Save fails now current p file))"

text \<open>The counters of statistics.\<close>

definition counters :: "Stats \<Rightarrow> int64 \<times> int64 \<times> int64" where
  "counters s = (ts_BytesRecv s, ts_BytesSent s, ts_Accepts s)"

definition plus3 :: "int64 \<times> int64 \<times> int64 \<Rightarrow> int64 \<times> int64 \<times> int64 \<Rightarrow> int64 \<times> int64 \<times> int64" where
  "plus3 x y = (fst x + fst y, fst (snd x) + fst (snd y), snd (snd x) + snd (snd y))"

definition minus3 :: "int64 \<times> int64 \<times> int64 \<Rightarrow> int64 \<times> int64 \<times> int64 \<Rightarrow> int64 \<times> int64 \<times> int64" where
  "minus3 x y = (fst x - fst y, fst (snd x) - fst (snd y), snd (snd x) - snd (snd y))"

lemmas counter_defs = counters_def plus3_def minus3_def

section \<open>Totals\<close>

text \<open>What a save keeps: the persisted counters less the offset.\<close>

definition pending_base :: "Persister \<Rightarrow> int64 \<times> int64 \<times> int64" where
  "pending_base p = minus3 (counters (pt_persisted p)) (counters (pt_offset p))"

lemma Total_base: "pt_enabled p \<Longrightarrow> counters (Total current p) = plus3 (pending_base p) (counters current)"
  by (simp add: Total_def add_session_def pending_base_def counter_defs)

lemma Save_base:
  assumes "traffic_Save fails now current p file = (err, p', file')"
  shows "pending_base p' = pending_base p" "pt_enabled p' = pt_enabled p" "pt_path p' = pt_path p"
  using assms by (auto simp: traffic_Save_def Let_def pending_base_def counter_defs add_session_def split: if_splits)

lemma saves_base:
  "saves ss (p, disk) = (p', disk') \<Longrightarrow>
     pending_base p' = pending_base p \<and> pt_enabled p' = pt_enabled p \<and> pt_path p' = pt_path p"
proof (induction ss arbitrary: p disk)
  case (Cons s rest)
  obtain fails now current where s: "s = (fails, now, current)" by (metis prod_cases3)
  obtain err q g where sv: "traffic_Save fails now current p disk = (err, q, g)" by (metis prod_cases3)
  from Cons Save_base [OF sv] show ?case by (simp add: s sv)
qed simp

text \<open>
  Totals are exact and survive restarts (C27). After loading the file, any number of saves with any samples, failed or
  delayed, leave every total equal to what was loaded plus what the session has counted since loading, modulo $2^{64}$;
  and a save that succeeds lets the next run, after loading, start with exactly that total.
\<close>

theorem traffic_survives_restart:
  assumes "pt_enabled p0" and "pt_path p0 \<noteq> []"
    and "traffic_Load file c0 p0 = (None, p)" and "saves ss (p, file) = (q, file1)"
    and "traffic_Save False now c q file1 = (err, q', file2)"
    and "traffic_Load file2 c0' p0' = (None, r)" and "pt_enabled p0'" and "pt_path p0' \<noteq> []"
  shows "counters (Total c q) = plus3 (counters (case file of FileStats st \<Rightarrow> st | _ \<Rightarrow> zero_stats)) (minus3 (counters c) (counters c0)) \<and>
    counters (Total c' r) = plus3 (counters (Total c q)) (minus3 (counters c') (counters c0'))"
proof -
  have p: "pt_enabled p" "pt_path p \<noteq> []" and
    base: "pending_base p = minus3 (counters (case file of FileStats st \<Rightarrow> st | _ \<Rightarrow> zero_stats)) (counters c0)"
    using assms(1-3) by (auto simp: traffic_Load_def pending_base_def split: traffic_file.splits)
  note q = saves_base [OF assms(4)]
  have first: "counters (Total c q) = plus3 (pending_base p) (counters c)" using q p by (simp add: Total_base)
  have file2: "file2 = FileStats (pt_persisted q')" "counters (pt_persisted q') = counters (Total c q)"
    using assms(5) q p by (auto simp: traffic_Save_def Let_def Total_def counter_defs add_session_def)
  have "pt_enabled r" "pending_base r = minus3 (counters (pt_persisted q')) (counters c0')"
    using assms(6-8) file2(1) by (auto simp: traffic_Load_def pending_base_def)
  then have "counters (Total c' r) = plus3 (minus3 (counters (Total c q)) (counters c0')) (counters c')"
    using file2(2) by (simp add: Total_base)
  with first base show ?thesis by (simp add: plus3_def minus3_def)
qed

definition demo_stats :: "int64 \<Rightarrow> Stats" where
  "demo_stats n = \<lparr>ts_BytesRecv = n, ts_BytesSent = n, ts_Accepts = 1, ts_SavedAt = 0\<rparr>"

text \<open>Two saves arrive in the wrong order, one of them fails.\<close>

theorem traffic_survives_restart_witness:
  "\<exists>p q file1 err q' file2 r.
     traffic_Load (FileStats (demo_stats 100)) (demo_stats 0) (traffic_New True ''f'') = (None, p) \<and>
     saves [(False, 1, demo_stats 9), (True, 2, demo_stats 7), (False, 3, demo_stats 5)] (p, FileStats (demo_stats 100)) = (q, file1) \<and>
     traffic_Save False 4 (demo_stats 20) q file1 = (err, q', file2) \<and>
     traffic_Load file2 (demo_stats 0) (traffic_New True ''f'') = (None, r) \<and>
     counters (Total (demo_stats 20) q) = (120, 120, 1) \<and> counters (Total (demo_stats 3) r) = (123, 123, 1)"
proof -
  define p0 where "p0 = traffic_New True ''f''"
  define p where "p = snd (traffic_Load (FileStats (demo_stats 100)) (demo_stats 0) p0)"
  obtain q file1 where q: "saves [(False, 1, demo_stats 9), (True, 2, demo_stats 7), (False, 3, demo_stats 5)] (p, FileStats (demo_stats 100)) = (q, file1)"
    by fastforce
  obtain err q' file2 where s: "traffic_Save False 4 (demo_stats 20) q file1 = (err, q', file2)" by (metis prod_cases3)
  have p0: "pt_enabled p0" "pt_path p0 \<noteq> []" by (simp_all add: p0_def traffic_New_def)
  have l: "traffic_Load (FileStats (demo_stats 100)) (demo_stats 0) p0 = (None, p)"
    using p0 by (simp add: p_def traffic_Load_def)
  have "pt_enabled q" "pt_path q \<noteq> []" using saves_base [OF q] p0 l by (auto simp: traffic_Load_def)
  then have "\<exists>r. traffic_Load file2 (demo_stats 0) p0 = (None, r)"
    using s p0 by (auto simp: traffic_Save_def traffic_Load_def Let_def)
  then obtain r where r: "traffic_Load file2 (demo_stats 0) p0 = (None, r)" ..
  have "counters (Total (demo_stats 20) q) = (120, 120, 1)" "counters (Total (demo_stats 3) r) = (123, 123, 1)"
    using traffic_survives_restart [OF p0 l q s r p0, of "demo_stats 3"] by (simp_all add: counter_defs demo_stats_def)
  with l q s r show ?thesis unfolding p0_def by blast
qed

end
