(* ===== verification/Peers.thy ===== *)
theory Peers
  imports Devices Tracker NetipText
begin

text \<open>
  \<^verbatim>\<open>internal/ops/peers.go\<close>: the identities of connected peers, from the device list or looked up in the background
  through the local tailscaled.

  \<^item> \<open>resolver\<close> is \<open>identityResolver\<close>: the cache, the slots in use, and the lookups under way (\<open>rs_looking\<close>) and past their
    store (\<open>rs_leaving\<close>), which is the state of the goroutines.
  \<^item> \<open>key.ParseNodePublicUntyped\<close> and \<open>WhoIsNodeKey\<close> are arguments of \<open>peer_lookup\<close>.
\<close>

record peerIdentity =
  id_Source :: string
  id_Name :: string
  id_Hostname :: string
  id_User :: string
  id_NodeID :: string
  id_Addresses :: "string list"
  id_OS :: string
  id_ClientVersion :: string
  id_Tags :: "string list"
  id_Sources :: "string list"

record peerDetails =
  pd_PeerInfo :: PeerInfo
  pd_Identity :: "peerIdentity option"

record peerDetailsResponse =
  pdr_Peers :: "peerDetails list"
  pdr_Count :: nat
  pdr_SampledAt :: gotime

record identityEntry =
  ie_identity :: "peerIdentity option"
  ie_expires :: gotime
  ie_pending :: bool

record resolver =
  rs_cache :: "(string, identityEntry) fmap"
  rs_slots :: nat
  rs_looking :: "string list"
  rs_leaving :: nat

section \<open>The lookup\<close>

text \<open>The answer of tailscaled: the node with its host information and addresses, and the user.\<close>

record whoisNode =
  wn_Name :: string
  wn_StableID :: string
  wn_Tags :: "string list"
  wn_Hostinfo :: "(string \<times> string \<times> string) option"
  wn_Addresses :: "(Addr \<times> nat) list"

record whois =
  wi_Node :: "whoisNode option"
  wi_User :: "(string \<times> string) option"

definition IsSingleIP :: "Addr \<times> nat \<Rightarrow> bool" where
  "IsSingleIP p \<longleftrightarrow> (case fst p of Addr4 _ \<Rightarrow> snd p = 32 | Addr6 _ _ \<Rightarrow> snd p = 128 | AddrZero \<Rightarrow> False)"

definition node_identity :: "whoisNode \<Rightarrow> (string \<times> string) option \<Rightarrow> peerIdentity" where
  "node_identity node user =
     \<lparr>id_Source = ''local_tailscaled'', id_Name = TrimSuffix (wn_Name node) ''.'',
      id_Hostname = (case wn_Hostinfo node of None \<Rightarrow> [] | Some (h, _, _) \<Rightarrow> h),
      id_User = (case user of None \<Rightarrow> [] | Some (login, display) \<Rightarrow> if login = [] then display else login),
      id_NodeID = wn_StableID node,
      id_Addresses = map (\<lambda>p. Addr_String (fst p)) (filter IsSingleIP (wn_Addresses node)),
      id_OS = (case wn_Hostinfo node of None \<Rightarrow> [] | Some (_, os, _) \<Rightarrow> os),
      id_ClientVersion = (case wn_Hostinfo node of None \<Rightarrow> [] | Some (_, _, v) \<Rightarrow> v),
      id_Tags = wn_Tags node, id_Sources = []\<rparr>"

text \<open>\<^term>\<open>None\<close> stands for an error as well as for no identity: the caller treats them alike.\<close>

definition peer_lookup :: "(string \<Rightarrow> 'k option) \<Rightarrow> ('k \<Rightarrow> whois option) \<Rightarrow> string \<Rightarrow> peerIdentity option" where
  "peer_lookup parse who nodeKey =
     (case parse nodeKey of
        None \<Rightarrow> None
      | Some parsed \<Rightarrow>
          (case who parsed of
             None \<Rightarrow> None
           | Some w \<Rightarrow> (case wi_Node w of None \<Rightarrow> None | Some node \<Rightarrow> Some (node_identity node (wi_User w)))))"

section \<open>The resolver\<close>

definition newIdentityResolver :: resolver where
  "newIdentityResolver = \<lparr>rs_cache = fmempty, rs_slots = 0, rs_looking = [], rs_leaving = 0\<rparr>"

definition slot_count :: nat where "slot_count = 2"

definition resolve :: "gotime \<Rightarrow> string \<Rightarrow> resolver \<Rightarrow> peerIdentity option \<times> resolver" where
  "resolve now nodeKey r =
     (let start = (if rs_slots r < slot_count
                   then (None, r\<lparr>rs_slots := rs_slots r + 1, rs_looking := rs_looking r @ [nodeKey],
                                 rs_cache := fmupd nodeKey \<lparr>ie_identity = None, ie_expires = 0, ie_pending = True\<rparr> (rs_cache r)\<rparr>)
                   else (None, r))
      in case fmlookup (rs_cache r) nodeKey of
           None \<Rightarrow> start
         | Some entry \<Rightarrow> if ie_pending entry \<or> now < ie_expires entry then (ie_identity entry, r) else start)"

text \<open>The goroutine: its store under the lock, then its slot.\<close>

definition store_identity :: "gotime \<Rightarrow> peerIdentity option \<Rightarrow> string \<Rightarrow> resolver \<Rightarrow> resolver" where
  "store_identity now identity nodeKey r =
     (let ttl = (if identity = None then minute else 5 * minute);
          cache = (case fmlookup (rs_cache r) nodeKey of
                     None \<Rightarrow> rs_cache r
                   | Some current \<Rightarrow>
                       if ie_pending current
                       then fmupd nodeKey \<lparr>ie_identity = identity, ie_expires = now + ttl, ie_pending = False\<rparr> (rs_cache r)
                       else rs_cache r)
      in r\<lparr>rs_cache := cache, rs_looking := remove1 nodeKey (rs_looking r), rs_leaving := rs_leaving r + 1\<rparr>)"

definition free_slot :: "resolver \<Rightarrow> resolver" where
  "free_slot r = r\<lparr>rs_slots := rs_slots r - 1, rs_leaving := rs_leaving r - 1\<rparr>"

definition prune :: "string set \<Rightarrow> resolver \<Rightarrow> resolver" where
  "prune active r = r\<lparr>rs_cache := fmfilter (\<lambda>k. k \<in> active) (rs_cache r)\<rparr>"

section \<open>The handler\<close>

definition deviceIdentity :: "Device \<Rightarrow> peerIdentity" where
  "deviceIdentity d =
     \<lparr>id_Source = ''official_api'', id_Name = dv_Name d, id_Hostname = dv_Hostname d, id_User = dv_User d, id_NodeID = dv_NodeID d,
      id_Addresses = dv_Addresses d, id_OS = dv_OS d, id_ClientVersion = dv_ClientVersion d, id_Tags = dv_Tags d, id_Sources = dv_Sources d\<rparr>"

text \<open>The devices by node key: the last of the list wins.\<close>

definition devices_by_key :: "Device list \<Rightarrow> string \<Rightarrow> Device option" where
  "devices_by_key ds key = find (\<lambda>d. dv_NodeKey d = key) (rev ds)"

fun peer_list :: "gotime \<Rightarrow> Device list \<Rightarrow> bool \<Rightarrow> PeerInfo list \<Rightarrow> resolver \<Rightarrow> peerDetails list \<times> resolver" where
  "peer_list now ds local [] r = ([], r)"
| "peer_list now ds local (p # ps) r =
     (let (identity, r) =
            (case devices_by_key ds (pi_PublicKey p) of
               Some d \<Rightarrow> (Some (deviceIdentity d), r)
             | None \<Rightarrow> if local then resolve now (pi_PublicKey p) r else (None, r));
          (rest, r) = peer_list now ds local ps r
      in (\<lparr>pd_PeerInfo = p, pd_Identity = identity\<rparr> # rest, r))"

datatype peers_reply = MethodNotAllowed | PeersOK peerDetailsResponse

text \<open>\<open>handlePeerDetails\<close>: the store and the local tailscaled may be absent; \<^term>\<open>None\<close> is a panic of \<open>GetAll\<close>.\<close>

definition handlePeerDetails ::
    "string \<Rightarrow> gotime \<Rightarrow> deviceStore option \<Rightarrow> bool \<Rightarrow> PeerTracker \<Rightarrow> resolver \<Rightarrow> (peers_reply \<times> PeerTracker \<times> resolver) option" where
  "handlePeerDetails httpMethod now store local t r =
     (if httpMethod \<noteq> ''GET'' then Some (MethodNotAllowed, t, r)
      else (case GetAll now t of
              None \<Rightarrow> None
            | Some (snap, t) \<Rightarrow>
                (let ds = (case store of None \<Rightarrow> [] | Some s \<Rightarrow> fst (snapshot now s));
                     (peers, r) = peer_list now ds local (pr_Peers snap) r
                 in Some (PeersOK \<lparr>pdr_Peers = peers, pdr_Count = pr_Count snap, pdr_SampledAt = pr_SampledAt snap\<rparr>, t,
                          prune (set (map pi_PublicKey (pr_Peers snap))) r))))"

section \<open>Interleavings\<close>

text \<open>The steps on a resolver, in any order: requests and the goroutines' two steps. \<open>lk\<close> is the lookup.\<close>

datatype rop = RResolve gotime string | RStore gotime string | RExit | RPrune "string list"

definition rstep :: "(string \<Rightarrow> peerIdentity option) \<Rightarrow> rop \<Rightarrow> resolver \<Rightarrow> resolver" where
  "rstep lk p r =
     (case p of
        RResolve now key \<Rightarrow> snd (resolve now key r)
      | RStore now key \<Rightarrow> if key \<in> set (rs_looking r) then store_identity now (lk key) key r else r
      | RExit \<Rightarrow> if 0 < rs_leaving r then free_slot r else r
      | RPrune active \<Rightarrow> prune (set active) r)"

definition rrun :: "(string \<Rightarrow> peerIdentity option) \<Rightarrow> rop list \<Rightarrow> resolver" where
  "rrun lk ops = fold (rstep lk) ops newIdentityResolver"

definition entry_ok :: "(string \<Rightarrow> peerIdentity option) \<Rightarrow> string list \<Rightarrow> string \<Rightarrow> identityEntry \<Rightarrow> bool" where
  "entry_ok lk looking key e \<longleftrightarrow> (if ie_pending e then key \<in> set looking \<and> ie_identity e = None else ie_identity e = lk key)"

definition resolver_inv :: "(string \<Rightarrow> peerIdentity option) \<Rightarrow> resolver \<Rightarrow> bool" where
  "resolver_inv lk r \<longleftrightarrow>
     rs_slots r = length (rs_looking r) + rs_leaving r \<and> rs_slots r \<le> slot_count \<and>
     (\<forall>key e. fmlookup (rs_cache r) key = Some e \<longrightarrow> entry_ok lk (rs_looking r) key e)"

lemma resolver_inv_new: "resolver_inv lk newIdentityResolver"
  by (simp add: resolver_inv_def newIdentityResolver_def)

lemma resolve_inv: "resolver_inv lk r \<Longrightarrow> resolver_inv lk (snd (resolve now key r))"
  by (auto simp: resolver_inv_def resolve_def Let_def entry_ok_def split: option.split)

lemma resolve_value: "resolver_inv lk r \<Longrightarrow> fst (resolve now key r) = None \<or> fst (resolve now key r) = lk key"
  by (auto simp: resolver_inv_def resolve_def Let_def entry_ok_def split: option.split if_splits)

lemma store_inv:
  assumes inv: "resolver_inv lk r" and key: "key \<in> set (rs_looking r)"
  shows "resolver_inv lk (store_identity now (lk key) key r)"
proof -
  define q where "q = store_identity now (lk key) key r"
  have fields: "rs_slots q = rs_slots r" "rs_looking q = remove1 key (rs_looking r)" "rs_leaving q = rs_leaving r + 1"
    by (simp_all add: q_def store_identity_def Let_def)
  have len: "length (remove1 key (rs_looking r)) = length (rs_looking r) - 1" "0 < length (rs_looking r)"
    using key by (auto simp: length_remove1)
  have "entry_ok lk (rs_looking q) k e" if e: "fmlookup (rs_cache q) k = Some e" for k e
  proof (cases "k = key")
    case True
    with e have "\<not> ie_pending e \<and> (ie_identity e = lk key \<or> fmlookup (rs_cache r) key = Some e)"
      by (auto simp: q_def store_identity_def Let_def split: option.splits if_splits)
    with True inv show ?thesis by (auto simp: entry_ok_def resolver_inv_def)
  next
    case False
    with e have "fmlookup (rs_cache r) k = Some e"
      by (auto simp: q_def store_identity_def Let_def split: option.splits if_splits)
    with inv have "entry_ok lk (rs_looking r) k e" by (simp add: resolver_inv_def)
    with False show ?thesis by (simp add: entry_ok_def fields in_set_remove1)
  qed
  then show ?thesis using inv len fields by (simp add: resolver_inv_def q_def [symmetric])
qed

lemma rstep_inv: "resolver_inv lk r \<Longrightarrow> resolver_inv lk (rstep lk p r)"
proof (cases p)
  case RExit
  assume "resolver_inv lk r"
  then show ?thesis using RExit by (auto simp: rstep_def free_slot_def resolver_inv_def)
next
  case (RPrune active)
  assume "resolver_inv lk r"
  then show ?thesis using RPrune by (auto simp: rstep_def prune_def resolver_inv_def split: if_splits)
qed (simp_all add: rstep_def resolve_inv store_inv)

lemma rrun_inv: "resolver_inv lk (rrun lk ops)"
proof -
  have "resolver_inv lk r \<Longrightarrow> resolver_inv lk (fold (rstep lk) ops r)" for r
    by (induction ops arbitrary: r) (simp_all add: rstep_inv)
  then show ?thesis by (simp add: rrun_def resolver_inv_new)
qed

text \<open>
  Lookups are bounded and none is lost. Under every interleaving of requests and background lookups, at most two
  lookups are under way; an entry is marked pending only while a lookup for its key is under way, so that no key waits
  for ever; and every identity a request returns is the one the lookup of that key gave.
\<close>

theorem resolver_bounded:
  "let r = rrun lk ops in
   length (rs_looking r) + rs_leaving r \<le> 2 \<and>
   fmpred (\<lambda>key e. if ie_pending e then key \<in> set (rs_looking r) else True) (rs_cache r) \<and>
   (fst (resolve now key r) = None \<or> fst (resolve now key r) = lk key)"
proof -
  have inv: "resolver_inv lk (rrun lk ops)" by (rule rrun_inv)
  have "fmpred (\<lambda>key e. if ie_pending e then key \<in> set (rs_looking (rrun lk ops)) else True) (rs_cache (rrun lk ops))"
    using inv by (auto simp: resolver_inv_def fmpred_iff entry_ok_def split: if_splits)
  moreover have "fst (resolve now key (rrun lk ops)) = None \<or> fst (resolve now key (rrun lk ops)) = lk key"
    using inv by (rule resolve_value)
  ultimately show ?thesis using inv by (simp add: resolver_inv_def slot_count_def Let_def)
qed

text \<open>
  Keys of connected peers are never resolved. The tracker stores keys in their typed form, \<^verbatim>\<open>nodekey:\<close> and 64
  hexadecimal digits, but the lookup parses them with \<open>ParseNodePublicUntyped\<close>, which accepts 64 digits only: no request
  ever returns an identity for such a key, whatever tailscaled knows.
\<close>

theorem typed_keys_unresolved:
  assumes "\<And>s. length s \<noteq> 64 \<Longrightarrow> parse s = None" and "length digits = 64"
  shows "fst (resolve now (''nodekey:'' @ digits) (rrun (peer_lookup parse who) ops)) = None"
proof -
  have "peer_lookup parse who (''nodekey:'' @ digits) = None" using assms by (simp add: peer_lookup_def)
  then show ?thesis using resolve_value [OF rrun_inv [of "peer_lookup parse who" ops], of now "''nodekey:'' @ digits"] by simp
qed

definition demo_parse :: "string \<Rightarrow> string option" where
  "demo_parse s = (if length s = 64 then Some s else None)"

definition demo_who :: "string \<Rightarrow> whois option" where
  "demo_who k = Some \<lparr>wi_Node = Some \<lparr>wn_Name = ''laptop.'', wn_StableID = ''n1'', wn_Tags = [], wn_Hostinfo = None, wn_Addresses = []\<rparr>, wi_User = None\<rparr>"

theorem typed_keys_unresolved_witness:
  "let key = ''nodekey:'' @ replicate 64 (CHR ''a'') in
   fst (resolve 1 key (rrun (peer_lookup demo_parse demo_who) [RResolve 0 key, RStore 0 key, RExit])) = None"
  using typed_keys_unresolved [of demo_parse "replicate 64 (CHR ''a'')" 1 demo_who] by (simp add: demo_parse_def Let_def)

section \<open>The list of peers\<close>

lemma peer_list_infos: "map pd_PeerInfo (fst (peer_list now ds local ps r)) = ps"
  by (induction ps arbitrary: r) (auto simp: Let_def case_prod_unfold)

lemma peer_list_devices:
  "list_all (\<lambda>p. devices_by_key ds (pi_PublicKey (pd_PeerInfo p)) = None \<or>
     pd_Identity p = map_option deviceIdentity (devices_by_key ds (pi_PublicKey (pd_PeerInfo p)))) (fst (peer_list now ds local ps r))"
  by (induction ps arbitrary: r) (auto simp: Let_def case_prod_unfold split: option.split)

end
