(* ===== verification/UciConfig.thy ===== *)
theory UciConfig
  imports GoStrings
begin

text \<open>
  The configuration a file is read into: \<open>uciConfig\<close> and its lookups (\<^verbatim>\<open>cmd/tailscale-derp/main.go\<close>), and the parser of
  OpenWrt's UCI format (\<^verbatim>\<open>config_uci_parser.go\<close>).

  \<^item> In the code \<open>values[name]\<close> and the \<open>values\<close> of an element of \<open>sections\<close> are one and the same Go map. Here the
    map of options is kept with the section, and \<open>uc_values\<close> gives the position of the section whose map
    \<open>values[name]\<close> is: a later section of the same name takes the name over, and the earlier one keeps its options.
  \<^item> A file is its contents, with the error its reading ends in, if any; \<open>bufio.Scanner\<close> refuses lines of 64 KiB.
  \<^item> The loop that looks for the name of an anonymous section has no bound in the code; it is a \<open>function\<close> whose
    termination is proved here.
\<close>

section \<open>Sections and lookups\<close>

datatype config_error =
    ENotExist
  | EIO string
  | ETooLong
  | EInvalidConfig nat
  | EInvalidOption nat
  | EInvalidList nat
  | EUnsupported string nat
  | EDisabled string string
  | EDecode string
  | EBool string string
  | EPositive string
  | EInteger string
  | ENumber string string
  | EAuthType string
  | EMethod string
  | EFlag string
  | EInvalid string

record uciSection =
  us_typ :: string
  us_name :: string
  us_values :: "(string, string list) fmap"

record uciConfig =
  uc_values :: "(string, nat) fmap"
  uc_sections :: "uciSection list"

definition empty_uci :: uciConfig where
  "empty_uci = \<lparr>uc_values = fmempty, uc_sections = []\<rparr>"

text \<open>\<open>config.values[name]\<close>.\<close>

definition section_values :: "uciConfig \<Rightarrow> string \<Rightarrow> (string, string list) fmap option" where
  "section_values u name = map_option (\<lambda>i. us_values (uc_sections u ! i)) (fmlookup (uc_values u) name)"

definition uci_first :: "uciConfig \<Rightarrow> string \<Rightarrow> string \<Rightarrow> string option" where
  "uci_first u sect key =
     (case section_values u sect of
        None \<Rightarrow> None
      | Some sectionValues \<Rightarrow>
          (case fmlookup sectionValues key of
             None \<Rightarrow> None
           | Some values \<Rightarrow> if values = [] then None else Some (hd values)))"

definition uci_get :: "uciConfig \<Rightarrow> string \<Rightarrow> string \<Rightarrow> string list" where
  "uci_get u sect key =
     (case section_values u sect of
        None \<Rightarrow> []
      | Some sectionValues \<Rightarrow> (case fmlookup sectionValues key of None \<Rightarrow> [] | Some values \<Rightarrow> values))"

definition sectionsOfType :: "uciConfig \<Rightarrow> string \<Rightarrow> uciSection list" where
  "sectionsOfType u typ = filter (\<lambda>s. us_typ s = typ) (uc_sections u)"

definition firstSectionValue :: "uciSection \<Rightarrow> string \<Rightarrow> string" where
  "firstSectionValue s key =
     (case fmlookup (us_values s) key of
        None \<Rightarrow> []
      | Some values \<Rightarrow> if values = [] then [] else TrimSpace (hd values))"

definition addSection :: "string \<Rightarrow> string \<Rightarrow> (string, string list) fmap \<Rightarrow> uciConfig \<Rightarrow> uciConfig" where
  "addSection typ name values u =
     u\<lparr>uc_values := fmupd name (length (uc_sections u)) (uc_values u),
       uc_sections := uc_sections u @ [\<lparr>us_typ = typ, us_name = name, us_values = values\<rparr>]\<rparr>"

text \<open>An assignment to a key of \<open>parsed.values[sect]\<close>, in the map the section shares; the code reaches it only with a
  section that exists.\<close>

definition update_values ::
    "string \<Rightarrow> ((string, string list) fmap \<Rightarrow> (string, string list) fmap) \<Rightarrow> uciConfig \<Rightarrow> uciConfig" where
  "update_values sect f u =
     (case fmlookup (uc_values u) sect of
        None \<Rightarrow> u
      | Some i \<Rightarrow> u\<lparr>uc_sections := (uc_sections u)[i := (uc_sections u ! i)\<lparr>us_values := f (us_values (uc_sections u ! i))\<rparr>]\<rparr>)"

section \<open>The parser\<close>

definition trimQuotes :: "string \<Rightarrow> string" where
  "trimQuotes value = TrimFunc (\<lambda>c. c = CHR 0x27 \<or> c = CHR 0x22) value"

text \<open>The lines of \<open>bufio.ScanLines\<close>, with the carriage return still there: \<open>dropCR\<close> takes it off.\<close>

definition raw_lines :: "string \<Rightarrow> string list" where
  "raw_lines s = (let ls = SplitChar CHR 0x0A s in if last ls = [] then butlast ls else ls)"

definition dropCR :: "string \<Rightarrow> string" where
  "dropCR l = TrimSuffix l [CHR 0x0D]"

definition MaxScanTokenSize :: nat where "MaxScanTokenSize = 65536"

definition candidate :: "string \<Rightarrow> nat \<Rightarrow> string" where
  "candidate typ index = typ @ ''_'' @ Itoa (int index)"

lemma decimal_snoc: "decimal (ds @ [c]) = 10 * decimal ds + digit_value c"
  by (simp add: decimal_def)

lemma digits_of_not_empty [simp]: "digits_of n \<noteq> []"
  by (subst digits_of.simps) simp

lemma decimal_digits_of [simp]: "decimal (digits_of n) = n"
proof (induction n rule: digits_of.induct)
  case (1 n)
  have c: "digit_value (char_of (48 + d)) = d" if "d < 10" for d :: nat
    using that by (simp add: digit_value_def char_code_def)
  show ?case
  proof (cases "n < 10")
    case True
    then show ?thesis by (subst digits_of.simps) (simp add: decimal_def c)
  next
    case False
    with 1 show ?thesis by (subst digits_of.simps) (simp add: decimal_snoc c)
  qed
qed

lemma is_digit_digits_of [simp]: "list_all is_digit (digits_of n)"
proof (induction n rule: digits_of.induct)
  case (1 n)
  have c: "is_digit (char_of (48 + d))" if "d < 10" for d :: nat
    using that by (simp add: is_digit_def char_code_def)
  show ?case
  proof (cases "n < 10")
    case True
    then show ?thesis by (subst digits_of.simps) (simp add: c)
  next
    case False
    with 1 show ?thesis by (subst digits_of.simps) (simp add: c)
  qed
qed

lemma digits_of_inj: "digits_of m = digits_of n \<Longrightarrow> m = n"
  using decimal_digits_of by metis

lemma candidate_inj: "candidate typ i = candidate typ j \<Longrightarrow> i = j"
  by (auto simp: candidate_def Itoa_def dest: digits_of_inj)

text \<open>The names of the sections there are, from an index on, among the candidates.\<close>

definition taken :: "(string, nat) fmap \<Rightarrow> string \<Rightarrow> nat \<Rightarrow> nat set" where
  "taken values typ index = {i. index \<le> i \<and> candidate typ i |\<in>| fmdom values}"

lemma finite_taken [simp]: "finite (taken values typ index)"
proof -
  have "candidate typ ` taken values typ index \<subseteq> fset (fmdom values)" by (auto simp: taken_def)
  then have "finite (candidate typ ` taken values typ index)" by (rule finite_subset) simp
  then show ?thesis by (rule finite_imageD) (auto intro: inj_onI candidate_inj)
qed

function find_candidate :: "(string, nat) fmap \<Rightarrow> string \<Rightarrow> nat \<Rightarrow> string" where
  "find_candidate values typ index =
     (if fmlookup values (candidate typ index) = None then candidate typ index else find_candidate values typ (index + 1))"
  by pat_completeness auto
termination
proof (relation "measure (\<lambda>(vals, ty, index). card (taken vals ty index))")
  fix vals :: "(string, nat) fmap" and ty index
  assume "fmlookup vals (candidate ty index) \<noteq> None"
  then have "index \<in> taken vals ty index" by (auto simp: taken_def fmlookup_dom_iff)
  moreover have "index \<notin> taken vals ty (index + 1)" "taken vals ty (index + 1) \<subseteq> taken vals ty index"
    by (simp_all add: taken_def subset_iff)
  ultimately have "taken vals ty (index + 1) \<subset> taken vals ty index" by blast
  then show "((vals, ty, index + 1), vals, ty, index) \<in> measure (\<lambda>(vals, ty, index). card (taken vals ty index))"
    by (simp add: psubset_card_mono)
qed simp

declare find_candidate.simps [simp del]

record uci_parser =
  up_parsed :: uciConfig
  up_section :: string
  up_type :: string

text \<open>One line of the file, after \<open>scanner.Text\<close>.\<close>

definition uci_line :: "nat \<Rightarrow> string \<Rightarrow> uci_parser \<Rightarrow> config_error + uci_parser" where
  "uci_line lineNum raw p =
     (let line = TrimSpace raw in
      if line = [] \<or> HasPrefix line ''#'' then Inr p
      else (case Fields line of
              [] \<Rightarrow> Inr p
            | directive # args \<Rightarrow>
                if directive = ''config'' then
                  (case args of
                     [] \<Rightarrow> Inl (EInvalidConfig lineNum)
                   | typ # rest \<Rightarrow>
                       (let currentType = trimQuotes typ;
                            name = (case rest of [] \<Rightarrow> [] | n # _ \<Rightarrow> trimQuotes n);
                            currentSection = (if name = [] then find_candidate (uc_values (up_parsed p)) currentType 1 else name)
                        in Inr \<lparr>up_parsed = addSection currentType currentSection fmempty (up_parsed p),
                                up_section = currentSection, up_type = currentType\<rparr>))
                else if directive = ''option'' then
                  (if up_section p = [] \<or> length args < 2 then Inl (EInvalidOption lineNum)
                   else Inr (p\<lparr>up_parsed := update_values (up_section p)
                                 (fmupd (trimQuotes (hd args)) [trimQuotes (Join '' '' (tl args))]) (up_parsed p)\<rparr>))
                else if directive = ''list'' then
                  (if up_section p = [] \<or> length args < 2 then Inl (EInvalidList lineNum)
                   else Inr (p\<lparr>up_parsed := update_values (up_section p)
                                 (\<lambda>values. let key = trimQuotes (hd args)
                                           in fmupd key ((case fmlookup values key of None \<Rightarrow> [] | Some vs \<Rightarrow> vs) @
                                                         [trimQuotes (Join '' '' (tl args))]) values) (up_parsed p)\<rparr>))
                else Inl (EUnsupported directive lineNum)))"

fun uci_lines :: "nat \<Rightarrow> string list \<Rightarrow> uci_parser \<Rightarrow> config_error + uci_parser" where
  "uci_lines lineNum [] p = Inr p"
| "uci_lines lineNum (raw # rest) p =
     (if MaxScanTokenSize \<le> length raw then Inl ETooLong
      else (case uci_line lineNum (dropCR raw) p of
              Inl err \<Rightarrow> Inl err
            | Inr p' \<Rightarrow> uci_lines (lineNum + 1) rest p'))"

definition parser_start :: uci_parser where
  "parser_start = \<lparr>up_parsed = empty_uci, up_section = [], up_type = []\<rparr>"

text \<open>\<open>parseUCIConfig\<close> on a file: its contents and the error that ends the reading, or the error of \<open>os.Open\<close>.\<close>

definition parseUCIConfig :: "config_error + (string \<times> config_error option) \<Rightarrow> config_error + uciConfig" where
  "parseUCIConfig file_read =
     (case file_read of
        Inl err \<Rightarrow> Inl err
      | Inr (contents, readErr) \<Rightarrow>
          (case uci_lines 1 (raw_lines contents) parser_start of
             Inl err \<Rightarrow> Inl err
           | Inr p \<Rightarrow> (case readErr of Some err \<Rightarrow> Inl err | None \<Rightarrow> Inr (up_parsed p))))"

section \<open>Lookups in sections\<close>

text \<open>Every name stands for a section of that name.\<close>

definition uci_wf :: "uciConfig \<Rightarrow> bool" where
  "uci_wf u \<longleftrightarrow> (\<forall>name i. fmlookup (uc_values u) name = Some i \<longrightarrow> i < length (uc_sections u) \<and> us_name (uc_sections u ! i) = name)"

lemma uci_wf_empty [simp]: "uci_wf empty_uci"
  by (simp add: uci_wf_def empty_uci_def)

lemma uci_wf_addSection [simp]: "uci_wf u \<Longrightarrow> uci_wf (addSection t n vs u)"
  unfolding uci_wf_def addSection_def by (auto simp: nth_append less_Suc_eq)

lemma section_values_addSection:
  "uci_wf u \<Longrightarrow> section_values (addSection t n vs u) m = (if m = n then Some vs else section_values u m)"
  by (cases "fmlookup (uc_values u) m") (auto simp: section_values_def addSection_def uci_wf_def nth_append)

lemma section_values_empty [simp]: "section_values empty_uci m = None"
  by (simp add: section_values_def empty_uci_def)

end
