(* ===== verification/ConfigFile.thy ===== *)
theory ConfigFile
  imports UciConfig
begin

text \<open>
  \<^verbatim>\<open>cmd/tailscale-derp/config_model.go\<close>: the format of JSON and YAML configuration files, as the decoders fill it, and its
  translation to the sections and options the program applies; \<^verbatim>\<open>config_loader.go\<close> with the loaders of each format.
  A pointer field is an option, nil is \<^term>\<open>None\<close>.
\<close>

section \<open>The file\<close>

record fileGlobalConfig =
  fg_Enabled :: "bool option"
  fg_Listen :: "string option"
  fg_STUN :: "bool option"

record fileTLSConfig =
  ft_CertFile :: "string option"
  ft_KeyFile :: "string option"
  ft_Mode :: "string option"
  ft_StateDir :: "string option"

record fileMeshConfig =
  fm_Enabled :: "bool option"
  fm_Key :: "string option"

record fileOpsConfig =
  fo_Socket :: "string option"
  fo_Health :: "string option"

record fileTrafficConfig =
  fr_Persist :: "bool option"
  fr_Path :: "string option"
  fr_Interval :: "int option"

record fileExternalConfig =
  fe_Enabled :: "bool option"
  fe_Mode :: "string option"
  fe_AddressFamily :: "string option"
  fe_Methods :: "string list option"
  fe_WANInterface :: "string option"
  fe_DERPPort :: "string option"
  fe_STUNPort :: "string option"
  fe_LeaseSeconds :: "int option"
  fe_RetrySeconds :: "int option"
  fe_SyncInterval :: "int option"
  fe_ValidateEndpoint :: "bool option"

record fileVerifyConfig =
  fv_URLs :: "string list option"
  fv_Enabled :: "bool option"
  fv_URLEnabled :: "bool option"
  fv_TailscaledEnabled :: "bool option"
  fv_TailscaledSocketEnabled :: "bool option"
  fv_TailscaledSocket :: "string option"
  fv_APIEnabled :: "bool option"
  fv_SyncInterval :: "int option"
  fv_CacheTTL :: "int option"

record fileVerifyAPIConfig =
  fa_Name :: string
  fa_Label :: "string option"
  fa_Tailnet :: "string option"
  fa_AuthType :: "string option"
  fa_APIKey :: "string option"
  fa_OAuthClientID :: "string option"
  fa_OAuthClientSecret :: "string option"
  fa_DERPMapSync :: "bool option"
  fa_StunOnly :: "bool option"
  fa_RegionID :: "int option"
  fa_RegionCode :: "string option"
  fa_RegionName :: "string option"
  fa_NodeName :: "string option"
  fa_Hostname :: "string option"
  fa_CertName :: "string option"

record fileConfig =
  fc_Global :: "fileGlobalConfig option"
  fc_TLS :: "fileTLSConfig option"
  fc_Mesh :: "fileMeshConfig option"
  fc_Ops :: "fileOpsConfig option"
  fc_Traffic :: "fileTrafficConfig option"
  fc_External :: "fileExternalConfig option"
  fc_Verify :: "fileVerifyConfig option"
  fc_VerifyAPI :: "fileVerifyAPIConfig list"

section \<open>Options\<close>

record optionValue =
  ov_name :: string
  ov_value :: string
  ov_set :: bool

definition optionString :: "string \<Rightarrow> string option \<Rightarrow> optionValue" where
  "optionString name value =
     (case value of
        None \<Rightarrow> \<lparr>ov_name = [], ov_value = [], ov_set = False\<rparr>
      | Some v \<Rightarrow> \<lparr>ov_name = name, ov_value = v, ov_set = True\<rparr>)"

definition optionBool :: "string \<Rightarrow> bool option \<Rightarrow> optionValue" where
  "optionBool name value =
     (case value of
        None \<Rightarrow> \<lparr>ov_name = [], ov_value = [], ov_set = False\<rparr>
      | Some v \<Rightarrow> if v then \<lparr>ov_name = name, ov_value = ''1'', ov_set = True\<rparr>
                  else \<lparr>ov_name = name, ov_value = ''0'', ov_set = True\<rparr>)"

definition optionInt :: "string \<Rightarrow> int option \<Rightarrow> optionValue" where
  "optionInt name value =
     (case value of
        None \<Rightarrow> \<lparr>ov_name = [], ov_value = [], ov_set = False\<rparr>
      | Some v \<Rightarrow> \<lparr>ov_name = name, ov_value = Itoa v, ov_set = True\<rparr>)"

definition optionValues :: "optionValue list \<Rightarrow> (string, string list) fmap" where
  "optionValues options = foldl (\<lambda>values opt. if ov_set opt then fmupd (ov_name opt) [ov_value opt] values else values) fmempty options"

section \<open>Translation\<close>

definition global_values :: "fileGlobalConfig \<Rightarrow> (string, string list) fmap" where
  "global_values s = optionValues [optionBool ''enabled'' (fg_Enabled s), optionString ''listen'' (fg_Listen s), optionBool ''stun'' (fg_STUN s)]"

definition tls_values :: "fileTLSConfig \<Rightarrow> (string, string list) fmap" where
  "tls_values s = optionValues [optionString ''certfile'' (ft_CertFile s), optionString ''keyfile'' (ft_KeyFile s),
     optionString ''mode'' (ft_Mode s), optionString ''state_dir'' (ft_StateDir s)]"

definition mesh_values :: "fileMeshConfig \<Rightarrow> (string, string list) fmap" where
  "mesh_values s = optionValues [optionBool ''enabled'' (fm_Enabled s), optionString ''key'' (fm_Key s)]"

definition ops_values :: "fileOpsConfig \<Rightarrow> (string, string list) fmap" where
  "ops_values s = optionValues [optionString ''socket'' (fo_Socket s), optionString ''health'' (fo_Health s)]"

definition traffic_values :: "fileTrafficConfig \<Rightarrow> (string, string list) fmap" where
  "traffic_values s = optionValues [optionBool ''persist'' (fr_Persist s), optionString ''path'' (fr_Path s), optionInt ''interval'' (fr_Interval s)]"

definition external_values :: "fileExternalConfig \<Rightarrow> (string, string list) fmap" where
  "external_values s =
     (let values = optionValues [optionBool ''enabled'' (fe_Enabled s), optionString ''mode'' (fe_Mode s),
            optionString ''address_family'' (fe_AddressFamily s), optionString ''wan_interface'' (fe_WANInterface s),
            optionString ''derp_port'' (fe_DERPPort s), optionString ''stun_port'' (fe_STUNPort s),
            optionInt ''lease_seconds'' (fe_LeaseSeconds s), optionInt ''retry_seconds'' (fe_RetrySeconds s),
            optionInt ''sync_interval'' (fe_SyncInterval s), optionBool ''validate_endpoint'' (fe_ValidateEndpoint s)]
      in case fe_Methods s of None \<Rightarrow> values | Some methods \<Rightarrow> fmupd ''method'' methods values)"

definition verify_values :: "fileVerifyConfig \<Rightarrow> (string, string list) fmap" where
  "verify_values s =
     (let values = optionValues [optionBool ''enabled'' (fv_Enabled s), optionBool ''url_enabled'' (fv_URLEnabled s),
            optionBool ''tailscaled_enabled'' (fv_TailscaledEnabled s),
            optionBool ''tailscaled_socket_enabled'' (fv_TailscaledSocketEnabled s),
            optionString ''tailscaled_socket'' (fv_TailscaledSocket s), optionBool ''api_enabled'' (fv_APIEnabled s),
            optionInt ''sync_interval'' (fv_SyncInterval s), optionInt ''cache_ttl'' (fv_CacheTTL s)]
      in case fv_URLs s of None \<Rightarrow> values | Some urls \<Rightarrow> fmupd ''url'' urls values)"

definition verify_api_values :: "fileVerifyAPIConfig \<Rightarrow> (string, string list) fmap" where
  "verify_api_values s = optionValues
     [optionString ''label'' (fa_Label s), optionString ''tailnet'' (fa_Tailnet s), optionString ''auth_type'' (fa_AuthType s),
      optionString ''api_key'' (fa_APIKey s), optionString ''oauth_client_id'' (fa_OAuthClientID s),
      optionString ''oauth_client_secret'' (fa_OAuthClientSecret s), optionBool ''derpmap_sync'' (fa_DERPMapSync s),
      optionBool ''stun_only'' (fa_StunOnly s), optionInt ''region_id'' (fa_RegionID s), optionString ''region_code'' (fa_RegionCode s),
      optionString ''region_name'' (fa_RegionName s), optionString ''node_name'' (fa_NodeName s),
      optionString ''hostname'' (fa_Hostname s), optionString ''cert_name'' (fa_CertName s)]"

text \<open>The name of the section of the element at \<open>index\<close> of \<open>verify_api\<close>.\<close>

definition verify_api_name :: "nat \<Rightarrow> fileVerifyAPIConfig \<Rightarrow> string" where
  "verify_api_name index s = (if fa_Name s = [] then ''verify_api_'' @ Itoa (int index + 1) else fa_Name s)"

fun add_verify_apis :: "nat \<Rightarrow> fileVerifyAPIConfig list \<Rightarrow> uciConfig \<Rightarrow> uciConfig" where
  "add_verify_apis index [] u = u"
| "add_verify_apis index (s # rest) u =
     add_verify_apis (index + 1) rest (addSection ''verify_api'' (verify_api_name index s) (verify_api_values s) u)"

text \<open>A section that is present in the file.\<close>

definition add_some :: "string \<Rightarrow> ('a \<Rightarrow> (string, string list) fmap) \<Rightarrow> 'a option \<Rightarrow> uciConfig \<Rightarrow> uciConfig" where
  "add_some name values sect u = (case sect of None \<Rightarrow> u | Some s \<Rightarrow> addSection name name (values s) u)"

definition toUCIConfig :: "fileConfig option \<Rightarrow> uciConfig" where
  "toUCIConfig config =
     (case config of
        None \<Rightarrow> empty_uci
      | Some c \<Rightarrow>
          add_verify_apis 0 (fc_VerifyAPI c)
            (add_some ''verify'' verify_values (fc_Verify c)
            (add_some ''external'' external_values (fc_External c)
            (add_some ''traffic'' traffic_values (fc_Traffic c)
            (add_some ''ops'' ops_values (fc_Ops c)
            (add_some ''mesh'' mesh_values (fc_Mesh c)
            (add_some ''tls'' tls_values (fc_TLS c)
            (add_some ''global'' global_values (fc_Global c) empty_uci))))))))"

section \<open>Loading a file\<close>

text \<open>The build tags of the binary.\<close>

record build_tags =
  bt_uciconfig :: bool
  bt_jsonconfig :: bool
  bt_yamlconfig :: bool

text \<open>What the file system and the decoders give for a path: the result of \<open>os.Stat\<close>; the contents, or the error of
  \<open>os.Open\<close>; and what \<^verbatim>\<open>encoding/json\<close> and the YAML package make of the contents: the error of the first \<open>Decode\<close>, or the
  configuration and the error of the second call, where \<^term>\<open>None\<close> is no error and \<open>DecodeEOF\<close> is \<open>io.EOF\<close>.\<close>

datatype decode_error = DecodeEOF | DecodeErr string

type_synonym decoder = "decode_error + (fileConfig \<times> decode_error option)"

record config_file =
  cl_stat :: "config_error option"
  cl_contents :: "config_error + (string \<times> config_error option)"
  cl_json :: decoder
  cl_yaml :: decoder

text \<open>\<open>filepath.Ext\<close>: the suffix from the last dot of the last path element.\<close>

definition filepath_Ext :: "string \<Rightarrow> string" where
  "filepath_Ext path =
     (let suffix = takeWhile (\<lambda>c. c \<noteq> CHR ''.'' \<and> c \<noteq> CHR ''/'') (rev path)
      in if length suffix < length path \<and> rev path ! length suffix = CHR ''.'' then CHR ''.'' # rev suffix else [])"

definition configFormatDisabled :: "string \<Rightarrow> string \<Rightarrow> config_error" where
  "configFormatDisabled fmt tag = EDisabled fmt tag"

definition decode_text :: "decode_error \<Rightarrow> string" where
  "decode_text err = (case err of DecodeEOF \<Rightarrow> ''EOF'' | DecodeErr e \<Rightarrow> e)"

text \<open>The body both decoding loaders have, with the name of the format in the errors.\<close>

definition decode_document :: "string \<Rightarrow> config_error + (string \<times> config_error option) \<Rightarrow> decoder \<Rightarrow> config_error + uciConfig" where
  "decode_document fmt opened decoded =
     (case opened of
        Inl err \<Rightarrow> Inl err
      | Inr _ \<Rightarrow>
          (case decoded of
             Inl err \<Rightarrow> Inl (EDecode (''decode '' @ fmt @ '' configuration: '' @ decode_text err))
           | Inr (config, again) \<Rightarrow>
               if again = Some DecodeEOF then Inr (toUCIConfig (Some config))
               else (case again of
                       None \<Rightarrow> Inl (EDecode (''decode '' @ fmt @ '' configuration: multiple documents are not supported''))
                     | Some err \<Rightarrow> Inl (EDecode (''decode '' @ fmt @ '' configuration: '' @ decode_text err)))))"

definition loadJSONConfig :: "build_tags \<Rightarrow> config_file \<Rightarrow> config_error + uciConfig" where
  "loadJSONConfig tags f =
     (if bt_jsonconfig tags then decode_document ''JSON'' (cl_contents f) (cl_json f)
      else Inl (configFormatDisabled ''JSON'' ''jsonconfig''))"

definition loadYAMLConfig :: "build_tags \<Rightarrow> config_file \<Rightarrow> config_error + uciConfig" where
  "loadYAMLConfig tags f =
     (if bt_yamlconfig tags then decode_document ''YAML'' (cl_contents f) (cl_yaml f)
      else Inl (configFormatDisabled ''YAML'' ''yamlconfig''))"

definition loadUCIConfig :: "build_tags \<Rightarrow> config_file \<Rightarrow> config_error + uciConfig" where
  "loadUCIConfig tags f =
     (if bt_uciconfig tags then parseUCIConfig (cl_contents f) else Inl (configFormatDisabled ''UCI'' ''uciconfig''))"

definition loadConfigFile :: "build_tags \<Rightarrow> (string \<Rightarrow> config_file) \<Rightarrow> string \<Rightarrow> config_error + uciConfig" where
  "loadConfigFile tags fs path =
     (case cl_stat (fs path) of
        Some err \<Rightarrow> Inl err
      | None \<Rightarrow>
          (let ext = ToLower (filepath_Ext path)
           in if ext = ''.json'' then loadJSONConfig tags (fs path)
              else if ext = ''.yaml'' \<or> ext = ''.yml'' then loadYAMLConfig tags (fs path)
              else loadUCIConfig tags (fs path)))"

definition defaultConfigFilePath :: "build_tags \<Rightarrow> string" where
  "defaultConfigFilePath tags = (if bt_uciconfig tags then ''/etc/config/tailscale-derp'' else [])"

definition defaultConfigPath :: "build_tags \<Rightarrow> string \<Rightarrow> string" where
  "defaultConfigPath tags env_path = (if env_path \<noteq> [] then env_path else defaultConfigFilePath tags)"

end
