(* ===== verification/Flags.thy ===== *)
theory Flags
  imports ConfigFile
begin

text \<open>
  The command line of \<^verbatim>\<open>cmd/tailscale-derp/main.go\<close>: \<open>configFlags\<close>, \<open>newFlagSet\<close>, and what it uses of Go's package
  \<^verbatim>\<open>flag\<close> (\<open>Parse\<close> with its syntax of arguments, \<open>Visit\<close> as the names that were set), with \<open>strconv.ParseBool\<close> and
  \<open>strconv.ParseInt\<close> in base 0 that the values of flags are read with. The usage text on standard error is not modelled.
\<close>

section \<open>Values of flags\<close>

definition ParseBool :: "string \<Rightarrow> bool option" where
  "ParseBool s =
     (if s \<in> set [''1'', ''t'', ''T'', ''true'', ''TRUE'', ''True''] then Some True
      else if s \<in> set [''0'', ''f'', ''F'', ''false'', ''FALSE'', ''False''] then Some False
      else None)"

definition base_digit :: "char \<Rightarrow> nat option" where
  "base_digit c =
     (let l = char_code (to_lower_char c)
      in if is_digit c then Some (digit_value c) else if 97 \<le> l \<and> l \<le> 122 then Some (l - 87) else None)"

fun base_value :: "nat \<Rightarrow> nat \<Rightarrow> string \<Rightarrow> nat option" where
  "base_value base n [] = Some n"
| "base_value base n (c # cs) =
     (if c = CHR ''_'' then base_value base n cs
      else (case base_digit c of
              None \<Rightarrow> None
            | Some d \<Rightarrow> if d < base then base_value base (n * base + d) cs else None))"

text \<open>The base a literal has by its prefix, with its digits.\<close>

definition literal_base :: "string \<Rightarrow> nat \<times> string" where
  "literal_base s =
     (if s \<noteq> [] \<and> hd s = CHR ''0'' then
        (let p = (if 3 \<le> length s then to_lower_char (s ! 1) else CHR 0x00)
         in if p = CHR ''b'' then (2, drop 2 s) else if p = CHR ''o'' then (8, drop 2 s)
            else if p = CHR ''x'' then (16, drop 2 s) else (8, drop 1 s))
      else (10, s))"

text \<open>\<open>underscoreOK\<close>: underscores stand between digits, a base prefix counting as one. \<open>saw\<close> is the kind of the last
  character: a digit, an underscore, or neither.\<close>

fun underscores :: "bool \<Rightarrow> char \<Rightarrow> string \<Rightarrow> bool" where
  "underscores hex saw [] = (saw \<noteq> CHR ''_'')"
| "underscores hex saw (c # cs) =
     (if is_digit c \<or> (hex \<and> to_lower_char c \<in> set ''abcdef'') then underscores hex CHR ''0'' cs
      else if c = CHR ''_'' then (if saw \<noteq> CHR ''0'' then False else underscores hex CHR ''_'' cs)
      else if saw = CHR ''_'' then False else underscores hex CHR ''!'' cs)"

definition underscoreOK :: "string \<Rightarrow> bool" where
  "underscoreOK s =
     (let s = (if s \<noteq> [] \<and> (hd s = CHR ''-'' \<or> hd s = CHR ''+'') then tl s else s);
          p = (if 2 \<le> length s \<and> hd s = CHR ''0'' then to_lower_char (s ! 1) else CHR 0x00)
      in if p \<in> set ''box'' then underscores (p = CHR ''x'') CHR ''0'' (drop 2 s) else underscores False CHR ''^'' s)"

definition ParseInt0 :: "string \<Rightarrow> int option" where
  "ParseInt0 s =
     (let neg = (s \<noteq> [] \<and> hd s = CHR ''-'');
          u = (if s \<noteq> [] \<and> (hd s = CHR ''-'' \<or> hd s = CHR ''+'') then tl s else s);
          (base, ds) = literal_base u
      in if u = [] then None
         else (case base_value base 0 ds of
                 None \<Rightarrow> None
               | Some n \<Rightarrow>
                   (let i = (if neg then - int n else int n)
                    in if CHR ''_'' \<in> set ds \<and> \<not> underscoreOK u then None
                       else if - (2 ^ 63) \<le> i \<and> i < 2 ^ 63 then Some i else None)))"

section \<open>The flags of the program\<close>

record configFlags =
  cf_VerifyURLs :: string
  cf_Enabled :: bool
  cf_Listen :: string
  cf_STUN :: bool
  cf_CertFile :: string
  cf_KeyFile :: string
  cf_TLSSelfSigned :: bool
  cf_TLSStateDir :: string
  cf_Mesh :: bool
  cf_MeshKey :: string
  cf_OpsSocket :: string
  cf_HealthAddr :: string
  cf_TrafficPersist :: bool
  cf_TrafficPath :: string
  cf_TrafficInterval :: int
  cf_ConfigPath :: string
  cf_SchemaPath :: string

datatype flag_value =
    StringFlag "string \<Rightarrow> configFlags \<Rightarrow> configFlags"
  | BoolFlag "bool \<Rightarrow> configFlags \<Rightarrow> configFlags"
  | IntFlag "int \<Rightarrow> configFlags \<Rightarrow> configFlags"

definition formal :: "(string \<times> flag_value) list" where
  "formal =
     [(''verify-client-urls'', StringFlag (\<lambda>v. cf_VerifyURLs_update (\<lambda>_. v))),
      (''enabled'', BoolFlag (\<lambda>v. cf_Enabled_update (\<lambda>_. v))),
      (''listen'', StringFlag (\<lambda>v. cf_Listen_update (\<lambda>_. v))),
      (''stun'', BoolFlag (\<lambda>v. cf_STUN_update (\<lambda>_. v))),
      (''certfile'', StringFlag (\<lambda>v. cf_CertFile_update (\<lambda>_. v))),
      (''keyfile'', StringFlag (\<lambda>v. cf_KeyFile_update (\<lambda>_. v))),
      (''tls-self-signed'', BoolFlag (\<lambda>v. cf_TLSSelfSigned_update (\<lambda>_. v))),
      (''tls-state-dir'', StringFlag (\<lambda>v. cf_TLSStateDir_update (\<lambda>_. v))),
      (''mesh'', BoolFlag (\<lambda>v. cf_Mesh_update (\<lambda>_. v))),
      (''mesh-key'', StringFlag (\<lambda>v. cf_MeshKey_update (\<lambda>_. v))),
      (''ops-socket'', StringFlag (\<lambda>v. cf_OpsSocket_update (\<lambda>_. v))),
      (''health'', StringFlag (\<lambda>v. cf_HealthAddr_update (\<lambda>_. v))),
      (''traffic-persist'', BoolFlag (\<lambda>v. cf_TrafficPersist_update (\<lambda>_. v))),
      (''traffic-path'', StringFlag (\<lambda>v. cf_TrafficPath_update (\<lambda>_. v))),
      (''traffic-interval'', IntFlag (\<lambda>v. cf_TrafficInterval_update (\<lambda>_. v))),
      (''config'', StringFlag (\<lambda>v. cf_ConfigPath_update (\<lambda>_. v))),
      (''generate-config-schema'', StringFlag (\<lambda>v. cf_SchemaPath_update (\<lambda>_. v)))]"

definition default_flags :: "string \<Rightarrow> configFlags" where
  "default_flags configPath =
     \<lparr>cf_VerifyURLs = [], cf_Enabled = False, cf_Listen = [], cf_STUN = False, cf_CertFile = [], cf_KeyFile = [],
      cf_TLSSelfSigned = False, cf_TLSStateDir = [], cf_Mesh = False, cf_MeshKey = [], cf_OpsSocket = [], cf_HealthAddr = [],
      cf_TrafficPersist = False, cf_TrafficPath = [], cf_TrafficInterval = 0, cf_ConfigPath = configPath, cf_SchemaPath = []\<rparr>"

text \<open>A flag set: the values, and the names that were set (\<open>actual\<close>).\<close>

record FlagSet =
  fs_flags :: configFlags
  fs_actual :: "string list"

definition boolFlagProvided :: "FlagSet \<Rightarrow> string \<Rightarrow> bool" where
  "boolFlagProvided fs name \<longleftrightarrow> name \<in> set (fs_actual fs)"

definition set_flag :: "string \<Rightarrow> (configFlags \<Rightarrow> configFlags) \<Rightarrow> FlagSet \<Rightarrow> FlagSet" where
  "set_flag name upd fs = fs\<lparr>fs_flags := upd (fs_flags fs), fs_actual := name # fs_actual fs\<rparr>"

text \<open>An argument \<open>name=value\<close> after its dashes; the name has at least one character.\<close>

definition cut_value :: "string \<Rightarrow> string \<times> string option" where
  "cut_value name =
     (let n = hd name # takeWhile (\<lambda>c. c \<noteq> CHR ''='') (tl name)
      in (n, if length n < length name then Some (drop (length n + 1) name) else None))"

text \<open>\<open>Set\<close> of a flag with a value that is there.\<close>

definition assign :: "string \<Rightarrow> flag_value \<Rightarrow> string \<Rightarrow> FlagSet \<Rightarrow> config_error + FlagSet" where
  "assign name kind value fs =
     (case kind of
        StringFlag upd \<Rightarrow> Inr (set_flag name (upd value) fs)
      | BoolFlag upd \<Rightarrow> (case ParseBool value of
                            None \<Rightarrow> Inl (EFlag (''invalid boolean value for -'' @ name))
                          | Some b \<Rightarrow> Inr (set_flag name (upd b) fs))
      | IntFlag upd \<Rightarrow> (case ParseInt0 value of
                           None \<Rightarrow> Inl (EFlag (''invalid value for flag -'' @ name))
                         | Some i \<Rightarrow> Inr (set_flag name (upd i) fs)))"

definition is_bool_flag :: "flag_value \<Rightarrow> bool" where
  "is_bool_flag kind = (case kind of BoolFlag _ \<Rightarrow> True | _ \<Rightarrow> False)"

text \<open>\<open>Parse\<close>: flags are taken until an argument that is not one, or \<open>--\<close>.\<close>

fun flag_Parse :: "string list \<Rightarrow> FlagSet \<Rightarrow> config_error + FlagSet" where
  "flag_Parse [] fs = Inr fs"
| "flag_Parse (s # args) fs =
     (if length s < 2 \<or> hd s \<noteq> CHR ''-'' \<or> s = ''--'' then Inr fs
      else (let name = (if s ! 1 = CHR ''-'' then drop 2 s else drop 1 s)
            in if hd name = CHR ''-'' \<or> hd name = CHR ''='' then Inl (EFlag (''bad flag syntax: '' @ s))
               else (let (n, value) = cut_value name
                     in case map_of formal n of
                          None \<Rightarrow> Inl (EFlag (if n = ''help'' \<or> n = ''h'' then ''help requested'' else ''flag provided but not defined: -'' @ n))
                        | Some kind \<Rightarrow>
                            (case value of
                               Some v \<Rightarrow> (case assign n kind v fs of Inl err \<Rightarrow> Inl err | Inr fs' \<Rightarrow> flag_Parse args fs')
                             | None \<Rightarrow>
                                 if is_bool_flag kind then
                                   (case assign n kind ''true'' fs of Inl err \<Rightarrow> Inl err | Inr fs' \<Rightarrow> flag_Parse args fs')
                                 else (case args of
                                         [] \<Rightarrow> Inl (EFlag (''flag needs an argument: -'' @ n))
                                       | v # rest \<Rightarrow> (case assign n kind v fs of
                                                        Inl err \<Rightarrow> Inl err
                                                      | Inr fs' \<Rightarrow> flag_Parse rest fs'))))))"

declare flag_Parse.simps(2) [simp del]

definition newFlagSet :: "string \<Rightarrow> string list \<Rightarrow> config_error + FlagSet" where
  "newFlagSet configPath args = flag_Parse args \<lparr>fs_flags = default_flags configPath, fs_actual = []\<rparr>"

text \<open>\<open>schemaOutputPath\<close> of \<^verbatim>\<open>config_schema_common.go\<close>, which \<open>main\<close> asks before it reads the configuration.\<close>

fun schemaOutputPath :: "string list \<Rightarrow> string" where
  "schemaOutputPath [] = []"
| "schemaOutputPath (arg # rest) =
     (if HasPrefix arg ''--generate-config-schema='' then drop (length ''--generate-config-schema='') arg
      else if arg = ''--generate-config-schema'' \<and> rest \<noteq> [] then hd rest
      else schemaOutputPath rest)"

end
