(* ===== verification/Config.thy ===== *)
theory Config
  imports EndpointManager Devices Flags
begin

text \<open>
  Configuration and startup of \<^verbatim>\<open>cmd/tailscale-derp/main.go\<close>: the \<open>Config\<close> built from defaults, the configuration file and
  the command line, its validation, and what \<open>main\<close> makes of it before it starts the servers.

  \<^item> \<open>applyUCIConfig\<close> is a sequence of steps, each of which may return an error; \<open>run_steps\<close> stops at the first. On an
    error \<open>buildConfig\<close> returns no configuration, so the fields set before it are seen by nobody.
  \<^item> An \<open>int\<close> has 64 bits, and \<open>time.Duration(seconds) * time.Second\<close> is the product in 64 bits.
  \<^item> \<open>openFile\<close> is an argument as in the code; \<open>os.IsNotExist\<close> holds of \<^const>\<open>ENotExist\<close> only.
\<close>

section \<open>Values\<close>

definition parseBoolValue :: "string \<Rightarrow> bool option" where
  "parseBoolValue value =
     (let v = TrimSpace (ToLower value)
      in if v \<in> set [''1'', ''true'', ''yes'', ''on''] then Some True
         else if v \<in> set [''0'', ''false'', ''no'', ''off'', []] then Some False
         else None)"

text \<open>\<open>time.Duration(seconds) * time.Second\<close>.\<close>

definition seconds_duration :: "int \<Rightarrow> duration" where
  "seconds_duration n = sint (word_of_int (n * second) :: int64)"

text \<open>The parts of a list of comma-separated values: trimmed, in the given case, the empty ones left out.\<close>

definition comma_parts :: "(string \<Rightarrow> string) \<Rightarrow> string list \<Rightarrow> string list" where
  "comma_parts f vs = concat (map (\<lambda>v. filter (\<lambda>p. p \<noteq> []) (map (\<lambda>p. f (TrimSpace p)) (SplitChar CHR '','' v))) vs)"

text \<open>\<open>net.SplitHostPort\<close>: host and port, or the text of the error.\<close>

definition index_byte :: "char \<Rightarrow> string \<Rightarrow> nat option" where
  "index_byte c s = (if c \<in> set s then Some (length (takeWhile (\<lambda>x. x \<noteq> c) s)) else None)"

definition last_index_byte :: "char \<Rightarrow> string \<Rightarrow> nat option" where
  "last_index_byte c s = (if c \<in> set s then Some (length s - 1 - length (takeWhile (\<lambda>x. x \<noteq> c) (rev s))) else None)"

definition addr_error :: "string \<Rightarrow> string \<Rightarrow> string" where
  "addr_error hostport why = ''address '' @ hostport @ '': '' @ why"

definition split_checked :: "string \<Rightarrow> nat \<Rightarrow> nat \<Rightarrow> nat \<Rightarrow> string \<Rightarrow> string + (string \<times> string)" where
  "split_checked hostport i j k host =
     (if CHR ''['' \<in> set (drop j hostport) then Inl (addr_error hostport ''unexpected '[' in address'')
      else if CHR '']'' \<in> set (drop k hostport) then Inl (addr_error hostport ''unexpected ']' in address'')
      else Inr (host, drop (i + 1) hostport))"

definition SplitHostPort :: "string \<Rightarrow> string + (string \<times> string)" where
  "SplitHostPort hostport =
     (case last_index_byte CHR '':'' hostport of
        None \<Rightarrow> Inl (addr_error hostport ''missing port in address'')
      | Some i \<Rightarrow>
          if hd hostport = CHR ''['' then
            (case index_byte CHR '']'' hostport of
               None \<Rightarrow> Inl (addr_error hostport ''missing ']' in address'')
             | Some e \<Rightarrow>
                 if e + 1 = length hostport then Inl (addr_error hostport ''missing port in address'')
                 else if e + 1 \<noteq> i then
                   Inl (addr_error hostport (if hostport ! (e + 1) = CHR '':'' then ''too many colons in address'' else ''missing port in address''))
                 else split_checked hostport i 1 (e + 1) (drop 1 (take e hostport)))
          else if CHR '':'' \<in> set (take i hostport) then Inl (addr_error hostport ''too many colons in address'')
          else split_checked hostport i 0 0 (take i hostport))"

definition validateOptionalPortBinding :: "string \<Rightarrow> string \<Rightarrow> config_error option" where
  "validateOptionalPortBinding name value =
     (if value = [] then None
      else if TrimSpace value \<noteq> value then Some (EInvalid (name @ '' must use a valid host:port address''))
      else (case SplitHostPort value of
              Inl err \<Rightarrow> Some (EInvalid (name @ '' must use a valid host:port address: '' @ err))
            | Inr (_, port) \<Rightarrow>
                (case ParseUint 16 port of
                   None \<Rightarrow> Some (EInvalid (name @ '' must use a port from 1 to 65535''))
                 | Some parsed \<Rightarrow> if parsed = 0 then Some (EInvalid (name @ '' must use a port from 1 to 65535'')) else None)))"

definition validateExternalPort :: "string \<Rightarrow> string \<Rightarrow> config_error option" where
  "validateExternalPort name value =
     (if value = [] \<or> EqualFold value ''auto'' then None
      else (case ParseUint 16 value of
              None \<Rightarrow> Some (EInvalid (name @ '' must be auto or an integer from 1 to 65535''))
            | Some port \<Rightarrow> if port = 0 then Some (EInvalid (name @ '' must be auto or an integer from 1 to 65535'')) else None))"

section \<open>The configuration\<close>

record Config =
  c_Verify :: VerifyConfig
  c_External :: EConfig
  c_Enabled :: bool
  c_Listen :: string
  c_STUN :: bool
  c_CertFile :: string
  c_KeyFile :: string
  c_TLSMode :: string
  c_TLSStateDir :: string
  c_Mesh :: bool
  c_MeshKey :: string
  c_OpsSocket :: string
  c_Health :: string
  c_TrafficPersist :: bool
  c_TrafficPath :: string
  c_TrafficInterval :: int

definition defaultTrafficPath :: string where "defaultTrafficPath = ''/tmp/tailscale-derp-traffic.json''"
definition defaultTrafficInterval :: int where "defaultTrafficInterval = 60"
definition defaultOpsSocket :: string where "defaultOpsSocket = ''/var/run/tailscale-derp/ops.sock''"

definition default_config :: Config where
  "default_config =
     \<lparr>c_Verify =
        \<lparr>vc_Enabled = False, vc_URLsEnabled = False, vc_TailscaledEnabled = False, vc_TailscaledSocketEnabled = False,
         vc_TailscaledSocket = [], vc_APIEnabled = False, vc_URLs = [], vc_APIs = [], vc_SyncInterval = 5 * minute,
         vc_CacheTTL = 15 * minute\<rparr>,
      c_External =
        \<lparr>ec_Enabled = False, ec_Mode = ''nat'', ec_AddressFamily = ''ipv4'', ec_Methods = [''pcp'', ''natpmp'', ''upnp''],
         ec_WANInterface = ''auto'', ec_DERPPort = ''auto'', ec_STUNPort = ''auto'', ec_LeaseDuration = 2 * hour,
         ec_RetryInterval = minute, ec_SyncInterval = 5 * minute, ec_ValidateEndpoint = False, ec_TLSConfigured = False,
         ec_ValidationNames = [], ec_STUNEnabled = False\<rparr>,
      c_Enabled = False, c_Listen = '':3478'', c_STUN = True, c_CertFile = [], c_KeyFile = [], c_TLSMode = ''manual'',
      c_TLSStateDir = ''/var/lib/tailscale-derp/tls'', c_Mesh = False, c_MeshKey = [], c_OpsSocket = defaultOpsSocket,
      c_Health = '':9912'', c_TrafficPersist = False, c_TrafficPath = defaultTrafficPath,
      c_TrafficInterval = defaultTrafficInterval\<rparr>"

definition on_verify :: "(VerifyConfig \<Rightarrow> VerifyConfig) \<Rightarrow> Config \<Rightarrow> Config" where
  "on_verify f c = c\<lparr>c_Verify := f (c_Verify c)\<rparr>"

definition on_external :: "(EConfig \<Rightarrow> EConfig) \<Rightarrow> Config \<Rightarrow> Config" where
  "on_external f c = c\<lparr>c_External := f (c_External c)\<rparr>"

section \<open>Applying a configuration file\<close>

type_synonym config_step = "Config \<Rightarrow> config_error + Config"

fun run_steps :: "config_step list \<Rightarrow> config_step" where
  "run_steps [] c = Inr c"
| "run_steps (f # fs) c = (case f c of Inl err \<Rightarrow> Inl err | Inr c' \<Rightarrow> run_steps fs c')"

text \<open>A boolean option; an option taken as it is when \<open>ok\<close> holds of its text; a number of seconds, with or without the
  test for an empty text.\<close>

definition opt_bool :: "uciConfig \<Rightarrow> string \<Rightarrow> string \<Rightarrow> (bool \<Rightarrow> Config \<Rightarrow> Config) \<Rightarrow> config_step" where
  "opt_bool u sect key upd c =
     (case uci_first u sect key of
        None \<Rightarrow> Inr c
      | Some value \<Rightarrow>
          (case parseBoolValue value of
             None \<Rightarrow> Inl (EBool (sect @ ''.'' @ key) value)
           | Some b \<Rightarrow> Inr (upd b c)))"

definition opt_text :: "uciConfig \<Rightarrow> string \<Rightarrow> string \<Rightarrow> (string \<Rightarrow> bool) \<Rightarrow> (string \<Rightarrow> Config \<Rightarrow> Config) \<Rightarrow> config_step" where
  "opt_text u sect key ok upd c =
     (case uci_first u sect key of None \<Rightarrow> Inr c | Some value \<Rightarrow> Inr (if ok value then upd value c else c))"

definition opt_seconds :: "uciConfig \<Rightarrow> string \<Rightarrow> string \<Rightarrow> bool \<Rightarrow> (duration \<Rightarrow> Config \<Rightarrow> Config) \<Rightarrow> config_step" where
  "opt_seconds u sect key skipEmpty upd c =
     (case uci_first u sect key of
        None \<Rightarrow> Inr c
      | Some value \<Rightarrow>
          if skipEmpty \<and> value = [] then Inr c
          else (case Atoi value of
                  None \<Rightarrow> Inl (EPositive (sect @ ''.'' @ key))
                | Some seconds \<Rightarrow> if seconds \<le> 0 then Inl (EPositive (sect @ ''.'' @ key)) else Inr (upd (seconds_duration seconds) c)))"

definition not_empty :: "string \<Rightarrow> bool" where "not_empty value \<longleftrightarrow> value \<noteq> []"
definition not_blank :: "string \<Rightarrow> bool" where "not_blank value \<longleftrightarrow> TrimSpace value \<noteq> []"
definition any_text :: "string \<Rightarrow> bool" where "any_text value \<longleftrightarrow> True"

definition opt_interval :: "uciConfig \<Rightarrow> config_step" where
  "opt_interval u c =
     (case uci_first u ''traffic'' ''interval'' of
        None \<Rightarrow> Inr c
      | Some value \<Rightarrow>
          if value = [] then Inr c
          else (case Atoi value of
                  None \<Rightarrow> Inl (ENumber ''traffic.interval'' value)
                | Some n \<Rightarrow> Inr (c\<lparr>c_TrafficInterval := n\<rparr>)))"

definition opt_methods :: "uciConfig \<Rightarrow> config_step" where
  "opt_methods u c =
     (let methods = uci_get u ''external'' ''method''
      in Inr (if methods \<noteq> [] then on_external (\<lambda>e. e\<lparr>ec_Methods := comma_parts ToLower methods\<rparr>) c else c))"

text \<open>The options of the service, of TLS, mesh, operations and traffic.\<close>

definition service_steps :: "uciConfig \<Rightarrow> config_step list" where
  "service_steps u =
     [opt_bool u ''global'' ''enabled'' (\<lambda>b c. c\<lparr>c_Enabled := b\<rparr>),
      opt_text u ''global'' ''listen'' not_empty (\<lambda>v c. c\<lparr>c_Listen := v\<rparr>),
      opt_bool u ''global'' ''stun'' (\<lambda>b c. c\<lparr>c_STUN := b\<rparr>),
      opt_text u ''tls'' ''certfile'' any_text (\<lambda>v c. c\<lparr>c_CertFile := v\<rparr>),
      opt_text u ''tls'' ''keyfile'' any_text (\<lambda>v c. c\<lparr>c_KeyFile := v\<rparr>),
      opt_text u ''tls'' ''mode'' not_blank (\<lambda>v c. c\<lparr>c_TLSMode := ToLower (TrimSpace v)\<rparr>),
      opt_text u ''tls'' ''state_dir'' not_blank (\<lambda>v c. c\<lparr>c_TLSStateDir := TrimSpace v\<rparr>),
      opt_bool u ''mesh'' ''enabled'' (\<lambda>b c. c\<lparr>c_Mesh := b\<rparr>),
      opt_text u ''mesh'' ''key'' any_text (\<lambda>v c. c\<lparr>c_MeshKey := TrimSpace v\<rparr>),
      opt_text u ''ops'' ''socket'' not_blank (\<lambda>v c. c\<lparr>c_OpsSocket := TrimSpace v\<rparr>),
      opt_text u ''ops'' ''health'' not_empty (\<lambda>v c. c\<lparr>c_Health := v\<rparr>),
      opt_bool u ''traffic'' ''persist'' (\<lambda>b c. c\<lparr>c_TrafficPersist := b\<rparr>),
      opt_text u ''traffic'' ''path'' not_empty (\<lambda>v c. c\<lparr>c_TrafficPath := v\<rparr>),
      opt_interval u]"

definition external_steps :: "uciConfig \<Rightarrow> config_step list" where
  "external_steps u =
     [opt_bool u ''external'' ''enabled'' (\<lambda>b. on_external (\<lambda>e. e\<lparr>ec_Enabled := b\<rparr>)),
      opt_text u ''external'' ''mode'' not_blank (\<lambda>v. on_external (\<lambda>e. e\<lparr>ec_Mode := ToLower (TrimSpace v)\<rparr>)),
      opt_text u ''external'' ''address_family'' not_blank (\<lambda>v. on_external (\<lambda>e. e\<lparr>ec_AddressFamily := ToLower (TrimSpace v)\<rparr>)),
      opt_methods u,
      opt_text u ''external'' ''wan_interface'' not_blank (\<lambda>v. on_external (\<lambda>e. e\<lparr>ec_WANInterface := TrimSpace v\<rparr>)),
      opt_text u ''external'' ''derp_port'' not_blank (\<lambda>v. on_external (\<lambda>e. e\<lparr>ec_DERPPort := TrimSpace v\<rparr>)),
      opt_text u ''external'' ''stun_port'' not_blank (\<lambda>v. on_external (\<lambda>e. e\<lparr>ec_STUNPort := TrimSpace v\<rparr>)),
      opt_seconds u ''external'' ''lease_seconds'' False (\<lambda>d. on_external (\<lambda>e. e\<lparr>ec_LeaseDuration := d\<rparr>)),
      opt_seconds u ''external'' ''retry_seconds'' False (\<lambda>d. on_external (\<lambda>e. e\<lparr>ec_RetryInterval := d\<rparr>)),
      opt_seconds u ''external'' ''sync_interval'' False (\<lambda>d. on_external (\<lambda>e. e\<lparr>ec_SyncInterval := d\<rparr>)),
      opt_bool u ''external'' ''validate_endpoint'' (\<lambda>b. on_external (\<lambda>e. e\<lparr>ec_ValidateEndpoint := b\<rparr>))]"

definition verify_urls :: "uciConfig \<Rightarrow> string list" where
  "verify_urls u = comma_parts (\<lambda>p. p) (uci_get u ''verify'' ''url'')"

definition verify_steps :: "uciConfig \<Rightarrow> config_step list" where
  "verify_steps u =
     [\<lambda>c. Inr (on_verify (\<lambda>v. v\<lparr>vc_URLs := verify_urls u\<rparr>) c),
      opt_bool u ''verify'' ''enabled'' (\<lambda>b. on_verify (\<lambda>v. v\<lparr>vc_Enabled := b\<rparr>)),
      opt_bool u ''verify'' ''url_enabled'' (\<lambda>b. on_verify (\<lambda>v. v\<lparr>vc_URLsEnabled := b\<rparr>)),
      opt_bool u ''verify'' ''tailscaled_enabled'' (\<lambda>b. on_verify (\<lambda>v. v\<lparr>vc_TailscaledEnabled := b\<rparr>)),
      opt_bool u ''verify'' ''tailscaled_socket_enabled'' (\<lambda>b. on_verify (\<lambda>v. v\<lparr>vc_TailscaledSocketEnabled := b\<rparr>)),
      opt_text u ''verify'' ''tailscaled_socket'' any_text (\<lambda>t. on_verify (\<lambda>v. v\<lparr>vc_TailscaledSocket := TrimSpace t\<rparr>)),
      opt_bool u ''verify'' ''api_enabled'' (\<lambda>b. on_verify (\<lambda>v. v\<lparr>vc_APIEnabled := b\<rparr>)),
      opt_seconds u ''verify'' ''sync_interval'' True (\<lambda>d. on_verify (\<lambda>v. v\<lparr>vc_SyncInterval := d\<rparr>)),
      opt_seconds u ''verify'' ''cache_ttl'' True (\<lambda>d. on_verify (\<lambda>v. v\<lparr>vc_CacheTTL := d\<rparr>))]"

text \<open>The body of the loop over the sections \<open>verify_api\<close>.\<close>

definition section_auth :: "uciSection \<Rightarrow> APIAuthType option" where
  "section_auth s =
     (let value = firstSectionValue s ''auth_type''
      in if value = [] \<or> value = ''api_key'' then Some APIAuthTypeAPIKey else if value = ''oauth'' then Some APIAuthTypeOAuth else None)"

definition section_bool :: "uciSection \<Rightarrow> string \<Rightarrow> bool option" where
  "section_bool s key = (let value = firstSectionValue s key in if value = [] then Some False else parseBoolValue value)"

definition section_int :: "uciSection \<Rightarrow> string \<Rightarrow> int option" where
  "section_int s key = (let value = firstSectionValue s key in if value = [] then Some 0 else Atoi value)"

definition api_option :: "uciSection \<Rightarrow> string \<Rightarrow> string" where
  "api_option s key = ''verify_api.'' @ us_name s @ ''.'' @ key"

definition section_api :: "uciSection \<Rightarrow> config_error + APIConfig" where
  "section_api s =
     (case section_auth s of
        None \<Rightarrow> Inl (EAuthType (api_option s ''auth_type''))
      | Some authType \<Rightarrow>
     (case section_bool s ''derpmap_sync'' of
        None \<Rightarrow> Inl (EBool (api_option s ''derpmap_sync'') (firstSectionValue s ''derpmap_sync''))
      | Some derpMapSync \<Rightarrow>
     (case section_bool s ''stun_only'' of
        None \<Rightarrow> Inl (EBool (api_option s ''stun_only'') (firstSectionValue s ''stun_only''))
      | Some stunOnly \<Rightarrow>
     (case section_int s ''region_id'' of
        None \<Rightarrow> Inl (EInteger (api_option s ''region_id''))
      | Some regionID \<Rightarrow>
          (let tailnet = firstSectionValue s ''tailnet''
           in Inr \<lparr>ac_Name = us_name s, ac_Label = firstSectionValue s ''label'',
                   ac_Tailnet = (if tailnet = [] then ''-'' else tailnet), ac_AuthType = authType,
                   ac_APIKey = firstSectionValue s ''api_key'', ac_OAuthClientID = firstSectionValue s ''oauth_client_id'',
                   ac_OAuthClientSecret = firstSectionValue s ''oauth_client_secret'', ac_DERPMapSync = derpMapSync,
                   ac_StunOnly = stunOnly, ac_RegionID = regionID, ac_RegionCode = firstSectionValue s ''region_code'',
                   ac_RegionName = firstSectionValue s ''region_name'', ac_NodeName = firstSectionValue s ''node_name'',
                   ac_Hostname = firstSectionValue s ''hostname'', ac_CertName = firstSectionValue s ''cert_name''\<rparr>)))))"

definition validation_name :: "string \<Rightarrow> APIConfig \<Rightarrow> string" where
  "validation_name tlsMode api = (if tlsMode = ''self_signed'' \<or> ac_CertName api = [] then ac_Hostname api else ac_CertName api)"

definition add_api :: "uciSection \<Rightarrow> config_step" where
  "add_api s c =
     (case section_api s of
        Inl err \<Rightarrow> Inl err
      | Inr api \<Rightarrow>
          (let c = on_verify (\<lambda>v. v\<lparr>vc_APIs := vc_APIs v @ [api]\<rparr>) c
           in Inr (if ac_DERPMapSync api
                   then on_external (\<lambda>e. e\<lparr>ec_ValidationNames := ec_ValidationNames e @ [validation_name (c_TLSMode c) api]\<rparr>) c
                   else c)))"

definition tls_configured :: "Config \<Rightarrow> bool" where
  "tls_configured c \<longleftrightarrow> c_TLSMode c = ''self_signed'' \<or> (c_CertFile c \<noteq> [] \<and> c_KeyFile c \<noteq> [])"

definition derive_external :: "Config \<Rightarrow> Config" where
  "derive_external c = on_external (\<lambda>e. e\<lparr>ec_STUNEnabled := c_STUN c, ec_TLSConfigured := tls_configured c\<rparr>) c"

text \<open>Configurations with URLs only stay active.\<close>

definition keep_url_configs :: "uciConfig \<Rightarrow> Config \<Rightarrow> Config" where
  "keep_url_configs u c =
     (if verify_urls u \<noteq> [] then
        on_verify (\<lambda>v. v\<lparr>vc_Enabled := (if uci_first u ''verify'' ''enabled'' = None then True else vc_Enabled v),
                         vc_URLsEnabled := (if uci_first u ''verify'' ''url_enabled'' = None then True else vc_URLsEnabled v)\<rparr>) c
      else c)"

definition applyUCIConfig :: "uciConfig option \<Rightarrow> config_step" where
  "applyUCIConfig parsed c =
     (case parsed of
        None \<Rightarrow> Inr c
      | Some u \<Rightarrow>
          run_steps (service_steps u @ external_steps u @ verify_steps u @ map add_api (sectionsOfType u ''verify_api'') @
            [\<lambda>c. Inr (keep_url_configs u (derive_external c))]) c)"

section \<open>The command line\<close>

definition flag_text :: "FlagSet \<Rightarrow> string \<Rightarrow> (configFlags \<Rightarrow> string) \<Rightarrow> string \<Rightarrow> string" where
  "flag_text fs name get old = (if boolFlagProvided fs name then TrimSpace (get (fs_flags fs)) else old)"

definition flag_val :: "FlagSet \<Rightarrow> string \<Rightarrow> (configFlags \<Rightarrow> 'a) \<Rightarrow> 'a \<Rightarrow> 'a" where
  "flag_val fs name get old = (if boolFlagProvided fs name then get (fs_flags fs) else old)"

definition flag_urls :: "FlagSet \<Rightarrow> VerifyConfig \<Rightarrow> VerifyConfig" where
  "flag_urls fs v =
     (if boolFlagProvided fs ''verify-client-urls''
      then v\<lparr>vc_URLs := vc_URLs v @ comma_parts (\<lambda>p. p) [cf_VerifyURLs (fs_flags fs)], vc_Enabled := True, vc_URLsEnabled := True\<rparr>
      else v)"

definition applyFlagOverrides :: "FlagSet \<Rightarrow> Config \<Rightarrow> Config" where
  "applyFlagOverrides fs c =
     c\<lparr>c_Enabled := flag_val fs ''enabled'' cf_Enabled (c_Enabled c),
       c_Listen := flag_text fs ''listen'' cf_Listen (c_Listen c),
       c_STUN := flag_val fs ''stun'' cf_STUN (c_STUN c),
       c_CertFile := flag_text fs ''certfile'' cf_CertFile (c_CertFile c),
       c_KeyFile := flag_text fs ''keyfile'' cf_KeyFile (c_KeyFile c),
       c_TLSMode := (if boolFlagProvided fs ''tls-self-signed''
                     then (if cf_TLSSelfSigned (fs_flags fs) then ''self_signed'' else ''manual'') else c_TLSMode c),
       c_TLSStateDir := flag_text fs ''tls-state-dir'' cf_TLSStateDir (c_TLSStateDir c),
       c_Mesh := flag_val fs ''mesh'' cf_Mesh (c_Mesh c),
       c_MeshKey := flag_text fs ''mesh-key'' cf_MeshKey (c_MeshKey c),
       c_OpsSocket := flag_text fs ''ops-socket'' cf_OpsSocket (c_OpsSocket c),
       c_Health := flag_text fs ''health'' cf_HealthAddr (c_Health c),
       c_TrafficPersist := flag_val fs ''traffic-persist'' cf_TrafficPersist (c_TrafficPersist c),
       c_TrafficPath := flag_text fs ''traffic-path'' cf_TrafficPath (c_TrafficPath c),
       c_TrafficInterval := flag_val fs ''traffic-interval'' cf_TrafficInterval (c_TrafficInterval c),
       c_Verify := flag_urls fs (c_Verify c)\<rparr>"

text \<open>The end of \<open>buildConfig\<close>: what follows from other fields, and the traffic defaults.\<close>

definition finish_config :: "Config \<Rightarrow> Config" where
  "finish_config c =
     (let c = derive_external c;
          c = (if TrimSpace (c_TrafficPath c) = [] then c\<lparr>c_TrafficPath := defaultTrafficPath\<rparr> else c)
      in if c_TrafficInterval c \<le> 0 then c\<lparr>c_TrafficInterval := defaultTrafficInterval\<rparr> else c)"

definition from_file :: "(string \<Rightarrow> config_error + uciConfig) \<Rightarrow> string \<Rightarrow> config_error + Config" where
  "from_file openFile path =
     (if path = [] then Inr default_config
      else (case openFile path of
              Inl err \<Rightarrow> if err = ENotExist then Inr default_config else Inl err
            | Inr uci \<Rightarrow> applyUCIConfig (Some uci) default_config))"

definition buildConfig :: "string \<Rightarrow> string list \<Rightarrow> (string \<Rightarrow> config_error + uciConfig) \<Rightarrow> config_error + Config" where
  "buildConfig configPath args openFile =
     (case newFlagSet configPath args of
        Inl err \<Rightarrow> Inl err
      | Inr fs \<Rightarrow>
          (case from_file openFile (cf_ConfigPath (fs_flags fs)) of
             Inl err \<Rightarrow> Inl err
           | Inr c \<Rightarrow> Inr (finish_config (applyFlagOverrides fs c))))"

section \<open>Validation\<close>

definition fill_defaults :: "Config \<Rightarrow> Config" where
  "fill_defaults c =
     (let c = (if c_TLSMode c = [] then c\<lparr>c_TLSMode := ''manual''\<rparr> else c)
      in on_external (\<lambda>e. e\<lparr>ec_Mode := (if ec_Mode e = [] then ''nat'' else ec_Mode e),
                            ec_AddressFamily := (if ec_AddressFamily e = [] then ''ipv4'' else ec_AddressFamily e),
                            ec_WANInterface := (if ec_WANInterface e = [] then ''auto'' else ec_WANInterface e)\<rparr>) c)"

definition api_problem :: "Config \<Rightarrow> APIConfig \<Rightarrow> config_error option" where
  "api_problem c api =
     (if \<not> ac_DERPMapSync api then None
      else if \<not> ec_Enabled (c_External c) then Some (EInvalid (''verify_api.'' @ ac_Name api @ ''.derpmap_sync requires external.enabled''))
      else if \<not> isConfigured api then Some (EInvalid (''verify_api.'' @ ac_Name api @ ''.derpmap_sync requires tailnet and API credentials''))
      else if ac_RegionID api < 900 \<or> 999 < ac_RegionID api
        then Some (EInvalid (''verify_api.'' @ ac_Name api @ ''.region_id must be between 900 and 999''))
      else if TrimSpace (ac_RegionCode api) = [] \<or> TrimSpace (ac_RegionName api) = [] \<or> TrimSpace (ac_NodeName api) = [] \<or>
              TrimSpace (ac_Hostname api) = []
        then Some (EInvalid (''verify_api.'' @ ac_Name api @ '' DERP map metadata is incomplete''))
      else None)"

definition allowed_methods :: "string list" where "allowed_methods = [''pcp'', ''natpmp'', ''upnp'']"

definition method_problem :: "string \<Rightarrow> config_error option" where
  "method_problem m = (if m \<in> set allowed_methods then None else Some (EMethod m))"

definition problem_if :: "bool \<Rightarrow> string \<Rightarrow> config_error option" where
  "problem_if b why = (if b then Some (EInvalid why) else None)"

text \<open>The checks in the order of the code; the first that fails is the error.\<close>

definition config_problems :: "Config \<Rightarrow> config_error option list" where
  "config_problems c =
     (let e = c_External c in
      [problem_if (c_Listen c = []) ''listen address is required'',
       problem_if (c_Mesh c \<and> c_MeshKey c = []) ''mesh requires a shared key'',
       problem_if (c_CertFile c \<noteq> [] \<and> c_KeyFile c = []) ''certfile requires keyfile'',
       problem_if (c_KeyFile c \<noteq> [] \<and> c_CertFile c = []) ''keyfile requires certfile'',
       problem_if (c_TLSMode c \<noteq> ''manual'' \<and> c_TLSMode c \<noteq> ''self_signed'') ''tls.mode must be manual or self_signed'',
       problem_if (c_TLSMode c = ''self_signed'' \<and> (c_CertFile c \<noteq> [] \<or> c_KeyFile c \<noteq> []))
         ''self_signed TLS does not use certfile or keyfile'',
       problem_if (c_TLSMode c = ''self_signed'' \<and> TrimSpace (c_TLSStateDir c) = []) ''self_signed TLS requires state_dir'',
       validateOptionalPortBinding ''listen'' (c_Listen c),
       validateOptionalPortBinding ''health'' (c_Health c),
       validateExternalPort ''external.derp_port'' (ec_DERPPort e),
       validateExternalPort ''external.stun_port'' (ec_STUNPort e),
       problem_if (ec_Mode e \<noteq> ''nat'' \<and> ec_Mode e \<noteq> ''direct'') ''external.mode must be direct or nat'',
       problem_if (ec_AddressFamily e \<noteq> ''ipv4'' \<and> ec_AddressFamily e \<noteq> ''ipv6'' \<and> ec_AddressFamily e \<noteq> ''dual'')
         ''external.address_family must be ipv4, ipv6, or dual'',
       problem_if (ec_Enabled e \<and> (ec_AddressFamily e = ''ipv4'' \<or> ec_AddressFamily e = ''dual'') \<and> ec_Mode e = ''nat'' \<and>
                   ec_Methods e = []) ''external requires at least one mapping method''] @
      map method_problem (ec_Methods e) @ map (api_problem c) (vc_APIs (c_Verify c)) @
      [problem_if (ec_Enabled e \<and> \<not> ec_TLSConfigured e) ''external endpoint publishing requires TLS''])"

fun first_problem :: "config_error option list \<Rightarrow> config_error option" where
  "first_problem [] = None"
| "first_problem (p # ps) = (case p of Some err \<Rightarrow> Some err | None \<Rightarrow> first_problem ps)"

definition validateConfig :: "Config \<Rightarrow> config_error + Config" where
  "validateConfig c = (let c = fill_defaults c in case first_problem (config_problems c) of Some err \<Rightarrow> Inl err | None \<Rightarrow> Inr c)"

section \<open>Startup\<close>

definition selfSignedNames :: "Config \<Rightarrow> string list" where
  "selfSignedNames c = map ac_Hostname (filter ac_DERPMapSync (vc_APIs (c_Verify c)))"

text \<open>What \<open>main\<close> does before it runs the servers: write a schema, end with an error, end because the service is disabled,
  or go on with a configuration. \<open>keyPair\<close> is the error of \<open>tls.LoadX509KeyPair\<close> for the two files, \<open>newCert\<close> that of
  \<open>cert.NewManager\<close>.\<close>

datatype startup =
    WriteSchema string
  | LoadFailed config_error
  | BadConfig config_error
  | ServiceDisabled
  | CertFailed string
  | KeyPairFailed string
  | Serve Config

definition main_startup ::
    "string \<Rightarrow> (string \<Rightarrow> config_error + uciConfig) \<Rightarrow> (string \<Rightarrow> string list \<Rightarrow> string option) \<Rightarrow>
     (string \<Rightarrow> string \<Rightarrow> string option) \<Rightarrow> string list \<Rightarrow> startup" where
  "main_startup configPath openFile newCert keyPair args =
     (if schemaOutputPath args \<noteq> [] then WriteSchema (schemaOutputPath args)
      else (case buildConfig configPath args openFile of
              Inl err \<Rightarrow> LoadFailed err
            | Inr built \<Rightarrow>
                (case validateConfig built of
                   Inl err \<Rightarrow> BadConfig err
                 | Inr c \<Rightarrow>
                     if \<not> c_Enabled c then ServiceDisabled
                     else if c_TLSMode c = ''self_signed'' then
                       (case newCert (c_TLSStateDir c) (selfSignedNames c) of Some err \<Rightarrow> CertFailed err | None \<Rightarrow> Serve c)
                     else if ec_Enabled (c_External c) then
                       (case keyPair (c_CertFile c) (c_KeyFile c) of Some err \<Rightarrow> KeyPairFailed err | None \<Rightarrow> Serve c)
                     else Serve c)))"

text \<open>The interval of the persister \<open>main\<close> makes.\<close>

definition traffic_duration :: "Config \<Rightarrow> duration" where
  "traffic_duration c = seconds_duration (c_TrafficInterval c)"

section \<open>State and listeners\<close>

record runtimeState =
  rs_running :: bool
  rs_err :: string

definition setRunning :: "bool \<Rightarrow> runtimeState \<Rightarrow> runtimeState" where
  "setRunning running s = s\<lparr>rs_running := running, rs_err := (if running then [] else rs_err s)\<rparr>"

definition setError :: "string option \<Rightarrow> runtimeState \<Rightarrow> runtimeState" where
  "setError err s = s\<lparr>rs_running := False, rs_err := (case err of None \<Rightarrow> [] | Some e \<Rightarrow> e)\<rparr>"

text \<open>\<open>addressPort\<close> of the text of a listener's address.\<close>

definition addressPort :: "string \<Rightarrow> string + uint16" where
  "addressPort address =
     (case SplitHostPort address of
        Inl err \<Rightarrow> Inl (''parse listener address: '' @ err)
      | Inr (_, rawPort) \<Rightarrow>
          (case ParseUint 16 rawPort of
             None \<Rightarrow> Inl (''listener returned invalid port '' @ rawPort)
           | Some port \<Rightarrow> if port = 0 then Inl (''listener returned invalid port '' @ rawPort) else Inr (word_of_nat port)))"

datatype net_addr = TCPAddr bytes | UDPAddr bytes | OtherAddr

definition AddrFromSlice :: "bytes \<Rightarrow> Addr option" where
  "AddrFromSlice ip =
     (if length ip = 4 then Some (Addr4 (word_of_nat (be_value ip)))
      else if length ip = 16 then Some (Addr6 (word_of_nat (be_value ip)) []) else None)"

definition listener_ip :: "net_addr \<Rightarrow> bytes" where
  "listener_ip address = (case address of TCPAddr ip \<Rightarrow> ip | UDPAddr ip \<Rightarrow> ip | OtherAddr \<Rightarrow> [])"

text \<open>\<open>wildcard4\<close> is \<open>ipv6WildcardSupportsIPv4()\<close>, from the contents of the system's file.\<close>

definition ipv6WildcardSupportsIPv4 :: "string option \<Rightarrow> bool" where
  "ipv6WildcardSupportsIPv4 raw = (case raw of None \<Rightarrow> False | Some s \<Rightarrow> TrimSpace s = ''0'')"

definition listenerFamilies :: "bool \<Rightarrow> net_addr \<Rightarrow> bool \<times> bool" where
  "listenerFamilies wildcard4 address =
     (case AddrFromSlice (listener_ip address) of
        None \<Rightarrow> (True, True)
      | Some parsed \<Rightarrow>
          (case Unmap parsed of
             Addr4 _ \<Rightarrow> (True, False)
           | a \<Rightarrow> if a = Addr6 0 [] then (wildcard4, True) else (False, True)))"

end
