(* ===== verification/ConfigFormats.thy ===== *)
theory ConfigFormats
  imports Config
begin

text \<open>
  What JSON and YAML configuration files mean. Such a file is translated to sections of texts and these are parsed again;
  nothing is lost on the way: the result is that of applying the decoded fields directly (\<open>apply_file\<close>).
\<close>

section \<open>Sections of decoded files\<close>

lemma uci_wf_add_some [simp]: "uci_wf u \<Longrightarrow> uci_wf (add_some n vals s u)"
  by (simp add: add_some_def split: option.split)

lemma section_values_add_some:
  "uci_wf u \<Longrightarrow> section_values (add_some n vals s u) m =
     (if m = n \<and> s \<noteq> None then map_option vals s else section_values u m)"
  by (auto simp: add_some_def section_values_addSection split: option.split)

lemma uci_wf_add_verify_apis [simp]: "uci_wf u \<Longrightarrow> uci_wf (add_verify_apis i ss u)"
  by (induction i ss u rule: add_verify_apis.induct) simp_all

text \<open>The sections the loop over \<open>verify_api\<close> adds.\<close>

fun api_sections :: "nat \<Rightarrow> fileVerifyAPIConfig list \<Rightarrow> uciSection list" where
  "api_sections i [] = []"
| "api_sections i (s # ss) =
     \<lparr>us_typ = ''verify_api'', us_name = verify_api_name i s, us_values = verify_api_values s\<rparr> # api_sections (i + 1) ss"

lemma add_verify_apis_sections: "uc_sections (add_verify_apis i ss u) = uc_sections u @ api_sections i ss"
  by (induction i ss u rule: add_verify_apis.induct) (simp_all add: addSection_def)

lemma add_verify_apis_values:
  "uci_wf u \<Longrightarrow> m \<notin> us_name ` set (api_sections i ss) \<Longrightarrow> section_values (add_verify_apis i ss u) m = section_values u m"
  by (induction i ss u rule: add_verify_apis.induct) (simp_all add: section_values_addSection)

lemma add_some_sections:
  "uc_sections (add_some n vals s u) =
     uc_sections u @ (case s of None \<Rightarrow> [] | Some x \<Rightarrow> [\<lparr>us_typ = n, us_name = n, us_values = vals x\<rparr>])"
  by (simp add: add_some_def addSection_def split: option.split)

text \<open>The names of the sections that are not of an API instance; an instance must not have one of them.\<close>

definition reserved :: "string list" where
  "reserved = [''global'', ''tls'', ''mesh'', ''ops'', ''traffic'', ''external'', ''verify'']"

definition names_free :: "fileConfig \<Rightarrow> bool" where
  "names_free f \<longleftrightarrow> list_all (\<lambda>s. fa_Name s \<notin> set reserved) (fc_VerifyAPI f)"

lemma api_sections_names:
  "list_all (\<lambda>s. fa_Name s \<notin> set reserved) ss \<Longrightarrow> set reserved \<inter> us_name ` set (api_sections i ss) = {}"
proof (induction i ss rule: api_sections.induct)
  case (2 i s ss)
  have "verify_api_name i s \<notin> set reserved"
    using 2 by (auto simp: verify_api_name_def reserved_def)
  with 2 show ?case by simp
qed simp

lemma toUCIConfig_values:
  assumes "names_free f"
  shows "section_values (toUCIConfig (Some f)) ''global'' = map_option global_values (fc_Global f)"
    "section_values (toUCIConfig (Some f)) ''tls'' = map_option tls_values (fc_TLS f)"
    "section_values (toUCIConfig (Some f)) ''mesh'' = map_option mesh_values (fc_Mesh f)"
    "section_values (toUCIConfig (Some f)) ''ops'' = map_option ops_values (fc_Ops f)"
    "section_values (toUCIConfig (Some f)) ''traffic'' = map_option traffic_values (fc_Traffic f)"
    "section_values (toUCIConfig (Some f)) ''external'' = map_option external_values (fc_External f)"
    "section_values (toUCIConfig (Some f)) ''verify'' = map_option verify_values (fc_Verify f)"
proof -
  have base: "section_values (toUCIConfig (Some f)) m = section_values
      (add_some ''verify'' verify_values (fc_Verify f) (add_some ''external'' external_values (fc_External f)
      (add_some ''traffic'' traffic_values (fc_Traffic f) (add_some ''ops'' ops_values (fc_Ops f)
      (add_some ''mesh'' mesh_values (fc_Mesh f) (add_some ''tls'' tls_values (fc_TLS f)
      (add_some ''global'' global_values (fc_Global f) empty_uci))))))) m" if "m \<in> set reserved" for m
  proof -
    have "m \<notin> us_name ` set (api_sections 0 (fc_VerifyAPI f))"
      using api_sections_names [of "fc_VerifyAPI f" 0] assms that by (auto simp: names_free_def)
    then show ?thesis by (simp add: toUCIConfig_def add_verify_apis_values)
  qed
  have opt: "(if s \<noteq> None then map_option v s else None) = map_option v s" for v :: "'x \<Rightarrow> (string, string list) fmap" and s
    by simp
  show "section_values (toUCIConfig (Some f)) ''global'' = map_option global_values (fc_Global f)"
    "section_values (toUCIConfig (Some f)) ''tls'' = map_option tls_values (fc_TLS f)"
    "section_values (toUCIConfig (Some f)) ''mesh'' = map_option mesh_values (fc_Mesh f)"
    "section_values (toUCIConfig (Some f)) ''ops'' = map_option ops_values (fc_Ops f)"
    "section_values (toUCIConfig (Some f)) ''traffic'' = map_option traffic_values (fc_Traffic f)"
    "section_values (toUCIConfig (Some f)) ''external'' = map_option external_values (fc_External f)"
    "section_values (toUCIConfig (Some f)) ''verify'' = map_option verify_values (fc_Verify f)"
    by (simp_all add: base reserved_def section_values_add_some opt)
qed

lemma toUCIConfig_apis:
  "sectionsOfType (toUCIConfig (Some f)) ''verify_api'' = api_sections 0 (fc_VerifyAPI f)"
proof -
  have "filter (\<lambda>s. us_typ s = ''verify_api'') (api_sections i ss) = api_sections i ss" for i ss
    by (induction i ss rule: api_sections.induct) simp_all
  then show ?thesis
    by (simp add: toUCIConfig_def sectionsOfType_def add_verify_apis_sections add_some_sections empty_uci_def split: option.split)
qed

section \<open>Options of decoded files\<close>

lemma optionValues_lookup:
  "fmlookup (optionValues os) k =
     (case filter (\<lambda>opt. ov_set opt \<and> ov_name opt = k) os of [] \<Rightarrow> None | x # xs \<Rightarrow> Some [ov_value (last (x # xs))])"
proof -
  have "fmlookup (optionValues os) k =
     (let xs = filter (\<lambda>opt. ov_set opt \<and> ov_name opt = k) os in if xs = [] then None else Some [ov_value (last xs)])"
    by (induction os rule: rev_induct) (auto simp: optionValues_def Let_def)
  then show ?thesis by (simp split: list.split)
qed

definition bool_text :: "bool \<Rightarrow> string" where "bool_text b = (if b then ''1'' else ''0'')"

lemma option_matches [simp]:
  "(ov_set (optionString n v) \<and> ov_name (optionString n v) = k) = (v \<noteq> None \<and> n = k)"
  "(ov_set (optionBool n b) \<and> ov_name (optionBool n b) = k) = (b \<noteq> None \<and> n = k)"
  "(ov_set (optionInt n i) \<and> ov_name (optionInt n i) = k) = (i \<noteq> None \<and> n = k)"
  by (auto simp: optionString_def optionBool_def optionInt_def split: option.splits)

lemma option_value [simp]:
  "ov_value (optionString n (Some t)) = t" "ov_value (optionBool n (Some b)) = bool_text b" "ov_value (optionInt n (Some i)) = Itoa i"
  by (simp_all add: optionString_def optionBool_def optionInt_def bool_text_def)

lemma bool_text_parse [simp]: "parseBoolValue (bool_text b) = Some b"
proof -
  have "parseBoolValue ''1'' = Some True" "parseBoolValue ''0'' = Some False" by code_simp+
  then show ?thesis by (simp add: bool_text_def)
qed

definition int64_range :: "int \<Rightarrow> bool" where "int64_range n \<longleftrightarrow> - (2 ^ 63) \<le> n \<and> n < 2 ^ 63"

lemma digits_of_first: "hd (digits_of n) \<noteq> CHR ''-'' \<and> hd (digits_of n) \<noteq> CHR ''+''"
proof -
  have "is_digit (hd (digits_of n))" using is_digit_digits_of [of n] by (simp add: list_all_iff)
  then show ?thesis by (auto simp: is_digit_def char_code_def)
qed

lemma Atoi_Itoa [simp]: "int64_range n \<Longrightarrow> Atoi (Itoa n) = Some n"
proof -
  assume n: "int64_range n"
  have pos: "digits_of k = d # ds \<Longrightarrow> d \<noteq> CHR ''-'' \<and> d \<noteq> CHR ''+''" for k d ds using digits_of_first [of k] by simp
  show ?thesis
  proof (cases "n < 0")
    case True
    then show ?thesis using n by (simp add: Atoi_def Itoa_def Let_def int64_range_def)
  next
    case False
    obtain d ds where d: "digits_of (nat n) = d # ds" by (cases "digits_of (nat n)") auto
    with pos have "d \<noteq> CHR ''-''" "d \<noteq> CHR ''+''" by auto
    moreover have "list_all is_digit (d # ds)" "decimal (d # ds) = nat n" by (simp_all flip: d)
    ultimately show ?thesis using False n d by (simp add: Atoi_def Itoa_def Let_def int64_range_def)
  qed
qed

lemma Itoa_not_empty [simp]: "Itoa n \<noteq> []"
  by (simp add: Itoa_def)

lemma Itoa_trimmed [simp]: "TrimSpace (Itoa n) = Itoa n"
proof -
  have d: "list_all (\<lambda>c. \<not> is_space c) (digits_of k)" for k
    using is_digit_digits_of [of k] by (auto simp: list_all_iff is_digit_def is_space_def char_code_def)
  have "list_all (\<lambda>c. \<not> is_space c) (Itoa n)" using d by (simp add: Itoa_def is_space_def)
  then have "\<not> is_space (hd (Itoa n)) \<and> \<not> is_space (last (Itoa n))" by (simp add: list_all_iff)
  then show ?thesis unfolding TrimSpace_def by (rule TrimFunc_fixed [OF disjI2])
qed

section \<open>The meaning of a decoded file\<close>

text \<open>A field of a section that may be absent.\<close>

definition field :: "'s option \<Rightarrow> ('s \<Rightarrow> 'v option) \<Rightarrow> 'v option" where
  "field s get = Option.bind s get"

definition set_bool :: "bool option \<Rightarrow> (bool \<Rightarrow> Config \<Rightarrow> Config) \<Rightarrow> config_step" where
  "set_bool v upd c = Inr (case v of None \<Rightarrow> c | Some b \<Rightarrow> upd b c)"

definition set_text :: "string option \<Rightarrow> (string \<Rightarrow> bool) \<Rightarrow> (string \<Rightarrow> Config \<Rightarrow> Config) \<Rightarrow> config_step" where
  "set_text v ok upd c = Inr (case v of None \<Rightarrow> c | Some t \<Rightarrow> if ok t then upd t c else c)"

definition set_seconds :: "int option \<Rightarrow> string \<Rightarrow> (duration \<Rightarrow> Config \<Rightarrow> Config) \<Rightarrow> config_step" where
  "set_seconds v what upd c =
     (case v of None \<Rightarrow> Inr c | Some n \<Rightarrow> if n \<le> 0 then Inl (EPositive what) else Inr (upd (seconds_duration n) c))"

definition set_int :: "int option \<Rightarrow> (int \<Rightarrow> Config \<Rightarrow> Config) \<Rightarrow> config_step" where
  "set_int v upd c = Inr (case v of None \<Rightarrow> c | Some n \<Rightarrow> upd n c)"

definition list_field :: "string list option \<Rightarrow> string list" where
  "list_field v = (case v of None \<Rightarrow> [] | Some vs \<Rightarrow> vs)"

definition file_service :: "fileConfig \<Rightarrow> config_step list" where
  "file_service f =
     [set_bool (field (fc_Global f) fg_Enabled) (\<lambda>b c. c\<lparr>c_Enabled := b\<rparr>),
      set_text (field (fc_Global f) fg_Listen) not_empty (\<lambda>v c. c\<lparr>c_Listen := v\<rparr>),
      set_bool (field (fc_Global f) fg_STUN) (\<lambda>b c. c\<lparr>c_STUN := b\<rparr>),
      set_text (field (fc_TLS f) ft_CertFile) any_text (\<lambda>v c. c\<lparr>c_CertFile := v\<rparr>),
      set_text (field (fc_TLS f) ft_KeyFile) any_text (\<lambda>v c. c\<lparr>c_KeyFile := v\<rparr>),
      set_text (field (fc_TLS f) ft_Mode) not_blank (\<lambda>v c. c\<lparr>c_TLSMode := ToLower (TrimSpace v)\<rparr>),
      set_text (field (fc_TLS f) ft_StateDir) not_blank (\<lambda>v c. c\<lparr>c_TLSStateDir := TrimSpace v\<rparr>),
      set_bool (field (fc_Mesh f) fm_Enabled) (\<lambda>b c. c\<lparr>c_Mesh := b\<rparr>),
      set_text (field (fc_Mesh f) fm_Key) any_text (\<lambda>v c. c\<lparr>c_MeshKey := TrimSpace v\<rparr>),
      set_text (field (fc_Ops f) fo_Socket) not_blank (\<lambda>v c. c\<lparr>c_OpsSocket := TrimSpace v\<rparr>),
      set_text (field (fc_Ops f) fo_Health) not_empty (\<lambda>v c. c\<lparr>c_Health := v\<rparr>),
      set_bool (field (fc_Traffic f) fr_Persist) (\<lambda>b c. c\<lparr>c_TrafficPersist := b\<rparr>),
      set_text (field (fc_Traffic f) fr_Path) not_empty (\<lambda>v c. c\<lparr>c_TrafficPath := v\<rparr>),
      set_int (field (fc_Traffic f) fr_Interval) (\<lambda>n c. c\<lparr>c_TrafficInterval := n\<rparr>)]"

definition file_external :: "fileConfig \<Rightarrow> config_step list" where
  "file_external f =
     [set_bool (field (fc_External f) fe_Enabled) (\<lambda>b. on_external (\<lambda>e. e\<lparr>ec_Enabled := b\<rparr>)),
      set_text (field (fc_External f) fe_Mode) not_blank (\<lambda>v. on_external (\<lambda>e. e\<lparr>ec_Mode := ToLower (TrimSpace v)\<rparr>)),
      set_text (field (fc_External f) fe_AddressFamily) not_blank (\<lambda>v. on_external (\<lambda>e. e\<lparr>ec_AddressFamily := ToLower (TrimSpace v)\<rparr>)),
      \<lambda>c. Inr (if list_field (field (fc_External f) fe_Methods) \<noteq> []
                then on_external (\<lambda>e. e\<lparr>ec_Methods := comma_parts ToLower (list_field (field (fc_External f) fe_Methods))\<rparr>) c else c),
      set_text (field (fc_External f) fe_WANInterface) not_blank (\<lambda>v. on_external (\<lambda>e. e\<lparr>ec_WANInterface := TrimSpace v\<rparr>)),
      set_text (field (fc_External f) fe_DERPPort) not_blank (\<lambda>v. on_external (\<lambda>e. e\<lparr>ec_DERPPort := TrimSpace v\<rparr>)),
      set_text (field (fc_External f) fe_STUNPort) not_blank (\<lambda>v. on_external (\<lambda>e. e\<lparr>ec_STUNPort := TrimSpace v\<rparr>)),
      set_seconds (field (fc_External f) fe_LeaseSeconds) ''external.lease_seconds'' (\<lambda>d. on_external (\<lambda>e. e\<lparr>ec_LeaseDuration := d\<rparr>)),
      set_seconds (field (fc_External f) fe_RetrySeconds) ''external.retry_seconds'' (\<lambda>d. on_external (\<lambda>e. e\<lparr>ec_RetryInterval := d\<rparr>)),
      set_seconds (field (fc_External f) fe_SyncInterval) ''external.sync_interval'' (\<lambda>d. on_external (\<lambda>e. e\<lparr>ec_SyncInterval := d\<rparr>)),
      set_bool (field (fc_External f) fe_ValidateEndpoint) (\<lambda>b. on_external (\<lambda>e. e\<lparr>ec_ValidateEndpoint := b\<rparr>))]"

definition file_urls :: "fileConfig \<Rightarrow> string list" where
  "file_urls f = comma_parts (\<lambda>p. p) (list_field (field (fc_Verify f) fv_URLs))"

definition file_verify :: "fileConfig \<Rightarrow> config_step list" where
  "file_verify f =
     [\<lambda>c. Inr (on_verify (\<lambda>v. v\<lparr>vc_URLs := file_urls f\<rparr>) c),
      set_bool (field (fc_Verify f) fv_Enabled) (\<lambda>b. on_verify (\<lambda>v. v\<lparr>vc_Enabled := b\<rparr>)),
      set_bool (field (fc_Verify f) fv_URLEnabled) (\<lambda>b. on_verify (\<lambda>v. v\<lparr>vc_URLsEnabled := b\<rparr>)),
      set_bool (field (fc_Verify f) fv_TailscaledEnabled) (\<lambda>b. on_verify (\<lambda>v. v\<lparr>vc_TailscaledEnabled := b\<rparr>)),
      set_bool (field (fc_Verify f) fv_TailscaledSocketEnabled) (\<lambda>b. on_verify (\<lambda>v. v\<lparr>vc_TailscaledSocketEnabled := b\<rparr>)),
      set_text (field (fc_Verify f) fv_TailscaledSocket) any_text (\<lambda>t. on_verify (\<lambda>v. v\<lparr>vc_TailscaledSocket := TrimSpace t\<rparr>)),
      set_bool (field (fc_Verify f) fv_APIEnabled) (\<lambda>b. on_verify (\<lambda>v. v\<lparr>vc_APIEnabled := b\<rparr>)),
      set_seconds (field (fc_Verify f) fv_SyncInterval) ''verify.sync_interval'' (\<lambda>d. on_verify (\<lambda>v. v\<lparr>vc_SyncInterval := d\<rparr>)),
      set_seconds (field (fc_Verify f) fv_CacheTTL) ''verify.cache_ttl'' (\<lambda>d. on_verify (\<lambda>v. v\<lparr>vc_CacheTTL := d\<rparr>))]"

text \<open>An API instance of the file: texts are trimmed, what is absent is empty or off.\<close>

definition trimmed :: "string option \<Rightarrow> string" where
  "trimmed v = (case v of None \<Rightarrow> [] | Some t \<Rightarrow> TrimSpace t)"

definition file_api :: "nat \<Rightarrow> fileVerifyAPIConfig \<Rightarrow> config_error + APIConfig" where
  "file_api i s =
     (let auth = trimmed (fa_AuthType s)
      in if auth \<noteq> [] \<and> auth \<noteq> ''api_key'' \<and> auth \<noteq> ''oauth'' then Inl (EAuthType (''verify_api.'' @ verify_api_name i s @ ''.auth_type''))
         else Inr \<lparr>ac_Name = verify_api_name i s, ac_Label = trimmed (fa_Label s),
                   ac_Tailnet = (if trimmed (fa_Tailnet s) = [] then ''-'' else trimmed (fa_Tailnet s)),
                   ac_AuthType = (if auth = ''oauth'' then APIAuthTypeOAuth else APIAuthTypeAPIKey),
                   ac_APIKey = trimmed (fa_APIKey s), ac_OAuthClientID = trimmed (fa_OAuthClientID s),
                   ac_OAuthClientSecret = trimmed (fa_OAuthClientSecret s),
                   ac_DERPMapSync = (fa_DERPMapSync s = Some True), ac_StunOnly = (fa_StunOnly s = Some True),
                   ac_RegionID = (case fa_RegionID s of None \<Rightarrow> 0 | Some n \<Rightarrow> n), ac_RegionCode = trimmed (fa_RegionCode s),
                   ac_RegionName = trimmed (fa_RegionName s), ac_NodeName = trimmed (fa_NodeName s),
                   ac_Hostname = trimmed (fa_Hostname s), ac_CertName = trimmed (fa_CertName s)\<rparr>)"

fun file_apis :: "nat \<Rightarrow> fileVerifyAPIConfig list \<Rightarrow> config_step" where
  "file_apis i [] c = Inr c"
| "file_apis i (s # ss) c =
     (case file_api i s of
        Inl err \<Rightarrow> Inl err
      | Inr api \<Rightarrow>
          file_apis (i + 1) ss
            (let c = on_verify (\<lambda>v. v\<lparr>vc_APIs := vc_APIs v @ [api]\<rparr>) c
             in if ac_DERPMapSync api
                then on_external (\<lambda>e. e\<lparr>ec_ValidationNames := ec_ValidationNames e @ [validation_name (c_TLSMode c) api]\<rparr>) c
                else c))"

definition file_urls_active :: "fileConfig \<Rightarrow> Config \<Rightarrow> Config" where
  "file_urls_active f c =
     (if file_urls f \<noteq> [] then
        on_verify (\<lambda>v. v\<lparr>vc_Enabled := (if field (fc_Verify f) fv_Enabled = None then True else vc_Enabled v),
                         vc_URLsEnabled := (if field (fc_Verify f) fv_URLEnabled = None then True else vc_URLsEnabled v)\<rparr>) c
      else c)"

definition apply_file :: "fileConfig \<Rightarrow> config_step" where
  "apply_file f =
     run_steps (file_service f @ file_external f @ file_verify f @
       [file_apis 0 (fc_VerifyAPI f), \<lambda>c. Inr (file_urls_active f (derive_external c))])"

section \<open>Files mean what their fields say\<close>

lemma run_steps_append:
  "run_steps (fs @ gs) c = (case run_steps fs c of Inl err \<Rightarrow> Inl err | Inr c' \<Rightarrow> run_steps gs c')"
  by (induction fs arbitrary: c) (auto split: sum.splits)

text \<open>The integers of a decoded file are of the type \<open>int\<close>.\<close>

definition file_int64 :: "fileConfig \<Rightarrow> bool" where
  "file_int64 f \<longleftrightarrow>
     list_all (pred_option int64_range)
       ([field (fc_Traffic f) fr_Interval, field (fc_External f) fe_LeaseSeconds, field (fc_External f) fe_RetrySeconds,
         field (fc_External f) fe_SyncInterval, field (fc_Verify f) fv_SyncInterval, field (fc_Verify f) fv_CacheTTL] @
        map fa_RegionID (fc_VerifyAPI f))"

lemma one_option:
  "(case (if b then [x] else []) of [] \<Rightarrow> None | y # ys \<Rightarrow> Some [ov_value (last (y # ys))]) = (if b then Some [ov_value x] else None)"
  "(if v \<noteq> None then Some [ov_value (optionString n v)] else None) = map_option (\<lambda>t. [t]) v"
  "(if b' \<noteq> None then Some [ov_value (optionBool n b')] else None) = map_option (\<lambda>b. [bool_text b]) b'"
  "(if i \<noteq> None then Some [ov_value (optionInt n i)] else None) = map_option (\<lambda>i. [Itoa i]) i"
  by (auto split: option.splits)

lemmas lookup_values = global_values_def tls_values_def mesh_values_def ops_values_def traffic_values_def external_values_def
  verify_values_def verify_api_values_def optionValues_lookup one_option Let_def

lemma file_lookups:
  "fmlookup (global_values g) ''enabled'' = map_option (\<lambda>b. [bool_text b]) (fg_Enabled g)"
  "fmlookup (global_values g) ''listen'' = map_option (\<lambda>t. [t]) (fg_Listen g)"
  "fmlookup (global_values g) ''stun'' = map_option (\<lambda>b. [bool_text b]) (fg_STUN g)"
  "fmlookup (tls_values t) ''certfile'' = map_option (\<lambda>t. [t]) (ft_CertFile t)"
  "fmlookup (tls_values t) ''keyfile'' = map_option (\<lambda>t. [t]) (ft_KeyFile t)"
  "fmlookup (tls_values t) ''mode'' = map_option (\<lambda>t. [t]) (ft_Mode t)"
  "fmlookup (tls_values t) ''state_dir'' = map_option (\<lambda>t. [t]) (ft_StateDir t)"
  "fmlookup (mesh_values m) ''enabled'' = map_option (\<lambda>b. [bool_text b]) (fm_Enabled m)"
  "fmlookup (mesh_values m) ''key'' = map_option (\<lambda>t. [t]) (fm_Key m)"
  "fmlookup (ops_values p) ''socket'' = map_option (\<lambda>t. [t]) (fo_Socket p)"
  "fmlookup (ops_values p) ''health'' = map_option (\<lambda>t. [t]) (fo_Health p)"
  "fmlookup (traffic_values r) ''persist'' = map_option (\<lambda>b. [bool_text b]) (fr_Persist r)"
  "fmlookup (traffic_values r) ''path'' = map_option (\<lambda>t. [t]) (fr_Path r)"
  "fmlookup (traffic_values r) ''interval'' = map_option (\<lambda>i. [Itoa i]) (fr_Interval r)"
  by (auto simp: lookup_values)

lemma file_lookups_api:
  "fmlookup (verify_api_values a) ''label'' = map_option (\<lambda>t. [t]) (fa_Label a)"
  "fmlookup (verify_api_values a) ''tailnet'' = map_option (\<lambda>t. [t]) (fa_Tailnet a)"
  "fmlookup (verify_api_values a) ''auth_type'' = map_option (\<lambda>t. [t]) (fa_AuthType a)"
  "fmlookup (verify_api_values a) ''api_key'' = map_option (\<lambda>t. [t]) (fa_APIKey a)"
  "fmlookup (verify_api_values a) ''oauth_client_id'' = map_option (\<lambda>t. [t]) (fa_OAuthClientID a)"
  "fmlookup (verify_api_values a) ''oauth_client_secret'' = map_option (\<lambda>t. [t]) (fa_OAuthClientSecret a)"
  "fmlookup (verify_api_values a) ''derpmap_sync'' = map_option (\<lambda>b. [bool_text b]) (fa_DERPMapSync a)"
  "fmlookup (verify_api_values a) ''stun_only'' = map_option (\<lambda>b. [bool_text b]) (fa_StunOnly a)"
  "fmlookup (verify_api_values a) ''region_id'' = map_option (\<lambda>i. [Itoa i]) (fa_RegionID a)"
  "fmlookup (verify_api_values a) ''region_code'' = map_option (\<lambda>t. [t]) (fa_RegionCode a)"
  "fmlookup (verify_api_values a) ''region_name'' = map_option (\<lambda>t. [t]) (fa_RegionName a)"
  "fmlookup (verify_api_values a) ''node_name'' = map_option (\<lambda>t. [t]) (fa_NodeName a)"
  "fmlookup (verify_api_values a) ''hostname'' = map_option (\<lambda>t. [t]) (fa_Hostname a)"
  "fmlookup (verify_api_values a) ''cert_name'' = map_option (\<lambda>t. [t]) (fa_CertName a)"
  by (auto simp: lookup_values)

lemma skip_list: "k \<noteq> key \<Longrightarrow> fmlookup (case v of None \<Rightarrow> m | Some vs \<Rightarrow> fmupd key vs m) k = fmlookup m k"
  by (simp split: option.split)

lemma file_lookups_external:
  "fmlookup (external_values e) ''enabled'' = map_option (\<lambda>b. [bool_text b]) (fe_Enabled e)"
  "fmlookup (external_values e) ''mode'' = map_option (\<lambda>t. [t]) (fe_Mode e)"
  "fmlookup (external_values e) ''address_family'' = map_option (\<lambda>t. [t]) (fe_AddressFamily e)"
  "fmlookup (external_values e) ''wan_interface'' = map_option (\<lambda>t. [t]) (fe_WANInterface e)"
  "fmlookup (external_values e) ''derp_port'' = map_option (\<lambda>t. [t]) (fe_DERPPort e)"
  "fmlookup (external_values e) ''stun_port'' = map_option (\<lambda>t. [t]) (fe_STUNPort e)"
  "fmlookup (external_values e) ''lease_seconds'' = map_option (\<lambda>i. [Itoa i]) (fe_LeaseSeconds e)"
  "fmlookup (external_values e) ''retry_seconds'' = map_option (\<lambda>i. [Itoa i]) (fe_RetrySeconds e)"
  "fmlookup (external_values e) ''sync_interval'' = map_option (\<lambda>i. [Itoa i]) (fe_SyncInterval e)"
  "fmlookup (external_values e) ''validate_endpoint'' = map_option (\<lambda>b. [bool_text b]) (fe_ValidateEndpoint e)"
  "fmlookup (verify_values v) ''enabled'' = map_option (\<lambda>b. [bool_text b]) (fv_Enabled v)"
  "fmlookup (verify_values v) ''url_enabled'' = map_option (\<lambda>b. [bool_text b]) (fv_URLEnabled v)"
  "fmlookup (verify_values v) ''tailscaled_enabled'' = map_option (\<lambda>b. [bool_text b]) (fv_TailscaledEnabled v)"
  "fmlookup (verify_values v) ''tailscaled_socket_enabled'' = map_option (\<lambda>b. [bool_text b]) (fv_TailscaledSocketEnabled v)"
  "fmlookup (verify_values v) ''tailscaled_socket'' = map_option (\<lambda>t. [t]) (fv_TailscaledSocket v)"
  "fmlookup (verify_values v) ''api_enabled'' = map_option (\<lambda>b. [bool_text b]) (fv_APIEnabled v)"
  "fmlookup (verify_values v) ''sync_interval'' = map_option (\<lambda>i. [Itoa i]) (fv_SyncInterval v)"
  "fmlookup (verify_values v) ''cache_ttl'' = map_option (\<lambda>i. [Itoa i]) (fv_CacheTTL v)"
  by (auto simp: lookup_values skip_list)

lemma file_lookups_lists:
  "(case fmlookup (external_values e) ''method'' of None \<Rightarrow> [] | Some vs \<Rightarrow> vs) = list_field (fe_Methods e)"
  "(case fmlookup (verify_values v) ''url'' of None \<Rightarrow> [] | Some vs \<Rightarrow> vs) = list_field (fv_URLs v)"
  by (cases "fe_Methods e"; simp add: lookup_values list_field_def) (cases "fv_URLs v"; simp add: lookup_values list_field_def)

text \<open>A step on the texts of a section and the step on the decoded field.\<close>

lemma uci_first_field:
  assumes "section_values u sect = map_option vals s" "\<And>x. fmlookup (vals x) key = map_option (\<lambda>t. [show t]) (get x)"
  shows "uci_first u sect key = map_option show (field s get)"
  using assms by (cases s) (auto simp: uci_first_def field_def split: option.split)

lemma opt_bool_field:
  "uci_first u sect key = map_option bool_text v \<Longrightarrow> opt_bool u sect key upd = set_bool v upd"
  by (rule ext) (simp add: opt_bool_def set_bool_def split: option.split)

lemma opt_text_field:
  "uci_first u sect key = map_option (\<lambda>t. t) v \<Longrightarrow> opt_text u sect key ok upd = set_text v ok upd"
  by (rule ext) (simp add: opt_text_def set_text_def option.map_ident split: option.split)

lemma opt_seconds_field:
  "uci_first u sect key = map_option Itoa v \<Longrightarrow> pred_option int64_range v \<Longrightarrow>
     opt_seconds u sect key skip upd = set_seconds v (sect @ ''.'' @ key) upd"
  by (rule ext, cases v) (simp_all add: opt_seconds_def set_seconds_def)

lemmas field_steps = opt_bool_field opt_text_field opt_seconds_field

lemma opt_interval_field:
  "uci_first u ''traffic'' ''interval'' = map_option Itoa v \<Longrightarrow> pred_option int64_range v \<Longrightarrow>
     opt_interval u = set_int v (\<lambda>n c. c\<lparr>c_TrafficInterval := n\<rparr>)"
  by (rule ext, cases v) (simp_all add: opt_interval_def set_int_def)

lemma uci_get_field:
  assumes "section_values u sect = map_option vals s"
    "\<And>x. (case fmlookup (vals x) key of None \<Rightarrow> [] | Some vs \<Rightarrow> vs) = list_field (get x)"
  shows "uci_get u sect key = list_field (field s get)"
  using assms by (cases s) (simp_all add: uci_get_def field_def list_field_def)

lemma service_steps_file:
  assumes "names_free f" "file_int64 f"
  shows "service_steps (toUCIConfig (Some f)) = file_service f"
proof -
  note v = toUCIConfig_values [OF assms(1)]
  note b = opt_bool_field [OF uci_first_field]
  note t = opt_text_field [OF uci_first_field]
  have i: "pred_option int64_range (field (fc_Traffic f) fr_Interval)" using assms(2) by (simp add: file_int64_def)
  show ?thesis
    unfolding service_steps_def file_service_def
    by (simp only: b [OF v(1) file_lookups(1)] t [OF v(1) file_lookups(2)] b [OF v(1) file_lookups(3)] t [OF v(2) file_lookups(4)]
        t [OF v(2) file_lookups(5)] t [OF v(2) file_lookups(6)] t [OF v(2) file_lookups(7)] b [OF v(3) file_lookups(8)]
        t [OF v(3) file_lookups(9)] t [OF v(4) file_lookups(10)] t [OF v(4) file_lookups(11)] b [OF v(5) file_lookups(12)]
        t [OF v(5) file_lookups(13)] opt_interval_field [OF uci_first_field [OF v(5) file_lookups(14)] i])
qed

lemma external_steps_file:
  assumes "names_free f" "file_int64 f"
  shows "external_steps (toUCIConfig (Some f)) = file_external f"
proof -
  note v = toUCIConfig_values(6) [OF assms(1)]
  note b = opt_bool_field [OF uci_first_field [OF v]]
  note t = opt_text_field [OF uci_first_field [OF v]]
  note n = opt_seconds_field [OF uci_first_field [OF v]]
  note l = file_lookups_external
  have i: "pred_option int64_range (field (fc_External f) fe_LeaseSeconds)" "pred_option int64_range (field (fc_External f) fe_RetrySeconds)"
    "pred_option int64_range (field (fc_External f) fe_SyncInterval)" using assms(2) by (simp_all add: file_int64_def)
  have m: "opt_methods (toUCIConfig (Some f)) =
      (\<lambda>c. Inr (if list_field (field (fc_External f) fe_Methods) \<noteq> []
                 then on_external (\<lambda>e. e\<lparr>ec_Methods := comma_parts ToLower (list_field (field (fc_External f) fe_Methods))\<rparr>) c else c))"
    by (rule ext) (simp add: opt_methods_def Let_def uci_get_field [OF v file_lookups_lists(1)])
  show ?thesis
    unfolding external_steps_def file_external_def
    by (simp only: m b [OF l(1)] t [OF l(2)] t [OF l(3)] t [OF l(4)] t [OF l(5)] t [OF l(6)] n [OF l(7) i(1)] n [OF l(8) i(2)]
        n [OF l(9) i(3)] b [OF l(10)]) simp
qed

lemma verify_urls_file: "names_free f \<Longrightarrow> verify_urls (toUCIConfig (Some f)) = file_urls f"
  by (simp add: verify_urls_def file_urls_def uci_get_field [OF toUCIConfig_values(7) file_lookups_lists(2)])

lemma verify_steps_file:
  assumes "names_free f" "file_int64 f"
  shows "verify_steps (toUCIConfig (Some f)) = file_verify f"
proof -
  note v = toUCIConfig_values(7) [OF assms(1)]
  note b = opt_bool_field [OF uci_first_field [OF v]]
  note t = opt_text_field [OF uci_first_field [OF v]]
  note n = opt_seconds_field [OF uci_first_field [OF v]]
  note l = file_lookups_external
  have i: "pred_option int64_range (field (fc_Verify f) fv_SyncInterval)" "pred_option int64_range (field (fc_Verify f) fv_CacheTTL)"
    using assms(2) by (simp_all add: file_int64_def)
  show ?thesis
    unfolding verify_steps_def file_verify_def
    by (simp only: verify_urls_file [OF assms(1)] b [OF l(11)] b [OF l(12)] b [OF l(13)] b [OF l(14)] t [OF l(15)] b [OF l(16)]
        n [OF l(17) i(1)] n [OF l(18) i(2)]) simp
qed

lemma firstSectionValue_file:
  "us_values s = verify_api_values a \<Longrightarrow> fmlookup (verify_api_values a) key = map_option (\<lambda>t. [show t]) v \<Longrightarrow>
     firstSectionValue s key = trimmed (map_option show v)"
  by (simp add: firstSectionValue_def trimmed_def split: option.split)

lemma bool_text_trimmed [simp]: "TrimSpace (bool_text b) = bool_text b" "bool_text b \<noteq> []"
proof -
  have "TrimSpace ''1'' = ''1''" "TrimSpace ''0'' = ''0''" by code_simp+
  then show "TrimSpace (bool_text b) = bool_text b" "bool_text b \<noteq> []" by (simp_all add: bool_text_def)
qed

lemma section_api_file:
  assumes "pred_option int64_range (fa_RegionID a)"
  shows "section_api \<lparr>us_typ = ''verify_api'', us_name = verify_api_name i a, us_values = verify_api_values a\<rparr> = file_api i a"
proof -
  let ?s = "\<lparr>us_typ = ''verify_api'', us_name = verify_api_name i a, us_values = verify_api_values a\<rparr>"
  have val: "us_values ?s = verify_api_values a" by simp
  note f = firstSectionValue_file [OF val]
  have b: "section_bool ?s ''derpmap_sync'' = Some (fa_DERPMapSync a = Some True)" "section_bool ?s ''stun_only'' = Some (fa_StunOnly a = Some True)"
    by (simp_all add: section_bool_def f [OF file_lookups_api(7)] f [OF file_lookups_api(8)] trimmed_def split: option.split)
  have r: "section_int ?s ''region_id'' = Some (case fa_RegionID a of None \<Rightarrow> 0 | Some n \<Rightarrow> n)"
    using assms by (cases "fa_RegionID a") (simp_all add: section_int_def f [OF file_lookups_api(9)] trimmed_def)
  note t = file_lookups_api
  note strs = f [OF t(1), simplified option.map_ident] f [OF t(2), simplified option.map_ident] f [OF t(3), simplified option.map_ident]
    f [OF t(4), simplified option.map_ident] f [OF t(5), simplified option.map_ident] f [OF t(6), simplified option.map_ident]
    f [OF t(10), simplified option.map_ident] f [OF t(11), simplified option.map_ident] f [OF t(12), simplified option.map_ident]
    f [OF t(13), simplified option.map_ident] f [OF t(14), simplified option.map_ident]
  show ?thesis
    by (simp add: section_api_def section_auth_def b r strs file_api_def api_option_def Let_def)
qed

lemma add_apis_file:
  "list_all (\<lambda>a. pred_option int64_range (fa_RegionID a)) as \<Longrightarrow> run_steps (map add_api (api_sections i as)) c = file_apis i as c"
  by (induction i as c rule: file_apis.induct)
    (auto simp: add_api_def section_api_file Let_def split: sum.splits)

lemma toUCIConfig_apply:
  assumes "names_free f" "file_int64 f"
  shows "applyUCIConfig (Some (toUCIConfig (Some f))) c = apply_file f c"
proof -
  let ?u = "toUCIConfig (Some f)"
  have enabled: "uci_first ?u ''verify'' ''enabled'' = None \<longleftrightarrow> field (fc_Verify f) fv_Enabled = None"
    "uci_first ?u ''verify'' ''url_enabled'' = None \<longleftrightarrow> field (fc_Verify f) fv_URLEnabled = None"
    using uci_first_field [OF toUCIConfig_values(7) [OF assms(1)] file_lookups_external(11)]
      uci_first_field [OF toUCIConfig_values(7) [OF assms(1)] file_lookups_external(12)] by simp_all
  have keep: "keep_url_configs ?u x = file_urls_active f x" for x
    by (simp add: keep_url_configs_def file_urls_active_def verify_urls_file [OF assms(1)] enabled)
  have apis: "run_steps (map add_api (api_sections 0 (fc_VerifyAPI f))) x = file_apis 0 (fc_VerifyAPI f) x" for x
    using assms(2) by (intro add_apis_file) (simp add: file_int64_def list_all_iff)
  show ?thesis
    by (simp add: applyUCIConfig_def apply_file_def service_steps_file [OF assms] external_steps_file [OF assms]
        verify_steps_file [OF assms] toUCIConfig_apis keep run_steps_append apis split: sum.split)
qed


section \<open>An example\<close>

definition demo_instance :: fileVerifyAPIConfig where
  "demo_instance =
     \<lparr>fa_Name = ''home'', fa_Label = None, fa_Tailnet = Some ''example.com'', fa_AuthType = None, fa_APIKey = Some ''key'',
      fa_OAuthClientID = None, fa_OAuthClientSecret = None, fa_DERPMapSync = Some True, fa_StunOnly = None, fa_RegionID = Some 901,
      fa_RegionCode = Some ''home'', fa_RegionName = Some ''Home'', fa_NodeName = Some ''901a'', fa_Hostname = Some ''derp.example.com'',
      fa_CertName = None\<rparr>"

definition demo_file :: fileConfig where
  "demo_file =
     \<lparr>fc_Global = Some \<lparr>fg_Enabled = Some True, fg_Listen = None, fg_STUN = None\<rparr>,
      fc_TLS = Some \<lparr>ft_CertFile = None, ft_KeyFile = None, ft_Mode = Some ''self_signed'', ft_StateDir = None\<rparr>,
      fc_Mesh = None, fc_Ops = None, fc_Traffic = None,
      fc_External = Some \<lparr>fe_Enabled = Some True, fe_Mode = None, fe_AddressFamily = None, fe_Methods = None, fe_WANInterface = None,
        fe_DERPPort = Some ''443'', fe_STUNPort = None, fe_LeaseSeconds = Some 3600, fe_RetrySeconds = None, fe_SyncInterval = None,
        fe_ValidateEndpoint = None\<rparr>,
      fc_Verify = None, fc_VerifyAPI = [demo_instance]\<rparr>"

definition demo_tags :: build_tags where
  "demo_tags = \<lparr>bt_uciconfig = True, bt_jsonconfig = True, bt_yamlconfig = True\<rparr>"

definition demo_files :: "string \<Rightarrow> config_file" where
  "demo_files path =
     \<lparr>cl_stat = None, cl_contents = Inr ([], None), cl_json = Inr (demo_file, Some DecodeEOF), cl_yaml = Inl DecodeEOF\<rparr>"

lemma demo_file_ok: "names_free demo_file" "file_int64 demo_file"
  by (simp_all add: names_free_def file_int64_def demo_file_def demo_instance_def field_def int64_range_def reserved_def)


text \<open>An API instance named as a section hides it: here the service the file enables stays disabled.\<close>

lemma instance_name_hides_section:
  "uci_first (toUCIConfig (Some (demo_file\<lparr>fc_VerifyAPI := [demo_instance\<lparr>fa_Name := ''global''\<rparr>]\<rparr>))) ''global'' ''enabled'' = None"
  by (simp add: toUCIConfig_def demo_file_def uci_first_def section_values_addSection verify_api_name_def demo_instance_def
      verify_api_values_def optionValues_lookup)

end
