(* ===== verification/ConfigSafety.thy ===== *)
theory ConfigSafety
  imports ConfigFormats EndpointSafety
begin

text \<open>
  Theorems on the configuration: a configuration the program goes on to serve with satisfies what the endpoint manager
  and the servers rely on; bounds of the durations read from files; options of JSON and YAML files mean what their fields
  say; the UCI parser reads back what a UCI file says.
\<close>

section \<open>Configurations that are served\<close>

lemma first_problem_None: "first_problem ps = None \<longleftrightarrow> (\<forall>p\<in>set ps. p = None)"
  by (induction ps) (auto split: option.splits)

lemma problem_if_None [simp]: "problem_if b why = None \<longleftrightarrow> \<not> b"
  by (simp add: problem_if_def)

lemma validateConfig_Inr:
  "validateConfig c = Inr c' \<longleftrightarrow> c' = fill_defaults c \<and> (\<forall>p\<in>set (config_problems c'). p = None)"
proof (cases "first_problem (config_problems (fill_defaults c))")
  case None
  then have "\<forall>p\<in>set (config_problems (fill_defaults c)). p = None" by (simp only: first_problem_None)
  with None show ?thesis by (auto simp: validateConfig_def Let_def)
next
  case (Some err)
  then have "\<not> (\<forall>p\<in>set (config_problems (fill_defaults c)). p = None)" by (simp flip: first_problem_None)
  with Some show ?thesis by (auto simp: validateConfig_def Let_def)
qed

lemma validated_config:
  assumes "validateConfig b = Inr c"
  shows "c_Listen c \<noteq> []" "c_Mesh c \<Longrightarrow> c_MeshKey c \<noteq> []" "c_CertFile c = [] \<longleftrightarrow> c_KeyFile c = []"
    "c_TLSMode c = ''manual'' \<or> c_TLSMode c = ''self_signed''"
    "validateOptionalPortBinding ''listen'' (c_Listen c) = None"
    "validateExternalPort ''external.derp_port'' (ec_DERPPort (c_External c)) = None"
    "validateExternalPort ''external.stun_port'' (ec_STUNPort (c_External c)) = None"
    "ec_AddressFamily (c_External c) = ''ipv4'' \<or> ec_AddressFamily (c_External c) = ''ipv6'' \<or> ec_AddressFamily (c_External c) = ''dual''"
    "ec_Mode (c_External c) = ''nat'' \<or> ec_Mode (c_External c) = ''direct''"
    "set (ec_Methods (c_External c)) \<subseteq> set allowed_methods"
    "api \<in> set (vc_APIs (c_Verify c)) \<Longrightarrow> api_problem c api = None"
    "ec_Enabled (c_External c) \<Longrightarrow> ec_TLSConfigured (c_External c)"
proof -
  have all: "\<forall>p\<in>set (config_problems c). p = None" using assms by (simp add: validateConfig_Inr)
  then have ps: "p = None" if "p \<in> set (config_problems c)" for p using that by blast
  from all show "c_Listen c \<noteq> []" "c_Mesh c \<Longrightarrow> c_MeshKey c \<noteq> []" "c_CertFile c = [] \<longleftrightarrow> c_KeyFile c = []"
    "c_TLSMode c = ''manual'' \<or> c_TLSMode c = ''self_signed''"
    "validateOptionalPortBinding ''listen'' (c_Listen c) = None"
    "validateExternalPort ''external.derp_port'' (ec_DERPPort (c_External c)) = None"
    "validateExternalPort ''external.stun_port'' (ec_STUNPort (c_External c)) = None"
    "ec_AddressFamily (c_External c) = ''ipv4'' \<or> ec_AddressFamily (c_External c) = ''ipv6'' \<or> ec_AddressFamily (c_External c) = ''dual''"
    "ec_Mode (c_External c) = ''nat'' \<or> ec_Mode (c_External c) = ''direct''"
    "ec_Enabled (c_External c) \<Longrightarrow> ec_TLSConfigured (c_External c)"
    by (auto simp: config_problems_def Let_def)
  show "set (ec_Methods (c_External c)) \<subseteq> set allowed_methods"
  proof
    fix m assume "m \<in> set (ec_Methods (c_External c))"
    then have "method_problem m = None" by (intro ps) (auto simp: config_problems_def Let_def)
    then show "m \<in> set allowed_methods" by (simp add: method_problem_def split: if_splits)
  qed
  show "api \<in> set (vc_APIs (c_Verify c)) \<Longrightarrow> api_problem c api = None"
    by (intro ps) (auto simp: config_problems_def Let_def)
qed

lemma binding_port:
  assumes "validateOptionalPortBinding name v = None" "v \<noteq> []"
  obtains host port n where "SplitHostPort v = Inr (host, port)" "ParseUint 16 port = Some n" "0 < n" "n < 65536"
proof -
  from assms obtain host port n where "SplitHostPort v = Inr (host, port)" "ParseUint 16 port = Some n" "n \<noteq> 0"
    by (auto simp: validateOptionalPortBinding_def split: if_splits sum.splits option.splits)
  moreover then have "n < 65536" by (simp add: ParseUint_def split: if_splits)
  ultimately show thesis using that by simp
qed

text \<open>The validation and the manager read a port the same way. \<open>requestedPort\<close> lowers the case and trims; a text that
  parses as a number is left alone by both.\<close>

lemma digit_fixed: "is_digit c \<Longrightarrow> to_lower_char c = c \<and> \<not> is_space c"
  by (auto simp: is_digit_def to_lower_char_def is_space_def char_code_def)

lemma digits_fixed:
  assumes "list_all is_digit s"
  shows "TrimSpace (ToLower s) = s"
proof -
  have "ToLower s = s" using assms digit_fixed by (induction s) (auto simp: ToLower_def)
  moreover have "s \<noteq> [] \<Longrightarrow> \<not> is_space (hd s) \<and> \<not> is_space (last s)"
    using assms digit_fixed by (simp add: list_all_iff)
  ultimately show ?thesis unfolding TrimSpace_def by (metis TrimFunc_fixed)
qed

lemma validated_port_requested:
  assumes "validateExternalPort name v = None"
  shows "\<exists>port strict. requestedPort v local = Inr (port, strict) \<and> (port = 0 \<longrightarrow> local = 0)"
proof (cases "v = [] \<or> EqualFold v ''auto''")
  case True
  have "ToLower ''auto'' = ''auto''" "TrimSpace ''auto'' = ''auto''" "TrimSpace [] = []" "ToLower [] = []" by code_simp+
  with True have "TrimSpace (ToLower v) = [] \<or> TrimSpace (ToLower v) = ''auto''" by (auto simp: EqualFold_def)
  then show ?thesis by (auto simp: requestedPort_def)
next
  case False
  with assms obtain n where n: "ParseUint 16 v = Some n" "n \<noteq> 0"
    by (auto simp: validateExternalPort_def split: option.splits if_splits)
  then have "list_all is_digit v" "n < 65536" by (auto simp: ParseUint_def split: if_splits)
  moreover have "word_of_nat n \<noteq> (0::uint16)" using n \<open>n < 65536\<close> by (simp add: word_of_nat_eq_0_iff nat_dvd_not_less)
  moreover have "v \<noteq> ''auto''" using False by (auto simp: EqualFold_def)
  ultimately show ?thesis using n False by (auto simp: requestedPort_def digits_fixed Let_def)
qed

lemma main_startup_Serve:
  assumes "main_startup configPath openFile newCert keyPair args = Serve c"
  obtains b where "buildConfig configPath args openFile = Inr b" "validateConfig b = Inr c" "c_Enabled c"
    "c_TLSMode c = ''self_signed'' \<longrightarrow> newCert (c_TLSStateDir c) (selfSignedNames c) = None"
    "c_TLSMode c \<noteq> ''self_signed'' \<and> ec_Enabled (c_External c) \<longrightarrow> keyPair (c_CertFile c) (c_KeyFile c) = None"
  using assms by (auto simp: main_startup_def split: if_splits sum.splits option.splits)

lemma built_tls:
  assumes "buildConfig configPath args openFile = Inr b" "validateConfig b = Inr c"
  shows "ec_TLSConfigured (c_External c) = tls_configured c" "ec_STUNEnabled (c_External c) = c_STUN c" "0 < c_TrafficInterval c"
    "c_TrafficPath c \<noteq> []"
proof -
  from assms(1) obtain x where b: "b = finish_config x" by (auto simp: buildConfig_def split: sum.splits)
  have c: "c = fill_defaults b" using assms(2) by (simp add: validateConfig_Inr)
  show "ec_TLSConfigured (c_External c) = tls_configured c" "ec_STUNEnabled (c_External c) = c_STUN c"
    by (simp_all add: b c fill_defaults_def finish_config_def derive_external_def on_external_def tls_configured_def Let_def)
  show "0 < c_TrafficInterval c"
    by (simp add: b c fill_defaults_def finish_config_def derive_external_def on_external_def defaultTrafficInterval_def Let_def)
  have "TrimSpace [] = []" by code_simp
  then show "c_TrafficPath c \<noteq> []"
    by (auto simp: b c fill_defaults_def finish_config_def derive_external_def on_external_def defaultTrafficPath_def Let_def)
qed


text \<open>A service that is served with an external endpoint has a certificate: its own, made by the certificate manager, or
  the pair of files, which has been loaded; a mesh has a key; and every instance whose DERP map is to be changed has
  credentials, a region of the numbers set aside for custom regions, and the names a region needs.\<close>

theorem served_config_publishes_safely:
  assumes "main_startup configPath openFile newCert keyPair args = Serve c"
  shows "(ec_Enabled (c_External c) \<longrightarrow>
       c_TLSMode c = ''self_signed'' \<and> newCert (c_TLSStateDir c) (selfSignedNames c) = None \<or>
       c_CertFile c \<noteq> [] \<and> c_KeyFile c \<noteq> [] \<and> keyPair (c_CertFile c) (c_KeyFile c) = None) \<and>
    (c_Mesh c \<longrightarrow> c_MeshKey c \<noteq> []) \<and>
    (\<forall>api\<in>set (vc_APIs (c_Verify c)). ac_DERPMapSync api \<longrightarrow>
       ec_Enabled (c_External c) \<and> isConfigured api \<and> 900 \<le> ac_RegionID api \<and> ac_RegionID api \<le> 999 \<and>
       TrimSpace (ac_Hostname api) \<noteq> [] \<and> TrimSpace (ac_RegionCode api) \<noteq> [] \<and> ac_Hostname api \<in> set (selfSignedNames c))"
proof -
  obtain b where b: "buildConfig configPath args openFile = Inr b" "validateConfig b = Inr c"
    "c_TLSMode c = ''self_signed'' \<longrightarrow> newCert (c_TLSStateDir c) (selfSignedNames c) = None"
    "c_TLSMode c \<noteq> ''self_signed'' \<and> ec_Enabled (c_External c) \<longrightarrow> keyPair (c_CertFile c) (c_KeyFile c) = None"
    using assms by (rule main_startup_Serve)
  note v = validated_config [OF b(2)]
  have tls: "ec_Enabled (c_External c) \<Longrightarrow> tls_configured c" using v(12) built_tls(1) [OF b(1,2)] by simp
  have api: "ac_DERPMapSync api \<Longrightarrow> ec_Enabled (c_External c) \<and> isConfigured api \<and> 900 \<le> ac_RegionID api \<and> ac_RegionID api \<le> 999 \<and>
       TrimSpace (ac_Hostname api) \<noteq> [] \<and> TrimSpace (ac_RegionCode api) \<noteq> []" if "api \<in> set (vc_APIs (c_Verify c))" for api
    using v(11) [OF that] by (simp add: api_problem_def split: if_splits)
  from tls b(3,4) v(2) api show ?thesis by (auto simp: tls_configured_def selfSignedNames_def)
qed

section \<open>Steps\<close>

text \<open>A step that leaves a part \<open>g\<close> of the configuration as it is.\<close>

definition keeps :: "(Config \<Rightarrow> 'a) \<Rightarrow> config_step \<Rightarrow> bool" where
  "keeps g f \<longleftrightarrow> (\<forall>c c'. f c = Inr c' \<longrightarrow> g c' = g c)"

lemma run_steps_keeps: "run_steps fs c = Inr c' \<Longrightarrow> list_all (keeps g) fs \<Longrightarrow> g c' = g c"
  by (induction fs arbitrary: c) (auto simp: keeps_def split: sum.splits)

text \<open>The step that decides a part of the configuration.\<close>

lemma run_steps_decides:
  assumes "run_steps (pre @ f # post) c = Inr c'" "list_all (keeps g) post"
  obtains c1 c2 where "run_steps pre c = Inr c1" "f c1 = Inr c2" "g c' = g c2"
proof -
  from assms(1) obtain c1 c2 where "run_steps pre c = Inr c1" "f c1 = Inr c2" "run_steps post c2 = Inr c'"
    by (auto simp: run_steps_append split: sum.splits)
  with run_steps_keeps [OF this(3) assms(2)] that show thesis by simp
qed

named_theorems step_keeps \<open>steps that leave a part of the configuration as it is\<close>

lemma keeps_opt_bool [step_keeps]: "(\<And>b c. g (upd b c) = g c) \<Longrightarrow> keeps g (opt_bool u sect key upd)"
  by (auto simp: keeps_def opt_bool_def split: option.splits)

lemma keeps_opt_text [step_keeps]: "(\<And>v c. g (upd v c) = g c) \<Longrightarrow> keeps g (opt_text u sect key ok upd)"
  by (auto simp: keeps_def opt_text_def split: option.splits)

lemma keeps_opt_seconds [step_keeps]: "(\<And>d c. g (upd d c) = g c) \<Longrightarrow> keeps g (opt_seconds u sect key skip upd)"
  by (auto simp: keeps_def opt_seconds_def split: option.splits if_splits)

section \<open>Durations\<close>

lemma seconds_exact:
  assumes "0 < n" "n < 2 ^ 63"
  shows "seconds_duration n = n * second \<longleftrightarrow> n \<le> 9223372036"
proof -
  have eq: "seconds_duration n = signed_take_bit 63 (n * 1000000000)"
    unfolding seconds_duration_def second_def by (subst signed_of_int) simp
  show ?thesis
  proof (cases "n \<le> 9223372036")
    case True
    then show ?thesis using assms unfolding eq second_def by (subst signed_take_bit_int_eq_self) simp_all
  next
    case False
    have "seconds_duration n < 2 ^ 63" unfolding eq by (rule signed_take_bit_int_less_exp)
    with False show ?thesis by (auto simp: second_def)
  qed
qed

lemma seconds_range: "- (2 ^ 63) \<le> seconds_duration n" "seconds_duration n < 2 ^ 63"
  using sint_ge [of "word_of_int (n * second) :: int64"] sint_lt [of "word_of_int (n * second) :: int64"]
  by (simp_all add: seconds_duration_def)

lemma Atoi_range: "Atoi s = Some n \<Longrightarrow> - (2 ^ 63) \<le> n \<and> n < 2 ^ 63"
  by (auto simp: Atoi_def Let_def split: if_splits prod.splits)

lemma keeps_add_api [step_keeps]:
  "(\<And>f c. g (on_verify f c) = g c) \<Longrightarrow> (\<And>x c. g (on_external (\<lambda>e. e\<lparr>ec_ValidationNames := x e\<rparr>) c) = g c) \<Longrightarrow> keeps g (add_api s)"
  by (auto simp: keeps_def add_api_def Let_def split: sum.splits)

lemma keeps_pure [step_keeps]: "(\<And>c. g (h c) = g c) \<Longrightarrow> keeps g (\<lambda>c. Inr (h c))"
  by (simp add: keeps_def)

lemmas part_simps = on_external_def on_verify_def keep_url_configs_def derive_external_def

lemma keeps_lease_rest:
  "list_all (keeps (\<lambda>c. ec_LeaseDuration (c_External c))) (drop 8 (external_steps u) @ verify_steps u @ map add_api ss @
     [\<lambda>c. Inr (keep_url_configs u (derive_external c))])"
proof -
  have "keeps (\<lambda>c. ec_LeaseDuration (c_External c)) (add_api s)" for s
    by (rule keeps_add_api) (simp_all add: part_simps)
  then have "list_all (keeps (\<lambda>c. ec_LeaseDuration (c_External c))) (map add_api ss)" by (simp add: list_all_iff)
  then show ?thesis
    unfolding external_steps_def verify_steps_def
    by (simp only: list_all_append list.pred_inject drop_Suc_Cons drop0 numeral_eq_Suc pred_numeral_simps BitM.simps)
      (intro conjI step_keeps TrueI; simp add: part_simps)
qed

text \<open>A lease in the configuration file is a positive number of 64 bits, and the manager always gets a positive duration (C31). It is
  the duration the file says exactly up to 9223372036 seconds; above, the product wraps, and a negative one becomes two
  hours.\<close>

theorem lease_duration_bounds:
  assumes "applyUCIConfig (Some u) c0 = Inr c" "uci_first u ''external'' ''lease_seconds'' = Some v"
  shows "\<exists>n. Atoi v = Some n \<and> 0 < n \<and> (ec_LeaseDuration (c_External c) = n * second \<longleftrightarrow> n \<le> 9223372036) \<and>
    0 < ec_LeaseDuration (normalized_config (c_External c)) \<and> ec_LeaseDuration (normalized_config (c_External c)) < 2 ^ 63"
proof -
  let ?lease = "opt_seconds u ''external'' ''lease_seconds'' False (\<lambda>d. on_external (\<lambda>e. e\<lparr>ec_LeaseDuration := d\<rparr>))"
  let ?rest = "verify_steps u @ map add_api (sectionsOfType u ''verify_api'') @ [\<lambda>c. Inr (keep_url_configs u (derive_external c))]"
  have split: "external_steps u @ xs = take 7 (external_steps u) @ ?lease # drop 8 (external_steps u) @ xs" for xs
    by (simp add: external_steps_def)
  have "run_steps ((service_steps u @ take 7 (external_steps u)) @ ?lease # drop 8 (external_steps u) @ ?rest) c0 = Inr c"
    using assms(1) unfolding applyUCIConfig_def option.case split append_assoc .
  then obtain c1 c2 where c2: "?lease c1 = Inr c2" "ec_LeaseDuration (c_External c) = ec_LeaseDuration (c_External c2)"
    using keeps_lease_rest by (rule run_steps_decides)
  from c2(1) assms(2) obtain n where n: "Atoi v = Some n" "0 < n" "ec_LeaseDuration (c_External c2) = seconds_duration n"
    by (auto simp: opt_seconds_def on_external_def split: option.splits if_splits)
  moreover have "n < 2 ^ 63" using Atoi_range [OF n(1)] by simp
  ultimately show ?thesis using c2(2) seconds_exact [of n] seconds_range [of n]
    by (auto simp: normalized_config_def duration_defs)
qed

section \<open>An example\<close>

lemma demo_ports:
  "ParseUint 16 ''3478'' = Some 3478" "ParseUint 16 ''9912'' = Some 9912" "ParseUint 16 ''443'' = Some 443"
  by (simp_all add: ParseUint_def decimal_def digit_value_def is_digit_def char_code_def)

lemma demo_bindings: "validateOptionalPortBinding name '':3478'' = None" "validateOptionalPortBinding name '':9912'' = None"
proof -
  have "SplitHostPort '':3478'' = Inr ([], ''3478'')" "SplitHostPort '':9912'' = Inr ([], ''9912'')"
    "TrimSpace '':3478'' = '':3478''" "TrimSpace '':9912'' = '':9912''" by code_simp+
  then show "validateOptionalPortBinding name '':3478'' = None" "validateOptionalPortBinding name '':9912'' = None"
    by (simp_all add: validateOptionalPortBinding_def demo_ports)
qed

lemma demo_external_ports: "validateExternalPort name ''auto'' = None" "validateExternalPort name ''443'' = None"
  by (simp_all add: validateExternalPort_def EqualFold_def demo_ports)

lemma demo_texts:
  "TrimSpace ''self_signed'' = ''self_signed''" "ToLower ''self_signed'' = ''self_signed''" "TrimSpace ''443'' = ''443''"
  "TrimSpace ''example.com'' = ''example.com''" "TrimSpace ''key'' = ''key''" "TrimSpace ''home'' = ''home''" "TrimSpace ''Home'' = ''Home''"
  "TrimSpace ''901a'' = ''901a''" "TrimSpace ''derp.example.com'' = ''derp.example.com''" "TrimSpace [] = []" "TrimSpace ''-'' = ''-''"
  "TrimSpace defaultTrafficPath \<noteq> []" "TrimSpace ''/var/lib/tailscale-derp/tls'' = ''/var/lib/tailscale-derp/tls''"
  by code_simp+

definition demo_api_config :: APIConfig where
  "demo_api_config =
     \<lparr>ac_Name = ''home'', ac_Label = [], ac_Tailnet = ''example.com'', ac_AuthType = APIAuthTypeAPIKey, ac_APIKey = ''key'',
      ac_OAuthClientID = [], ac_OAuthClientSecret = [], ac_DERPMapSync = True, ac_StunOnly = False, ac_RegionID = 901,
      ac_RegionCode = ''home'', ac_RegionName = ''Home'', ac_NodeName = ''901a'', ac_Hostname = ''derp.example.com'', ac_CertName = []\<rparr>"

definition demo_config :: Config where
  "demo_config = default_config\<lparr>c_Enabled := True, c_TLSMode := ''self_signed'',
     c_External := (c_External default_config)\<lparr>ec_Enabled := True, ec_DERPPort := ''443'', ec_LeaseDuration := seconds_duration 3600,
       ec_ValidationNames := [''derp.example.com''], ec_STUNEnabled := True, ec_TLSConfigured := True\<rparr>,
     c_Verify := (c_Verify default_config)\<lparr>vc_APIs := [demo_api_config]\<rparr>\<rparr>"

lemma demo_apply: "apply_file demo_file default_config = Inr demo_config"
proof -
  have api: "file_api 0 demo_instance = Inr demo_api_config"
    by (simp add: file_api_def demo_instance_def trimmed_def demo_texts verify_api_name_def demo_api_config_def)
  have "run_steps (file_service demo_file) default_config = Inr (default_config\<lparr>c_Enabled := True, c_TLSMode := ''self_signed''\<rparr>)"
    by (simp add: file_service_def demo_file_def field_def set_bool_def set_text_def set_int_def not_blank_def demo_texts)
  moreover have "run_steps (file_external demo_file) c = Inr (c\<lparr>c_External :=
      (c_External c)\<lparr>ec_Enabled := True, ec_DERPPort := ''443'', ec_LeaseDuration := seconds_duration 3600\<rparr>\<rparr>)" for c
    by (simp add: file_external_def demo_file_def field_def set_bool_def set_text_def set_seconds_def not_blank_def demo_texts
        on_external_def list_field_def)
  moreover have "run_steps (file_verify demo_file) c = Inr (c\<lparr>c_Verify := (c_Verify c)\<lparr>vc_URLs := []\<rparr>\<rparr>)" for c
    by (simp add: file_verify_def demo_file_def field_def set_bool_def set_text_def set_seconds_def on_verify_def list_field_def
        file_urls_def comma_parts_def)
  moreover have "file_urls demo_file = []" by (simp add: file_urls_def demo_file_def field_def list_field_def comma_parts_def)
  moreover have "fc_VerifyAPI demo_file = [demo_instance]" by (simp add: demo_file_def)
  ultimately show ?thesis
    by (simp add: apply_file_def run_steps_append api file_urls_active_def derive_external_def on_external_def on_verify_def
        validation_name_def tls_configured_def demo_config_def default_config_def Let_def demo_api_config_def)
qed

lemma demo_serves:
  "main_startup ''/etc/derp.json'' (loadConfigFile demo_tags demo_files) (\<lambda>_ _. None) (\<lambda>_ _. Some ''unused'') [] = Serve demo_config"
proof -
  have ext: "ToLower (filepath_Ext ''/etc/derp.json'') = ''.json''" by code_simp
  have "loadConfigFile demo_tags demo_files ''/etc/derp.json'' = Inr (toUCIConfig (Some demo_file))"
    by (simp add: loadConfigFile_def demo_files_def demo_tags_def ext loadJSONConfig_def decode_document_def)
  then have "from_file (loadConfigFile demo_tags demo_files) ''/etc/derp.json'' = Inr demo_config"
    by (simp add: from_file_def toUCIConfig_apply [OF demo_file_ok] demo_apply)
  then have "buildConfig ''/etc/derp.json'' [] (loadConfigFile demo_tags demo_files) = Inr demo_config"
    by (simp add: buildConfig_def newFlagSet_def default_flags_def applyFlagOverrides_def flag_val_def flag_text_def flag_urls_def
        boolFlagProvided_def finish_config_def derive_external_def on_external_def tls_configured_def demo_config_def
        default_config_def demo_texts defaultTrafficInterval_def Let_def)
  moreover have "isConfigured demo_api_config" by (simp add: isConfigured_def demo_api_config_def demo_texts)
  then have "validateConfig demo_config = Inr demo_config"
    by (simp add: validateConfig_Inr fill_defaults_def config_problems_def on_external_def demo_config_def default_config_def
        demo_bindings demo_external_ports demo_texts method_problem_def allowed_methods_def api_problem_def Let_def)
      (simp add: demo_api_config_def demo_texts)
  moreover have "c_Enabled demo_config" "c_TLSMode demo_config = ''self_signed''" by (simp_all add: demo_config_def)
  ultimately show ?thesis by (simp add: main_startup_def)
qed


theorem served_config_publishes_safely_witness:
  "ec_Enabled (c_External demo_config) \<and> demo_api_config \<in> set (vc_APIs (c_Verify demo_config)) \<and>
   isConfigured demo_api_config \<and> selfSignedNames demo_config = [''derp.example.com'']"
proof -
  have c: "ec_Enabled (c_External demo_config)" "demo_api_config \<in> set (vc_APIs (c_Verify demo_config))" "ac_DERPMapSync demo_api_config"
    "selfSignedNames demo_config = [''derp.example.com'']"
    by (simp_all add: demo_config_def demo_api_config_def selfSignedNames_def)
  then show ?thesis using served_config_publishes_safely [OF demo_serves] by auto
qed

theorem lease_duration_bounds_witness:
  "ec_LeaseDuration (c_External demo_config) = 3600 * second"
proof -
  let ?u = "toUCIConfig (Some demo_file)"
  have first: "uci_first ?u ''external'' ''lease_seconds'' = Some ''3600''"
  proof -
    have "Itoa 3600 = ''3600''" by code_simp
    moreover have "field (fc_External demo_file) fe_LeaseSeconds = Some 3600" by (simp add: demo_file_def field_def)
    ultimately show ?thesis
      using uci_first_field [OF toUCIConfig_values(6) [OF demo_file_ok(1)] file_lookups_external(7)] by simp
  qed
  have "applyUCIConfig (Some ?u) default_config = Inr demo_config" by (simp add: toUCIConfig_apply [OF demo_file_ok] demo_apply)
  from lease_duration_bounds [OF this first] obtain n where n: "Atoi ''3600'' = Some n"
    "ec_LeaseDuration (c_External demo_config) = n * second \<longleftrightarrow> n \<le> 9223372036" by blast
  moreover have "Atoi ''3600'' = Some 3600"
    by (simp add: Atoi_def decimal_def digit_value_def is_digit_def char_code_def)
  ultimately show ?thesis by simp
qed

section \<open>Two consequences of the order of the code\<close>

text \<open>An interval of the traffic statistics that passes the test for a positive number may still give a negative duration.\<close>

lemma traffic_interval_wraps: "0 < (9223372037 :: int) \<and> seconds_duration 9223372037 < 0"
  by code_simp

text \<open>The names the endpoint is validated with are taken while the file is read, before the flag \<open>-tls-self-signed\<close> has set the
  mode: with a certificate name in the file the validation asks for that name, and the certificate has the host name.\<close>

lemma validation_names_precede_flags:
  "boolFlagProvided fs ''tls-self-signed'' \<Longrightarrow>
     ec_ValidationNames (c_External (finish_config (applyFlagOverrides fs c))) = ec_ValidationNames (c_External c)"
  by (simp add: finish_config_def applyFlagOverrides_def derive_external_def on_external_def Let_def)

end
