(* ===== verification/UciRoundTrip.thy ===== *)
theory UciRoundTrip
  imports UciConfig
begin

text \<open>
  The UCI parser reads back what a UCI file says. A document is a list of sections with their entries; \<open>uci_text\<close> writes it as
  the files of OpenWrt have it, with quoted names and values, and \<open>doc_config\<close> is what it means.
\<close>

section \<open>Documents\<close>

datatype uci_entry = UOption string string | UList string string

text \<open>A section: its type, its name unless it is anonymous, and its entries.\<close>

type_synonym uci_doc = "(string \<times> string option \<times> uci_entry list) list"

definition quoted :: "string \<Rightarrow> string" where
  "quoted v = CHR 0x27 # v @ [CHR 0x27]"

fun entry_line :: "uci_entry \<Rightarrow> string" where
  "entry_line (UOption k v) = CHR 0x09 # ''option '' @ k @ '' '' @ quoted v"
| "entry_line (UList k v) = CHR 0x09 # ''list '' @ k @ '' '' @ quoted v"

fun section_lines :: "string \<times> string option \<times> uci_entry list \<Rightarrow> string list" where
  "section_lines (t, n, es) = (''config '' @ t @ (case n of None \<Rightarrow> [] | Some name \<Rightarrow> '' '' @ quoted name)) # map entry_line es"

definition doc_lines :: "uci_doc \<Rightarrow> string list" where
  "doc_lines doc = concat (map section_lines doc)"

definition uci_text :: "uci_doc \<Rightarrow> string" where
  "uci_text doc = concat (map (\<lambda>l. l @ [CHR 0x0A]) (doc_lines doc))"

text \<open>What an entry does to the options of its section, and the configuration of a document.\<close>

fun entry_values :: "(string, string list) fmap \<Rightarrow> uci_entry \<Rightarrow> (string, string list) fmap" where
  "entry_values vs (UOption k v) = fmupd k [v] vs"
| "entry_values vs (UList k v) = fmupd k ((case fmlookup vs k of None \<Rightarrow> [] | Some xs \<Rightarrow> xs) @ [v]) vs"

fun add_doc_section :: "uciConfig \<Rightarrow> string \<times> string option \<times> uci_entry list \<Rightarrow> uciConfig" where
  "add_doc_section u (t, n, es) =
     addSection t (case n of None \<Rightarrow> find_candidate (uc_values u) t 1 | Some name \<Rightarrow> name) (foldl entry_values fmempty es) u"

definition doc_config :: "uci_doc \<Rightarrow> uciConfig" where
  "doc_config doc = foldl add_doc_section empty_uci doc"

text \<open>Documents that can be written: types, names and keys are words, no quotes at the ends of anything, the words of a value
  are separated by single spaces, and no line is too long.\<close>

definition is_word :: "string \<Rightarrow> bool" where
  "is_word w \<longleftrightarrow> w \<noteq> [] \<and> list_all (\<lambda>c. \<not> is_space c) w \<and> trimQuotes w = w"

definition is_value :: "string \<Rightarrow> bool" where
  "is_value v \<longleftrightarrow> trimQuotes (quoted v) = v \<and> Join '' '' (Fields (quoted v)) = quoted v"

fun entry_ok :: "uci_entry \<Rightarrow> bool" where
  "entry_ok (UOption k v) = (is_word k \<and> is_value v)"
| "entry_ok (UList k v) = (is_word k \<and> is_value v)"

fun section_ok :: "string \<times> string option \<times> uci_entry list \<Rightarrow> bool" where
  "section_ok (t, n, es) = (is_word t \<and> (case n of None \<Rightarrow> True | Some name \<Rightarrow> is_word name) \<and> list_all entry_ok es)"

definition doc_ok :: "uci_doc \<Rightarrow> bool" where
  "doc_ok doc \<longleftrightarrow> list_all section_ok doc \<and> list_all (\<lambda>l. length l < MaxScanTokenSize) (doc_lines doc)"

section \<open>Lines\<close>

lemma Fields_word: "w \<noteq> [] \<Longrightarrow> list_all (\<lambda>c. \<not> is_space c) w \<Longrightarrow> is_space c \<Longrightarrow> Fields (w @ c # rest) = w # Fields rest"
  by (simp add: Fields_def FieldsFunc_def SplitFunc_prefix list_all_iff)

lemma Fields_single: "w \<noteq> [] \<Longrightarrow> list_all (\<lambda>c. \<not> is_space c) w \<Longrightarrow> Fields w = [w]"
  by (simp add: Fields_def FieldsFunc_def SplitFunc_whole list_all_iff)

lemma raw_lines_concat:
  "list_all (\<lambda>l. CHR 0x0A \<notin> set l) ls \<Longrightarrow> raw_lines (concat (map (\<lambda>l. l @ [CHR 0x0A]) ls)) = ls"
proof -
  assume "list_all (\<lambda>l. CHR 0x0A \<notin> set l) ls"
  then have "SplitChar CHR 0x0A (concat (map (\<lambda>l. l @ [CHR 0x0A]) ls)) = ls @ [[]]"
  proof (induction ls)
    case (Cons l ls)
    then have "\<forall>c\<in>set l. c \<noteq> CHR 0x0A" by auto
    with Cons show ?case
      using SplitFunc_prefix [of l "\<lambda>c. c = CHR 0x0A" "CHR 0x0A"] by (simp add: SplitChar_def)
  qed (simp add: SplitChar_def)
  then show ?thesis by (simp add: raw_lines_def)
qed

lemma trim_line:
  assumes "L \<noteq> []" "\<not> is_space (hd L)" "\<not> is_space (last L)"
  shows "TrimSpace L = L" "TrimSpace (CHR 0x09 # L) = L" "dropCR L = L" "dropCR (CHR 0x09 # L) = CHR 0x09 # L"
proof -
  show "TrimSpace L = L" unfolding TrimSpace_def using assms by (intro TrimFunc_fixed) simp
  moreover have "TrimSpace (CHR 0x09 # L) = TrimSpace L" by (simp add: TrimSpace_def TrimFunc_def is_space_def)
  ultimately show "TrimSpace (CHR 0x09 # L) = L" by simp
  have "last L \<noteq> CHR 0x0D" using assms(3) by (auto simp: is_space_def)
  then have "hd (rev L) \<noteq> CHR 0x0D" "rev L \<noteq> []" using assms(1) by (simp_all add: hd_rev)
  then have "\<not> HasPrefix (rev L) [CHR 0x0D]" "\<not> HasPrefix (rev L @ [CHR 0x09]) [CHR 0x0D]" by (cases "rev L"; simp)+
  then show "dropCR L = L" "dropCR (CHR 0x09 # L) = CHR 0x09 # L" by (simp_all add: dropCR_def TrimSuffix_def)
qed

lemma trimQuotes_quoted: "is_word w \<Longrightarrow> trimQuotes (quoted w) = w"
proof -
  assume "is_word w"
  then have w: "w \<noteq> []" "TrimFunc (\<lambda>c. c = CHR 0x27 \<or> c = CHR 0x22) w = w" by (simp_all add: is_word_def trimQuotes_def)
  obtain x xs where x: "w = x # xs" using w(1) by (cases w) auto
  obtain ys y where y: "w = ys @ [y]" using w(1) by (cases w rule: rev_cases) auto
  have ends: "hd w = x" "last w = y" by (simp add: x, simp add: y)
  have "\<not> (hd w = CHR 0x27 \<or> hd w = CHR 0x22) \<and> \<not> (last w = CHR 0x27 \<or> last w = CHR 0x22)"
    using TrimFunc_ends [of "\<lambda>c. c = CHR 0x27 \<or> c = CHR 0x22" w] w by simp
  then have "x \<noteq> CHR 0x27 \<and> x \<noteq> CHR 0x22" "y \<noteq> CHR 0x27 \<and> y \<noteq> CHR 0x22" unfolding ends by auto
  then have "dropWhile (\<lambda>c. c = CHR 0x27 \<or> c = CHR 0x22) (w @ [CHR 0x27]) = w @ [CHR 0x27]"
    "dropWhile (\<lambda>c. c = CHR 0x27 \<or> c = CHR 0x22) (rev w) = rev w" by (simp add: x, simp add: y)
  then show ?thesis by (simp add: trimQuotes_def TrimFunc_def quoted_def)
qed

lemma quoted_ends [simp]: "quoted v \<noteq> []" "hd (quoted v) = CHR 0x27" "last (quoted v) = CHR 0x27"
  by (simp_all add: quoted_def)

lemma quote_not_space [simp]: "\<not> is_space CHR 0x27"
  by (simp add: is_space_def)

lemma word_ends: "is_word w \<Longrightarrow> w \<noteq> [] \<and> \<not> is_space (hd w) \<and> \<not> is_space (last w)"
  by (auto simp: is_word_def list_all_iff)

lemma is_value_Fields: "is_value v \<Longrightarrow> Fields (quoted v) \<noteq> []"
  by (auto simp: is_value_def quoted_def)

lemma entry_fields:
  assumes "is_word k" "is_value v"
  shows "Fields (''option '' @ k @ '' '' @ quoted v) = ''option'' # k # Fields (quoted v)"
    "Fields (''list '' @ k @ '' '' @ quoted v) = ''list'' # k # Fields (quoted v)"
proof -
  have sp: "is_space CHR '' ''" by (simp add: is_space_def)
  have k: "Fields (k @ CHR '' '' # quoted v) = k # Fields (quoted v)"
    using assms(1) sp by (intro Fields_word) (simp_all add: is_word_def)
  have "Fields (''option'' @ CHR '' '' # (k @ CHR '' '' # quoted v)) = ''option'' # Fields (k @ CHR '' '' # quoted v)"
    "Fields (''list'' @ CHR '' '' # (k @ CHR '' '' # quoted v)) = ''list'' # Fields (k @ CHR '' '' # quoted v)"
    by (rule Fields_word; simp add: is_space_def)+
  with k show "Fields (''option '' @ k @ '' '' @ quoted v) = ''option'' # k # Fields (quoted v)"
    "Fields (''list '' @ k @ '' '' @ quoted v) = ''list'' # k # Fields (quoted v)" by simp_all
qed

lemma uci_line_entry:
  assumes "entry_ok e" "up_section p \<noteq> []"
  shows "uci_line i (dropCR (entry_line e)) p =
    Inr (p\<lparr>up_parsed := update_values (up_section p) (\<lambda>vs. entry_values vs e) (up_parsed p)\<rparr>)"
proof (cases e)
  case (UOption k v)
  let ?L = "''option '' @ k @ '' '' @ quoted v"
  have "\<not> is_space (hd ?L)" "\<not> is_space (last ?L)" by (simp_all add: is_space_def)
  note t = trim_line [of ?L, OF _ this]
  have ok: "is_word k" "is_value v" using assms UOption by simp_all
  have "length (Fields (quoted v)) \<noteq> 0" using is_value_Fields [OF ok(2)] by simp
  then show ?thesis using assms(2) ok t(2,4) entry_fields [OF ok]
    by (simp add: UOption uci_line_def Let_def is_word_def is_value_def)
next
  case (UList k v)
  let ?L = "''list '' @ k @ '' '' @ quoted v"
  have "\<not> is_space (hd ?L)" "\<not> is_space (last ?L)" by (simp_all add: is_space_def)
  note t = trim_line [of ?L, OF _ this]
  have ok: "is_word k" "is_value v" using assms UList by simp_all
  have "length (Fields (quoted v)) \<noteq> 0" using is_value_Fields [OF ok(2)] by simp
  then show ?thesis using assms(2) ok t(2,4) entry_fields [OF ok]
    by (simp add: UList uci_line_def Let_def is_word_def is_value_def)
qed

lemma uci_line_config:
  assumes "is_word t" "case n of None \<Rightarrow> True | Some name \<Rightarrow> is_word name"
    and name: "name = (case n of None \<Rightarrow> find_candidate (uc_values (up_parsed p)) t 1 | Some name \<Rightarrow> name)"
  shows "uci_line i (dropCR (''config '' @ t @ (case n of None \<Rightarrow> [] | Some name \<Rightarrow> '' '' @ quoted name))) p =
    Inr \<lparr>up_parsed = addSection t name fmempty (up_parsed p), up_section = name, up_type = t\<rparr>"
proof -
  let ?L = "''config '' @ t @ (case n of None \<Rightarrow> [] | Some name \<Rightarrow> '' '' @ quoted name)"
  have "\<not> is_space (hd ?L)" "\<not> is_space (last ?L)" using word_ends [OF assms(1)] by (auto simp: is_space_def split: option.split)
  note tr = trim_line [of ?L, OF _ this]
  have sp: "is_space CHR '' ''" by (simp add: is_space_def)
  have c: "Fields (''config'' @ CHR '' '' # xs) = ''config'' # Fields xs" for xs by (rule Fields_word; simp add: is_space_def)
  have f: "Fields ?L = ''config'' # t # (case n of None \<Rightarrow> [] | Some name \<Rightarrow> [quoted name])"
  proof (cases n)
    case None
    then show ?thesis using c [of t] assms(1) Fields_single [of t] by (simp add: is_word_def)
  next
    case (Some m)
    have "Fields (t @ CHR '' '' # quoted m) = t # Fields (quoted m)" using assms(1) sp by (intro Fields_word) (simp_all add: is_word_def)
    moreover have "Fields (quoted m) = [quoted m]" using assms(2) Some by (intro Fields_single) (simp_all add: is_word_def quoted_def)
    ultimately show ?thesis using Some c [of "t @ CHR '' '' # quoted m"] by simp
  qed
  have "trimQuotes t = t" using assms(1) by (simp add: is_word_def)
  moreover have "trimQuotes (quoted m) = m \<and> m \<noteq> []" if "n = Some m" for m
    using assms(2) that trimQuotes_quoted [of m] by (simp add: is_word_def)
  ultimately show ?thesis using tr(1,3) f by (auto simp: uci_line_def name Let_def split: option.split)
qed

section \<open>Reading a document back\<close>

lemma update_added: "update_values n f (addSection t n vs u) = addSection t n (f vs) u"
  by (simp add: update_values_def addSection_def)

lemma find_candidate_fresh: "fmlookup values (find_candidate values t i) = None"
  by (induction "values" t i rule: find_candidate.induct) (subst find_candidate.simps, simp)

lemma find_candidate_least:
  "\<exists>j\<ge>i. find_candidate vs t i = candidate t j \<and> (\<forall>k. i \<le> k \<and> k < j \<longrightarrow> fmlookup vs (candidate t k) \<noteq> None)"
proof (induction vs t i rule: find_candidate.induct)
  case (1 vs t i)
  show ?case
  proof (cases "fmlookup vs (candidate t i) = None")
    case True
    then show ?thesis by (intro exI [of _ i]) (auto simp: find_candidate.simps [of vs t i])
  next
    case False
    from 1 [OF False] obtain j where j: "i + 1 \<le> j" "find_candidate vs t (i + 1) = candidate t j"
      "\<forall>k. i + 1 \<le> k \<and> k < j \<longrightarrow> fmlookup vs (candidate t k) \<noteq> None" by blast
    have "fmlookup vs (candidate t k) \<noteq> None" if "i \<le> k" "k < j" for k
      using that j(3) False by (cases "k = i") auto
    moreover have "find_candidate vs t i = candidate t j" using j(2) False by (auto simp: find_candidate.simps [of vs t i])
    ultimately show ?thesis using j(1) by (intro exI [of _ j]) auto
  qed
qed

lemma candidate_not_empty [simp]: "candidate t i \<noteq> []"
  by (simp add: candidate_def)

lemma uci_lines_entries:
  assumes "list_all entry_ok es" "list_all (\<lambda>e. length (entry_line e) < MaxScanTokenSize) es" "n \<noteq> []"
  shows "uci_lines i (map entry_line es @ rest) \<lparr>up_parsed = addSection t n vs u, up_section = n, up_type = t\<rparr> =
    uci_lines (i + length es) rest \<lparr>up_parsed = addSection t n (foldl entry_values vs es) u, up_section = n, up_type = t\<rparr>"
  using assms(1,2)
proof (induction es arbitrary: i vs)
  case (Cons e es)
  then show ?case using assms(3) by (simp add: uci_line_entry update_added)
qed simp

lemma uci_lines_doc:
  assumes "list_all section_ok doc" "list_all (\<lambda>l. length l < MaxScanTokenSize) (doc_lines doc)"
  shows "\<exists>p'. uci_lines i (doc_lines doc @ rest) p = uci_lines (i + length (doc_lines doc)) rest p' \<and>
    up_parsed p' = foldl add_doc_section (up_parsed p) doc"
  using assms
proof (induction doc arbitrary: i p)
  case (Cons d doc)
  obtain t n es where d: "d = (t, n, es)" by (cases d)
  define name where "name = (case n of None \<Rightarrow> find_candidate (uc_values (up_parsed p)) t 1 | Some name \<Rightarrow> name)"
  have ok: "is_word t" "case n of None \<Rightarrow> True | Some name \<Rightarrow> is_word name" "list_all entry_ok es" using Cons.prems d by simp_all
  have len: "length (hd (section_lines d)) < MaxScanTokenSize" "list_all (\<lambda>e. length (entry_line e) < MaxScanTokenSize) es"
    "list_all (\<lambda>l. length l < MaxScanTokenSize) (doc_lines doc)"
    using Cons.prems(2) by (simp_all add: d doc_lines_def list_all_iff)
  have ne: "name \<noteq> []" using ok(2) find_candidate_least [of 1 "uc_values (up_parsed p)" t]
    by (auto simp: name_def is_word_def split: option.splits)
  have "uci_lines i (doc_lines (d # doc) @ rest) p =
      uci_lines (i + 1) (map entry_line es @ doc_lines doc @ rest) \<lparr>up_parsed = addSection t name fmempty (up_parsed p), up_section = name, up_type = t\<rparr>"
    using len(1) uci_line_config [OF ok(1,2) name_def, of i] by (simp add: d doc_lines_def)
  also have "\<dots> = uci_lines (i + 1 + length es) (doc_lines doc @ rest)
      \<lparr>up_parsed = add_doc_section (up_parsed p) d, up_section = name, up_type = t\<rparr>"
    using uci_lines_entries [OF ok(3) len(2) ne] by (simp add: d name_def)
  finally have "uci_lines i (doc_lines (d # doc) @ rest) p = \<dots>" .
  moreover have "list_all section_ok doc" using Cons.prems(1) by simp
  moreover have "i + 1 + length es + length (doc_lines doc) = i + length (doc_lines (d # doc))" by (simp add: d doc_lines_def)
  ultimately show ?case
    using Cons.IH [OF _ len(3), of "i + 1 + length es" "\<lparr>up_parsed = add_doc_section (up_parsed p) d, up_section = name, up_type = t\<rparr>"]
    by (simp only: foldl_Cons uci_parser.simps)
qed (auto simp: doc_lines_def)

lemma doc_lines_plain:
  assumes "list_all section_ok doc"
  shows "list_all (\<lambda>l. CHR 0x0A \<notin> set l) (doc_lines doc)"
proof -
  have sp: "is_space CHR 0x0A" by (simp add: is_space_def)
  have w: "is_word w \<Longrightarrow> CHR 0x0A \<notin> set w" for w using sp by (auto simp: is_word_def list_all_iff)
  have j: "\<forall>x\<in>set ws. CHR 0x0A \<notin> set x \<Longrightarrow> CHR 0x0A \<notin> set (Join '' '' ws)" for ws
    by (induction "'' ''::string" ws rule: Join.induct) auto
  have v: "CHR 0x0A \<notin> set (quoted v)" if "is_value v" for v
  proof -
    have "\<forall>x\<in>set (Fields (quoted v)). CHR 0x0A \<notin> set x" using FieldsFunc_pieces sp by (fastforce simp: Fields_def)
    from j [OF this] that show ?thesis by (simp add: is_value_def)
  qed
  have e: "entry_ok e \<Longrightarrow> CHR 0x0A \<notin> set (entry_line e)" for e using w v by (cases e) auto
  have "section_ok s \<Longrightarrow> list_all (\<lambda>l. CHR 0x0A \<notin> set l) (section_lines s)" for s
    using w e by (cases s) (auto simp: list_all_iff quoted_def split: option.splits)
  then show ?thesis using assms by (auto simp: doc_lines_def list_all_iff)
qed


text \<open>The search for the name of an anonymous section ends, with the first number that is free: no section loses its name to
  it, and looking up any other name gives what it gave before.\<close>

theorem anonymous_section_named:
  assumes "uci_wf u"
  shows "\<exists>i\<ge>1. find_candidate (uc_values u) t 1 = candidate t i \<and> section_values u (candidate t i) = None \<and>
    (\<forall>k. 1 \<le> k \<and> k < i \<longrightarrow> section_values u (candidate t k) \<noteq> None) \<and>
    (\<forall>m. m \<noteq> candidate t i \<longrightarrow> section_values (addSection t (find_candidate (uc_values u) t 1) vs u) m = section_values u m)"
proof -
  obtain i where i: "1 \<le> i" "find_candidate (uc_values u) t 1 = candidate t i"
    "\<forall>k. 1 \<le> k \<and> k < i \<longrightarrow> fmlookup (uc_values u) (candidate t k) \<noteq> None"
    using find_candidate_least [of 1 "uc_values u" t] by blast
  have "fmlookup (uc_values u) (candidate t i) = None" using find_candidate_fresh [of "uc_values u" t 1] i(2) by simp
  moreover have "section_values (addSection t (candidate t i) vs u) m = section_values u m" if "m \<noteq> candidate t i" for m
    using assms that by (simp add: section_values_addSection)
  ultimately show ?thesis using i by (intro exI [of _ i]) (simp add: section_values_def)
qed

section \<open>An example\<close>

definition demo_doc :: uci_doc where
  "demo_doc =
     [(''global'', Some ''global'', [UOption ''enabled'' ''1'']),
      (''verify_api'', None, [UOption ''label'' ''home net'', UOption ''label'' ''lab'']),
      (''external'', Some ''external'', [UList ''method'' ''pcp'', UList ''method'' ''upnp''])]"

lemma demo_doc_ok: "doc_ok demo_doc"
proof -
  have "list_all section_ok demo_doc" by code_simp
  moreover have "list_all (\<lambda>l. length l < MaxScanTokenSize) (doc_lines demo_doc)"
    by (simp add: demo_doc_def doc_lines_def quoted_def MaxScanTokenSize_def)
  ultimately show ?thesis by (simp add: doc_ok_def)
qed


theorem anonymous_section_named_witness:
  "\<exists>i\<ge>1. find_candidate (uc_values (addSection ''t'' ''t_1'' fmempty empty_uci)) ''t'' 1 = candidate ''t'' i \<and> i \<noteq> 1"
proof -
  let ?u = "addSection ''t'' ''t_1'' fmempty empty_uci"
  have c: "candidate ''t'' 1 = ''t_1''" by code_simp
  obtain i where i: "1 \<le> i" "find_candidate (uc_values ?u) ''t'' 1 = candidate ''t'' i" "section_values ?u (candidate ''t'' i) = None"
    using anonymous_section_named [of ?u "''t''" fmempty] by (auto simp del: find_candidate.simps)
  moreover have "i \<noteq> 1"
  proof
    assume "i = 1"
    with i(3) c show False by (simp add: section_values_addSection)
  qed
  ultimately show ?thesis by blast
qed

end
