(* ===== verification/UciTyping.thy ===== *)
theory UciTyping
  imports UciRoundTrip
begin

text \<open>
  Well-formed configurations, as a type that every step of the UCI parser preserves: names stand for sections of their name, sections
  have names, and keys have values. So the lookups of \<^verbatim>\<open>main.go\<close> never find an empty list, and no line writes to a map that is not there.
\<close>

definition section_typed :: "uciSection \<Rightarrow> bool" where
  "section_typed s \<longleftrightarrow> us_name s \<noteq> [] \<and> fmpred (\<lambda>_ vs. vs \<noteq> []) (us_values s)"

definition config_typed :: "uciConfig \<Rightarrow> bool" where
  "config_typed u \<longleftrightarrow> uci_wf u \<and> (\<forall>s \<in> set (uc_sections u). section_typed s \<and> fmlookup (uc_values u) (us_name s) \<noteq> None)"

definition parser_typed :: "uci_parser \<Rightarrow> bool" where
  "parser_typed p \<longleftrightarrow> config_typed (up_parsed p) \<and> (up_section p \<noteq> [] \<longrightarrow> section_values (up_parsed p) (up_section p) \<noteq> None)"

lemma config_typed_addSection:
  "config_typed u \<Longrightarrow> n \<noteq> [] \<Longrightarrow> config_typed (addSection t n fmempty u)"
  by (auto simp: config_typed_def section_typed_def addSection_def uci_wf_def nth_append less_Suc_eq)

lemma addSection_values: "fmlookup (uc_values (addSection t n vs u)) n = Some (length (uc_sections u))"
  by (simp add: addSection_def)

lemma update_values_frame_uci:
  "uc_values (update_values n f u) = uc_values u" "length (uc_sections (update_values n f u)) = length (uc_sections u)"
  "i < length (uc_sections u) \<Longrightarrow> us_name (uc_sections (update_values n f u) ! i) = us_name (uc_sections u ! i)"
proof -
  show "uc_values (update_values n f u) = uc_values u" "length (uc_sections (update_values n f u)) = length (uc_sections u)"
    by (simp_all add: update_values_def split: option.split)
  show "i < length (uc_sections u) \<Longrightarrow> us_name (uc_sections (update_values n f u) ! i) = us_name (uc_sections u ! i)"
    by (cases "fmlookup (uc_values u) n"; cases "fmlookup (uc_values u) n = Some i") (auto simp: update_values_def)
qed

lemma update_values_set:
  assumes "uci_wf u" "s \<in> set (uc_sections (update_values n f u))"
  shows "s \<in> set (uc_sections u) \<or> (\<exists>s' \<in> set (uc_sections u). s = s'\<lparr>us_values := f (us_values s')\<rparr>)"
proof (cases "fmlookup (uc_values u) n")
  case (Some i)
  let ?s = "uc_sections u ! i"
  from Some assms(1) have i: "?s \<in> set (uc_sections u)" by (simp add: uci_wf_def)
  from Some assms(2) have "s \<in> set ((uc_sections u)[i := ?s\<lparr>us_values := f (us_values ?s)\<rparr>])" by (simp add: update_values_def)
  with set_update_subset_insert [of "uc_sections u" i] have "s = ?s\<lparr>us_values := f (us_values ?s)\<rparr> \<or> s \<in> set (uc_sections u)" by blast
  with i show ?thesis by blast
qed (use assms(2) in \<open>simp add: update_values_def\<close>)

lemma config_typed_update:
  assumes "config_typed u" "\<And>vs. fmpred (\<lambda>_ vs. vs \<noteq> []) vs \<Longrightarrow> fmpred (\<lambda>_ vs. vs \<noteq> []) (f vs)"
  shows "config_typed (update_values n f u)"
proof -
  have wf: "uci_wf u" using assms(1) by (simp add: config_typed_def)
  have "uci_wf (update_values n f u)" using wf by (simp add: uci_wf_def update_values_frame_uci)
  moreover have "section_typed s \<and> fmlookup (uc_values (update_values n f u)) (us_name s) \<noteq> None"
    if "s \<in> set (uc_sections (update_values n f u))" for s
    using update_values_set [OF wf that] assms by (auto simp: config_typed_def section_typed_def update_values_frame_uci)
  ultimately show ?thesis by (simp add: config_typed_def)
qed

lemma find_candidate_not_empty: "find_candidate vs t i \<noteq> []"
  by (induction vs t i rule: find_candidate.induct) (subst find_candidate.simps, simp add: candidate_not_empty)

text \<open>Preservation: a line that is accepted.\<close>

lemma uci_line_typed:
  assumes "uci_line n raw p = Inr p'" "parser_typed p"
  shows "parser_typed p'"
  using assms
  by (auto simp: uci_line_def Let_def parser_typed_def find_candidate_not_empty section_values_def update_values_frame_uci addSection_values
      intro!: config_typed_addSection config_typed_update split: if_splits list.splits option.splits)

lemma uci_lines_typed: "uci_lines n ls p = Inr p' \<Longrightarrow> parser_typed p \<Longrightarrow> parser_typed p'"
proof (induction n ls p rule: uci_lines.induct)
  case (2 n raw rest p)
  then obtain p1 where "uci_line n (dropCR raw) p = Inr p1" "uci_lines (n + 1) rest p1 = Inr p'" "\<not> MaxScanTokenSize \<le> length raw"
    by (auto split: if_splits sum.splits)
  with 2 uci_line_typed show ?case by blast
qed simp

lemma parser_start_typed: "parser_typed parser_start"
  by (simp add: parser_typed_def parser_start_def config_typed_def empty_uci_def uci_wf_def)


lemma lines_never_dangle: "uci_lines 1 ls parser_start = Inr p \<Longrightarrow> up_section p \<noteq> [] \<Longrightarrow> section_values (up_parsed p) (up_section p) \<noteq> None"
  using uci_lines_typed [OF _ parser_start_typed] by (auto simp: parser_typed_def)

end
