(* ===== verification/ParseAddr.thy ===== *)
theory ParseAddr
  imports NetipText
begin

text \<open>
  \<open>ParseAddr\<close> of Go's \<^verbatim>\<open>net/netip\<close>: dotted IPv4 addresses with fields of at most 255 and no leading zeros, IPv6 addresses with at
  most one \<open>::\<close>, an IPv4 tail and a zone. \<open>ParsePrefix\<close>: an address without zone and a number of bits; \<open>ParseAddrPort\<close>: an address, in brackets
  when it is an IPv6 address, and a port. \<^term>\<open>None\<close> stands for every error.
\<close>

definition v4_field :: "string \<Rightarrow> nat option" where
  "v4_field s =
     (if s \<noteq> [] \<and> list_all is_digit s \<and> (length s = 1 \<or> hd s \<noteq> CHR ''0'') \<and> length s \<le> 3 \<and> decimal s \<le> 255
      then Some (decimal s) else None)"

definition parseIPv4 :: "string \<Rightarrow> nat list option" where
  "parseIPv4 s =
     (case map v4_field (SplitChar CHR ''.'' s) of
        [Some a, Some b, Some c, Some d] \<Rightarrow> Some [a, b, c, d]
      | _ \<Rightarrow> None)"

definition hex_value :: "char \<Rightarrow> nat option" where
  "hex_value c =
     (let k = char_code c
      in if is_digit c then Some (k - 48) else if 97 \<le> k \<and> k \<le> 102 then Some (k - 87) else if 65 \<le> k \<and> k \<le> 70 then Some (k - 55) else None)"

definition is_hex :: "char \<Rightarrow> bool" where
  "is_hex c \<longleftrightarrow> hex_value c \<noteq> None"

definition hex_number :: "string \<Rightarrow> nat" where
  "hex_number s = foldl (\<lambda>n c. 16 * n + the (hex_value c)) 0 s"

text \<open>The loop over the groups: \<open>n\<close> groups of two bytes may still come; the groups so far, and how many of them stood before
  the \<open>::\<close>, if there was one.\<close>

fun v6_groups :: "nat \<Rightarrow> nat list \<Rightarrow> nat option \<Rightarrow> string \<Rightarrow> (nat list \<times> nat option) option" where
  "v6_groups 0 gs ell s = (if s = [] then Some (gs, ell) else None)"
| "v6_groups (Suc n) gs ell s =
     (let g = takeWhile is_hex s; rest = dropWhile is_hex s
      in if g = [] \<or> 4 < length g then None
         else if rest \<noteq> [] \<and> hd rest = CHR ''.'' then
           (if (ell = None \<and> length gs \<noteq> 6) \<or> 6 < length gs then None
            else (case parseIPv4 s of
                    Some [a, b, c, d] \<Rightarrow> Some (gs @ [256 * a + b, 256 * c + d], ell)
                  | _ \<Rightarrow> None))
         else (let gs = gs @ [hex_number g]
               in case rest of
                    [] \<Rightarrow> Some (gs, ell)
                  | c # s \<Rightarrow>
                      if c \<noteq> CHR '':'' \<or> s = [] then None
                      else if hd s = CHR '':'' then
                        (if ell \<noteq> None then None
                         else if tl s = [] then Some (gs, Some (length gs))
                         else v6_groups n gs (Some (length gs)) (tl s))
                      else v6_groups n gs ell s))"

definition v6_expand :: "nat list \<times> nat option \<Rightarrow> nat list option" where
  "v6_expand ge =
     (case ge of
        (gs, None) \<Rightarrow> if length gs = 8 then Some gs else None
      | (gs, Some k) \<Rightarrow> if length gs < 8 then Some (take k gs @ replicate (8 - length gs) 0 @ drop k gs) else None)"

definition groups_word :: "nat list \<Rightarrow> 128 word" where
  "groups_word gs = word_of_nat (foldl (\<lambda>n g. 65536 * n + g) 0 gs)"

definition parseIPv6 :: "string \<Rightarrow> Addr option" where
  "parseIPv6 s =
     (let body = takeWhile (\<lambda>c. c \<noteq> CHR ''%'') s; tail = dropWhile (\<lambda>c. c \<noteq> CHR ''%'') s; zone = drop 1 tail
      in if tail \<noteq> [] \<and> zone = [] then None
         else if body = ''::'' then Some (Addr6 0 zone)
         else (case (if HasPrefix body ''::'' then v6_groups 8 [] (Some 0) (drop 2 body) else v6_groups 8 [] None body) of
                 None \<Rightarrow> None
               | Some ge \<Rightarrow> map_option (\<lambda>gs. Addr6 (groups_word gs) zone) (v6_expand ge)))"

definition ParseAddr :: "string \<Rightarrow> Addr option" where
  "ParseAddr s =
     (case dropWhile (\<lambda>c. c \<noteq> CHR ''.'' \<and> c \<noteq> CHR '':'' \<and> c \<noteq> CHR ''%'') s of
        [] \<Rightarrow> None
      | c # _ \<Rightarrow>
          if c = CHR ''.'' then map_option (\<lambda>fs. Addr4 (word_of_nat (foldl (\<lambda>n f. 256 * n + f) 0 fs))) (parseIPv4 s)
          else if c = CHR '':'' then parseIPv6 s
          else None)"

definition prefix_bits :: "string \<Rightarrow> nat option" where
  "prefix_bits s =
     (if s \<noteq> [] \<and> list_all is_digit s \<and> (length s = 1 \<or> hd s \<noteq> CHR ''0'') then Some (decimal s) else None)"

definition ParsePrefix :: "string \<Rightarrow> (Addr \<times> nat) option" where
  "ParsePrefix s =
     (if CHR ''/'' \<notin> set s then None
      else (let bits = rev (takeWhile (\<lambda>c. c \<noteq> CHR ''/'') (rev s)); addr = take (length s - length bits - 1) s
            in case (ParseAddr addr, prefix_bits bits) of
                 (Some (Addr4 w), Some n) \<Rightarrow> if n \<le> 32 then Some (Addr4 w, n) else None
               | (Some (Addr6 w zone), Some n) \<Rightarrow> if zone = [] \<and> n \<le> 128 then Some (Addr6 w [], n) else None
               | _ \<Rightarrow> None))"

text \<open>\<open>AddrPort\<close>: the text before the last colon and the text after it.\<close>

definition ParseAddrPort :: "string \<Rightarrow> AddrPort option" where
  "ParseAddrPort s =
     (if CHR '':'' \<notin> set s then None
      else (let port = rev (takeWhile (\<lambda>c. c \<noteq> CHR '':'') (rev s)); ip = take (length s - length port - 1) s
            in if ip = [] \<or> port = [] then None
               else (let v6 = (hd ip = CHR ''['')
                     in if v6 \<and> (length ip < 2 \<or> last ip \<noteq> CHR '']'') then None
                        else (case (ParseUint 16 port, ParseAddr (if v6 then butlast (tl ip) else ip)) of
                                (Some n, Some a) \<Rightarrow> if v6 \<and> Is4 a \<or> \<not> v6 \<and> Is6 a then None else Some (AddrPort a (word_of_nat n))
                              | _ \<Rightarrow> None))))"

end
