(* ===== verification/Cert.thy ===== *)
theory Cert
  imports ParseAddr "HOL-Library.List_Lexorder" "HOL-Library.Char_ord"
begin

text \<open>
  \<^verbatim>\<open>internal/cert/manager.go\<close>: the self-signed certificate of the service, made anew when its names change or it nears its end.

  \<^item> A DER certificate is what parsing it gives, a \<open>leaf\<close>: its names, its validity, its serial number and the key it was made
    for; so encoding and parsing are inverse. \<open>x509.CreateCertificate\<close> writes an address that is IPv4 in IPv6 form as IPv4.
  \<^item> \<open>cert_disk\<close> is the state directory. \<open>tls.LoadX509KeyPair\<close> fails unless both files are there and the key is that of the
    first certificate.
  \<^item> \<open>cert_env\<close> is what one operation meets: the time, the random numbers, and the errors of the file system. A file is replaced
    by a rename, so that it is the old one or the new one; the change of its mode may fail after that.
  \<^item> \<open>sha256\<close> is a parameter.
\<close>

section \<open>Data\<close>

type_synonym private_key = nat

record leaf =
  lf_DNSNames :: "string list"
  lf_IPAddresses :: "Addr list"
  lf_CommonName :: string
  lf_NotBefore :: gotime
  lf_NotAfter :: gotime
  lf_Serial :: nat
  lf_Key :: private_key

text \<open>\<open>tls.Certificate\<close>: the chain, and the private key.\<close>

record certificate =
  tc_Certificate :: "leaf list"
  tc_PrivateKey :: private_key

record cert_manager =
  cm_baseNames :: "string list"
  cm_endpoints :: "string list"
  cm_current :: "certificate option"
  cm_certName :: string
  cm_expected :: bytes
  cm_validTo :: gotime

datatype key_file = KeyMissing | KeyUnusable string | KeyStored private_key

record cert_disk =
  dk_key :: key_file
  dk_cert :: "leaf list option"

datatype write_result = Written | NotWritten string | WrittenNoMode string

record cert_env =
  ce_now :: gotime
  ce_generateKey :: "string + private_key"
  ce_mkdirKey :: "string option"
  ce_writeKey :: write_result
  ce_serial :: "string + nat"
  ce_create :: "string option"
  ce_mkdirCert :: "string option"
  ce_writeCert :: write_result

definition renewBefore :: duration where "renewBefore = 30 * 24 * hour"

section \<open>Names\<close>

definition normalizeName :: "string \<Rightarrow> string" where
  "normalizeName v =
     (let value = TrimSpace (TrimSuffix v ''.'')
      in if value = [] then []
         else (case ParseAddr value of Some ip \<Rightarrow> Addr_String ip | None \<Rightarrow> ToLower value))"

definition normalizeNames :: "string list \<Rightarrow> string list" where
  "normalizeNames values = sort (dedup_into (\<lambda>x. x) {} (filter (\<lambda>v. v \<noteq> []) (map normalizeName values)))"

definition sameStringSlice :: "string list \<Rightarrow> string list \<Rightarrow> bool" where
  "sameStringSlice a b \<longleftrightarrow> length a = length b \<and> list_all (\<lambda>(x, y). x = y) (zip a b)"

definition leaf_names :: "leaf \<Rightarrow> string list" where
  "leaf_names l = lf_DNSNames l @ map Addr_String (lf_IPAddresses l)"

definition sameNames :: "leaf \<Rightarrow> string list \<Rightarrow> bool" where
  "sameNames l names \<longleftrightarrow> Join [CHR 0x00] (normalizeNames (leaf_names l)) = Join [CHR 0x00] (normalizeNames names)"

definition containsNames :: "certificate \<Rightarrow> string list \<Rightarrow> bool" where
  "containsNames c names =
     (case tc_Certificate c of
        [] \<Rightarrow> False
      | l # _ \<Rightarrow> list_all (\<lambda>n. n \<in> set (normalizeNames (leaf_names l))) (normalizeNames names))"

section \<open>Dates\<close>

text \<open>The day after the zero time, with its year and its day in the year, and \<open>AddDate(1, 0, 0)\<close>: the same day of the next year,
  or the day after it for a 29 February that is not there.\<close>

definition leap :: "int \<Rightarrow> bool" where
  "leap y \<longleftrightarrow> y mod 4 = 0 \<and> (y mod 100 \<noteq> 0 \<or> y mod 400 = 0)"

definition year_day :: "int \<Rightarrow> int \<times> int" where
  "year_day d =
     (let n400 = d div 146097; d = d mod 146097;
          n100 = min 3 (d div 36524); d = d - 36524 * n100;
          n4 = d div 1461; d = d mod 1461;
          n1 = min 3 (d div 365)
      in (400 * n400 + 100 * n100 + 4 * n4 + n1 + 1, d - 365 * n1))"

definition next_year :: "gotime \<Rightarrow> gotime" where
  "next_year t =
     (let (y, doy) = year_day (t div (24 * hour));
          early = (doy < 59 + (if leap y then 1 else 0))
      in t + (if leap (if early then y else y + 1) then 366 else 365) * (24 * hour))"

section \<open>The state directory\<close>

definition LoadX509KeyPair :: "cert_disk \<Rightarrow> certificate option" where
  "LoadX509KeyPair d =
     (case (dk_key d, dk_cert d) of
        (KeyStored k, Some (l # ls)) \<Rightarrow> if lf_Key l = k then Some \<lparr>tc_Certificate = l # ls, tc_PrivateKey = k\<rparr> else None
      | _ \<Rightarrow> None)"

definition loadCurrent :: "cert_disk \<Rightarrow> (certificate \<times> gotime) option" where
  "loadCurrent d =
     (case LoadX509KeyPair d of
        None \<Rightarrow> None
      | Some c \<Rightarrow> (case tc_Certificate c of [] \<Rightarrow> None | l # _ \<Rightarrow> Some (c, lf_NotAfter l)))"

definition loadExisting :: "gotime \<Rightarrow> string list \<Rightarrow> cert_disk \<Rightarrow> (certificate \<times> gotime) option" where
  "loadExisting now names d =
     (case LoadX509KeyPair d of
        None \<Rightarrow> None
      | Some c \<Rightarrow>
          (case tc_Certificate c of
             [] \<Rightarrow> None
           | l # _ \<Rightarrow> if \<not> sameNames l names \<or> lf_NotAfter l < now then None else Some (c, lf_NotAfter l)))"

text \<open>\<open>atomicWrite\<close>: whether the file is the new one, and the error.\<close>

fun write_done :: "write_result \<Rightarrow> bool" where
  "write_done Written = True"
| "write_done (NotWritten _) = False"
| "write_done (WrittenNoMode _) = True"

fun write_error :: "write_result \<Rightarrow> string option" where
  "write_error Written = None"
| "write_error (NotWritten err) = Some err"
| "write_error (WrittenNoMode err) = Some err"

text \<open>The key of \<open>generate\<close>: the one of the file, or a new one that is stored first.\<close>

definition generate_key :: "cert_env \<Rightarrow> cert_disk \<Rightarrow> (string + private_key) \<times> cert_disk" where
  "generate_key e d =
     (case dk_key d of
        KeyStored k \<Rightarrow> (Inr k, d)
      | KeyUnusable err \<Rightarrow> (Inl (''load automatic TLS key: '' @ err), d)
      | KeyMissing \<Rightarrow>
          (case ce_generateKey e of
             Inl err \<Rightarrow> (Inl (''generate automatic TLS key: '' @ err), d)
           | Inr k \<Rightarrow>
               (case ce_mkdirKey e of
                  Some err \<Rightarrow> (Inl err, d)
                | None \<Rightarrow>
                    (let d' = (if write_done (ce_writeKey e) then d\<lparr>dk_key := KeyStored k\<rparr> else d)
                     in case write_error (ce_writeKey e) of Some err \<Rightarrow> (Inl err, d') | None \<Rightarrow> (Inr k, d')))))"

text \<open>An address in a certificate: \<open>net.IP(ip.AsSlice())\<close> has no zone.\<close>

fun san_address :: "Addr \<Rightarrow> Addr" where
  "san_address (Addr6 w z) = Unmap (Addr6 w [])"
| "san_address a = a"

definition template :: "cert_env \<Rightarrow> string list \<Rightarrow> nat \<Rightarrow> private_key \<Rightarrow> leaf" where
  "template e names serial k =
     \<lparr>lf_DNSNames = filter (\<lambda>n. ParseAddr n = None) names,
      lf_IPAddresses = map san_address (List.map_filter ParseAddr names),
      lf_CommonName = hd names, lf_NotBefore = ce_now e - 5 * minute, lf_NotAfter = next_year (ce_now e),
      lf_Serial = serial, lf_Key = k\<rparr>"

definition generate :: "cert_env \<Rightarrow> string list \<Rightarrow> cert_disk \<Rightarrow> (string + certificate \<times> gotime) \<times> cert_disk" where
  "generate e names d =
     (case generate_key e d of
        (Inl err, d') \<Rightarrow> (Inl err, d')
      | (Inr k, d') \<Rightarrow>
          (case ce_serial e of
             Inl err \<Rightarrow> (Inl err, d')
           | Inr serial \<Rightarrow>
               (case ce_create e of
                  Some err \<Rightarrow> (Inl err, d')
                | None \<Rightarrow>
                    (let l = template e names serial k
                     in (Inr (\<lparr>tc_Certificate = [l], tc_PrivateKey = k\<rparr>, lf_NotAfter l), d')))))"

definition persist :: "cert_env \<Rightarrow> certificate \<Rightarrow> cert_disk \<Rightarrow> string option \<times> cert_disk" where
  "persist e c d =
     (case tc_Certificate c of
        [] \<Rightarrow> (Some ''automatic TLS certificate has no leaf'', d)
      | l # _ \<Rightarrow>
          (case ce_mkdirCert e of
             Some err \<Rightarrow> (Some err, d)
           | None \<Rightarrow> (write_error (ce_writeCert e), if write_done (ce_writeCert e) then d\<lparr>dk_cert := Some [l]\<rparr> else d)))"

section \<open>The manager\<close>

definition hex_byte :: "uint8 \<Rightarrow> string" where
  "hex_byte b = [hex_char (unat b div 16), hex_char (unat b mod 16)]"

definition EncodeToString :: "bytes \<Rightarrow> string" where
  "EncodeToString bs = concat (map hex_byte bs)"

definition cert_name_of :: "bytes \<Rightarrow> string" where
  "cert_name_of hash = ''sha256-raw:'' @ EncodeToString hash"

definition setCurrent :: "(leaf \<Rightarrow> bytes) \<Rightarrow> certificate \<Rightarrow> gotime \<Rightarrow> string list \<Rightarrow> cert_manager \<Rightarrow> cert_manager" where
  "setCurrent sha256 c validTo endpoints m =
     (let expected = sha256 (hd (tc_Certificate c))
      in m\<lparr>cm_current := Some c, cm_validTo := validTo, cm_endpoints := endpoints, cm_expected := expected,
           cm_certName := cert_name_of expected\<rparr>)"

definition cert_names :: "cert_manager \<Rightarrow> string list \<Rightarrow> string list" where
  "cert_names m endpoints =
     (let names = normalizeNames (cm_baseNames m @ endpoints) in if names = [] then [''localhost''] else names)"

definition updateLocked ::
    "(leaf \<Rightarrow> bytes) \<Rightarrow> cert_env \<Rightarrow> string list \<Rightarrow> cert_manager \<Rightarrow> cert_disk \<Rightarrow> string option \<times> cert_manager \<times> cert_disk" where
  "updateLocked sha256 e endpoints m d =
     (let names = cert_names m endpoints;
          existing = (case loadExisting (ce_now e) names d of
                        None \<Rightarrow> None
                      | Some (c, validTo) \<Rightarrow> if renewBefore < time_sub validTo (ce_now e) then Some (c, validTo) else None)
      in case existing of
           Some (c, validTo) \<Rightarrow> (None, setCurrent sha256 c validTo endpoints m, d)
         | None \<Rightarrow>
             (case generate e names d of
                (Inl err, d') \<Rightarrow> (Some err, m, d')
              | (Inr (c, validTo), d') \<Rightarrow>
                  (case persist e c d' of
                     (Some err, d'') \<Rightarrow> (Some err, m, d'')
                   | (None, d'') \<Rightarrow> (None, setCurrent sha256 c validTo endpoints m, d''))))"

definition UpdateEndpointIPs ::
    "(leaf \<Rightarrow> bytes) \<Rightarrow> cert_env \<Rightarrow> string list \<Rightarrow> cert_manager \<Rightarrow> cert_disk \<Rightarrow> string option \<times> cert_manager \<times> cert_disk" where
  "UpdateEndpointIPs sha256 e ips m d =
     (let ips = normalizeNames ips
      in if sameStringSlice ips (cm_endpoints m) \<and> cm_current m \<noteq> None \<and> renewBefore < time_sub (cm_validTo m) (ce_now e)
         then (None, m, d)
         else updateLocked sha256 e ips m d)"

definition UpdateEndpointIP ::
    "(leaf \<Rightarrow> bytes) \<Rightarrow> cert_env \<Rightarrow> string \<Rightarrow> cert_manager \<Rightarrow> cert_disk \<Rightarrow> string option \<times> cert_manager \<times> cert_disk" where
  "UpdateEndpointIP sha256 e ip m d =
     (if TrimSpace ip = [] then UpdateEndpointIPs sha256 e [] m d else UpdateEndpointIPs sha256 e [ip] m d)"

definition empty_manager :: "string list \<Rightarrow> cert_manager" where
  "empty_manager names =
     \<lparr>cm_baseNames = normalizeNames names, cm_endpoints = [], cm_current = None, cm_certName = [], cm_expected = replicate 32 0,
      cm_validTo = 0\<rparr>"

definition cert_NewManager ::
    "(leaf \<Rightarrow> bytes) \<Rightarrow> cert_env \<Rightarrow> string \<Rightarrow> string list \<Rightarrow> cert_disk \<Rightarrow> (string + cert_manager) \<times> cert_disk" where
  "cert_NewManager sha256 e dir names d =
     (if TrimSpace dir = [] then (Inl ''TLS state directory is required'', d)
      else (let m = empty_manager names;
                loaded = (case loadCurrent d of
                            None \<Rightarrow> None
                          | Some (c, validTo) \<Rightarrow>
                              if renewBefore < time_sub validTo (ce_now e) \<and> containsNames c (cm_baseNames m) then Some (c, validTo) else None)
            in case loaded of
                 Some (c, validTo) \<Rightarrow> (Inr (setCurrent sha256 c validTo [] m), d)
               | None \<Rightarrow>
                   (case updateLocked sha256 e [] m d of
                      (Some err, _, d') \<Rightarrow> (Inl err, d')
                    | (None, m', d') \<Rightarrow> (Inr m', d'))))"

definition GetCertificate :: "cert_manager \<Rightarrow> string + certificate" where
  "GetCertificate m = (case cm_current m of None \<Rightarrow> Inl ''automatic TLS certificate is unavailable'' | Some c \<Rightarrow> Inr c)"

text \<open>A life of the service on a state directory: it is started, takes on addresses, and is started again; the certificates and
  the disk of every moment follow from the environments of the operations.\<close>

datatype cert_op = CertStart cert_env string "string list" | CertUpdate cert_env "string list"

fun cert_step :: "(leaf \<Rightarrow> bytes) \<Rightarrow> cert_op \<Rightarrow> cert_manager option \<times> cert_disk \<Rightarrow> cert_manager option \<times> cert_disk" where
  "cert_step sha256 (CertStart e dir names) (_, d) =
     (case cert_NewManager sha256 e dir names d of (Inl _, d') \<Rightarrow> (None, d') | (Inr m, d') \<Rightarrow> (Some m, d'))"
| "cert_step sha256 (CertUpdate e ips) (None, d) = (None, d)"
| "cert_step sha256 (CertUpdate e ips) (Some m, d) = (case UpdateEndpointIPs sha256 e ips m d of (_, m', d') \<Rightarrow> (Some m', d'))"

definition cert_run :: "(leaf \<Rightarrow> bytes) \<Rightarrow> cert_op list \<Rightarrow> cert_manager option \<times> cert_disk \<Rightarrow> cert_manager option \<times> cert_disk" where
  "cert_run sha256 ops st = foldl (\<lambda>st op. cert_step sha256 op st) st ops"

end
