(* ===== verification/CertSafety.thy ===== *)
theory CertSafety
  imports Cert
begin

text \<open>
  Theorems on the certificate manager: whatever fails, the private key of the state directory is never replaced and the pin the
  manager shows is that of the certificate it serves; an update that succeeds leaves a certificate for all its names that is valid
  for more than thirty days; one that fails changes nothing that is served.
\<close>

section \<open>Names\<close>

lemma set_normalizeNames: "set (normalizeNames vs) = normalizeName ` set vs - {[]}"
proof -
  have "set (dedup_into (\<lambda>x. x) {} xs) = set xs" for xs :: "string list"
    using dedup_into_image [of "\<lambda>x. x" "{}" xs] by simp
  then show ?thesis by (auto simp: normalizeNames_def)
qed

lemma normalizeNames_sorted: "sorted (normalizeNames vs)" "distinct (normalizeNames vs)"
  using dedup_into_distinct [of "\<lambda>x. x" "{}"] by (simp_all add: normalizeNames_def)

lemma normalizeNames_set_eq: "normalizeName ` set vs = normalizeName ` set ws \<Longrightarrow> normalizeNames vs = normalizeNames ws"
  by (metis normalizeNames_sorted set_normalizeNames sorted_distinct_set_unique)

lemma sameStringSlice_iff [simp]: "sameStringSlice a b \<longleftrightarrow> a = b"
  by (auto simp: sameStringSlice_def list_all_iff list_eq_iff_zip_eq zip_same)

definition nul_free :: "string \<Rightarrow> bool" where
  "nul_free n \<longleftrightarrow> CHR 0x00 \<notin> set n"

text \<open>A name in its normal form that a certificate keeps as it is: an address has no zone and is not an IPv4 address in IPv6 form.\<close>

definition plain :: "string \<Rightarrow> bool" where
  "plain n \<longleftrightarrow> n \<noteq> [] \<and> nul_free n \<and> normalizeName n = n \<and> (case ParseAddr n of None \<Rightarrow> True | Some ip \<Rightarrow> Addr_String (san_address ip) = n)"

lemma normalize_plain: "list_all plain ns \<Longrightarrow> set (normalizeNames ns) = set ns"
  by (force simp: set_normalizeNames list_all_iff plain_def image_iff)

lemma SplitFunc_Join: "list_all nul_free (x # xs) \<Longrightarrow> SplitFunc (\<lambda>c. c = CHR 0x00) (Join [CHR 0x00] (x # xs)) = x # xs"
proof (induction xs arbitrary: x)
  case Nil
  then have "\<forall>c\<in>set x. \<not> (c = CHR 0x00)" by (auto simp: nul_free_def)
  from SplitFunc_whole [OF this] show ?case by simp
next
  case (Cons y ys)
  then have "\<forall>c\<in>set x. \<not> (c = CHR 0x00)" by (auto simp: nul_free_def)
  from SplitFunc_prefix [OF this, of "CHR 0x00"] Cons show ?case by simp
qed

lemma Join_inj:
  assumes "Join [CHR 0x00] xs = Join [CHR 0x00] ys" "list_all nul_free xs" "list_all nul_free ys" "[] \<notin> set xs" "[] \<notin> set ys"
  shows "xs = ys"
proof -
  have ne: "zs \<noteq> [] \<Longrightarrow> [] \<notin> set zs \<Longrightarrow> Join [CHR 0x00] zs \<noteq> []" for zs by (rule Join_not_empty) (cases zs; auto)+
  show ?thesis
  proof (cases "xs = [] \<or> ys = []")
    case True
    with ne [of xs] ne [of ys] assms show ?thesis by (cases "xs = []"; cases "ys = []") simp_all
  next
    case False
    then obtain x xs' y ys' where "xs = x # xs'" "ys = y # ys'" by (meson neq_Nil_conv)
    with SplitFunc_Join [of x xs'] SplitFunc_Join [of y ys'] assms show ?thesis by metis
  qed
qed

lemma normalizeNames_no_empty: "[] \<notin> set (normalizeNames vs)"
  by (simp add: set_normalizeNames)

lemma sameNames_eq:
  "sameNames l names \<Longrightarrow> list_all nul_free (normalizeNames (leaf_names l)) \<Longrightarrow> list_all nul_free (normalizeNames names) \<Longrightarrow>
     normalizeNames (leaf_names l) = normalizeNames names"
  unfolding sameNames_def by (rule Join_inj) (simp_all add: normalizeNames_no_empty)

lemma template_names:
  assumes "list_all plain names"
  shows "set (leaf_names (template e names serial k)) = set names"
proof -
  have "Addr_String (san_address ip) = n" if "n \<in> set names" "ParseAddr n = Some ip" for n ip
    using assms that by (force simp: list_all_iff plain_def)
  then show ?thesis
    by (force simp: leaf_names_def template_def List.map_filter_def)
qed

lemma next_year_later: "t + 365 * (24 * hour) \<le> next_year t"
  by (simp add: next_year_def Let_def case_prod_unfold duration_defs)

lemma generated_valid: "renewBefore < time_sub (next_year t) t"
proof -
  have "365 * (24 * hour) \<le> next_year t - t" using next_year_later [of t] by simp
  then show ?thesis by (simp add: time_sub_def renewBefore_def duration_defs max_duration_def min_duration_def)
qed

section \<open>Identity\<close>

text \<open>The pin of a manager is that of the certificate it serves, which is made for the key of the state directory.\<close>

definition cert_identity :: "(leaf \<Rightarrow> bytes) \<Rightarrow> cert_manager \<Rightarrow> cert_disk \<Rightarrow> bool" where
  "cert_identity sha256 m d \<longleftrightarrow>
     (case cm_current m of
        None \<Rightarrow> False
      | Some c \<Rightarrow>
          (case tc_Certificate c of
             [] \<Rightarrow> False
           | l # _ \<Rightarrow> tc_PrivateKey c = lf_Key l \<and> dk_key d = KeyStored (lf_Key l) \<and> cm_expected m = sha256 l \<and>
                      cm_certName m = cert_name_of (sha256 l) \<and> cm_validTo m = lf_NotAfter l))"

lemma LoadX509KeyPair_Some:
  "LoadX509KeyPair d = Some c \<longleftrightarrow>
     (\<exists>l ls. dk_cert d = Some (l # ls) \<and> dk_key d = KeyStored (lf_Key l) \<and> c = \<lparr>tc_Certificate = l # ls, tc_PrivateKey = lf_Key l\<rparr>)"
  by (auto simp: LoadX509KeyPair_def split: key_file.splits option.splits list.splits)

lemma loadExisting_Some:
  "loadExisting now names d = Some (c, v) \<Longrightarrow>
     LoadX509KeyPair d = Some c \<and> sameNames (hd (tc_Certificate c)) names \<and> v = lf_NotAfter (hd (tc_Certificate c))"
  by (auto simp: loadExisting_def split: option.splits list.splits if_splits)

lemma loadCurrent_Some:
  "loadCurrent d = Some (c, v) \<Longrightarrow> LoadX509KeyPair d = Some c \<and> v = lf_NotAfter (hd (tc_Certificate c))"
  by (auto simp: loadCurrent_def split: option.splits list.splits)

lemma setCurrent_loaded:
  "LoadX509KeyPair d = Some c \<Longrightarrow> v = lf_NotAfter (hd (tc_Certificate c)) \<Longrightarrow> cert_identity sha256 (setCurrent sha256 c v eps m) d"
  by (auto simp: LoadX509KeyPair_Some cert_identity_def setCurrent_def Let_def)

lemma generate_key_disk:
  assumes "generate_key e d = (r, d')"
  shows "dk_key d = KeyStored k \<Longrightarrow> dk_key d' = KeyStored k" "r = Inr k' \<Longrightarrow> dk_key d' = KeyStored k'" "dk_cert d' = dk_cert d"
proof -
  have "(dk_key d = KeyStored k \<longrightarrow> dk_key d' = KeyStored k) \<and> (r = Inr k' \<longrightarrow> dk_key d' = KeyStored k') \<and> dk_cert d' = dk_cert d"
  proof (cases "dk_key d")
    case KeyMissing
    then show ?thesis
      using assms by (cases "ce_writeKey e") (auto simp: generate_key_def Let_def split: sum.splits option.splits)
  qed (use assms in \<open>auto simp: generate_key_def\<close>)
  then show "dk_key d = KeyStored k \<Longrightarrow> dk_key d' = KeyStored k" "r = Inr k' \<Longrightarrow> dk_key d' = KeyStored k'" "dk_cert d' = dk_cert d"
    by blast+
qed

lemma generate_disk:
  assumes "generate e names d = (r, d')"
  shows "dk_key d = KeyStored k \<Longrightarrow> dk_key d' = KeyStored k" "dk_cert d' = dk_cert d"
    "r = Inr (c, v) \<Longrightarrow> \<exists>serial k. dk_key d' = KeyStored k \<and> c = \<lparr>tc_Certificate = [template e names serial k], tc_PrivateKey = k\<rparr> \<and>
       v = next_year (ce_now e)"
proof -
  obtain r1 d1 where g: "generate_key e d = (r1, d1)" by (cases "generate_key e d")
  have d': "d' = d1" using assms by (cases r1; cases "ce_serial e"; cases "ce_create e") (simp_all add: generate_def g Let_def)
  show "dk_key d = KeyStored k \<Longrightarrow> dk_key d' = KeyStored k" "dk_cert d' = dk_cert d"
    using generate_key_disk [OF g] d' by auto
  assume "r = Inr (c, v)"
  with assms have "\<exists>serial k. r1 = Inr k \<and> c = \<lparr>tc_Certificate = [template e names serial k], tc_PrivateKey = k\<rparr> \<and> v = next_year (ce_now e)"
    by (cases r1; cases "ce_serial e"; cases "ce_create e") (auto simp: generate_def g Let_def template_def)
  with generate_key_disk(2) [OF g] d'
  show "\<exists>serial k. dk_key d' = KeyStored k \<and> c = \<lparr>tc_Certificate = [template e names serial k], tc_PrivateKey = k\<rparr> \<and> v = next_year (ce_now e)"
    by auto
qed

lemma persist_disk:
  "persist e c d = (err, d') \<Longrightarrow> dk_key d' = dk_key d \<and> (dk_cert d' = dk_cert d \<or> dk_cert d' = Some [hd (tc_Certificate c)])"
  by (auto simp: persist_def split: list.splits option.splits if_splits)

text \<open>What \<open>updateLocked\<close> does: it fails with the manager as it was, or it takes a certificate that was loaded or made.\<close>

lemma updateLocked_cases:
  assumes "updateLocked sha256 e eps m d = (err, m', d')"
  obtains
    (failed) "err \<noteq> None" "m' = m" "\<And>k. dk_key d = KeyStored k \<Longrightarrow> dk_key d' = KeyStored k"
      "dk_cert d' = dk_cert d \<or> (\<exists>serial k. dk_cert d' = Some [template e (cert_names m eps) serial k])"
  | (loaded) c where "err = None" "m' = setCurrent sha256 c (lf_NotAfter (hd (tc_Certificate c))) eps m" "d' = d"
      "LoadX509KeyPair d = Some c" "sameNames (hd (tc_Certificate c)) (cert_names m eps)"
      "renewBefore < time_sub (lf_NotAfter (hd (tc_Certificate c))) (ce_now e)"
  | (made) serial k where "err = None"
      "m' = setCurrent sha256 \<lparr>tc_Certificate = [template e (cert_names m eps) serial k], tc_PrivateKey = k\<rparr> (next_year (ce_now e)) eps m"
      "dk_key d' = KeyStored k" "\<And>k. dk_key d = KeyStored k \<Longrightarrow> dk_key d' = KeyStored k"
      "dk_cert d' = dk_cert d \<or> dk_cert d' = Some [template e (cert_names m eps) serial k]"
proof -
  let ?names = "cert_names m eps"
  obtain r d1 where g: "generate e ?names d = (r, d1)" by (cases "generate e ?names d")
  note gd = generate_disk [OF g]
  define ex where "ex = (case loadExisting (ce_now e) ?names d of None \<Rightarrow> None
         | Some (c, validTo) \<Rightarrow> if renewBefore < time_sub validTo (ce_now e) then Some (c, validTo) else None)"
  have ex: "ex = Some (c, v) \<Longrightarrow> loadExisting (ce_now e) ?names d = Some (c, v) \<and> renewBefore < time_sub v (ce_now e)" for c v
    by (auto simp: ex_def split: option.splits if_splits)
  have "ex = None \<or> (\<exists>c v. ex = Some (c, v))" by (cases ex) auto
  then consider c v where "ex = Some (c, v)" | "ex = None" by blast
  then show thesis
  proof cases
    case 1
    from ex [OF this] have l: "loadExisting (ce_now e) ?names d = Some (c, v)" "renewBefore < time_sub v (ce_now e)" by auto
    with loadExisting_Some [OF l(1)] assms show thesis by (intro loaded [of c]) (auto simp: updateLocked_def Let_def)
  next
    case 2
    then have u: "updateLocked sha256 e eps m d = (case r of Inl err \<Rightarrow> (Some err, m, d1)
        | Inr (c, v) \<Rightarrow> (case persist e c d1 of (Some err, d'') \<Rightarrow> (Some err, m, d'')
            | (None, d'') \<Rightarrow> (None, setCurrent sha256 c v eps m, d'')))"
      unfolding updateLocked_def Let_def ex_def by (simp add: g split: sum.split)
    show thesis
    proof (cases r)
      case (Inl x)
      with u assms gd(1,2) show thesis by (intro failed) auto
    next
      case (Inr cv)
      then obtain c v where r: "r = Inr (c, v)" by (cases cv) auto
      from gd(3) [OF r] obtain serial k where c: "dk_key d1 = KeyStored k"
        "c = \<lparr>tc_Certificate = [template e ?names serial k], tc_PrivateKey = k\<rparr>" "v = next_year (ce_now e)" by auto
      obtain perr d2 where p: "persist e c d1 = (perr, d2)" by (cases "persist e c d1")
      note pd = persist_disk [OF p]
      show thesis
      proof (cases perr)
        case None
        with u assms r p c pd gd(1,2) show thesis by (intro made [of serial k]) auto
      next
        case (Some x)
        with u assms r p c pd gd(1,2) show thesis by (intro failed) auto
      qed
    qed
  qed
qed

lemma updateLocked_identity:
  assumes "updateLocked sha256 e eps m d = (err, m', d')"
  shows "err = None \<Longrightarrow> cert_identity sha256 m' d'" "err \<noteq> None \<Longrightarrow> m' = m"
    "dk_key d = KeyStored k \<Longrightarrow> dk_key d' = KeyStored k"
proof -
  have "(err = None \<longrightarrow> cert_identity sha256 m' d') \<and> (err \<noteq> None \<longrightarrow> m' = m) \<and> (dk_key d = KeyStored k \<longrightarrow> dk_key d' = KeyStored k)"
    using assms
  proof (cases rule: updateLocked_cases)
    case (made serial key)
    have "cert_identity sha256 m' d'" using made(2,3) by (simp add: cert_identity_def setCurrent_def template_def Let_def)
    with made(1,4) show ?thesis by auto
  qed (auto simp: setCurrent_loaded)
  then show "err = None \<Longrightarrow> cert_identity sha256 m' d'" "err \<noteq> None \<Longrightarrow> m' = m"
    "dk_key d = KeyStored k \<Longrightarrow> dk_key d' = KeyStored k" by blast+
qed

lemma cert_identity_key:
  "cert_identity sha256 m d \<Longrightarrow> (\<And>k. dk_key d = KeyStored k \<Longrightarrow> dk_key d' = KeyStored k) \<Longrightarrow> cert_identity sha256 m d'"
  by (auto simp: cert_identity_def split: option.splits list.splits)

lemma UpdateEndpointIPs_identity:
  assumes "UpdateEndpointIPs sha256 e ips m d = (err, m', d')" "cert_identity sha256 m d"
  shows "cert_identity sha256 m' d'" "dk_key d = KeyStored k \<Longrightarrow> dk_key d' = KeyStored k" "err \<noteq> None \<Longrightarrow> m' = m"
proof -
  from assms(1) have "err = None \<and> m' = m \<and> d' = d \<or> updateLocked sha256 e (normalizeNames ips) m d = (err, m', d')"
    by (simp add: UpdateEndpointIPs_def Let_def split: if_splits)
  then have "cert_identity sha256 m' d' \<and> (dk_key d = KeyStored k \<longrightarrow> dk_key d' = KeyStored k) \<and> (err \<noteq> None \<longrightarrow> m' = m)"
  proof
    assume u: "updateLocked sha256 e (normalizeNames ips) m d = (err, m', d')"
    note i = updateLocked_identity [OF u]
    have "cert_identity sha256 m d'" using assms(2) i(3) by (rule cert_identity_key)
    with i show ?thesis by (cases "err = None") auto
  qed (use assms(2) in simp)
  then show "cert_identity sha256 m' d'" "dk_key d = KeyStored k \<Longrightarrow> dk_key d' = KeyStored k" "err \<noteq> None \<Longrightarrow> m' = m" by blast+
qed

lemma cert_NewManager_identity:
  assumes "cert_NewManager sha256 e dir names d = (r, d')"
  shows "r = Inr m \<Longrightarrow> cert_identity sha256 m d'" "dk_key d = KeyStored k \<Longrightarrow> dk_key d' = KeyStored k"
proof -
  obtain err m1 d1 where u: "updateLocked sha256 e [] (empty_manager names) d = (err, m1, d1)"
    by (cases "updateLocked sha256 e [] (empty_manager names) d")
  note ui = updateLocked_identity [OF u]
  from assms have "(\<exists>s. r = Inl s \<and> d' = d) \<or>
      (\<exists>c v. loadCurrent d = Some (c, v) \<and> r = Inr (setCurrent sha256 c v [] (empty_manager names)) \<and> d' = d) \<or>
      (d' = d1 \<and> (case err of None \<Rightarrow> r = Inr m1 | Some s \<Rightarrow> r = Inl s))"
    by (auto simp: cert_NewManager_def Let_def u split: if_splits option.splits)
  moreover have "cert_identity sha256 (setCurrent sha256 c v [] (empty_manager names)) d" if "loadCurrent d = Some (c, v)" for c v
    using loadCurrent_Some [OF that] by (simp add: setCurrent_loaded)
  ultimately show "r = Inr m \<Longrightarrow> cert_identity sha256 m d'" "dk_key d = KeyStored k \<Longrightarrow> dk_key d' = KeyStored k"
    using ui by (auto split: option.splits)
qed

lemma cert_step_identity:
  assumes "cert_step sha256 op (mo, d) = (mo', d')" "\<And>m. mo = Some m \<Longrightarrow> cert_identity sha256 m d"
  shows "mo' = Some m' \<Longrightarrow> cert_identity sha256 m' d'" "dk_key d = KeyStored k \<Longrightarrow> dk_key d' = KeyStored k"
proof -
  have "(mo' = Some m' \<longrightarrow> cert_identity sha256 m' d') \<and> (dk_key d = KeyStored k \<longrightarrow> dk_key d' = KeyStored k)"
  proof (cases op)
    case (CertStart e dir names)
    obtain r d1 where n: "cert_NewManager sha256 e dir names d = (r, d1)" by (cases "cert_NewManager sha256 e dir names d")
    from assms(1) show ?thesis using cert_NewManager_identity [OF n] by (auto simp: CertStart n split: sum.splits)
  next
    case (CertUpdate e ips)
    show ?thesis
    proof (cases mo)
      case None
      with assms(1) CertUpdate show ?thesis by auto
    next
      case (Some m)
      obtain err m1 d1 where n: "UpdateEndpointIPs sha256 e ips m d = (err, m1, d1)" by (cases "UpdateEndpointIPs sha256 e ips m d")
      from assms show ?thesis using UpdateEndpointIPs_identity [OF n] by (auto simp: CertUpdate Some n)
    qed
  qed
  then show "mo' = Some m' \<Longrightarrow> cert_identity sha256 m' d'" "dk_key d = KeyStored k \<Longrightarrow> dk_key d' = KeyStored k" by blast+
qed

text \<open>Through any sequence of starts and updates, whatever fails in them, a key that is stored stays the key, and a manager serves
  a certificate for it whose hash and pin are those it shows (C32).\<close>

theorem certificate_identity_stable:
  assumes "cert_run sha256 ops (None, d) = (mo, d')"
  shows "(\<forall>k. dk_key d = KeyStored k \<longrightarrow> dk_key d' = KeyStored k) \<and>
    (case mo of
       None \<Rightarrow> True
     | Some m \<Rightarrow> \<exists>c l ls. GetCertificate m = Inr c \<and> tc_Certificate c = l # ls \<and> tc_PrivateKey c = lf_Key l \<and>
         dk_key d' = KeyStored (lf_Key l) \<and> cm_expected m = sha256 l \<and> cm_certName m = cert_name_of (sha256 l))"
proof -
  have "(\<forall>k. dk_key d = KeyStored k \<longrightarrow> dk_key d' = KeyStored k) \<and> (\<forall>m. mo = Some m \<longrightarrow> cert_identity sha256 m d')"
    using assms
  proof (induction ops arbitrary: mo d' rule: rev_induct)
    case Nil
    then show ?case by (auto simp: cert_run_def)
  next
    case (snoc op ops)
    obtain mo1 d1 where r: "cert_run sha256 ops (None, d) = (mo1, d1)" by (cases "cert_run sha256 ops (None, d)")
    have "cert_step sha256 op (mo1, d1) = (mo, d')" using snoc.prems r by (simp add: cert_run_def)
    from cert_step_identity [OF this] snoc.IH [OF r] show ?case by blast
  qed
  then show ?thesis
    by (cases mo) (force simp: cert_identity_def GetCertificate_def split: option.splits list.splits)+
qed

section \<open>Names and validity\<close>

definition disk_plain :: "cert_disk \<Rightarrow> bool" where
  "disk_plain d \<longleftrightarrow> (\<forall>l ls. dk_cert d = Some (l # ls) \<longrightarrow> list_all nul_free (normalizeNames (leaf_names l)))"

definition covers :: "leaf \<Rightarrow> string list \<Rightarrow> bool" where
  "covers l names \<longleftrightarrow> set names \<subseteq> set (normalizeNames (leaf_names l))"

text \<open>The certificate of a manager is for its names.\<close>

definition cert_covered :: "cert_manager \<Rightarrow> bool" where
  "cert_covered m \<longleftrightarrow> list_all plain (cm_baseNames m) \<and> list_all plain (cm_endpoints m) \<and>
     (\<exists>c l ls. cm_current m = Some c \<and> tc_Certificate c = l # ls \<and> cm_validTo m = lf_NotAfter l \<and> covers l (cm_baseNames m @ cm_endpoints m))"

lemma disk_plain_kept: "disk_plain d \<Longrightarrow> dk_cert d' = dk_cert d \<Longrightarrow> disk_plain d'"
  by (simp add: disk_plain_def)

lemma disk_plain_new: "dk_cert d' = Some [l] \<Longrightarrow> list_all nul_free (normalizeNames (leaf_names l)) \<Longrightarrow> disk_plain d'"
  by (simp add: disk_plain_def)

lemma localhost_plain: "plain ''localhost''"
  by code_simp

lemma cert_names_plain:
  assumes "list_all plain (cm_baseNames m)" "list_all plain eps"
  shows "list_all plain (cert_names m eps)" "set (cm_baseNames m @ eps) \<subseteq> set (cert_names m eps)"
proof -
  have "set (normalizeNames (cm_baseNames m @ eps)) = set (cm_baseNames m @ eps)" using assms by (intro normalize_plain) simp
  then show "list_all plain (cert_names m eps)" "set (cm_baseNames m @ eps) \<subseteq> set (cert_names m eps)"
    using assms localhost_plain by (auto simp: cert_names_def Let_def list_all_iff)
qed

lemma template_normal: "list_all plain names \<Longrightarrow> set (normalizeNames (leaf_names (template e names serial k))) = set names"
proof -
  assume p: "list_all plain names"
  then have "list_all plain (leaf_names (template e names serial k))"
    using template_names [OF p, of e serial k] by (simp add: list_all_iff)
  from normalize_plain [OF this] template_names [OF p] show ?thesis by simp
qed

lemma updateLocked_covers:
  assumes "updateLocked sha256 e eps m d = (err, m', d')" "list_all plain (cm_baseNames m)" "list_all plain eps" "disk_plain d"
  shows "disk_plain d'" "err = None \<Longrightarrow> cert_covered m' \<and> cm_baseNames m' = cm_baseNames m \<and> cm_endpoints m' = eps \<and>
    renewBefore < time_sub (cm_validTo m') (ce_now e)"
proof -
  note p = cert_names_plain [OF assms(2,3)]
  have made_plain: "list_all nul_free (normalizeNames (leaf_names (template e (cert_names m eps) serial k)))" for serial k
    using template_normal [OF p(1)] p(1) by (auto simp: list_all_iff plain_def)
  have "disk_plain d' \<and> (err = None \<longrightarrow> cert_covered m' \<and> cm_baseNames m' = cm_baseNames m \<and> cm_endpoints m' = eps \<and>
    renewBefore < time_sub (cm_validTo m') (ce_now e))"
    using assms(1)
  proof (cases rule: updateLocked_cases)
    case failed
    from failed(4) have "disk_plain d'"
      using disk_plain_kept [OF assms(4)] disk_plain_new [OF _ made_plain] by blast
    with failed(1) show ?thesis by auto
  next
    case (loaded c)
    then obtain l ls where l: "dk_cert d = Some (l # ls)" "tc_Certificate c = l # ls" by (auto simp: LoadX509KeyPair_Some)
    have "list_all nul_free (normalizeNames (cert_names m eps))"
      using normalize_plain [OF p(1)] p(1) by (auto simp: list_all_iff plain_def)
    then have "normalizeNames (leaf_names l) = normalizeNames (cert_names m eps)"
      using loaded(5) l assms(4) by (intro sameNames_eq) (auto simp: disk_plain_def)
    then have "covers l (cm_baseNames m @ eps)" using normalize_plain [OF p(1)] p(2) by (simp add: covers_def)
    with loaded l assms show ?thesis by (auto simp: cert_covered_def setCurrent_def Let_def)
  next
    case (made serial k)
    have "covers (template e (cert_names m eps) serial k) (cm_baseNames m @ eps)"
      using template_normal [OF p(1)] p(2) by (simp add: covers_def)
    moreover have "lf_NotAfter (template e (cert_names m eps) serial k) = next_year (ce_now e)" by (simp add: template_def)
    moreover have "disk_plain d'" using made(5) disk_plain_kept [OF assms(4)] disk_plain_new [OF _ made_plain] by blast
    ultimately show ?thesis using made(1,2) assms generated_valid by (auto simp: cert_covered_def setCurrent_def Let_def)
  qed
  then show "disk_plain d'" "err = None \<Longrightarrow> cert_covered m' \<and> cm_baseNames m' = cm_baseNames m \<and> cm_endpoints m' = eps \<and>
    renewBefore < time_sub (cm_validTo m') (ce_now e)" by blast+
qed

lemma UpdateEndpointIPs_covers:
  assumes "UpdateEndpointIPs sha256 e ips m d = (err, m', d')" "cert_covered m" "list_all plain (normalizeNames ips)" "disk_plain d"
    "err \<noteq> None \<longrightarrow> m' = m"
  shows "disk_plain d'" "cert_covered m'" "cm_baseNames m' = cm_baseNames m"
    "err = None \<Longrightarrow> cm_endpoints m' = normalizeNames ips \<and> renewBefore < time_sub (cm_validTo m') (ce_now e)"
proof -
  have base: "list_all plain (cm_baseNames m)" using assms(2) by (simp add: cert_covered_def)
  from assms(1) have "(err = None \<and> m' = m \<and> d' = d \<and> normalizeNames ips = cm_endpoints m \<and> renewBefore < time_sub (cm_validTo m) (ce_now e)) \<or>
      updateLocked sha256 e (normalizeNames ips) m d = (err, m', d')"
    by (simp add: UpdateEndpointIPs_def Let_def split: if_splits)
  then have "disk_plain d' \<and> cert_covered m' \<and> cm_baseNames m' = cm_baseNames m \<and>
      (err = None \<longrightarrow> cm_endpoints m' = normalizeNames ips \<and> renewBefore < time_sub (cm_validTo m') (ce_now e))"
  proof
    assume "updateLocked sha256 e (normalizeNames ips) m d = (err, m', d')"
    from updateLocked_covers [OF this base assms(3,4)] assms(2,5) show ?thesis by (cases "err = None") auto
  qed (use assms in simp)
  then show "disk_plain d'" "cert_covered m'" "cm_baseNames m' = cm_baseNames m"
    "err = None \<Longrightarrow> cm_endpoints m' = normalizeNames ips \<and> renewBefore < time_sub (cm_validTo m') (ce_now e)" by blast+
qed

fun op_plain :: "cert_op \<Rightarrow> bool" where
  "op_plain (CertStart e dir names) = list_all plain (normalizeNames names)"
| "op_plain (CertUpdate e ips) = list_all plain (normalizeNames ips)"

lemma cert_NewManager_covers:
  assumes "cert_NewManager sha256 e dir names d = (r, d')" "list_all plain (normalizeNames names)" "disk_plain d"
  shows "disk_plain d' \<and> (\<forall>m. r = Inr m \<longrightarrow> cert_covered m)"
proof -
  let ?m = "empty_manager names"
  have base: "list_all plain (cm_baseNames ?m)" using assms(2) by (simp add: empty_manager_def)
  obtain err m1 d1 where u: "updateLocked sha256 e [] ?m d = (err, m1, d1)" by (cases "updateLocked sha256 e [] ?m d")
  note c = updateLocked_covers [OF u base _ assms(3)]
  have loaded: "cert_covered (setCurrent sha256 c v [] ?m)" if l: "loadCurrent d = Some (c, v)" "containsNames c (cm_baseNames ?m)" for c v
  proof -
    obtain l ls where ls: "tc_Certificate c = l # ls" "v = lf_NotAfter l"
      using loadCurrent_Some [OF l(1)] by (auto simp: LoadX509KeyPair_Some)
    have "set (cm_baseNames ?m) \<subseteq> set (normalizeNames (leaf_names l))"
      using l(2) ls normalize_plain [OF base] by (auto simp: containsNames_def list_all_iff)
    then show ?thesis using base ls by (simp add: cert_covered_def setCurrent_def covers_def Let_def empty_manager_def)
  qed
  from assms(1) have "(\<exists>s. r = Inl s \<and> d' = d) \<or>
      (\<exists>c v. loadCurrent d = Some (c, v) \<and> containsNames c (cm_baseNames ?m) \<and> r = Inr (setCurrent sha256 c v [] ?m) \<and> d' = d) \<or>
      (d' = d1 \<and> (case err of None \<Rightarrow> r = Inr m1 | Some s \<Rightarrow> r = Inl s))"
    by (auto simp: cert_NewManager_def Let_def u split: if_splits option.splits)
  then show ?thesis using c assms(3) loaded by (auto split: option.splits)
qed

lemma cert_step_covers:
  assumes "cert_step sha256 op (mo, d) = (mo', d')" "op_plain op" "disk_plain d" "\<forall>m. mo = Some m \<longrightarrow> cert_covered m \<and> cert_identity sha256 m d"
  shows "disk_plain d' \<and> (\<forall>m. mo' = Some m \<longrightarrow> cert_covered m \<and> cert_identity sha256 m d')"
proof -
  have "\<And>m. mo = Some m \<Longrightarrow> cert_identity sha256 m d" using assms(4) by simp
  from cert_step_identity(1) [OF assms(1) this] have i: "\<forall>m. mo' = Some m \<longrightarrow> cert_identity sha256 m d'" by blast
  have "disk_plain d' \<and> (\<forall>m. mo' = Some m \<longrightarrow> cert_covered m)"
  proof (cases op)
    case (CertStart e dir names)
    obtain r d1 where n: "cert_NewManager sha256 e dir names d = (r, d1)" by (cases "cert_NewManager sha256 e dir names d")
    from assms(1,2) show ?thesis using cert_NewManager_covers [OF n _ assms(3)] by (auto simp: CertStart n split: sum.splits)
  next
    case (CertUpdate e ips)
    show ?thesis
    proof (cases mo)
      case None
      with assms(1,3) CertUpdate show ?thesis by auto
    next
      case (Some m)
      obtain err m1 d1 where n: "UpdateEndpointIPs sha256 e ips m d = (err, m1, d1)" by (cases "UpdateEndpointIPs sha256 e ips m d")
      have kept: "err \<noteq> None \<longrightarrow> m1 = m" using UpdateEndpointIPs_identity(3) [OF n] assms(4) Some by blast
      from assms show ?thesis using UpdateEndpointIPs_covers [OF n _ _ assms(3) kept] by (auto simp: CertUpdate Some n)
    qed
  qed
  with i show ?thesis by blast
qed

lemma cert_run_covers:
  assumes "cert_run sha256 ops (None, d) = (mo, d')" "list_all op_plain ops" "disk_plain d"
  shows "disk_plain d' \<and> (\<forall>m. mo = Some m \<longrightarrow> cert_covered m \<and> cert_identity sha256 m d')"
  using assms(1,2)
proof (induction ops arbitrary: mo d' rule: rev_induct)
  case Nil
  with assms(3) show ?case by (auto simp: cert_run_def)
next
  case (snoc op ops)
  obtain mo1 d1 where r: "cert_run sha256 ops (None, d) = (mo1, d1)" by (cases "cert_run sha256 ops (None, d)")
  have "cert_step sha256 op (mo1, d1) = (mo, d')" using snoc.prems r by (simp add: cert_run_def)
  from cert_step_covers [OF this] snoc.IH [OF r] snoc.prems(2) show ?case by simp
qed

lemma update_covers:
  assumes "cert_run sha256 ops (None, d) = (Some m, d1)" "list_all op_plain ops" "disk_plain d"
    and "list_all plain (normalizeNames ips)" "UpdateEndpointIPs sha256 e ips m d1 = (err, m', d2)"
  shows "case err of
      Some _ \<Rightarrow> m' = m
    | None \<Rightarrow> \<exists>c l ls. GetCertificate m' = Inr c \<and> tc_Certificate c = l # ls \<and>
        set (cm_baseNames m) \<union> set (normalizeNames ips) \<subseteq> set (normalizeNames (leaf_names l)) \<and>
        renewBefore < time_sub (lf_NotAfter l) (ce_now e)"
proof -
  have inv: "disk_plain d1" "cert_covered m" "cert_identity sha256 m d1" using cert_run_covers [OF assms(1-3)] by auto
  have kept: "err \<noteq> None \<longrightarrow> m' = m" using UpdateEndpointIPs_identity(3) [OF assms(5) inv(3)] by blast
  note u = UpdateEndpointIPs_covers [OF assms(5) inv(2) assms(4) inv(1) kept]
  show ?thesis
  proof (cases err)
    case None
    from u(2) obtain c l ls where "cm_current m' = Some c" "tc_Certificate c = l # ls" "cm_validTo m' = lf_NotAfter l"
      "covers l (cm_baseNames m' @ cm_endpoints m')" by (auto simp: cert_covered_def)
    with None u(3,4) show ?thesis by (auto simp: GetCertificate_def covers_def)
  qed (use kept in simp)
qed

text \<open>An update of the addresses that succeeds, at any point of the life of a manager, leaves a served certificate for every name of
  the configuration and every address, valid for more than thirty days; one that fails leaves what is served as it was (C33). The names
  are plain: addresses without zone, in IPv4 form where they are IPv4 addresses.\<close>

theorem certificate_covers_endpoints:
  assumes "cert_run sha256 ops (None, d) = (Some m, d1)" "list_all op_plain ops" "disk_plain d"
    and "list_all plain (normalizeNames ips)" "UpdateEndpointIPs sha256 e ips m d1 = (err, m', d2)"
  shows "case err of
      Some _ \<Rightarrow> m' = m
    | None \<Rightarrow> \<exists>c l ls. GetCertificate m' = Inr c \<and> tc_Certificate c = l # ls \<and>
        set (cm_baseNames m) \<union> set (normalizeNames ips) \<subseteq> set (normalizeNames (leaf_names l)) \<and>
        renewBefore < time_sub (lf_NotAfter l) (ce_now e)"
  using assms by (rule update_covers)

text \<open>Nothing but errors of the system, or a key file that is no key, makes an update fail.\<close>

definition env_works :: "cert_env \<Rightarrow> bool" where
  "env_works e \<longleftrightarrow> (\<exists>k. ce_generateKey e = Inr k) \<and> ce_mkdirKey e = None \<and> ce_writeKey e = Written \<and> (\<exists>n. ce_serial e = Inr n) \<and>
     ce_create e = None \<and> ce_mkdirCert e = None \<and> ce_writeCert e = Written"

lemma UpdateEndpointIPs_succeeds:
  assumes "env_works e" "\<And>err. dk_key d \<noteq> KeyUnusable err"
  shows "fst (UpdateEndpointIPs sha256 e ips m d) = None"
proof -
  obtain k d1 where k: "generate_key e d = (Inr k, d1)"
    using assms by (cases "dk_key d") (auto simp: generate_key_def env_works_def Let_def)
  then have "generate e names d = (Inr (\<lparr>tc_Certificate = [template e names (projr (ce_serial e)) k], tc_PrivateKey = k\<rparr>,
      next_year (ce_now e)), d1)" for names
    using assms(1) by (auto simp: generate_def env_works_def Let_def template_def)
  moreover have "persist e \<lparr>tc_Certificate = [l], tc_PrivateKey = k\<rparr> d1 = (None, d1\<lparr>dk_cert := Some [l]\<rparr>)" for l
    using assms(1) by (simp add: persist_def env_works_def)
  ultimately show ?thesis
    by (auto simp: UpdateEndpointIPs_def updateLocked_def Let_def split: option.splits)
qed

text \<open>Recovery (C34). Whatever failed before, one update in a system that works gives a certificate for every name and address, valid
  for more than thirty days, provided that the key file, if there is one, holds a key.\<close>

theorem certificate_recovers:
  assumes "cert_run sha256 ops (None, d) = (Some m, d1)" "list_all op_plain ops" "disk_plain d"
    and "list_all plain (normalizeNames ips)" "env_works e" "\<forall>err. dk_key d1 \<noteq> KeyUnusable err"
  shows "\<exists>m' d2 c l ls. UpdateEndpointIPs sha256 e ips m d1 = (None, m', d2) \<and> GetCertificate m' = Inr c \<and> tc_Certificate c = l # ls \<and>
    set (cm_baseNames m) \<union> set (normalizeNames ips) \<subseteq> set (normalizeNames (leaf_names l)) \<and>
    renewBefore < time_sub (lf_NotAfter l) (ce_now e)"
proof -
  obtain m' d2 where u: "UpdateEndpointIPs sha256 e ips m d1 = (None, m', d2)"
    using UpdateEndpointIPs_succeeds [OF assms(5), of d1 sha256 ips m] assms(6) by (cases "UpdateEndpointIPs sha256 e ips m d1") auto
  from update_covers [OF assms(1-4) u] u show ?thesis by auto
qed

section \<open>An example\<close>

definition demo_cert_env :: cert_env where
  "demo_cert_env =
     \<lparr>ce_now = 63870000000 * second, ce_generateKey = Inr 7, ce_mkdirKey = None, ce_writeKey = Written, ce_serial = Inr 1,
      ce_create = None, ce_mkdirCert = None, ce_writeCert = Written\<rparr>"

definition demo_sha :: "leaf \<Rightarrow> bytes" where
  "demo_sha l = [word_of_nat (lf_Serial l)]"

definition demo_cert_start :: "cert_op list" where
  "demo_cert_start = [CertStart demo_cert_env ''/var/lib/tls'' [''derp.example.com'']]"

definition fresh_disk :: cert_disk where
  "fresh_disk = \<lparr>dk_key = KeyMissing, dk_cert = None\<rparr>"

lemma digit_chars: "char_of (48::nat) = CHR ''0''" "char_of (49::nat) = CHR ''1''" "char_of (50::nat) = CHR ''2''" "char_of (51::nat) = CHR ''3''"
  "char_of (55::nat) = CHR ''7''"
  by code_simp+

lemma demo_address: "ParseAddr ''203.0.113.7'' = Some (Addr4 3405803783)" "dotted 3405803783 = ''203.0.113.7''"
  by (simp_all add: ParseAddr_def parseIPv4_def v4_field_def SplitChar_def is_digit_def char_code_def decimal_def digit_value_def
      dotted_def digits_of.simps upt_rec digit_chars)

lemma demo_names: "normalizeNames [''derp.example.com''] = [''derp.example.com'']" "plain ''derp.example.com''"
  by code_simp+

lemma demo_address_plain: "normalizeNames [''203.0.113.7''] = [''203.0.113.7'']" "plain ''203.0.113.7''"
proof -
  have "TrimSpace (TrimSuffix ''203.0.113.7'' ''.'') = ''203.0.113.7''" by code_simp
  then have "normalizeName ''203.0.113.7'' = ''203.0.113.7''" by (simp add: normalizeName_def demo_address)
  then show "normalizeNames [''203.0.113.7''] = [''203.0.113.7'']" "plain ''203.0.113.7''"
    by (simp_all add: normalizeNames_def plain_def nul_free_def demo_address)
qed

definition demo_manager :: cert_manager where
  "demo_manager = setCurrent demo_sha \<lparr>tc_Certificate = [template demo_cert_env [''derp.example.com''] 1 7], tc_PrivateKey = 7\<rparr>
     (next_year (ce_now demo_cert_env)) [] (empty_manager [''derp.example.com''])"

definition demo_disk :: cert_disk where
  "demo_disk = \<lparr>dk_key = KeyStored 7, dk_cert = Some [template demo_cert_env [''derp.example.com''] 1 7]\<rparr>"

lemma demo_cert_run: "cert_run demo_sha demo_cert_start (None, fresh_disk) = (Some demo_manager, demo_disk)"
proof -
  have "TrimSpace ''/var/lib/tls'' \<noteq> []" by code_simp
  moreover have "cert_names (empty_manager [''derp.example.com'']) [] = [''derp.example.com'']"
    by (simp add: cert_names_def empty_manager_def demo_names)
  ultimately show ?thesis
    by (simp add: cert_run_def demo_cert_start_def cert_NewManager_def fresh_disk_def loadCurrent_def LoadX509KeyPair_def updateLocked_def
        loadExisting_def generate_def generate_key_def demo_cert_env_def persist_def template_def demo_manager_def demo_disk_def Let_def)
qed

theorem certificate_identity_stable_witness:
  "\<exists>m d'. cert_run demo_sha demo_cert_start (None, fresh_disk) = (Some m, d') \<and> cm_certName m = cert_name_of (cm_expected m) \<and>
     dk_key d' = KeyStored 7"
proof -
  from certificate_identity_stable [OF demo_cert_run] have "cm_certName demo_manager = cert_name_of (cm_expected demo_manager)" by auto
  then show ?thesis using demo_cert_run by (auto simp: demo_disk_def)
qed

theorem certificate_covers_endpoints_witness:
  "\<exists>m' d2 c l ls. UpdateEndpointIPs demo_sha demo_cert_env [''203.0.113.7''] demo_manager demo_disk = (None, m', d2) \<and>
     GetCertificate m' = Inr c \<and> tc_Certificate c = l # ls \<and> {''derp.example.com'', ''203.0.113.7''} \<subseteq> set (normalizeNames (leaf_names l))"
proof -
  have base: "cm_baseNames demo_manager = [''derp.example.com'']"
    by (simp add: demo_manager_def setCurrent_def empty_manager_def demo_names Let_def)
  obtain err m' d2 where u: "UpdateEndpointIPs demo_sha demo_cert_env [''203.0.113.7''] demo_manager demo_disk = (err, m', d2)"
    by (cases "UpdateEndpointIPs demo_sha demo_cert_env [''203.0.113.7''] demo_manager demo_disk")
  have "disk_plain fresh_disk" by (simp add: disk_plain_def fresh_disk_def)
  moreover have "list_all op_plain demo_cert_start" by (simp add: demo_cert_start_def demo_names)
  ultimately have r: "case err of Some _ \<Rightarrow> m' = demo_manager
    | None \<Rightarrow> \<exists>c l ls. GetCertificate m' = Inr c \<and> tc_Certificate c = l # ls \<and>
        set (cm_baseNames demo_manager) \<union> set (normalizeNames [''203.0.113.7'']) \<subseteq> set (normalizeNames (leaf_names l)) \<and>
        renewBefore < time_sub (lf_NotAfter l) (ce_now demo_cert_env)"
    using certificate_covers_endpoints [OF demo_cert_run _ _ _ u] demo_address_plain by simp
  have "err = None"
    using UpdateEndpointIPs_succeeds [of demo_cert_env demo_disk demo_sha "[''203.0.113.7'']" demo_manager] u
    by (simp add: env_works_def demo_cert_env_def demo_disk_def)
  with r u base demo_address_plain show ?thesis by (auto simp: insert_commute)
qed

theorem certificate_recovers_witness:
  "\<exists>m' d2. UpdateEndpointIPs demo_sha demo_cert_env [''203.0.113.7''] demo_manager demo_disk = (None, m', d2)"
proof -
  have "disk_plain fresh_disk" "list_all op_plain demo_cert_start" "env_works demo_cert_env" "\<forall>err. dk_key demo_disk \<noteq> KeyUnusable err"
    by (simp_all add: disk_plain_def fresh_disk_def demo_cert_start_def demo_names env_works_def demo_cert_env_def demo_disk_def)
  with certificate_recovers [OF demo_cert_run, of "[''203.0.113.7'']" demo_cert_env] demo_address_plain show ?thesis by auto
qed

end
