(* ===== verification/Management.thy ===== *)
theory Management
  imports DerpMap ParseAddr
begin

text \<open>
  The HTTP handlers of \<^verbatim>\<open>internal/ops/device_management.go\<close> and \<^verbatim>\<open>tailnet_api.go\<close>: management of the devices and the policy of
  a tailnet, through the Tailscale API, with the cache of the device store kept in step.

  \<^item> A body is what \<^verbatim>\<open>encoding/json\<close> makes of it: the error of the first \<open>Decode\<close> (a syntax error, or the end of the
    \<open>LimitReader\<close>), or a value, with whether nothing follows it. Decoding into a struct is modelled: fields are found by their
    name, or by a name that differs in case only, \<open>null\<close> leaves the zero value, an unknown field or a value of another type is an error.
  \<^item> Texts of decoding errors are shortened. \<open>jsonText\<close>, the parser of a JSON text within a string, and \<open>rfc3339\<close>, the parser of a
    time, are parameters, and so is what the Tailscale API answers, in \<open>api_env\<close>.
  \<^item> \<open>ms_calls\<close> lists the changes asked of the Tailscale API, each with the name of its instance.
\<close>

section \<open>Requests and replies\<close>

datatype json = JNull | JBool bool | JNumber string | JString string | JArray "json list" | JObject "(string \<times> json) list"

record request =
  hq_Method :: string
  hq_instance :: string
  hq_deviceID :: string
  hq_body :: "string + (json \<times> bool)"

record APIInstance =
  ai_Name :: string
  ai_Label :: string
  ai_Tailnet :: string
  ai_AuthType :: APIAuthType
  ai_Configured :: bool

datatype reply =
    ReplyError string
  | ReplyOK
  | ReplyValid
  | ReplyInstances "APIInstance list"
  | ReplyPolicy policy_doc
  | ReplyRaw string
  | ReplyDevices "Device list \<times> DeviceSyncStatus list"

record response =
  hr_status :: nat
  hr_reply :: reply

definition error_reply :: "nat \<Rightarrow> string \<Rightarrow> response" where
  "error_reply status msg = \<lparr>hr_status = status, hr_reply = ReplyError msg\<rparr>"

definition ok_reply :: "reply \<Rightarrow> response" where
  "ok_reply r = \<lparr>hr_status = 200, hr_reply = r\<rparr>"

text \<open>A change asked of the Tailscale API.\<close>

datatype api_call =
    SetAuthorized string bool
  | SetName string string
  | SetTags string "string list"
  | SetKey string bool
  | DeleteCall string
  | ExpireCall string
  | SetIPv4Address string string
  | SetSubnetRoutes string "string list"
  | SetPostureAttribute string string json gotime string
  | DeletePostureAttribute string string
  | PolicySet string string

record api_env =
  ae_now :: gotime
  ae_call :: "api_call \<Rightarrow> APIConfig \<Rightarrow> api_error option"
  ae_expire :: "APIConfig \<Rightarrow> http_outcome"
  ae_routes :: "string \<Rightarrow> APIConfig \<Rightarrow> api_error + string"
  ae_attributes :: "string \<Rightarrow> APIConfig \<Rightarrow> api_error + string"
  ae_policy :: policy_env
  ae_validate :: "string \<Rightarrow> APIConfig \<Rightarrow> api_error option"
  ae_listing :: "nat \<Rightarrow> gotime \<times> rawDevice list option"

record mgmt_state =
  ms_store :: deviceStore
  ms_policy :: "string \<Rightarrow> policy_doc"
  ms_calls :: "(string \<times> api_call) list"

type_synonym handler = "api_env \<Rightarrow> request \<Rightarrow> mgmt_state \<Rightarrow> response \<times> mgmt_state"

section \<open>Decoding\<close>

type_synonym 'a json_field = "string \<times> (json \<Rightarrow> 'a \<Rightarrow> 'a option)"

definition find_field :: "'a json_field list \<Rightarrow> string \<Rightarrow> (json \<Rightarrow> 'a \<Rightarrow> 'a option) option" where
  "find_field schema name =
     (case map_of schema name of
        Some f \<Rightarrow> Some f
      | None \<Rightarrow> map_option snd (find (\<lambda>(n, _). EqualFold n name) schema))"

fun decode_members :: "'a json_field list \<Rightarrow> (string \<times> json) list \<Rightarrow> 'a \<Rightarrow> string + 'a" where
  "decode_members schema [] x = Inr x"
| "decode_members schema ((name, v) # rest) x =
     (case find_field schema name of
        None \<Rightarrow> Inl (''json: unknown field '' @ name)
      | Some f \<Rightarrow>
          (case f v x of
             None \<Rightarrow> Inl (''json: cannot unmarshal field '' @ name)
           | Some y \<Rightarrow> decode_members schema rest y))"

definition decode_struct :: "'a json_field list \<Rightarrow> json \<Rightarrow> 'a \<Rightarrow> string + 'a" where
  "decode_struct schema v zero =
     (case v of
        JNull \<Rightarrow> Inr zero
      | JObject members \<Rightarrow> decode_members schema members zero
      | _ \<Rightarrow> Inl ''json: cannot unmarshal'')"

definition decodeManagementRequest :: "'a json_field list \<Rightarrow> 'a \<Rightarrow> request \<Rightarrow> string + 'a" where
  "decodeManagementRequest schema zero r =
     (case hq_body r of
        Inl err \<Rightarrow> Inl (''invalid JSON request: '' @ err)
      | Inr (v, single) \<Rightarrow>
          (case decode_struct schema v zero of
             Inl err \<Rightarrow> Inl (''invalid JSON request: '' @ err)
           | Inr x \<Rightarrow> if single then Inr x else Inl ''request body must contain one JSON object''))"

definition as_string :: "(string \<Rightarrow> 'a \<Rightarrow> 'a) \<Rightarrow> json \<Rightarrow> 'a \<Rightarrow> 'a option" where
  "as_string upd v x = (case v of JString s \<Rightarrow> Some (upd s x) | JNull \<Rightarrow> Some x | _ \<Rightarrow> None)"

definition as_bool :: "(bool \<Rightarrow> 'a \<Rightarrow> 'a) \<Rightarrow> json \<Rightarrow> 'a \<Rightarrow> 'a option" where
  "as_bool upd v x = (case v of JBool b \<Rightarrow> Some (upd b x) | JNull \<Rightarrow> Some x | _ \<Rightarrow> None)"

text \<open>The strings of an array; a \<open>null\<close> in it is the empty string.\<close>

fun string_elems :: "json list \<Rightarrow> string list option" where
  "string_elems [] = Some []"
| "string_elems (v # vs) =
     (case v of
        JString s \<Rightarrow> map_option (\<lambda>ss. s # ss) (string_elems vs)
      | JNull \<Rightarrow> map_option (\<lambda>ss. [] # ss) (string_elems vs)
      | _ \<Rightarrow> None)"

definition as_strings :: "(string list \<Rightarrow> 'a \<Rightarrow> 'a) \<Rightarrow> json \<Rightarrow> 'a \<Rightarrow> 'a option" where
  "as_strings upd v x = (case v of JArray vs \<Rightarrow> map_option (\<lambda>ss. upd ss x) (string_elems vs) | JNull \<Rightarrow> Some (upd [] x) | _ \<Rightarrow> None)"

text \<open>A \<open>json.RawMessage\<close> takes any value as it is, \<open>null\<close> too.\<close>

definition as_raw :: "(json \<Rightarrow> 'a \<Rightarrow> 'a) \<Rightarrow> json \<Rightarrow> 'a \<Rightarrow> 'a option" where
  "as_raw upd v x = Some (upd v x)"

section \<open>Validation\<close>

definition maxDeviceTags :: nat where "maxDeviceTags = 64"

definition tag_ok :: "string \<Rightarrow> bool" where
  "tag_ok tag \<longleftrightarrow> \<not> (253 < length tag \<or> \<not> HasPrefix tag ''tag:'' \<or> TrimSpace tag \<noteq> tag \<or> length tag = 4)"

definition validateTags :: "string list \<Rightarrow> string option" where
  "validateTags tags =
     (if maxDeviceTags < length tags then Some ''at most 64 tags are allowed''
      else if list_all tag_ok tags then None else Some ''tags must be non-empty tag: values'')"

definition ParsePrefix_ok :: "string \<Rightarrow> bool" where
  "ParsePrefix_ok s \<longleftrightarrow> ParsePrefix s \<noteq> None"

definition validateRoutes :: "string list \<Rightarrow> string option" where
  "validateRoutes routes = (case find (\<lambda>r. \<not> ParsePrefix_ok r) routes of None \<Rightarrow> None | Some r \<Rightarrow> Some (''invalid route '' @ r))"

definition validateAttributeKey :: "string \<Rightarrow> string option" where
  "validateAttributeKey key =
     (if key = [] \<or> 253 < length key \<or> TrimSpace key \<noteq> key then Some ''a valid attribute key is required'' else None)"

record setDeviceAttributeRequest =
  sa_Key :: string
  sa_Value :: "json option"
  sa_Expiry :: string
  sa_Comment :: string

definition decodeDeviceAttributeValue :: "(string \<Rightarrow> json option) \<Rightarrow> json option \<Rightarrow> string + json" where
  "decodeDeviceAttributeValue jsonText raw =
     (case raw of
        None \<Rightarrow> Inl ''attribute value must be valid JSON''
      | Some value \<Rightarrow>
          (case value of
             JString encoded \<Rightarrow> (case jsonText encoded of Some v \<Rightarrow> Inr v | None \<Rightarrow> Inr value)
           | _ \<Rightarrow> Inr value))"

definition validateDeviceAttribute ::
    "(string \<Rightarrow> gotime option) \<Rightarrow> (string \<Rightarrow> json option) \<Rightarrow> setDeviceAttributeRequest \<Rightarrow> string option" where
  "validateDeviceAttribute rfc3339 jsonText rq =
     (case validateAttributeKey (sa_Key rq) of
        Some err \<Rightarrow> Some err
      | None \<Rightarrow>
          (case rfc3339 (sa_Expiry rq) of
             None \<Rightarrow> Some ''a valid RFC3339 expiry is required''
           | Some _ \<Rightarrow> (case decodeDeviceAttributeValue jsonText (sa_Value rq) of Inl err \<Rightarrow> Some err | Inr _ \<Rightarrow> None)))"

section \<open>Errors\<close>

definition writeTailscaleAPIError :: "op_error \<Rightarrow> response" where
  "writeTailscaleAPIError err =
     (case err of
        UnknownAPIInstance \<Rightarrow> error_reply 404 ''unknown API instance''
      | UnconfiguredAPIInstance \<Rightarrow> error_reply 503 ''API instance is not configured''
      | ApiFailure (APIErr status msg) \<Rightarrow>
          error_reply (if status = 412 then 409 else status) (if msg \<noteq> [] then msg else ''Tailscale API request failed'')
      | _ \<Rightarrow> error_reply 502 ''Tailscale API request failed'')"

section \<open>Operations with their calls\<close>

definition apiInstances :: "deviceStore \<Rightarrow> APIInstance list" where
  "apiInstances s =
     map (\<lambda>c. \<lparr>ai_Name = ac_Name c, ai_Label = (if ac_Label c = [] then ac_Name c else ac_Label c), ai_Tailnet = ac_Tailnet c,
               ai_AuthType = ac_AuthType c, ai_Configured = isConfigured c\<rparr>) (ds_configs s)"

text \<open>A call that is made is recorded: every operation finds its instance first, and then makes one call.\<close>

definition record_call :: "string \<Rightarrow> api_call \<Rightarrow> mgmt_state \<Rightarrow> mgmt_state" where
  "record_call name call s =
     (case apiInstance (ms_store s) name of Inl _ \<Rightarrow> s | Inr _ \<Rightarrow> s\<lparr>ms_calls := ms_calls s @ [(name, call)]\<rparr>)"

definition store_op :: "string \<Rightarrow> api_call \<Rightarrow> (deviceStore \<Rightarrow> op_error option \<times> deviceStore) \<Rightarrow> mgmt_state \<Rightarrow> op_error option \<times> mgmt_state" where
  "store_op name call f s =
     (let (err, store) = f (ms_store s) in (err, (record_call name call s)\<lparr>ms_store := store\<rparr>))"

text \<open>The operations without a cached result.\<close>

definition setDeviceRoutes :: "(APIConfig \<Rightarrow> api_error option) \<Rightarrow> string \<Rightarrow> deviceStore \<Rightarrow> op_error option \<times> deviceStore" where
  "setDeviceRoutes call name s = api_mutation call name (\<lambda>s. s) s"

definition deleteDeviceAttribute :: "(APIConfig \<Rightarrow> api_error option) \<Rightarrow> string \<Rightarrow> deviceStore \<Rightarrow> op_error option \<times> deviceStore" where
  "deleteDeviceAttribute call name s = api_mutation call name (\<lambda>s. s) s"

definition api_read :: "(APIConfig \<Rightarrow> api_error + 'a) \<Rightarrow> string \<Rightarrow> deviceStore \<Rightarrow> op_error + 'a" where
  "api_read call name s =
     (case apiInstance s name of
        Inl err \<Rightarrow> Inl err
      | Inr c \<Rightarrow> (case call c of Inl err \<Rightarrow> Inl (ApiFailure err) | Inr x \<Rightarrow> Inr x))"

definition deviceRoutes :: "api_env \<Rightarrow> string \<Rightarrow> string \<Rightarrow> deviceStore \<Rightarrow> op_error + string" where
  "deviceRoutes e name deviceID s = api_read (ae_routes e deviceID) name s"

definition deviceAttributes :: "api_env \<Rightarrow> string \<Rightarrow> string \<Rightarrow> deviceStore \<Rightarrow> op_error + string" where
  "deviceAttributes e name deviceID s = api_read (ae_attributes e deviceID) name s"

definition setDeviceAttribute ::
    "(string \<Rightarrow> gotime option) \<Rightarrow> (string \<Rightarrow> json option) \<Rightarrow> api_env \<Rightarrow> string \<Rightarrow> string \<Rightarrow> setDeviceAttributeRequest \<Rightarrow>
     mgmt_state \<Rightarrow> op_error option \<times> mgmt_state" where
  "setDeviceAttribute rfc3339 jsonText e name deviceID rq s =
     (case apiInstance (ms_store s) name of
        Inl err \<Rightarrow> (Some err, s)
      | Inr c \<Rightarrow>
          (case rfc3339 (sa_Expiry rq) of
             None \<Rightarrow> (Some InvalidExpiry, s)
           | Some expires \<Rightarrow>
               (case decodeDeviceAttributeValue jsonText (sa_Value rq) of
                  Inl _ \<Rightarrow> (Some InvalidValue, s)
                | Inr value \<Rightarrow>
                    (let call = SetPostureAttribute deviceID (sa_Key rq) value expires (sa_Comment rq)
                     in store_op name call (api_mutation (ae_call e call) name (\<lambda>s. s)) s))))"

text \<open>The policy: \<open>policyRaw\<close> reads it, \<open>validatePolicy\<close> asks for its validation, \<open>setPolicy\<close> validates and sets it under its ETag.
  Every operation holds the lock of its instance, which exists for each instance of the configuration.\<close>

definition policyLock :: "string \<Rightarrow> deviceStore \<Rightarrow> op_error option" where
  "policyLock name s = (case apiInstance s name of Inl err \<Rightarrow> Some err | Inr _ \<Rightarrow> None)"

definition policyRaw :: "api_env \<Rightarrow> string \<Rightarrow> mgmt_state \<Rightarrow> op_error + policy_doc" where
  "policyRaw e name s =
     (case policyLock name (ms_store s) of
        Some err \<Rightarrow> Inl err
      | None \<Rightarrow> api_read (\<lambda>_. case pe_raw (ae_policy e) 0 of Some err \<Rightarrow> Inl err | None \<Rightarrow> Inr (ms_policy s name)) name (ms_store s))"

definition validatePolicy :: "api_env \<Rightarrow> string \<Rightarrow> string \<Rightarrow> mgmt_state \<Rightarrow> op_error option" where
  "validatePolicy e name hujson s =
     (case policyLock name (ms_store s) of
        Some err \<Rightarrow> Some err
      | None \<Rightarrow>
          (case api_read (\<lambda>c. case ae_validate e hujson c of Some err \<Rightarrow> Inl err | None \<Rightarrow> Inr ()) name (ms_store s) of
             Inl err \<Rightarrow> Some err
           | Inr _ \<Rightarrow> None))"

definition setPolicy :: "api_env \<Rightarrow> string \<Rightarrow> string \<Rightarrow> string \<Rightarrow> mgmt_state \<Rightarrow> op_error option \<times> mgmt_state" where
  "setPolicy e name hujson etag s =
     (case policyLock name (ms_store s) of
        Some err \<Rightarrow> (Some err, s)
      | None \<Rightarrow>
          (case apiInstance (ms_store s) name of
             Inl err \<Rightarrow> (Some err, s)
           | Inr _ \<Rightarrow>
               (let (err, doc) = setPolicyUnlocked (ae_policy e) 0 hujson etag (ms_policy s name);
                    s = (if pe_validate (ae_policy e) 0 = None then record_call name (PolicySet hujson etag) s else s)
                in (map_option ApiFailure err, s\<lparr>ms_policy := (ms_policy s)(name := doc)\<rparr>))))"

section \<open>Handlers\<close>

definition finish_action :: "op_error option \<times> mgmt_state \<Rightarrow> response \<times> mgmt_state" where
  "finish_action r = (case r of (None, s) \<Rightarrow> (ok_reply ReplyOK, s) | (Some err, s) \<Rightarrow> (writeTailscaleAPIError err, s))"

text \<open>\<open>handleDeviceAction\<close>: an action gives the text of a bad request, or the outcome of the operation.\<close>

definition handleDeviceAction ::
    "string \<Rightarrow> (api_env \<Rightarrow> request \<Rightarrow> mgmt_state \<Rightarrow> string + (op_error option \<times> mgmt_state)) \<Rightarrow> handler" where
  "handleDeviceAction httpMethod action e r s =
     (if hq_Method r \<noteq> httpMethod then (error_reply 405 (httpMethod @ '' required''), s)
      else (case action e r s of
              Inl err \<Rightarrow> (error_reply 400 err, s)
            | Inr result \<Rightarrow> finish_action result))"

definition handleSetDeviceAuthorized :: handler where
  "handleSetDeviceAuthorized = handleDeviceAction ''PUT'' (\<lambda>e r s.
     case decodeManagementRequest [(''authorized'', as_bool (\<lambda>b _. b))] False r of
       Inl err \<Rightarrow> Inl err
     | Inr authorized \<Rightarrow>
         (let call = SetAuthorized (hq_deviceID r) authorized
          in Inr (store_op (hq_instance r) call (setDeviceAuthorized (ae_call e call) (hq_instance r) (hq_deviceID r) authorized) s)))"

definition handleSetDeviceName :: handler where
  "handleSetDeviceName = handleDeviceAction ''PUT'' (\<lambda>e r s.
     case decodeManagementRequest [(''name'', as_string (\<lambda>t _. t))] [] r of
       Inl err \<Rightarrow> Inl err
     | Inr raw \<Rightarrow>
         (let name = TrimSpace raw; call = SetName (hq_deviceID r) name
          in if name = [] \<or> 256 < length name then Inl ''a device name of at most 256 characters is required''
             else Inr (store_op (hq_instance r) call (setDeviceName (ae_call e call) (hq_instance r) (hq_deviceID r) name) s)))"

definition handleSetDeviceTags :: handler where
  "handleSetDeviceTags = handleDeviceAction ''PUT'' (\<lambda>e r s.
     case decodeManagementRequest [(''tags'', as_strings (\<lambda>ts _. ts))] [] r of
       Inl err \<Rightarrow> Inl err
     | Inr tags \<Rightarrow>
         (case validateTags tags of
            Some err \<Rightarrow> Inl err
          | None \<Rightarrow>
              (let call = SetTags (hq_deviceID r) tags
               in Inr (store_op (hq_instance r) call (setDeviceTags (ae_call e call) (hq_instance r) (hq_deviceID r) tags) s))))"

definition handleSetDeviceKey :: handler where
  "handleSetDeviceKey = handleDeviceAction ''PUT'' (\<lambda>e r s.
     case decodeManagementRequest [(''keyExpiryDisabled'', as_bool (\<lambda>b _. b))] False r of
       Inl err \<Rightarrow> Inl err
     | Inr disabled \<Rightarrow>
         (let call = SetKey (hq_deviceID r) disabled
          in Inr (store_op (hq_instance r) call (setDeviceKey (ae_call e call) (hq_instance r) (hq_deviceID r) disabled) s)))"

definition handleDeleteDevice :: handler where
  "handleDeleteDevice = handleDeviceAction ''DELETE'' (\<lambda>e r s.
     let call = DeleteCall (hq_deviceID r)
     in Inr (store_op (hq_instance r) call (deleteDevice (ae_call e call) (hq_instance r) (hq_deviceID r)) s))"

definition handleExpireDevice :: handler where
  "handleExpireDevice = handleDeviceAction ''POST'' (\<lambda>e r s.
     Inr (store_op (hq_instance r) (ExpireCall (hq_deviceID r)) (expireDevice (ae_expire e) (ae_now e) (hq_instance r) (hq_deviceID r)) s))"

definition read_reply :: "op_error + string \<Rightarrow> response" where
  "read_reply x = (case x of Inl err \<Rightarrow> writeTailscaleAPIError err | Inr t \<Rightarrow> ok_reply (ReplyRaw t))"

definition handleDeviceRoutes :: handler where
  "handleDeviceRoutes e r s =
     (if hq_Method r = ''GET'' then (read_reply (deviceRoutes e (hq_instance r) (hq_deviceID r) (ms_store s)), s)
      else if hq_Method r = ''PUT'' then
        (case decodeManagementRequest [(''routes'', as_strings (\<lambda>ts _. ts))] [] r of
           Inl err \<Rightarrow> (error_reply 400 err, s)
         | Inr routes \<Rightarrow>
             (case validateRoutes routes of
                Some err \<Rightarrow> (error_reply 400 err, s)
              | None \<Rightarrow>
                  (let call = SetSubnetRoutes (hq_deviceID r) routes
                   in finish_action (store_op (hq_instance r) call (setDeviceRoutes (ae_call e call) (hq_instance r)) s))))
      else (error_reply 405 ''GET or PUT required'', s))"

definition attribute_schema :: "setDeviceAttributeRequest json_field list" where
  "attribute_schema =
     [(''key'', as_string (\<lambda>t x. x\<lparr>sa_Key := t\<rparr>)), (''value'', as_raw (\<lambda>v x. x\<lparr>sa_Value := Some v\<rparr>)),
      (''expiry'', as_string (\<lambda>t x. x\<lparr>sa_Expiry := t\<rparr>)), (''comment'', as_string (\<lambda>t x. x\<lparr>sa_Comment := t\<rparr>))]"

definition zero_attribute :: setDeviceAttributeRequest where
  "zero_attribute = \<lparr>sa_Key = [], sa_Value = None, sa_Expiry = [], sa_Comment = []\<rparr>"

definition handleDeviceAttributes :: "(string \<Rightarrow> gotime option) \<Rightarrow> (string \<Rightarrow> json option) \<Rightarrow> handler" where
  "handleDeviceAttributes rfc3339 jsonText e r s =
     (if hq_Method r = ''GET'' then (read_reply (deviceAttributes e (hq_instance r) (hq_deviceID r) (ms_store s)), s)
      else if hq_Method r = ''POST'' then
        (case decodeManagementRequest attribute_schema zero_attribute r of
           Inl err \<Rightarrow> (error_reply 400 err, s)
         | Inr rq \<Rightarrow>
             (case validateDeviceAttribute rfc3339 jsonText rq of
                Some err \<Rightarrow> (error_reply 400 err, s)
              | None \<Rightarrow> finish_action (setDeviceAttribute rfc3339 jsonText e (hq_instance r) (hq_deviceID r) rq s)))
      else if hq_Method r = ''DELETE'' then
        (case decodeManagementRequest [(''key'', as_string (\<lambda>t _. t))] [] r of
           Inl err \<Rightarrow> (error_reply 400 err, s)
         | Inr key \<Rightarrow>
             (case validateAttributeKey key of
                Some err \<Rightarrow> (error_reply 400 err, s)
              | None \<Rightarrow>
                  (let call = DeletePostureAttribute (hq_deviceID r) key
                   in finish_action (store_op (hq_instance r) call (deleteDeviceAttribute (ae_call e call) (hq_instance r)) s))))
      else (error_reply 405 ''GET, POST, or DELETE required'', s))"

definition handleAPIInstances :: handler where
  "handleAPIInstances e r s =
     (if hq_Method r \<noteq> ''GET'' then (error_reply 405 ''GET required'', s) else (ok_reply (ReplyInstances (apiInstances (ms_store s))), s))"

definition is4_text :: "string \<Rightarrow> bool" where
  "is4_text a = (case ParseAddr a of Some ip \<Rightarrow> Is4 ip | None \<Rightarrow> False)"

definition handleSetDeviceIPv4 :: handler where
  "handleSetDeviceIPv4 e r s =
     (if hq_Method r \<noteq> ''PUT'' then (error_reply 405 ''PUT required'', s)
      else (case decodeManagementRequest [(''ipv4'', as_string (\<lambda>t _. t))] [] r of
              Inl err \<Rightarrow> (error_reply 400 err, s)
            | Inr text \<Rightarrow>
                (case ParseAddr text of
                   Some (Addr4 w) \<Rightarrow>
                     (let ipv4 = Addr_String (Addr4 w); call = SetIPv4Address (hq_deviceID r) ipv4
                      in finish_action (store_op (hq_instance r) call
                           (setDeviceIPv4 (ae_call e call) is4_text (hq_instance r) (hq_deviceID r) ipv4) s))
                 | _ \<Rightarrow> (error_reply 400 ''a valid IPv4 address is required'', s))))"

definition policy_schema :: "policy_doc json_field list" where
  "policy_schema =
     [(''hujson'', as_string (\<lambda>t x. x\<lparr>pd_HuJSON := t\<rparr>)), (''etag'', as_string (\<lambda>t x. x\<lparr>pd_ETag := t\<rparr>))]"

definition decodePolicyDocument :: "bool \<Rightarrow> request \<Rightarrow> string + policy_doc" where
  "decodePolicyDocument requireETag r =
     (case decodeManagementRequest policy_schema \<lparr>pd_HuJSON = [], pd_ETag = []\<rparr> r of
        Inl err \<Rightarrow> Inl err
      | Inr document \<Rightarrow>
          if TrimSpace (pd_HuJSON document) = [] then Inl ''HuJSON is required''
          else if requireETag \<and> TrimSpace (pd_ETag document) = [] then Inl ''ETag is required''
          else Inr document)"

definition handlePolicyGet :: handler where
  "handlePolicyGet e r s =
     (if hq_Method r \<noteq> ''GET'' then (error_reply 405 ''GET required'', s)
      else (case policyRaw e (hq_instance r) s of
              Inl err \<Rightarrow> (writeTailscaleAPIError err, s)
            | Inr doc \<Rightarrow> (ok_reply (ReplyPolicy doc), s)))"

definition handlePolicyValidate :: handler where
  "handlePolicyValidate e r s =
     (if hq_Method r \<noteq> ''POST'' then (error_reply 405 ''POST required'', s)
      else (case decodePolicyDocument False r of
              Inl err \<Rightarrow> (error_reply 400 err, s)
            | Inr doc \<Rightarrow>
                (case validatePolicy e (hq_instance r) (pd_HuJSON doc) s of
                   Some err \<Rightarrow> (writeTailscaleAPIError err, s)
                 | None \<Rightarrow> (ok_reply ReplyValid, s))))"

definition handlePolicySet :: handler where
  "handlePolicySet e r s =
     (if hq_Method r \<noteq> ''PUT'' then (error_reply 405 ''PUT required'', s)
      else (case decodePolicyDocument True r of
              Inl err \<Rightarrow> (error_reply 400 err, s)
            | Inr doc \<Rightarrow> finish_action (setPolicy e (hq_instance r) (pd_HuJSON doc) (pd_ETag doc) s)))"

text \<open>The devices: \<open>handleDevices\<close> and \<open>handleDevicesRefresh\<close>.\<close>

definition handleDevices :: handler where
  "handleDevices e r s =
     (if hq_Method r \<noteq> ''GET'' then (error_reply 405 ''GET required'', s)
      else (ok_reply (ReplyDevices (snapshot (ae_now e) (ms_store s))), s))"

definition handleDevicesRefresh :: handler where
  "handleDevicesRefresh e r s =
     (if hq_Method r \<noteq> ''POST'' then (error_reply 405 ''POST required'', s)
      else (let store = snd (refresh (ae_listing e) (ms_store s))
            in (ok_reply (ReplyDevices (snapshot (ae_now e) store)), s\<lparr>ms_store := store\<rparr>)))"

end
