(* ===== verification/OpsServer.thy ===== *)
theory OpsServer
  imports Management Config Peers Traffic
begin

text \<open>
  The operations server: \<^verbatim>\<open>internal/ops/ops.go\<close> with its routes, \<^verbatim>\<open>internal/service/service.go\<close>, and \<open>opsConfig\<close> of
  \<^verbatim>\<open>main.go\<close>. A request is a method, the segments of a path and a body.

  \<^item> \<open>http.ServeMux\<close> is modelled for the patterns that are registered: a pattern with a method matches that method (\<open>GET\<close> also
    \<open>HEAD\<close>), a path that matches under other methods only is answered with 405, any other with 404.
  \<^item> \<open>oe_metrics\<close> is the JSON of the metrics: \<^term>\<open>None\<close> when it is empty, else the numbers of its members.
  \<^item> \<open>os_actions\<close> lists the commands that were run. A panic of a handler is \<^term>\<open>None\<close>.
\<close>

section \<open>Service actions\<close>

definition AllowedAction :: "string \<Rightarrow> bool" where
  "AllowedAction action \<longleftrightarrow> action = ''start'' \<or> action = ''stop'' \<or> action = ''restart'' \<or> action = ''reload''"

text \<open>How the command ends: well, at the deadline, or with its output and an error.\<close>

datatype cmd_error = ErrNotFound | ErrOther string

datatype cmd_outcome = CmdOK | CmdTimeout | CmdFailed string cmd_error

datatype action_error = ActionText string | ActionWrapped string cmd_error

definition cmd_error_text :: "cmd_error \<Rightarrow> string" where
  "cmd_error_text e = (case e of ErrNotFound \<Rightarrow> ''executable file not found in $PATH'' | ErrOther t \<Rightarrow> t)"

definition RunAction :: "(string \<Rightarrow> cmd_outcome) \<Rightarrow> string \<Rightarrow> string \<Rightarrow> action_error option" where
  "RunAction command timeout action =
     (if \<not> AllowedAction action then Some (ActionText (''unknown action '' @ action))
      else (case command action of
              CmdOK \<Rightarrow> None
            | CmdTimeout \<Rightarrow> Some (ActionText (''service action '' @ action @ '' timed out after '' @ timeout))
            | CmdFailed output err \<Rightarrow>
                if TrimSpace output = [] then Some (ActionWrapped (''service action '' @ action @ '' failed: '' @ cmd_error_text err) err)
                else Some (ActionText (''service action '' @ action @ '' failed: '' @ TrimSpace output))))"

section \<open>Status\<close>

record ops_config =
  oc_Verify :: VerifyConfig
  oc_Version :: string
  oc_Listen :: string
  oc_STUN :: bool
  oc_Mesh :: bool
  oc_OpsSocket :: string
  oc_Health :: string
  oc_TrafficPersist :: bool
  oc_TrafficPath :: string
  oc_TrafficInterval :: int
  oc_ExternalEnabled :: bool

definition opsConfig :: "string \<Rightarrow> Config \<Rightarrow> ops_config" where
  "opsConfig version c =
     \<lparr>oc_Verify = c_Verify c, oc_Version = version, oc_Listen = c_Listen c, oc_STUN = c_STUN c, oc_Mesh = c_Mesh c,
      oc_OpsSocket = c_OpsSocket c, oc_Health = c_Health c, oc_TrafficPersist = c_TrafficPersist c, oc_TrafficPath = c_TrafficPath c,
      oc_TrafficInterval = c_TrafficInterval c, oc_ExternalEnabled = ec_Enabled (c_External c)\<rparr>"

record ops_status =
  op_VerifyClients :: "string list"
  op_VerifyEnabled :: bool
  op_VerifyURLsEnabled :: bool
  op_VerifyTailscaled :: bool
  op_VerifyAPIEnabled :: bool
  op_VerifyAPIInstances :: nat
  op_Running :: bool
  op_Version :: string
  op_Listen :: string
  op_STUN :: bool
  op_Mesh :: bool
  op_OpsSocket :: string
  op_Health :: string
  op_TrafficPersist :: bool
  op_TrafficPath :: string
  op_TrafficInterval :: int
  op_Error :: string
  op_Clients :: int
  op_Accepts :: int
  op_BytesRecv :: int
  op_BytesSent :: int
  op_AcceptsTotal :: int64
  op_BytesRecvTotal :: int64
  op_BytesSentTotal :: int64
  op_ExternalEnabled :: bool
  op_ExternalState :: string

type_synonym metrics = "(string \<Rightarrow> int option) option"

text \<open>A number that does not fit is not decoded; \<open>int\<close> and \<open>int64\<close> are both 64 bits wide.\<close>

definition extractInt :: "(string \<Rightarrow> int option) \<Rightarrow> string \<Rightarrow> int" where
  "extractInt m key = (case m key of None \<Rightarrow> 0 | Some v \<Rightarrow> if - (2 ^ 63) \<le> v \<and> v < 2 ^ 63 then v else 0)"

definition StatusFromConfig :: "ops_config \<Rightarrow> runtimeState option \<Rightarrow> metrics option \<Rightarrow> Stats option \<Rightarrow> ops_status" where
  "StatusFromConfig cfg snap mf tf =
     (let s =
        \<lparr>op_VerifyClients = vc_URLs (oc_Verify cfg), op_VerifyEnabled = vc_Enabled (oc_Verify cfg),
         op_VerifyURLsEnabled = vc_URLsEnabled (oc_Verify cfg), op_VerifyTailscaled = vc_TailscaledEnabled (oc_Verify cfg),
         op_VerifyAPIEnabled = vc_APIEnabled (oc_Verify cfg), op_VerifyAPIInstances = length (vc_APIs (oc_Verify cfg)),
         op_Running = (case snap of None \<Rightarrow> True | Some st \<Rightarrow> rs_running st), op_Version = oc_Version cfg, op_Listen = oc_Listen cfg,
         op_STUN = oc_STUN cfg, op_Mesh = oc_Mesh cfg,
         op_OpsSocket = (if oc_OpsSocket cfg = [] then defaultOpsSocket else oc_OpsSocket cfg),
         op_Health = (if oc_Health cfg = [] then '':9912'' else oc_Health cfg), op_TrafficPersist = oc_TrafficPersist cfg,
         op_TrafficPath = oc_TrafficPath cfg, op_TrafficInterval = oc_TrafficInterval cfg,
         op_Error = (case snap of None \<Rightarrow> [] | Some st \<Rightarrow> rs_err st), op_Clients = 0, op_Accepts = 0, op_BytesRecv = 0,
         op_BytesSent = 0, op_AcceptsTotal = 0, op_BytesRecvTotal = 0, op_BytesSentTotal = 0,
         op_ExternalEnabled = oc_ExternalEnabled cfg, op_ExternalState = []\<rparr>;
          s = (case mf of
                 Some (Some m) \<Rightarrow>
                   s\<lparr>op_Clients := extractInt m ''gauge_clients_local'', op_Accepts := extractInt m ''accepts'',
                     op_BytesRecv := extractInt m ''bytes_received'', op_BytesSent := extractInt m ''bytes_sent''\<rparr>
               | _ \<Rightarrow> s)
      in case tf of
           None \<Rightarrow> s
         | Some stats \<Rightarrow>
             s\<lparr>op_AcceptsTotal := ts_Accepts stats, op_BytesRecvTotal := ts_BytesRecv stats, op_BytesSentTotal := ts_BytesSent stats\<rparr>)"

section \<open>The server\<close>

datatype ops_reply =
    MgmtReply response
  | StatusReply ops_status
  | HealthReply
  | VersionReply string
  | ActionReply nat string string
  | ExternalReply EStatus
  | ExternalResult nat string
  | PeersReply peers_reply
  | ClientsReply metrics
  | MuxError nat

record ops_env =
  oe_api :: api_env
  oe_rfc3339 :: "string \<Rightarrow> gotime option"
  oe_jsonText :: "string \<Rightarrow> json option"
  oe_runtime :: "runtimeState option"
  oe_metrics :: "metrics option"
  oe_traffic :: "Stats option"
  oe_command :: "string \<Rightarrow> cmd_outcome"
  oe_timeout :: string
  oe_manager :: menv
  oe_local :: bool

record ops_state =
  os_mgmt :: mgmt_state
  os_manager :: "Manager option"
  os_tracker :: "PeerTracker option"
  os_resolver :: resolver
  os_actions :: "string list"

record ops_request =
  or_Method :: string
  or_path :: "string list"
  or_action :: string
  or_body :: "string + (json \<times> bool)"

definition HandleOpsWithExecutor :: "ops_env \<Rightarrow> ops_request \<Rightarrow> ops_state \<Rightarrow> ops_reply \<times> ops_state" where
  "HandleOpsWithExecutor e r s =
     (if or_Method r \<noteq> ''POST'' then (ActionReply 405 [] ''POST required'', s)
      else if \<not> AllowedAction (or_action r) then (ActionReply 400 (or_action r) ''unknown action'', s)
      else (let s' = s\<lparr>os_actions := os_actions s @ [or_action r]\<rparr>
            in case RunAction (oe_command e) (oe_timeout e) (or_action r) of
                 None \<Rightarrow> (ActionReply 200 (or_action r) [], s')
               | Some (ActionText t) \<Rightarrow> (ActionReply 502 (or_action r) t, s')
               | Some (ActionWrapped t err) \<Rightarrow> (ActionReply (if err = ErrNotFound then 503 else 502) (or_action r) t, s')))"

definition handleExternalAction ::
    "(Manager \<Rightarrow> (string option \<times> Manager) option) \<Rightarrow> Manager \<Rightarrow> ops_state \<Rightarrow> (ops_reply \<times> ops_state) option" where
  "handleExternalAction action m s =
     (case action m of
        None \<Rightarrow> None
      | Some (Some err, m') \<Rightarrow> Some (ExternalResult 502 err, s\<lparr>os_manager := Some m'\<rparr>)
      | Some (None, m') \<Rightarrow> Some (ExternalResult 200 [], s\<lparr>os_manager := Some m'\<rparr>))"

definition HandleClients :: "metrics option \<Rightarrow> string \<Rightarrow> ops_reply" where
  "HandleClients mf httpMethod =
     (if httpMethod \<noteq> ''GET'' then MgmtReply (error_reply 405 ''GET required'')
      else (case mf of
              None \<Rightarrow> MgmtReply (error_reply 503 ''DERP server not ready'')
            | Some raw \<Rightarrow> ClientsReply raw))"

definition HandleHealth :: "string \<Rightarrow> ops_reply" where
  "HandleHealth httpMethod = (if httpMethod \<noteq> ''GET'' then MgmtReply (error_reply 405 ''GET required'') else HealthReply)"

definition HandleVersion :: "string \<Rightarrow> string \<Rightarrow> ops_reply" where
  "HandleVersion version httpMethod = (if httpMethod \<noteq> ''GET'' then MgmtReply (error_reply 405 ''GET required'') else VersionReply version)"

text \<open>\<open>/status\<close> with the state of the endpoint manager.\<close>

definition HandleStatus :: "ops_config \<Rightarrow> ops_env \<Rightarrow> Manager option \<Rightarrow> string \<Rightarrow> ops_reply" where
  "HandleStatus cfg e external httpMethod =
     (if httpMethod \<noteq> ''GET'' then MgmtReply (error_reply 405 ''GET required'')
      else (let status = StatusFromConfig cfg (oe_runtime e) (oe_metrics e) (oe_traffic e)
            in StatusReply (case external of None \<Rightarrow> status | Some m \<Rightarrow> status\<lparr>op_ExternalState := st_State (mg_status m)\<rparr>)))"

text \<open>Segments of patterns, and the patterns of the management handlers in the order of the code.\<close>

datatype segment = Lit string | PathInstance | PathDevice

definition device_path :: "string list \<Rightarrow> segment list" where
  "device_path rest = [Lit ''tailnets'', PathInstance, Lit ''devices'', PathDevice] @ map Lit rest"

definition tailnet_patterns :: "ops_env \<Rightarrow> (string \<times> segment list \<times> handler) list" where
  "tailnet_patterns e =
     [(''GET'', [Lit ''tailnets''], handleAPIInstances),
      (''PUT'', device_path [''ip''], handleSetDeviceIPv4),
      (''PUT'', device_path [''authorized''], handleSetDeviceAuthorized),
      (''PUT'', device_path [''name''], handleSetDeviceName),
      (''PUT'', device_path [''tags''], handleSetDeviceTags),
      (''PUT'', device_path [''key''], handleSetDeviceKey),
      (''DELETE'', device_path [], handleDeleteDevice),
      (''GET'', device_path [''routes''], handleDeviceRoutes),
      (''PUT'', device_path [''routes''], handleDeviceRoutes),
      (''GET'', device_path [''attributes''], handleDeviceAttributes (oe_rfc3339 e) (oe_jsonText e)),
      (''POST'', device_path [''attributes''], handleDeviceAttributes (oe_rfc3339 e) (oe_jsonText e)),
      (''DELETE'', device_path [''attributes''], handleDeviceAttributes (oe_rfc3339 e) (oe_jsonText e)),
      (''POST'', device_path [''expire''], handleExpireDevice),
      (''GET'', [Lit ''tailnets'', PathInstance, Lit ''acl''], handlePolicyGet),
      (''POST'', [Lit ''tailnets'', PathInstance, Lit ''acl'', Lit ''validate''], handlePolicyValidate),
      (''PUT'', [Lit ''tailnets'', PathInstance, Lit ''acl''], handlePolicySet)]"

fun match_path :: "segment list \<Rightarrow> string list \<Rightarrow> string \<times> string \<Rightarrow> (string \<times> string) option" where
  "match_path [] [] ids = Some ids"
| "match_path (Lit t # ps) (x # xs) ids = (if x = t then match_path ps xs ids else None)"
| "match_path (PathInstance # ps) (x # xs) (i, d) = match_path ps xs (x, d)"
| "match_path (PathDevice # ps) (x # xs) (i, d) = match_path ps xs (i, x)"
| "match_path _ _ ids = None"

definition method_matches :: "string \<Rightarrow> string \<Rightarrow> bool" where
  "method_matches pattern httpMethod \<longleftrightarrow> httpMethod = pattern \<or> (pattern = ''GET'' \<and> httpMethod = ''HEAD'')"

definition mgmt_request :: "ops_request \<Rightarrow> string \<times> string \<Rightarrow> request" where
  "mgmt_request r ids = \<lparr>hq_Method = or_Method r, hq_instance = fst ids, hq_deviceID = snd ids, hq_body = or_body r\<rparr>"

definition serve_mgmt :: "handler \<Rightarrow> ops_env \<Rightarrow> ops_request \<Rightarrow> string \<times> string \<Rightarrow> ops_state \<Rightarrow> ops_reply \<times> ops_state" where
  "serve_mgmt h e r ids s =
     (let (resp, ms) = h (oe_api e) (mgmt_request r ids) (os_mgmt s) in (MgmtReply resp, s\<lparr>os_mgmt := ms\<rparr>))"

definition serve_tailnets :: "ops_env \<Rightarrow> ops_request \<Rightarrow> ops_state \<Rightarrow> ops_reply \<times> ops_state" where
  "serve_tailnets e r s =
     (let found = filter (\<lambda>(_, p, _). match_path p (or_path r) ([], []) \<noteq> None) (tailnet_patterns e)
      in case find (\<lambda>(m, _, _). method_matches m (or_Method r)) found of
           Some (_, p, h) \<Rightarrow> serve_mgmt h e r (the (match_path p (or_path r) ([], []))) s
         | None \<Rightarrow> (MuxError (if found = [] then 404 else 405), s))"

definition serve_external :: "EConfig \<Rightarrow> ops_env \<Rightarrow> ops_request \<Rightarrow> Manager \<Rightarrow> ops_state \<Rightarrow> (ops_reply \<times> ops_state) option" where
  "serve_external ec e r m s =
     (if or_path r = [''external''] then
        Some (if method_matches ''GET'' (or_Method r) then ExternalReply (mg_status m) else MuxError 405, s)
      else if or_path r \<in> set [[''external'', ''reconcile''], [''external'', ''check''], [''external'', ''sync'']] then
        (if or_Method r \<noteq> ''POST'' then Some (MuxError 405, s)
         else if or_path r = [''external'', ''reconcile''] then handleExternalAction (Reconcile ec (oe_manager e)) m s
         else if or_path r = [''external'', ''check''] then handleExternalAction (Check ec (oe_manager e)) m s
         else handleExternalAction (Sync ec (oe_manager e)) m s)
      else Some (MuxError 404, s))"

definition serve_peers :: "ops_env \<Rightarrow> ops_request \<Rightarrow> PeerTracker \<Rightarrow> ops_state \<Rightarrow> (ops_reply \<times> ops_state) option" where
  "serve_peers e r t s =
     (case handlePeerDetails (or_Method r) (ae_now (oe_api e)) (Some (ms_store (os_mgmt s))) (oe_local e) t (os_resolver s) of
        None \<Rightarrow> None
      | Some (reply, t', res) \<Rightarrow> Some (PeersReply reply, s\<lparr>os_tracker := Some t', os_resolver := res\<rparr>))"

definition ServeOps :: "ops_config \<Rightarrow> EConfig \<Rightarrow> ops_env \<Rightarrow> ops_request \<Rightarrow> ops_state \<Rightarrow> (ops_reply \<times> ops_state) option" where
  "ServeOps cfg ec e r s =
     (if or_path r = [''status''] then Some (HandleStatus cfg e (os_manager s) (or_Method r), s)
      else if or_path r = [''health''] then Some (HandleHealth (or_Method r), s)
      else if or_path r = [''version''] then Some (HandleVersion (oc_Version cfg) (or_Method r), s)
      else if or_path r = [''ops''] then Some (HandleOpsWithExecutor e r s)
      else if or_path r = [''devices''] then Some (serve_mgmt handleDevices e r ([], []) s)
      else if or_path r = [''devices'', ''refresh''] then Some (serve_mgmt handleDevicesRefresh e r ([], []) s)
      else if or_path r = [''clients''] then Some (HandleClients (oe_metrics e) (or_Method r), s)
      else if or_path r = [''peers''] then
        (case os_tracker s of None \<Rightarrow> Some (MuxError 404, s) | Some t \<Rightarrow> serve_peers e r t s)
      else if or_path r \<noteq> [] \<and> hd (or_path r) = ''external'' then
        (case os_manager s of None \<Rightarrow> Some (MuxError 404, s) | Some m \<Rightarrow> serve_external ec e r m s)
      else Some (serve_tailnets e r s))"

text \<open>Requests one after the other.\<close>

fun serve_all :: "ops_config \<Rightarrow> EConfig \<Rightarrow> (ops_env \<times> ops_request) list \<Rightarrow> ops_state \<Rightarrow> ops_state option" where
  "serve_all cfg ec [] s = Some s"
| "serve_all cfg ec ((e, r) # rest) s =
     (case ServeOps cfg ec e r s of None \<Rightarrow> None | Some (_, s') \<Rightarrow> serve_all cfg ec rest s')"

end
