(* ===== verification/OpsSafety.thy ===== *)
theory OpsSafety
  imports OpsServer DeviceSync EndpointSafety
begin

text \<open>
  Theorems on the operations server. The contract of a management handler is a locale: a request that is not answered with 200
  changes neither the store nor a policy, a request on one instance leaves the others alone, and at most one change is asked of the
  Tailscale API, for a configured instance and with arguments that were checked. Every handler is an interpretation, and the
  properties of the server follow for all its routes.
\<close>

section \<open>What is asked of the Tailscale API\<close>

fun call_ok :: "api_call \<Rightarrow> bool" where
  "call_ok (SetTags _ ts) = (length ts \<le> 64 \<and> list_all tag_ok ts)"
| "call_ok (SetName _ n) = (n \<noteq> [] \<and> length n \<le> 256 \<and> TrimSpace n = n)"
| "call_ok (SetSubnetRoutes _ rs) = list_all ParsePrefix_ok rs"
| "call_ok (SetIPv4Address _ ip) = (\<exists>w. ip = Addr_String (Addr4 w))"
| "call_ok (SetPostureAttribute _ k _ _ _) = (validateAttributeKey k = None)"
| "call_ok (DeletePostureAttribute _ k) = (validateAttributeKey k = None)"
| "call_ok (PolicySet doc etag) = (TrimSpace doc \<noteq> [] \<and> TrimSpace etag \<noteq> [])"
| "call_ok _ = True"

definition new_calls_ok :: "string \<Rightarrow> mgmt_state \<Rightarrow> mgmt_state \<Rightarrow> bool" where
  "new_calls_ok name s s' \<longleftrightarrow>
     ms_calls s' = ms_calls s \<or>
     (\<exists>call c. ms_calls s' = ms_calls s @ [(name, call)] \<and> call_ok call \<and> apiInstance (ms_store s) name = Inr c)"

locale mgmt_handler =
  fixes h :: handler
  assumes failed: "h e r s = (resp, s') \<Longrightarrow> hr_status resp \<noteq> 200 \<Longrightarrow> ms_store s' = ms_store s \<and> ms_policy s' = ms_policy s"
    and calls: "h e r s = (resp, s') \<Longrightarrow> new_calls_ok (hq_instance r) s s'"
    and others: "h e r s = (resp, s') \<Longrightarrow> n \<noteq> hq_instance r \<Longrightarrow>
      fmlookup (ds_cache (ms_store s')) n = fmlookup (ds_cache (ms_store s)) n \<and> ms_policy s' n = ms_policy s n"
    and configs: "h e r s = (resp, s') \<Longrightarrow> ds_configs (ms_store s') = ds_configs (ms_store s)"
begin

lemma instance_kept: "h e r s = (resp, s') \<Longrightarrow> apiInstance (ms_store s') n = apiInstance (ms_store s) n"
  by (simp add: apiInstance_def configs)

lemma served:
  assumes "serve_mgmt h e r ids s = (reply, s')"
  shows "os_actions s' = os_actions s" "ds_configs (ms_store (os_mgmt s')) = ds_configs (ms_store (os_mgmt s))"
    "new_calls_ok (fst ids) (os_mgmt s) (os_mgmt s')"
    "n \<noteq> fst ids \<Longrightarrow> fmlookup (ds_cache (ms_store (os_mgmt s'))) n = fmlookup (ds_cache (ms_store (os_mgmt s))) n \<and>
       ms_policy (os_mgmt s') n = ms_policy (os_mgmt s) n"
    "reply = MgmtReply resp \<Longrightarrow> hr_status resp \<noteq> 200 \<Longrightarrow> ms_store (os_mgmt s') = ms_store (os_mgmt s) \<and> ms_policy (os_mgmt s') = ms_policy (os_mgmt s)"
    "\<exists>resp. reply = MgmtReply resp"
proof -
  obtain rp ms where h: "h (oe_api e) (mgmt_request r ids) (os_mgmt s) = (rp, ms)" by (cases "h (oe_api e) (mgmt_request r ids) (os_mgmt s)")
  have i: "hq_instance (mgmt_request r ids) = fst ids" by (simp add: mgmt_request_def)
  from assms h have s': "reply = MgmtReply rp" "s' = s\<lparr>os_mgmt := ms\<rparr>" by (simp_all add: serve_mgmt_def)
  then show "os_actions s' = os_actions s" "ds_configs (ms_store (os_mgmt s')) = ds_configs (ms_store (os_mgmt s))"
    "new_calls_ok (fst ids) (os_mgmt s) (os_mgmt s')"
    "n \<noteq> fst ids \<Longrightarrow> fmlookup (ds_cache (ms_store (os_mgmt s'))) n = fmlookup (ds_cache (ms_store (os_mgmt s))) n \<and>
       ms_policy (os_mgmt s') n = ms_policy (os_mgmt s) n"
    "reply = MgmtReply resp \<Longrightarrow> hr_status resp \<noteq> 200 \<Longrightarrow> ms_store (os_mgmt s') = ms_store (os_mgmt s) \<and> ms_policy (os_mgmt s') = ms_policy (os_mgmt s)"
    "\<exists>resp. reply = MgmtReply resp"
    using configs [OF h] calls [OF h] others [OF h] failed [OF h] i by auto
qed

end

text \<open>All handlers but the one that sets a policy leave the policies alone.\<close>

locale device_handler = mgmt_handler +
  assumes policies: "h e r s = (resp, s') \<Longrightarrow> ms_policy s' = ms_policy s"
begin

lemma served_policies: "serve_mgmt h e r ids s = (reply, s') \<Longrightarrow> ms_policy (os_mgmt s') = ms_policy (os_mgmt s)"
  by (auto simp: serve_mgmt_def dest: policies split: prod.splits)

end

section \<open>Operations on the store\<close>

lemma update_values_frame:
  "ds_configs (updateCachedDevice name d f s) = ds_configs s"
  "n \<noteq> name \<Longrightarrow> fmlookup (ds_cache (updateCachedDevice name d f s)) n = fmlookup (ds_cache s) n"
  "ds_configs (removeCachedDevice name d s) = ds_configs s"
  "n \<noteq> name \<Longrightarrow> fmlookup (ds_cache (removeCachedDevice name d s)) n = fmlookup (ds_cache s) n"
  by (simp_all add: updateCachedDevice_def removeCachedDevice_def Let_def split: option.split)

text \<open>An operation that changes the cache of one instance, and only when it has no error.\<close>

definition store_frame :: "string \<Rightarrow> (deviceStore \<Rightarrow> op_error option \<times> deviceStore) \<Rightarrow> bool" where
  "store_frame name f \<longleftrightarrow>
     (\<forall>s. (fst (f s) \<noteq> None \<longrightarrow> snd (f s) = s) \<and> ds_configs (snd (f s)) = ds_configs s \<and>
        (\<forall>n. n \<noteq> name \<longrightarrow> fmlookup (ds_cache (snd (f s))) n = fmlookup (ds_cache s) n))"

lemma api_mutation_frame:
  assumes "\<And>s. ds_configs (g s) = ds_configs s" "\<And>s n. n \<noteq> name \<Longrightarrow> fmlookup (ds_cache (g s)) n = fmlookup (ds_cache s) n"
  shows "store_frame name (api_mutation call name g)"
  using assms by (auto simp: store_frame_def api_mutation_def split: sum.splits option.splits)

lemma store_frames:
  "store_frame name (setDeviceAuthorized call name d b)" "store_frame name (setDeviceName call name d t)"
  "store_frame name (setDeviceTags call name d ts)" "store_frame name (setDeviceKey call name d b)"
  "store_frame name (deleteDevice call name d)" "store_frame name (expireDevice http now name d)"
  "store_frame name (setDeviceIPv4 call is4 name d t)" "store_frame name (setDeviceRoutes call name)"
  "store_frame name (deleteDeviceAttribute call name)" "store_frame name (api_mutation call name (\<lambda>s. s))"
  unfolding setDeviceAuthorized_def setDeviceName_def setDeviceTags_def setDeviceKey_def deleteDevice_def expireDevice_def setDeviceIPv4_def
    updateCachedIPv4_def setDeviceRoutes_def deleteDeviceAttribute_def
  by (rule api_mutation_frame; simp add: update_values_frame)+

text \<open>What a handler may do: nothing, or one operation on the store with a checked call.\<close>

definition step_ok :: "string \<Rightarrow> mgmt_state \<Rightarrow> response \<times> mgmt_state \<Rightarrow> bool" where
  "step_ok name s out \<longleftrightarrow>
     (hr_status (fst out) \<noteq> 200 \<longrightarrow> ms_store (snd out) = ms_store s) \<and> ms_policy (snd out) = ms_policy s \<and>
     new_calls_ok name s (snd out) \<and> ds_configs (ms_store (snd out)) = ds_configs (ms_store s) \<and>
     (\<forall>n. n \<noteq> name \<longrightarrow> fmlookup (ds_cache (ms_store (snd out))) n = fmlookup (ds_cache (ms_store s)) n)"

lemma step_ok_same: "step_ok name s (resp, s)"
  by (simp add: step_ok_def new_calls_ok_def)

lemma record_call_simps [simp]:
  "ms_store (record_call name call s) = ms_store s" "ms_policy (record_call name call s) = ms_policy s"
  by (simp_all add: record_call_def split: sum.split)

lemma record_call_ok: "call_ok call \<Longrightarrow> new_calls_ok name s (record_call name call s)"
  by (auto simp: record_call_def new_calls_ok_def split: sum.split)

lemma step_ok_store_op:
  assumes "store_frame name f" "call_ok call"
  shows "step_ok name s (finish_action (store_op name call f s))"
proof -
  obtain err st where f: "f (ms_store s) = (err, st)" by (cases "f (ms_store s)")
  have "err \<noteq> None \<longrightarrow> st = ms_store s" "ds_configs st = ds_configs (ms_store s)"
    "\<forall>n. n \<noteq> name \<longrightarrow> fmlookup (ds_cache st) n = fmlookup (ds_cache (ms_store s)) n"
    using assms(1) [unfolded store_frame_def, rule_format, of "ms_store s"] f by auto
  moreover have "new_calls_ok name s ((record_call name call s)\<lparr>ms_store := st\<rparr>)"
    using record_call_ok [OF assms(2), of name s] by (simp add: new_calls_ok_def)
  ultimately show ?thesis
    by (auto simp: step_ok_def store_op_def f finish_action_def ok_reply_def split: option.split)
qed

lemma device_handlerI:
  assumes "\<And>e r s. step_ok (hq_instance r) s (h e r s)"
  shows "device_handler h"
proof -
  have "step_ok (hq_instance r) s (resp, s')" if "h e r s = (resp, s')" for e r s resp s'
    using assms [of r s e] that by simp
  then show ?thesis by unfold_locales (simp_all add: step_ok_def)
qed

section \<open>The handlers meet their contract\<close>

lemma handleDeviceAction_ok:
  assumes "\<And>e r s err s'. action e r s = Inr (err, s') \<Longrightarrow> step_ok (hq_instance r) s (finish_action (err, s'))"
  shows "step_ok (hq_instance r) s (handleDeviceAction m action e r s)"
  using assms by (cases "action e r s") (auto simp: handleDeviceAction_def step_ok_same)

lemma step_ok_store_op_pair:
  assumes "store_op name call f s = (err, s')" "store_frame name f" "call_ok call"
  shows "step_ok name s (finish_action (err, s'))"
  using step_ok_store_op [OF assms(2,3), of s] by (simp add: assms(1))

lemma validateTags_ok: "validateTags ts = None \<Longrightarrow> length ts \<le> 64 \<and> list_all tag_ok ts"
  by (simp add: validateTags_def maxDeviceTags_def split: if_splits)

lemma validateRoutes_ok: "validateRoutes rs = None \<Longrightarrow> list_all ParsePrefix_ok rs"
  by (auto simp: validateRoutes_def find_None_iff list_all_iff split: option.splits)

interpretation h_authorized: device_handler handleSetDeviceAuthorized
  unfolding handleSetDeviceAuthorized_def
  by (rule device_handlerI, rule handleDeviceAction_ok)
    (auto simp: Let_def TrimSpace_idem dest: validateTags_ok intro!: step_ok_store_op_pair store_frames split: sum.splits option.splits if_splits)

interpretation h_name: device_handler handleSetDeviceName
  unfolding handleSetDeviceName_def
  by (rule device_handlerI, rule handleDeviceAction_ok)
    (auto simp: Let_def TrimSpace_idem dest: validateTags_ok intro!: step_ok_store_op_pair store_frames split: sum.splits option.splits if_splits)

interpretation h_tags: device_handler handleSetDeviceTags
  unfolding handleSetDeviceTags_def
  by (rule device_handlerI, rule handleDeviceAction_ok)
    (auto simp: Let_def TrimSpace_idem dest: validateTags_ok intro!: step_ok_store_op_pair store_frames split: sum.splits option.splits if_splits)

interpretation h_key: device_handler handleSetDeviceKey
  unfolding handleSetDeviceKey_def
  by (rule device_handlerI, rule handleDeviceAction_ok)
    (auto simp: Let_def TrimSpace_idem dest: validateTags_ok intro!: step_ok_store_op_pair store_frames split: sum.splits option.splits if_splits)

interpretation h_delete: device_handler handleDeleteDevice
  unfolding handleDeleteDevice_def
  by (rule device_handlerI, rule handleDeviceAction_ok)
    (auto simp: Let_def TrimSpace_idem dest: validateTags_ok intro!: step_ok_store_op_pair store_frames split: sum.splits option.splits if_splits)

interpretation h_expire: device_handler handleExpireDevice
  unfolding handleExpireDevice_def
  by (rule device_handlerI, rule handleDeviceAction_ok)
    (auto simp: Let_def TrimSpace_idem dest: validateTags_ok intro!: step_ok_store_op_pair store_frames split: sum.splits option.splits if_splits)

interpretation h_ipv4: device_handler handleSetDeviceIPv4
  by (rule device_handlerI)
    (auto simp: handleSetDeviceIPv4_def Let_def step_ok_same intro!: step_ok_store_op store_frames split: sum.split option.split Addr.split)

interpretation h_routes: device_handler handleDeviceRoutes
  by (rule device_handlerI)
    (auto simp: handleDeviceRoutes_def Let_def step_ok_same dest: validateRoutes_ok intro!: step_ok_store_op store_frames split: sum.split option.split)

lemma setDeviceAttribute_ok:
  assumes "validateAttributeKey (sa_Key rq) = None"
  shows "step_ok name s (finish_action (setDeviceAttribute rfc3339 jsonText e name d rq s))"
proof -
  have "step_ok name s (finish_action (x, s))" for x
    by (simp add: finish_action_def step_ok_same split: option.split)
  then show ?thesis using assms
    by (auto simp: setDeviceAttribute_def Let_def intro!: step_ok_store_op store_frames split: sum.split option.split)
qed

interpretation h_attributes: device_handler "handleDeviceAttributes rfc3339 jsonText" for rfc3339 jsonText
  by (rule device_handlerI)
    (auto simp: handleDeviceAttributes_def Let_def step_ok_same validateDeviceAttribute_def
      intro!: setDeviceAttribute_ok step_ok_store_op store_frames split: sum.split option.split option.split_asm)

interpretation h_instances: device_handler handleAPIInstances
  by (rule device_handlerI) (simp add: handleAPIInstances_def step_ok_same)

interpretation h_policy_get: device_handler handlePolicyGet
  by (rule device_handlerI) (simp add: handlePolicyGet_def step_ok_same split: sum.split)

interpretation h_policy_validate: device_handler handlePolicyValidate
  by (rule device_handlerI) (simp add: handlePolicyValidate_def step_ok_same split: sum.split option.split)

lemma decodePolicyDocument_ok:
  "decodePolicyDocument True r = Inr doc \<Longrightarrow> TrimSpace (pd_HuJSON doc) \<noteq> [] \<and> TrimSpace (pd_ETag doc) \<noteq> []"
  by (auto simp: decodePolicyDocument_def split: sum.splits if_splits)

text \<open>Setting a policy: it is set when the call was validated and the ETag is that of the policy, else it stays.\<close>

lemma setPolicy_cases:
  assumes "setPolicy e name hujson etag s = (err, s')"
  shows "ms_store s' = ms_store s" "n \<noteq> name \<Longrightarrow> ms_policy s' n = ms_policy s n"
    "TrimSpace hujson \<noteq> [] \<Longrightarrow> TrimSpace etag \<noteq> [] \<Longrightarrow> new_calls_ok name s s'"
    "err \<noteq> None \<Longrightarrow> ms_policy s' = ms_policy s"
    "err = None \<Longrightarrow> etag = pd_ETag (ms_policy s name) \<and> pe_validate (ae_policy e) 0 = None \<and> pd_HuJSON (ms_policy s' name) = hujson"
proof -
  have "ms_store s' = ms_store s \<and> (n \<noteq> name \<longrightarrow> ms_policy s' n = ms_policy s n) \<and>
      (call_ok (PolicySet hujson etag) \<longrightarrow> new_calls_ok name s s') \<and> (err \<noteq> None \<longrightarrow> ms_policy s' = ms_policy s) \<and>
      (err = None \<longrightarrow> etag = pd_ETag (ms_policy s name) \<and> pe_validate (ae_policy e) 0 = None \<and> pd_HuJSON (ms_policy s' name) = hujson)"
  proof (cases "apiInstance (ms_store s) name")
    case (Inl x)
    with assms show ?thesis by (auto simp: setPolicy_def policyLock_def new_calls_ok_def)
  next
    case (Inr c)
    obtain er doc where p: "setPolicyUnlocked (ae_policy e) 0 hujson etag (ms_policy s name) = (er, doc)"
      by (cases "setPolicyUnlocked (ae_policy e) 0 hujson etag (ms_policy s name)")
    have doc: "er \<noteq> None \<Longrightarrow> doc = ms_policy s name"
      "er = None \<Longrightarrow> etag = pd_ETag (ms_policy s name) \<and> pe_validate (ae_policy e) 0 = None \<and> pd_HuJSON doc = hujson"
      using p by (auto simp: setPolicyUnlocked_def split: option.splits if_splits)
    have "new_calls_ok name s (record_call name (PolicySet hujson etag) s)" if "call_ok (PolicySet hujson etag)"
      using that by (rule record_call_ok)
    moreover from assms p have "err = map_option ApiFailure er"
      "s' = (if pe_validate (ae_policy e) 0 = None then record_call name (PolicySet hujson etag) s else s)\<lparr>ms_policy := (ms_policy s)(name := doc)\<rparr>"
      by (auto simp: setPolicy_def policyLock_def Inr Let_def)
    ultimately show ?thesis using doc by (auto simp: new_calls_ok_def fun_upd_idem)
  qed
  then show "ms_store s' = ms_store s" "n \<noteq> name \<Longrightarrow> ms_policy s' n = ms_policy s n"
    "TrimSpace hujson \<noteq> [] \<Longrightarrow> TrimSpace etag \<noteq> [] \<Longrightarrow> new_calls_ok name s s'"
    "err \<noteq> None \<Longrightarrow> ms_policy s' = ms_policy s"
    "err = None \<Longrightarrow> etag = pd_ETag (ms_policy s name) \<and> pe_validate (ae_policy e) 0 = None \<and> pd_HuJSON (ms_policy s' name) = hujson"
    by simp_all
qed

lemma handlePolicySet_cases:
  assumes "handlePolicySet e r s = (resp, s')"
  obtains (same) "s' = s" "hr_status resp \<noteq> 200"
  | (set) err doc where "hq_Method r = ''PUT''" "decodePolicyDocument True r = Inr doc"
      "setPolicy e (hq_instance r) (pd_HuJSON doc) (pd_ETag doc) s = (err, s')" "hr_status resp \<noteq> 200 \<longrightarrow> err \<noteq> None"
proof (cases "hq_Method r = ''PUT''")
  case put: True
  show thesis
  proof (cases "decodePolicyDocument True r")
    case (Inl err)
    with assms put show thesis by (intro same) (auto simp: handlePolicySet_def error_reply_def)
  next
    case (Inr doc)
    obtain err s1 where p: "setPolicy e (hq_instance r) (pd_HuJSON doc) (pd_ETag doc) s = (err, s1)"
      by (cases "setPolicy e (hq_instance r) (pd_HuJSON doc) (pd_ETag doc) s")
    from assms put Inr p have "s' = s1" "hr_status resp \<noteq> 200 \<longrightarrow> err \<noteq> None"
      by (auto simp: handlePolicySet_def finish_action_def ok_reply_def split: option.splits)
    with put Inr p show thesis by (intro set [of doc err]) auto
  qed
qed (use assms in \<open>auto simp: handlePolicySet_def error_reply_def intro: same\<close>)

interpretation h_policy_set: mgmt_handler handlePolicySet
proof
  fix e r s resp s' n
  assume h: "handlePolicySet e r s = (resp, s')"
  have "(hr_status resp \<noteq> 200 \<longrightarrow> ms_store s' = ms_store s \<and> ms_policy s' = ms_policy s) \<and> new_calls_ok (hq_instance r) s s' \<and>
      (n \<noteq> hq_instance r \<longrightarrow> ms_policy s' n = ms_policy s n) \<and> ms_store s' = ms_store s"
    using h
  proof (cases rule: handlePolicySet_cases)
    case (set err doc)
    from decodePolicyDocument_ok [OF set(2)] setPolicy_cases [OF set(3)] set(4) show ?thesis by blast
  qed (simp add: new_calls_ok_def)
  then show "hr_status resp \<noteq> 200 \<Longrightarrow> ms_store s' = ms_store s \<and> ms_policy s' = ms_policy s" "new_calls_ok (hq_instance r) s s'"
    "n \<noteq> hq_instance r \<Longrightarrow> fmlookup (ds_cache (ms_store s')) n = fmlookup (ds_cache (ms_store s)) n \<and> ms_policy s' n = ms_policy s n"
    "ds_configs (ms_store s') = ds_configs (ms_store s)" by simp_all
qed

text \<open>A body without the field is a body with the zero value: an empty object takes the authorization of the device away.\<close>

lemma missing_field_is_zero:
  "hq_body r = Inr (JObject [], True) \<Longrightarrow>
   handleSetDeviceAuthorized e r s = handleSetDeviceAuthorized e (r\<lparr>hq_body := Inr (JObject [(''authorized'', JBool False)], True)\<rparr>) s"
  by (simp add: handleSetDeviceAuthorized_def handleDeviceAction_def decodeManagementRequest_def decode_struct_def find_field_def as_bool_def Let_def)

section \<open>Routes\<close>

lemma match_path_Lit: "match_path (Lit t # ps) xs ids = Some y \<longleftrightarrow> (\<exists>ys. xs = t # ys \<and> match_path ps ys ids = Some y)"
  by (cases xs) auto

lemma match_path_Instance: "match_path (PathInstance # ps) xs (i, d) = Some y \<longleftrightarrow> (\<exists>x ys. xs = x # ys \<and> match_path ps ys (x, d) = Some y)"
  by (cases xs) auto

lemma match_path_Device: "match_path (PathDevice # ps) xs (i, d) = Some y \<longleftrightarrow> (\<exists>x ys. xs = x # ys \<and> match_path ps ys (i, x) = Some y)"
  by (cases xs) auto

lemma match_path_Nil: "match_path [] xs ids = Some y \<longleftrightarrow> xs = [] \<and> y = ids"
  by (cases xs) auto

lemmas match_path_iffs = match_path_Lit match_path_Instance match_path_Device match_path_Nil

lemma all_patterns:
  "list_all (\<lambda>(m, p, h). device_handler h \<or> m = ''PUT'' \<and> p = [Lit ''tailnets'', PathInstance, Lit ''acl''] \<and> h = handlePolicySet)
     (tailnet_patterns e)"
  by (simp add: tailnet_patterns_def h_instances.device_handler_axioms h_ipv4.device_handler_axioms h_authorized.device_handler_axioms
      h_name.device_handler_axioms h_tags.device_handler_axioms h_key.device_handler_axioms h_delete.device_handler_axioms
      h_routes.device_handler_axioms h_attributes.device_handler_axioms h_expire.device_handler_axioms h_policy_get.device_handler_axioms
      h_policy_validate.device_handler_axioms)

text \<open>The instance of the path is the instance of the request.\<close>

lemma pattern_instance:
  "list_all (\<lambda>(m, p, h). match_path p (''tailnets'' # i # rest) ([], []) = Some ids \<longrightarrow> fst ids = i) (tailnet_patterns e)"
  by (auto simp: tailnet_patterns_def device_path_def match_path_iffs)

section \<open>The server\<close>

lemma find_SomeD: "find P xs = Some x \<Longrightarrow> x \<in> set xs \<and> P x"
  by (auto simp: find_Some_iff)

lemma serve_tailnets_cases:
  assumes "serve_tailnets e r s = (reply, s')"
  obtains (none) "s' = s" "reply = MuxError 404 \<or> reply = MuxError 405"
  | (handled) m p h ids where "(m, p, h) \<in> set (tailnet_patterns e)" "match_path p (or_path r) ([], []) = Some ids"
      "method_matches m (or_Method r)" "serve_mgmt h e r ids s = (reply, s')"
proof -
  let ?found = "filter (\<lambda>(_, p, _). match_path p (or_path r) ([], []) \<noteq> None) (tailnet_patterns e)"
  show thesis
  proof (cases "find (\<lambda>(m, _, _). method_matches m (or_Method r)) ?found")
    case None
    with assms show thesis by (intro none) (auto simp: serve_tailnets_def Let_def split: if_splits)
  next
    case (Some mph)
    obtain m p h where t: "mph = (m, p, h)" by (cases mph)
    from find_SomeD [OF Some] have "(m, p, h) \<in> set (tailnet_patterns e)" "method_matches m (or_Method r)"
      "match_path p (or_path r) ([], []) \<noteq> None" by (simp_all add: t)
    moreover from assms Some t have "serve_mgmt h e r (the (match_path p (or_path r) ([], []))) s = (reply, s')"
      by (simp add: serve_tailnets_def Let_def)
    ultimately show thesis by (intro handled [of m p h]) auto
  qed
qed

lemma pattern_handler: "(m, p, h) \<in> set (tailnet_patterns e) \<Longrightarrow> mgmt_handler h"
  using all_patterns [of e] h_policy_set.mgmt_handler_axioms by (auto simp: list_all_iff device_handler_def)

text \<open>What a request does to the store, the policies and the service.\<close>

lemma ServeOps_cases:
  assumes "ServeOps cfg ec e r s = Some (reply, s')"
  obtains (quiet) "os_mgmt s' = os_mgmt s" "os_actions s' = os_actions s"
  | (action) "os_mgmt s' = os_mgmt s" "os_actions s' = os_actions s @ [or_action r]" "AllowedAction (or_action r)"
  | (refreshed) resp where "or_path r = [''devices'', ''refresh'']" "reply = MgmtReply resp" "hr_status resp = 200"
      "os_mgmt s' = (os_mgmt s)\<lparr>ms_store := snd (refresh (ae_listing (oe_api e)) (ms_store (os_mgmt s)))\<rparr>" "os_actions s' = os_actions s"
  | (tailnet) m p h ids where "(m, p, h) \<in> set (tailnet_patterns e)" "match_path p (or_path r) ([], []) = Some ids"
      "method_matches m (or_Method r)" "serve_mgmt h e r ids s = (reply, s')"
proof -
  consider (ops) "or_path r = [''ops'']" | (devices) "or_path r = [''devices'']" | (refresh) "or_path r = [''devices'', ''refresh'']"
    | (peers) "or_path r = [''peers'']" | (external) "or_path r \<noteq> []" "hd (or_path r) = ''external''"
    | (page) "or_path r \<in> {[''status''], [''health''], [''version''], [''clients'']}"
    | (other) "or_path r \<notin> {[''status''], [''health''], [''version''], [''clients''], [''ops''], [''devices''], [''devices'', ''refresh''], [''peers'']}"
        "\<not> (or_path r \<noteq> [] \<and> hd (or_path r) = ''external'')"
    by blast
  then show thesis
  proof cases
    case ops
    with assms show thesis
      by (auto simp: ServeOps_def HandleOpsWithExecutor_def Let_def intro: quiet action split: if_splits option.splits action_error.splits)
  next
    case devices
    with assms have "serve_mgmt handleDevices e r ([], []) s = (reply, s')" by (simp add: ServeOps_def)
    then show thesis by (intro quiet) (auto simp: serve_mgmt_def handleDevices_def Let_def split: if_splits)
  next
    case refresh
    with assms have "serve_mgmt handleDevicesRefresh e r ([], []) s = (reply, s')" by (simp add: ServeOps_def)
    with refresh show thesis
      by (auto simp: serve_mgmt_def handleDevicesRefresh_def Let_def ok_reply_def mgmt_request_def intro: quiet refreshed split: if_splits)
  next
    case peers
    with assms show thesis by (intro quiet) (auto simp: ServeOps_def serve_peers_def split: option.splits)
  next
    case external
    with assms show thesis
      by (intro quiet) (auto simp: ServeOps_def serve_external_def handleExternalAction_def split: option.splits if_splits)
  next
    case other
    with assms have "serve_tailnets e r s = (reply, s')" by (auto simp: ServeOps_def)
    then show thesis by (cases rule: serve_tailnets_cases) (auto intro: quiet tailnet)
  next
    case page
    with assms show thesis by (intro quiet) (auto simp: ServeOps_def)
  qed
qed

text \<open>The status of a reply.\<close>

fun reply_status :: "ops_reply \<Rightarrow> nat" where
  "reply_status (MgmtReply resp) = hr_status resp"
| "reply_status (ActionReply status _ _) = status"
| "reply_status (ExternalResult status _) = status"
| "reply_status (PeersReply reply) = (case reply of MethodNotAllowed \<Rightarrow> 405 | PeersOK _ \<Rightarrow> 200)"
| "reply_status (MuxError status) = status"
| "reply_status _ = 200"

lemma ServeOps_frame:
  assumes "ServeOps cfg ec e r s = Some (reply, s')"
  shows "reply_status reply \<noteq> 200 \<longrightarrow> ms_store (os_mgmt s') = ms_store (os_mgmt s) \<and> ms_policy (os_mgmt s') = ms_policy (os_mgmt s)"
    "ds_configs (ms_store (os_mgmt s')) = ds_configs (ms_store (os_mgmt s))"
    "\<exists>i. new_calls_ok i (os_mgmt s) (os_mgmt s')"
    "os_actions s' = os_actions s \<or> os_actions s' = os_actions s @ [or_action r] \<and> AllowedAction (or_action r)"
proof -
  have "(reply_status reply \<noteq> 200 \<longrightarrow> ms_store (os_mgmt s') = ms_store (os_mgmt s) \<and> ms_policy (os_mgmt s') = ms_policy (os_mgmt s)) \<and>
      ds_configs (ms_store (os_mgmt s')) = ds_configs (ms_store (os_mgmt s)) \<and> (\<exists>i. new_calls_ok i (os_mgmt s) (os_mgmt s')) \<and>
      (os_actions s' = os_actions s \<or> os_actions s' = os_actions s @ [or_action r] \<and> AllowedAction (or_action r))"
    using assms
  proof (cases rule: ServeOps_cases)
    case (tailnet m p h ids)
    obtain resp where resp: "reply = MgmtReply resp" using mgmt_handler.served(6) [OF pattern_handler [OF tailnet(1)] tailnet(4)] ..
    note f = mgmt_handler.served [OF pattern_handler [OF tailnet(1)] tailnet(4)]
    show ?thesis using f(1,2,3) f(5) [OF resp] resp by auto
  qed (auto simp: new_calls_ok_def refresh_def)
  then show "reply_status reply \<noteq> 200 \<longrightarrow> ms_store (os_mgmt s') = ms_store (os_mgmt s) \<and> ms_policy (os_mgmt s') = ms_policy (os_mgmt s)"
    "ds_configs (ms_store (os_mgmt s')) = ds_configs (ms_store (os_mgmt s))" "\<exists>i. new_calls_ok i (os_mgmt s) (os_mgmt s')"
    "os_actions s' = os_actions s \<or> os_actions s' = os_actions s @ [or_action r] \<and> AllowedAction (or_action r)" by blast+
qed

section \<open>Properties\<close>


text \<open>A request on the devices or the policy of one instance leaves the cache and the policy of every other instance alone.\<close>

theorem ops_instances_isolated:
  assumes "ServeOps cfg ec e r s = Some (reply, s')" "or_path r = ''tailnets'' # i # rest" "n \<noteq> i"
  shows "fmlookup (ds_cache (ms_store (os_mgmt s'))) n = fmlookup (ds_cache (ms_store (os_mgmt s))) n \<and>
    ms_policy (os_mgmt s') n = ms_policy (os_mgmt s) n"
  using assms(1)
proof (cases rule: ServeOps_cases)
  case (tailnet m p h ids)
  with assms(2) pattern_instance [of i rest ids e] have "fst ids = i" by (auto simp: list_all_iff)
  with assms(3) mgmt_handler.served(4) [OF pattern_handler [OF tailnet(1)] tailnet(4), of n] show ?thesis by simp
qed (use assms(2) in auto)



section \<open>Witnesses\<close>

definition demo_api_env :: api_env where
  "demo_api_env =
     \<lparr>ae_now = 3000, ae_call = (\<lambda>_ _. None), ae_expire = (\<lambda>_. HttpResponse 200 None), ae_routes = (\<lambda>_ _. Inr ''[]''), ae_attributes = (\<lambda>_ _. Inr ''[]''),
      ae_policy = \<lparr>pe_raw = (\<lambda>_. None), pe_validate = (\<lambda>_. None), pe_set = (\<lambda>_. None), pe_done = (\<lambda>_. False),
                   pe_others = (\<lambda>_ doc. doc), pe_etag = (\<lambda>t. ''e:'' @ t)\<rparr>,
      ae_validate = (\<lambda>_ _. None), ae_listing = (\<lambda>_. (3000, None))\<rparr>"

definition demo_ops_env :: ops_env where
  "demo_ops_env =
     \<lparr>oe_api = demo_api_env, oe_rfc3339 = (\<lambda>_. None), oe_jsonText = (\<lambda>_. None), oe_runtime = None, oe_metrics = None, oe_traffic = None,
      oe_command = (\<lambda>_. CmdOK), oe_timeout = ''15s'', oe_manager = demo_env True None, oe_local = False\<rparr>"

definition demo_ops_state :: ops_state where
  "demo_ops_state =
     \<lparr>os_mgmt = \<lparr>ms_store = newDeviceStore demo_verify, ms_policy = (\<lambda>_. \<lparr>pd_HuJSON = ''{}'', pd_ETag = ''e1''\<rparr>), ms_calls = []\<rparr>,
      os_manager = None, os_tracker = None, os_resolver = newIdentityResolver, os_actions = []\<rparr>"

definition demo_acl_put :: "string \<Rightarrow> ops_request" where
  "demo_acl_put etag =
     \<lparr>or_Method = ''PUT'', or_path = [''tailnets'', ''home'', ''acl''], or_action = [],
      or_body = Inr (JObject [(''hujson'', JString ''{ }''), (''etag'', JString etag)], True)\<rparr>"

definition demo_ops_config :: ops_config where
  "demo_ops_config = opsConfig ''1.0'' default_config"

lemma demo_instance: "apiInstance (newDeviceStore demo_verify) ''home'' = Inr demo_api"
  by (simp add: apiInstance_def, simp add: demo_api_def)

lemmas acl_eval = ServeOps_def serve_tailnets_def tailnet_patterns_def device_path_def method_matches_def demo_acl_put_def serve_mgmt_def
  mgmt_request_def handlePolicySet_def decodePolicyDocument_def decodeManagementRequest_def decode_struct_def policy_schema_def
  find_field_def as_string_def setPolicy_def policyLock_def demo_ops_state_def demo_ops_env_def demo_api_env_def demo_instance
  setPolicyUnlocked_def record_call_def finish_action_def ok_reply_def error_reply_def writeTailscaleAPIError_def TrimSpace_def TrimFunc_def is_space_def

lemma acl_stale:
  "\<exists>s'. ServeOps demo_ops_config demo_ecfg demo_ops_env (demo_acl_put ''e0'') demo_ops_state =
     Some (MgmtReply \<lparr>hr_status = 409, hr_reply = ReplyError ''precondition failed''\<rparr>, s')"
  by (simp add: acl_eval Let_def)

lemma acl_current:
  "\<exists>s'. ServeOps demo_ops_config demo_ecfg demo_ops_env (demo_acl_put ''e1'') demo_ops_state =
     Some (MgmtReply \<lparr>hr_status = 200, hr_reply = ReplyOK\<rparr>, s') \<and> pd_HuJSON (ms_policy (os_mgmt s') ''home'') = ''{ }'' \<and>
     serve_all demo_ops_config demo_ecfg [(demo_ops_env, demo_acl_put ''e1'')] demo_ops_state = Some s' \<and>
     ms_calls (os_mgmt s') = [(''home'', PolicySet ''{ }'' ''e1'')]"
  by (simp add: acl_eval Let_def)


theorem ops_instances_isolated_witness:
  "\<exists>reply s'. ServeOps demo_ops_config demo_ecfg demo_ops_env (demo_acl_put ''e1'') demo_ops_state = Some (reply, s') \<and>
    ms_policy (os_mgmt s') ''work'' = ms_policy (os_mgmt demo_ops_state) ''work''"
proof -
  from acl_current obtain s' where s': "ServeOps demo_ops_config demo_ecfg demo_ops_env (demo_acl_put ''e1'') demo_ops_state =
      Some (MgmtReply \<lparr>hr_status = 200, hr_reply = ReplyOK\<rparr>, s')" by blast
  from ops_instances_isolated [OF s', of "''home''" "[''acl'']" "''work''"] s' show ?thesis by (simp add: demo_acl_put_def)
qed



end
