(* ===== verification/UnixSocket.thy ===== *)
theory UnixSocket
  imports GoStrings
begin

text \<open>
  The Unix socket of the operations server, \<^verbatim>\<open>internal/ops/unix.go\<close>: \<open>ListenUnix\<close> and the \<open>Close\<close> of its listener, on a file system
  that maps paths to sockets, with the mode of each, and other files.

  \<^item> \<open>unix_env\<close> holds the outcomes of the system calls: \<^term>\<open>None\<close> for success, or the text of the error.
  \<^item> \<open>net.Listen\<close> makes the socket, except that a name with \<^verbatim>\<open>@\<close> first is an abstract one and leaves no file. Closing the
    listener removes its file, as the \<open>net\<close> package does for the listeners it made.
\<close>

section \<open>Paths\<close>

text \<open>\<open>filepath.Clean\<close> on Unix: the segments without the empty ones and the dots, each parent resolved against the segment before
  it. The list of segments is reversed.\<close>

fun clean_segments :: "bool \<Rightarrow> string list \<Rightarrow> string list \<Rightarrow> string list" where
  "clean_segments rooted out [] = out"
| "clean_segments rooted out (seg # segs) =
     (if seg = [] \<or> seg = ''.'' then clean_segments rooted out segs
      else if seg = ''..'' then
        (case out of
           [] \<Rightarrow> clean_segments rooted (if rooted then [] else [seg]) segs
         | x # rest \<Rightarrow> clean_segments rooted (if x = ''..'' then seg # out else rest) segs)
      else clean_segments rooted (seg # out) segs)"

definition Clean :: "string \<Rightarrow> string" where
  "Clean path =
     (let rooted = HasPrefix path ''/'';
          body = Join ''/'' (rev (clean_segments rooted [] (SplitFunc (\<lambda>c. c = CHR ''/'') path)))
      in if rooted then CHR ''/'' # body else if body = [] then ''.'' else body)"

section \<open>The listener\<close>

datatype node = Socket nat | Other

type_synonym unix_fs = "string \<Rightarrow> node option"

record unix_env =
  ux_mkdir :: "string option"
  ux_lstat :: "string option"
  ux_dial :: "string option"
  ux_remove :: "string option"
  ux_listen :: "string option"
  ux_mode :: nat
  ux_chmod :: "string option"
  ux_close :: "string option"

record cleanupUnixListener =
  ul_path :: string
  ul_once :: bool

text \<open>\<open>net.Listen\<close>: an address that exists is in use.\<close>

definition net_Listen :: "unix_env \<Rightarrow> string \<Rightarrow> unix_fs \<Rightarrow> string option \<times> unix_fs" where
  "net_Listen e path fs =
     (case ux_listen e of
        Some err \<Rightarrow> (Some err, fs)
      | None \<Rightarrow>
          if HasPrefix path ''@'' then (None, fs)
          else if fs path \<noteq> None then (Some ''address already in use'', fs)
          else (None, fs(path := Some (Socket (ux_mode e)))))"

definition net_Close :: "string \<Rightarrow> unix_fs \<Rightarrow> unix_fs" where
  "net_Close path fs = (if HasPrefix path ''@'' then fs else fs(path := None))"

definition os_Remove :: "unix_env \<Rightarrow> string \<Rightarrow> unix_fs \<Rightarrow> string option \<times> unix_fs" where
  "os_Remove e path fs =
     (if fs path = None then (None, fs) else (case ux_remove e of Some err \<Rightarrow> (Some err, fs) | None \<Rightarrow> (None, fs(path := None))))"

definition os_Chmod :: "unix_env \<Rightarrow> string \<Rightarrow> nat \<Rightarrow> unix_fs \<Rightarrow> string option \<times> unix_fs" where
  "os_Chmod e path mode fs =
     (case fs path of
        None \<Rightarrow> (Some ''no such file or directory'', fs)
      | Some node \<Rightarrow> (case ux_chmod e of Some err \<Rightarrow> (Some err, fs)
          | None \<Rightarrow> (None, case node of Socket _ \<Rightarrow> fs(path := Some (Socket mode)) | Other \<Rightarrow> fs)))"

text \<open>A stale socket is removed; a file that is no socket, and a socket that answers, are errors.\<close>

definition clear_stale :: "unix_env \<Rightarrow> string \<Rightarrow> unix_fs \<Rightarrow> string option \<times> unix_fs" where
  "clear_stale e path fs =
     (case ux_lstat e of
        Some err \<Rightarrow> (Some (''inspect unix socket: '' @ err), fs)
      | None \<Rightarrow>
          (case fs path of
             None \<Rightarrow> (None, fs)
           | Some Other \<Rightarrow> (Some (''unix socket path '' @ path @ '' is not a socket''), fs)
           | Some (Socket _) \<Rightarrow>
               if ux_dial e = None then (Some (''unix socket '' @ path @ '' is already in use''), fs)
               else (case os_Remove e path fs of
                       (Some err, fs') \<Rightarrow> (Some (''remove stale unix socket: '' @ err), fs')
                     | (None, fs') \<Rightarrow> (None, fs'))))"

definition ListenUnix :: "unix_env \<Rightarrow> string \<Rightarrow> unix_fs \<Rightarrow> (string + cleanupUnixListener) \<times> unix_fs" where
  "ListenUnix e rawPath fs =
     (if TrimSpace rawPath = [] then (Inl ''unix socket path is empty'', fs)
      else (let path = Clean rawPath in
        case ux_mkdir e of
          Some err \<Rightarrow> (Inl (''create unix socket directory: '' @ err), fs)
        | None \<Rightarrow>
            (case clear_stale e path fs of
               (Some err, fs1) \<Rightarrow> (Inl err, fs1)
             | (None, fs1) \<Rightarrow>
                 (case net_Listen e path fs1 of
                    (Some err, fs2) \<Rightarrow> (Inl (''listen on unix socket '' @ path @ '': '' @ err), fs2)
                  | (None, fs2) \<Rightarrow>
                      (case os_Chmod e path 384 fs2 of
                         (Some err, fs3) \<Rightarrow>
                           (Inl (''restrict unix socket permissions: '' @ err), snd (os_Remove e path (net_Close path fs3)))
                       | (None, fs3) \<Rightarrow> (Inr \<lparr>ul_path = path, ul_once = False\<rparr>, fs3))))))"

definition listener_Close :: "unix_env \<Rightarrow> cleanupUnixListener \<Rightarrow> unix_fs \<Rightarrow> string option \<times> cleanupUnixListener \<times> unix_fs" where
  "listener_Close e l fs =
     (if ul_once l then (None, l, fs)
      else (let closeErr = ux_close e; (removeErr, fs') = os_Remove e (ul_path l) (net_Close (ul_path l) fs)
            in (case closeErr of Some err \<Rightarrow> Some err | None \<Rightarrow> removeErr, l\<lparr>ul_once := True\<rparr>, fs')))"

section \<open>Properties\<close>

lemmas socket_defs = ListenUnix_def clear_stale_def net_Listen_def os_Chmod_def os_Remove_def net_Close_def Let_def

text \<open>Listening touches its own path only. It leaves a file that is no socket, and a socket that answers, as they were, and is an
  error then. When it succeeds there is a socket at the path that only its owner can use.\<close>

theorem unix_listen_safe:
  assumes "ListenUnix e path fs = (result, fs')"
  shows "(\<forall>q. q \<noteq> Clean path \<longrightarrow> fs' q = fs q) \<and>
    (fs (Clean path) = Some Other \<or> fs (Clean path) \<noteq> None \<and> ux_dial e = None \<longrightarrow> fs' = fs \<and> (\<exists>err. result = Inl err)) \<and>
    (\<forall>l. result = Inr l \<longrightarrow> ul_path l = Clean path \<and> fs' (Clean path) = Some (Socket 384))"
proof -
  have "q \<noteq> Clean path \<Longrightarrow> fs' q = fs q" for q
    using assms by (auto simp: socket_defs split: if_splits option.splits node.splits prod.splits)
  moreover have "fs' = fs \<and> (\<exists>err. result = Inl err)" if "fs (Clean path) = Some Other \<or> fs (Clean path) \<noteq> None \<and> ux_dial e = None"
    using assms that by (auto simp: socket_defs split: if_splits option.splits node.splits)
  moreover have "ul_path l = Clean path \<and> fs' (Clean path) = Some (Socket 384)" if "result = Inr l" for l
    using assms that by (auto simp: socket_defs split: if_splits option.splits node.splits prod.splits)
  ultimately show ?thesis by blast
qed

text \<open>A server that died without closing its socket does not keep the next one from listening.\<close>

lemma stale_socket_replaced:
  assumes "TrimSpace path \<noteq> []" "\<not> HasPrefix (Clean path) ''@''" "fs (Clean path) = Some (Socket mode)" "ux_dial e \<noteq> None"
    and "ux_mkdir e = None" "ux_lstat e = None" "ux_remove e = None" "ux_listen e = None" "ux_chmod e = None"
  shows "ListenUnix e path fs = (Inr \<lparr>ul_path = Clean path, ul_once = False\<rparr>, fs(Clean path := Some (Socket 384)))"
  using assms by (simp add: socket_defs)

lemma close_removes_socket:
  assumes "ListenUnix e path fs = (Inr l, fs1)" "listener_Close e' l fs1 = (err, l', fs2)"
  shows "fs2 (Clean path) = None \<or> HasPrefix (Clean path) ''@''" "listener_Close e'' l' fs3 = (None, l', fs3)"
proof -
  have "ul_path l = Clean path" "\<not> ul_once l"
    using assms(1) by (auto simp: socket_defs split: if_splits option.splits node.splits prod.splits)
  with assms(2) have l': "l' = l\<lparr>ul_once := True\<rparr>" "fs2 = snd (os_Remove e' (Clean path) (net_Close (Clean path) fs1))"
    by (auto simp: listener_Close_def Let_def case_prod_unfold)
  then show "fs2 (Clean path) = None \<or> HasPrefix (Clean path) ''@''" by (simp add: os_Remove_def net_Close_def)
  from l'(1) show "listener_Close e'' l' fs3 = (None, l', fs3)" by (simp add: listener_Close_def)
qed

definition demo_unix_env :: unix_env where
  "demo_unix_env = \<lparr>ux_mkdir = None, ux_lstat = None, ux_dial = Some ''connection refused'', ux_remove = None, ux_listen = None,
     ux_mode = 493, ux_chmod = None, ux_close = None\<rparr>"

lemma demo_clean: "Clean ''/var/run//x/../ops.sock'' = ''/var/run/ops.sock''"
  by (simp add: Clean_def Let_def)

theorem unix_listen_safe_witness:
  "\<exists>l fs'. ListenUnix demo_unix_env ''/var/run//x/../ops.sock'' [''/var/run/ops.sock'' \<mapsto> Socket 493, ''/etc/passwd'' \<mapsto> Other] = (Inr l, fs') \<and>
     fs' ''/var/run/ops.sock'' = Some (Socket 384) \<and> fs' ''/etc/passwd'' = Some Other"
proof -
  let ?fs = "[''/var/run/ops.sock'' \<mapsto> Socket 493, ''/etc/passwd'' \<mapsto> Other]"
  have "\<exists>l fs'. ListenUnix demo_unix_env ''/var/run//x/../ops.sock'' ?fs = (Inr l, fs')"
    by (simp add: socket_defs demo_clean demo_unix_env_def TrimSpace_def TrimFunc_def is_space_def)
  then obtain l fs' where l: "ListenUnix demo_unix_env ''/var/run//x/../ops.sock'' ?fs = (Inr l, fs')" by blast
  from unix_listen_safe [OF l] have "fs' ''/etc/passwd'' = ?fs ''/etc/passwd''" "fs' ''/var/run/ops.sock'' = Some (Socket 384)"
    unfolding demo_clean by auto
  with l show ?thesis by (intro exI [of _ l] exI [of _ fs']) simp
qed

end
