(* ===== verification/NetipOrder.thy ===== *)
theory NetipOrder
  imports Netip "HOL-Library.List_Lexorder" "HOL-Library.Char_ord"
begin

text \<open>
  The order of addresses, \<open>Addr.Compare\<close> of Go's \<^verbatim>\<open>net/netip\<close>: by the length of the address, then by its number, then, for IPv6, by
  the zone. It makes \<^typ>\<open>Addr\<close> a linear order, so that sorting by \<^verbatim>\<open>Compare\<close> is \<^const>\<open>sort\<close>.
\<close>

instantiation Addr :: linorder
begin

fun less_eq_Addr :: "Addr \<Rightarrow> Addr \<Rightarrow> bool" where
  "AddrZero \<le> b \<longleftrightarrow> True"
| "Addr4 v \<le> Addr4 w \<longleftrightarrow> v \<le> w"
| "Addr4 _ \<le> Addr6 _ _ \<longleftrightarrow> True"
| "Addr6 v z \<le> Addr6 w z' \<longleftrightarrow> v < w \<or> v = w \<and> z \<le> z'"
| "Addr4 _ \<le> AddrZero \<longleftrightarrow> False"
| "Addr6 _ _ \<le> AddrZero \<longleftrightarrow> False"
| "Addr6 _ _ \<le> Addr4 _ \<longleftrightarrow> False"

definition less_Addr :: "Addr \<Rightarrow> Addr \<Rightarrow> bool" where
  "less_Addr a b \<longleftrightarrow> a \<le> b \<and> \<not> b \<le> a"

instance
proof
  fix a b c :: Addr
  show "a < b \<longleftrightarrow> a \<le> b \<and> \<not> b \<le> a" by (simp add: less_Addr_def)
  show "a \<le> a" by (cases a) auto
  show "a \<le> b \<Longrightarrow> b \<le> c \<Longrightarrow> a \<le> c" by (cases a; cases b; cases c) auto
  show "a \<le> b \<Longrightarrow> b \<le> a \<Longrightarrow> a = b" by (cases a; cases b) auto
  show "a \<le> b \<or> b \<le> a" by (cases a; cases b) auto
qed

end

text \<open>Sorting puts the least element first.\<close>

lemma sort_Min_first:
  fixes xs :: "'a :: linorder list"
  assumes "xs \<noteq> []"
  obtains ys where "sort xs = Min (set xs) # ys"
proof -
  from assms obtain y ys where s: "sort xs = y # ys" by (cases "sort xs") (auto dest: arg_cong [of _ _ set])
  have "set xs = set (y # ys)" "sorted (y # ys)" by (simp_all flip: s)
  then have "Min (set xs) = y" by (intro Min_eqI) auto
  with s that show ?thesis by simp
qed

end
