(* ===== verification/Routes.thy ===== *)
theory Routes
  imports Portmap ParseAddr NetipOrder
begin

unbundle bit_operations_syntax

text \<open>
  \<^verbatim>\<open>internal/portmap/network.go\<close>: the default route from the text of \<^verbatim>\<open>/proc/net/route\<close>, the addresses of interfaces, and the
  classification of IPv6 addresses.

  \<^item> \<open>net_env\<close> is what the system answers: the lines of the route table or the error of opening it, with the error of the
    scanner if there is one; the addresses of an interface in their textual form, or an error; the local address the kernel chooses for
    a destination, \<open>AddrZero\<close> when it is no address.
\<close>

record net_env =
  ne_route :: "string + (string list \<times> string option)"
  ne_addrs :: "string \<Rightarrow> string + string list"
  ne_dial :: "Addr \<Rightarrow> string + Addr"

section \<open>The route table\<close>

fun route_hex_from :: "64 word \<Rightarrow> string \<Rightarrow> 64 word option" where
  "route_hex_from result [] = Some result"
| "route_hex_from result (c # cs) =
     (case hex_value c of None \<Rightarrow> None | Some n \<Rightarrow> route_hex_from (push_bit 4 result OR word_of_nat n) cs)"

definition parseRouteHex :: "string \<Rightarrow> 64 word option" where
  "parseRouteHex s = route_hex_from 0 s"

text \<open>\<open>hex.DecodeString\<close>.\<close>

fun DecodeString :: "string \<Rightarrow> nat list option" where
  "DecodeString [] = Some []"
| "DecodeString [c] = None"
| "DecodeString (c # d # s) =
     (case (hex_value c, hex_value d, DecodeString s) of
        (Some a, Some b, Some bs) \<Rightarrow> Some ((16 * a + b) # bs)
      | _ \<Rightarrow> None)"

text \<open>The gateway of a route is a number in the byte order of the host: the last byte is the first of the address.\<close>

definition route_gateway :: "string \<Rightarrow> Addr option" where
  "route_gateway s =
     (case DecodeString s of
        Some [a, b, c, d] \<Rightarrow> Some (Addr4 (word_of_nat (((d * 256 + c) * 256 + b) * 256 + a)))
      | _ \<Rightarrow> None)"

definition parse_route :: "string \<Rightarrow> string \<Rightarrow> (string \<times> Addr \<times> int) option" where
  "parse_route interfaceName line =
     (let fs = Fields line
      in if length fs < 7 \<or> fs ! 1 \<noteq> ''00000000'' then None
         else if interfaceName \<noteq> [] \<and> interfaceName \<noteq> ''auto'' \<and> fs ! 0 \<noteq> interfaceName then None
         else (case parseRouteHex (fs ! 3) of
                 None \<Rightarrow> None
               | Some flags \<Rightarrow>
                   if flags AND 2 = 0 then None
                   else (case (route_gateway (fs ! 2), Atoi (fs ! 6)) of
                           (Some gateway, Some metric) \<Rightarrow> Some (fs ! 0, gateway, metric)
                         | _ \<Rightarrow> None)))"

definition max_int :: int where "max_int = 2 ^ 63 - 1"

definition route_step :: "string \<Rightarrow> string \<times> Addr \<times> int \<Rightarrow> string \<Rightarrow> string \<times> Addr \<times> int" where
  "route_step interfaceName best line =
     (case parse_route interfaceName line of
        None \<Rightarrow> best
      | Some (name, gateway, metric) \<Rightarrow> if snd (snd best) \<le> metric then best else (name, gateway, metric))"

definition defaultRoute :: "net_env \<Rightarrow> string \<Rightarrow> string + (string \<times> Addr)" where
  "defaultRoute e interfaceName =
     (case ne_route e of
        Inl err \<Rightarrow> Inl (''read default route: '' @ err)
      | Inr (lines, scanErr) \<Rightarrow>
          (let (name, gateway, _) = foldl (route_step interfaceName) ([], AddrZero, max_int) lines
           in case scanErr of
                Some err \<Rightarrow> Inl err
              | None \<Rightarrow> if IsValid gateway then Inr (name, gateway) else Inl ''IPv4 default gateway not found''))"

definition defaultGateway :: "net_env \<Rightarrow> string \<Rightarrow> string + Addr" where
  "defaultGateway e interfaceName = (case defaultRoute e interfaceName of Inl err \<Rightarrow> Inl err | Inr (_, gateway) \<Rightarrow> Inr gateway)"

section \<open>Addresses of interfaces\<close>

definition prefix_addrs :: "string list \<Rightarrow> Addr list" where
  "prefix_addrs texts = List.map_filter (\<lambda>t. map_option fst (ParsePrefix t)) texts"

definition sourceIPv4 :: "net_env \<Rightarrow> Addr \<Rightarrow> string \<Rightarrow> string + Addr" where
  "sourceIPv4 e gateway interfaceName =
     (if interfaceName \<noteq> [] \<and> interfaceName \<noteq> ''auto'' then
        (case ne_addrs e interfaceName of
           Inl err \<Rightarrow> Inl err
         | Inr texts \<Rightarrow>
             (case find Is4 (prefix_addrs texts) of
                Some a \<Rightarrow> Inr a
              | None \<Rightarrow> Inl (''interface '' @ interfaceName @ '' has no IPv4 address'')))
      else (case ne_dial e gateway of
              Inl err \<Rightarrow> Inl err
            | Inr a \<Rightarrow> if Is4 (Unmap a) then Inr (Unmap a) else Inl ''cannot determine local IPv4 address''))"

definition networkFingerprint :: "net_env \<Rightarrow> string \<Rightarrow> string + string" where
  "networkFingerprint e interfaceName =
     (case defaultRoute e interfaceName of
        Inl err \<Rightarrow> Inl err
      | Inr (name, gateway) \<Rightarrow>
          (case sourceIPv4 e gateway name of
             Inl err \<Rightarrow> Inl err
           | Inr source \<Rightarrow> Inr (name @ ''|'' @ Addr_String gateway @ ''|'' @ Addr_String source)))"

definition publicIPv4 :: "net_env \<Rightarrow> string \<Rightarrow> string + Addr" where
  "publicIPv4 e interfaceName =
     (let route = (if interfaceName = [] \<or> interfaceName = ''auto'' then map_sum id fst (defaultRoute e ''auto'') else Inr interfaceName)
      in case route of
           Inl err \<Rightarrow> Inl err
         | Inr name \<Rightarrow>
             (case ne_addrs e name of
                Inl err \<Rightarrow> Inl err
              | Inr texts \<Rightarrow>
                  (case find IsPublicIPv4 (prefix_addrs texts) of
                     Some a \<Rightarrow> Inr a
                   | None \<Rightarrow> Inl (''interface '' @ name @ '' has no public IPv4 address''))))"

text \<open>\<open>IsGlobalUnicast\<close> on IPv6: not unspecified, and neither loopback, multicast nor link-local; a mapped address is looked at as the
  IPv4 address for the last three. \<open>Prefix.Contains\<close> is false for an address with a zone.\<close>

definition IsGlobalUnicast6 :: "128 word \<Rightarrow> string \<Rightarrow> bool" where
  "IsGlobalUnicast6 w zone \<longleftrightarrow>
     \<not> (w = 0 \<and> zone = []) \<and>
     (if Is4In6 (Addr6 w zone) then drop_bit 24 (ucast w :: 32 word) \<noteq> 127 \<and> drop_bit 28 (ucast w :: 32 word) \<noteq> 14 \<and> drop_bit 16 (ucast w :: 32 word) \<noteq> 0xA9FE
      else w \<noteq> 1 \<and> drop_bit 120 w \<noteq> 0xFF \<and> drop_bit 118 w \<noteq> 0x3FA)"

definition nonPublicIPv6 :: "(128 word \<times> nat) list" where
  "nonPublicIPv6 = [(0xFC000000000000000000000000000000, 7), (0x20010DB8000000000000000000000000, 32)]"

definition prefix6_contains :: "128 word \<times> nat \<Rightarrow> 128 word \<Rightarrow> string \<Rightarrow> bool" where
  "prefix6_contains p w zone \<longleftrightarrow> zone = [] \<and> drop_bit (128 - snd p) (w XOR fst p) = 0"

fun IsPublicIPv6 :: "Addr \<Rightarrow> bool" where
  "IsPublicIPv6 (Addr6 w zone) = (IsGlobalUnicast6 w zone \<and> \<not> list_ex (\<lambda>p. prefix6_contains p w zone) nonPublicIPv6)"
| "IsPublicIPv6 _ = False"

definition sourceIPv6 :: "net_env \<Rightarrow> string + Addr" where
  "sourceIPv6 e =
     (case ne_dial e (Addr6 0x20014860486000000000000000008888 []) of
        Inl err \<Rightarrow> Inl (''select IPv6 route source: '' @ err)
      | Inr a \<Rightarrow> if IsPublicIPv6 a then Inr a else Inl ''cannot determine a public IPv6 address'')"

definition publicIPv6 :: "net_env \<Rightarrow> string \<Rightarrow> string + Addr" where
  "publicIPv6 e interfaceName =
     (if interfaceName = [] \<or> interfaceName = ''auto'' then sourceIPv6 e
      else (case ne_addrs e interfaceName of
              Inl err \<Rightarrow> Inl err
            | Inr texts \<Rightarrow>
                (case sort (filter IsPublicIPv6 (prefix_addrs texts)) of
                   [] \<Rightarrow> Inl (''interface '' @ interfaceName @ '' has no public IPv6 address'')
                 | a # _ \<Rightarrow> Inr a)))"

section \<open>Properties\<close>

abbreviation metric :: "string \<times> Addr \<times> int \<Rightarrow> int" where
  "metric r \<equiv> snd (snd r)"

text \<open>Reference for the scan: the usable default routes in the order of the table, and the first of those with the least metric.\<close>

definition default_routes :: "string \<Rightarrow> string list \<Rightarrow> (string \<times> Addr \<times> int) list" where
  "default_routes interfaceName lines = filter (\<lambda>r. metric r < max_int) (List.map_filter (parse_route interfaceName) lines)"

definition first_least :: "(string \<times> Addr \<times> int) list \<Rightarrow> (string \<times> Addr \<times> int) option" where
  "first_least rs = find (\<lambda>r. list_all (\<lambda>s. metric r \<le> metric s) rs) rs"

text \<open>What is kept of \<open>best\<close> after routes \<open>rs\<close>: itself when none is better, else the first of the least metric.\<close>

definition scan_result :: "string \<times> Addr \<times> int \<Rightarrow> (string \<times> Addr \<times> int) list \<Rightarrow> string \<times> Addr \<times> int \<Rightarrow> bool" where
  "scan_result best rs r \<longleftrightarrow>
     r = best \<and> (\<forall>s \<in> set rs. metric best \<le> metric s) \<or>
     (\<exists>bef aft. rs = bef @ r # aft \<and> metric r < metric best \<and> (\<forall>s \<in> set bef. metric r < metric s) \<and> (\<forall>s \<in> set aft. metric r \<le> metric s))"

lemma scan_result_keep: "scan_result best rs r \<Longrightarrow> metric best \<le> metric c \<Longrightarrow> scan_result best (c # rs) r"
  unfolding scan_result_def by (elim disjE exE) (simp, intro disjI2, rule_tac x = "c # bef" in exI, auto)

lemma scan_result_take: "scan_result c rs r \<Longrightarrow> metric c < metric best \<Longrightarrow> scan_result best (c # rs) r"
  unfolding scan_result_def
  by (elim disjE exE) (intro disjI2, rule_tac x = "[]" in exI, simp, intro disjI2, rule_tac x = "c # bef" in exI, auto)

lemma foldl_route_step:
  "scan_result best (List.map_filter (parse_route interfaceName) lines) (foldl (route_step interfaceName) best lines)"
proof (induction lines arbitrary: best)
  case (Cons line lines)
  show ?case
  proof (cases "parse_route interfaceName line")
    case None
    with Cons.IH [of best] show ?thesis by (simp add: route_step_def)
  next
    case (Some c)
    show ?thesis
    proof (cases "metric best \<le> metric c")
      case True
      then have "route_step interfaceName best line = best" by (simp add: route_step_def Some case_prod_unfold)
      with scan_result_keep [OF Cons.IH [of best] True] show ?thesis by (simp add: Some)
    next
      case False
      then have "route_step interfaceName best line = c" by (simp add: route_step_def Some case_prod_unfold)
      with scan_result_take [OF Cons.IH [of c]] False show ?thesis by (simp add: Some)
    qed
  qed
qed (simp add: scan_result_def)

lemma find_append_first: "\<forall>x \<in> set xs. \<not> P x \<Longrightarrow> P y \<Longrightarrow> find P (xs @ y # ys) = Some y"
  by (induction xs) auto

lemma parse_route_valid: "parse_route n line = Some r \<Longrightarrow> IsValid (fst (snd r))"
  by (auto simp: parse_route_def route_gateway_def IsValid_def Let_def split: if_splits option.splits list.splits)

text \<open>The scan of the route table finds the first route of the least metric among the default routes with a gateway on the
  interface, and reports that there is no gateway exactly when there is no such route (C38).\<close>

theorem default_route_best:
  assumes "ne_route e = Inr (lines, None)"
  shows "defaultRoute e interfaceName =
    (case first_least (default_routes interfaceName lines) of
       None \<Rightarrow> Inl ''IPv4 default gateway not found''
     | Some (name, gateway, _) \<Rightarrow> Inr (name, gateway))"
proof -
  let ?routes = "List.map_filter (parse_route interfaceName) lines"
  let ?r = "foldl (route_step interfaceName) ([], AddrZero, max_int) lines"
  have dr: "defaultRoute e interfaceName = (if IsValid (fst (snd ?r)) then Inr (fst ?r, fst (snd ?r)) else Inl ''IPv4 default gateway not found'')"
    using assms by (simp add: defaultRoute_def Let_def case_prod_unfold)
  have "scan_result ([], AddrZero, max_int) ?routes ?r" by (rule foldl_route_step)
  then have "?r = ([], AddrZero, max_int) \<and> (\<forall>s \<in> set ?routes. max_int \<le> metric s) \<or>
      (\<exists>bef aft. ?routes = bef @ ?r # aft \<and> metric ?r < max_int \<and> (\<forall>s \<in> set bef. metric ?r < metric s) \<and> (\<forall>s \<in> set aft. metric ?r \<le> metric s))"
    by (simp add: scan_result_def)
  then show ?thesis
  proof
    assume none: "?r = ([], AddrZero, max_int) \<and> (\<forall>s \<in> set ?routes. max_int \<le> metric s)"
    then have "default_routes interfaceName lines = []" by (auto simp: default_routes_def filter_empty_conv not_less)
    with none dr show ?thesis by (simp add: first_least_def IsValid_def)
  next
    assume "\<exists>bef aft. ?routes = bef @ ?r # aft \<and> metric ?r < max_int \<and> (\<forall>s \<in> set bef. metric ?r < metric s) \<and> (\<forall>s \<in> set aft. metric ?r \<le> metric s)"
    then obtain bef aft where r: "?routes = bef @ ?r # aft" "metric ?r < max_int" "\<forall>s \<in> set bef. metric ?r < metric s"
      "\<forall>s \<in> set aft. metric ?r \<le> metric s" by blast
    let ?less = "filter (\<lambda>r. metric r < max_int)"
    have d: "default_routes interfaceName lines = ?less bef @ ?r # ?less aft" unfolding default_routes_def r(1) using r(2) by simp
    have "first_least (default_routes interfaceName lines) = Some ?r"
      unfolding first_least_def d using r(3,4) by (intro find_append_first) (auto simp: list_all_iff intro: less_imp_le)
    moreover have "?r \<in> set ?routes" by (subst r(1)) simp
    then obtain line where "parse_route interfaceName line = Some ?r" by (auto simp: List.map_filter_def)
    then have "IsValid (fst (snd ?r))" by (rule parse_route_valid)
    ultimately show ?thesis using dr by (simp add: case_prod_unfold)
  qed
qed

text \<open>The address chosen on an interface is the least public one, so it does not depend on the order in which the addresses are listed.\<close>

lemma publicIPv6_least:
  assumes "interfaceName \<noteq> []" "interfaceName \<noteq> ''auto''" "ne_addrs e interfaceName = Inr texts"
  shows "publicIPv6 e interfaceName =
     (let found = set (filter IsPublicIPv6 (prefix_addrs texts))
      in if found = {} then Inl (''interface '' @ interfaceName @ '' has no public IPv6 address'') else Inr (Min found))"
proof (cases "filter IsPublicIPv6 (prefix_addrs texts) = []")
  case True
  with assms show ?thesis by (simp add: publicIPv6_def Let_def flip: set_empty2)
next
  case False
  then obtain ys where "sort (filter IsPublicIPv6 (prefix_addrs texts)) = Min (set (filter IsPublicIPv6 (prefix_addrs texts))) # ys"
    by (rule sort_Min_first)
  with False assms show ?thesis by (simp add: publicIPv6_def Let_def del: set_filter)
qed

theorem public_ipv6_order_independent:
  assumes "ne_addrs e interfaceName = Inr texts" "ne_addrs e' interfaceName = Inr texts'" "set texts = set texts'"
    and "interfaceName \<noteq> []" "interfaceName \<noteq> ''auto''"
  shows "publicIPv6 e interfaceName = publicIPv6 e' interfaceName"
proof -
  have "set (filter IsPublicIPv6 (prefix_addrs texts)) = set (filter IsPublicIPv6 (prefix_addrs texts'))"
    using assms(3) by (simp add: prefix_addrs_def List.map_filter_def)
  with publicIPv6_least [OF assms(4,5,1)] publicIPv6_least [OF assms(4,5,2)] show ?thesis by (simp only:)
qed

text \<open>A private IPv4 address in its mapped form passes for a public IPv6 address.\<close>

lemma mapped_private_passes: "IsPublicIPv6 (Addr6 0xFFFF0A000001 [])"
  by (simp add: IsGlobalUnicast6_def nonPublicIPv6_def prefix6_contains_def)

section \<open>Witnesses\<close>

definition demo_lines :: "string list" where
  "demo_lines = [''eth0 00000000 0102A8C0 0003 0 0 100'', ''wan 00000000 0100000A 0003 0 0 10'', ''lan 0000000A 00000000 0001 0 0 0'']"

definition demo_net_env :: "string list \<Rightarrow> net_env" where
  "demo_net_env texts = \<lparr>ne_route = Inr (demo_lines, None), ne_addrs = (\<lambda>_. Inr texts), ne_dial = (\<lambda>_. Inl ''unreachable'')\<rparr>"

lemma demo_routes: "map (parse_route ''auto'') demo_lines = [Some (''eth0'', Addr4 0xC0A80201, 100), Some (''wan'', Addr4 0x0A000001, 10), None]"
  unfolding demo_lines_def
  by (simp add: parse_route_def Fields_def FieldsFunc_def is_space_def parseRouteHex_def route_gateway_def hex_value_def char_code_def
      is_digit_def Atoi_def decimal_def digit_value_def)

theorem default_route_best_witness: "defaultRoute (demo_net_env []) ''auto'' = Inr (''wan'', Addr4 0x0A000001)"
proof -
  have "ne_route (demo_net_env []) = Inr (demo_lines, None)" by (simp add: demo_net_env_def)
  from default_route_best [OF this, of "''auto''"] show ?thesis
    using demo_routes by (simp add: demo_lines_def default_routes_def first_least_def max_int_def)
qed

theorem public_ipv6_order_independent_witness:
  "publicIPv6 (demo_net_env [''10.0.0.1/8'', ''2001:4860::2/64'', ''2001:4860::1/64'']) ''wan'' =
   publicIPv6 (demo_net_env [''2001:4860::1/64'', ''10.0.0.1/8'', ''2001:4860::2/64'']) ''wan''"
proof -
  let ?a = "[''10.0.0.1/8'', ''2001:4860::2/64'', ''2001:4860::1/64'']" and ?b = "[''2001:4860::1/64'', ''10.0.0.1/8'', ''2001:4860::2/64'']"
  have "ne_addrs (demo_net_env ?a) ''wan'' = Inr ?a" "ne_addrs (demo_net_env ?b) ''wan'' = Inr ?b" by (simp_all add: demo_net_env_def)
  moreover have "set ?a = set ?b" by (simp add: insert_commute)
  ultimately show ?thesis by (rule public_ipv6_order_independent) simp_all
qed

end
