(* ===== verification/Lifecycle.thy ===== *)
theory Lifecycle
  imports Prelude
begin

text \<open>
  \<open>Server.Accept\<close> and \<open>Server.Close\<close> of \<^verbatim>\<open>internal/derpserver/derpserver.go\<close> as steps that interleave: the critical sections of \<open>Server.mu\<close>, the end
  of a connection, and the wait of a caller of \<open>Close\<close>. A connection is named by its number; \<open>lc_netConns\<close> are the keys of
  \<open>Server.netConns\<close>, \<open>lc_open\<close> the connections nobody has closed, \<open>lc_ended\<close> those whose channel is closed.
\<close>

datatype closer = Sweeping | Waiting "nat fset" | Returned | ReturnedEarly

record lifecycle =
  lc_closed :: bool
  lc_accepts :: nat
  lc_netConns :: "nat fset"
  lc_open :: "nat fset"
  lc_ended :: "nat fset"
  lc_closers :: "nat \<Rightarrow> closer option"

definition lc_start :: lifecycle where
  "lc_start = \<lparr>lc_closed = False, lc_accepts = 0, lc_netConns = {||}, lc_open = {||}, lc_ended = {||}, lc_closers = (\<lambda>_. None)\<rparr>"

datatype lc_op = LAccept | LEnd nat | LRemove nat | LClose nat | LSweep nat | LReturn nat

text \<open>\<open>LAccept\<close>, \<open>LEnd\<close> and \<open>LRemove\<close> are the first section of \<open>Accept\<close>, its deferred close of the connection and of its channel when
  \<open>accept\<close> has returned, and the deferred section; \<open>LClose\<close>, \<open>LSweep\<close> and \<open>LReturn\<close> are the two sections of \<open>Close\<close> and the end of its
  wait. \<^term>\<open>None\<close>: the step cannot be taken.\<close>

fun lc_exec :: "lc_op \<Rightarrow> lifecycle \<Rightarrow> lifecycle option" where
  "lc_exec LAccept s =
     Some (s\<lparr>lc_accepts := Suc (lc_accepts s), lc_netConns := finsert (lc_accepts s) (lc_netConns s), lc_open := finsert (lc_accepts s) (lc_open s)\<rparr>)"
| "lc_exec (LEnd c) s =
     (if c |\<in>| lc_netConns s \<and> c |\<notin>| lc_ended s then Some (s\<lparr>lc_open := lc_open s |-| {|c|}, lc_ended := finsert c (lc_ended s)\<rparr>) else None)"
| "lc_exec (LRemove c) s =
     (if c |\<in>| lc_netConns s \<and> c |\<in>| lc_ended s then Some (s\<lparr>lc_netConns := lc_netConns s |-| {|c|}\<rparr>) else None)"
| "lc_exec (LClose t) s =
     (if lc_closers s t \<noteq> None then None
      else Some (s\<lparr>lc_closed := True, lc_closers := (lc_closers s)(t := Some (if lc_closed s then ReturnedEarly else Sweeping))\<rparr>))"
| "lc_exec (LSweep t) s =
     (if lc_closers s t = Some Sweeping
      then Some (s\<lparr>lc_open := lc_open s |-| lc_netConns s, lc_closers := (lc_closers s)(t := Some (Waiting (lc_netConns s)))\<rparr>)
      else None)"
| "lc_exec (LReturn t) s =
     (case lc_closers s t of
        Some (Waiting cs) \<Rightarrow> if cs |\<subseteq>| lc_ended s then Some (s\<lparr>lc_closers := (lc_closers s)(t := Some Returned)\<rparr>) else None
      | _ \<Rightarrow> None)"

inductive lc_steps :: "lifecycle \<Rightarrow> lifecycle \<Rightarrow> bool" where
  refl: "lc_steps s s"
| step: "lc_steps s s1 \<Longrightarrow> lc_exec x s1 = Some s2 \<Longrightarrow> lc_steps s s2"

fun lc_run :: "lc_op list \<Rightarrow> lifecycle \<Rightarrow> lifecycle option" where
  "lc_run [] s = Some s"
| "lc_run (x # xs) s = Option.bind (lc_exec x s) (lc_run xs)"

lemma lc_steps_trans: "lc_steps s1 s2 \<Longrightarrow> lc_steps s0 s1 \<Longrightarrow> lc_steps s0 s2"
  by (induction rule: lc_steps.induct) (auto intro: lc_steps.step)

lemma lc_run_steps: "lc_run xs s = Some s' \<Longrightarrow> lc_steps s s'"
proof (induction xs arbitrary: s)
  case (Cons x xs)
  then obtain s1 where "lc_exec x s = Some s1" "lc_run xs s1 = Some s'" by (auto split: bind_splits)
  with Cons.IH [of s1] lc_steps_trans [OF _ lc_steps.step [OF lc_steps.refl]] show ?case by blast
qed (simp add: lc_steps.refl)

section \<open>Invariant\<close>

definition lc_inv :: "lifecycle \<Rightarrow> bool" where
  "lc_inv s \<longleftrightarrow>
     (\<forall>c. c |\<in>| lc_netConns s \<or> c |\<in>| lc_ended s \<longleftrightarrow> c < lc_accepts s) \<and>
     (\<forall>c. c |\<in>| lc_open s \<longrightarrow> c |\<in>| lc_netConns s \<and> c |\<notin>| lc_ended s) \<and>
     (\<forall>t cs c. lc_closers s t = Some (Waiting cs) \<and> c |\<in>| cs \<longrightarrow> c |\<notin>| lc_open s \<and> c < lc_accepts s) \<and>
     (\<forall>t. lc_closers s t \<noteq> None \<longrightarrow> lc_closed s)"

lemma lc_inv_start: "lc_inv lc_start"
  by (simp add: lc_inv_def lc_start_def)

lemma lc_exec_inv:
  assumes "lc_exec x s = Some s'" "lc_inv s"
  shows "lc_inv s'"
proof (cases x)
  case LAccept
  from assms(2) have fresh: "lc_accepts s |\<notin>| lc_netConns s" "lc_accepts s |\<notin>| lc_ended s" by (auto simp: lc_inv_def)
  from assms(1) LAccept have s': "s' = s\<lparr>lc_accepts := Suc (lc_accepts s), lc_netConns := finsert (lc_accepts s) (lc_netConns s),
      lc_open := finsert (lc_accepts s) (lc_open s)\<rparr>" by simp
  show ?thesis using assms(2) fresh unfolding s' lc_inv_def by (simp add: less_Suc_eq) blast
next
  case (LReturn t)
  with assms show ?thesis by (auto simp: lc_inv_def split: if_splits option.splits closer.splits)
qed (use assms in \<open>auto simp: lc_inv_def split: if_splits\<close>)

lemma lc_steps_inv: "lc_steps s s' \<Longrightarrow> lc_inv s \<Longrightarrow> lc_inv s'"
  by (induction rule: lc_steps.induct) (auto intro: lc_exec_inv)

section \<open>Closing\<close>

lemma lc_exec_ended: "lc_exec x s = Some s' \<Longrightarrow> lc_ended s |\<subseteq>| lc_ended s'"
  by (cases x) (auto split: if_splits option.splits closer.splits)

text \<open>After its sweep a caller of \<open>Close\<close> waits for the connections it swept, until they have ended.\<close>

definition waits_for :: "nat fset \<Rightarrow> nat \<Rightarrow> lifecycle \<Rightarrow> bool" where
  "waits_for cs t s \<longleftrightarrow> lc_closers s t = Some (Waiting cs) \<or> lc_closers s t = Some Returned \<and> cs |\<subseteq>| lc_ended s"

lemma lc_exec_waits: "lc_exec x s = Some s' \<Longrightarrow> waits_for cs t s \<Longrightarrow> waits_for cs t s'"
  using lc_exec_ended [of x s s']
  by (cases x) (auto simp: waits_for_def split: if_splits option.splits closer.splits)

lemma lc_steps_waits: "lc_steps s s' \<Longrightarrow> waits_for cs t s \<Longrightarrow> waits_for cs t s' \<and> lc_ended s |\<subseteq>| lc_ended s'"
  by (induction rule: lc_steps.induct) (auto dest: lc_exec_waits lc_exec_ended)

text \<open>A call of \<open>Close\<close> that sweeps the connections closes every connection accepted before the sweep, and when it returns each of
  them has ended, whatever else is accepted, ends or closes meanwhile (C14).\<close>

theorem close_waits_for_connections:
  assumes "lc_steps lc_start s1" "lc_exec (LSweep t) s1 = Some s2" "lc_steps s2 s3"
  shows "\<forall>c < lc_accepts s1. c |\<notin>| lc_open s2 \<and> (lc_closers s3 t = Some Returned \<longrightarrow> c |\<in>| lc_ended s3)"
proof -
  have inv: "lc_inv s1" by (rule lc_steps_inv [OF assms(1) lc_inv_start])
  from assms(2) have s2: "s2 = s1\<lparr>lc_open := lc_open s1 |-| lc_netConns s1, lc_closers := (lc_closers s1)(t := Some (Waiting (lc_netConns s1)))\<rparr>"
    by (simp split: if_splits)
  have "waits_for (lc_netConns s1) t s2" by (simp add: waits_for_def s2)
  from lc_steps_waits [OF assms(3) this] have w: "waits_for (lc_netConns s1) t s3" "lc_ended s1 |\<subseteq>| lc_ended s3" by (simp_all add: s2)
  show ?thesis
  proof (intro allI impI)
    fix c
    assume "c < lc_accepts s1"
    with inv have c: "c |\<in>| lc_netConns s1 \<or> c |\<in>| lc_ended s1" by (simp add: lc_inv_def)
    moreover from inv have "c |\<in>| lc_open s1 \<Longrightarrow> c |\<in>| lc_netConns s1" by (simp add: lc_inv_def)
    ultimately show "c |\<notin>| lc_open s2 \<and> (lc_closers s3 t = Some Returned \<longrightarrow> c |\<in>| lc_ended s3)"
      using w by (auto simp: waits_for_def s2)
  qed
qed

text \<open>A connection accepted after the sweep stays open, although the server is closed; and a second caller returns at once, while
  connections are still open.\<close>

lemma late_connection_survives:
  "\<exists>s. lc_run [LAccept, LClose 0, LSweep 0, LEnd 0, LReturn 0, LAccept] lc_start = Some s \<and>
     lc_closed s \<and> lc_closers s 0 = Some Returned \<and> 1 |\<in>| lc_open s"
  by (simp add: lc_start_def)

lemma second_close_returns_early:
  "\<exists>s. lc_run [LAccept, LClose 0, LClose 1] lc_start = Some s \<and> lc_closers s 1 = Some ReturnedEarly \<and> 0 |\<in>| lc_open s"
  by (simp add: lc_start_def)

theorem close_waits_for_connections_witness:
  "\<exists>s1 s2 s3. lc_run [LAccept, LAccept, LEnd 1, LRemove 1, LClose 0] lc_start = Some s1 \<and> lc_exec (LSweep 0) s1 = Some s2 \<and>
     lc_run [LEnd 0, LReturn 0] s2 = Some s3 \<and> lc_accepts s1 = 2 \<and> 0 |\<in>| lc_ended s3 \<and> 1 |\<in>| lc_ended s3"
proof -
  have "\<exists>s1 s2 s3. lc_run [LAccept, LAccept, LEnd 1, LRemove 1, LClose 0] lc_start = Some s1 \<and> lc_exec (LSweep 0) s1 = Some s2 \<and>
     lc_run [LEnd 0, LReturn 0] s2 = Some s3 \<and> lc_accepts s1 = 2 \<and> lc_closers s3 0 = Some Returned"
    by (simp add: lc_start_def)
  then obtain s1 s2 s3 where s: "lc_run [LAccept, LAccept, LEnd 1, LRemove 1, LClose 0] lc_start = Some s1" "lc_exec (LSweep 0) s1 = Some s2"
    "lc_run [LEnd 0, LReturn 0] s2 = Some s3" "lc_accepts s1 = 2" "lc_closers s3 0 = Some Returned" by blast
  from close_waits_for_connections [OF lc_run_steps [OF s(1)] s(2) lc_run_steps [OF s(3)]] s show ?thesis by auto
qed

end
