(* ===== verification/Upgrade.thy ===== *)
theory Upgrade
  imports GoStrings "HOL-Library.Char_ord"
begin

text \<open>
  The HTTP side of the relay: \<^verbatim>\<open>internal/derpserver/handler.go\<close> and \<^verbatim>\<open>websocket.go\<close>. A request is its path, its method and the headers that are
  read; the outcome is a reply, or a connection that is handed to \<open>Server.Accept\<close> with the bytes written to it before.

  \<^item> Header values are strings of bytes; a byte beyond ASCII is part of no challenge character.
  \<^item> The protocol version and the public key in the switching reply are parameters. \<open>websocket.Accept\<close> is third-party code: it
    fails, or gives a connection with the subprotocol that was agreed on.
\<close>

record derp_request =
  dr_Path :: string
  dr_Method :: string
  dr_Upgrade :: string
  dr_FastStart :: string
  dr_IdealNode :: string
  dr_Protocols :: string
  dr_Challenge :: string

datatype hijack = NotHijacker | HijackFailed | Hijacked

datatype http_result =
    HttpError nat string
  | ProbeOK
  | NoContent "string option"
  | Accepted string "string option"
  | WebSocketFailed
  | WebSocketRejected
  | WebSocketAccepted

section \<open>Handlers\<close>

definition ProbeHandler :: "derp_request \<Rightarrow> http_result" where
  "ProbeHandler r = (if dr_Method r = ''HEAD'' \<or> dr_Method r = ''GET'' then ProbeOK else HttpError 405 ''bogus probe method'')"

definition isChallengeChar :: "char \<Rightarrow> bool" where
  "isChallengeChar c \<longleftrightarrow>
     (CHR ''a'' \<le> c \<and> c \<le> CHR ''z'') \<or> (CHR ''A'' \<le> c \<and> c \<le> CHR ''Z'') \<or> (CHR ''0'' \<le> c \<and> c \<le> CHR ''9'') \<or>
     c = CHR ''.'' \<or> c = CHR ''-'' \<or> c = CHR ''_'' \<or> c = CHR '':''"

text \<open>The value of the response header, if it is set; the status is 204.\<close>

definition ServeNoContent :: "derp_request \<Rightarrow> http_result" where
  "ServeNoContent r =
     NoContent
       (let challenge = dr_Challenge r
        in if challenge \<noteq> [] then
             (let badChar = list_ex (\<lambda>c. \<not> isChallengeChar c) challenge
              in if length challenge \<le> 64 \<and> \<not> badChar then Some (''response '' @ challenge) else None)
           else None)"

definition crlf :: string where "crlf = [CHR 0x0D, CHR 0x0A]"

definition switching :: "string \<Rightarrow> string \<Rightarrow> string" where
  "switching version pubKey =
     ''HTTP/1.1 101 Switching Protocols'' @ crlf @ ''Upgrade: DERP'' @ crlf @ ''Connection: Upgrade'' @ crlf @
     ''Derp-Version: '' @ version @ crlf @ ''Derp-Public-Key: '' @ pubKey @ crlf @ crlf"

definition Handler :: "string \<Rightarrow> string \<Rightarrow> hijack \<Rightarrow> derp_request \<Rightarrow> http_result" where
  "Handler version pubKey hj r =
     (if dr_Path r = ''/derp/probe'' \<or> dr_Path r = ''/derp/latency-check'' then ProbeHandler r
      else (let up = ToLower (dr_Upgrade r)
            in if up \<noteq> ''websocket'' \<and> up \<noteq> ''derp'' then HttpError 426 ''DERP requires connection upgrade''
               else (let fastStart = (dr_FastStart r = ''1'')
                     in case hj of
                          NotHijacker \<Rightarrow> HttpError 500 ''HTTP does not support general TCP support''
                        | HijackFailed \<Rightarrow> HttpError 500 ''HTTP does not support general TCP support''
                        | Hijacked \<Rightarrow> Accepted (if fastStart then [] else switching version pubKey)
                            (if dr_IdealNode r \<noteq> [] then Some (dr_IdealNode r) else None))))"

definition AddWebSocketSupport :: "(derp_request \<Rightarrow> http_result) \<Rightarrow> string option \<Rightarrow> derp_request \<Rightarrow> http_result" where
  "AddWebSocketSupport base ws r =
     (if ToLower (dr_Upgrade r) \<noteq> ''websocket'' \<or> \<not> Contains (dr_Protocols r) ''derp'' then base r
      else (case ws of
              None \<Rightarrow> WebSocketFailed
            | Some subprotocol \<Rightarrow> if subprotocol \<noteq> ''derp'' then WebSocketRejected else WebSocketAccepted))"

text \<open>The mux of \<open>startDERP\<close>; its patterns have no method and match their path only.\<close>

definition derp_mux :: "string \<Rightarrow> string \<Rightarrow> hijack \<Rightarrow> derp_request \<Rightarrow> http_result" where
  "derp_mux version pubKey hj r =
     (if dr_Path r = ''/derp'' then Handler version pubKey hj r
      else if dr_Path r = ''/derp/probe'' \<or> dr_Path r = ''/derp/latency-check'' then ProbeHandler r
      else if dr_Path r = ''/generate_204'' then ServeNoContent r
      else HttpError 404 ''404 page not found'')"

section \<open>Properties\<close>

lemma isChallengeChar_printable: "isChallengeChar c \<Longrightarrow> 32 < char_code c \<and> char_code c < 127"
proof -
  assume "isChallengeChar c"
  moreover have "c \<le> d \<longleftrightarrow> char_code c \<le> char_code d" for c d by (simp add: char_code_def less_eq_char_def)
  moreover have "char_code (CHR ''a'') = 97" "char_code (CHR ''z'') = 122" "char_code (CHR ''A'') = 65" "char_code (CHR ''Z'') = 90"
    "char_code (CHR ''0'') = 48" "char_code (CHR ''9'') = 57" "char_code (CHR ''.'') = 46" "char_code (CHR ''-'') = 45"
    "char_code (CHR ''_'') = 95" "char_code (CHR '':'') = 58" by (simp_all add: char_code_def)
  ultimately show ?thesis unfolding isChallengeChar_def by (elim disjE conjE) auto
qed

text \<open>The relay answers a captive-portal check with what the client sent only when that is at most 64 printable characters, so that
  no request can add a header or a line to a reply. A connection is handed to the relay only from the path \<^verbatim>\<open>/derp\<close>, for an upgrade to DERP or
  WebSocket, and the first bytes the relay sends on it are the whole switching reply, or none for a fast start.\<close>

theorem relay_http_safe:
  "case derp_mux version pubKey hj r of
     NoContent (Some reply) \<Rightarrow> reply = ''response '' @ dr_Challenge r \<and> length reply \<le> 73 \<and>
       list_all (\<lambda>c. 32 \<le> char_code c \<and> char_code c < 127) reply
   | Accepted sent ideal \<Rightarrow> dr_Path r = ''/derp'' \<and> hj = Hijacked \<and> ToLower (dr_Upgrade r) \<in> {''derp'', ''websocket''} \<and>
       sent = (if dr_FastStart r = ''1'' then [] else switching version pubKey)
   | HttpError status _ \<Rightarrow> 400 \<le> status
   | NoContent None \<Rightarrow> dr_Path r = ''/generate_204''
   | ProbeOK \<Rightarrow> dr_Method r = ''GET'' \<or> dr_Method r = ''HEAD''
   | _ \<Rightarrow> False"
proof -
  have "list_all (\<lambda>c. 32 \<le> char_code c \<and> char_code c < 127) (''response '' @ challenge)" if "list_all isChallengeChar challenge" for challenge
    using that isChallengeChar_printable by (auto simp: list_all_iff char_code_def intro: less_imp_le)
  note printable = this
  consider "dr_Path r = ''/derp''" | "dr_Path r = ''/derp/probe'' \<or> dr_Path r = ''/derp/latency-check''" | "dr_Path r = ''/generate_204''"
    | "derp_mux version pubKey hj r = HttpError 404 ''404 page not found''" unfolding derp_mux_def by metis
  then show ?thesis
  proof cases
    case 1
    then show ?thesis by (cases hj) (simp_all add: derp_mux_def Handler_def Let_def)
  next
    case 2
    then have "derp_mux version pubKey hj r = ProbeHandler r" by (auto simp: derp_mux_def)
    then show ?thesis by (simp add: ProbeHandler_def)
  next
    case 3
    then have "derp_mux version pubKey hj r = ServeNoContent r" by (simp add: derp_mux_def)
    with 3 printable [of "dr_Challenge r"] show ?thesis by (simp add: ServeNoContent_def Let_def list_all_iff list_ex_iff)
  qed simp
qed

end
