(* ===== verification/Metrics.thy ===== *)
theory Metrics
  imports OpsServer SendLoop
begin

text \<open>
  What the relay reports of itself: \<open>Server.ExpVar\<close>, \<open>durationToLabel\<close> and \<open>tcpConn\<close> of \<^verbatim>\<open>internal/derpserver\<close>, and the numbers \<^verbatim>\<open>main.go\<close> takes from the
  metrics for the traffic totals.

  \<^item> A metric is a number, or something else, whose JSON is no integer. \<open>metric_env\<close> holds the numbers that are in no record of
    the other theories. \<open>expvar\<close> prints an integer in decimal and \<^verbatim>\<open>encoding/json\<close> reads it back.
\<close>

datatype metric = MInt int | MOther

record metric_env =
  me_memSys0 :: int
  me_fds :: int
  me_unknownFrames :: int
  me_writeTimeouts :: int
  me_rateWaited :: int

definition ExpVar :: "bool \<Rightarrow> metric_env \<Rightarrow> Server \<Rightarrow> counters \<Rightarrow> send_stats \<Rightarrow> (string \<times> metric) list" where
  "ExpVar rateLimitEnabled e s k st =
     [(''gauge_memstats_sys0'', MInt (me_memSys0 e)),
      (''gauge_watchers'', MInt (int (fcard (sv_watchers s)))),
      (''gauge_current_file_descriptors'', MInt (me_fds e)),
      (''gauge_current_connections'', MInt (curClients (sv_gauges s))),
      (''gauge_current_home_connections'', MInt (curHomeClients (sv_gauges s))),
      (''gauge_current_notideal_connections'', MInt (curClientsNotIdeal (sv_gauges s))),
      (''gauge_clients_total'', MInt (int (fcard (fmdom (sv_clientsMesh s))))),
      (''gauge_clients_local'', MInt (sv_numLocalClientKeys s)),
      (''gauge_clients_remote'', MInt (int (fcard (fmdom (sv_clientsMesh s))) - sv_numLocalClientKeys s)),
      (''gauge_current_dup_client_keys'', MInt (dupClientKeys (sv_gauges s))),
      (''gauge_current_dup_client_conns'', MInt (dupClientConns (sv_gauges s))),
      (''counter_total_dup_client_conns'', MInt (dupClientConnTotal (sv_gauges s))),
      (''accepts'', MInt (sv_accepts s)),
      (''bytes_received'', MInt (bytesRecv k)),
      (''bytes_sent'', MInt (bytesSent st)),
      (''counter_packets_received_kind'', MOther),
      (''packets_sent'', MInt (packetsSent st)),
      (''packets_received'', MInt (packetsRecv k)),
      (''unknown_frames'', MInt (me_unknownFrames e)),
      (''home_moves_in'', MInt (homeMovesIn (sv_gauges s))),
      (''home_moves_out'', MInt (homeMovesOut (sv_gauges s))),
      (''got_ping'', MInt (gotPing k)),
      (''sent_pong'', MInt (sentPong st)),
      (''peer_gone_disconnected_frames'', MInt (peerGoneDisconnectedFrames st)),
      (''peer_gone_not_here_frames'', MInt (peerGoneNotHereFrames st)),
      (''packets_forwarded_out'', MInt (packetsForwardedOut k)),
      (''packets_forwarded_in'', MInt (packetsForwardedIn k)),
      (''multiforwarder_created'', MInt (multiForwarderCreated (sv_gauges s))),
      (''multiforwarder_deleted'', MInt (multiForwarderDeleted (sv_gauges s))),
      (''packet_forwarder_delete_other_value'', MInt (removePktForwardOther (sv_gauges s))),
      (''sclient_write_timeouts'', MInt (me_writeTimeouts e)),
      (''average_queue_duration_ms'', MOther), (''counter_tcp_rtt'', MOther), (''counter_mesh_update_batch_size'', MOther),
      (''counter_mesh_update_loop_count'', MOther), (''counter_buffered_write_frames'', MOther), (''version'', MOther)] @
     (if rateLimitEnabled
      then [(''rate_limit_per_client_bytes_per_second'', MInt (uint (PerClientRateLimitBytesPerSec (sv_rateConfig s)))),
            (''rate_limit_per_client_burst_bytes'', MInt (uint (PerClientRateBurstBytes (sv_rateConfig s)))),
            (''rate_limit_per_client_waited'', MInt (me_rateWaited e))]
      else [])"

text \<open>\<open>publishDERPMetrics\<close> publishes them without those of rate limits; \<open>getServerMetrics\<close> is their JSON, of which the numbers are read.\<close>

definition serverMetrics :: "metric_env \<Rightarrow> Server \<Rightarrow> counters \<Rightarrow> send_stats \<Rightarrow> metrics" where
  "serverMetrics e s k st = Some (\<lambda>name. case map_of (ExpVar False e s k st) name of Some (MInt n) \<Rightarrow> Some n | _ \<Rightarrow> None)"

definition trafficSessionMetrics :: "metrics option \<Rightarrow> int64 \<times> int64 \<times> int64" where
  "trafficSessionMetrics mf =
     (case mf of
        Some (Some m) \<Rightarrow>
          (word_of_int (extractInt m ''bytes_received''), word_of_int (extractInt m ''bytes_sent''), word_of_int (extractInt m ''accepts''))
      | _ \<Rightarrow> (0, 0, 0))"

definition trafficTotalsFunc :: "Stats \<Rightarrow> Persister option \<Rightarrow> Stats option" where
  "trafficTotalsFunc current p = map_option (Total current) p"

section \<open>Round-trip times\<close>

definition millisecond :: duration where "millisecond = 1000000"

definition durationToLabel :: "duration \<Rightarrow> string" where
  "durationToLabel dur =
     (if dur \<le> 10 * millisecond then ''10ms''
      else if dur \<le> 20 * millisecond then ''20ms''
      else if dur \<le> 50 * millisecond then ''50ms''
      else if dur \<le> 100 * millisecond then ''100ms''
      else if dur \<le> 150 * millisecond then ''150ms''
      else if dur \<le> 250 * millisecond then ''250ms''
      else if dur \<le> 500 * millisecond then ''500ms''
      else ''inf'')"

text \<open>The TCP connection under a connection, through any layers of TLS.\<close>

datatype net_conn = TCPConn nat | TLSConn net_conn | OtherConn

fun tcpConn :: "net_conn \<Rightarrow> nat option" where
  "tcpConn (TCPConn n) = Some n"
| "tcpConn (TLSConn c) = tcpConn c"
| "tcpConn OtherConn = None"

text \<open>\<open>startStatsLoop\<close>: the label added at the start, if any, and whether the timer is started; then one round of the timer: the label added, and whether the
  timer is started again.\<close>

definition startStatsLoop :: "net_conn \<Rightarrow> (nat \<Rightarrow> duration option) \<Rightarrow> string option \<times> bool" where
  "startStatsLoop c rtt =
     (case tcpConn c of
        None \<Rightarrow> (Some ''non-tcp'', False)
      | Some conn \<Rightarrow> (case rtt conn of None \<Rightarrow> (Some ''error'', False) | Some _ \<Rightarrow> (None, True)))"

definition gatherStats :: "bool \<Rightarrow> duration option \<Rightarrow> string option \<times> bool" where
  "gatherStats ctxDone rtt = (if ctxDone then (None, False) else (map_option durationToLabel rtt, True))"

section \<open>Properties\<close>

lemma ExpVar_names_distinct: "distinct (map fst (ExpVar b e s k st))"
  by (cases b) (simp_all add: ExpVar_def)

lemma serverMetrics_read:
  "serverMetrics e s k st = Some m \<Longrightarrow> m ''gauge_clients_local'' = Some (sv_numLocalClientKeys s)"
  "serverMetrics e s k st = Some m \<Longrightarrow> m ''accepts'' = Some (sv_accepts s)"
  "serverMetrics e s k st = Some m \<Longrightarrow> m ''bytes_received'' = Some (bytesRecv k)"
  "serverMetrics e s k st = Some m \<Longrightarrow> m ''bytes_sent'' = Some (bytesSent st)"
  by (auto simp: serverMetrics_def ExpVar_def)

text \<open>The number of connected keys that the server counts is exact.\<close>

lemma local_keys_exact: "reachable kstr mb y \<Longrightarrow> sv_numLocalClientKeys (sy_srv y) = int (card (sv_key (sy_srv y) ` registered (sy_srv y)))"
  using reachable_parts(1,2) [of kstr mb y] by (simp add: gauges_ok_def keys_registered [symmetric] fcard.rep_eq)


section \<open>Witness\<close>

definition demo_metric_env :: metric_env where
  "demo_metric_env = \<lparr>me_memSys0 = 0, me_fds = 9, me_unknownFrames = 0, me_writeTimeouts = 0, me_rateWaited = 0\<rparr>"

definition demo_stats :: send_stats where
  "demo_stats = \<lparr>packetsSent = 0, bytesSent = 0, sentPong = 0, peerGoneDisconnectedFrames = 0, peerGoneNotHereFrames = 0\<rparr>"

definition demo_status :: ops_status where
  "demo_status =
     (let mf = Some (serverMetrics demo_metric_env (sy_srv (demo_state lastWriterIsActive)) zero_counters demo_stats)
      in StatusFromConfig (opsConfig ''1.0'' default_config) (Some \<lparr>rs_running = True, rs_err = []\<rparr>) mf
           (trafficTotalsFunc (currentSession (Some (trafficSessionMetrics mf))) (Some (traffic_New True ''/tmp/t''))))"


end
