(* ===== verification/DebugTraffic.thy ===== *)
theory DebugTraffic
  imports DerpSystem ParseAddr
begin

text \<open>
  The debug page of traffic by connection, \<open>parseSSOutput\<close> and a round of \<open>ServeDebugTraffic\<close> of \<^verbatim>\<open>internal/derpserver/derpserver.go\<close>: the output of \<^verbatim>\<open>ss -i -H -t\<close>
  has two lines for a connection, its addresses and its counters.

  \<^item> \<^term>\<open>None\<close> is the panic of an index out of range. \<open>est c\<close> is the estimate of the unique senders of connection \<open>c\<close>.
  \<^item> A key that is not set is \<^term>\<open>None\<close>.
\<close>

record BytesSentRecv =
  bs_Sent :: uint64
  bs_Recv :: uint64
  bs_Key :: "node_public option"
  bs_UniqueSenders :: uint64

definition zero_traffic :: BytesSentRecv where
  "zero_traffic = \<lparr>bs_Sent = 0, bs_Recv = 0, bs_Key = None, bs_UniqueSenders = 0\<rparr>"

text \<open>The address of the peer, of a line with at least five fields.\<close>

definition ss_source :: "string \<Rightarrow> AddrPort option" where
  "ss_source line = (let ipInfo = Fields (TrimSpace line) in if length ipInfo < 5 then None else ParseAddrPort (ipInfo ! 4))"

text \<open>\<open>s[strings.Index(s, ":")+1:]\<close>: all of \<open>s\<close> when there is no colon.\<close>

definition after_colon :: "string \<Rightarrow> string" where
  "after_colon s = (if CHR '':'' \<in> set s then tl (dropWhile (\<lambda>c. c \<noteq> CHR '':'') s) else s)"

definition ss_stat :: "BytesSentRecv \<Rightarrow> string \<Rightarrow> BytesSentRecv" where
  "ss_stat stat s =
     (if Contains s ''bytes_sent'' then
        (case Atoi (after_colon s) of Some n \<Rightarrow> stat\<lparr>bs_Sent := word_of_int n\<rparr> | None \<Rightarrow> stat)
      else if Contains s ''bytes_received'' then
        (case Atoi (after_colon s) of Some n \<Rightarrow> stat\<lparr>bs_Recv := word_of_int n\<rparr> | None \<Rightarrow> stat)
      else stat)"

definition ss_stats :: "string \<Rightarrow> BytesSentRecv" where
  "ss_stats line = foldl ss_stat zero_traffic (Fields (TrimSpace line))"

fun ss_lines :: "string list \<Rightarrow> (AddrPort, BytesSentRecv) fmap \<Rightarrow> (AddrPort, BytesSentRecv) fmap option" where
  "ss_lines [] newState = Some newState"
| "ss_lines [line] newState = (case ss_source line of None \<Rightarrow> Some newState | Some _ \<Rightarrow> None)"
| "ss_lines (line # stats # rest) newState =
     ss_lines rest (case ss_source line of None \<Rightarrow> newState | Some src \<Rightarrow> fmupd src (ss_stats stats) newState)"

definition parseSSOutput :: "string \<Rightarrow> (AddrPort, BytesSentRecv) fmap option" where
  "parseSSOutput raw = ss_lines (SplitChar (CHR 0x0A) raw) fmempty"

text \<open>What a round writes for one address, if anything: the traffic since the last round was not less, and the address is that
  of a connection.\<close>

definition debug_report ::
    "(sptr \<Rightarrow> uint64) \<Rightarrow> Server \<Rightarrow> (AddrPort, BytesSentRecv) fmap \<Rightarrow> (AddrPort, BytesSentRecv) fmap \<Rightarrow> AddrPort \<Rightarrow> BytesSentRecv option" where
  "debug_report est s prevState newState k =
     (case fmlookup newState k of
        None \<Rightarrow> None
      | Some nxt \<Rightarrow>
          (let prev = (case fmlookup prevState k of None \<Rightarrow> zero_traffic | Some p \<Rightarrow> p)
           in if bs_Sent prev < bs_Sent nxt \<or> bs_Recv prev < bs_Recv nxt then
                (case fmlookup (sv_keyOfAddr s) k of
                   None \<Rightarrow> None
                 | Some pkey \<Rightarrow>
                     (let nxt = nxt\<lparr>bs_Key := Some pkey\<rparr>
                      in case fmlookup (sv_clients s) pkey of
                           None \<Rightarrow> Some nxt
                         | Some cs \<Rightarrow>
                             (case cs_activeClient cs of
                                None \<Rightarrow> Some nxt
                              | Some c \<Rightarrow> Some (nxt\<lparr>bs_UniqueSenders := est c\<rparr>))))
              else None))"

text \<open>A round: the new state, and what was written for each address; \<open>ss\<close> is its output, or \<^term>\<open>None\<close> when it failed. The outer
  \<^term>\<open>None\<close> is a panic.\<close>

definition debug_round ::
    "(sptr \<Rightarrow> uint64) \<Rightarrow> Server \<Rightarrow> string option \<Rightarrow> (AddrPort, BytesSentRecv) fmap \<Rightarrow>
     ((AddrPort, BytesSentRecv) fmap \<times> (AddrPort \<Rightarrow> BytesSentRecv option)) option option" where
  "debug_round est s ss prevState =
     (case ss of
        None \<Rightarrow> Some None
      | Some raw \<Rightarrow>
          (case parseSSOutput raw of
             None \<Rightarrow> None
           | Some newState \<Rightarrow> Some (Some (newState, debug_report est s prevState newState))))"

section \<open>Properties\<close>

lemma ss_lines_panic: "ss_lines ls m = None \<longleftrightarrow> odd (length ls) \<and> ss_source (last ls) \<noteq> None"
  by (induction ls m rule: ss_lines.induct) (auto split: option.split)

text \<open>The parser panics exactly on an output with an odd number of lines whose last line is the address line of a connection: its
  line of counters is read without looking whether it is there.\<close>

theorem parseSSOutput_panics_iff:
  "parseSSOutput raw = None \<longleftrightarrow>
     odd (length (SplitChar (CHR 0x0A) raw)) \<and> ss_source (last (SplitChar (CHR 0x0A) raw)) \<noteq> None"
  by (simp add: parseSSOutput_def ss_lines_panic)

text \<open>Output that ends with a newline, as \<^verbatim>\<open>ss\<close> writes it, is parsed.\<close>

lemma SplitFunc_snoc: "f c \<Longrightarrow> SplitFunc f (xs @ [c]) = SplitFunc f xs @ [[]]"
proof (induction xs)
  case (Cons x xs)
  then show ?case using SplitFunc_not_empty [of f xs] by (cases "SplitFunc f xs") auto
qed simp

lemma newline_terminated_parsed: "parseSSOutput (raw @ [CHR 0x0A]) \<noteq> None"
  by (simp add: parseSSOutput_def ss_lines_panic SplitChar_def SplitFunc_snoc ss_source_def Fields_def FieldsFunc_def TrimSpace_def TrimFunc_def)

lemma debug_report_attributed:
  "debug_report est s prev new k = Some r \<Longrightarrow> bs_Key r = fmlookup (sv_keyOfAddr s) k \<and> bs_Key r \<noteq> None"
  by (auto simp: debug_report_def Let_def split: option.splits if_splits)

end
