(* ===== verification/BufferedWriter.thy ===== *)
theory BufferedWriter
  imports RateLimit
begin

text \<open>
  The output side of a connection and small settings of \<^verbatim>\<open>internal/derpserver/derpserver.go\<close>: \<open>lazyBufioWriter\<close>, which takes its buffer from a pool and gives it
  back when it flushes, the write deadline, the depth of the queues and the rate configuration file.

  \<^item> \<open>bufio.Writer\<close> is that of the standard library, with its sticky error and the direct write of what does not fit an empty buffer. A buffer from the
    pool is reset, so it is empty and without error whatever it was used for before.
  \<^item> A connection is the bytes it took and the outcomes of the writes to come: \<^term>\<open>Some n\<close> is an error after at most \<open>n\<close> bytes.
\<close>

section \<open>bufio.Writer\<close>

type_synonym sink = "bytes \<times> nat option list"

fun sink_Write :: "bytes \<Rightarrow> sink \<Rightarrow> nat \<times> bool \<times> sink" where
  "sink_Write p (out, []) = (length p, False, (out @ p, []))"
| "sink_Write p (out, None # script) = (length p, False, (out @ p, script))"
| "sink_Write p (out, Some n # script) = (min n (length p), True, (out @ take n p, script))"

record bufio_writer =
  bf_buf :: bytes
  bf_err :: bool

definition fresh_writer :: bufio_writer where
  "fresh_writer = \<lparr>bf_buf = [], bf_err = False\<rparr>"

definition bufio_Flush :: "bufio_writer \<Rightarrow> sink \<Rightarrow> bufio_writer \<times> sink" where
  "bufio_Flush b s =
     (if bf_err b \<or> bf_buf b = [] then (b, s)
      else (case sink_Write (bf_buf b) s of
              (n, err, s) \<Rightarrow> (if err then \<lparr>bf_buf = drop n (bf_buf b), bf_err = True\<rparr> else \<lparr>bf_buf = [], bf_err = False\<rparr>, s)))"

lemma sink_Write_ok: "sink_Write p s = (n, False, s') \<Longrightarrow> n = length p \<and> fst s' = fst s @ p"
  by (cases "(p, s)" rule: sink_Write.cases) auto

lemma bufio_Flush_ok: "bufio_Flush b s = (b', s') \<Longrightarrow> \<not> bf_err b' \<Longrightarrow> bf_buf b' = [] \<and> fst s' = fst s @ bf_buf b"
  by (auto simp: bufio_Flush_def dest: sink_Write_ok split: if_splits prod.splits)

function bufio_Write :: "nat \<Rightarrow> bytes \<Rightarrow> bufio_writer \<Rightarrow> sink \<Rightarrow> bufio_writer \<times> sink" where
  "bufio_Write cap p b s =
     (if cap - length (bf_buf b) < length p \<and> \<not> bf_err b then
        (if bf_buf b = [] then
           (case sink_Write p s of (n, err, s) \<Rightarrow> bufio_Write cap (drop n p) (b\<lparr>bf_err := err\<rparr>) s)
         else (let n = cap - length (bf_buf b)
               in case bufio_Flush (b\<lparr>bf_buf := bf_buf b @ take n p\<rparr>) s of (b, s) \<Rightarrow> bufio_Write cap (drop n p) b s))
      else if bf_err b then (b, s) else (b\<lparr>bf_buf := bf_buf b @ p\<rparr>, s))"
  by pat_completeness auto
termination
proof (relation "measure (\<lambda>(cap, p, b, s). if bf_err b then 0 else 1 + 2 * length p + (if bf_buf b = [] then 0 else 1))", goal_cases)
  case (2 cap p b s n x err s')
  then have "\<not> err \<Longrightarrow> n = length p" by (metis (full_types) sink_Write_ok)
  with 2 show ?case by (cases err) auto
next
  case (3 cap p b s n b' s')
  then have "\<not> bf_err b' \<Longrightarrow> bf_buf b' = []" by (metis bufio_Flush_ok)
  with 3 show ?case by (auto split: prod.splits)
qed simp

declare bufio_Write.simps [simp del]

section \<open>lazyBufioWriter\<close>

type_synonym lazyBufioWriter = "bufio_writer option"

definition lazy_bw :: "lazyBufioWriter \<Rightarrow> bufio_writer" where
  "lazy_bw w = (case w of None \<Rightarrow> fresh_writer | Some b \<Rightarrow> b)"

definition lazy_Available :: "nat \<Rightarrow> lazyBufioWriter \<Rightarrow> nat" where
  "lazy_Available cap w = cap - length (bf_buf (lazy_bw w))"

definition lazy_Write :: "nat \<Rightarrow> bytes \<Rightarrow> lazyBufioWriter \<Rightarrow> sink \<Rightarrow> bool \<times> lazyBufioWriter \<times> sink" where
  "lazy_Write cap p w s = (case bufio_Write cap p (lazy_bw w) s of (b, s) \<Rightarrow> (bf_err b, Some b, s))"

definition lazy_Flush :: "lazyBufioWriter \<Rightarrow> sink \<Rightarrow> bool \<times> lazyBufioWriter \<times> sink" where
  "lazy_Flush w s =
     (case w of
        None \<Rightarrow> (False, None, s)
      | Some b \<Rightarrow> (case bufio_Flush b s of (b, s) \<Rightarrow> (bf_err b, None, s)))"

datatype lazy_op = LWrite bytes | LFlush

text \<open>The writer stops at the first error, as the send loop does.\<close>

fun lazy_run :: "nat \<Rightarrow> lazy_op list \<Rightarrow> lazyBufioWriter \<Rightarrow> sink \<Rightarrow> bool \<times> lazyBufioWriter \<times> sink" where
  "lazy_run cap [] w s = (False, w, s)"
| "lazy_run cap (x # xs) w s =
     (case (case x of LWrite p \<Rightarrow> lazy_Write cap p w s | LFlush \<Rightarrow> lazy_Flush w s) of
        (True, w, s) \<Rightarrow> (True, w, s)
      | (False, w, s) \<Rightarrow> lazy_run cap xs w s)"

section \<open>The stream\<close>

definition written :: "lazy_op list \<Rightarrow> bytes" where
  "written xs = concat (map (\<lambda>x. case x of LWrite p \<Rightarrow> p | LFlush \<Rightarrow> []) xs)"

lemma sink_Write_prefix: "sink_Write p s = (n, err, s') \<Longrightarrow> \<exists>q. fst s' = fst s @ q \<and> (\<exists>r. p = q @ r) \<and> (\<not> err \<longrightarrow> q = p)"
  by (cases "(p, s)" rule: sink_Write.cases) (auto, metis append_take_drop_id)

lemma bufio_Flush_prefix:
  assumes "bufio_Flush b s = (b', s')" "\<not> bf_err b"
  shows "\<exists>q r. fst s' = fst s @ q \<and> bf_buf b = q @ r \<and> (\<not> bf_err b' \<longrightarrow> r = [] \<and> bf_buf b' = [])"
proof (cases "bf_buf b = []")
  case False
  obtain n err s1 where w: "sink_Write (bf_buf b) s = (n, err, s1)" by (metis prod_cases3)
  with False assms have "s' = s1" "bf_err b' = err" "\<not> err \<longrightarrow> bf_buf b' = []" by (auto simp: bufio_Flush_def split: if_splits)
  with sink_Write_prefix [OF w] show ?thesis by auto
qed (use assms in \<open>auto simp: bufio_Flush_def\<close>)

text \<open>What a write leaves: without an error all bytes are out or in the buffer, in order; with an error a prefix of them is out.\<close>

lemma bufio_Write_stream:
  assumes "bufio_Write cap p b s = (b', s')" "\<not> bf_err b" "length (bf_buf b) \<le> cap"
  shows "(\<not> bf_err b' \<longrightarrow> fst s' @ bf_buf b' = fst s @ bf_buf b @ p \<and> length (bf_buf b') \<le> cap) \<and>
    (\<exists>r. fst s @ bf_buf b @ p = fst s' @ r)"
  using assms
proof (induction cap p b s arbitrary: b' s' rule: bufio_Write.induct)
  case (1 cap p b s)
  show ?case
  proof (cases "cap - length (bf_buf b) < length p")
    case False
    then have "bufio_Write cap p b s = (b\<lparr>bf_buf := bf_buf b @ p\<rparr>, s)"
      using 1(4) by (simp add: bufio_Write.simps [of cap p b s])
    with 1(3-5) False show ?thesis by (auto simp: not_less)
  next
    case fits: True
    show ?thesis
    proof (cases "bf_buf b = []")
      case True
      obtain n err s1 where w: "sink_Write p s = (n, err, s1)" by (metis prod_cases3)
      have "bufio_Write cap p b s = bufio_Write cap (drop n p) (b\<lparr>bf_err := err\<rparr>) s1"
        using 1(4) fits True w by (simp add: bufio_Write.simps [of cap p b s])
      with 1(3) have run: "bufio_Write cap (drop n p) (b\<lparr>bf_err := err\<rparr>) s1 = (b', s')" by simp
      obtain q r where q: "fst s1 = fst s @ q" "p = q @ r" "\<not> err \<longrightarrow> q = p" using sink_Write_prefix [OF w] by blast
      show ?thesis
      proof (cases err)
        case True
        with run have "b' = b\<lparr>bf_err := True\<rparr>" "s' = s1" by (simp_all add: bufio_Write.simps)
        with q \<open>bf_buf b = []\<close> show ?thesis by simp
      next
        case False
        with w have "drop n p = []" by (auto dest: sink_Write_ok)
        with run False 1(4) have "b' = b\<lparr>bf_err := False, bf_buf := []\<rparr>" "s' = s1" using True by (simp_all add: bufio_Write.simps)
        moreover have "fst s1 = fst s @ p" using q(1,3) False by blast
        ultimately show ?thesis using True by simp
      qed
    next
      case False
      let ?n = "cap - length (bf_buf b)"
      let ?b = "b\<lparr>bf_buf := bf_buf b @ take ?n p\<rparr>"
      obtain b1 s1 where f: "bufio_Flush ?b s = (b1, s1)" by (metis surj_pair)
      have "bufio_Write cap p b s = bufio_Write cap (drop ?n p) b1 s1"
        using 1(4) fits False f by (simp add: bufio_Write.simps [of cap p b s] Let_def)
      with 1(3) have run: "bufio_Write cap (drop ?n p) b1 s1 = (b', s')" by simp
      obtain q r where q: "fst s1 = fst s @ q" "bf_buf b @ take ?n p = q @ r" "\<not> bf_err b1 \<longrightarrow> r = [] \<and> bf_buf b1 = []"
        using bufio_Flush_prefix [OF f] 1(4) by auto
      have all: "bf_buf b @ p = q @ r @ drop ?n p" using q(2) by (metis append_assoc append_take_drop_id)
      show ?thesis
      proof (cases "bf_err b1")
        case True
        with run have "b' = b1" "s' = s1" by (simp_all add: bufio_Write.simps)
        with True q(1) all show ?thesis by auto
      next
        case ok: False
        with 1(2) [OF _ False refl f [symmetric], of b' s'] run fits 1(4) q all show ?thesis by (simp add: ok)
      qed
    qed
  qed
qed

definition lazy_ok :: "nat \<Rightarrow> lazyBufioWriter \<Rightarrow> bool" where
  "lazy_ok cap w \<longleftrightarrow> \<not> bf_err (lazy_bw w) \<and> length (bf_buf (lazy_bw w)) \<le> cap"

lemma lazy_step_stream:
  assumes "(case x of LWrite p \<Rightarrow> lazy_Write cap p w s | LFlush \<Rightarrow> lazy_Flush w s) = (err, w', s')" "lazy_ok cap w"
  shows "(\<not> err \<longrightarrow> fst s' @ bf_buf (lazy_bw w') = fst s @ bf_buf (lazy_bw w) @ written [x] \<and> lazy_ok cap w' \<and> (x = LFlush \<longrightarrow> bf_buf (lazy_bw w') = [])) \<and>
    (\<exists>r. fst s @ bf_buf (lazy_bw w) @ written [x] = fst s' @ r)"
proof (cases x)
  case (LWrite p)
  obtain b1 s1 where w: "bufio_Write cap p (lazy_bw w) s = (b1, s1)" by (metis surj_pair)
  with assms(1) LWrite have r: "err = bf_err b1" "w' = Some b1" "s' = s1" by (auto simp: lazy_Write_def)
  from bufio_Write_stream [OF w] assms(2) LWrite show ?thesis by (auto simp: r lazy_ok_def written_def lazy_bw_def)
next
  case LFlush
  show ?thesis
  proof (cases w)
    case None
    with assms LFlush show ?thesis by (auto simp: lazy_Flush_def written_def lazy_bw_def fresh_writer_def lazy_ok_def)
  next
    case (Some b)
    obtain b1 s1 where f: "bufio_Flush b s = (b1, s1)" by (metis surj_pair)
    with assms(1) LFlush Some have r: "err = bf_err b1" "w' = None" "s' = s1" by (auto simp: lazy_Flush_def)
    have "\<not> bf_err b" using assms(2) Some by (simp add: lazy_ok_def lazy_bw_def)
    from bufio_Flush_prefix [OF f this] Some LFlush show ?thesis
      by (auto simp: r written_def lazy_bw_def fresh_writer_def lazy_ok_def)
  qed
qed

text \<open>The stream of a connection is what was written to it: whatever the sizes of the writes and wherever the connection fails, the bytes it took are a
  prefix of the bytes written, in order, and without an error all but those in the buffer; after a flush that succeeds, all of them.\<close>

theorem lazy_writer_stream:
  assumes "lazy_run cap xs None (out, script) = (err, w, (out', script'))"
  shows "\<exists>rest. out @ written xs = out' @ rest \<and>
    (\<not> err \<longrightarrow> rest = bf_buf (lazy_bw w) \<and> length rest \<le> cap \<and> (xs \<noteq> [] \<and> last xs = LFlush \<longrightarrow> rest = []))"
proof -
  have "(\<exists>r. fst s @ bf_buf (lazy_bw w0) @ written xs = fst s' @ r) \<and>
      (\<not> err \<longrightarrow> fst s' @ bf_buf (lazy_bw w) = fst s @ bf_buf (lazy_bw w0) @ written xs \<and> lazy_ok cap w \<and>
        (xs \<noteq> [] \<and> last xs = LFlush \<longrightarrow> bf_buf (lazy_bw w) = []))"
    if "lazy_run cap xs w0 s = (err, w, s')" "lazy_ok cap w0" for w0 s s'
    using that
  proof (induction xs arbitrary: w0 s)
    case Nil
    then show ?case by (auto simp: written_def)
  next
    case (Cons x xs)
    obtain e1 w1 s1 where st: "(case x of LWrite p \<Rightarrow> lazy_Write cap p w0 s | LFlush \<Rightarrow> lazy_Flush w0 s) = (e1, w1, s1)"
      by (metis prod_cases3)
    note step = lazy_step_stream [OF st Cons.prems(2)]
    have wr: "written (x # xs) = written [x] @ written xs" by (simp add: written_def)
    show ?case
    proof (cases e1)
      case True
      with st Cons.prems(1) have e: "err" "s' = s1" by auto
      from step obtain r where "fst s @ bf_buf (lazy_bw w0) @ written [x] = fst s1 @ r" by blast
      then have "fst s @ bf_buf (lazy_bw w0) @ written (x # xs) = fst s' @ r @ written xs" using wr e(2) by (metis append_assoc)
      with e(1) show ?thesis by blast
    next
      case False
      with st Cons.prems(1) have run: "lazy_run cap xs w1 s1 = (err, w, s')" by simp
      from step False have s1: "fst s1 @ bf_buf (lazy_bw w1) = fst s @ bf_buf (lazy_bw w0) @ written [x]" "lazy_ok cap w1"
        "x = LFlush \<longrightarrow> bf_buf (lazy_bw w1) = []" by auto
      have eq: "fst s @ bf_buf (lazy_bw w0) @ written (x # xs) = fst s1 @ bf_buf (lazy_bw w1) @ written xs"
        using s1(1) wr by (metis append_assoc)
      have last: "xs = [] \<Longrightarrow> w = w1" using run by simp
      show ?thesis using Cons.IH [OF run s1(2)] s1(3) last unfolding eq by auto
    qed
  qed
  from this [OF assms] show ?thesis by (auto simp: lazy_ok_def lazy_bw_def fresh_writer_def)
qed

text \<open>A failed flush loses what was in the buffer and its error: a later write would succeed, with a gap in the stream.\<close>

lemma flush_forgets_error:
  "lazy_Flush (Some \<lparr>bf_buf = [1, 2], bf_err = False\<rparr>) ([], [Some 1]) = (True, None, ([1], []))"
  "lazy_run 8 [LWrite [3], LFlush] None ([1], []) = (False, None, ([1, 3], []))"
  by (simp_all add: lazy_Flush_def bufio_Flush_def lazy_Write_def bufio_Write.simps lazy_bw_def fresh_writer_def)

section \<open>Settings\<close>

definition privilegedWriteTimeout :: duration where "privilegedWriteTimeout = 30 * second"

text \<open>The deadline \<open>setWriteDeadline\<close> sets, if any.\<close>

definition setWriteDeadline :: "duration \<Rightarrow> bool \<Rightarrow> gotime \<Rightarrow> gotime option" where
  "setWriteDeadline tcpWriteTimeout canMesh now =
     (let d = (if canMesh then privilegedWriteTimeout else tcpWriteTimeout) in if d = 0 then None else Some (now + d))"

definition getPerClientSendQueueDepth :: "int option \<Rightarrow> int" where
  "getPerClientSendQueueDepth envknob = (case envknob of Some v \<Rightarrow> v | None \<Rightarrow> 32)"

text \<open>The rate configuration file; \<open>readFile\<close> and \<open>unmarshal\<close> give an error or the contents, and the configuration in them.\<close>

definition LoadRateConfig :: "(string \<Rightarrow> string + string) \<Rightarrow> (string \<Rightarrow> string + RateConfig) \<Rightarrow> string \<Rightarrow> string + RateConfig" where
  "LoadRateConfig readFile unmarshal path =
     (if path = [] then Inl ''rate config path is empty''
      else (case readFile path of
              Inl err \<Rightarrow> Inl (''error reading rate config: '' @ err)
            | Inr b \<Rightarrow>
                (case unmarshal b of
                   Inl err \<Rightarrow> Inl (''error parsing rate config: '' @ err)
                 | Inr rc \<Rightarrow> Inr rc)))"

definition LoadAndApplyRateConfig ::
    "(string \<Rightarrow> string + string) \<Rightarrow> (string \<Rightarrow> string + RateConfig) \<Rightarrow> uint64 \<Rightarrow> string \<Rightarrow> Server \<Rightarrow> string option \<times> Server" where
  "LoadAndApplyRateConfig readFile unmarshal minBucket path s =
     (case LoadRateConfig readFile unmarshal path of
        Inl err \<Rightarrow> (Some err, s)
      | Inr rc \<Rightarrow> (None, snd (UpdateRateLimits minBucket rc s)))"

text \<open>A file that cannot be loaded changes no limit; one that is loaded applies to the server as \<open>UpdateRateLimits\<close> does.\<close>

lemma LoadAndApplyRateConfig_cases:
  "LoadAndApplyRateConfig readFile unmarshal minBucket path s = (Some err, s') \<Longrightarrow> s' = s"
  "LoadAndApplyRateConfig readFile unmarshal minBucket path s = (None, s') \<Longrightarrow>
     \<exists>b rc. readFile path = Inr b \<and> unmarshal b = Inr rc \<and> s' = snd (UpdateRateLimits minBucket rc s)"
  by (auto simp: LoadAndApplyRateConfig_def LoadRateConfig_def split: sum.splits if_splits)

end
