(* ===== verification/NodeKey.thy ===== *)
theory NodeKey
  imports GoStrings
begin

text \<open>
  The private key of the relay, \<open>loadOrCreateNodeKey\<close> of \<^verbatim>\<open>cmd/tailscale-derp/main.go\<close>, through any number of starts of the service on one file.

  \<^item> \<open>node_codec\<close> is the text form of keys of the \<^verbatim>\<open>key\<close> package, third-party code; \<open>codec_law\<close> states that it reads back the text it
    writes, which has no space at its ends.
  \<^item> \<open>node_env\<close> is what one start meets: the key it would make, and the errors of the file system. A write that fails may leave
    anything behind.
\<close>

type_synonym bytes8 = "8 word list"

record node_codec =
  nc_UnmarshalText :: "string \<Rightarrow> string + bytes8"
  nc_MarshalText :: "bytes8 \<Rightarrow> string + string"

record node_env =
  ne_NewNode :: bytes8
  ne_MkdirAll :: "string option"
  ne_WriteFile :: "(string \<times> string option) option"

datatype node_file = NodeMissing | NodeUnreadable string | NodeText string

definition left_behind :: "string option \<Rightarrow> node_file" where
  "left_behind text = (case text of None \<Rightarrow> NodeMissing | Some t \<Rightarrow> NodeText t)"

definition loadOrCreateNodeKey :: "node_codec \<Rightarrow> node_env \<Rightarrow> node_file \<Rightarrow> (string + bytes8) \<times> node_file" where
  "loadOrCreateNodeKey nc e path =
     (case path of
        NodeText raw \<Rightarrow> (nc_UnmarshalText nc (TrimSpace raw), path)
      | NodeUnreadable err \<Rightarrow> (Inl err, path)
      | NodeMissing \<Rightarrow>
          (let privateKey = ne_NewNode e
           in case nc_MarshalText nc privateKey of
                Inl err \<Rightarrow> (Inl err, path)
              | Inr marshaled \<Rightarrow>
                  (case ne_MkdirAll e of
                     Some err \<Rightarrow> (Inl err, path)
                   | None \<Rightarrow>
                       (case ne_WriteFile e of
                          Some (err, text) \<Rightarrow> (Inl err, left_behind text)
                        | None \<Rightarrow> (Inr privateKey, NodeText (marshaled @ [CHR 0x0A]))))))"

fun node_starts :: "node_codec \<Rightarrow> node_env list \<Rightarrow> node_file \<Rightarrow> (string + bytes8) list \<times> node_file" where
  "node_starts nc [] f = ([], f)"
| "node_starts nc (e # es) f =
     (let (r, f1) = loadOrCreateNodeKey nc e f; (rs, f2) = node_starts nc es f1 in (r # rs, f2))"

definition codec_law :: "node_codec \<Rightarrow> bytes8 \<Rightarrow> bool" where
  "codec_law nc k \<longleftrightarrow> (case nc_MarshalText nc k of Inl _ \<Rightarrow> True | Inr t \<Rightarrow> nc_UnmarshalText nc t = Inr k \<and> TrimSpace t = t)"

section \<open>Properties\<close>

lemma TrimFunc_snoc: "f c \<Longrightarrow> TrimFunc f (s @ [c]) = TrimFunc f s"
  by (cases "\<forall>x\<in>set s. f x") (auto simp: TrimFunc_def dropWhile_append dropWhile_eq_Nil_conv dest: set_dropWhileD)

lemma TrimSpace_newline [simp]: "TrimSpace (s @ [CHR 0x0A]) = TrimSpace s"
  by (simp add: TrimSpace_def TrimFunc_snoc is_space_def)

text \<open>A file that gives a key gives it to every start, and no start changes it.\<close>

definition gives_key :: "node_codec \<Rightarrow> node_file \<Rightarrow> bytes8 \<Rightarrow> bool" where
  "gives_key nc f k \<longleftrightarrow> (\<exists>raw. f = NodeText raw \<and> nc_UnmarshalText nc (TrimSpace raw) = Inr k)"

lemma gives_key_start: "gives_key nc f k \<Longrightarrow> loadOrCreateNodeKey nc e f = (Inr k, f)"
  by (auto simp: gives_key_def loadOrCreateNodeKey_def)

lemma start_gives_key:
  "loadOrCreateNodeKey nc e f = (Inr k, f') \<Longrightarrow> codec_law nc (ne_NewNode e) \<Longrightarrow> gives_key nc f' k"
  by (auto simp: loadOrCreateNodeKey_def gives_key_def codec_law_def Let_def split: node_file.splits sum.splits option.splits)

lemma gives_key_starts: "gives_key nc f k \<Longrightarrow> set (fst (node_starts nc es f)) \<subseteq> {Inr k} \<and> snd (node_starts nc es f) = f"
  by (induction es) (auto simp: gives_key_start split_beta Let_def)


definition demo_codec :: node_codec where
  "demo_codec =
     \<lparr>nc_UnmarshalText = (\<lambda>t. if t = ''privkey:01'' then Inr [1] else if t = ''privkey:02'' then Inr [2] else Inl ''invalid key''),
      nc_MarshalText = (\<lambda>k. if k = [1] then Inr ''privkey:01'' else if k = [2] then Inr ''privkey:02'' else Inl ''zero key'')\<rparr>"

definition demo_node_env :: "bytes8 \<Rightarrow> string option \<Rightarrow> node_env" where
  "demo_node_env k err = \<lparr>ne_NewNode = k, ne_MkdirAll = err, ne_WriteFile = None\<rparr>"

lemma demo_codec_law: "codec_law demo_codec [1]" "codec_law demo_codec [2]"
  by (simp_all add: codec_law_def demo_codec_def TrimSpace_def TrimFunc_def is_space_def)


text \<open>A write that breaks off leaves a file that is not tried again: every later start fails.\<close>

lemma torn_key_file_stays:
  assumes "nc_UnmarshalText nc [] = Inl err" "ne_MkdirAll e = None" "ne_WriteFile e = Some (reason, Some [])" "nc_MarshalText nc (ne_NewNode e) = Inr t"
  shows "fst (node_starts nc (e # es) NodeMissing) = Inl reason # replicate (length es) (Inl err)"
proof -
  have "fst (node_starts nc es (NodeText [])) = replicate (length es) (Inl err)"
    using assms(1) by (induction es) (simp_all add: loadOrCreateNodeKey_def split_beta Let_def TrimSpace_def TrimFunc_def)
  with assms show ?thesis by (simp add: loadOrCreateNodeKey_def left_behind_def split_beta Let_def)
qed

end
