(* ===== verification/Startup.thy ===== *)
theory Startup
  imports NodeKey Admission ConfigSafety Metrics UnixSocket Cert
begin

text \<open>
  Putting the relay into service: \<open>main\<close>, \<open>startDERP\<close> and \<open>startOps\<close> of \<^verbatim>\<open>cmd/tailscale-derp/main.go\<close>, with the setters of
  \<^verbatim>\<open>derpserver.go\<close> and \<open>NewRuntime\<close> of \<^verbatim>\<open>internal/ops/runtime.go\<close>; from the command line to the checks a client meets.

  \<^item> \<open>derp_env\<close> is what one start meets: the key file's and the mesh key's codecs, the listeners that the system opens, with the text and
    the value of their addresses, the saves of the traffic totals while it serves, and the error with which serving ends.
  \<^item> The servers run between the two halves of \<open>startDERP\<close>: \<open>begin_serving\<close> is what it does until it serves, \<open>end_serving\<close> what it does after.
  \<^item> A verifier is a closure over its configuration and store; it is applied to the store and the outside world of the moment.
\<close>

section \<open>Setters of the server\<close>

definition new_verify_server :: verify_server where
  "new_verify_server = \<lparr>vs_meshKey = replicate 32 0, vs_verifyClientsLocalTailscaled = False, vs_verifyClientsURL = [],
     vs_verifyClientsURLFailOpen = False, vs_verifyClientFunc = None\<rparr>"

definition SetMeshKey :: "(string \<Rightarrow> string + bytes) \<Rightarrow> string \<Rightarrow> verify_server \<Rightarrow> string + verify_server" where
  "SetMeshKey ParseDERPMesh v s = (case ParseDERPMesh v of Inl err \<Rightarrow> Inl err | Inr k \<Rightarrow> Inr (s\<lparr>vs_meshKey := k\<rparr>))"

definition SetVerifyClient :: "bool \<Rightarrow> verify_server \<Rightarrow> verify_server" where
  "SetVerifyClient v s = s\<lparr>vs_verifyClientsLocalTailscaled := v\<rparr>"

definition SetVerifyClientURL :: "string \<Rightarrow> verify_server \<Rightarrow> verify_server" where
  "SetVerifyClientURL v s = s\<lparr>vs_verifyClientsURL := v\<rparr>"

definition SetVerifyClientURLFailOpen :: "bool \<Rightarrow> verify_server \<Rightarrow> verify_server" where
  "SetVerifyClientURLFailOpen v s = s\<lparr>vs_verifyClientsURLFailOpen := v\<rparr>"

definition SetVerifyClientFunc :: "(node_public \<Rightarrow> Addr \<Rightarrow> string option) \<Rightarrow> verify_server \<Rightarrow> verify_server" where
  "SetVerifyClientFunc f s = s\<lparr>vs_verifyClientFunc := Some f\<rparr>"

text \<open>The configuration of the runtime's verifier; a runtime that is nil is \<^term>\<open>None\<close>.\<close>

definition NewRuntime :: "VerifyConfig \<Rightarrow> VerifyConfig option" where
  "NewRuntime cfg = Some (normalizeVerifyConfig cfg)"

definition NewVerifyClientFunc ::
    "(node_public \<Rightarrow> string) \<Rightarrow> VerifyConfig \<Rightarrow> verify_world \<Rightarrow> deviceStore \<Rightarrow> node_public \<Rightarrow> Addr \<Rightarrow> string option" where
  "NewVerifyClientFunc kstr cfg vw store nodeKey source =
     (if verifier_verify (normalizeVerifyConfig cfg) (\<lambda>u. checkVerifyURL (vw_ask vw u (kstr nodeKey)) = None) (vw_whois vw nodeKey)
           (kstr nodeKey) (vw_now vw) store
      then None else Some ''not authorized by configured verifier'')"

definition derp_verifier ::
    "(node_public \<Rightarrow> string) \<Rightarrow> VerifyConfig option \<Rightarrow> Config \<Rightarrow> verify_world \<Rightarrow> deviceStore \<Rightarrow> verify_server \<Rightarrow> verify_server" where
  "derp_verifier kstr rt c vw store s =
     (if vc_Enabled (c_Verify c) then
        (case rt of
           Some cfg \<Rightarrow> SetVerifyClientFunc (VerifyClientFunc kstr vw (Some (cfg, store))) s
         | None \<Rightarrow> SetVerifyClientFunc (NewVerifyClientFunc kstr (c_Verify c) vw store) s)
      else s)"

section \<open>Starting\<close>

record derp_env =
  de_codec :: node_codec
  de_node :: node_env
  de_ParseDERPMesh :: "string \<Rightarrow> string + bytes"
  de_session :: Stats
  de_trafficText :: "traffic_error \<Rightarrow> string"
  de_listen :: "string \<Rightarrow> string + (string \<times> net_addr)"
  de_stunListen :: "string \<Rightarrow> string + (string \<times> net_addr)"
  de_bindv6only :: "string option"
  de_saves :: "(bool \<times> gotime \<times> Stats) list"
  de_finalSave :: "bool \<times> gotime \<times> Stats"
  de_cancelSave :: "(bool \<times> gotime \<times> Stats) option"
  de_serveError :: string

record derp_state =
  dp_node :: node_file
  dp_runtime :: "runtimeState option"
  dp_persister :: "Persister option"
  dp_file :: traffic_file
  dp_external :: "Manager option"

datatype transport = AutomaticTLS | FileTLS | PlainHTTP

record derp_serving =
  dv_privateKey :: bytes
  dv_verify :: "verify_world \<Rightarrow> deviceStore \<Rightarrow> verify_server"
  dv_transport :: transport
  dv_derpPort :: uint16
  dv_stunPort :: uint16

definition note_error :: "string \<Rightarrow> derp_state \<Rightarrow> derp_state" where
  "note_error err d = d\<lparr>dp_runtime := map_option (setError (Some err)) (dp_runtime d)\<rparr>"

definition note_running :: "bool \<Rightarrow> derp_state \<Rightarrow> derp_state" where
  "note_running running d = d\<lparr>dp_runtime := map_option (setRunning running) (dp_runtime d)\<rparr>"

definition load_traffic :: "derp_env \<Rightarrow> derp_state \<Rightarrow> string option \<times> derp_state" where
  "load_traffic e d =
     (case dp_persister d of
        None \<Rightarrow> (None, d)
      | Some persister \<Rightarrow>
          (case traffic_Load (dp_file d) (de_session e) persister of
             (Some err, p) \<Rightarrow> (Some (''load traffic stats: '' @ de_trafficText e err), note_error (de_trafficText e err) (d\<lparr>dp_persister := Some p\<rparr>))
           | (None, p) \<Rightarrow> (None, d\<lparr>dp_persister := Some p\<rparr>)))"

text \<open>The listeners: their ports, and the families that both can serve.\<close>

definition open_listeners :: "derp_env \<Rightarrow> Config \<Rightarrow> string + (uint16 \<times> uint16 \<times> bool \<times> bool)" where
  "open_listeners e c =
     (case de_listen e (c_Listen c) of
        Inl err \<Rightarrow> Inl (''listen for DERP: '' @ err)
      | Inr (text, address) \<Rightarrow>
          (case addressPort text of
             Inl err \<Rightarrow> Inl err
           | Inr derpPort \<Rightarrow>
               (let families = listenerFamilies (ipv6WildcardSupportsIPv4 (de_bindv6only e)); (derpIPv4, derpIPv6) = families address
                in if c_STUN c then
                     (case de_stunListen e (c_Listen c) of
                        Inl err \<Rightarrow> Inl (''listen for STUN: '' @ err)
                      | Inr (stext, saddress) \<Rightarrow>
                          (case addressPort stext of
                             Inl err \<Rightarrow> Inl err
                           | Inr stunPort \<Rightarrow>
                               (let (stunIPv4, stunIPv6) = families saddress
                                in Inr (derpPort, stunPort, derpIPv4 \<and> stunIPv4, derpIPv6 \<and> stunIPv6))))
                   else Inr (derpPort, 0, derpIPv4, derpIPv6))))"

definition derp_transport :: "bool \<Rightarrow> Config \<Rightarrow> transport" where
  "derp_transport automatic c =
     (if automatic then AutomaticTLS else if c_CertFile c \<noteq> [] \<and> c_KeyFile c \<noteq> [] then FileTLS else PlainHTTP)"

text \<open>The deferred save, after those the persister made by itself; its goroutine, cancelled after that, may save once more before the process ends.\<close>

definition final_save :: "derp_env \<Rightarrow> Config \<Rightarrow> derp_state \<Rightarrow> derp_state" where
  "final_save e c d =
     (case dp_persister d of
        None \<Rightarrow> d
      | Some persister \<Rightarrow>
          (case saves ((if 0 < traffic_duration c then de_saves e else []) @ [de_finalSave e] @
              (case de_cancelSave e of Some sv \<Rightarrow> if 0 < traffic_duration c then [sv] else [] | None \<Rightarrow> [])) (persister, dp_file d) of
             (p, f) \<Rightarrow> d\<lparr>dp_persister := Some p, dp_file := f\<rparr>))"

definition begin_serving ::
    "(node_public \<Rightarrow> string) \<Rightarrow> derp_env \<Rightarrow> Config \<Rightarrow> VerifyConfig option \<Rightarrow> bool \<Rightarrow> derp_state \<Rightarrow> (string + derp_serving) \<times> derp_state" where
  "begin_serving kstr e c rt automatic d =
     (case loadOrCreateNodeKey (de_codec e) (de_node e) (dp_node d) of
        (Inl err, f) \<Rightarrow> (Inl (''load node key: '' @ err), note_error err (d\<lparr>dp_node := f\<rparr>))
      | (Inr privateKey, f) \<Rightarrow>
          (let d = d\<lparr>dp_node := f\<rparr>
           in case (if c_Mesh c then SetMeshKey (de_ParseDERPMesh e) (c_MeshKey c) new_verify_server else Inr new_verify_server) of
                Inl err \<Rightarrow> (Inl (''parse mesh key: '' @ err), note_error err d)
              | Inr server \<Rightarrow>
                  (case load_traffic e d of
                     (Some err, d) \<Rightarrow> (Inl err, d)
                   | (None, d) \<Rightarrow>
                       (case open_listeners e c of
                          Inl err \<Rightarrow> (Inl err, final_save e c d)
                        | Inr (derpPort, stunPort, ipv4, ipv6) \<Rightarrow>
                            (Inr \<lparr>dv_privateKey = privateKey, dv_verify = (\<lambda>vw store. derp_verifier kstr rt c vw store server),
                                dv_transport = derp_transport automatic c, dv_derpPort = derpPort, dv_stunPort = stunPort\<rparr>,
                             note_running True
                               (d\<lparr>dp_external := map_option (SetLocalBindings derpPort stunPort ipv4 ipv6) (dp_external d)\<rparr>))))))"

text \<open>\<open>Serve\<close> and \<open>ServeTLS\<close> always return an error; then the deferred calls run.\<close>

definition end_serving :: "derp_env \<Rightarrow> Config \<Rightarrow> derp_state \<Rightarrow> derp_state" where
  "end_serving e c d = final_save e c (note_running False (note_error (de_serveError e) d))"

definition startDERP ::
    "(node_public \<Rightarrow> string) \<Rightarrow> derp_env \<Rightarrow> Config \<Rightarrow> VerifyConfig option \<Rightarrow> bool \<Rightarrow> derp_state \<Rightarrow> string \<times> derp_state" where
  "startDERP kstr e c rt automatic d =
     (case begin_serving kstr e c rt automatic d of
        (Inl err, d) \<Rightarrow> (err, d)
      | (Inr _, d) \<Rightarrow> (de_serveError e, end_serving e c d))"

text \<open>\<open>main\<close> after its decisions: what it makes and gives to \<open>startDERP\<close>. The endpoint manager runs already; \<open>external\<close> is its state after any steps
  it has taken.\<close>

definition main_state :: "Config \<Rightarrow> Manager \<Rightarrow> node_file \<Rightarrow> traffic_file \<Rightarrow> derp_state" where
  "main_state c external node file =
     \<lparr>dp_node = node, dp_runtime = Some \<lparr>rs_running = False, rs_err = []\<rparr>,
      dp_persister = (if c_TrafficPersist c then Some (traffic_New True (c_TrafficPath c)) else None), dp_file = file,
      dp_external = Some external\<rparr>"

definition main_serving ::
    "(node_public \<Rightarrow> string) \<Rightarrow> derp_env \<Rightarrow> startup \<Rightarrow> Manager \<Rightarrow> node_file \<Rightarrow> traffic_file \<Rightarrow> (Config \<times> (string + derp_serving) \<times> derp_state) option" where
  "main_serving kstr e st external node file =
     (case st of
        Serve c \<Rightarrow> Some (c, begin_serving kstr e c (NewRuntime (c_Verify c)) (c_TLSMode c = ''self_signed'') (main_state c external node file))
      | _ \<Rightarrow> None)"

section \<open>The certificate shown\<close>

text \<open>The certificate of a handshake, with the certificate of the relay's own data appended to a copy of the chain.\<close>

definition with_meta :: "leaf \<Rightarrow> string + certificate \<Rightarrow> string + certificate" where
  "with_meta meta r =
     (case r of Inl err \<Rightarrow> Inl err | Inr certificate \<Rightarrow> Inr (certificate\<lparr>tc_Certificate := tc_Certificate certificate @ [meta]\<rparr>))"

definition shown_certificate :: "transport \<Rightarrow> cert_manager \<Rightarrow> string + certificate \<Rightarrow> leaf \<Rightarrow> (string + certificate) option" where
  "shown_certificate tr automaticTLS keyPair meta =
     (case tr of
        AutomaticTLS \<Rightarrow> Some (with_meta meta (GetCertificate automaticTLS))
      | FileTLS \<Rightarrow> Some (with_meta meta keyPair)
      | PlainHTTP \<Rightarrow> None)"

text \<open>\<open>ModifyTLSConfigToAddMetaCert\<close>, of the callback that is there: a nil callback panics, and a nil certificate is passed on.\<close>

definition ModifyTLSConfigToAddMetaCert :: "leaf \<Rightarrow> (string + certificate option) option \<Rightarrow> (string + certificate option) option" where
  "ModifyTLSConfigToAddMetaCert meta getCert =
     map_option (\<lambda>r. case r of Inl err \<Rightarrow> Inl err | Inr None \<Rightarrow> Inr None
       | Inr (Some cert) \<Rightarrow> Inr (Some (cert\<lparr>tc_Certificate := tc_Certificate cert @ [meta]\<rparr>))) getCert"

section \<open>The operations server\<close>

text \<open>\<open>startOps\<close>; \<open>serve\<close> gives the error with which serving ends and the file system of that time.\<close>

definition startOps ::
    "unix_env \<Rightarrow> Config \<Rightarrow> (unix_fs \<Rightarrow> string \<times> unix_fs) \<Rightarrow> runtimeState option \<Rightarrow> unix_fs \<Rightarrow> string \<times> runtimeState option \<times> unix_fs" where
  "startOps e c serve st fs =
     (let listenAddr = (if c_OpsSocket c = [] then defaultOpsSocket else c_OpsSocket c)
      in case ListenUnix e listenAddr fs of
           (Inl err, fs) \<Rightarrow> (err, map_option (setError (Some err)) st, fs)
         | (Inr listener, fs) \<Rightarrow>
             (let (err, fs) = serve fs; (_, _, fs) = listener_Close e listener fs in (err, st, fs)))"

text \<open>\<open>main\<close> starts \<open>startOps\<close> in a goroutine of its own before \<open>startDERP\<close> sets \<open>getServerMetrics\<close>, and \<open>startOps\<close> passes the value
  the variable has when it makes the mux.\<close>

definition mux_metrics :: "bool \<Rightarrow> metrics \<Rightarrow> metrics option" where
  "mux_metrics opsFirst m = (if opsFirst then None else Some m)"

section \<open>Admission\<close>

lemma normalize_verify [simp]:
  "vc_Enabled (normalizeVerifyConfig cfg) = vc_Enabled cfg" "vc_URLsEnabled (normalizeVerifyConfig cfg) = vc_URLsEnabled cfg"
  "vc_TailscaledEnabled (normalizeVerifyConfig cfg) = vc_TailscaledEnabled cfg" "vc_APIEnabled (normalizeVerifyConfig cfg) = vc_APIEnabled cfg"
  "vc_URLs (normalizeVerifyConfig cfg) = vc_URLs cfg"
  by (simp_all add: normalizeVerifyConfig_def Let_def)

text \<open>Who may connect, by the configuration.\<close>

definition shows_mesh_key :: "derp_env \<Rightarrow> Config \<Rightarrow> ClientInfo \<Rightarrow> bool" where
  "shows_mesh_key e c info \<longleftrightarrow>
     c_Mesh c \<and> \<not> mesh_zero (ci_MeshKey info) \<and> de_ParseDERPMesh e (c_MeshKey c) = Inr (ci_MeshKey info)"

definition admissible ::
    "(node_public \<Rightarrow> string) \<Rightarrow> derp_env \<Rightarrow> Config \<Rightarrow> verify_world \<Rightarrow> deviceStore \<Rightarrow> node_public \<Rightarrow> ClientInfo \<Rightarrow> bool" where
  "admissible kstr e c vw store k info \<longleftrightarrow>
     (let v = c_Verify c
      in shows_mesh_key e c info \<or> \<not> vc_Enabled v \<or>
         vc_URLsEnabled v \<and> (\<exists>u \<in> set (vc_URLs v). \<exists>st. vw_ask vw u (kstr k) = UrlStatus st \<and> 200 \<le> st \<and> st < 300) \<or>
         vc_TailscaledEnabled v \<and> vw_whois vw k \<or>
         vc_APIEnabled v \<and> (\<exists>name. admits_from name (kstr k) (vw_now vw) store))"

lemma begin_serving_Inr:
  assumes "begin_serving kstr e c rt automatic d = (Inr sv, d')"
  obtains f server d1 ipv4 ipv6 where "loadOrCreateNodeKey (de_codec e) (de_node e) (dp_node d) = (Inr (dv_privateKey sv), f)"
    "(if c_Mesh c then SetMeshKey (de_ParseDERPMesh e) (c_MeshKey c) new_verify_server else Inr new_verify_server) = Inr server"
    "load_traffic e (d\<lparr>dp_node := f\<rparr>) = (None, d1)" "open_listeners e c = Inr (dv_derpPort sv, dv_stunPort sv, ipv4, ipv6)"
    "dv_verify sv = (\<lambda>vw store. derp_verifier kstr rt c vw store server)" "dv_transport sv = derp_transport automatic c"
    "d' = note_running True (d1\<lparr>dp_external := map_option (SetLocalBindings (dv_derpPort sv) (dv_stunPort sv) ipv4 ipv6) (dp_external d1)\<rparr>)"
  using assms by (auto simp: begin_serving_def Let_def split: prod.splits sum.splits option.splits)

text \<open>The server that \<open>startDERP\<close> sets up: its mesh key, and no other check than the verifier.\<close>

lemma derp_server_parts:
  assumes "(if c_Mesh c then SetMeshKey (de_ParseDERPMesh e) (c_MeshKey c) new_verify_server else Inr new_verify_server) = Inr server"
  shows "isMeshPeer (derp_verifier kstr rt c vw store server) (Some info) \<longleftrightarrow> shows_mesh_key e c info"
    "\<not> vs_verifyClientsLocalTailscaled (derp_verifier kstr rt c vw store server)"
    "vs_verifyClientsURL (derp_verifier kstr rt c vw store server) = []"
    "vs_verifyClientFunc (derp_verifier kstr (NewRuntime (c_Verify c)) c vw store server) =
       (if vc_Enabled (c_Verify c) then Some (VerifyClientFunc kstr vw (Some (normalizeVerifyConfig (c_Verify c), store))) else None)"
proof -
  have s: "vs_meshKey (derp_verifier kstr rt c vw store server) = vs_meshKey server"
    "vs_verifyClientsLocalTailscaled (derp_verifier kstr rt c vw store server) = vs_verifyClientsLocalTailscaled server"
    "vs_verifyClientsURL (derp_verifier kstr rt c vw store server) = vs_verifyClientsURL server"
    by (auto simp: derp_verifier_def SetVerifyClientFunc_def split: option.split)
  from assms have server: "c_Mesh c \<and> (\<exists>k. de_ParseDERPMesh e (c_MeshKey c) = Inr k \<and> server = new_verify_server\<lparr>vs_meshKey := k\<rparr>) \<or>
      \<not> c_Mesh c \<and> server = new_verify_server"
    by (auto simp: SetMeshKey_def split: if_splits sum.splits)
  have zero: "mesh_zero (vs_meshKey new_verify_server)" by (simp add: new_verify_server_def mesh_zero_def list_all_iff)
  show "isMeshPeer (derp_verifier kstr rt c vw store server) (Some info) \<longleftrightarrow> shows_mesh_key e c info"
    using server zero by (auto simp: isMeshPeer_def s shows_mesh_key_def)
  show "\<not> vs_verifyClientsLocalTailscaled (derp_verifier kstr rt c vw store server)"
    "vs_verifyClientsURL (derp_verifier kstr rt c vw store server) = []"
    using server by (auto simp: s new_verify_server_def)
  show "vs_verifyClientFunc (derp_verifier kstr (NewRuntime (c_Verify c)) c vw store server) =
       (if vc_Enabled (c_Verify c) then Some (VerifyClientFunc kstr vw (Some (normalizeVerifyConfig (c_Verify c), store))) else None)"
    using server by (auto simp: derp_verifier_def NewRuntime_def SetVerifyClientFunc_def new_verify_server_def)
qed

lemma started_verify:
  assumes "begin_serving kstr e c (NewRuntime (c_Verify c)) automatic d = (Inr sv, d')"
  shows "verifyClient (dv_verify sv vw store) who ans k (Some info) ip = None \<longleftrightarrow> admissible kstr e c vw store k info"
proof -
  obtain server where server:
    "(if c_Mesh c then SetMeshKey (de_ParseDERPMesh e) (c_MeshKey c) new_verify_server else Inr new_verify_server) = Inr server"
    and v: "dv_verify sv vw store = derp_verifier kstr (NewRuntime (c_Verify c)) c vw store server"
    using assms by (rule begin_serving_Inr) auto
  let ?s = "derp_verifier kstr (NewRuntime (c_Verify c)) c vw store server"
  note parts = derp_server_parts [OF server, where kstr = kstr and vw = vw and store = store]
  show ?thesis
  proof (cases "isMeshPeer ?s (Some info) \<or> \<not> vc_Enabled (c_Verify c)")
    case True
    with parts(4) parts(1-3) [of "NewRuntime (c_Verify c)"] show ?thesis
      by (auto simp: v admissible_def Let_def verifyClient_def tailscaled_error_def controller_result_def)
  next
    case False
    then have f: "vs_verifyClientFunc ?s = Some (VerifyClientFunc kstr vw (Some (normalizeVerifyConfig (c_Verify c), store)))"
      using parts(4) by simp
    show ?thesis unfolding v
      using verifier_or_composition [OF f parts(2,3), of "Some info" who ans k ip] False parts(1)
      by (simp add: admissible_def Let_def)
  qed
qed

text \<open>From the command line to the registration of a client (C5): in a relay that \<open>main\<close> has put into service, a connection whose handshake is complete is
  registered exactly when it shows the configured mesh key, or verification is off, or one of the mechanisms that the configuration enables
  accepts its key at that moment; no answer of tailscaled or of an admission controller that is not configured matters.\<close>

theorem started_relay_admits:
  assumes "main_serving kstr e (main_startup configPath openFile newCert keyPair args) external node file = Some (c, Inr sv, d)"
    and "ae_serverKeySent ae" "recvClientKey h (ae_stream ae) = Inr (key, info, br)"
  shows "(\<exists>s'. accept_register kstr h (dv_verify sv vw store) ae p s = Inr (s', br)) \<longleftrightarrow> admissible kstr e c vw store key info"
proof -
  have "begin_serving kstr e c (NewRuntime (c_Verify c)) (c_TLSMode c = ''self_signed'') (main_state c external node file) = (Inr sv, d)"
    using assms(1) by (simp add: main_serving_def split: startup.splits)
  note verify = started_verify [OF this, of vw store "ae_whois ae" "ae_admit ae" key info "addr_of (ae_remote ae)"]
  show ?thesis
    using assms(2,3) verify by (cases "verifyClient (dv_verify sv vw store) (ae_whois ae) (ae_admit ae) key (Some info) (addr_of (ae_remote ae))")
      (simp_all add: accept_register_def)
qed

section \<open>Readiness\<close>

lemma addressPort_positive: "addressPort text = Inr port \<Longrightarrow> port \<noteq> 0"
proof -
  assume "addressPort text = Inr port"
  then obtain n where n: "0 < n" "n < 65536" "port = word_of_nat n"
    by (auto simp: addressPort_def ParseUint_def split: sum.splits option.splits if_splits)
  from n(2) have "unat (word_of_nat n :: 16 word) = n" by (simp add: unat_of_nat)
  with n show "port \<noteq> 0" by auto
qed

lemma open_listeners_ports:
  "open_listeners e c = Inr (derpPort, stunPort, ipv4, ipv6) \<Longrightarrow> derpPort \<noteq> 0 \<and> (stunPort \<noteq> 0 \<longleftrightarrow> c_STUN c)"
  by (auto simp: open_listeners_def Let_def split: sum.splits prod.splits if_splits dest: addressPort_positive)

lemma load_traffic_frame:
  "load_traffic e d = (None, d') \<Longrightarrow> dp_node d' = dp_node d \<and> dp_external d' = dp_external d \<and> dp_runtime d' = dp_runtime d \<and> dp_file d' = dp_file d"
  by (auto simp: load_traffic_def split: option.splits prod.splits)


section \<open>An example\<close>

text \<open>A relay started from the command line alone, with a mesh key and a URL that verifies clients.\<close>

definition demo_args :: "string list" where
  "demo_args = [''-enabled'', ''-mesh'', ''-mesh-key=secret'', ''-verify-client-urls=http://ok'', ''-tls-self-signed'']"

definition demo_relay :: Config where
  "demo_relay = default_config\<lparr>c_Enabled := True, c_Mesh := True, c_MeshKey := ''secret'', c_TLSMode := ''self_signed'',
     c_External := (c_External default_config)\<lparr>ec_STUNEnabled := True, ec_TLSConfigured := True\<rparr>,
     c_Verify := (c_Verify default_config)\<lparr>vc_Enabled := True, vc_URLsEnabled := True, vc_URLs := [''http://ok'']\<rparr>\<rparr>"

lemma demo_flags:
  "newFlagSet [] demo_args = Inr \<lparr>fs_flags = (default_flags [])\<lparr>cf_Enabled := True, cf_Mesh := True, cf_MeshKey := ''secret'',
       cf_VerifyURLs := ''http://ok'', cf_TLSSelfSigned := True\<rparr>,
     fs_actual = [''tls-self-signed'', ''verify-client-urls'', ''mesh-key'', ''mesh'', ''enabled'']\<rparr>"
  unfolding demo_args_def by code_simp

lemma demo_relay_serves: "main_startup [] (\<lambda>_. Inl ENotExist) (\<lambda>_ _. None) (\<lambda>_ _. Some ''unused'') demo_args = Serve demo_relay"
proof -
  have texts: "TrimSpace ''secret'' = ''secret''" "comma_parts (\<lambda>p. p) [''http://ok''] = [''http://ok'']" "schemaOutputPath demo_args = []"
    unfolding demo_args_def by code_simp+
  have path: "cf_ConfigPath ((default_flags [])\<lparr>cf_Enabled := True, cf_Mesh := True, cf_MeshKey := ''secret'',
       cf_VerifyURLs := ''http://ok'', cf_TLSSelfSigned := True\<rparr>) = []" by (simp add: default_flags_def)
  have "buildConfig [] demo_args (\<lambda>_. Inl ENotExist) = Inr demo_relay"
    by (simp add: buildConfig_def demo_flags path from_file_def applyFlagOverrides_def flag_val_def flag_text_def flag_urls_def
        boolFlagProvided_def finish_config_def derive_external_def on_external_def tls_configured_def demo_relay_def
        default_config_def demo_texts texts defaultTrafficInterval_def Let_def)
  moreover have "validateConfig demo_relay = Inr demo_relay"
    by (simp add: validateConfig_Inr fill_defaults_def config_problems_def on_external_def demo_relay_def default_config_def
        demo_bindings demo_external_ports demo_texts method_problem_def allowed_methods_def Let_def)
  moreover have "c_Enabled demo_relay" "c_TLSMode demo_relay = ''self_signed''" by (simp_all add: demo_relay_def)
  ultimately show ?thesis by (simp add: main_startup_def texts)
qed

definition demo_derp_env :: derp_env where
  "demo_derp_env =
     \<lparr>de_codec = demo_codec, de_node = demo_node_env [1] None,
      de_ParseDERPMesh = (\<lambda>v. if v = ''secret'' then Inr [9] else Inl ''invalid mesh key''), de_session = zero_stats,
      de_trafficText = (\<lambda>_. ''traffic''), de_listen = (\<lambda>_. Inr (''[::]:3478'', TCPAddr (replicate 16 0))),
      de_stunListen = (\<lambda>_. Inr (''[::]:3478'', UDPAddr (replicate 16 0))), de_bindv6only = Some ''0'', de_saves = [],
      de_finalSave = (False, 1, zero_stats), de_cancelSave = None, de_serveError = ''closed''\<rparr>"

definition demo_manager :: Manager where
  "demo_manager = NewManager (normalized_config (c_External demo_relay))"

lemma demo_main_serving:
  "\<exists>sv d. main_serving (\<lambda>_. ''k'') demo_derp_env (Serve demo_relay) demo_manager NodeMissing NoFile = Some (demo_relay, Inr sv, d) \<and> dv_derpPort sv = 3478"
proof -
  have "SplitHostPort ''[::]:3478'' = Inr (''::'', ''3478'')" by code_simp
  then have port: "addressPort ''[::]:3478'' = Inr 3478" by (simp add: addressPort_def demo_ports)
  have key: "loadOrCreateNodeKey demo_codec (demo_node_env [1] None) NodeMissing = (Inr [1], NodeText (''privkey:01'' @ [CHR 0x0A]))"
    by (simp add: loadOrCreateNodeKey_def demo_codec_def demo_node_env_def)
  show ?thesis
    by (simp add: main_serving_def begin_serving_def demo_derp_env_def key SetMeshKey_def load_traffic_def main_state_def open_listeners_def
        port split_beta Let_def) (simp add: demo_relay_def default_config_def SetMeshKey_def)
qed

theorem started_relay_admits_witness:
  "\<exists>sv d s'. main_serving (\<lambda>_. ''k'') demo_derp_env (main_startup [] (\<lambda>_. Inl ENotExist) (\<lambda>_ _. None) (\<lambda>_ _. Some ''unused'') demo_args)
       demo_manager NodeMissing NoFile = Some (demo_relay, Inr sv, d) \<and>
     accept_register (\<lambda>_. ''k'') demo_hs (dv_verify sv demo_vw (newDeviceStore demo_verify)) demo_accept 9 (sy_srv (demo_state lastWriterIsActive)) =
       Inr (s', [2, 9]) \<and>
     (\<forall>s'. accept_register (\<lambda>_. ''k'') demo_hs (dv_verify sv (demo_vw\<lparr>vw_ask := \<lambda>_ _. UrlStatus 403\<rparr>) (newDeviceStore demo_verify))
       demo_accept 9 (sy_srv (demo_state lastWriterIsActive)) \<noteq> Inr (s', [2, 9]))"
proof -
  obtain sv d where sv: "main_serving (\<lambda>_. ''k'') demo_derp_env (main_startup [] (\<lambda>_. Inl ENotExist) (\<lambda>_ _. None) (\<lambda>_ _. Some ''unused'') demo_args)
       demo_manager NodeMissing NoFile = Some (demo_relay, Inr sv, d)" using demo_main_serving demo_relay_serves by auto
  have r: "recvClientKey demo_hs (ae_stream demo_accept) = Inr ([7], \<lparr>ci_MeshKey = [0], ci_IsProber = False\<rparr>, [2, 9])"
    by (simp add: recvClientKey_def demo_hs_def demo_accept_def maxClientInfo_def read_full_def)
  have sent: "ae_serverKeySent demo_accept" by (simp add: demo_accept_def)
  have v: "c_Verify demo_relay = (c_Verify default_config)\<lparr>vc_Enabled := True, vc_URLsEnabled := True, vc_URLs := [''http://ok'']\<rparr>"
    by (simp add: demo_relay_def)
  have yes: "admissible (\<lambda>_. ''k'') demo_derp_env demo_relay demo_vw (newDeviceStore demo_verify) [7] \<lparr>ci_MeshKey = [0], ci_IsProber = False\<rparr>"
    by (simp add: admissible_def v demo_vw_def default_config_def Let_def)
  have no: "\<not> admissible (\<lambda>_. ''k'') demo_derp_env demo_relay (demo_vw\<lparr>vw_ask := \<lambda>_ _. UrlStatus 403\<rparr>) (newDeviceStore demo_verify) [7]
      \<lparr>ci_MeshKey = [0], ci_IsProber = False\<rparr>"
    by (simp add: admissible_def v demo_vw_def default_config_def shows_mesh_key_def mesh_zero_def Let_def)
  note admits = started_relay_admits [OF sv sent r, where p = 9 and s = "sy_srv (demo_state lastWriterIsActive)" and store = "newDeviceStore demo_verify"]
  from admits [of demo_vw] admits [of "demo_vw\<lparr>vw_ask := \<lambda>_ _. UrlStatus 403\<rparr>"] yes no sv show ?thesis by blast
qed


section \<open>The metrics of the status page\<close>

text \<open>When the goroutine of \<open>startOps\<close> makes the mux first, the status page shows no clients, accepts or bytes for the life of the process.\<close>

lemma early_mux_is_blind:
  "let status = StatusFromConfig cfg rt (mux_metrics True m) tf
   in op_Clients status = 0 \<and> op_Accepts status = 0 \<and> op_BytesRecv status = 0 \<and> op_BytesSent status = 0"
  by (simp add: StatusFromConfig_def mux_metrics_def Let_def split: option.split)

end
