(* ===== verification/Spec2Isabelle.thy ===== *)
theory Spec2Isabelle
  imports RateLimit DerpPolicy Frames DeviceSync Admission SendLoop DerpMapSync EndpointSafety EndpointValidator Traffic Peers
    ConfigSafety UciTyping CertSafety OpsSafety UnixSocket Routes Lifecycle Upgrade Metrics DebugTraffic BufferedWriter Startup
begin

text \<open>
  A verification of \<^verbatim>\<open>tailscale-derp\<close>, a DERP relay with client admission, automatic port mapping and publication of
  its own address in the DERP maps of tailnets.

  \<^bold>\<open>The program and its theories.\<close> Paths are below \<^verbatim>\<open>src/\<close>.

  \<^item> \<open>Prelude\<close>: types, durations, sums over finite maps, words and big-endian numbers, list lemmas. \<open>GoStrings\<close>, \<open>Netip\<close>,
    \<open>NetipOrder\<close>, \<open>NetipText\<close>, \<open>ParseAddr\<close>: what the code uses of Go's \<^verbatim>\<open>strings\<close>, \<^verbatim>\<open>strconv\<close> and \<^verbatim>\<open>net/netip\<close>, on ASCII strings.
  \<^item> \<open>Tracker\<close> (\<^verbatim>\<open>internal/tracker\<close>): per-peer connections and 64-bit counters; the two maps refine one map of connections.
  \<^item> \<open>ClientSet\<close>, \<open>Forwarder\<close> (\<^verbatim>\<open>internal/derpserver/derpserver.go\<close>): the connections of one key, and the forwarders of a
    key in the mesh with their 8-bit numbers, which refine the list of forwarders in the order of registration.
  \<^item> \<open>DerpServer\<close>: the record \<open>Server\<close> and the critical sections of \<open>Server.mu\<close> (\<open>registerClient\<close>, \<open>unregisterClient\<close>,
    \<open>noteClientActivity\<close>, watchers, mesh entries, preferences, rate limits). \<open>DerpInvariant\<close>: its invariant, kept by every
    section. \<open>DerpSystem\<close>: connections that run these sections in any order, as an inductive reachability; no panic, exact
    gauges, correct routing. \<open>MeshView\<close>: what mesh watchers are told refines the set of connected keys. \<open>DerpPolicy\<close>,
    \<open>RateLimit\<close>: duplicate policies, peer-gone notifications and rate limits in reachable states.
  \<^item> \<open>Frames\<close>: the read loop of a connection (\<open>sclient.run\<close>) on the bytes of its stream and all frame handlers; any stream
    is served without panic, the loop stays in step with the frames, every packet is accounted for. \<open>SendLoop\<close>: the
    writer of a connection and the bytes of its frames. \<open>Admission\<close>: \<open>Server.accept\<close> from the key frame to the cleanup, with
    \<open>verifyClient\<close> and the verifier of \<^verbatim>\<open>internal/ops\<close>. \<open>BufferedWriter\<close>: \<open>lazyBufioWriter\<close>, whose output is what was written, in
    order, up to the first failure. \<open>Lifecycle\<close>: \<open>Server.Accept\<close> and \<open>Server.Close\<close>, interleaved.
  \<^item> \<open>Upgrade\<close> (\<^verbatim>\<open>handler.go\<close>, \<^verbatim>\<open>websocket.go\<close>): the HTTP side of the relay, up to the connection that is handed to \<open>Accept\<close>. \<open>Metrics\<close>
    (\<open>ExpVar\<close>, \<^verbatim>\<open>derpserver_linux.go\<close>): the published numbers and the status page made of them. \<open>DebugTraffic\<close> (\<open>parseSSOutput\<close>,
    \<open>ServeDebugTraffic\<close>): the debug page of traffic.
  \<^item> \<open>Devices\<close>, \<open>DeviceSync\<close> (\<^verbatim>\<open>internal/ops/devices.go\<close>, \<^verbatim>\<open>device_management.go\<close>, \<^verbatim>\<open>tailnet_api.go\<close>): the cache of device
    lists by tailnet, its refresh and expiry, the changes through the API, the merged snapshot.
  \<^item> \<open>DerpMap\<close>, \<open>DerpMapSync\<close> (\<^verbatim>\<open>internal/ops/derpmap.go\<close>): the relay's node in a tailnet policy, as a patch of the HuJSON
    syntax tree, and the update with ETags and retries.
  \<^item> \<open>Portmap\<close>, \<open>Pcp\<close>, \<open>PortmapSafety\<close> (\<^verbatim>\<open>internal/portmap\<close>): PCP on bytes, NAT-PMP and UPnP, the choice between them, the
    validation of mappings. Locales \<open>acquirer\<close>, \<open>two_acquirers\<close>, \<open>leak_free_backend\<close> and \<open>port_client\<close> state what each layer
    owes the next; they are interpreted on all three backends and on the client of \<open>NewClient\<close>.
  \<^item> \<open>EndpointManager\<close>, \<open>EndpointSafety\<close>, \<open>EndpointValidator\<close> (\<^verbatim>\<open>internal/endpoint\<close>): the manager that discovers, validates,
    publishes and withdraws the endpoint, composed with the port mapping client, and the validator.
  \<^item> \<open>Traffic\<close> (\<^verbatim>\<open>internal/traffic\<close>): totals that survive restarts. \<open>Peers\<close> (\<^verbatim>\<open>internal/ops/peers.go\<close>): identities of
    connected peers with background lookups.
  \<^item> \<open>Routes\<close> (\<^verbatim>\<open>internal/portmap/network.go\<close>): the default route from the text of the route table, which is the first of least
    metric, and the addresses of interfaces.
  \<^item> \<open>Cert\<close>, \<open>CertSafety\<close> (\<^verbatim>\<open>internal/cert/manager.go\<close>): the self-signed certificate and its state directory, through any starts,
    updates and failures: one key, names that cover the endpoint, recovery.
  \<^item> \<open>Management\<close>, \<open>OpsServer\<close>, \<open>OpsSafety\<close> (\<^verbatim>\<open>internal/ops\<close>: \<^verbatim>\<open>device_management.go\<close>, \<^verbatim>\<open>tailnet_api.go\<close>, \<^verbatim>\<open>ops.go\<close>;
    \<^verbatim>\<open>internal/service\<close>): the handlers and the routes of the operations server over the stores of the other theories. The
    locale \<open>mgmt_handler\<close> is the contract of a handler and \<open>device_handler\<close> that of one that leaves the policies alone; they are
    interpreted on every handler. \<open>UnixSocket\<close> (\<^verbatim>\<open>internal/ops/unix.go\<close>): its socket on a file system.
  \<^item> \<open>UciConfig\<close>, \<open>UciRoundTrip\<close>, \<open>ConfigFile\<close>, \<open>ConfigFormats\<close>, \<open>Flags\<close>, \<open>Config\<close>, \<open>ConfigSafety\<close> (\<^verbatim>\<open>cmd/tailscale-derp\<close>): the UCI
    parser, which reads back what is written out; the JSON and YAML configuration, which apply like a UCI file; the flags of Go's
    \<^verbatim>\<open>flag\<close> package; the merged configuration, its validation, and the decisions \<open>main\<close> takes before it serves. \<open>UciTyping\<close>: the parser
    gives well-formed configurations only.
  \<^item> \<open>NodeKey\<close>, \<open>Startup\<close> (\<^verbatim>\<open>cmd/tailscale-derp/main.go\<close>): the key file through any starts; \<open>main\<close>, \<open>startDERP\<close> and \<open>startOps\<close>, which
    compose the configuration, the verifier, the certificate, the totals, the listeners and the endpoint manager into a relay that serves.

  \<^bold>\<open>How the code is read.\<close> Structs are records, enumerations and error kinds datatypes; integers that can overflow are
  words (counters 64 bits, forwarder numbers 8, ports 16), other integers \<^typ>\<open>int\<close>. Maps the code ranges over are finite
  maps, ranged over in the order of their keys where the result does not depend on it. A connection is named by its
  number; a panic (explicit, nil dereference, index out of range) is \<^term>\<open>None\<close>; an error is a value of the result. Times
  are nanoseconds; formatted times are the instants they denote, truncated to seconds where the format is. The state directory, the file system of
  the socket and the lists of API calls and commands are part of the state. Code outside
  the repository (Tailscale's keys and API clients, the crypto box, HuJSON, the token bucket, go-nat-pmp, goupnp) and
  the network are arguments: every theorem holds for all their answers, or under hypotheses that state their documented
  behaviour.

  \<^bold>\<open>Concurrency.\<close> Each critical section is one step and steps of different connections and goroutines interleave freely
  (\<open>DerpSystem.reachable\<close>, \<open>MeshView\<close>, \<open>Lifecycle.lc_steps\<close>, the interleavings of \<open>Peers\<close>, the saves of \<open>Traffic\<close> with old samples). The operations
  of the endpoint manager are serialised by \<open>opMu\<close>, those of the certificate manager by its mutex; requests to the operations server
  are taken one after the other.

  \<^bold>\<open>Loops and bounds.\<close> Loops are recursions with a termination proof; the only one bounded by time is the PCP exchange,
  whose measure is the time to its deadline, with at most five requests. The search for the name of an anonymous section ends since
  the names in use are finite. The read loop has the length of the stream as fuel, which is enough since every frame takes a byte, and is proved to
  end with it. Sequences of operations are lists of any length.

  \<^bold>\<open>What the theorems show.\<close> Safety: no reachable panic in the server, in the read loop and in the endpoint manager.
  Exactness: gauges, trackers, queues, totals and leases are accounted for one by one. Refinement: mesh watchers, forwarder
  entries, tracker maps. Equivalence: the scan of the route table with the first least route, JSON and YAML with UCI. Decisions: admission of clients, validity of mappings, validation of endpoints, publication and
  withdrawal. Round trips: packet frames, PCP responses, policy patches, stored totals, UCI documents. The configuration that is served never
  makes the endpoint manager panic and publishes only with a certificate; the certificate keeps its key and covers what is
  published; a failed request to the operations server changes nothing, and what it asks of the Tailscale API is checked. Some theorems show behaviour that
  contradicts the documentation or the evident intention of the code; the findings of the manifest name them.

  End to end: a relay started by \<open>main\<close> registers exactly the clients its configuration admits, serves with a certificate when its endpoint
  is published, keeps its key across starts, and its status page shows what the registry has.

  \<^bold>\<open>Not modelled.\<close> The parsers and printers of JSON, YAML, HuJSON, PEM and DER, which are those of libraries; the listeners and HTTP servers themselves;
  the making of the metadata certificate (\<open>initMetacert\<close>) and of the schema of the configuration; the labelled drop counters at zero
  (\<open>genDroppedCounters\<close>), the floating-point average of queue times and the estimate of unique senders, which is an argument; hooks for tests;
  logging; \<^verbatim>\<open>httpjson\<close>, which writes a response.
\<close>

end
